(* ===== verification/Prelude.thy ===== *)
theory Prelude
  imports Main "HOL-Library.Sublist"
begin

text \<open>
  The shared base of the development: Go's 64-bit integers, \<^verbatim>\<open>time.Time\<close> and
  \<^verbatim>\<open>time.Duration\<close>, the parts of \<^verbatim>\<open>strings\<close> and \<^verbatim>\<open>strconv\<close> that the program
  uses, and Go's wrapped errors, with the lemmas the component theories rest on.

  Go strings are byte strings, and so is \<^typ>\<open>string\<close> here. Go's \<^verbatim>\<open>int\<close> and
  \<^verbatim>\<open>int64\<close> are \<^typ>\<open>int\<close> with \<open>wrap64\<close> written out wherever an operation can
  leave the 64-bit range.
\<close>

named_theorems go_string \<open>characterisations of the modelled strings and strconv functions\<close>
named_theorems go_time \<open>unfolding of the modelled time package\<close>
named_theorems go_eval \<open>equations that evaluate the model on concrete inputs\<close>

type_synonym vmid = int
type_synonym duration = int
type_synonym time = int

section \<open>64-bit integers\<close>

definition min_int64 :: int where "min_int64 = - (2 ^ 63)"
definition max_int64 :: int where "max_int64 = 2 ^ 63 - 1"

definition in_int64 :: "int \<Rightarrow> bool" where
  "in_int64 x \<longleftrightarrow> - 9223372036854775808 \<le> x \<and> x \<le> 9223372036854775807"

definition wrap64 :: "int \<Rightarrow> int" where
  "wrap64 x = (x + 9223372036854775808) mod 18446744073709551616 - 9223372036854775808"

lemma wrap64_id [simp]: "in_int64 x \<Longrightarrow> wrap64 x = x"
  by (simp add: in_int64_def wrap64_def)

lemma wrap64_in_int64 [simp]: "in_int64 (wrap64 x)"
proof -
  have "0 \<le> (x + 9223372036854775808) mod 18446744073709551616"
    and "(x + 9223372036854775808) mod 18446744073709551616 < 18446744073709551616"
    by simp_all
  then show ?thesis by (simp add: in_int64_def wrap64_def)
qed

lemma wrap64_diff: "wrap64 (wrap64 x - y) = wrap64 (x - y)"
proof -
  have "(x + 9223372036854775808) mod 18446744073709551616 - y =
      (x + 9223372036854775808) mod 18446744073709551616 - 9223372036854775808 - y + 9223372036854775808"
    by simp
  moreover have "((x + 9223372036854775808) mod 18446744073709551616 - y) mod 18446744073709551616 =
      (x + 9223372036854775808 - y) mod 18446744073709551616"
    by (rule mod_diff_left_eq)
  ultimately show ?thesis by (simp add: wrap64_def algebra_simps)
qed

lemma wrap64_add: "wrap64 (wrap64 x + y) = wrap64 (x + y)"
  using wrap64_diff [of x "- y"] by simp

section \<open>Time\<close>

text \<open>
  A \<^verbatim>\<open>time.Time\<close> is its distance from Go's zero time (year 1, UTC) in nanoseconds, so the
  zero value is 0 and \<open>IsZero\<close> is \<open>t = 0\<close>. \<^verbatim>\<open>time.Unix\<close> and \<^verbatim>\<open>Time.Unix\<close> add and
  subtract the Unix epoch's distance in 64-bit seconds, and \<^verbatim>\<open>Time.Sub\<close> saturates at the
  64-bit nanosecond range, as the package documents.
\<close>

definition Second :: duration where "Second = 1000000000"
definition Minute :: duration where "Minute = 60000000000"
definition Hour :: duration where "Hour = 3600000000000"
definition Day :: duration where "Day = 86400000000000"

definition unixToInternal :: int where "unixToInternal = 62135596800"

definition time_Unix :: "int \<Rightarrow> time" where
  "time_Unix sec = wrap64 (sec + unixToInternal) * Second"

definition unix_of :: "time \<Rightarrow> int" where
  "unix_of t = wrap64 (t div Second - unixToInternal)"

definition Truncate :: "time \<Rightarrow> duration \<Rightarrow> time" where
  "Truncate t d = (if d \<le> 0 then t else t - t mod d)"

definition time_Sub :: "time \<Rightarrow> time \<Rightarrow> duration" where
  "time_Sub t u = max min_int64 (min max_int64 (t - u))"

lemmas duration_defs [go_time] = Second_def Minute_def Hour_def Day_def

lemma time_Sub_less_iff:
  assumes "in_int64 d" and "d < 9223372036854775807"
  shows "d < time_Sub t u \<longleftrightarrow> d < t - u"
  using assms by (auto simp: time_Sub_def min_int64_def max_int64_def in_int64_def)

lemma time_Sub_ge_iff:
  assumes "in_int64 d" and "- 9223372036854775808 < d"
  shows "d \<le> time_Sub t u \<longleftrightarrow> d \<le> t - u"
  using assms by (auto simp: time_Sub_def min_int64_def max_int64_def in_int64_def)

text \<open>Seconds survive the trip through \<^verbatim>\<open>time.Unix\<close> and back, even where the sum wraps.\<close>

lemma unix_of_time_Unix: "in_int64 sec \<Longrightarrow> unix_of (time_Unix sec) = sec"
  by (simp add: unix_of_def time_Unix_def Second_def wrap64_diff)

section \<open>Strings\<close>

fun HasPrefix :: "string \<Rightarrow> string \<Rightarrow> bool" where
  "HasPrefix s [] = True"
| "HasPrefix [] (p # ps) = False"
| "HasPrefix (c # s) (p # ps) = (c = p \<and> HasPrefix s ps)"

lemma HasPrefix_prefix [go_string]: "HasPrefix s p \<longleftrightarrow> prefix p s"
  by (induction s p rule: HasPrefix.induct) auto

lemma HasPrefix_append [simp]: "HasPrefix (p @ s) p"
  by (simp add: HasPrefix_prefix)

definition CutPrefix :: "string \<Rightarrow> string \<Rightarrow> string option" where
  "CutPrefix s p = (if HasPrefix s p then Some (drop (length p) s) else None)"

definition TrimPrefix :: "string \<Rightarrow> string \<Rightarrow> string" where
  "TrimPrefix s p = (if HasPrefix s p then drop (length p) s else s)"

lemma CutPrefix_append [simp]: "CutPrefix (p @ s) p = Some s"
  by (simp add: CutPrefix_def)

lemma TrimPrefix_append [simp]: "TrimPrefix (p @ s) p = s"
  by (simp add: TrimPrefix_def)

lemma CutPrefix_Some_iff [go_string]: "CutPrefix s p = Some v \<longleftrightarrow> s = p @ v"
  by (auto simp: CutPrefix_def HasPrefix_prefix prefix_def)

fun HasSuffix :: "string \<Rightarrow> string \<Rightarrow> bool" where
  "HasSuffix s p = HasPrefix (rev s) (rev p)"

definition TrimSuffix :: "string \<Rightarrow> string \<Rightarrow> string" where
  "TrimSuffix s p = (if HasSuffix s p then take (length s - length p) s else s)"

fun Contains_str :: "string \<Rightarrow> string \<Rightarrow> bool" where
  "Contains_str [] p = (p = [])"
| "Contains_str (c # s) p = (HasPrefix (c # s) p \<or> Contains_str s p)"

lemma Contains_str_sublist [go_string]: "Contains_str s p \<longleftrightarrow> sublist p s"
proof (induction s)
  case (Cons c s)
  have "sublist p (c # s) \<longleftrightarrow> prefix p (c # s) \<or> sublist p s"
    by (rule sublist_Cons_right)
  with Cons show ?case by (simp only: Contains_str.simps HasPrefix_prefix)
qed simp

text \<open>\<^verbatim>\<open>strings.Split\<close> with a one-byte separator.\<close>

fun Split :: "char \<Rightarrow> string \<Rightarrow> string list" where
  "Split sep [] = [[]]"
| "Split sep (c # s) =
     (if c = sep then [] # Split sep s
      else (case Split sep s of [] \<Rightarrow> [[c]] | w # ws \<Rightarrow> (c # w) # ws))"

fun Join :: "string list \<Rightarrow> string \<Rightarrow> string" where
  "Join [] sep = []"
| "Join [x] sep = x"
| "Join (x # xs) sep = x @ sep @ Join xs sep"

lemma Split_not_Nil [simp]: "Split sep s \<noteq> []"
  by (induction s) (auto split: list.splits)

lemma Split_no_sep: "sep \<notin> set s \<Longrightarrow> Split sep s = [s]"
  by (induction s) auto

lemma Split_append_sep: "sep \<notin> set s \<Longrightarrow> Split sep (s @ sep # t) = s # Split sep t"
  by (induction s) auto

lemma Split_Join:
  assumes "xs \<noteq> []" and "\<forall>x\<in>set xs. sep \<notin> set x"
  shows "Split sep (Join xs [sep]) = xs"
  using assms
proof (induction xs "[sep]" rule: Join.induct)
  case (3 x y ys)
  then show ?case by (simp add: Split_append_sep)
qed (auto simp: Split_no_sep)

text \<open>Every piece of a split is free of the separator, and joining the pieces gives the string back.\<close>

lemma Split_pieces: "w \<in> set (Split sep s) \<Longrightarrow> sep \<notin> set w"
  by (induction s arbitrary: w) (auto split: list.splits if_splits)

lemma Join_Split: "Join (Split sep s) [sep] = s"
proof (induction s)
  case (Cons c s)
  obtain w ws where w: "Split sep s = w # ws" by (cases "Split sep s") auto
  with Cons show ?case by (cases ws) auto
qed simp

text \<open>\<^verbatim>\<open>strings.FieldsFunc\<close>: the maximal runs of bytes that \<open>f\<close> rejects.\<close>

fun fields_acc :: "(char \<Rightarrow> bool) \<Rightarrow> string \<Rightarrow> string \<Rightarrow> string list" where
  "fields_acc f acc [] = (if acc = [] then [] else [rev acc])"
| "fields_acc f acc (c # s) =
     (if f c then (if acc = [] then fields_acc f [] s else rev acc # fields_acc f [] s)
      else fields_acc f (c # acc) s)"

definition FieldsFunc :: "string \<Rightarrow> (char \<Rightarrow> bool) \<Rightarrow> string list" where
  "FieldsFunc s f = fields_acc f [] s"

lemma fields_acc_word:
  assumes "\<forall>c\<in>set w. \<not> f c"
  shows "fields_acc f acc (w @ s) = fields_acc f (rev w @ acc) s"
  using assms by (induction w arbitrary: acc) auto

lemma FieldsFunc_Join:
  assumes "f sep" and "\<forall>w\<in>set ws. w \<noteq> [] \<and> (\<forall>c\<in>set w. \<not> f c)"
  shows "FieldsFunc (Join ws [sep]) f = ws"
  unfolding FieldsFunc_def using assms(2)
proof (induction ws "[sep]" rule: Join.induct)
  case (2 x)
  then show ?case using fields_acc_word [of x f "[]" "[]"] by simp
next
  case (3 x y ys)
  then show ?case
    using fields_acc_word [of x f "[]" "sep # Join (y # ys) [sep]"] assms(1) by simp
qed simp

lemma fields_acc_clean:
  "w \<in> set (fields_acc f acc s) \<Longrightarrow> \<forall>c\<in>set acc. \<not> f c \<Longrightarrow> w \<noteq> [] \<and> (\<forall>c\<in>set w. \<not> f c)"
proof (induction s arbitrary: acc w)
  case (Cons c s)
  show ?case
  proof (cases "f c")
    case True
    with Cons.prems have "w = rev acc \<and> acc \<noteq> [] \<or> w \<in> set (fields_acc f [] s)"
      by (auto split: if_splits)
    with Cons.prems(2) Cons.IH [of w "[]"] show ?thesis by auto
  next
    case False
    with Cons.prems have "w \<in> set (fields_acc f (c # acc) s)" and "\<forall>d\<in>set (c # acc). \<not> f d"
      by auto
    then show ?thesis by (rule Cons.IH)
  qed
qed (auto split: if_splits)

lemma FieldsFunc_clean: "w \<in> set (FieldsFunc s f) \<Longrightarrow> w \<noteq> [] \<and> (\<forall>c\<in>set w. \<not> f c)"
  using fields_acc_clean [of w f "[]" s] by (simp add: FieldsFunc_def)

declare in_int64_def [go_eval] wrap64_def [go_eval] duration_defs [go_eval]
  unixToInternal_def [go_eval] time_Unix_def [go_eval] unix_of_def [go_eval] Truncate_def [go_eval]
  time_Sub_def [go_eval] min_int64_def [go_eval] max_int64_def [go_eval] CutPrefix_def [go_eval]
  TrimPrefix_def [go_eval] TrimSuffix_def [go_eval] FieldsFunc_def [go_eval]

section \<open>Transition systems\<close>

text \<open>
  The contract of a state machine: an invariant that holds at the start and that every step keeps.
  What it gives, the invariant in every reachable state, is proved once here.
\<close>

locale transition_system =
  fixes initial :: "'s \<Rightarrow> bool"
    and steps_to :: "'s \<Rightarrow> 's \<Rightarrow> bool"
    and invariant :: "'s \<Rightarrow> bool"
  assumes initially: "initial s \<Longrightarrow> invariant s"
    and preserved: "invariant s \<Longrightarrow> steps_to s t \<Longrightarrow> invariant t"
begin

lemma reachable_invariant:
  assumes "steps_to\<^sup>*\<^sup>* s t" and "initial s"
  shows "invariant t"
  using assms by (induction rule: rtranclp_induct) (auto intro: initially preserved)

end

end
