(* ===== verification/Strconv.thy ===== *)
theory Strconv
  imports Prelude
begin

text \<open>
  The parts of Go's \<^verbatim>\<open>strconv\<close> package the program uses: \<^verbatim>\<open>FormatInt\<close> and
  \<^verbatim>\<open>Itoa\<close>, \<^verbatim>\<open>ParseInt\<close> with base 10 and 64 bits, which is also \<^verbatim>\<open>Atoi\<close> on the
  program's 64-bit platforms, and the byte-wise \<^verbatim>\<open>strings.ToLower\<close> and
  \<^verbatim>\<open>strings.TrimSpace\<close>. The main facts are the round trip \<open>ParseInt_Itoa\<close> and the
  injectivity of \<open>FormatInt\<close> in every base the program uses.
\<close>

section \<open>Formatting integers\<close>

definition digit_char :: "nat \<Rightarrow> char" where
  "digit_char d = (if d mod 36 < 10 then char_of (48 + d mod 36) else char_of (87 + d mod 36))"

fun fmt_nat :: "nat \<Rightarrow> nat \<Rightarrow> string" where
  "fmt_nat b n =
     (if b < 2 \<or> n < b then [digit_char n] else fmt_nat b (n div b) @ [digit_char (n mod b)])"

declare fmt_nat.simps [simp del]

definition FormatInt :: "int \<Rightarrow> nat \<Rightarrow> string" where
  "FormatInt i b = (if i < 0 then CHR ''-'' # fmt_nat b (nat (- i)) else fmt_nat b (nat i))"

definition Itoa :: "int \<Rightarrow> string" where
  "Itoa i = FormatInt i 10"

section \<open>Parsing integers\<close>

definition digit_val :: "char \<Rightarrow> nat option" where
  "digit_val c =
     (let n = of_char c :: nat in
      if 48 \<le> n \<and> n \<le> 57 then Some (n - 48)
      else if 97 \<le> n \<and> n \<le> 122 then Some (n - 87) else None)"

definition is_digit :: "char \<Rightarrow> bool" where
  "is_digit c \<longleftrightarrow> 48 \<le> (of_char c :: nat) \<and> (of_char c :: nat) \<le> 57"

text \<open>The value of a digit string in base \<open>b\<close>; \<open>None\<close> at the first byte that is no digit of it.\<close>

fun digits_acc :: "nat \<Rightarrow> nat \<Rightarrow> string \<Rightarrow> nat option" where
  "digits_acc b acc [] = Some acc"
| "digits_acc b acc (c # cs) =
     (case digit_val c of
        None \<Rightarrow> None
      | Some d \<Rightarrow> if d < b then digits_acc b (acc * b + d) cs else None)"

definition parse_nat :: "string \<Rightarrow> nat option" where
  "parse_nat s = (if s = [] then None else digits_acc 10 0 s)"

definition ParseInt :: "string \<Rightarrow> int option" where
  "ParseInt s =
     (case s of
        [] \<Rightarrow> None
      | c # cs \<Rightarrow>
          if c = CHR ''-'' then
            (case parse_nat cs of
               None \<Rightarrow> None
             | Some n \<Rightarrow> if n \<le> 9223372036854775808 then Some (- int n) else None)
          else
            (case parse_nat (if c = CHR ''+'' then cs else s) of
               None \<Rightarrow> None
             | Some n \<Rightarrow> if n < 9223372036854775808 then Some (int n) else None))"

abbreviation Atoi :: "string \<Rightarrow> int option" where
  "Atoi \<equiv> ParseInt"

section \<open>Round trips\<close>

lemma of_char_digit_char:
  "d < 36 \<Longrightarrow> (of_char (digit_char d) :: nat) = (if d < 10 then 48 + d else 87 + d)"
  by (simp add: digit_char_def)

lemma digit_val_digit_char: "d < 36 \<Longrightarrow> digit_val (digit_char d) = Some d"
  by (simp add: digit_val_def of_char_digit_char Let_def)

lemma digit_char_not_sign:
  assumes "d < 36"
  shows "digit_char d \<noteq> CHR ''-''" and "digit_char d \<noteq> CHR ''+''"
  using of_char_digit_char [OF assms] by (auto split: if_splits)

lemma fmt_nat_not_Nil [simp]: "fmt_nat b n \<noteq> []"
  by (subst fmt_nat.simps) simp

lemma fmt_nat_digits:
  assumes "2 \<le> b" and "b \<le> 36" and "c \<in> set (fmt_nat b n)"
  shows "\<exists>d<b. c = digit_char d"
  using assms
proof (induction b n rule: fmt_nat.induct)
  case (1 b n)
  show ?case
  proof (cases "n < b")
    case True
    with "1.prems" show ?thesis by (auto simp: fmt_nat.simps [of b n])
  next
    case False
    with "1.prems" consider "c \<in> set (fmt_nat b (n div b))" | "c = digit_char (n mod b)"
      by (auto simp: fmt_nat.simps [of b n])
    then show ?thesis
    proof cases
      case 1
      then show ?thesis using "1.IH" "1.prems" False by simp
    next
      case 2
      then show ?thesis using "1.prems" by (intro exI [of _ "n mod b"]) simp
    qed
  qed
qed

lemma digits_acc_append:
  "digits_acc b acc (s @ t) =
     (case digits_acc b acc s of None \<Rightarrow> None | Some v \<Rightarrow> digits_acc b v t)"
  by (induction s arbitrary: acc) (auto split: option.splits)

lemma digits_acc_fmt_nat:
  assumes "2 \<le> b" and "b \<le> 36"
  shows "digits_acc b 0 (fmt_nat b n) = Some n"
  using assms
proof (induction b n rule: fmt_nat.induct)
  case (1 b n)
  show ?case
  proof (cases "n < b")
    case True
    with "1.prems" show ?thesis
      by (simp add: fmt_nat.simps [of b n] digit_val_digit_char)
  next
    case False
    with "1" have "digits_acc b 0 (fmt_nat b (n div b)) = Some (n div b)" by simp
    moreover have "n mod b < b" and "n mod b < 36"
      using "1.prems" by (simp_all add: order_less_le_trans [OF mod_less_divisor])
    ultimately show ?thesis
      using False "1.prems"
      by (simp add: fmt_nat.simps [of b n] digits_acc_append digit_val_digit_char)
  qed
qed

lemma fmt_nat_no_sign:
  assumes "2 \<le> b" and "b \<le> 36"
  shows "CHR ''-'' \<notin> set (fmt_nat b n)" and "CHR ''+'' \<notin> set (fmt_nat b n)"
  using fmt_nat_digits [OF assms, of _ n] digit_char_not_sign assms(2)
  by (metis order_less_le_trans)+

lemma FormatInt_no_dash:
  "0 \<le> i \<Longrightarrow> 2 \<le> b \<Longrightarrow> b \<le> 36 \<Longrightarrow> CHR ''-'' \<notin> set (FormatInt i b)"
  by (simp add: FormatInt_def fmt_nat_no_sign)

theorem ParseInt_Itoa: "in_int64 i \<Longrightarrow> ParseInt (Itoa i) = Some i"
proof -
  assume i: "in_int64 i"
  obtain c cs where cs: "fmt_nat 10 (nat i) = c # cs" by (cases "fmt_nat 10 (nat i)") auto
  show ?thesis
  proof (cases "i < 0")
    case True
    then show ?thesis
      using i by (simp add: ParseInt_def Itoa_def FormatInt_def parse_nat_def digits_acc_fmt_nat
          in_int64_def nat_le_iff)
  next
    case False
    have "parse_nat (c # cs) = Some (nat i)"
      using digits_acc_fmt_nat [of 10 "nat i"] cs by (simp add: parse_nat_def)
    with False show ?thesis
      using i cs fmt_nat_no_sign [of 10 "nat i"]
      by (auto simp: ParseInt_def Itoa_def FormatInt_def in_int64_def nat_less_iff)
  qed
qed

lemma fmt_nat_inj:
  assumes "2 \<le> b" and "b \<le> 36" and "fmt_nat b m = fmt_nat b n"
  shows "m = n"
  using digits_acc_fmt_nat [OF assms(1,2), of m] digits_acc_fmt_nat [OF assms(1,2), of n]
  unfolding assms(3) by simp

lemma FormatInt_inj:
  assumes "2 \<le> b" and "b \<le> 36" and eq: "FormatInt i b = FormatInt j b"
  shows "i = j"
proof -
  have "i < 0 \<longleftrightarrow> j < 0"
    using eq fmt_nat_no_sign(1) [OF assms(1,2)]
    by (auto simp: FormatInt_def split: if_splits) (metis list.set_intros(1))+
  with eq fmt_nat_inj [OF assms(1,2), of "nat i" "nat j"]
    fmt_nat_inj [OF assms(1,2), of "nat (- i)" "nat (- j)"]
  show ?thesis by (auto simp: FormatInt_def split: if_splits)
qed

lemma Itoa_inj: "Itoa i = Itoa j \<longleftrightarrow> i = j"
  using FormatInt_inj [of 10 i j] by (auto simp: Itoa_def)

text \<open>A formatted number holds only the sign and digits, so it is free of every separator.\<close>

lemma Itoa_chars: "c \<in> set (Itoa i) \<Longrightarrow> c = CHR ''-'' \<or> is_digit c"
proof -
  assume "c \<in> set (Itoa i)"
  then consider "c = CHR ''-''" | n where "c \<in> set (fmt_nat 10 n)"
    by (auto simp: Itoa_def FormatInt_def split: if_splits)
  then show ?thesis
  proof cases
    case (2 n)
    then obtain d where "d < 10" and "c = digit_char d" using fmt_nat_digits [of 10 c n] by auto
    then show ?thesis using of_char_digit_char [of d] by (simp add: is_digit_def)
  qed simp
qed

lemma Itoa_not_Nil [simp]: "Itoa i \<noteq> []"
  by (simp add: Itoa_def FormatInt_def)

section \<open>Codecs\<close>

text \<open>
  What the program's print and parse pairs promise: every acceptable value is read back from its
  printed form. The consequences are proved here once and used through the interpretations.
\<close>

locale codec =
  fixes enc :: "'a \<Rightarrow> 'b"
    and dec :: "'b \<Rightarrow> 'a option"
    and acceptable :: "'a \<Rightarrow> bool"
  assumes round_trip: "acceptable x \<Longrightarrow> dec (enc x) = Some x"
begin

lemma enc_inj_on: "inj_on enc {x. acceptable x}"
  by (rule inj_onI) (metis mem_Collect_eq option.inject round_trip)

lemma enc_eq_iff: "acceptable x \<Longrightarrow> acceptable y \<Longrightarrow> enc x = enc y \<longleftrightarrow> x = y"
  using enc_inj_on by (auto dest: inj_onD)

lemma enc_decodes: "acceptable x \<Longrightarrow> dec (enc x) = Some y \<longleftrightarrow> y = x"
  by (auto simp: round_trip)

lemma reencode: "acceptable x \<Longrightarrow> map_option enc (dec (enc x)) = Some (enc x)"
  by (simp add: round_trip)

end

interpretation decimal: codec Itoa ParseInt in_int64
  by unfold_locales (rule ParseInt_Itoa)

section \<open>Case and white space\<close>

definition lower_char :: "char \<Rightarrow> char" where
  "lower_char c =
     (let n = of_char c :: nat in if 65 \<le> n \<and> n \<le> 90 then char_of (n + 32) else c)"

definition ToLower :: "string \<Rightarrow> string" where
  "ToLower s = map lower_char s"

definition is_space :: "char \<Rightarrow> bool" where
  "is_space c \<longleftrightarrow> (of_char c :: nat) \<in> {9, 10, 11, 12, 13, 32}"

text \<open>\<^verbatim>\<open>strings.TrimSpace\<close> on ASCII white space.\<close>

definition TrimSpace :: "string \<Rightarrow> string" where
  "TrimSpace s = rev (dropWhile is_space (rev (dropWhile is_space s)))"

lemma dropWhile_none: "(\<forall>c\<in>set s. \<not> p c) \<Longrightarrow> dropWhile p s = s"
  by (cases s) auto

lemma TrimSpace_clean: "(\<forall>c\<in>set s. \<not> is_space c) \<Longrightarrow> TrimSpace s = s"
  by (simp add: TrimSpace_def dropWhile_none)

declare digit_char_def [go_eval] fmt_nat.simps [go_eval] FormatInt_def [go_eval] Itoa_def [go_eval]
  digit_val_def [go_eval] is_digit_def [go_eval] parse_nat_def [go_eval] ParseInt_def [go_eval]
  lower_char_def [go_eval] ToLower_def [go_eval] is_space_def [go_eval] TrimSpace_def [go_eval]

end
