(* ===== verification/Errors.thy ===== *)
theory Errors
  imports Strconv
begin

text \<open>
  Go's error values as the program uses them: sentinels, the Proxmox client's typed errors
  (\<^verbatim>\<open>internal/proxmox/errors.go\<close>), and errors wrapped by \<^verbatim>\<open>fmt.Errorf\<close> with \<^verbatim>\<open>%w\<close>,
  searched depth first by \<^verbatim>\<open>errors.Is\<close> and \<^verbatim>\<open>errors.As\<close>. The texts that only people read
  are kept as the wrapping message. \<open>ErrValue\<close> is the settings package's \<^verbatim>\<open>ValueError\<close>, a key and the value it
  refused; \<open>Quiet\<close> is the command line's \<^verbatim>\<open>errQuiet\<close>, which embeds an error but has no \<^verbatim>\<open>Unwrap\<close> method, so
  that \<^verbatim>\<open>errors.Is\<close> doesn't look inside it.
\<close>

record api_error =
  Method :: string
  Path :: string
  StatusCode :: int
  Message :: string
  ParamErrors :: "(string \<times> string) list"

record task_error =
  UPID :: string
  TaskType :: string
  ExitStatus :: string

record exec_error =
  xVMID :: int
  xCommand :: string
  xExitCode :: int
  xStderr :: string

datatype error =
    ErrorMsg string
  | Wrapped string "error list"
  | APIError api_error
  | TaskError task_error
  | Canceled
  | DeadlineExceeded
  | ErrJobStillRunning
  | RunnerNotFoundError
  | JobStillRunningError
  | errRunnerBusy
  | ErrNoTrustedKeys
  | ErrUnknownKey
  | ErrNotExist
  | ErrNoTerminal
  | ErrCanceled
  | ErrInstalled
  | ErrUnchanged
  | ErrChecksFailed
  | ErrExecTimeout
  | errPreflight
  | ExecError exec_error
  | ErrValue string string
  | flag_ErrHelp
  | errUsage
  | Quiet error

text \<open>\<^verbatim>\<open>errors.Is\<close> for a sentinel: the error itself or anything it wraps.\<close>

fun errors_Is :: "error \<Rightarrow> error \<Rightarrow> bool" where
  "errors_Is (Wrapped m es) target = (Wrapped m es = target \<or> (\<exists>e\<in>set es. errors_Is e target))"
| "errors_Is e target = (e = target)"

text \<open>\<^verbatim>\<open>errors.As\<close>: the first error of the wanted type, depth first.\<close>

fun as_api :: "error \<Rightarrow> api_error option"
  and as_api_list :: "error list \<Rightarrow> api_error option" where
  "as_api (APIError a) = Some a"
| "as_api (Wrapped m es) = as_api_list es"
| "as_api _ = None"
| "as_api_list [] = None"
| "as_api_list (e # es) = (case as_api e of Some a \<Rightarrow> Some a | None \<Rightarrow> as_api_list es)"

fun as_task :: "error \<Rightarrow> task_error option"
  and as_task_list :: "error list \<Rightarrow> task_error option" where
  "as_task (TaskError t) = Some t"
| "as_task (Wrapped m es) = as_task_list es"
| "as_task _ = None"
| "as_task_list [] = None"
| "as_task_list (e # es) = (case as_task e of Some a \<Rightarrow> Some a | None \<Rightarrow> as_task_list es)"

fun as_value :: "error \<Rightarrow> (string \<times> string) option"
  and as_value_list :: "error list \<Rightarrow> (string \<times> string) option" where
  "as_value (ErrValue key val) = Some (key, val)"
| "as_value (Wrapped m es) = as_value_list es"
| "as_value _ = None"
| "as_value_list [] = None"
| "as_value_list (e # es) = (case as_value e of Some v \<Rightarrow> Some v | None \<Rightarrow> as_value_list es)"

fun as_quiet :: "error \<Rightarrow> error option"
  and as_quiet_list :: "error list \<Rightarrow> error option" where
  "as_quiet (Quiet e) = Some e"
| "as_quiet (Wrapped m es) = as_quiet_list es"
| "as_quiet _ = None"
| "as_quiet_list [] = None"
| "as_quiet_list (e # es) = (case as_quiet e of Some q \<Rightarrow> Some q | None \<Rightarrow> as_quiet_list es)"

abbreviation wrap :: "string \<Rightarrow> error \<Rightarrow> error" where
  "wrap m e \<equiv> Wrapped m [e]"

lemma errors_Is_wrap [simp]:
  "errors_Is (wrap m e) errRunnerBusy = errors_Is e errRunnerBusy"
  "errors_Is (wrap m e) Canceled = errors_Is e Canceled"
  "errors_Is (wrap m e) ErrJobStillRunning = errors_Is e ErrJobStillRunning"
  by simp_all

lemma as_wrap [simp]:
  "as_api (wrap m e) = as_api e" "as_task (wrap m e) = as_task e"
  by (simp_all split: option.splits)

section \<open>Proxmox error classification\<close>

definition messageContains :: "error \<Rightarrow> string \<Rightarrow> bool" where
  "messageContains err substr \<longleftrightarrow>
     (case as_api err of Some a \<Rightarrow> Contains_str (Message a) substr | None \<Rightarrow> False)
     \<or> (case as_task err of Some t \<Rightarrow> Contains_str (ExitStatus t) substr | None \<Rightarrow> False)"

definition IsVMIDInUse :: "error \<Rightarrow> bool" where
  "IsVMIDInUse err \<longleftrightarrow> messageContains err ''already exists on node''
     \<or> messageContains err ''config file already exists''"

definition IsForbidden :: "error \<Rightarrow> bool" where
  "IsForbidden err \<longleftrightarrow> (case as_api err of Some a \<Rightarrow> StatusCode a = 403 | None \<Rightarrow> False)"

definition IsAgentNotReady :: "error \<Rightarrow> bool" where
  "IsAgentNotReady err \<longleftrightarrow> messageContains err ''is not running''"

lemma messageContains_wrap [simp]: "messageContains (wrap m e) s = messageContains e s"
  by (simp add: messageContains_def del: as_api.simps as_task.simps)

lemma classify_wrap [simp]:
  "IsVMIDInUse (wrap m e) = IsVMIDInUse e"
  "IsForbidden (wrap m e) = IsForbidden e"
  "IsAgentNotReady (wrap m e) = IsAgentNotReady e"
  by (simp_all add: IsVMIDInUse_def IsForbidden_def IsAgentNotReady_def
      del: as_api.simps as_task.simps)

text \<open>A sentinel or a plain message is never taken for a Proxmox answer.\<close>

lemma classify_plain [simp]:
  "\<not> IsForbidden Canceled" "\<not> IsForbidden DeadlineExceeded" "\<not> IsForbidden errRunnerBusy"
  "\<not> IsForbidden (ErrorMsg m)" "\<not> IsVMIDInUse Canceled" "\<not> IsAgentNotReady Canceled"
  "\<not> IsAgentNotReady (ErrorMsg m)"
  by (simp_all add: IsForbidden_def IsVMIDInUse_def IsAgentNotReady_def messageContains_def)

section \<open>Error texts\<close>

text \<open>
  The text of an API error: the method, path, status and message, then the parameter errors in
  the order of their names.
\<close>

fun param_lines :: "(string \<times> string) list \<Rightarrow> string" where
  "param_lines [] = []"
| "param_lines ((n, m) # ps) = ''; '' @ n @ '': '' @ TrimSpace m @ param_lines ps"

fun str_less :: "string \<Rightarrow> string \<Rightarrow> bool" where
  "str_less [] t = (t \<noteq> [])"
| "str_less (c # s) [] = False"
| "str_less (c # s) (d # t) =
     ((of_char c :: nat) < of_char d \<or> (c = d \<and> str_less s t))"

fun insert_by_name :: "string \<times> string \<Rightarrow> (string \<times> string) list \<Rightarrow> (string \<times> string) list" where
  "insert_by_name p [] = [p]"
| "insert_by_name p (q # qs) =
     (if str_less (fst q) (fst p) then q # insert_by_name p qs else p # q # qs)"

definition APIError_Error :: "api_error \<Rightarrow> string" where
  "APIError_Error e =
     Method e @ '' '' @ Path e @ '': '' @ Itoa (StatusCode e) @ '' '' @ Message e
       @ param_lines (foldr insert_by_name (ParamErrors e) [])"

definition TaskError_Error :: "task_error \<Rightarrow> string" where
  "TaskError_Error e =
     ''proxmox task '' @ TaskType e @ '' ('' @ UPID e @ '') failed: '' @ ExitStatus e"

declare messageContains_def [go_eval] IsVMIDInUse_def [go_eval] IsForbidden_def [go_eval]
  IsAgentNotReady_def [go_eval]

end
