(* ===== verification/Proxmox.thy ===== *)
theory Proxmox
  imports Errors
begin

text \<open>
  \<^verbatim>\<open>internal/proxmox\<close>: the VM listing and its tags (\<^verbatim>\<open>vm.go\<close>), the tolerant decoders of
  Proxmox's booleans and integers (\<^verbatim>\<open>json.go\<close>), and task polling (\<^verbatim>\<open>tasks.go\<close>), whose answers
  are parameters here; \<open>Pve_Client\<close> makes the requests.
\<close>

section \<open>VMs and tags (vm.go)\<close>

record vm =
  VMID :: vmid
  VMName :: string
  Pool :: string
  Tags :: "string list"
  Template :: bool
  Status :: string
  MaxDiskBytes :: int
  MaxMemBytes :: int

definition HasTag :: "vm \<Rightarrow> string \<Rightarrow> bool" where
  "HasTag v tag \<longleftrightarrow> list_ex (\<lambda>t. t = tag) (Tags v)"

lemma HasTag_iff [simp]: "HasTag v tag \<longleftrightarrow> tag \<in> set (Tags v)"
  by (auto simp: HasTag_def list_ex_iff)

definition tag_sep :: "char \<Rightarrow> bool" where
  "tag_sep r \<longleftrightarrow> r = CHR '';'' \<or> r = CHR '','' \<or> r = CHR '' ''"

definition ParseTags :: "string \<Rightarrow> string list" where
  "ParseTags s = FieldsFunc s tag_sep"

definition FormatTags :: "string list \<Rightarrow> string" where
  "FormatTags tags = Join tags '';''"

record resource =
  rType :: string
  rVMID :: int
  rName :: string
  rNode :: string
  rPool :: string
  rTags :: string
  rTemplate :: bool
  rStatus :: string
  rMaxDisk :: int
  rMaxMem :: int

definition vm_of_resource :: "resource \<Rightarrow> vm" where
  "vm_of_resource r =
     \<lparr>VMID = rVMID r, VMName = rName r, Pool = rPool r, Tags = ParseTags (rTags r),
      Template = rTemplate r, Status = rStatus r, MaxDiskBytes = rMaxDisk r,
      MaxMemBytes = rMaxMem r\<rparr>"

text \<open>The listing is sorted by VMID; VMIDs are unique on a node, so the order is determined.\<close>

definition vmsOnNode :: "resource list \<Rightarrow> string \<Rightarrow> vm list" where
  "vmsOnNode resources node =
     sort_key VMID
       (map vm_of_resource (filter (\<lambda>r. \<not> (rType r \<noteq> ''qemu'' \<or> rNode r \<noteq> node)) resources))"

definition clean_tag :: "string \<Rightarrow> bool" where
  "clean_tag t \<longleftrightarrow> t \<noteq> [] \<and> (\<forall>c\<in>set t. \<not> tag_sep c)"

lemma ParseTags_FormatTags:
  "list_all clean_tag tags \<Longrightarrow> ParseTags (FormatTags tags) = tags"
  by (simp add: ParseTags_def FormatTags_def list_all_iff clean_tag_def
      FieldsFunc_Join [of tag_sep "CHR '';''"] tag_sep_def)

lemma ParseTags_clean: "list_all clean_tag (ParseTags s)"
  using FieldsFunc_clean [of _ s tag_sep] by (simp add: list_all_iff clean_tag_def ParseTags_def)

lemma vmsOnNode_sorted: "sorted (map VMID (vmsOnNode rs node))"
  by (simp add: vmsOnNode_def)

lemma set_vmsOnNode:
  "set (vmsOnNode rs node) = vm_of_resource ` {r \<in> set rs. rType r = ''qemu'' \<and> rNode r = node}"
  by (auto simp: vmsOnNode_def)

section \<open>Decoding Proxmox's JSON scalars (json.go)\<close>

text \<open>
  \<open>data\<close> is the JSON token as bytes. \<^verbatim>\<open>bytes.Trim\<close> strips the quotes of a string token.
  Decimal fractions go through \<^verbatim>\<open>strconv.ParseFloat\<close> and a conversion to 64 bits, which is
  the parameter \<open>float_to_int\<close>.
\<close>

definition trim_quotes :: "string \<Rightarrow> string" where
  "trim_quotes d = (let q = (\<lambda>c. c = CHR 0x22) in rev (dropWhile q (rev (dropWhile q d))))"

definition pveBool :: "string \<Rightarrow> error + bool" where
  "pveBool data =
     (let s = trim_quotes data in
      if s = ''true'' \<or> s = ''1'' then Inr True
      else if s = ''false'' \<or> s = ''0'' \<or> s = '''' \<or> s = ''null'' then Inr False
      else Inl (ErrorMsg (''invalid boolean '' @ data)))"

definition pveInt :: "(string \<Rightarrow> int option) \<Rightarrow> string \<Rightarrow> error + int" where
  "pveInt float_to_int data =
     (let s = trim_quotes data in
      if s = '''' \<or> s = ''null'' then Inr 0
      else (case ParseInt s of
              Some v \<Rightarrow> Inr v
            | None \<Rightarrow> (case float_to_int s of
                         Some v \<Rightarrow> Inr v
                       | None \<Rightarrow> Inl (ErrorMsg (''invalid integer '' @ data)))))"

lemma trim_both:
  assumes "q \<notin> set s"
  shows "rev (dropWhile (\<lambda>c. c = q) (rev (dropWhile (\<lambda>c. c = q) (q # s @ [q])))) = s"
proof -
  have none: "dropWhile (\<lambda>c. c = q) (rev s) = rev s"
    using assms by (intro dropWhile_none) auto
  show ?thesis
  proof (cases s)
    case (Cons x xs)
    with assms have "dropWhile (\<lambda>c. c = q) (q # s @ [q]) = s @ [q]" by auto
    with none show ?thesis by simp
  qed simp
qed

lemma trim_quotes_quoted:
  assumes "CHR 0x22 \<notin> set s"
  shows "trim_quotes (CHR 0x22 # s @ [CHR 0x22]) = s"
  unfolding trim_quotes_def Let_def by (rule trim_both [OF assms])

section \<open>Tasks (tasks.go)\<close>

record task_status =
  tsStatus :: string
  tsExitStatus :: string
  tsType :: string

text \<open>
  One look at a task: \<open>Inl\<close> ends the polling with an error or success, \<open>Inr\<close> goes on.
\<close>

definition task_check :: "string \<Rightarrow> error + task_status \<Rightarrow> bool \<times> error option" where
  "task_check upid r =
     (case r of
        Inl e \<Rightarrow> (False, Some (wrap ''task status'' e))
      | Inr st \<Rightarrow>
          if tsStatus st \<noteq> ''stopped'' then (False, None)
          else if tsExitStatus st = ''OK'' \<or> HasPrefix (tsExitStatus st) ''WARNINGS'' then (True, None)
          else (True, Some (TaskError \<lparr>UPID = upid, TaskType = tsType st,
                  ExitStatus = tsExitStatus st\<rparr>)))"

text \<open>
  \<open>poll\<close> looks until the check is done or fails, sleeping between looks. \<open>check i\<close> is the
  \<open>i\<close>-th look's outcome and \<open>canceled i\<close> whether the context ends during the \<open>i\<close>-th sleep.
  The result is the error and the sleeps taken; \<open>None\<close> means the fuel ran out first, so the loop
  was still polling.
\<close>

fun poll :: "nat \<Rightarrow> (nat \<Rightarrow> bool \<times> error option) \<Rightarrow> (nat \<Rightarrow> bool) \<Rightarrow> duration \<Rightarrow> duration \<Rightarrow> nat
    \<Rightarrow> (error option \<times> duration list) option" where
  "poll 0 check canceled maxPollInterval interval i = None"
| "poll (Suc fuel) check canceled maxPollInterval interval i =
     (case check i of
        (done, err) \<Rightarrow>
          if done \<or> err \<noteq> None then Some (err, [])
          else if canceled i then Some (Some Canceled, [interval])
          else map_option (\<lambda>(r, sleeps). (r, interval # sleeps))
                 (poll fuel check canceled maxPollInterval
                    (min (interval * 2) maxPollInterval) (Suc i)))"

definition WaitTask :: "nat \<Rightarrow> string \<Rightarrow> (nat \<Rightarrow> error + task_status) \<Rightarrow> (nat \<Rightarrow> bool)
    \<Rightarrow> duration \<Rightarrow> duration \<Rightarrow> (error option \<times> duration list) option" where
  "WaitTask fuel upid get canceled pollInterval maxPollInterval =
     poll fuel (\<lambda>i. task_check upid (get i)) canceled maxPollInterval pollInterval 0"

text \<open>\<open>request\<close> is the answer that starts the task: its ID, or an error.\<close>

definition runTask :: "nat \<Rightarrow> error + string \<Rightarrow> (nat \<Rightarrow> error + task_status) \<Rightarrow> (nat \<Rightarrow> bool)
    \<Rightarrow> duration \<Rightarrow> duration \<Rightarrow> (error option \<times> duration list) option" where
  "runTask fuel request get canceled pollInterval maxPollInterval =
     (case request of
        Inl e \<Rightarrow> Some (Some e, [])
      | Inr upid \<Rightarrow>
          if upid = [] then Some (None, [])
          else WaitTask fuel upid get canceled pollInterval maxPollInterval)"

lemma poll_enough:
  assumes "\<forall>j. i \<le> j \<and> j < i + k \<longrightarrow> check j = (False, None) \<and> \<not> canceled j"
    and "fst (check (i + k)) \<or> snd (check (i + k)) \<noteq> None" and "k < fuel"
  shows "\<exists>sleeps. poll fuel check canceled mx iv i = Some (snd (check (i + k)), sleeps)
           \<and> length sleeps = k \<and> (0 < iv \<and> iv \<le> mx \<longrightarrow> (\<forall>d\<in>set sleeps. iv \<le> d \<and> d \<le> mx))"
  using assms
proof (induction k arbitrary: fuel iv i)
  case 0
  then obtain f where "fuel = Suc f" by (cases fuel) auto
  with 0 show ?case by (cases "check i") auto
next
  case (Suc k)
  then obtain f where f: "fuel = Suc f" by (cases fuel) auto
  have now: "check i = (False, None)" "\<not> canceled i" using Suc.prems(1) by auto
  let ?iv = "min (iv * 2) mx"
  have "\<forall>j. Suc i \<le> j \<and> j < Suc i + k \<longrightarrow> check j = (False, None) \<and> \<not> canceled j"
    using Suc.prems(1) by auto
  moreover have "fst (check (Suc i + k)) \<or> snd (check (Suc i + k)) \<noteq> None" and "k < f"
    using Suc.prems(2,3) f by simp_all
  ultimately obtain sleeps where IH: "poll f check canceled mx ?iv (Suc i) = Some (snd (check (Suc i + k)), sleeps)"
      "length sleeps = k" "0 < ?iv \<and> ?iv \<le> mx \<longrightarrow> (\<forall>d\<in>set sleeps. ?iv \<le> d \<and> d \<le> mx)"
    using Suc.IH [of "Suc i" f ?iv] by blast
  show ?case
  proof (intro exI conjI impI)
    show "poll fuel check canceled mx iv i = Some (snd (check (i + Suc k)), iv # sleeps)"
      using f now IH(1) by simp
    show "length (iv # sleeps) = Suc k" using IH(2) by simp
    assume "0 < iv \<and> iv \<le> mx"
    then have "iv \<le> ?iv" and "0 < ?iv \<and> ?iv \<le> mx" by auto
    with IH(3) \<open>0 < iv \<and> iv \<le> mx\<close> show "\<forall>d\<in>set (iv # sleeps). iv \<le> d \<and> d \<le> mx"
      by (auto intro: order_trans)
  qed
qed

declare tag_sep_def [go_eval] ParseTags_def [go_eval] FormatTags_def [go_eval]
  clean_tag_def [go_eval] trim_quotes_def [go_eval] task_check_def [go_eval]

end
