(* ===== verification/Access.thy ===== *)
theory Access
  imports Proxmox
begin

text \<open>
  \<^verbatim>\<open>internal/proxmox/access.go\<close>: the Proxmox version, storage content, and the check that the
  controller's token has the privileges it needs. A privilege counts when an ACL grants it on
  the path itself, or on a parent path with propagation. \<open>Has_iff\<close> proves the loop over
  \<open>parentPath\<close> equal to that sentence.
\<close>

section \<open>Version and storage\<close>

record pve_version =
  pvVersion :: string
  pvRelease :: string

definition before_dot :: "string \<Rightarrow> string" where
  "before_dot s = takeWhile (\<lambda>c. c \<noteq> CHR ''.'') s"

definition Major :: "pve_version \<Rightarrow> int" where
  "Major v =
     (let s = (if pvRelease v = [] then pvVersion v else pvRelease v) in
      (case Atoi (before_dot s) of None \<Rightarrow> 0 | Some n \<Rightarrow> n))"

definition Accepts :: "string list \<Rightarrow> string \<Rightarrow> bool" where
  "Accepts content c \<longleftrightarrow> list_ex (\<lambda>x. x = c) content"

definition storage_content :: "string \<Rightarrow> string list" where
  "storage_content raw = FieldsFunc raw (\<lambda>r. r = CHR '','')"

section \<open>Permissions\<close>

type_synonym permissions = "string \<Rightarrow> (string \<Rightarrow> bool option)"

fun last_slash :: "string \<Rightarrow> nat option" where
  "last_slash [] = None"
| "last_slash (c # s) =
     (case last_slash s of
        Some i \<Rightarrow> Some (Suc i)
      | None \<Rightarrow> if c = CHR ''/'' then Some 0 else None)"

definition parentPath :: "string \<Rightarrow> string" where
  "parentPath path =
     (if path = ''/'' \<or> path = '''' then ''''
      else (case last_slash path of
              None \<Rightarrow> ''/''
            | Some i \<Rightarrow> if i = 0 then ''/'' else take i path))"

lemma last_slash_Some: "last_slash s = Some i \<Longrightarrow> i < length s \<and> s ! i = CHR ''/'' \<and> CHR ''/'' \<notin> set (drop (Suc i) s)"
proof (induction s arbitrary: i)
  case (Cons c s)
  have none: "last_slash t = None \<Longrightarrow> CHR ''/'' \<notin> set t" for t
    by (induction t) (auto split: option.splits if_splits)
  from Cons show ?case by (auto split: option.splits if_splits dest: none)
qed simp

lemma last_slash_None: "last_slash s = None \<longleftrightarrow> CHR ''/'' \<notin> set s"
  by (induction s) (auto split: option.splits)

definition path_size :: "string \<Rightarrow> nat" where
  "path_size p = (if p = '''' then 0 else if p = ''/'' then 1 else Suc (length p))"

lemma parentPath_smaller: "p \<noteq> '''' \<Longrightarrow> path_size (parentPath p) < path_size p"
  by (auto simp: parentPath_def path_size_def split: option.splits dest: last_slash_Some)

text \<open>The loop of \<open>Has\<close> over the parents of a path.\<close>

function any_parent :: "permissions \<Rightarrow> string \<Rightarrow> string \<Rightarrow> bool" where
  "any_parent p parent priv =
     (if parent = '''' then False
      else if p parent priv = Some True then True
      else any_parent p (parentPath parent) priv)"
  by pat_completeness auto
termination
  by (relation "measure (\<lambda>(p, parent, priv). path_size parent)") (auto simp: parentPath_smaller)

declare any_parent.simps [simp del]

definition Has :: "permissions \<Rightarrow> string \<Rightarrow> string \<Rightarrow> bool" where
  "Has p path priv \<longleftrightarrow> p path priv \<noteq> None \<or> any_parent p (parentPath path) priv"

record requirement =
  reqPath :: string
  Privileges :: "string list"

definition poolPrivileges :: "string list" where
  "poolPrivileges =
     [''VM.Allocate'', ''VM.Clone'', ''VM.Config.CPU'', ''VM.Config.Memory'', ''VM.Config.Disk'',
      ''VM.Config.Network'', ''VM.Config.Cloudinit'', ''VM.Config.Options'', ''VM.PowerMgmt'',
      ''VM.Audit'', ''VM.GuestAgent.Audit'', ''VM.GuestAgent.FileWrite'', ''Pool.Audit'']"

definition storagePrivileges :: "string list" where
  "storagePrivileges = [''Datastore.AllocateSpace'', ''Datastore.Audit'']"

definition vnetPrivileges :: "string list" where
  "vnetPrivileges = [''SDN.Use'']"

definition RequiredPrivileges :: "string \<Rightarrow> string \<Rightarrow> string \<Rightarrow> string \<Rightarrow> requirement list" where
  "RequiredPrivileges pool storage zone vnet =
     [\<lparr>reqPath = ''/pool/'' @ pool, Privileges = poolPrivileges\<rparr>,
      \<lparr>reqPath = ''/storage/'' @ storage, Privileges = storagePrivileges\<rparr>,
      \<lparr>reqPath = ''/sdn/zones/'' @ zone @ ''/'' @ vnet, Privileges = vnetPrivileges\<rparr>]"

definition Missing :: "permissions \<Rightarrow> requirement \<Rightarrow> string list" where
  "Missing p req = filter (\<lambda>priv. \<not> Has p (reqPath req) priv) (Privileges req)"

section \<open>Propagation as a set of ancestors\<close>

text \<open>
  The ancestors of an absolute path: the root, and every nonempty part before one of its slashes.
\<close>

definition ancestor :: "string \<Rightarrow> string \<Rightarrow> bool" where
  "ancestor q path \<longleftrightarrow> q \<noteq> '''' \<and> q \<noteq> path \<and> (q = ''/'' \<or> (\<exists>r. path = q @ ''/'' @ r))"

lemma ancestor_step:
  assumes "HasPrefix path ''/''" and "path \<noteq> ''/''"
  shows "ancestor q path \<longleftrightarrow> q = parentPath path \<or> ancestor q (parentPath path)"
    and "HasPrefix (parentPath path) ''/''"
proof -
  obtain s where path: "path = CHR ''/'' # s" and "s \<noteq> []"
    using assms by (cases path) auto
  then obtain i where i: "last_slash path = Some i" using last_slash_None [of path] by fastforce
  note sl = last_slash_Some [OF i]
  have split: "path = take i path @ ''/'' @ drop (Suc i) path"
    using sl id_take_nth_drop [of i path] by simp
  show "HasPrefix (parentPath path) ''/''"
    using i path assms(2) by (cases i) (auto simp: parentPath_def)
  show "ancestor q path \<longleftrightarrow> q = parentPath path \<or> ancestor q (parentPath path)"
  proof (cases "i = 0")
    case True
    have "path = q @ ''/'' @ r \<Longrightarrow> q = ''''" for r
      using True sl path by (cases q) (auto simp: in_set_conv_decomp)
    with True i path assms(2) show ?thesis
      by (auto simp: ancestor_def parentPath_def append_eq_Cons_conv Cons_eq_append_conv)
  next
    case False
    then have parent: "parentPath path = take i path"
      using i path assms(2) by (auto simp: parentPath_def)
    have *: "(\<exists>r. path = q @ ''/'' @ r) \<longleftrightarrow> q = take i path \<or> (\<exists>r. take i path = q @ ''/'' @ r)"
    proof
      assume "\<exists>r. path = q @ ''/'' @ r"
      then obtain r where r: "path = q @ ''/'' @ r" ..
      then have "path ! length q = CHR ''/''" by simp
      then have "length q \<le> i"
        using sl r nth_mem [of "length q - Suc i" "drop (Suc i) path"]
        by (cases "length q \<le> i") (auto simp: not_le)
      then show "q = take i path \<or> (\<exists>r. take i path = q @ ''/'' @ r)"
        using r sl by (cases "length q = i") (auto simp: take_Cons')
    next
      assume "q = take i path \<or> (\<exists>r. take i path = q @ ''/'' @ r)"
      then show "\<exists>r. path = q @ ''/'' @ r"
        using split by (metis append.assoc)
    qed
    have "take i path \<noteq> ''''" "take i path \<noteq> path" "q = ''/'' \<Longrightarrow> q \<noteq> path"
      using False sl assms(2) path by auto
    with * parent show ?thesis unfolding ancestor_def by auto
  qed
qed

lemma no_ancestor_root: "\<not> ancestor q ''/''"
  by (auto simp: ancestor_def Cons_eq_append_conv)

lemma any_parent_iff:
  "HasPrefix path ''/'' \<Longrightarrow>
     any_parent p path priv \<longleftrightarrow> p path priv = Some True \<or> (\<exists>q. ancestor q path \<and> p q priv = Some True)"
proof (induction p path priv rule: any_parent.induct)
  case (1 p path priv)
  have ne: "path \<noteq> ''''" using "1.prems" by auto
  show ?case
  proof (cases "path = ''/''")
    case True
    then show ?thesis
      by (simp add: any_parent.simps [of p "''/''"] any_parent.simps [of p "''''"] parentPath_def
          no_ancestor_root)
  next
    case False
    note step = ancestor_step [OF "1.prems" False]
    show ?thesis
    proof (cases "p path priv = Some True")
      case True
      with ne show ?thesis by (simp add: any_parent.simps [of p path])
    next
      case no: False
      from "1.IH" [OF ne no step(2)] ne no show ?thesis
        unfolding any_parent.simps [of p path] by (auto simp: step(1))
    qed
  qed
qed

text \<open>
  The privilege check means what its comment says: on an absolute path other than the root, a
  privilege counts exactly when some ACL names it on the path itself, or grants it with
  propagation on one of the path's ancestors.
\<close>

theorem Has_iff:
  assumes "HasPrefix path ''/''" and "path \<noteq> ''/''"
  shows "Has p path priv \<longleftrightarrow>
           p path priv \<noteq> None \<or> (\<exists>q. ancestor q path \<and> p q priv = Some True)"
  using any_parent_iff [OF ancestor_step(2) [OF assms], of p priv] ancestor_step(1) [OF assms]
  by (auto simp: Has_def)

theorem Has_iff_witness:
  "Has (\<lambda>q. if q = ''/pool'' then (\<lambda>priv. if priv = ''VM.Audit'' then Some True else None)
            else (\<lambda>_. None)) ''/pool/par-runners'' ''VM.Audit''"
proof -
  have "ancestor ''/pool'' ''/pool/par-runners''" by (simp add: ancestor_def)
  then show ?thesis
    using Has_iff [of "''/pool/par-runners''"
        "\<lambda>q. if q = ''/pool'' then (\<lambda>priv. if priv = ''VM.Audit'' then Some True else None) else (\<lambda>_. None)"
        "''VM.Audit''"] by auto
qed

end
