(* ===== verification/Vmtags.thy ===== *)
theory Vmtags
  imports Proxmox
begin

text \<open>
  \<^verbatim>\<open>internal/vmtags\<close>: the tags that mark what the project owns, and the choice of the newest
  runner template. \<open>NewestTemplate_greatest\<close> and \<open>NewestTemplate_exists\<close> show that the loop
  finds the template with the greatest version, ties broken by the higher VMID.
\<close>

section \<open>Tags and prefixes\<close>

definition Managed :: string where "Managed = ''par-managed''"
definition Worker :: string where "Worker = ''par-worker''"
definition Ready :: string where "Ready = ''par-ready''"
definition TemplateTag :: string where "TemplateTag = ''par-template''"
definition Build :: string where "Build = ''par-build''"
definition Gateway :: string where "Gateway = ''par-gateway''"
definition Controller :: string where "Controller = ''par-controller''"

definition ScaleSetPrefix :: string where "ScaleSetPrefix = ''par-ss-''"
definition CreatedPrefix :: string where "CreatedPrefix = ''par-created-''"
definition TemplateRefPrefix :: string where "TemplateRefPrefix = ''par-tpl-''"
definition TemplateVersionPrefix :: string where "TemplateVersionPrefix = ''par-tv-''"
definition RunnerVersionPrefix :: string where "RunnerVersionPrefix = ''par-rv-''"
definition ReleasePrefix :: string where "ReleasePrefix = ''par-release-''"

lemmas tag_defs = Managed_def Worker_def Ready_def TemplateTag_def Build_def Gateway_def
  Controller_def ScaleSetPrefix_def CreatedPrefix_def TemplateRefPrefix_def
  TemplateVersionPrefix_def RunnerVersionPrefix_def ReleasePrefix_def

section \<open>Reading tags\<close>

fun tag_value :: "string list \<Rightarrow> string \<Rightarrow> string option" where
  "tag_value [] pre = None"
| "tag_value (tag # tags) pre =
     (case CutPrefix tag pre of
        Some v \<Rightarrow> if v \<noteq> [] then Some v else tag_value tags pre
      | None \<Rightarrow> tag_value tags pre)"

definition tag_String :: "vm \<Rightarrow> string \<Rightarrow> string option" where
  "tag_String v pre = tag_value (Tags v) pre"

definition tag_Int :: "vm \<Rightarrow> string \<Rightarrow> int option" where
  "tag_Int v pre = (case tag_String v pre of None \<Rightarrow> None | Some s \<Rightarrow> ParseInt s)"

lemma tag_value_Some: "tag_value tags pre = Some v \<Longrightarrow> pre @ v \<in> set tags \<and> v \<noteq> []"
  by (induction tags) (auto split: option.splits if_splits simp: CutPrefix_Some_iff)

lemma tag_value_None: "tag_value tags pre = None \<longleftrightarrow> (\<forall>v. pre @ v \<in> set tags \<longrightarrow> v = [])"
proof (induction tags)
  case (Cons tag tags)
  show ?case
  proof (cases "CutPrefix tag pre")
    case None
    then have "tag \<noteq> pre @ v" for v by auto
    with None Cons show ?thesis by auto
  next
    case (Some v)
    then have "tag = pre @ v" by (simp add: CutPrefix_Some_iff)
    with Some Cons show ?thesis by auto
  qed
qed simp

section \<open>Templates\<close>

definition IsTemplate :: "vm \<Rightarrow> string \<Rightarrow> bool" where
  "IsTemplate v pool \<longleftrightarrow>
     Template v \<and> Pool v = pool \<and> HasTag v Managed \<and> HasTag v TemplateTag"

text \<open>
  The loop's state is the newest template so far and the best version, \<open>-1\<close> at the start; before
  one is found the VMID it compares with is the zero value's, 0.
\<close>

fun newest_loop :: "string \<Rightarrow> vm option \<Rightarrow> int \<Rightarrow> vm list \<Rightarrow> vm option" where
  "newest_loop pool newest best [] = newest"
| "newest_loop pool newest best (v # vms) =
     (if \<not> IsTemplate v pool then newest_loop pool newest best vms
      else (case tag_Int v TemplateVersionPrefix of
              None \<Rightarrow> newest_loop pool newest best vms
            | Some version \<Rightarrow>
                if version > best
                   \<or> (version = best \<and> VMID v > (case newest of None \<Rightarrow> 0 | Some n \<Rightarrow> VMID n))
                then newest_loop pool (Some v) version vms
                else newest_loop pool newest best vms))"

definition NewestTemplate :: "vm list \<Rightarrow> string \<Rightarrow> vm option" where
  "NewestTemplate vms pool = newest_loop pool None (- 1) vms"

definition versioned :: "string \<Rightarrow> vm \<Rightarrow> int \<Rightarrow> bool" where
  "versioned pool v n \<longleftrightarrow> IsTemplate v pool \<and> tag_Int v TemplateVersionPrefix = Some n"

text \<open>What the loop has established after the templates in \<open>done\<close>.\<close>

definition newest_inv :: "string \<Rightarrow> vm set \<Rightarrow> vm option \<Rightarrow> int \<Rightarrow> bool" where
  "newest_inv pool done newest best \<longleftrightarrow>
     - 1 \<le> best
     \<and> (case newest of
          None \<Rightarrow> best = - 1 \<and> (\<forall>u\<in>done. \<forall>n. versioned pool u n \<longrightarrow> n < - 1 \<or> n = - 1 \<and> VMID u \<le> 0)
        | Some t \<Rightarrow> t \<in> done \<and> versioned pool t best
            \<and> (\<forall>u\<in>done. \<forall>n. versioned pool u n \<longrightarrow> n < best \<or> n = best \<and> VMID u \<le> VMID t))"

lemma newest_loop_inv:
  assumes "newest_inv pool done newest best"
  shows "\<exists>b. newest_inv pool (done \<union> set vms) (newest_loop pool newest best vms) b"
  using assms
proof (induction pool newest best vms arbitrary: "done" rule: newest_loop.induct)
  case (2 pool newest best v vms)
  have split: "done \<union> set (v # vms) = insert v done \<union> set vms" by simp
  show ?case
  proof (cases "\<exists>n. versioned pool v n")
    case False
    then have "newest_inv pool (insert v done) newest best"
      using "2.prems" by (auto simp: newest_inv_def split: option.splits)
    then have "\<exists>b. newest_inv pool (insert v done \<union> set vms) (newest_loop pool newest best vms) b"
      using False "2.IH"(1,2) [of "insert v done"]
      by (cases "IsTemplate v pool"; cases "tag_Int v TemplateVersionPrefix")
        (simp_all add: versioned_def)
    then show ?thesis
      using False unfolding split by (auto simp: versioned_def split: option.splits)
  next
    case True
    then obtain n where n: "IsTemplate v pool" "tag_Int v TemplateVersionPrefix = Some n"
      by (auto simp: versioned_def)
    have uniq: "versioned pool v m \<longleftrightarrow> m = n" for m using n by (auto simp: versioned_def)
    let ?better = "n > best \<or> (n = best \<and> VMID v > (case newest of None \<Rightarrow> 0 | Some t \<Rightarrow> VMID t))"
    show ?thesis
    proof (cases ?better)
      case True
      then have "newest_inv pool (insert v done) (Some v) n"
        using "2.prems" uniq by (fastforce simp: newest_inv_def split: option.splits)
      with True n "2.IH"(3) [of n "insert v done"] show ?thesis unfolding split by auto
    next
      case False
      then have "newest_inv pool (insert v done) newest best"
        using "2.prems" uniq by (fastforce simp: newest_inv_def split: option.splits)
      with False n "2.IH"(4) [of n "insert v done"] show ?thesis unfolding split by auto
    qed
  qed
qed auto

lemma NewestTemplate_inv: "\<exists>b. newest_inv pool (set vms) (NewestTemplate vms pool) b"
  using newest_loop_inv [of pool "{}" None "- 1" vms] by (simp add: newest_inv_def NewestTemplate_def)

lemma NewestTemplate_in: "NewestTemplate vms pool = Some t \<Longrightarrow> t \<in> set vms \<and> IsTemplate t pool"
  using NewestTemplate_inv [of pool vms] by (auto simp: newest_inv_def versioned_def)

text \<open>
  The template workers are cloned from is a template of the pool that has a version, and no
  other versioned template of the pool is newer, where newer means a greater version or the same
  version with a higher VMID; and there is one whenever some template of the pool carries a
  version of at least 0.
\<close>

theorem NewestTemplate_greatest:
  "(\<forall>t. NewestTemplate vms pool = Some t \<longrightarrow>
      (\<exists>b. t \<in> set vms \<and> versioned pool t b
         \<and> (\<forall>u\<in>set vms. \<forall>n. versioned pool u n \<longrightarrow> n < b \<or> n = b \<and> VMID u \<le> VMID t)))
   \<and> ((\<exists>u\<in>set vms. \<exists>n\<ge>0. versioned pool u n) \<longrightarrow> NewestTemplate vms pool \<noteq> None)"
proof -
  obtain b where b: "newest_inv pool (set vms) (NewestTemplate vms pool) b"
    using NewestTemplate_inv by blast
  show ?thesis
  proof (cases "NewestTemplate vms pool")
    case None
    with b have none: "\<forall>u\<in>set vms. \<forall>n. versioned pool u n \<longrightarrow> n < - 1 \<or> n = - 1 \<and> VMID u \<le> 0"
      by (simp add: newest_inv_def)
    have "\<not> (\<exists>u\<in>set vms. \<exists>n\<ge>0. versioned pool u n)"
    proof
      assume "\<exists>u\<in>set vms. \<exists>n\<ge>0. versioned pool u n"
      then obtain u n where "u \<in> set vms" "0 \<le> n" "versioned pool u n" by blast
      with none show False by fastforce
    qed
    with None show ?thesis by simp
  next
    case (Some t)
    with b show ?thesis by (auto simp: newest_inv_def)
  qed
qed

definition example_template :: "vmid \<Rightarrow> string \<Rightarrow> vm" where
  "example_template n ver =
     \<lparr>VMID = n, VMName = ''t'', Pool = ''par-runners'',
      Tags = [''par-managed'', ''par-template'', ''par-tv-'' @ ver], Template = True,
      Status = ''stopped'', MaxDiskBytes = 0, MaxMemBytes = 0\<rparr>"

declare tag_defs [go_eval] tag_String_def [go_eval] tag_Int_def [go_eval] IsTemplate_def [go_eval]
  NewestTemplate_def [go_eval] example_template_def [go_eval] versioned_def [go_eval]

theorem NewestTemplate_greatest_witness:
  "NewestTemplate [example_template 10096 ''7'', example_template 10097 ''9''] ''par-runners''
     = Some (example_template 10097 ''9'')
   \<and> (\<exists>b. versioned ''par-runners'' (example_template 10097 ''9'') b)"
proof -
  have eval: "NewestTemplate [example_template 10096 ''7'', example_template 10097 ''9''] ''par-runners''
      = Some (example_template 10097 ''9'')"
    by (simp add: go_eval)
  show ?thesis using eval NewestTemplate_greatest
      [of "[example_template 10096 ''7'', example_template 10097 ''9'']" "''par-runners''"] by blast
qed

end
