(* ===== verification/Url.thy ===== *)
theory Url
  imports Strconv
begin

text \<open>
  Go's \<^verbatim>\<open>url.Parse\<close> as far as the program looks at its result: scheme, user information, host,
  path, query and fragment. A host in brackets or with percent-escapes goes through the parameter
  \<open>special_host\<close>, which gives the decoded host or refuses it; every other host is checked here.
\<close>

record url =
  Scheme :: string
  User :: "string option"
  Host :: string
  UrlPath :: string
  ForceQuery :: bool
  RawQuery :: string
  Fragment :: string

definition is_ctl :: "char \<Rightarrow> bool" where
  "is_ctl c \<longleftrightarrow> (of_char c :: nat) < 32 \<or> (of_char c :: nat) = 127"

definition is_alpha :: "char \<Rightarrow> bool" where
  "is_alpha c \<longleftrightarrow> 65 \<le> (of_char c :: nat) \<and> (of_char c :: nat) \<le> 90
     \<or> 97 \<le> (of_char c :: nat) \<and> (of_char c :: nat) \<le> 122"

text \<open>The part before the first \<open>sep\<close>, and the part after it, if there is one (\<^verbatim>\<open>strings.Cut\<close>).\<close>

fun cut_at :: "char \<Rightarrow> string \<Rightarrow> string \<times> string option" where
  "cut_at sep [] = ([], None)"
| "cut_at sep (c # s) =
     (if c = sep then ([], Some s) else (case cut_at sep s of (a, b) \<Rightarrow> (c # a, b)))"

text \<open>\<open>None\<close> is the error of a URL that starts with a colon.\<close>

fun scheme_loop :: "string \<Rightarrow> string \<Rightarrow> string \<Rightarrow> (string \<times> string) option" where
  "scheme_loop raw acc [] = Some ([], raw)"
| "scheme_loop raw acc (c # s) =
     (if is_alpha c then scheme_loop raw (acc @ [c]) s
      else if is_digit c \<or> c = CHR ''+'' \<or> c = CHR ''-'' \<or> c = CHR ''.'' then
        (if acc = [] then Some ([], raw) else scheme_loop raw (acc @ [c]) s)
      else if c = CHR '':'' then (if acc = [] then None else Some (acc, s))
      else Some ([], raw))"

definition getScheme :: "string \<Rightarrow> (string \<times> string) option" where
  "getScheme raw = scheme_loop raw [] raw"

definition hex_val :: "char \<Rightarrow> nat option" where
  "hex_val c =
     (let n = of_char c :: nat in
      if 48 \<le> n \<and> n \<le> 57 then Some (n - 48)
      else if 97 \<le> n \<and> n \<le> 102 then Some (n - 87)
      else if 65 \<le> n \<and> n \<le> 70 then Some (n - 55) else None)"

fun unescape :: "string \<Rightarrow> string option" where
  "unescape [] = Some []"
| "unescape (c # s) =
     (if c = CHR ''%'' then
        (case s of
           a # b # r \<Rightarrow>
             (case (hex_val a, hex_val b) of
                (Some x, Some y) \<Rightarrow> map_option (\<lambda>t. char_of (16 * x + y) # t) (unescape r)
              | _ \<Rightarrow> None)
         | _ \<Rightarrow> None)
      else map_option (\<lambda>t. c # t) (unescape s))"

definition host_char :: "char \<Rightarrow> bool" where
  "host_char c \<longleftrightarrow> is_alpha c \<or> is_digit c \<or> 128 \<le> (of_char c :: nat)
     \<or> c = CHR 0x22 \<or> c \<in> set ''!$&'' \<or> c = CHR 0x27 \<or> c \<in> set ''()*+,;=:[]<>-_.~''"

definition validOptionalPort :: "string \<Rightarrow> bool" where
  "validOptionalPort p \<longleftrightarrow>
     (case p of [] \<Rightarrow> True | c # ds \<Rightarrow> c = CHR '':'' \<and> list_all is_digit ds)"

text \<open>A plain host has at most one colon, before its port.\<close>

definition parseHost :: "(string \<Rightarrow> string option) \<Rightarrow> string \<Rightarrow> string option" where
  "parseHost special_host host =
     (if HasPrefix host ''['' \<or> CHR ''%'' \<in> set host then special_host host
      else if count_list host (CHR '':'') > 1 then None
      else if \<not> validOptionalPort (dropWhile (\<lambda>c. c \<noteq> CHR '':'') host) then None
      else if list_all host_char host then Some host else None)"

definition user_char :: "char \<Rightarrow> bool" where
  "user_char c \<longleftrightarrow> is_alpha c \<or> is_digit c \<or> c = CHR 0x27
     \<or> c \<in> set ''-._:~!$&()*+,;=%@''"

text \<open>The user information ends at the last \<^verbatim>\<open>@\<close>.\<close>

definition parseAuthority ::
    "(string \<Rightarrow> string option) \<Rightarrow> string \<Rightarrow> (string option \<times> string) option" where
  "parseAuthority special_host authority =
     (let host_rev = takeWhile (\<lambda>c. c \<noteq> CHR ''@'') (rev authority);
          host = rev host_rev;
          user = take (length authority - length host - 1) authority in
      if CHR ''@'' \<notin> set authority then map_option (\<lambda>h. (None, h)) (parseHost special_host authority)
      else (case parseHost special_host host of
              None \<Rightarrow> None
            | Some h \<Rightarrow>
                if \<not> list_all user_char user then None
                else (case unescape user of None \<Rightarrow> None | Some u \<Rightarrow> Some (Some user, h))))"

definition split_query :: "string \<Rightarrow> bool \<times> string \<times> string" where
  "split_query rest =
     (case cut_at (CHR ''?'') rest of
        (a, None) \<Rightarrow> (False, a, [])
      | (a, Some q) \<Rightarrow> (q = [], a, q))"

definition url_parse_nofrag :: "(string \<Rightarrow> string option) \<Rightarrow> string \<Rightarrow> url option" where
  "url_parse_nofrag special_host raw =
     (if list_ex is_ctl raw then None
      else if raw = ''*'' then
        Some \<lparr>Scheme = [], User = None, Host = [], UrlPath = ''*'', ForceQuery = False,
              RawQuery = [], Fragment = []\<rparr>
      else (case getScheme raw of
        None \<Rightarrow> None
      | Some (scheme0, rest0) \<Rightarrow>
          let scheme = ToLower scheme0 in
          (case split_query rest0 of (force, rest, query) \<Rightarrow>
            if \<not> HasPrefix rest ''/'' \<and> scheme \<noteq> [] then
              Some \<lparr>Scheme = scheme, User = None, Host = [], UrlPath = [], ForceQuery = force,
                    RawQuery = query, Fragment = []\<rparr>
            else if \<not> HasPrefix rest ''/'' \<and> CHR '':'' \<in> set (fst (cut_at (CHR ''/'') rest)) then None
            else if (scheme \<noteq> [] \<or> \<not> HasPrefix rest ''///'') \<and> HasPrefix rest ''//'' then
              (let authority = takeWhile (\<lambda>c. c \<noteq> CHR ''/'') (drop 2 rest);
                   path = dropWhile (\<lambda>c. c \<noteq> CHR ''/'') (drop 2 rest) in
               (case parseAuthority special_host authority of
                  None \<Rightarrow> None
                | Some (user, host) \<Rightarrow>
                    map_option (\<lambda>p. \<lparr>Scheme = scheme, User = user, Host = host, UrlPath = p,
                        ForceQuery = force, RawQuery = query, Fragment = []\<rparr>) (unescape path)))
            else
              map_option (\<lambda>p. \<lparr>Scheme = scheme, User = None, Host = [], UrlPath = p,
                  ForceQuery = force, RawQuery = query, Fragment = []\<rparr>) (unescape rest))))"

definition url_Parse :: "(string \<Rightarrow> string option) \<Rightarrow> string \<Rightarrow> url option" where
  "url_Parse special_host raw =
     (case cut_at (CHR ''#'') raw of (u, frag) \<Rightarrow>
        (case url_parse_nofrag special_host u of
           None \<Rightarrow> None
         | Some p \<Rightarrow>
             (case frag of
                None \<Rightarrow> Some p
              | Some f \<Rightarrow> map_option (\<lambda>g. p\<lparr>Fragment := g\<rparr>) (unescape f))))"

text \<open>
  \<^verbatim>\<open>URL.String\<close> for an absolute URL with a host. User information and a fragment are printed as
  they were read; the program only prints such a URL before it refuses it.
\<close>

definition url_String :: "url \<Rightarrow> string" where
  "url_String u =
     Scheme u @ ''://'' @ (case User u of None \<Rightarrow> [] | Some i \<Rightarrow> i @ ''@'') @ Host u @ UrlPath u
       @ (if ForceQuery u \<or> RawQuery u \<noteq> [] then ''?'' @ RawQuery u else [])
       @ (if Fragment u \<noteq> [] then ''#'' @ Fragment u else [])"

section \<open>Absolute https URLs with a plain host\<close>

text \<open>Bytes that stand for themselves in a path: no separator, escape or control byte.\<close>

definition plain_byte :: "char \<Rightarrow> bool" where
  "plain_byte c \<longleftrightarrow> \<not> is_ctl c \<and> c \<notin> set ''/?#%@''"

lemma cut_at_absent: "sep \<notin> set s \<Longrightarrow> cut_at sep s = (s, None)"
  by (induction s) auto

lemma unescape_plain: "CHR ''%'' \<notin> set s \<Longrightarrow> unescape s = Some s"
  by (induction s) auto

lemma getScheme_https: "getScheme (''https://'' @ r) = Some (''https'', ''//'' @ r)"
  by (simp add: getScheme_def is_alpha_def is_digit_def)

lemma takeWhile_host: "CHR ''/'' \<notin> set h \<Longrightarrow> path = [] \<or> hd path = CHR ''/'' \<Longrightarrow>
    takeWhile (\<lambda>c. c \<noteq> CHR ''/'') (h @ path) = h \<and> dropWhile (\<lambda>c. c \<noteq> CHR ''/'') (h @ path) = path"
  by (cases path) (auto simp: takeWhile_append dropWhile_append)

text \<open>A host of host bytes, without escapes, brackets or user information, and with a valid port.\<close>

definition plain_host :: "string \<Rightarrow> bool" where
  "plain_host h \<longleftrightarrow>
     h \<noteq> [] \<and> \<not> HasPrefix h ''['' \<and> list_all (\<lambda>c. host_char c \<and> plain_byte c) h
     \<and> count_list h (CHR '':'') \<le> 1 \<and> validOptionalPort (dropWhile (\<lambda>c. c \<noteq> CHR '':'') h)"

definition plain_path :: "string \<Rightarrow> bool" where
  "plain_path p \<longleftrightarrow>
     (p = [] \<or> hd p = CHR ''/'') \<and> list_all (\<lambda>c. c = CHR ''/'' \<or> plain_byte c) p"

lemma not_plain_byte:
  "\<not> plain_byte (CHR ''#'')" "\<not> plain_byte (CHR ''?'')" "\<not> plain_byte (CHR ''@'')"
  "\<not> plain_byte (CHR ''/'')" "\<not> plain_byte (CHR ''%'')"
  by (simp_all add: plain_byte_def)

lemma url_Parse_https:
  assumes h: "plain_host h" and p: "plain_path p"
  shows "url_Parse sh (''https://'' @ h @ p) =
    Some \<lparr>Scheme = ''https'', User = None, Host = h, UrlPath = p, ForceQuery = False, RawQuery = [],
          Fragment = []\<rparr>"
proof -
  let ?raw = "''https://'' @ h @ p"
  have h_plain: "\<And>c. c \<in> set h \<Longrightarrow> plain_byte c" and p_plain: "\<And>c. c \<in> set p \<Longrightarrow> c = CHR ''/'' \<or> plain_byte c"
    using h p by (auto simp: plain_host_def plain_path_def list_all_iff)
  have sep: "CHR ''#'' \<notin> set ?raw" "CHR ''?'' \<notin> set (''//'' @ h @ p)" "CHR ''@'' \<notin> set h"
      "CHR ''/'' \<notin> set h" "CHR ''%'' \<notin> set h" "CHR ''%'' \<notin> set p"
    using h_plain p_plain not_plain_byte by fastforce+
  have slash: "\<not> is_ctl (CHR ''/'')" by (simp add: is_ctl_def)
  have "list_all (\<lambda>c. \<not> is_ctl c) h" and "list_all (\<lambda>c. \<not> is_ctl c) p"
    using h_plain p_plain slash unfolding list_all_iff plain_byte_def by blast+
  then have ctl: "\<not> list_ex is_ctl ?raw"
    by (auto simp: list_all_iff list_ex_iff is_ctl_def)
  have auth: "parseAuthority sh h = Some (None, h)"
    using h sep(3,5) by (simp add: parseAuthority_def parseHost_def plain_host_def list_all_iff)
  have "url_parse_nofrag sh ?raw = Some \<lparr>Scheme = ''https'', User = None, Host = h, UrlPath = p,
      ForceQuery = False, RawQuery = [], Fragment = []\<rparr>"
    using ctl auth takeWhile_host [OF sep(4), of p] p cut_at_absent [OF sep(2)] unescape_plain [OF sep(6)]
    by (simp add: url_parse_nofrag_def getScheme_https [simplified] split_query_def ToLower_def lower_char_def
        plain_path_def Let_def)
  then show ?thesis by (simp add: url_Parse_def cut_at_absent [OF sep(1), simplified])
qed

declare is_ctl_def [go_eval] is_alpha_def [go_eval] getScheme_def [go_eval] hex_val_def [go_eval]
  host_char_def [go_eval] validOptionalPort_def [go_eval] parseHost_def [go_eval]
  user_char_def [go_eval] parseAuthority_def [go_eval] split_query_def [go_eval]
  url_parse_nofrag_def [go_eval] url_Parse_def [go_eval] url_String_def [go_eval]

end
