(* ===== verification/Config.thy ===== *)
theory Config
  imports Url Errors
begin

text \<open>
  \<^verbatim>\<open>internal/config\<close>: the controller's configuration, its defaults (\<^verbatim>\<open>defaults.go\<close>) and its
  validation (\<^verbatim>\<open>validate.go\<close>). A validation problem is its field with a value of \<open>problem\<close>
  instead of the printed text; the order of the problems is the code's. \<open>validate_iff\<close> shows that
  validation accepts exactly the configurations that satisfy the declarative \<open>valid_config\<close>, and
  \<open>validate_capacity\<close> what the VMID check gives the controller. YAML decoding is outside the model.
\<close>

section \<open>The configuration (config.go)\<close>

record vmid_range =
  RangeStart :: int
  RangeEnd :: int

record worker_hw =
  Cores :: int
  MemoryMiB :: int
  FreeDiskGiB :: int

record scale_set =
  ssName :: string
  Labels :: "string list"
  RunnerGroup :: string
  MinRunners :: int
  MaxRunners :: int
  MaxLifetime :: duration
  ssWorker :: worker_hw

record proxmox_cfg =
  URL :: string
  TokenID :: string
  TokenSecretFile :: string
  CACertFile :: string
  TLSServerName :: string
  TLSFingerprint :: string
  Node :: string
  pxPool :: string
  Storage :: string
  Zone :: string
  VNet :: string
  VMIDRange :: vmid_range
  LinkedClone :: "bool option"

record github_app =
  ClientID :: string
  InstallationID :: int
  PrivateKeyFile :: string

record github_cfg =
  ConfigURL :: string
  App :: github_app

record config =
  cfgProxmox :: proxmox_cfg
  cfgGitHub :: github_cfg
  cfgWorker :: worker_hw
  ScaleSets :: "scale_set list"

section \<open>Defaults (defaults.go)\<close>

definition DefaultCores :: int where "DefaultCores = 2"
definition DefaultMemoryMiB :: int where "DefaultMemoryMiB = 8 * 1024"
definition DefaultFreeDiskGiB :: int where "DefaultFreeDiskGiB = 14"
definition DefaultMaxLifetime :: duration where "DefaultMaxLifetime = 6 * Hour"
definition DefaultZone :: string where "DefaultZone = ''parzone''"
definition DefaultLinkedClone :: bool where "DefaultLinkedClone = True"
definition DefaultRunnerGroup :: string where "DefaultRunnerGroup = ''default''"
definition ReservedVMIDs :: int where "ReservedVMIDs = 4"
definition proxmoxAPIPath :: string where "proxmoxAPIPath = ''/api2/json''"

lemmas default_defs = DefaultCores_def DefaultMemoryMiB_def DefaultFreeDiskGiB_def
  DefaultMaxLifetime_def DefaultZone_def DefaultLinkedClone_def DefaultRunnerGroup_def
  ReservedVMIDs_def proxmoxAPIPath_def

definition UseLinkedClone :: "proxmox_cfg \<Rightarrow> bool" where
  "UseLinkedClone p = (case LinkedClone p of None \<Rightarrow> DefaultLinkedClone | Some b \<Rightarrow> b)"

definition Size :: "vmid_range \<Rightarrow> int" where
  "Size r = (if RangeEnd r < RangeStart r then 0 else wrap64 (RangeEnd r - RangeStart r + 1))"

definition Contains :: "vmid_range \<Rightarrow> int \<Rightarrow> bool" where
  "Contains r i \<longleftrightarrow> i \<ge> RangeStart r \<and> i \<le> RangeEnd r"

definition Workers :: "vmid_range \<Rightarrow> vmid_range" where
  "Workers r = \<lparr>RangeStart = RangeStart r, RangeEnd = wrap64 (RangeEnd r - ReservedVMIDs)\<rparr>"

definition DefaultWorker :: worker_hw where
  "DefaultWorker =
     \<lparr>Cores = DefaultCores, MemoryMiB = DefaultMemoryMiB, FreeDiskGiB = DefaultFreeDiskGiB\<rparr>"

definition withDefaults :: "worker_hw \<Rightarrow> worker_hw \<Rightarrow> worker_hw" where
  "withDefaults w base =
     \<lparr>Cores = (if Cores w = 0 then Cores base else Cores w),
      MemoryMiB = (if MemoryMiB w = 0 then MemoryMiB base else MemoryMiB w),
      FreeDiskGiB = (if FreeDiskGiB w = 0 then FreeDiskGiB base else FreeDiskGiB w)\<rparr>"

definition complete_url :: "(string \<Rightarrow> string option) \<Rightarrow> string \<Rightarrow> string" where
  "complete_url sh raw =
     (case url_Parse sh raw of
        None \<Rightarrow> raw
      | Some u \<Rightarrow>
          if Scheme u = ''https'' \<and> Host u \<noteq> [] \<and> (UrlPath u = [] \<or> UrlPath u = ''/'')
          then url_String (u\<lparr>UrlPath := proxmoxAPIPath\<rparr>) else raw)"

definition scale_set_defaults :: "worker_hw \<Rightarrow> scale_set \<Rightarrow> scale_set" where
  "scale_set_defaults w s =
     s\<lparr>Labels := (if Labels s = [] \<and> ssName s \<noteq> [] then [ssName s] else Labels s),
       RunnerGroup := (if RunnerGroup s = [] then DefaultRunnerGroup else RunnerGroup s),
       MaxLifetime := (if MaxLifetime s = 0 then DefaultMaxLifetime else MaxLifetime s),
       ssWorker := withDefaults (ssWorker s) w\<rparr>"

definition applyDefaults :: "(string \<Rightarrow> string option) \<Rightarrow> config \<Rightarrow> config" where
  "applyDefaults sh c =
     (let p = cfgProxmox c; w = withDefaults (cfgWorker c) DefaultWorker in
      c\<lparr>cfgProxmox := p\<lparr>URL := complete_url sh (URL p),
            Zone := (if Zone p = [] then DefaultZone else Zone p),
            LinkedClone := (case LinkedClone p of None \<Rightarrow> Some DefaultLinkedClone | Some b \<Rightarrow> Some b)\<rparr>,
        cfgGitHub := (cfgGitHub c)\<lparr>ConfigURL := TrimSuffix (ConfigURL (cfgGitHub c)) ''/''\<rparr>,
        cfgWorker := w,
        ScaleSets := map (scale_set_defaults w) (ScaleSets c)\<rparr>)"

section \<open>GitHub targets\<close>

definition trim_slashes :: "string \<Rightarrow> string" where
  "trim_slashes s =
     (let q = (\<lambda>c. c = CHR ''/'') in rev (dropWhile q (rev (dropWhile q s))))"

definition ParseGitHubURL :: "(string \<Rightarrow> string option) \<Rightarrow> string \<Rightarrow> (string \<times> string) option" where
  "ParseGitHubURL sh raw =
     (case url_Parse sh raw of
        None \<Rightarrow> None
      | Some u \<Rightarrow>
          if Scheme u = ''https'' \<and> Host u = ''github.com'' \<and> RawQuery u = [] \<and> Fragment u = []
             \<and> User u = None
          then (case Split (CHR ''/'') (trim_slashes (UrlPath u)) of
                  [a] \<Rightarrow> if a \<noteq> [] then Some (a, []) else None
                | [a, b] \<Rightarrow> if a \<noteq> [] \<and> b \<noteq> [] then Some (a, b) else None
                | _ \<Rightarrow> None)
          else None)"

definition IsRepository :: "(string \<Rightarrow> string option) \<Rightarrow> github_cfg \<Rightarrow> bool" where
  "IsRepository sh g \<longleftrightarrow>
     (case ParseGitHubURL sh (ConfigURL g) of None \<Rightarrow> False | Some (owner, repo) \<Rightarrow> repo \<noteq> [])"

section \<open>Validation (validate.go)\<close>

definition minVMID :: int where "minVMID = 100"
definition MinCores :: int where "MinCores = 1"
definition MinMemoryMiB :: int where "MinMemoryMiB = 1024"
definition minFreeDiskGiB :: int where "minFreeDiskGiB = 1"
definition MinMaxLifetime :: duration where "MinMaxLifetime = 10 * Minute"
definition MaxMaxLifetime :: duration where "MaxMaxLifetime = 5 * 24 * Hour"

lemmas limit_defs = minVMID_def MinCores_def MinMemoryMiB_def minFreeDiskGiB_def
  MinMaxLifetime_def MaxMaxLifetime_def

definition name_first :: "char \<Rightarrow> bool" where
  "name_first c \<longleftrightarrow> is_digit c \<or> 97 \<le> (of_char c :: nat) \<and> (of_char c :: nat) \<le> 122"

definition name_rest :: "char \<Rightarrow> bool" where
  "name_rest c \<longleftrightarrow> name_first c \<or> c = CHR ''.'' \<or> c = CHR ''_'' \<or> c = CHR ''-''"

definition ScaleSetNamePattern :: "string \<Rightarrow> bool" where
  "ScaleSetNamePattern s \<longleftrightarrow>
     (case s of [] \<Rightarrow> False
      | c # cs \<Rightarrow> name_first c \<and> length cs \<le> 62 \<and> list_all name_rest cs)"

datatype problem =
    IsRequired
  | NotAbsolute string
  | LessThan int int
  | NotValidURL string
  | NotHTTPS string
  | WrongPath string
  | CAWithFingerprint
  | StartAfterEnd int int
  | BadGitHubURL string
  | MustNotBeNegative
  | NeedsOneScaleSet
  | BadScaleSetName string
  | NameUsedBy string int
  | LabelUsedBy string string
  | NeedsDefaultGroup
  | MustBeAtLeastOne
  | MinOverMax int int
  | LifetimeOutOfRange duration
  | TooFewVMIDs int int

type_synonym problems = "(string \<times> problem) list"

definition required :: "string \<Rightarrow> string \<Rightarrow> problems" where
  "required field value = (if value = [] then [(field, IsRequired)] else [])"

definition IsAbs :: "string \<Rightarrow> bool" where
  "IsAbs p \<longleftrightarrow> HasPrefix p ''/''"

definition absPath :: "string \<Rightarrow> string \<Rightarrow> problems" where
  "absPath field value =
     (if value = [] then [(field, IsRequired)]
      else if \<not> IsAbs value then [(field, NotAbsolute value)] else [])"

definition atLeast :: "string \<Rightarrow> int \<Rightarrow> int \<Rightarrow> problems" where
  "atLeast field value lo = (if value < lo then [(field, LessThan value lo)] else [])"

definition validate_url :: "(string \<Rightarrow> string option) \<Rightarrow> string \<Rightarrow> problems" where
  "validate_url sh raw =
     (if raw = [] then [(''proxmox.url'', IsRequired)]
      else (case url_Parse sh raw of
              None \<Rightarrow> [(''proxmox.url'', NotValidURL raw)]
            | Some u \<Rightarrow>
                if Scheme u \<noteq> ''https'' \<or> Host u = [] then [(''proxmox.url'', NotHTTPS raw)]
                else if UrlPath u \<noteq> proxmoxAPIPath \<or> RawQuery u \<noteq> [] \<or> Fragment u \<noteq> [] \<or> User u \<noteq> None
                then [(''proxmox.url'', WrongPath raw)] else []))"

definition proxmox_validate :: "(string \<Rightarrow> string option) \<Rightarrow> proxmox_cfg \<Rightarrow> problems" where
  "proxmox_validate sh p =
     validate_url sh (URL p)
     @ required ''proxmox.tokenId'' (TokenID p)
     @ absPath ''proxmox.tokenSecretFile'' (TokenSecretFile p)
     @ (if CACertFile p \<noteq> [] then
          absPath ''proxmox.caCertFile'' (CACertFile p)
          @ (if TLSFingerprint p \<noteq> [] then [(''proxmox.caCertFile'', CAWithFingerprint)] else [])
        else [])
     @ required ''proxmox.node'' (Node p)
     @ required ''proxmox.pool'' (pxPool p)
     @ required ''proxmox.storage'' (Storage p)
     @ required ''proxmox.vnet'' (VNet p)
     @ (let r = VMIDRange p in
        atLeast ''proxmox.vmidRange.start'' (RangeStart r) minVMID
        @ (if RangeStart r > RangeEnd r
           then [(''proxmox.vmidRange'', StartAfterEnd (RangeStart r) (RangeEnd r))] else []))"

definition github_validate :: "(string \<Rightarrow> string option) \<Rightarrow> github_cfg \<Rightarrow> problems" where
  "github_validate sh g =
     (if ConfigURL g \<noteq> [] \<and> ParseGitHubURL sh (ConfigURL g) = None
      then [(''github.configUrl'', BadGitHubURL (ConfigURL g))] else [])
     @ (if InstallationID (App g) < 0 then [(''github.app.installationId'', MustNotBeNegative)] else [])
     @ (if PrivateKeyFile (App g) \<noteq> []
        then absPath ''github.app.privateKeyFile'' (PrivateKeyFile (App g)) else [])"

definition worker_validate :: "worker_hw \<Rightarrow> string \<Rightarrow> problems" where
  "worker_validate w pre =
     atLeast (pre @ ''.cores'') (Cores w) MinCores
     @ atLeast (pre @ ''.memoryMiB'') (MemoryMiB w) MinMemoryMiB
     @ atLeast (pre @ ''.freeDiskGiB'') (FreeDiskGiB w) minFreeDiskGiB"

primrec labels_loop ::
  "string \<Rightarrow> int \<Rightarrow> string list \<Rightarrow> (string \<rightharpoonup> string) \<Rightarrow> problems \<times> (string \<rightharpoonup> string)" where
  "labels_loop pre k [] labels = ([], labels)"
| "labels_loop pre k (l # ls) labels =
     (let key = ToLower l in
      case labels key of
        Some owner \<Rightarrow>
          (let (ps, m) = labels_loop pre (k + 1) ls labels in
           ((pre @ ''.labels['' @ Itoa k @ '']'', LabelUsedBy l owner) # ps, m))
      | None \<Rightarrow> labels_loop pre (k + 1) ls (labels(key \<mapsto> pre)))"

definition name_problems :: "string \<Rightarrow> string \<Rightarrow> (string \<rightharpoonup> int) \<Rightarrow> problems" where
  "name_problems pre name names =
     (if name = [] then [(pre @ ''.name'', IsRequired)]
      else (if ScaleSetNamePattern name then [] else [(pre @ ''.name'', BadScaleSetName name)])
           @ (case names name of Some j \<Rightarrow> [(pre @ ''.name'', NameUsedBy name j)] | None \<Rightarrow> []))"

definition name_taken :: "string \<Rightarrow> int \<Rightarrow> (string \<rightharpoonup> int) \<Rightarrow> (string \<rightharpoonup> int)" where
  "name_taken name i names =
     (if name \<noteq> [] \<and> names name \<noteq> None then names else names(name \<mapsto> i))"

definition scale_set_problems :: "bool \<Rightarrow> string \<Rightarrow> scale_set \<Rightarrow> problems" where
  "scale_set_problems repo pre s =
     (if repo \<and> RunnerGroup s \<noteq> DefaultRunnerGroup then [(pre @ ''.runnerGroup'', NeedsDefaultGroup)] else [])
     @ (if MinRunners s < 0 then [(pre @ ''.minRunners'', MustNotBeNegative)] else [])
     @ (if MaxRunners s < 1 then [(pre @ ''.maxRunners'', MustBeAtLeastOne)] else [])
     @ (if MinRunners s > MaxRunners s
        then [(pre @ ''.minRunners'', MinOverMax (MinRunners s) (MaxRunners s))] else [])
     @ (if MaxLifetime s < MinMaxLifetime \<or> MaxLifetime s > MaxMaxLifetime
        then [(pre @ ''.maxLifetime'', LifetimeOutOfRange (MaxLifetime s))] else [])
     @ worker_validate (ssWorker s) (pre @ ''.worker'')"

primrec scale_sets_loop ::
  "bool \<Rightarrow> int \<Rightarrow> scale_set list \<Rightarrow> (string \<rightharpoonup> int) \<Rightarrow> (string \<rightharpoonup> string) \<Rightarrow> int
   \<Rightarrow> problems \<times> int" where
  "scale_sets_loop repo i [] names labels tot = ([], tot)"
| "scale_sets_loop repo i (s # ss) names labels tot =
     (let pre = ''scaleSets['' @ Itoa i @ '']'';
          (lp, labels') = labels_loop pre 0 (Labels s) labels;
          (rest, tot') = scale_sets_loop repo (i + 1) ss (name_taken (ssName s) i names) labels'
                             (wrap64 (tot + max (MaxRunners s) 0)) in
      (name_problems pre (ssName s) names @ lp @ scale_set_problems repo pre s @ rest, tot'))"

definition capacity_problems :: "vmid_range \<Rightarrow> int \<Rightarrow> problems" where
  "capacity_problems r tot =
     (let need = wrap64 (tot + ReservedVMIDs) in
      if RangeStart r \<ge> minVMID \<and> RangeStart r \<le> RangeEnd r \<and> Size r < need
      then [(''proxmox.vmidRange'', TooFewVMIDs (Size r) need)] else [])"

definition validateScaleSets :: "(string \<Rightarrow> string option) \<Rightarrow> config \<Rightarrow> problems" where
  "validateScaleSets sh c =
     (if ScaleSets c = [] then [(''scaleSets'', NeedsOneScaleSet)]
      else (let (ps, tot) =
                  scale_sets_loop (IsRepository sh (cfgGitHub c)) 0 (ScaleSets c) Map.empty Map.empty 0 in
            ps @ capacity_problems (VMIDRange (cfgProxmox c)) tot))"

definition validate :: "(string \<Rightarrow> string option) \<Rightarrow> config \<Rightarrow> problems" where
  "validate sh c =
     proxmox_validate sh (cfgProxmox c) @ github_validate sh (cfgGitHub c)
     @ worker_validate (cfgWorker c) ''worker'' @ validateScaleSets sh c"

definition RequireGitHubApp :: "config \<Rightarrow> string list" where
  "RequireGitHubApp c =
     (let g = cfgGitHub c; a = App g in
      (if ConfigURL g = [] then [''github.configUrl''] else [])
      @ (if ClientID a = [] then [''github.app.clientId''] else [])
      @ (if InstallationID a = 0 then [''github.app.installationId''] else [])
      @ (if PrivateKeyFile a = [] then [''github.app.privateKeyFile''] else []))"

section \<open>Encoding and parsing (config.go)\<close>

text \<open>
  What the YAML decoder makes of a file: nothing, an error, or a value and whether anything but
  the end of the input follows it.
\<close>

datatype 'a yaml = YamlEOF | YamlError error | YamlDoc 'a bool

datatype config_error =
    ConfigEmpty
  | ConfigDecode error
  | ConfigEncode error
  | NotOneDocument
  | ConfigInvalid problems
  | ConfigRead error
  | ConfigAt string config_error
  | RenderFailed config_error

text \<open>\<open>enc\<close> encodes and closes the YAML document.\<close>

definition config_Marshal :: "(config \<Rightarrow> error + string) \<Rightarrow> config \<Rightarrow> config_error + string" where
  "config_Marshal enc c = (case enc c of Inl e \<Rightarrow> Inl (ConfigEncode e) | Inr data \<Rightarrow> Inr data)"

definition config_Parse ::
  "(string \<Rightarrow> string option) \<Rightarrow> (string \<Rightarrow> config yaml) \<Rightarrow> string \<Rightarrow> config_error + config" where
  "config_Parse sh decode data =
     (case decode data of
        YamlEOF \<Rightarrow> Inl ConfigEmpty
      | YamlError e \<Rightarrow> Inl (ConfigDecode e)
      | YamlDoc c extra \<Rightarrow>
          if extra then Inl NotOneDocument
          else (let d = applyDefaults sh c in
                if validate sh d \<noteq> [] then Inl (ConfigInvalid (validate sh d)) else Inr d))"

definition config_Load ::
  "(string \<Rightarrow> string option) \<Rightarrow> (string \<Rightarrow> config yaml) \<Rightarrow> (string \<Rightarrow> error + string) \<Rightarrow> string
   \<Rightarrow> config_error + config" where
  "config_Load sh decode readFile path =
     (case readFile path of
        Inl e \<Rightarrow> Inl (ConfigRead e)
      | Inr data \<Rightarrow>
          (case config_Parse sh decode data of Inl e \<Rightarrow> Inl (ConfigAt path e) | Inr c \<Rightarrow> Inr c))"

section \<open>What validation accepts\<close>

definition valid_proxmox :: "(string \<Rightarrow> string option) \<Rightarrow> proxmox_cfg \<Rightarrow> bool" where
  "valid_proxmox sh p \<longleftrightarrow>
     (\<exists>u. url_Parse sh (URL p) = Some u \<and> Scheme u = ''https'' \<and> Host u \<noteq> [] \<and> UrlPath u = proxmoxAPIPath
        \<and> RawQuery u = [] \<and> Fragment u = [] \<and> User u = None)
     \<and> IsAbs (TokenSecretFile p)
     \<and> (CACertFile p \<noteq> [] \<longrightarrow> IsAbs (CACertFile p) \<and> TLSFingerprint p = [])
     \<and> [] \<notin> {TokenID p, Node p, pxPool p, Storage p, VNet p}
     \<and> minVMID \<le> RangeStart (VMIDRange p) \<and> RangeStart (VMIDRange p) \<le> RangeEnd (VMIDRange p)"

definition valid_github :: "(string \<Rightarrow> string option) \<Rightarrow> github_cfg \<Rightarrow> bool" where
  "valid_github sh g \<longleftrightarrow>
     (ConfigURL g \<noteq> [] \<longrightarrow> ParseGitHubURL sh (ConfigURL g) \<noteq> None)
     \<and> 0 \<le> InstallationID (App g)
     \<and> (PrivateKeyFile (App g) \<noteq> [] \<longrightarrow> IsAbs (PrivateKeyFile (App g)))"

definition valid_worker :: "worker_hw \<Rightarrow> bool" where
  "valid_worker w \<longleftrightarrow> MinCores \<le> Cores w \<and> MinMemoryMiB \<le> MemoryMiB w \<and> minFreeDiskGiB \<le> FreeDiskGiB w"

definition valid_scale_set :: "bool \<Rightarrow> scale_set \<Rightarrow> bool" where
  "valid_scale_set repo s \<longleftrightarrow>
     ScaleSetNamePattern (ssName s) \<and> (repo \<longrightarrow> RunnerGroup s = DefaultRunnerGroup)
     \<and> 0 \<le> MinRunners s \<and> 1 \<le> MaxRunners s \<and> MinRunners s \<le> MaxRunners s
     \<and> MinMaxLifetime \<le> MaxLifetime s \<and> MaxLifetime s \<le> MaxMaxLifetime
     \<and> valid_worker (ssWorker s)"

definition total_max :: "scale_set list \<Rightarrow> int" where
  "total_max ss = sum_list (map (\<lambda>s. max (MaxRunners s) 0) ss)"

definition valid_config :: "(string \<Rightarrow> string option) \<Rightarrow> config \<Rightarrow> bool" where
  "valid_config sh c \<longleftrightarrow>
     valid_proxmox sh (cfgProxmox c) \<and> valid_github sh (cfgGitHub c) \<and> valid_worker (cfgWorker c)
     \<and> ScaleSets c \<noteq> []
     \<and> list_all (valid_scale_set (IsRepository sh (cfgGitHub c))) (ScaleSets c)
     \<and> distinct (map ssName (ScaleSets c))
     \<and> distinct (map ToLower (concat (map Labels (ScaleSets c))))
     \<and> wrap64 (total_max (ScaleSets c) + ReservedVMIDs) \<le> Size (VMIDRange (cfgProxmox c))"

section \<open>Validation accepts exactly the valid configurations\<close>

lemma required_Nil_iff [simp]: "required f v = [] \<longleftrightarrow> v \<noteq> []"
  by (simp add: required_def)

lemma absPath_Nil_iff [simp]: "absPath f v = [] \<longleftrightarrow> IsAbs v"
  by (cases v) (simp_all add: absPath_def IsAbs_def)

lemma atLeast_Nil_iff [simp]: "atLeast f v lo = [] \<longleftrightarrow> lo \<le> v"
  by (simp add: atLeast_def not_less)

lemma url_Parse_Nil_scheme: "url_Parse sh [] = Some u \<Longrightarrow> Scheme u = []"
  by (auto simp: url_Parse_def url_parse_nofrag_def getScheme_def split_query_def ToLower_def Let_def
      split: if_splits option.splits prod.splits)

lemma validate_url_Nil_iff:
  "validate_url sh raw = [] \<longleftrightarrow>
     (\<exists>u. url_Parse sh raw = Some u \<and> Scheme u = ''https'' \<and> Host u \<noteq> [] \<and> UrlPath u = proxmoxAPIPath
        \<and> RawQuery u = [] \<and> Fragment u = [] \<and> User u = None)" (is "_ \<longleftrightarrow> ?ok")
proof (cases "raw = []")
  case True
  have "\<not> ?ok" using url_Parse_Nil_scheme [of sh] True by fastforce
  then show ?thesis using True by (simp add: validate_url_def)
next
  case False
  then show ?thesis by (auto simp: validate_url_def split: option.split)
qed

lemma proxmox_validate_Nil_iff: "proxmox_validate sh p = [] \<longleftrightarrow> valid_proxmox sh p"
  unfolding proxmox_validate_def valid_proxmox_def
  by (auto simp: validate_url_Nil_iff Let_def)

lemma github_validate_Nil_iff: "github_validate sh g = [] \<longleftrightarrow> valid_github sh g"
  by (auto simp: github_validate_def valid_github_def)

lemma worker_validate_Nil_iff [simp]: "worker_validate w pre = [] \<longleftrightarrow> valid_worker w"
  by (simp add: worker_validate_def valid_worker_def)

lemma labels_loop_Nil_iff:
  "fst (labels_loop pre k ls labels) = [] \<longleftrightarrow>
     distinct (map ToLower ls) \<and> ToLower ` set ls \<inter> dom labels = {}"
  by (induction ls arbitrary: k labels) (auto simp: Let_def split_def domIff split: option.split)

lemma labels_loop_dom:
  "dom (snd (labels_loop pre k ls labels)) = dom labels \<union> ToLower ` set ls"
  by (induction ls arbitrary: k labels)
     (simp_all add: Let_def split_def insert_absorb domI split: option.split)

lemma name_problems_Nil_iff:
  "name_problems pre n names = [] \<longleftrightarrow> ScaleSetNamePattern n \<and> n \<notin> dom names"
  by (cases n) (auto simp: name_problems_def ScaleSetNamePattern_def split: option.split)

lemma name_taken_dom: "dom (name_taken n i names) = insert n (dom names)"
  by (auto simp: name_taken_def)

lemma scale_set_problems_Nil_iff:
  "ScaleSetNamePattern (ssName s) \<and> scale_set_problems repo pre s = [] \<longleftrightarrow> valid_scale_set repo s"
  by (auto simp: scale_set_problems_def valid_scale_set_def not_less)

lemma scale_sets_loop_tot:
  "snd (scale_sets_loop repo i ss names labels (wrap64 t)) = wrap64 (t + total_max ss)"
  by (induction ss arbitrary: i names labels t)
     (simp_all add: total_max_def Let_def split_def wrap64_add add.assoc)

lemma scale_sets_loop_Nil_iff:
  "fst (scale_sets_loop repo i ss names labels t) = [] \<longleftrightarrow>
     list_all (valid_scale_set repo) ss
     \<and> distinct (map ssName ss) \<and> ssName ` set ss \<inter> dom names = {}
     \<and> distinct (map ToLower (concat (map Labels ss)))
     \<and> ToLower ` set (concat (map Labels ss)) \<inter> dom labels = {}"
proof (induction ss arbitrary: i names labels t)
  case Nil
  then show ?case by simp
next
  case (Cons s ss)
  define pre where "pre = ''scaleSets['' @ Itoa i @ '']''"
  define L where "L = ToLower ` set (concat (map Labels ss))"
  have step: "fst (scale_sets_loop repo i (s # ss) names labels t) = [] \<longleftrightarrow>
      name_problems pre (ssName s) names = [] \<and> fst (labels_loop pre 0 (Labels s) labels) = []
      \<and> scale_set_problems repo pre s = []
      \<and> fst (scale_sets_loop repo (i + 1) ss (name_taken (ssName s) i names)
              (snd (labels_loop pre 0 (Labels s) labels)) (wrap64 (t + max (MaxRunners s) 0))) = []"
    by (simp add: Let_def split_def pre_def)
  have dist: "distinct (map ToLower (concat (map Labels (s # ss)))) \<longleftrightarrow>
      distinct (map ToLower (Labels s)) \<and> distinct (map ToLower (concat (map Labels ss)))
      \<and> ToLower ` set (Labels s) \<inter> L = {}"
    unfolding L_def list.map concat.simps map_append distinct_append set_map by (rule refl)
  have img: "ToLower ` set (concat (map Labels (s # ss))) = ToLower ` set (Labels s) \<union> L"
    by (simp add: L_def image_Un)
  show ?case
    unfolding step Cons.IH name_problems_Nil_iff labels_loop_Nil_iff labels_loop_dom name_taken_dom
      dist img L_def [symmetric] scale_set_problems_Nil_iff [of s repo pre, symmetric] list.pred_inject
    by auto
qed

lemma validate_valid: "validate sh c = [] \<longleftrightarrow> valid_config sh c"
proof -
  define repo where "repo = IsRepository sh (cfgGitHub c)"
  have tot: "snd (scale_sets_loop repo 0 (ScaleSets c) Map.empty Map.empty 0) =
      wrap64 (total_max (ScaleSets c))"
    using scale_sets_loop_tot [of repo 0 "ScaleSets c" Map.empty Map.empty 0] by (simp add: wrap64_def)
  have "validateScaleSets sh c = [] \<longleftrightarrow> ScaleSets c \<noteq> []
      \<and> fst (scale_sets_loop repo 0 (ScaleSets c) Map.empty Map.empty 0) = []
      \<and> capacity_problems (VMIDRange (cfgProxmox c)) (wrap64 (total_max (ScaleSets c))) = []"
    using tot by (auto simp: validateScaleSets_def repo_def [symmetric] split_def)
  then show ?thesis
    unfolding validate_def valid_config_def append_is_Nil_conv proxmox_validate_Nil_iff
      github_validate_Nil_iff worker_validate_Nil_iff scale_sets_loop_Nil_iff repo_def [symmetric]
    by (auto simp: capacity_problems_def wrap64_add Let_def not_less valid_proxmox_def split: if_splits)
qed

text \<open>
  C34. Validation of a configuration (with its defaults applied) reports no problem exactly when the
  configuration is valid in the declarative sense: well-formed endpoints and paths, limits kept,
  scale set names and case-folded labels pairwise distinct, and a VMID range large enough for the
  computed total.
\<close>

theorem validate_iff: "validate sh c = [] \<longleftrightarrow> valid_config sh c"
  by (rule validate_valid)

lemma Workers_ids:
  assumes "minVMID \<le> RangeStart r" and "in_int64 (RangeEnd r)" and "RangeStart r \<le> RangeEnd r"
  shows "{i. Contains (Workers r) i} = {RangeStart r..RangeEnd r - ReservedVMIDs}"
  using assms by (auto simp: Contains_def Workers_def ReservedVMIDs_def minVMID_def in_int64_def)

lemma Size_eq:
  assumes "minVMID \<le> RangeStart r" and "in_int64 (RangeEnd r)" and "RangeStart r \<le> RangeEnd r"
  shows "Size r = RangeEnd r - RangeStart r + 1"
  using assms by (simp add: Size_def minVMID_def in_int64_def)

lemma capacity_of_valid:
  assumes "validate sh c = []" and "in_int64 (RangeEnd (VMIDRange (cfgProxmox c)))"
    and "total_max (ScaleSets c) \<le> max_int64 - ReservedVMIDs"
  shows "total_max (ScaleSets c) \<le> int (card {i. Contains (Workers (VMIDRange (cfgProxmox c))) i})"
proof -
  let ?r = "VMIDRange (cfgProxmox c)" and ?t = "total_max (ScaleSets c)"
  have v: "valid_config sh c" using assms(1) by (simp add: validate_valid)
  have r: "minVMID \<le> RangeStart ?r" "RangeStart ?r \<le> RangeEnd ?r"
    using v by (auto simp: valid_config_def valid_proxmox_def)
  have "0 \<le> ?t" by (auto simp: total_max_def intro!: sum_list_nonneg)
  then have "in_int64 (?t + ReservedVMIDs)"
    using assms(3) by (simp add: in_int64_def max_int64_def ReservedVMIDs_def)
  then have "?t + ReservedVMIDs \<le> RangeEnd ?r - RangeStart ?r + 1"
    using v Size_eq [OF r(1) assms(2) r(2)] by (simp add: valid_config_def)
  then show ?thesis using Workers_ids [OF r(1) assms(2) r(2)] by (simp add: \<open>0 \<le> ?t\<close>)
qed

text \<open>
  What the capacity check buys the controller: in an accepted configuration whose total does not
  leave the 64-bit range, the worker part of the VMID range has an ID for every runner that all the
  scale sets may have at once.
\<close>

theorem validate_capacity:
  assumes "validate sh c = []" and "in_int64 (RangeEnd (VMIDRange (cfgProxmox c)))"
    and "total_max (ScaleSets c) \<le> max_int64 - ReservedVMIDs"
  shows "total_max (ScaleSets c) \<le> int (card {i. Contains (Workers (VMIDRange (cfgProxmox c))) i})"
  by (rule capacity_of_valid [OF assms])

section \<open>A concrete configuration\<close>

definition example_scale_set :: "int \<Rightarrow> scale_set" where
  "example_scale_set n =
     \<lparr>ssName = ''par'', Labels = [''par''], RunnerGroup = ''default'', MinRunners = 0, MaxRunners = n,
      MaxLifetime = 21600000000000, ssWorker = DefaultWorker\<rparr>"

definition example_config :: "int \<Rightarrow> config" where
  "example_config n =
     \<lparr>cfgProxmox =
        \<lparr>URL = ''https://h/api2/json'', TokenID = ''t'', TokenSecretFile = ''/s'', CACertFile = [],
         TLSServerName = [], TLSFingerprint = [], Node = ''pve'', pxPool = ''par-runners'',
         Storage = ''zfs'', Zone = ''parzone'', VNet = ''parnet'',
         VMIDRange = \<lparr>RangeStart = 10000, RangeEnd = 10099\<rparr>, LinkedClone = Some True\<rparr>,
      cfgGitHub = \<lparr>ConfigURL = [], App = \<lparr>ClientID = [], InstallationID = 0, PrivateKeyFile = []\<rparr>\<rparr>,
      cfgWorker = DefaultWorker, ScaleSets = [example_scale_set n]\<rparr>"

declare default_defs [go_eval] limit_defs [go_eval] Size_def [go_eval] Contains_def [go_eval]
  Workers_def [go_eval] DefaultWorker_def [go_eval] duration_defs [go_eval] wrap64_def [go_eval]
  name_first_def [go_eval] name_rest_def [go_eval] ScaleSetNamePattern_def [go_eval]
  IsAbs_def [go_eval] trim_slashes_def [go_eval] ParseGitHubURL_def [go_eval] IsRepository_def [go_eval]
  valid_proxmox_def [go_eval] valid_github_def [go_eval] valid_worker_def [go_eval]
  valid_scale_set_def [go_eval] total_max_def [go_eval]
  example_scale_set_def [go_eval] example_config_def [go_eval]

lemma example_parts:
  "ScaleSets (example_config n) = [example_scale_set n]"
  "VMIDRange (cfgProxmox (example_config n)) = \<lparr>RangeStart = 10000, RangeEnd = 10099\<rparr>"
  by (simp_all add: example_config_def)

lemma example_config_proxmox: "valid_proxmox sh (cfgProxmox (example_config n))"
  by (simp add: go_eval)

lemma example_config_github: "valid_github sh (cfgGitHub (example_config n))"
  by (simp add: go_eval)

lemma example_config_not_repo: "\<not> IsRepository sh (cfgGitHub (example_config n))"
  by (simp add: go_eval)

lemma example_config_valid:
  assumes "1 \<le> n" and "wrap64 (n + 4) \<le> 100"
  shows "validate sh (example_config n) = []"
proof -
  have "list_all (valid_scale_set (IsRepository sh (cfgGitHub (example_config n))))
      (ScaleSets (example_config n))"
    using assms(1) example_config_not_repo [of sh n]
    by (simp add: example_config_def go_eval del: wrap64_def)
  moreover have "wrap64 (total_max (ScaleSets (example_config n)) + ReservedVMIDs)
      \<le> Size (VMIDRange (cfgProxmox (example_config n)))"
    using assms by (simp add: example_parts example_scale_set_def total_max_def ReservedVMIDs_def Size_def
        in_int64_def)
  ultimately show ?thesis
    unfolding validate_valid valid_config_def
    using example_config_proxmox [of sh n] example_config_github [of sh n]
    by (simp add: example_config_def example_scale_set_def valid_worker_def DefaultWorker_def
        default_defs limit_defs)
qed

theorem validate_capacity_witness:
  "total_max (ScaleSets (example_config 96))
     \<le> int (card {i. Contains (Workers (VMIDRange (cfgProxmox (example_config 96)))) i})"
proof (rule validate_capacity [where sh = "\<lambda>_. None"])
  show "validate (\<lambda>_. None) (example_config 96) = []"
    by (rule example_config_valid) (simp_all add: wrap64_def)
qed (simp_all add: example_parts example_scale_set_def total_max_def in_int64_def max_int64_def
    ReservedVMIDs_def)


end
