(* ===== verification/Units.thy ===== *)
theory Units
  imports Config
begin

text \<open>
  \<^verbatim>\<open>internal/config/units.go\<close>: memory sizes and worker lifetimes as the operator writes them, with
  the round trips between the two directions, and \<^verbatim>\<open>time.ParseDuration\<close>, on which lifetimes
  rest. \<^verbatim>\<open>ParseDuration\<close> computes the nanoseconds of a decimal fraction in floating point; that
  product is the parameter \<open>frac\<close> (the fraction's digits and the unit), and nothing is assumed of it.
  \<^verbatim>\<open>internal/config/secret.go\<close>, reading a secret file, is here too.
\<close>

section \<open>Memory sizes\<close>

datatype size_error = NeedsSizeUnit | SizeTooLarge | UseGiBOrMiB | UnknownUnit string

definition ParseSize :: "string \<Rightarrow> size_error + int" where
  "ParseSize s =
     (let t = TrimSpace s; num = takeWhile is_digit t; tail = dropWhile is_digit t in
      if num = [] \<or> tail = [] then Inl NeedsSizeUnit
      else (case Atoi num of
        None \<Rightarrow> Inl SizeTooLarge
      | Some n \<Rightarrow>
          (let unit = ToLower (TrimSpace tail) in
           if unit = ''gib'' then (if n > 2147483647 div 1024 then Inl SizeTooLarge else Inr (n * 1024))
           else if unit = ''mib'' then (if n > 2147483647 then Inl SizeTooLarge else Inr n)
           else if unit \<in> set [''gb'', ''g'', ''mb'', ''m'', ''tb'', ''t'', ''tib''] then Inl UseGiBOrMiB
           else Inl (UnknownUnit (TrimSpace tail)))))"

definition FormatMiB :: "int \<Rightarrow> string" where
  "FormatMiB mib =
     (if mib \<noteq> 0 \<and> mib mod 1024 = 0 then Itoa (mib div 1024) @ ''GiB'' else Itoa mib @ ''MiB'')"

section \<open>time.ParseDuration\<close>

fun leadingInt :: "nat \<Rightarrow> string \<Rightarrow> (nat \<times> string) option" where
  "leadingInt x [] = Some (x, [])"
| "leadingInt x (c # s) =
     (if \<not> is_digit c then Some (x, c # s)
      else if x > 922337203685477580 then None
      else (let y = x * 10 + (of_char c - 48) in
            if y > 9223372036854775808 then None else leadingInt y s))"

definition unitMap :: "string \<Rightarrow> nat option" where
  "unitMap = map_of
     [(''ns'', 1), (''us'', 1000), ([CHR 0xC2, CHR 0xB5, CHR ''s''], 1000),
      ([CHR 0xCE, CHR 0xBC, CHR ''s''], 1000), (''ms'', 1000000), (''s'', 1000000000),
      (''m'', 60000000000), (''h'', 3600000000000)]"

definition unit_byte :: "char \<Rightarrow> bool" where
  "unit_byte c \<longleftrightarrow> c \<noteq> CHR ''.'' \<and> \<not> is_digit c"

text \<open>One term of a duration: a number, an optional fraction and a unit.\<close>

definition split_fraction :: "string \<Rightarrow> string \<times> string" where
  "split_fraction s =
     (if s \<noteq> [] \<and> hd s = CHR ''.'' then (takeWhile is_digit (tl s), dropWhile is_digit (tl s)) else ([], s))"

definition term_value :: "(string \<Rightarrow> nat \<Rightarrow> nat) \<Rightarrow> nat \<Rightarrow> string \<Rightarrow> nat \<Rightarrow> nat option" where
  "term_value frac v f unit =
     (if v > 9223372036854775808 div unit then None
      else (let w = v * unit + (if list_ex (\<lambda>c. c \<noteq> CHR ''0'') f then frac f unit else 0) in
            if w > 9223372036854775808 then None else Some w))"

definition duration_term ::
  "(string \<Rightarrow> nat \<Rightarrow> nat) \<Rightarrow> string \<Rightarrow> (nat \<times> string) option" where
  "duration_term frac s =
     (case leadingInt 0 s of
        None \<Rightarrow> None
      | Some (v, s1) \<Rightarrow>
          (case split_fraction s1 of (f, s2) \<Rightarrow>
             let u = takeWhile unit_byte s2; rest = dropWhile unit_byte s2 in
             if length s = length s1 \<and> f = [] then None
             else if u = [] then None
             else (case unitMap u of
                     None \<Rightarrow> None
                   | Some unit \<Rightarrow> map_option (\<lambda>w. (w, rest)) (term_value frac v f unit))))"

lemma leadingInt_length: "leadingInt x s = Some (v, t) \<Longrightarrow> length t \<le> length s"
  by (induction x s rule: leadingInt.induct) (auto simp: Let_def split: if_splits)

lemma split_fraction_length: "split_fraction s = (f, t) \<Longrightarrow> length t \<le> length s"
  using length_dropWhile_le [of is_digit "tl s"]
  by (cases s) (auto simp: split_fraction_def split: if_splits intro: le_trans)

lemma duration_term_shorter: "duration_term frac s = Some (w, rest) \<Longrightarrow> length rest < length s"
proof -
  assume h: "duration_term frac s = Some (w, rest)"
  then obtain v s1 where l: "leadingInt 0 s = Some (v, s1)"
    by (auto simp: duration_term_def split: option.splits)
  obtain f s2 where f: "split_fraction s1 = (f, s2)" by fastforce
  have rest: "rest = dropWhile unit_byte s2" and u: "takeWhile unit_byte s2 \<noteq> []"
    using h l f by (auto simp: duration_term_def Let_def split: option.splits if_splits)
  have "length s2 = length (takeWhile unit_byte s2) + length rest"
    unfolding rest by (metis length_append takeWhile_dropWhile_id)
  moreover have "0 < length (takeWhile unit_byte s2)" using u by blast
  ultimately show ?thesis
    using leadingInt_length [OF l] split_fraction_length [OF f] by linarith
qed

function duration_terms :: "(string \<Rightarrow> nat \<Rightarrow> nat) \<Rightarrow> nat \<Rightarrow> string \<Rightarrow> nat option" where
  "duration_terms frac d s =
     (if s = [] then Some d
      else (case duration_term frac s of
              None \<Rightarrow> None
            | Some (w, rest) \<Rightarrow>
                if d + w > 9223372036854775808 then None else duration_terms frac (d + w) rest))"
  by pat_completeness auto
termination
  by (relation "measure (\<lambda>(frac, d, s). length s)") (auto dest: duration_term_shorter)

declare duration_terms.simps [simp del]

definition ParseDuration :: "(string \<Rightarrow> nat \<Rightarrow> nat) \<Rightarrow> string \<Rightarrow> duration option" where
  "ParseDuration frac orig =
     (let signed = orig \<noteq> [] \<and> (hd orig = CHR ''-'' \<or> hd orig = CHR ''+'');
          neg = orig \<noteq> [] \<and> hd orig = CHR ''-'';
          s = (if signed then tl orig else orig) in
      if s = ''0'' then Some 0
      else if s = [] then None
      else (case duration_terms frac 0 s of
              None \<Rightarrow> None
            | Some d \<Rightarrow>
                if neg then Some (wrap64 (- int d))
                else if d > 9223372036854775807 then None else Some (int d)))"

section \<open>Lifetimes\<close>

datatype lifetime_error = NeedsLifetimeUnit | TooLong | NotWholeMinutes

definition days_prefix :: "string \<Rightarrow> (string \<times> string) option" where
  "days_prefix t =
     (let n = takeWhile is_digit t; r = dropWhile is_digit t in
      if n \<noteq> [] \<and> r \<noteq> [] \<and> hd r = CHR ''d'' then Some (n, tl r) else None)"

text \<open>The days in front, then what \<^verbatim>\<open>ParseDuration\<close> reads of the rest.\<close>

definition lifetime_days :: "string \<Rightarrow> lifetime_error + (duration \<times> string)" where
  "lifetime_days t =
     (case days_prefix t of
        None \<Rightarrow> Inr (0, t)
      | Some (n, rest) \<Rightarrow>
          (case Atoi n of
             None \<Rightarrow> Inl TooLong
           | Some k \<Rightarrow> if k > 1000 then Inl TooLong else Inr (wrap64 (wrap64 (k * 24) * Hour), rest)))"

definition ParseLifetime :: "(string \<Rightarrow> nat \<Rightarrow> nat) \<Rightarrow> string \<Rightarrow> lifetime_error + duration" where
  "ParseLifetime frac s =
     (let t = filter (\<lambda>c. c \<noteq> CHR '' '') (ToLower (TrimSpace s)) in
      if t = [] then Inl NeedsLifetimeUnit
      else (case lifetime_days t of
        Inl e \<Rightarrow> Inl e
      | Inr (d, rest) \<Rightarrow>
          (case (if rest = [] then Some 0 else ParseDuration frac rest) of
             None \<Rightarrow> Inl NeedsLifetimeUnit
           | Some r \<Rightarrow>
               if r < 0 then Inl NeedsLifetimeUnit
               else (let d' = wrap64 (d + r) in
                     if d' mod Minute \<noteq> 0 then Inl NotWholeMinutes else Inr d'))))"

text \<open>Go's integer division and remainder truncate towards zero.\<close>

definition quot :: "int \<Rightarrow> int \<Rightarrow> int" where
  "quot a b = sgn a * (\<bar>a\<bar> div b)"

definition remi :: "int \<Rightarrow> int \<Rightarrow> int" where
  "remi a b = a - b * quot a b"

definition FormatLifetime :: "duration \<Rightarrow> string" where
  "FormatLifetime d =
     (if d > 0 \<and> d mod Day = 0 then Itoa (d div Day) @ ''d''
      else (let h = quot d Hour; m = quot (remi d Hour) Minute in
            if h = 0 then Itoa m @ ''m''
            else if m = 0 then Itoa h @ ''h''
            else Itoa h @ ''h'' @ Itoa m @ ''m''))"

section \<open>Secret files (secret.go)\<close>

text \<open>What \<^verbatim>\<open>os.Stat\<close> and \<^verbatim>\<open>os.ReadFile\<close> say about a path.\<close>

record file_info =
  IsRegular :: bool
  Perm :: nat

datatype secret_error = StatFailed | NotRegular | WrongMode nat | ReadFailed | EmptySecret

definition ReadSecretFile :: "file_info option \<Rightarrow> string option \<Rightarrow> secret_error + string" where
  "ReadSecretFile stat read =
     (case stat of
        None \<Rightarrow> Inl StatFailed
      | Some info \<Rightarrow>
          if \<not> IsRegular info then Inl NotRegular
          else if Perm info mod 64 \<noteq> 0 then Inl (WrongMode (Perm info))
          else (case read of
                  None \<Rightarrow> Inl ReadFailed
                | Some content \<Rightarrow>
                    let secret = TrimSpace content in
                    if secret = [] then Inl EmptySecret else Inr secret))"

section \<open>Round trips\<close>

lemma Itoa_digits: "0 \<le> i \<Longrightarrow> c \<in> set (Itoa i) \<Longrightarrow> is_digit c"
  using Itoa_chars [of c i] FormatInt_no_dash [of i 10] by (auto simp: Itoa_def)

lemma digit_not_space: "is_digit c \<Longrightarrow> \<not> is_space c"
  by (auto simp: is_digit_def is_space_def)

lemma digit_lower: "is_digit c \<Longrightarrow> lower_char c = c"
  by (simp add: is_digit_def lower_char_def)

lemma Itoa_takeWhile:
  assumes "0 \<le> i" and "\<not> is_digit c"
  shows "takeWhile is_digit (Itoa i @ c # r) = Itoa i" and "dropWhile is_digit (Itoa i @ c # r) = c # r"
  using assms Itoa_digits [OF assms(1)] by (simp_all add: takeWhile_append2 dropWhile_append2)

lemma ToLower_Itoa: "0 \<le> i \<Longrightarrow> ToLower (Itoa i) = Itoa i"
  by (simp add: ToLower_def map_idI digit_lower Itoa_digits)

lemma unit_bytes:
  "\<not> is_digit (CHR ''G'')" "\<not> is_digit (CHR ''M'')" "\<not> is_digit (CHR ''h'')" "\<not> is_digit (CHR ''m'')"
  "\<not> is_digit (CHR ''d'')"
  by (simp_all add: is_digit_def)

lemma size_bytes: "\<forall>c\<in>set ''GiB''. \<not> is_space c" "\<forall>c\<in>set ''MiB''. \<not> is_space c"
  by (simp_all add: is_space_def)

lemma size_units:
  "ToLower (TrimSpace ''GiB'') = ''gib''" "ToLower (TrimSpace ''MiB'') = ''mib''"
  by (simp_all add: ToLower_def TrimSpace_def is_space_def lower_char_def char_of_def bit_0)

lemma TrimSpace_Itoa:
  assumes "0 \<le> i" and "\<forall>c\<in>set u. \<not> is_space c"
  shows "TrimSpace (Itoa i @ u) = Itoa i @ u"
  using assms Itoa_digits [OF assms(1)] digit_not_space by (intro TrimSpace_clean) auto

lemma ParseSize_FormatMiB:
  assumes "0 \<le> m" and "m \<le> 2147483647"
  shows "ParseSize (FormatMiB m) = Inr m"
proof (cases "m \<noteq> 0 \<and> m mod 1024 = 0")
  case True
  let ?n = "m div 1024"
  have n: "0 \<le> ?n" "in_int64 ?n" "?n \<le> 2097151" "?n * 1024 = m"
    using assms True by (auto simp: in_int64_def)
  have "ParseSize (Itoa ?n @ ''GiB'') = Inr m"
    unfolding ParseSize_def Let_def TrimSpace_Itoa [OF n(1) size_bytes(1)] Itoa_takeWhile [OF n(1) unit_bytes(1)]
    using n by (simp add: decimal.round_trip size_units)
  with True show ?thesis by (simp add: FormatMiB_def)
next
  case False
  have n: "in_int64 m" using assms by (simp add: in_int64_def)
  have "ParseSize (Itoa m @ ''MiB'') = Inr m"
    unfolding ParseSize_def Let_def TrimSpace_Itoa [OF assms(1) size_bytes(2)]
      Itoa_takeWhile [OF assms(1) unit_bytes(2)]
    using n assms by (simp add: decimal.round_trip size_units)
  with False show ?thesis by (auto simp: FormatMiB_def)
qed

lemma digits_acc_mono: "digits_acc 10 x s = Some n \<Longrightarrow> x \<le> n"
  by (induction s arbitrary: x) (fastforce split: option.splits if_splits)+

lemma leadingInt_digits:
  assumes "digits_acc 10 x s = Some n" and "\<forall>c\<in>set s. is_digit c" and "n \<le> 9223372036854775808"
    and "\<not> is_digit c"
  shows "leadingInt x (s @ c # r) = Some (n, c # r)"
  using assms
proof (induction s arbitrary: x)
  case Nil
  then show ?case by simp
next
  case (Cons a s)
  then have "is_digit a" and v: "digit_val a = Some (of_char a - 48)"
    by (simp_all add: is_digit_def digit_val_def)
  moreover have acc: "digits_acc 10 (x * 10 + (of_char a - 48)) s = Some n"
    using Cons.prems(1) v by (simp split: if_splits)
  moreover have "x * 10 + (of_char a - 48) \<le> n" by (rule digits_acc_mono [OF acc])
  ultimately show ?case using Cons by simp
qed

lemma duration_term_Itoa:
  assumes "0 \<le> i" and "\<not> is_digit c" and "c \<noteq> CHR ''.''" and "unitMap [c] = Some unit" and "0 < unit"
    and "nat i * unit \<le> 9223372036854775807" and "r = [] \<or> \<not> unit_byte (hd r)"
  shows "duration_term frac (Itoa i @ c # r) = Some (nat i * unit, r)"
proof -
  have le: "nat i * 1 \<le> nat i * unit" using assms(5) by (intro mult_le_mono2) simp
  have "digits_acc 10 0 (Itoa i) = Some (nat i)"
    using assms(1) by (simp add: Itoa_def FormatInt_def digits_acc_fmt_nat)
  then have l: "leadingInt 0 (Itoa i @ c # r) = Some (nat i, c # r)"
    using leadingInt_digits [of 0 "Itoa i" "nat i" c r] Itoa_digits [OF assms(1)] assms(2,6) le by simp
  have "nat i \<le> 9223372036854775808 div unit"
    using assms(5,6) by (simp add: less_eq_div_iff_mult_less_eq)
  then have "term_value frac (nat i) [] unit = Some (nat i * unit)"
    using assms(6) by (simp add: term_value_def)
  moreover have "takeWhile unit_byte (c # r) = [c]" "dropWhile unit_byte (c # r) = r"
    using assms(2,3,7) by (cases r; force simp: unit_byte_def)+
  ultimately show ?thesis
    using l assms(3,4) by (simp add: duration_term_def split_fraction_def)
qed

definition lifetime_byte :: "char \<Rightarrow> bool" where
  "lifetime_byte c \<longleftrightarrow> is_digit c \<or> c = CHR ''d'' \<or> c = CHR ''h'' \<or> c = CHR ''m''"

lemma lifetime_byte_facts:
  assumes "lifetime_byte c"
  shows "\<not> is_space c" and "lower_char c = c" and "c \<noteq> CHR '' ''"
  using assms digit_not_space [of c] digit_lower [of c]
  by (auto simp: lifetime_byte_def is_space_def lower_char_def is_digit_def)

lemma lifetime_clean:
  assumes "\<forall>c\<in>set s. lifetime_byte c"
  shows "filter (\<lambda>c. c \<noteq> CHR '' '') (ToLower (TrimSpace s)) = s"
proof -
  have "TrimSpace s = s" using assms lifetime_byte_facts(1) by (intro TrimSpace_clean) blast
  moreover have "ToLower s = s" using assms lifetime_byte_facts(2) by (simp add: ToLower_def map_idI)
  moreover have "filter (\<lambda>c. c \<noteq> CHR '' '') s = s"
    using assms lifetime_byte_facts(3) by (simp add: filter_id_conv)
  ultimately show ?thesis by simp
qed

lemma Itoa_lifetime_bytes: "0 \<le> i \<Longrightarrow> \<forall>c\<in>set (Itoa i). lifetime_byte c"
  using Itoa_digits [of i] by (auto simp: lifetime_byte_def)

lemma unit_values: "unitMap ''h'' = Some 3600000000000" "unitMap ''m'' = Some 60000000000"
  by (simp_all add: unitMap_def)

lemma terms_end: "duration_terms frac d [] = Some d"
  by (simp add: duration_terms.simps)

lemma terms_step:
  assumes "0 \<le> i" and "c = CHR ''h'' \<or> c = CHR ''m''" and "unitMap [c] = Some unit"
    and "d + nat i * unit \<le> 9223372036854775807" and "r = [] \<or> \<not> unit_byte (hd r)"
  shows "duration_terms frac d (Itoa i @ c # r) = duration_terms frac (d + nat i * unit) r"
proof -
  have "duration_term frac (Itoa i @ c # r) = Some (nat i * unit, r)"
    using assms by (intro duration_term_Itoa) (auto simp: unit_values unit_bytes)
  with assms(4) show ?thesis by (subst duration_terms.simps) simp
qed

lemma ParseDuration_digits:
  assumes "0 \<le> i" and "duration_terms frac 0 (Itoa i @ c # r) = Some d" and "d \<le> 9223372036854775807"
  shows "ParseDuration frac (Itoa i @ c # r) = Some (int d)"
proof -
  obtain a as where a: "Itoa i = a # as" by (cases "Itoa i") auto
  then have "is_digit a" using Itoa_digits [OF assms(1), of a] by simp
  then have "a \<noteq> CHR ''-''" and "a \<noteq> CHR ''+''" by (auto simp: is_digit_def)
  with a assms(2,3) show ?thesis by (simp add: ParseDuration_def)
qed

lemma lifetime_no_days:
  assumes "0 \<le> i" and "c = CHR ''h'' \<or> c = CHR ''m''"
  shows "lifetime_days (Itoa i @ c # r) = Inr (0, Itoa i @ c # r)"
proof -
  have nd: "\<not> is_digit c" using assms(2) unit_bytes by auto
  show ?thesis unfolding lifetime_days_def days_prefix_def Itoa_takeWhile [OF assms(1) nd] Let_def
    using assms(2) by auto
qed

text \<open>A printed lifetime without days is read back, whatever terms it has.\<close>

lemma ParseLifetime_terms:
  assumes s: "s = Itoa i @ c # r" and i: "0 \<le> i" and c: "c = CHR ''h'' \<or> c = CHR ''m''"
    and bytes: "\<forall>b\<in>set s. lifetime_byte b"
    and val: "duration_terms frac 0 s = Some (nat d)" and d: "0 \<le> d" "in_int64 d" "d mod Minute = 0"
  shows "ParseLifetime frac s = Inr d"
proof -
  have "ParseDuration frac s = Some (int (nat d))"
    unfolding s using val d by (intro ParseDuration_digits i) (simp_all add: s in_int64_def nat_le_iff)
  moreover have "lifetime_days s = Inr (0, s)" unfolding s by (rule lifetime_no_days [OF i c])
  ultimately show ?thesis
    unfolding ParseLifetime_def lifetime_clean [OF bytes] Let_def using d s by simp
qed

lemma ParseLifetime_days:
  assumes "0 \<le> k" and "k \<le> 1000"
  shows "ParseLifetime frac (Itoa k @ ''d'') = Inr (k * Day)"
proof -
  have bytes: "\<forall>b\<in>set (Itoa k @ ''d''). lifetime_byte b"
    using Itoa_lifetime_bytes [OF assms(1)] by (simp add: lifetime_byte_def)
  have "in_int64 k" "in_int64 (k * 24)" "in_int64 (k * 24 * Hour)"
    using assms by (simp_all add: in_int64_def Hour_def)
  then have "lifetime_days (Itoa k @ ''d'') = Inr (k * Day, [])"
    unfolding lifetime_days_def days_prefix_def Let_def Itoa_takeWhile [OF assms(1) unit_bytes(5)]
    using assms by (simp add: decimal.round_trip Hour_def Day_def)
  moreover have "in_int64 (k * Day)" using assms by (simp add: in_int64_def Day_def)
  moreover have "k * Day mod Minute = 0" by (simp add: Day_def Minute_def mod_mult_eq mod_eq_0_iff_dvd dvd_def)
  ultimately show ?thesis
    unfolding ParseLifetime_def lifetime_clean [OF bytes] Let_def by simp
qed

text \<open>The lifetimes \<open>ParseLifetime\<close> can return from what \<open>FormatLifetime\<close> prints.\<close>

definition printable_lifetime :: "duration \<Rightarrow> bool" where
  "printable_lifetime d \<longleftrightarrow>
     0 \<le> d \<and> in_int64 d \<and> d mod Minute = 0 \<and> (d mod Day = 0 \<longrightarrow> d \<le> 1000 * Day)"

lemma hours_minutes:
  assumes "0 \<le> d" and "d mod Minute = 0"
  shows "d = (d div Hour) * Hour + (d mod Hour div Minute) * Minute"
proof -
  have "d mod Hour mod Minute = d mod Minute" by (simp add: Hour_def Minute_def mod_mod_cancel)
  then have "d mod Hour = (d mod Hour div Minute) * Minute"
    using assms(2) div_mult_mod_eq [of "d mod Hour" Minute] by simp
  then show ?thesis using div_mult_mod_eq [of d Hour] by simp
qed

lemma quot_nonneg: "0 \<le> a \<Longrightarrow> 0 < b \<Longrightarrow> quot a b = a div b"
  by (cases "a = 0") (simp_all add: quot_def)

lemma remi_nonneg: "0 \<le> a \<Longrightarrow> 0 < b \<Longrightarrow> remi a b = a mod b"
  by (simp add: remi_def quot_nonneg minus_mult_div_eq_mod)

lemma FormatLifetime_parts:
  assumes "0 \<le> d" and "\<not> (d > 0 \<and> d mod Day = 0)" and "h = d div Hour" and "m = d mod Hour div Minute"
  shows "FormatLifetime d = (if h = 0 then Itoa m @ ''m'' else if m = 0 then Itoa h @ ''h''
      else Itoa h @ CHR ''h'' # Itoa m @ ''m'')"
proof -
  have "0 < Hour" "0 < Minute" "0 \<le> d mod Hour" by (simp_all add: Hour_def Minute_def)
  then have "quot d Hour = h" "quot (remi d Hour) Minute = m"
    using assms by (simp_all add: quot_nonneg remi_nonneg)
  with assms(2) show ?thesis unfolding FormatLifetime_def Let_def by auto
qed

lemma lifetime_terms_value:
  fixes h m :: int
  assumes hm: "0 \<le> h" "0 \<le> m"
    and bound: "nat h * 3600000000000 + nat m * 60000000000 \<le> 9223372036854775807"
  shows "duration_terms frac 0 (Itoa m @ ''m'') = Some (nat m * 60000000000)"
    and "duration_terms frac 0 (Itoa h @ ''h'') = Some (nat h * 3600000000000)"
    and "duration_terms frac 0 (Itoa h @ CHR ''h'' # Itoa m @ ''m'') =
      Some (nat h * 3600000000000 + nat m * 60000000000)"
proof -
  have "\<not> unit_byte (hd (Itoa m @ ''m''))"
    using Itoa_digits [OF hm(2)] by (cases "Itoa m") (auto simp: unit_byte_def)
  then show "duration_terms frac 0 (Itoa h @ CHR ''h'' # Itoa m @ ''m'') =
      Some (nat h * 3600000000000 + nat m * 60000000000)"
    using bound by (simp add: terms_step [OF hm(1) _ unit_values(1)]
        terms_step [OF hm(2) _ unit_values(2)] terms_end)
qed (use bound in \<open>simp_all add: terms_step [OF hm(1) _ unit_values(1)]
        terms_step [OF hm(2) _ unit_values(2)] terms_end\<close>)

lemma ParseLifetime_FormatLifetime:
  assumes "printable_lifetime d"
  shows "ParseLifetime frac (FormatLifetime d) = Inr d"
proof (cases "d > 0 \<and> d mod Day = 0")
  case True
  have "d div Day \<le> 1000" using assms True by (auto simp: printable_lifetime_def Day_def)
  moreover have "d div Day * Day = d" using True by (auto simp: Day_def)
  ultimately show ?thesis
    using True ParseLifetime_days [of "d div Day" frac] by (simp add: FormatLifetime_def Day_def)
next
  case False
  define h m where "h = d div Hour" and "m = d mod Hour div Minute"
  have d: "0 \<le> d" "in_int64 d" "d mod Minute = 0" using assms by (auto simp: printable_lifetime_def)
  have hm: "0 \<le> h" "0 \<le> m" using d by (simp_all add: h_def m_def Hour_def Minute_def pos_imp_zdiv_nonneg_iff)
  have sum: "d = h * 3600000000000 + m * 60000000000"
    using hours_minutes [OF d(1,3)] by (simp add: h_def m_def Hour_def Minute_def)
  have nat_d: "nat d = nat h * 3600000000000 + nat m * 60000000000"
    using sum hm by (simp add: nat_add_distrib nat_mult_distrib)
  have "nat h * 3600000000000 + nat m * 60000000000 \<le> 9223372036854775807"
    using d(2) unfolding nat_d [symmetric] by (simp add: in_int64_def nat_le_iff)
  note val = lifetime_terms_value [OF hm this]
  note bytes = Itoa_lifetime_bytes [OF hm(1)] Itoa_lifetime_bytes [OF hm(2)]
  note fmt = FormatLifetime_parts [OF d(1) False h_def m_def]
  consider "h = 0" | "h \<noteq> 0" "m = 0" | "h \<noteq> 0" "m \<noteq> 0" by blast
  then show ?thesis
  proof cases
    case 1
    then have "FormatLifetime d = Itoa m @ ''m''" by (simp add: fmt)
    moreover have "duration_terms frac 0 (Itoa m @ ''m'') = Some (nat d)" using val nat_d 1 by simp
    ultimately show ?thesis using ParseLifetime_terms [OF refl hm(2)] bytes d
      by (simp add: lifetime_byte_def)
  next
    case 2
    then have "FormatLifetime d = Itoa h @ ''h''" by (simp add: fmt)
    moreover have "duration_terms frac 0 (Itoa h @ ''h'') = Some (nat d)" using val nat_d 2 by simp
    ultimately show ?thesis using ParseLifetime_terms [OF refl hm(1)] bytes d
      by (simp add: lifetime_byte_def)
  next
    case 3
    then have "FormatLifetime d = Itoa h @ CHR ''h'' # Itoa m @ ''m''" by (simp add: fmt)
    moreover have "duration_terms frac 0 (Itoa h @ CHR ''h'' # Itoa m @ ''m'') = Some (nat d)"
      using val nat_d by simp
    moreover have "\<forall>b\<in>set (Itoa h @ CHR ''h'' # Itoa m @ ''m''). lifetime_byte b"
      using bytes by (auto simp: lifetime_byte_def)
    ultimately show ?thesis using ParseLifetime_terms [OF refl hm(1) _ _ _ d] by simp
  qed
qed

lemma ParseSize_range: "ParseSize s = Inr m \<Longrightarrow> 0 \<le> m \<and> m \<le> 2147483647"
proof -
  assume h: "ParseSize s = Inr m"
  define num where "num = takeWhile is_digit (TrimSpace s)"
  have ne: "num \<noteq> []" using h by (auto simp: ParseSize_def num_def Let_def split: if_splits)
  obtain n where n: "Atoi num = Some n"
    using h by (auto simp: ParseSize_def num_def Let_def split: if_splits option.splits)
  have "is_digit (hd num)" using ne by (auto simp: num_def dest: set_takeWhileD [OF hd_in_set])
  then have "0 \<le> n" using n ne
    by (cases num) (auto simp: ParseInt_def is_digit_def split: if_splits option.splits)
  moreover have "m = n * 1024 \<and> n \<le> 2097151 \<or> m = n \<and> n \<le> 2147483647"
    using h n ne by (auto simp: ParseSize_def num_def [symmetric] Let_def split: if_splits)
  ultimately show "0 \<le> m \<and> m \<le> 2147483647" by auto
qed

definition right :: "'e + 'a \<Rightarrow> 'a option" where
  "right r = (case r of Inl e \<Rightarrow> None | Inr x \<Rightarrow> Some x)"

interpretation sizes: codec FormatMiB "\<lambda>s. right (ParseSize s)" "\<lambda>m. 0 \<le> m \<and> m \<le> 2147483647"
  by unfold_locales (simp add: ParseSize_FormatMiB right_def)

interpretation lifetimes: codec FormatLifetime "\<lambda>s. right (ParseLifetime frac s)" printable_lifetime
  for frac
  by unfold_locales (simp add: ParseLifetime_FormatLifetime right_def)

section \<open>Properties\<close>

text \<open>
  Every memory size the settings accept is read back from its printed form, so rewriting the
  settings never changes a worker's memory.
\<close>

theorem size_round_trip:
  assumes "0 \<le> m" and "m \<le> 2147483647"
  shows "ParseSize (FormatMiB m) = Inr m"
  using sizes.round_trip [of m] assms by (auto simp: right_def split: sum.splits)

theorem size_round_trip_witness:
  "ParseSize (FormatMiB 8192) = Inr 8192 \<and> ParseSize (FormatMiB 1500) = Inr 1500"
  using size_round_trip [of 8192] size_round_trip [of 1500] by simp

text \<open>
  Every worker lifetime in whole minutes that fits in 64 bits, and is at most 1000 days when it
  is a whole number of days, is read back from its printed form, and different lifetimes print
  differently.
\<close>

theorem lifetime_round_trip:
  assumes "printable_lifetime d" and "printable_lifetime e"
  shows "ParseLifetime frac (FormatLifetime d) = Inr d \<and> (FormatLifetime d = FormatLifetime e \<longleftrightarrow> d = e)"
  using lifetimes.round_trip [OF assms(1), of frac] lifetimes.enc_eq_iff [OF assms]
  by (auto simp: right_def split: sum.splits)

theorem lifetime_round_trip_witness:
  "ParseLifetime (\<lambda>_ _. 0) (FormatLifetime (90 * Minute)) = Inr (90 * Minute)
   \<and> FormatLifetime (90 * Minute) \<noteq> FormatLifetime (2 * Day)"
proof -
  have "printable_lifetime (90 * Minute)" and "printable_lifetime (2 * Day)"
    by (simp_all add: printable_lifetime_def in_int64_def Minute_def Day_def)
  then show ?thesis using lifetime_round_trip [of "90 * Minute" "2 * Day" "\<lambda>_ _. 0"]
    by (simp add: Minute_def Day_def)
qed

declare ParseSize_def [go_eval] FormatMiB_def [go_eval] quot_def [go_eval] remi_def [go_eval]
  FormatLifetime_def [go_eval] ReadSecretFile_def [go_eval]

end
