(* ===== verification/Naming.thy ===== *)
theory Naming
  imports Vmtags Config
begin

text \<open>
  \<^verbatim>\<open>internal/controller/naming.go\<close>: a worker's name and tags, and reading its identity back from
  them. All durable state of the controller lives in these tags, so \<open>worker_tags_round_trip\<close>, through
  Proxmox's own rewriting of a tag string, is what lets a restarted controller adopt its workers.
\<close>

definition JITConfigPath :: string where "JITConfigPath = ''/run/par-runner/jitconfig''"
definition JITReadyPath :: string where "JITReadyPath = ''/run/par-runner/ready''"

definition workerName :: "vmid \<Rightarrow> time \<Rightarrow> string" where
  "workerName vid created = ''par-'' @ Itoa vid @ ''-'' @ FormatInt (unix_of created) 36"

definition workerTags :: "string \<Rightarrow> time \<Rightarrow> vmid \<Rightarrow> bool \<Rightarrow> string list" where
  "workerTags scaleSet created templateVMID ready =
     [Managed, Worker, ScaleSetPrefix @ scaleSet, CreatedPrefix @ FormatInt (unix_of created) 10,
      TemplateRefPrefix @ Itoa templateVMID] @ (if ready then [Ready] else [])"

record worker =
  wVM :: vm
  wName :: string
  wScaleSet :: string
  wCreated :: time
  wReady :: bool

datatype worker_error = InvalidCreationTag vmid string | NoScaleSetOrCreation vmid

fun parse_tags :: "vmid \<Rightarrow> string list \<Rightarrow> string \<Rightarrow> time \<Rightarrow> worker_error + (string \<times> time)" where
  "parse_tags vid [] scaleSet created = Inr (scaleSet, created)"
| "parse_tags vid (tag # tags) scaleSet created =
     (if HasPrefix tag ScaleSetPrefix then parse_tags vid tags (TrimPrefix tag ScaleSetPrefix) created
      else if HasPrefix tag CreatedPrefix then
        (case ParseInt (TrimPrefix tag CreatedPrefix) of
           None \<Rightarrow> Inl (InvalidCreationTag vid tag)
         | Some sec \<Rightarrow> parse_tags vid tags scaleSet (time_Unix sec))
      else parse_tags vid tags scaleSet created)"

definition parseWorker :: "vm \<Rightarrow> worker_error + worker" where
  "parseWorker v =
     (case parse_tags (VMID v) (Tags v) [] 0 of
        Inl e \<Rightarrow> Inl e
      | Inr (scaleSet, created) \<Rightarrow>
          if scaleSet = [] \<or> created = 0 then Inl (NoScaleSetOrCreation (VMID v))
          else Inr \<lparr>wVM = v, wName = workerName (VMID v) created, wScaleSet = scaleSet,
                    wCreated = created, wReady = HasTag v Ready\<rparr>)"

section \<open>What a parsed worker says\<close>

lemma parseWorker_fields:
  assumes "parseWorker v = Inr w"
  shows "wVM w = v" and "wName w = workerName (VMID v) (wCreated w)" and "wScaleSet w \<noteq> []"
    and "wCreated w \<noteq> 0" and "wReady w \<longleftrightarrow> HasTag v Ready"
  using assms by (auto simp: parseWorker_def split: sum.splits if_splits)

section \<open>Names are unique\<close>

lemma append_sep_inj:
  "c \<notin> set a \<Longrightarrow> c \<notin> set b \<Longrightarrow> a @ c # x = b @ c # y \<longleftrightarrow> a = b \<and> x = y"
proof (induction a arbitrary: b)
  case Nil
  then show ?case by (cases b) auto
next
  case (Cons d a)
  then show ?case by (cases b) auto
qed

lemma workerName_inj:
  assumes "0 \<le> i" and "0 \<le> j"
  shows "workerName i t = workerName j u \<longleftrightarrow> i = j \<and> unix_of t = unix_of u"
proof -
  have "CHR ''-'' \<notin> set (Itoa i)" "CHR ''-'' \<notin> set (Itoa j)"
    using assms by (simp_all add: Itoa_def FormatInt_no_dash)
  then have "workerName i t = workerName j u \<longleftrightarrow>
      Itoa i = Itoa j \<and> FormatInt (unix_of t) 36 = FormatInt (unix_of u) 36"
    by (simp add: workerName_def append_sep_inj)
  then show ?thesis using Itoa_inj [of i j] FormatInt_inj [of 36 "unix_of t" "unix_of u"] by auto
qed

section \<open>Tags are read back\<close>

text \<open>A creation time the controller uses: whole seconds within Go's range, and not the zero time.\<close>

definition creation_time :: "time \<Rightarrow> bool" where
  "creation_time t \<longleftrightarrow> t mod Second = 0 \<and> in_int64 (t div Second) \<and> t \<noteq> 0"

lemma time_Unix_unix_of:
  assumes "t mod Second = 0" and "in_int64 (t div Second)"
  shows "time_Unix (unix_of t) = t"
proof -
  have "wrap64 (unix_of t + unixToInternal) = t div Second"
    using assms(2) wrap64_add [of "t div Second - unixToInternal" unixToInternal] by (simp add: unix_of_def)
  with assms(1) show ?thesis by (auto simp: time_Unix_def Second_def)
qed

lemma in_int64_unix_of [simp]: "in_int64 (unix_of t)"
  by (simp add: unix_of_def)

lemma plain_tags_no_prefix:
  assumes "tag \<in> {Managed, Worker, Ready, TemplateRefPrefix @ x}"
  shows "\<not> HasPrefix tag ScaleSetPrefix" and "\<not> HasPrefix tag CreatedPrefix"
  using assms by (auto simp: tag_defs)

lemma parse_tags_known:
  assumes "set tags \<subseteq> set (workerTags s t tpl r)" and "creation_time t"
  shows "parse_tags vid tags s0 t0 =
    Inr (if ScaleSetPrefix @ s \<in> set tags then s else s0,
         if CreatedPrefix @ FormatInt (unix_of t) 10 \<in> set tags then t else t0)"
  using assms(1)
proof (induction tags arbitrary: s0 t0)
  case Nil
  then show ?case by simp
next
  case (Cons tag tags)
  let ?ss = "ScaleSetPrefix @ s" and ?cr = "CreatedPrefix @ FormatInt (unix_of t) 10"
  have ne: "?ss \<noteq> ?cr" "\<not> HasPrefix ?cr ScaleSetPrefix" by (simp_all add: tag_defs)
  have time: "time_Unix (unix_of t) = t"
    using assms(2) by (simp add: creation_time_def time_Unix_unix_of)
  have dec: "ParseInt (FormatInt (unix_of t) 10) = Some (unix_of t)"
    using decimal.round_trip [of "unix_of t"] by (simp add: Itoa_def)
  from Cons.prems consider "tag = ?ss" | "tag = ?cr"
    | "tag \<in> {Managed, Worker, Ready, TemplateRefPrefix @ Itoa tpl}"
    by (auto simp: workerTags_def split: if_splits)
  then show ?case
  proof cases
    case 1
    with Cons ne(1) show ?thesis by simp
  next
    case 2
    with Cons ne time dec show ?thesis by simp
  next
    case 3
    moreover have "tag \<noteq> ?ss" "tag \<noteq> ?cr" using plain_tags_no_prefix [OF 3] by auto
    ultimately show ?thesis using Cons plain_tags_no_prefix [OF 3] by simp
  qed
qed

lemma parseWorker_workerTags:
  assumes "set (Tags v) = set (workerTags s t tpl r)" and "s \<noteq> []" and "creation_time t"
  shows "parseWorker v = Inr \<lparr>wVM = v, wName = workerName (VMID v) t, wScaleSet = s, wCreated = t, wReady = r\<rparr>"
proof -
  have "parse_tags (VMID v) (Tags v) [] 0 = Inr (s, t)"
    using parse_tags_known [of "Tags v" s t tpl r] assms by (simp add: workerTags_def)
  moreover have "Ready \<in> set (workerTags s t tpl r) \<longleftrightarrow> r"
    by (auto simp: workerTags_def tag_defs)
  ultimately show ?thesis using assms by (simp add: parseWorker_def creation_time_def)
qed

lemma digit_not_sep: "is_digit c \<Longrightarrow> \<not> tag_sep c"
  by (auto simp: is_digit_def tag_sep_def)

lemma name_rest_not_sep: "name_rest c \<Longrightarrow> \<not> tag_sep c"
  by (auto simp: name_rest_def name_first_def is_digit_def tag_sep_def)

lemma ScaleSetNamePattern_clean: "ScaleSetNamePattern s \<Longrightarrow> clean_tag s"
  using name_rest_not_sep
  by (cases s) (auto simp: ScaleSetNamePattern_def clean_tag_def list_all_iff name_rest_def)

lemma clean_tag_prefixed:
  "list_all (\<lambda>c. \<not> tag_sep c) pre \<Longrightarrow> \<forall>c\<in>set s. \<not> tag_sep c \<Longrightarrow> s \<noteq> [] \<Longrightarrow> clean_tag (pre @ s)"
  by (auto simp: clean_tag_def list_all_iff)

lemma Itoa_not_sep: "\<forall>c\<in>set (Itoa i). \<not> tag_sep c"
  using Itoa_chars [of _ i] digit_not_sep by (fastforce simp: tag_sep_def)

lemma prefixes_not_sep:
  "list_all (\<lambda>c. \<not> tag_sep c) ScaleSetPrefix" "list_all (\<lambda>c. \<not> tag_sep c) CreatedPrefix"
  "list_all (\<lambda>c. \<not> tag_sep c) TemplateRefPrefix" "clean_tag Managed" "clean_tag Worker" "clean_tag Ready"
  by (simp_all add: tag_defs tag_sep_def clean_tag_def)

lemma workerTags_clean:
  assumes "ScaleSetNamePattern s"
  shows "list_all clean_tag (workerTags s t tpl r)"
proof -
  have "clean_tag (ScaleSetPrefix @ s)"
    using ScaleSetNamePattern_clean [OF assms] prefixes_not_sep(1)
    by (intro clean_tag_prefixed) (auto simp: clean_tag_def)
  moreover have "clean_tag (CreatedPrefix @ Itoa (unix_of t))" "clean_tag (TemplateRefPrefix @ Itoa tpl)"
    by (intro clean_tag_prefixed prefixes_not_sep Itoa_not_sep Itoa_not_Nil)+
  ultimately show ?thesis using prefixes_not_sep by (simp add: workerTags_def Itoa_def [symmetric])
qed

section \<open>Properties\<close>

text \<open>
  The tags the controller writes on a worker identify it completely: when Proxmox lists a VM whose tag
  string holds the same tags, in any order and with any separators Proxmox uses, the controller reads
  back the scale set, the creation time, the readiness and with them the runner's name.
\<close>

theorem worker_tags_round_trip:
  assumes "ScaleSetNamePattern s" and "creation_time t"
    and "set (ParseTags (rTags r)) = set (ParseTags (FormatTags (workerTags s t tpl ready)))"
  shows "parseWorker (vm_of_resource r) =
    Inr \<lparr>wVM = vm_of_resource r, wName = workerName (rVMID r) t, wScaleSet = s, wCreated = t, wReady = ready\<rparr>"
proof -
  have "set (Tags (vm_of_resource r)) = set (workerTags s t tpl ready)"
    using assms(3) ParseTags_FormatTags [OF workerTags_clean [OF assms(1)], of t tpl ready]
    by (simp add: vm_of_resource_def)
  moreover have "s \<noteq> []" using assms(1) by (auto simp: ScaleSetNamePattern_def)
  ultimately show ?thesis
    using parseWorker_workerTags [OF _ _ assms(2)] by (simp add: vm_of_resource_def)
qed

definition example_time :: time where "example_time = 63870000000000000000"

definition example_worker_resource :: resource where
  "example_worker_resource =
     \<lparr>rType = ''qemu'', rVMID = 10001, rName = ''w'', rNode = ''pve'', rPool = ''par-runners'',
      rTags = FormatTags (rev (workerTags ''par'' example_time 10097 True)), rTemplate = False,
      rStatus = ''running'', rMaxDisk = 0, rMaxMem = 0\<rparr>"

lemma example_name: "ScaleSetNamePattern ''par''"
  by (simp add: ScaleSetNamePattern_def name_first_def name_rest_def is_digit_def)

lemma example_time_ok: "creation_time example_time"
  by (simp add: creation_time_def example_time_def Second_def in_int64_def)

theorem worker_tags_round_trip_witness:
  "parseWorker (vm_of_resource example_worker_resource) =
     Inr \<lparr>wVM = vm_of_resource example_worker_resource, wName = workerName 10001 example_time,
          wScaleSet = ''par'', wCreated = example_time, wReady = True\<rparr>"
proof -
  let ?tags = "workerTags ''par'' example_time 10097 True"
  have clean: "list_all clean_tag ?tags" "list_all clean_tag (rev ?tags)"
    using workerTags_clean [OF example_name] by (simp_all add: list_all_iff)
  have "set (ParseTags (rTags example_worker_resource)) = set (ParseTags (FormatTags ?tags))"
    by (simp add: example_worker_resource_def ParseTags_FormatTags clean)
  then show ?thesis
    using worker_tags_round_trip [OF example_name example_time_ok]
    by (simp add: example_worker_resource_def)
qed

text \<open>
  Two workers share a runner name only if they have the same VMID and were created in the same
  second, so a VMID that is used again never gives its runner a name GitHub may still know.
\<close>

theorem worker_names_unique:
  assumes "0 \<le> i" and "0 \<le> j" and "creation_time t" and "creation_time u"
  shows "workerName i t = workerName j u \<longleftrightarrow> i = j \<and> t = u"
  using workerName_inj [OF assms(1,2), of t u] assms(3,4) time_Unix_unix_of
  by (metis creation_time_def)

theorem worker_names_unique_witness:
  "workerName 10001 example_time \<noteq> workerName 10001 (example_time + Second)"
  using worker_names_unique [of 10001 10001 example_time "example_time + Second"]
  by (simp add: creation_time_def example_time_def Second_def in_int64_def)

declare workerName_def [go_eval] workerTags_def [go_eval] parseWorker_def [go_eval]

end
