(* ===== verification/Scaleset.thy ===== *)
theory Scaleset
  imports Naming
begin

text \<open>
  \<^verbatim>\<open>internal/controller/scaleset.go\<close>: what one scale set knows of GitHub's wishes. The listener's
  callbacks record into it and say whether the reconcile loop is to be woken. The mutex makes every
  method atomic, so each is one function on the state. \<^verbatim>\<open>map[string]bool\<close> only ever holds
  \<^verbatim>\<open>true\<close> and is a set.
\<close>

section \<open>The state\<close>

record job =
  JobID :: string
  RunnerName :: string
  RunnerID :: int

record stats =
  AvailableJobs :: int
  AcquiredJobs :: int
  AssignedJobs :: int
  RunningJobs :: int
  RegisteredRunners :: int
  BusyRunners :: int
  IdleRunners :: int

record scaleSetState =
  sCfg :: scale_set
  sId :: int
  sDesired :: int
  sKnown :: bool
  sBusy :: "string set"
  sRetryAfter :: time
  sSessionOpen :: bool
  sSessionSince :: time
  sSessionErr :: string
  sStats :: "stats option"

definition newScaleSetState :: "scale_set \<Rightarrow> scaleSetState" where
  "newScaleSetState cfg =
     \<lparr>sCfg = cfg, sId = 0, sDesired = 0, sKnown = False, sBusy = {}, sRetryAfter = 0,
      sSessionOpen = False, sSessionSince = 0, sSessionErr = [], sStats = None\<rparr>"

section \<open>The listener's callbacks\<close>

definition SessionOpened :: "time \<Rightarrow> scaleSetState \<Rightarrow> scaleSetState" where
  "SessionOpened now s = s\<lparr>sSessionOpen := True, sSessionSince := now, sSessionErr := []\<rparr>"

definition SessionEnded :: "time \<Rightarrow> string \<Rightarrow> scaleSetState \<Rightarrow> scaleSetState" where
  "SessionEnded now err s = s\<lparr>sSessionOpen := False, sSessionSince := now, sSessionErr := err\<rparr>"

definition RecordStats :: "stats \<Rightarrow> scaleSetState \<Rightarrow> scaleSetState" where
  "RecordStats st s = s\<lparr>sStats := Some st\<rparr>"

text \<open>The answer to GitHub, whether the loop is woken, and the new state.\<close>

definition DesiredRunners :: "int \<Rightarrow> scaleSetState \<Rightarrow> int \<times> bool \<times> scaleSetState" where
  "DesiredRunners assignedJobs s =
     (let target = min (MaxRunners (sCfg s)) (wrap64 (MinRunners (sCfg s) + assignedJobs));
          changed = (\<not> sKnown s \<or> sDesired s \<noteq> target) in
      (target, changed, s\<lparr>sDesired := target, sKnown := True\<rparr>))"

definition JobStarted :: "job \<Rightarrow> scaleSetState \<Rightarrow> scaleSetState" where
  "JobStarted j s = s\<lparr>sBusy := insert (RunnerName j) (sBusy s)\<rparr>"

definition JobCompleted :: "job \<Rightarrow> scaleSetState \<Rightarrow> scaleSetState" where
  "JobCompleted j s = s\<lparr>sBusy := sBusy s - {RunnerName j}\<rparr>"

section \<open>What the loop reads and records\<close>

definition target :: "scaleSetState \<Rightarrow> int \<times> bool" where
  "target s = (sDesired s, sKnown s)"

definition hasJob :: "string \<Rightarrow> scaleSetState \<Rightarrow> bool" where
  "hasJob runner s \<longleftrightarrow> runner \<in> sBusy s"

definition markRunning :: "string \<Rightarrow> scaleSetState \<Rightarrow> scaleSetState" where
  "markRunning runner s = s\<lparr>sBusy := insert runner (sBusy s)\<rparr>"

definition forget :: "string \<Rightarrow> scaleSetState \<Rightarrow> scaleSetState" where
  "forget runner s = s\<lparr>sBusy := sBusy s - {runner}\<rparr>"

definition backOff :: "time \<Rightarrow> scaleSetState \<Rightarrow> scaleSetState" where
  "backOff till s = s\<lparr>sRetryAfter := till\<rparr>"

definition canCreate :: "time \<Rightarrow> scaleSetState \<Rightarrow> bool" where
  "canCreate now s \<longleftrightarrow> \<not> now < sRetryAfter s"

lemmas scale_set_ops = SessionOpened_def SessionEnded_def RecordStats_def JobStarted_def
  JobCompleted_def markRunning_def forget_def backOff_def

section \<open>Events\<close>

text \<open>Everything that happens to a scale set between two passes, as one list of events.\<close>

datatype event =
    Opened time
  | Ended time string
  | Stats stats
  | Desired int
  | Started job
  | Completed job
  | Marked string
  | Forgot string
  | BackedOff time

fun apply_event :: "event \<Rightarrow> scaleSetState \<Rightarrow> scaleSetState" where
  "apply_event (Opened t) s = SessionOpened t s"
| "apply_event (Ended t e) s = SessionEnded t e s"
| "apply_event (Stats st) s = RecordStats st s"
| "apply_event (Desired n) s = snd (snd (DesiredRunners n s))"
| "apply_event (Started j) s = JobStarted j s"
| "apply_event (Completed j) s = JobCompleted j s"
| "apply_event (Marked r) s = markRunning r s"
| "apply_event (Forgot r) s = forget r s"
| "apply_event (BackedOff t) s = backOff t s"

definition run_events :: "event list \<Rightarrow> scaleSetState \<Rightarrow> scaleSetState" where
  "run_events es s = fold apply_event es s"

lemma apply_event_cfg [simp]: "sCfg (apply_event e s) = sCfg s" "sId (apply_event e s) = sId s"
  by (cases e; simp add: scale_set_ops DesiredRunners_def Let_def)+

text \<open>Events that put a runner into, or take it out of, the jobs the scale set knows of.\<close>

fun takes_job :: "string \<Rightarrow> event \<Rightarrow> bool option" where
  "takes_job r (Started j) = (if RunnerName j = r then Some True else None)"
| "takes_job r (Marked x) = (if x = r then Some True else None)"
| "takes_job r (Completed j) = (if RunnerName j = r then Some False else None)"
| "takes_job r (Forgot x) = (if x = r then Some False else None)"
| "takes_job r _ = None"

lemma hasJob_apply_event:
  "hasJob r (apply_event e s) = (case takes_job r e of Some b \<Rightarrow> b | None \<Rightarrow> hasJob r s)"
  by (cases e) (auto simp: hasJob_def scale_set_ops DesiredRunners_def Let_def)

text \<open>The last event about a runner decides.\<close>

fun last_word :: "string \<Rightarrow> event list \<Rightarrow> bool option" where
  "last_word r [] = None"
| "last_word r (e # es) = (case last_word r es of Some b \<Rightarrow> Some b | None \<Rightarrow> takes_job r e)"

lemma hasJob_run_events:
  "hasJob r (run_events es s) = (case last_word r es of Some b \<Rightarrow> b | None \<Rightarrow> hasJob r s)"
  by (induction es arbitrary: s)
     (auto simp: run_events_def hasJob_apply_event split: option.splits)

lemma DesiredRunners_target:
  assumes "0 \<le> MinRunners (sCfg s)" and "MinRunners (sCfg s) \<le> MaxRunners (sCfg s)"
    and "0 \<le> n" and "in_int64 (MinRunners (sCfg s) + n)"
  shows "fst (DesiredRunners n s) = min (MaxRunners (sCfg s)) (MinRunners (sCfg s) + n)"
  using assms by (simp add: DesiredRunners_def Let_def)

definition target_bounded :: "scaleSetState \<Rightarrow> bool" where
  "target_bounded s \<longleftrightarrow> sDesired s \<le> max 0 (MaxRunners (sCfg s))"

lemma target_bounded_new [simp]: "target_bounded (newScaleSetState cfg)"
  by (simp add: target_bounded_def newScaleSetState_def)

lemma target_bounded_event [simp]: "target_bounded s \<Longrightarrow> target_bounded (apply_event e s)"
  by (cases e) (auto simp: target_bounded_def scale_set_ops DesiredRunners_def Let_def)

section \<open>Properties\<close>

text \<open>
  Whatever the listener and the loop report, in whatever order, a scale set's target never exceeds
  its \<^verbatim>\<open>maxRunners\<close>, and a runner counts as in a job exactly when the last event about it put it there.
\<close>

theorem scale_set_events:
  "target_bounded (run_events es (newScaleSetState cfg))
   \<and> (hasJob r (run_events es (newScaleSetState cfg)) \<longleftrightarrow> last_word r es = Some True)"
proof
  have "target_bounded s \<Longrightarrow> target_bounded (fold apply_event es s)" for s
    by (induction es arbitrary: s) auto
  then show "target_bounded (run_events es (newScaleSetState cfg))" by (simp add: run_events_def)
  show "hasJob r (run_events es (newScaleSetState cfg)) \<longleftrightarrow> last_word r es = Some True"
  proof -
    have "\<not> hasJob r (newScaleSetState cfg)" by (simp add: hasJob_def newScaleSetState_def)
    then show ?thesis unfolding hasJob_run_events by (auto split: option.split)
  qed
qed

text \<open>
  The answer to GitHub's count of assigned jobs is one runner per job on top of
  \<^verbatim>\<open>minRunners\<close>, never less than \<^verbatim>\<open>minRunners\<close> and never more than \<^verbatim>\<open>maxRunners\<close>; the loop is
  woken exactly when the recorded target changes or becomes known.
\<close>

theorem desired_runners_answer:
  assumes "0 \<le> MinRunners (sCfg s)" and "MinRunners (sCfg s) \<le> MaxRunners (sCfg s)"
    and "0 \<le> n" and "in_int64 (MinRunners (sCfg s) + n)"
  shows "case DesiredRunners n s of (t, changed, s') \<Rightarrow>
    t = min (MaxRunners (sCfg s)) (MinRunners (sCfg s) + n)
    \<and> MinRunners (sCfg s) \<le> t \<and> t \<le> MaxRunners (sCfg s)
    \<and> target s' = (t, True) \<and> (changed \<longleftrightarrow> target s \<noteq> target s')"
  using assms by (auto simp: DesiredRunners_def target_def Let_def)

theorem desired_runners_answer_witness:
  "case DesiredRunners 7 (newScaleSetState (example_scale_set 5)) of (t, changed, s') \<Rightarrow>
     t = 5 \<and> changed \<and> target s' = (5, True)"
proof -
  let ?s = "newScaleSetState (example_scale_set 5)"
  have c: "MinRunners (sCfg ?s) = 0" "MaxRunners (sCfg ?s) = 5"
    by (simp_all add: newScaleSetState_def example_scale_set_def)
  show ?thesis
    using desired_runners_answer [of ?s 7] unfolding c
    by (auto simp: in_int64_def target_def newScaleSetState_def split: prod.splits)
qed

declare newScaleSetState_def [go_eval] DesiredRunners_def [go_eval] scale_set_ops [go_eval]
  target_def [go_eval] hasJob_def [go_eval] canCreate_def [go_eval]

end
