(* ===== verification/World.thy ===== *)
theory World
  imports Scaleset
begin

text \<open>
  The two interfaces the controller calls, \<^verbatim>\<open>controller.Proxmox\<close> and \<^verbatim>\<open>controller.GitHub\<close>
  (\<^verbatim>\<open>internal/controller/controller.go\<close>), and its clock. A call is a value, \<open>trace\<close> holds the calls
  made so far, newest first, and the answers come from an \<open>env\<close>: functions of the trace that ends
  with the call. A statement about every \<open>env\<close> therefore holds for every sequence of answers,
  including those that other operations running at the same time, Proxmox, GitHub, a timeout or a
  canceled context cause. Calls and waits take time; the clock never runs backwards, as Go's
  monotonic clock does not.
\<close>

section \<open>Calls\<close>

record clone_options =
  SourceVMID :: vmid
  NewVMID :: vmid
  coName :: string
  coPool :: string
  Full :: bool
  coStorage :: string
  Description :: string

type_synonym settings = "(string \<times> string) list"

datatype call =
    ListVMs
  | Clone clone_options
  | SetConfig vmid settings
  | GrowDisk vmid string int
  | Start vmid
  | Stop vmid
  | Destroy vmid
  | AgentPing vmid
  | AgentWriteFile vmid string string
  | EnsureScaleSet string "string list" string
  | GenerateJITConfig int string
  | RunnerByName string
  | RemoveRunner int
  | LatestRunnerRelease
  | Sleep duration

section \<open>The world\<close>

record world =
  trace :: "call list"
  clock :: time

record runner_release =
  ReleaseVersion :: string
  PublishedAt :: time

record env =
  listing :: "call list \<Rightarrow> error + vm list"
  outcome :: "call list \<Rightarrow> error option"
  registered_runner :: "call list \<Rightarrow> error + int option"
  jit_config :: "call list \<Rightarrow> error + string"
  scale_set_id :: "call list \<Rightarrow> error + int"
  latest_release :: "call list \<Rightarrow> error + runner_release"
  elapsed :: "call list \<Rightarrow> nat"
  ctx_ended :: "call list \<Rightarrow> bool"

text \<open>Making a call: it is recorded and takes its time, a wait at least as long as asked for.\<close>

definition waits :: "call \<Rightarrow> duration" where
  "waits k = (case k of Sleep d \<Rightarrow> max 0 d | _ \<Rightarrow> 0)"

definition calls :: "env \<Rightarrow> call \<Rightarrow> world \<Rightarrow> world" where
  "calls E k w =
     w\<lparr>trace := k # trace w, clock := clock w + waits k + int (elapsed E (k # trace w))\<rparr>"

text \<open>The calls whose only answer is an error or none.\<close>

definition do_call :: "env \<Rightarrow> call \<Rightarrow> world \<Rightarrow> error option \<times> world" where
  "do_call E k w = (outcome E (k # trace w), calls E k w)"

definition pve_ListVMs :: "env \<Rightarrow> world \<Rightarrow> (error + vm list) \<times> world" where
  "pve_ListVMs E w = (listing E (ListVMs # trace w), calls E ListVMs w)"

definition gh_RunnerByName :: "env \<Rightarrow> string \<Rightarrow> world \<Rightarrow> (error + int option) \<times> world" where
  "gh_RunnerByName E name w =
     (registered_runner E (RunnerByName name # trace w), calls E (RunnerByName name) w)"

definition gh_GenerateJITConfig :: "env \<Rightarrow> int \<Rightarrow> string \<Rightarrow> world \<Rightarrow> (error + string) \<times> world" where
  "gh_GenerateJITConfig E ssid name w =
     (jit_config E (GenerateJITConfig ssid name # trace w), calls E (GenerateJITConfig ssid name) w)"

definition gh_EnsureScaleSet :: "env \<Rightarrow> scale_set \<Rightarrow> world \<Rightarrow> (error + int) \<times> world" where
  "gh_EnsureScaleSet E s w =
     (let k = EnsureScaleSet (ssName s) (Labels s) (RunnerGroup s) in (scale_set_id E (k # trace w), calls E k w))"

definition gh_LatestRunnerRelease :: "env \<Rightarrow> world \<Rightarrow> (error + runner_release) \<times> world" where
  "gh_LatestRunnerRelease E w =
     (latest_release E (LatestRunnerRelease # trace w), calls E LatestRunnerRelease w)"

text \<open>\<^verbatim>\<open>sleep\<close>: whether the whole time was waited, rather than the context ending first.\<close>

definition sleep :: "env \<Rightarrow> duration \<Rightarrow> world \<Rightarrow> bool \<times> world" where
  "sleep E d w =
     (if ctx_ended E (Sleep d # trace w)
      then (False, w\<lparr>trace := Sleep d # trace w, clock := clock w + int (elapsed E (Sleep d # trace w))\<rparr>)
      else (True, calls E (Sleep d) w))"

section \<open>Extending a world\<close>

text \<open>
  \<open>extends k w w'\<close>: from \<open>w\<close> to \<open>w'\<close> the calls \<open>k\<close> were made, newest first, and the clock did not run
  backwards.
\<close>

definition extends :: "call list \<Rightarrow> world \<Rightarrow> world \<Rightarrow> bool" where
  "extends ks w w' \<longleftrightarrow> trace w' = ks @ trace w \<and> clock w \<le> clock w'"

lemma extends_refl [simp]: "extends [] w w"
  by (simp add: extends_def)

lemma extends_trans: "extends ks w w' \<Longrightarrow> extends ls w' w'' \<Longrightarrow> extends (ls @ ks) w w''"
  by (simp add: extends_def)

lemma waits_nonneg [simp]: "0 \<le> waits k"
  by (cases k) (simp_all add: waits_def)

lemma extends_calls [simp]: "extends [k] w (calls E k w)"
  by (simp add: extends_def calls_def)

lemma trace_calls [simp]: "trace (calls E k w) = k # trace w"
  by (simp add: calls_def)

lemma trace_do_call [simp]: "trace (snd (do_call E k w)) = k # trace w"
  by (simp add: do_call_def)

lemmas call_defs = do_call_def pve_ListVMs_def gh_RunnerByName_def gh_GenerateJITConfig_def
  gh_EnsureScaleSet_def gh_LatestRunnerRelease_def

section \<open>Which VMs a call touches\<close>

fun touches :: "call \<Rightarrow> vmid option" where
  "touches (Clone co) = Some (NewVMID co)"
| "touches (SetConfig v st) = Some v"
| "touches (GrowDisk v d n) = Some v"
| "touches (Start v) = Some v"
| "touches (Stop v) = Some v"
| "touches (Destroy v) = Some v"
| "touches (AgentPing v) = Some v"
| "touches (AgentWriteFile v p c) = Some v"
| "touches _ = None"

declare calls_def [go_eval] waits_def [go_eval] call_defs [go_eval] sleep_def [go_eval]

end
