(* ===== verification/Worker_Ops.thy ===== *)
theory Worker_Ops
  imports World Units
begin

text \<open>
  \<^verbatim>\<open>internal/controller/worker.go\<close> and the controller's state from \<^verbatim>\<open>controller.go\<close>: the background
  operations on VMs, with every call they make, in order. \<^verbatim>\<open>startOp\<close> records a VMID's operation; the
  operation's body is a function here, and \<open>Machine\<close> interleaves them. Log lines are left out; error
  texts are kept as far as the wrapping shows where an error came from.
\<close>

section \<open>The controller's state\<close>

text \<open>
  Why a worker is retired. The code passes texts and uses \<^verbatim>\<open>""\<close> for a worker that is kept.
\<close>

datatype reason =
    Keep
  | OlderThanMaxLifetime duration
  | PoweredOff
  | ScaleSetRemoved
  | LeftHalfCreated
  | RunnerGone
  | MoreThanWanted

text \<open>The closures \<^verbatim>\<open>startOp\<close> is given.\<close>

datatype op =
    OpRetire "string option" vm string bool reason
  | OpCreate string vm vmid
  | OpPrune vm

record scaleSetStatus =
  stName :: string
  stID :: int
  stWorkers :: int
  stReady :: int
  stBusy :: int

record controller =
  cCfg :: config
  cResync :: duration
  cBootTimeout :: duration
  cRunnerCheckAfter :: duration
  cRunnerCheckEvery :: duration
  cRetryBackoff :: duration
  cParallelism :: int
  cScaleSets :: "string \<rightharpoonup> scaleSetState"
  cWake :: bool
  cBusy :: "(vmid \<times> string) list"
  cForeign :: "vmid set"
  cLastRunnerCheck :: "vmid \<rightharpoonup> time"
  cNextRunnerCheck :: time
  cOps :: "op list"
  cStatus :: "scaleSetStatus list"

definition opRetire :: string where "opRetire = ''retire''"
definition opCreatePrefix :: string where "opCreatePrefix = ''create:''"
definition opPruneTemplate :: string where "opPruneTemplate = ''prune template''"
definition agentPollInterval :: duration where "agentPollInterval = 2 * Second"
definition rootDisk :: string where "rootDisk = ''scsi0''"

fun op_vmid :: "op \<Rightarrow> vmid" where
  "op_vmid (OpRetire s v runner force r) = VMID v"
| "op_vmid (OpCreate s t vid) = vid"
| "op_vmid (OpPrune v) = VMID v"

fun op_name :: "op \<Rightarrow> string" where
  "op_name (OpRetire s v runner force r) = opRetire"
| "op_name (OpCreate s t vid) = opCreatePrefix @ s"
| "op_name (OpPrune v) = opPruneTemplate"

definition isBusy :: "controller \<Rightarrow> vmid \<Rightarrow> bool" where
  "isBusy c vid \<longleftrightarrow> vid \<in> fst ` set (cBusy c)"

definition creatingFor :: "controller \<Rightarrow> string \<Rightarrow> int" where
  "creatingFor c scaleSet = int (length (filter (\<lambda>(v, n). n = opCreatePrefix @ scaleSet) (cBusy c)))"

definition creatingAny :: "controller \<Rightarrow> bool" where
  "creatingAny c \<longleftrightarrow> list_ex (\<lambda>(v, n). HasPrefix n opCreatePrefix) (cBusy c)"

text \<open>\<^verbatim>\<open>startOp\<close> up to the start of the goroutine, and the goroutine's deferred end.\<close>

definition startOp :: "op \<Rightarrow> controller \<Rightarrow> controller" where
  "startOp p c =
     (if isBusy c (op_vmid p) then c
      else c\<lparr>cBusy := (op_vmid p, op_name p) # cBusy c, cOps := cOps c @ [p]\<rparr>)"

definition finishOp :: "vmid \<Rightarrow> controller \<Rightarrow> controller" where
  "finishOp vid c = c\<lparr>cBusy := filter (\<lambda>(v, n). v \<noteq> vid) (cBusy c), cWake := True\<rparr>"

definition on_scale_set :: "string option \<Rightarrow> (scaleSetState \<Rightarrow> scaleSetState) \<Rightarrow> controller \<Rightarrow> controller" where
  "on_scale_set so f c =
     (case so of
        None \<Rightarrow> c
      | Some n \<Rightarrow> c\<lparr>cScaleSets := (cScaleSets c)(n := map_option f (cScaleSets c n))\<rparr>)"

definition forgetRunner :: "string \<Rightarrow> controller \<Rightarrow> controller" where
  "forgetRunner name c = c\<lparr>cScaleSets := (\<lambda>n. map_option (forget name) (cScaleSets c n))\<rparr>"

section \<open>Retiring a VM\<close>

definition listed :: "env \<Rightarrow> vmid \<Rightarrow> world \<Rightarrow> (error + bool) \<times> world" where
  "listed E vid w =
     (case pve_ListVMs E w of
        (Inl e, w) \<Rightarrow> (Inl e, w)
      | (Inr vms, w) \<Rightarrow> (Inr (list_ex (\<lambda>v. VMID v = vid) vms), w))"

definition destroy :: "env \<Rightarrow> vmid \<Rightarrow> world \<Rightarrow> error option \<times> world" where
  "destroy E vid w =
     (case do_call E (Destroy vid) w of
        (None, w) \<Rightarrow> (None, w)
      | (Some e, w) \<Rightarrow>
          if IsForbidden e then
            (case listed E vid w of
               (Inr False, w) \<Rightarrow> (None, w)
             | (_, w) \<Rightarrow> (Some (wrap ''destroy'' e), w))
          else (Some (wrap ''destroy'' e), w))"

definition destroyVM :: "env \<Rightarrow> vmid \<Rightarrow> bool \<Rightarrow> world \<Rightarrow> error option \<times> world" where
  "destroyVM E vid running w =
     destroy E vid (if running then snd (do_call E (Stop vid) w) else w)"

definition removeRunner :: "env \<Rightarrow> string \<Rightarrow> world \<Rightarrow> error option \<times> world" where
  "removeRunner E name w =
     (case gh_RunnerByName E name w of
        (Inl e, w) \<Rightarrow> (Some (wrap ''find runner'' e), w)
      | (Inr None, w) \<Rightarrow> (None, w)
      | (Inr (Some rid), w) \<Rightarrow>
          (case do_call E (RemoveRunner rid) w of
             (None, w) \<Rightarrow> (None, w)
           | (Some e, w) \<Rightarrow>
               if errors_Is e ErrJobStillRunning then (Some errRunnerBusy, w)
               else (Some (wrap ''remove runner'' e), w)))"

definition forget_check :: "vmid \<Rightarrow> controller \<Rightarrow> controller" where
  "forget_check vid c = c\<lparr>cLastRunnerCheck := (cLastRunnerCheck c)(vid := None)\<rparr>"

definition retire ::
  "env \<Rightarrow> vmid \<Rightarrow> bool \<Rightarrow> string \<Rightarrow> bool \<Rightarrow> controller \<times> world \<Rightarrow> error option \<times> controller \<times> world" where
  "retire E vid running runnerName force cw =
     (case cw of (c, w) \<Rightarrow>
      (case (if runnerName \<noteq> [] \<and> \<not> force then removeRunner E runnerName w else (None, w)) of
         (Some e, w) \<Rightarrow> (Some e, c, w)
       | (None, w) \<Rightarrow>
           let c = (if runnerName \<noteq> [] \<and> \<not> force then forgetRunner runnerName c else c) in
           (case destroyVM E vid running w of
              (Some e, w) \<Rightarrow> (Some e, c, w)
            | (None, w) \<Rightarrow>
                let c = forget_check vid c in
                if runnerName \<noteq> [] \<and> force
                then (None, forgetRunner runnerName c, snd (removeRunner E runnerName w))
                else (None, c, w))))"

definition run_retire ::
  "env \<Rightarrow> string option \<Rightarrow> vm \<Rightarrow> string \<Rightarrow> bool \<Rightarrow> controller \<times> world \<Rightarrow> error option \<times> controller \<times> world" where
  "run_retire E s v runnerName force cw =
     (case retire E (VMID v) (Status v = ''running'') runnerName force cw of
        (Some e, c, w) \<Rightarrow>
          (Some e, if errors_Is e errRunnerBusy then on_scale_set s (markRunning runnerName) c else c, w)
      | (None, c, w) \<Rightarrow> (None, c, w))"

section \<open>Creating a worker\<close>

lemma sleep_advances: "sleep E d w = (True, w') \<Longrightarrow> 0 \<le> d \<Longrightarrow> clock w + d \<le> clock w'"
  by (auto simp: sleep_def calls_def waits_def split: if_splits)

lemma calls_clock: "clock w \<le> clock (calls E k w)"
  by (simp add: calls_def)

lemma do_call_clock: "do_call E k w = (r, w') \<Longrightarrow> clock w \<le> clock w'"
  using calls_clock [of w E k] by (auto simp: do_call_def)

function waitForAgent :: "env \<Rightarrow> vmid \<Rightarrow> time \<Rightarrow> world \<Rightarrow> error option \<times> world" where
  "waitForAgent E vid deadline w =
     (case do_call E (AgentPing vid) w of
        (None, w1) \<Rightarrow> (None, w1)
      | (Some e, w1) \<Rightarrow>
          if \<not> IsAgentNotReady e then (Some (wrap ''guest agent'' e), w1)
          else if \<not> clock w1 < deadline
          then (Some (ErrorMsg ''guest agent did not answer within the boot timeout''), w1)
          else (case sleep E agentPollInterval w1 of
                  (False, w2) \<Rightarrow> (Some Canceled, w2)
                | (True, w2) \<Rightarrow> waitForAgent E vid deadline w2))"
  by pat_completeness auto
termination
proof (relation "measure (\<lambda>(E, vid, deadline, w). nat (deadline - clock w))", goal_cases)
  case 1
  show ?case by simp
next
  case (2 E vid deadline w r w1 e s w2)
  then have "clock w \<le> clock w1" using do_call_clock [of E "AgentPing vid" w r w1] by simp
  moreover have "clock w1 < clock w2"
    using 2 sleep_advances [of E agentPollInterval w1 w2]
    by (simp add: agentPollInterval_def Second_def)
  ultimately show ?case using 2 by simp
qed

declare waitForAgent.simps [simp del]

text \<open>An error of one step ends the build; \<open>reg\<close> says whether the runner was registered by then.\<close>

definition and_then ::
  "bool \<Rightarrow> string \<Rightarrow> error option \<times> world \<Rightarrow> (world \<Rightarrow> bool \<times> error option \<times> world)
   \<Rightarrow> bool \<times> error option \<times> world" where
  "and_then reg msg r f =
     (case r of (None, w) \<Rightarrow> f w | (Some e, w) \<Rightarrow> (reg, Some (wrap msg e), w))"

definition worker_settings :: "config \<Rightarrow> scale_set \<Rightarrow> time \<Rightarrow> vmid \<Rightarrow> settings" where
  "worker_settings cfg ss created tpl =
     [(''tags'', FormatTags (workerTags (ssName ss) created tpl False)),
      (''cores'', Itoa (Cores (ssWorker ss))),
      (''memory'', Itoa (MemoryMiB (ssWorker ss))),
      (''net0'', ''virtio,bridge='' @ VNet (cfgProxmox cfg)),
      (''ipconfig0'', ''ip=dhcp''),
      (''onboot'', ''0''),
      (''agent'', ''1''),
      (''ciupgrade'', ''0'')]"

definition ready_settings :: "scale_set \<Rightarrow> time \<Rightarrow> vmid \<Rightarrow> settings" where
  "ready_settings ss created tpl = [(''tags'', FormatTags (workerTags (ssName ss) created tpl True))]"

definition worker_clone :: "config \<Rightarrow> scale_set \<Rightarrow> string \<Rightarrow> vmid \<Rightarrow> vmid \<Rightarrow> clone_options" where
  "worker_clone cfg ss name tpl vid =
     \<lparr>SourceVMID = tpl, NewVMID = vid, coName = name, coPool = pxPool (cfgProxmox cfg),
      Full = (\<not> UseLinkedClone (cfgProxmox cfg)), coStorage = Storage (cfgProxmox cfg),
      Description = ''Runner for scale set '' @ ssName ss
        @ ''. Managed by proxmox-actions-runners; destroyed after one job.''\<rparr>"

text \<open>The steps after the clone.\<close>

definition build ::
  "env \<Rightarrow> controller \<Rightarrow> scaleSetState \<Rightarrow> vmid \<Rightarrow> vmid \<Rightarrow> time \<Rightarrow> string \<Rightarrow> world
   \<Rightarrow> bool \<times> error option \<times> world" where
  "build E c s tpl vid created name w =
     and_then False ''configure''
       (do_call E (SetConfig vid (worker_settings (cCfg c) (sCfg s) created tpl)) w) (\<lambda>w.
     and_then False ''grow disk''
       (do_call E (GrowDisk vid rootDisk (FreeDiskGiB (ssWorker (sCfg s)))) w) (\<lambda>w.
     case gh_GenerateJITConfig E (sId s) name w of
       (Inl e, w) \<Rightarrow> (False, Some (wrap ''register runner'' e), w)
     | (Inr jit, w) \<Rightarrow>
         and_then True ''start'' (do_call E (Start vid) w) (\<lambda>w.
         case waitForAgent E vid (clock w + cBootTimeout c) w of
           (Some e, w) \<Rightarrow> (True, Some e, w)
         | (None, w) \<Rightarrow>
             and_then True ''deliver JIT config'' (do_call E (AgentWriteFile vid JITConfigPath jit) w) (\<lambda>w.
             and_then True ''signal JIT config'' (do_call E (AgentWriteFile vid JITReadyPath []) w) (\<lambda>w.
             and_then True ''mark ready''
               (do_call E (SetConfig vid (ready_settings (sCfg s) created tpl)) w) (\<lambda>w.
             (True, None, w)))))))"

definition create ::
  "env \<Rightarrow> scaleSetState \<Rightarrow> vm \<Rightarrow> vmid \<Rightarrow> controller \<times> world \<Rightarrow> error option \<times> controller \<times> world" where
  "create E s template vid cw =
     (case cw of (c, w) \<Rightarrow>
      let created = Truncate (clock w) Second; name = workerName vid created in
      (case do_call E (Clone (worker_clone (cCfg c) (sCfg s) name (VMID template) vid)) w of
         (Some e, w) \<Rightarrow>
           if IsVMIDInUse e then
             (Some (wrap ''clone: the VMID is taken by a VM outside the runner pool'' e),
              c\<lparr>cForeign := insert vid (cForeign c)\<rparr>, w)
           else (Some (wrap ''clone'' e), c, w)
       | (None, w) \<Rightarrow>
           (case build E c s (VMID template) vid created name w of
              (reg, None, w) \<Rightarrow> (None, c, w)
            | (reg, Some e, w) \<Rightarrow>
                (case retire E vid True (if reg then name else []) True (c, w) of
                   (cleanup, c, w) \<Rightarrow> (Some e, c, w)))))"

definition run_create ::
  "env \<Rightarrow> string \<Rightarrow> vm \<Rightarrow> vmid \<Rightarrow> controller \<times> world \<Rightarrow> error option \<times> controller \<times> world" where
  "run_create E name template vid cw =
     (case cScaleSets (fst cw) name of
        None \<Rightarrow> (None, cw)
      | Some s \<Rightarrow>
          (case create E s template vid cw of
             (Some e, c, w) \<Rightarrow>
               (Some e,
                if errors_Is e Canceled then c
                else on_scale_set (Some name) (backOff (clock w + cRetryBackoff c)) c, w)
           | (None, c, w) \<Rightarrow> (None, c, w)))"

section \<open>Operations\<close>

definition run_prune :: "env \<Rightarrow> vm \<Rightarrow> controller \<times> world \<Rightarrow> error option \<times> controller \<times> world" where
  "run_prune E v cw = (case cw of (c, w) \<Rightarrow> (case destroy E (VMID v) w of (r, w) \<Rightarrow> (r, c, w)))"

fun run_op :: "env \<Rightarrow> op \<Rightarrow> controller \<times> world \<Rightarrow> error option \<times> controller \<times> world" where
  "run_op E (OpRetire s v runner force r) cw = run_retire E s v runner force cw"
| "run_op E (OpCreate name t vid) cw = run_create E name t vid cw"
| "run_op E (OpPrune v) cw = run_prune E v cw"

end
