(* ===== verification/Worker_Facts.thy ===== *)
theory Worker_Facts
  imports Worker_Ops
begin

text \<open>
  What the operations of \<open>Worker_Ops\<close> do to VMs and in which order, for every environment: a
  retirement asks GitHub before it touches a VM unless it is forced, a forced one always goes after
  the VM, a creation that fails after its clone destroys the clone, one that succeeds marks the worker
  ready last, and none touches any other VM.
\<close>

section \<open>Calls of the parts\<close>

lemma do_call_extends: "do_call E k w = (r, w') \<Longrightarrow> extends [k] w w'"
  using extends_calls [of k w E] by (auto simp: do_call_def)

lemma do_call_eq: "do_call E k w = (r, w') \<longleftrightarrow> r = outcome E (k # trace w) \<and> w' = calls E k w"
  by (auto simp: do_call_def)

lemma sleep_extends: "sleep E d w = (b, w') \<Longrightarrow> extends [Sleep d] w w'"
  using extends_calls [of "Sleep d" w E]
  by (auto simp: sleep_def extends_def split: if_splits)

lemma destroy_calls:
  assumes "destroy E vid w = (r, w')"
  shows "\<exists>ks. extends (ks @ [Destroy vid]) w w' \<and> set ks \<subseteq> {ListVMs}"
proof -
  let ?w1 = "calls E (Destroy vid) w"
  have one: "extends [Destroy vid] w ?w1" and two: "extends [ListVMs, Destroy vid] w (calls E ListVMs ?w1)"
    using extends_trans [OF extends_calls extends_calls] by simp_all
  have "w' = ?w1 \<or> w' = calls E ListVMs ?w1"
    using assms by (auto simp: destroy_def do_call_def listed_def pve_ListVMs_def
        split: option.splits if_splits sum.splits bool.splits prod.splits)
  with one two show ?thesis by (metis append_Cons append_Nil empty_subsetI list.set(1) list.set(2) order_refl)
qed

text \<open>When the controller counts a VM as destroyed.\<close>

definition gone :: "env \<Rightarrow> vmid \<Rightarrow> world \<Rightarrow> bool" where
  "gone E vid w \<longleftrightarrow>
     (case outcome E (Destroy vid # trace w) of
        None \<Rightarrow> True
      | Some e \<Rightarrow> IsForbidden e \<and>
          (case listing E (ListVMs # Destroy vid # trace w) of
             Inl e' \<Rightarrow> False
           | Inr vms \<Rightarrow> vid \<notin> VMID ` set vms))"

lemma destroy_result: "fst (destroy E vid w) = None \<longleftrightarrow> gone E vid w"
  by (auto simp: destroy_def gone_def do_call_def listed_def pve_ListVMs_def list_ex_iff image_iff
      split: option.splits sum.splits bool.splits)

lemma removeRunner_calls:
  assumes "removeRunner E name w = (r, w')"
  shows "\<exists>ks. extends ks w w' \<and> (\<forall>k\<in>set ks. touches k = None)"
proof -
  let ?w1 = "calls E (RunnerByName name) w"
  have "w' = ?w1 \<or> (\<exists>rid. w' = calls E (RemoveRunner rid) ?w1)"
    using assms by (auto simp: removeRunner_def gh_RunnerByName_def do_call_def
        split: sum.splits option.splits if_splits)
  moreover have "extends [RunnerByName name] w ?w1"
    and "extends [RemoveRunner rid, RunnerByName name] w (calls E (RemoveRunner rid) ?w1)" for rid
    using extends_trans [OF extends_calls extends_calls] by simp_all
  ultimately obtain ks where "extends ks w w'" and "ks = [RunnerByName name] \<or> (\<exists>rid. ks = [RemoveRunner rid, RunnerByName name])"
    by blast
  then show ?thesis by (intro exI [of _ ks]) auto
qed

text \<open>When GitHub has let go of a runner.\<close>

definition unregistered :: "env \<Rightarrow> string \<Rightarrow> world \<Rightarrow> bool" where
  "unregistered E name w \<longleftrightarrow>
     (case registered_runner E (RunnerByName name # trace w) of
        Inl e \<Rightarrow> False
      | Inr None \<Rightarrow> True
      | Inr (Some rid) \<Rightarrow> outcome E (RemoveRunner rid # RunnerByName name # trace w) = None)"

lemma removeRunner_result: "fst (removeRunner E name w) = None \<longleftrightarrow> unregistered E name w"
  by (auto simp: removeRunner_def unregistered_def gh_RunnerByName_def do_call_def
      split: sum.splits option.splits)

lemma destroyVM_calls:
  assumes "destroyVM E vid running w = (r, w')"
  shows "\<exists>ks. extends (ks @ Destroy vid # (if running then [Stop vid] else [])) w w' \<and> set ks \<subseteq> {ListVMs}"
proof -
  let ?w1 = "if running then calls E (Stop vid) w else w"
  have "destroy E vid ?w1 = (r, w')" using assms by (simp add: destroyVM_def do_call_def split: if_splits)
  then obtain ks where ks: "extends (ks @ [Destroy vid]) ?w1 w'" "set ks \<subseteq> {ListVMs}"
    using destroy_calls by blast
  have "extends (if running then [Stop vid] else []) w ?w1" by simp
  from extends_trans [OF this ks(1)] ks(2) show ?thesis by (intro exI [of _ ks]) auto
qed

section \<open>Retirement\<close>

definition stopped_world :: "env \<Rightarrow> vmid \<Rightarrow> bool \<Rightarrow> world \<Rightarrow> world" where
  "stopped_world E vid running w = (if running then calls E (Stop vid) w else w)"

lemma destroyVM_result:
  "fst (destroyVM E vid running w) = None \<longleftrightarrow> gone E vid (stopped_world E vid running w)"
  by (simp add: destroyVM_def stopped_world_def destroy_result do_call_def)

lemma retire_forced:
  assumes "retire E vid running name True (c, w) = (r, c', w')"
  shows "(r = None \<longleftrightarrow> gone E vid (stopped_world E vid running w))"
    and "\<exists>ks. extends (ks @ Destroy vid # (if running then [Stop vid] else [])) w w'
           \<and> (\<forall>k\<in>set ks. touches k = None)"
proof -
  obtain rd wd where d: "destroyVM E vid running w = (rd, wd)" by fastforce
  then obtain ks where ks: "extends (ks @ Destroy vid # (if running then [Stop vid] else [])) w wd"
    "set ks \<subseteq> {ListVMs}" using destroyVM_calls by blast
  then have quiet: "\<forall>k\<in>set ks. touches k = None" by auto
  have rd: "rd = None \<longleftrightarrow> gone E vid (stopped_world E vid running w)"
    using destroyVM_result [of E vid running w] d by simp
  have r: "r = rd" and w': "w' = (if rd = None \<and> name \<noteq> [] then snd (removeRunner E name wd) else wd)"
    using assms d by (auto simp: retire_def Let_def split: option.splits if_splits)
  show "r = None \<longleftrightarrow> gone E vid (stopped_world E vid running w)" using r rd by simp
  obtain ls where ls: "extends ls wd w'" "\<forall>k\<in>set ls. touches k = None"
  proof (cases "rd = None \<and> name \<noteq> []")
    case True
    then have "removeRunner E name wd = (fst (removeRunner E name wd), w')" using w' by simp
    then show ?thesis using removeRunner_calls that by blast
  next
    case False
    then show ?thesis using w' that [of "[]"] by auto
  qed
  show "\<exists>ks. extends (ks @ Destroy vid # (if running then [Stop vid] else [])) w w'
      \<and> (\<forall>k\<in>set ks. touches k = None)"
    using extends_trans [OF ks(1) ls(1)] quiet ls(2) by (intro exI [of _ "ls @ ks"]) auto
qed

lemma retire_unforced:
  assumes "retire E vid running name False (c, w) = (r, c', w')" and "name \<noteq> []"
  shows "\<exists>ks ls. extends ks w (snd (removeRunner E name w)) \<and> (\<forall>k\<in>set ks. touches k = None)
     \<and> extends (ls @ ks) w w' \<and> set ls \<subseteq> {ListVMs, Destroy vid, Stop vid}
     \<and> (ls \<noteq> [] \<longleftrightarrow> unregistered E name w) \<and> (\<not> unregistered E name w \<longrightarrow> r \<noteq> None \<and> c' = c)"
proof -
  obtain rr wr where rr: "removeRunner E name w = (rr, wr)" by fastforce
  obtain ks where ks: "extends ks w wr" "\<forall>k\<in>set ks. touches k = None"
    using removeRunner_calls [OF rr] by blast
  have unreg: "rr = None \<longleftrightarrow> unregistered E name w" using removeRunner_result [of E name w] rr by simp
  show ?thesis
  proof (cases rr)
    case (Some e)
    then have "w' = wr" "r = Some e" "c' = c" using assms rr by (auto simp: retire_def)
    then show ?thesis using ks rr unreg Some by (intro exI [of _ ks] exI [of _ "[]"]) auto
  next
    case None
    obtain rd wd where d: "destroyVM E vid running wr = (rd, wd)" by fastforce
    then obtain ls where ls: "extends (ls @ Destroy vid # (if running then [Stop vid] else [])) wr wd"
      "set ls \<subseteq> {ListVMs}" using destroyVM_calls by blast
    have "w' = wd" using assms rr None d by (auto simp: retire_def Let_def split: option.splits)
    then show ?thesis
      using ks rr unreg None extends_trans [OF ks(1) ls(1)] ls(2)
      by (intro exI [of _ ks] exI [of _ "ls @ Destroy vid # (if running then [Stop vid] else [])"]) auto
  qed
qed

section \<open>Waiting for the guest agent\<close>

definition ping_calls :: "vmid \<Rightarrow> call list \<Rightarrow> bool" where
  "ping_calls vid ks \<longleftrightarrow> set ks \<subseteq> {AgentPing vid, Sleep agentPollInterval}"

text \<open>
  The wait ends: each round but the last lies before the deadline and takes at least the poll
  interval, so the number of pings is bounded by the time that is left.
\<close>

definition max_pings :: "duration \<Rightarrow> int" where
  "max_pings left = 1 + max 0 ((left + agentPollInterval - 1) div agentPollInterval)"

lemma poll_pos: "0 < agentPollInterval"
  by (simp add: agentPollInterval_def Second_def)

lemma max_pings_pos: "1 \<le> max_pings x"
  by (simp add: max_pings_def)

lemma max_pings_step:
  assumes "0 < x" and "y \<le> x - agentPollInterval"
  shows "max_pings y + 1 \<le> max_pings x"
proof -
  have "(y + agentPollInterval - 1) div agentPollInterval \<le> (x - 1) div agentPollInterval"
    using assms(2) poll_pos by (intro zdiv_mono1) auto
  moreover have "(x + agentPollInterval - 1) div agentPollInterval = (x - 1) div agentPollInterval + 1"
    using poll_pos div_add_self2 [of agentPollInterval "x - 1"] by (simp add: algebra_simps)
  moreover have "0 \<le> (x - 1) div agentPollInterval"
    using assms(1) poll_pos by (simp add: pos_imp_zdiv_nonneg_iff)
  ultimately show ?thesis by (simp add: max_pings_def)
qed

definition waited :: "env \<Rightarrow> vmid \<Rightarrow> time \<Rightarrow> world \<Rightarrow> error option \<Rightarrow> world \<Rightarrow> call list \<Rightarrow> bool" where
  "waited E vid deadline w r w' ks \<longleftrightarrow>
     extends ks w w' \<and> ping_calls vid ks
     \<and> (r = None \<longrightarrow> (\<exists>ls. ks = AgentPing vid # ls) \<and> outcome E (trace w') = None)
     \<and> int (length (filter (\<lambda>k. k = AgentPing vid) ks)) \<le> max_pings (deadline - clock w)"

lemma waitForAgent_calls:
  assumes "waitForAgent E vid deadline w = (r, w')"
  shows "\<exists>ks. waited E vid deadline w r w' ks"
  using assms
proof (induction E vid deadline w rule: waitForAgent.induct)
  case (1 E vid deadline w)
  define w1 where "w1 = calls E (AgentPing vid) w"
  let ?o = "outcome E (AgentPing vid # trace w)"
  have dc: "do_call E (AgentPing vid) w = (?o, w1)" by (simp add: do_call_def w1_def)
  have e1: "extends [AgentPing vid] w w1" by (simp add: w1_def)
  have "waitForAgent E vid deadline w = (r, w')" by (fact "1.prems")
  then consider (finished) "w' = w1" "r = None \<longrightarrow> ?o = None"
    | (cancel) w2 where "sleep E agentPollInterval w1 = (False, w2)" "w' = w2" "r = Some Canceled"
    | (again) e w2 where "?o = Some e" "IsAgentNotReady e" "clock w1 < deadline"
        "sleep E agentPollInterval w1 = (True, w2)" "waitForAgent E vid deadline w2 = (r, w')"
    unfolding waitForAgent.simps [of E vid deadline w] dc
    by (auto split: option.splits if_splits prod.splits bool.splits)
  then show ?case
  proof cases
    case finished
    then show ?thesis using e1 max_pings_pos [of "deadline - clock w"]
      by (intro exI [of _ "[AgentPing vid]"]) (simp add: waited_def ping_calls_def w1_def)
  next
    case cancel
    then show ?thesis
      using extends_trans [OF e1 sleep_extends [OF cancel(1)]] max_pings_pos [of "deadline - clock w"]
      by (intro exI [of _ "[Sleep agentPollInterval, AgentPing vid]"]) (simp add: waited_def ping_calls_def)
  next
    case again
    have "\<exists>ks. waited E vid deadline w2 r w' ks"
      using "1.IH" [OF dc [symmetric] again(1) _ _ again(4) [symmetric] _ again(5)] again(2,3) by simp
    then obtain ks where ks: "waited E vid deadline w2 r w' ks" by blast
    have "clock w + agentPollInterval \<le> clock w2" and "clock w < deadline"
      using sleep_advances [OF again(4)] poll_pos e1 again(3) by (simp_all add: extends_def)
    then have "max_pings (deadline - clock w2) + 1 \<le> max_pings (deadline - clock w)"
      by (intro max_pings_step) auto
    moreover have "extends (ks @ [Sleep agentPollInterval, AgentPing vid]) w w'"
      using extends_trans [OF extends_trans [OF e1 sleep_extends [OF again(4)]]] ks
      by (simp add: waited_def)
    ultimately show ?thesis
      using ks by (intro exI [of _ "ks @ [Sleep agentPollInterval, AgentPing vid]"])
        (auto simp: waited_def ping_calls_def)
  qed
qed

section \<open>Calls that satisfy a predicate\<close>

text \<open>\<open>makes P w w'\<close>: every call made from \<open>w\<close> to \<open>w'\<close> satisfies \<open>P\<close>.\<close>

definition makes :: "(call \<Rightarrow> bool) \<Rightarrow> world \<Rightarrow> world \<Rightarrow> bool" where
  "makes P w w' \<longleftrightarrow> (\<exists>ks. extends ks w w' \<and> (\<forall>k\<in>set ks. P k))"

lemma makes_refl [simp]: "makes P w w"
  by (auto simp: makes_def intro: exI [of _ "[]"])

lemma makes_trans: "makes P w w1 \<Longrightarrow> makes P w1 w2 \<Longrightarrow> makes P w w2"
  unfolding makes_def by (metis Un_iff extends_trans set_append)

lemma makes_calls: "P k \<Longrightarrow> makes P w (calls E k w)"
  unfolding makes_def by (rule exI [of _ "[k]"]) simp

lemma makes_do_call: "P k \<Longrightarrow> makes P w (snd (do_call E k w))"
  by (simp add: do_call_def makes_calls)

lemma makes_mono: "makes P w w' \<Longrightarrow> (\<And>k. P k \<Longrightarrow> Q k) \<Longrightarrow> makes Q w w'"
  unfolding makes_def by blast

lemma makes_extends: "makes P w w' \<Longrightarrow> extends ks w w' \<Longrightarrow> k \<in> set ks \<Longrightarrow> P k"
  by (auto simp: makes_def extends_def)

lemma extends_makes: "extends ks w w' \<Longrightarrow> (\<And>k. k \<in> set ks \<Longrightarrow> P k) \<Longrightarrow> makes P w w'"
  by (auto simp: makes_def)

lemma makes_and_then:
  "makes P w (snd r) \<Longrightarrow> (\<And>w1. makes P w1 (snd (snd (f w1)))) \<Longrightarrow> makes P w (snd (snd (and_then reg msg r f)))"
  by (cases r) (auto simp: and_then_def split: option.split intro: makes_trans)

lemma retire_makes:
  assumes "\<And>k. touches k = None \<Longrightarrow> P k" and "P (Stop vid)" and "P (Destroy vid)"
  shows "makes P w (snd (snd (retire E vid running name force (c, w))))"
proof -
  have rm: "makes P w (snd (removeRunner E name w))" for w name
    using removeRunner_calls [of E name w] assms(1) by (metis extends_makes prod.collapse)
  have de: "makes P w (snd (destroyVM E vid running w))" for w
  proof -
    obtain ks where "extends (ks @ Destroy vid # (if running then [Stop vid] else [])) w
        (snd (destroyVM E vid running w))" and "set ks \<subseteq> {ListVMs}"
      using destroyVM_calls [of E vid running w] by (metis prod.collapse)
    then show ?thesis using assms(2,3) assms(1) [of ListVMs] by (intro extends_makes) auto
  qed
  show ?thesis unfolding retire_def
    using makes_trans [OF rm de] makes_trans [OF de rm] rm de
    by (auto simp: Let_def split: option.splits prod.splits) (metis snd_conv)+
qed

section \<open>Creation\<close>

lemma extends_snoc: "extends ks w w1 \<Longrightarrow> extends (k # ks) w (calls E k w1)"
  using extends_trans [OF _ extends_calls, of ks w w1 k E] by simp

definition build_call :: "vmid \<Rightarrow> call \<Rightarrow> bool" where
  "build_call vid k \<longleftrightarrow>
     (case k of
        SetConfig v st \<Rightarrow> v = vid
      | GrowDisk v d n \<Rightarrow> v = vid
      | Start v \<Rightarrow> v = vid
      | AgentPing v \<Rightarrow> v = vid
      | AgentWriteFile v p t \<Rightarrow> v = vid
      | GenerateJITConfig i n \<Rightarrow> True
      | Sleep d \<Rightarrow> True
      | _ \<Rightarrow> False)"

lemma waitForAgent_makes: "makes (build_call vid) w (snd (waitForAgent E vid deadline w))"
proof -
  obtain r w' where rw: "waitForAgent E vid deadline w = (r, w')" by fastforce
  then obtain ks where "extends ks w w'" and "ping_calls vid ks"
    using waitForAgent_calls by (force simp: waited_def)
  then show ?thesis using rw by (auto intro!: extends_makes simp: ping_calls_def build_call_def)
qed

lemma build_makes: "makes (build_call vid) w (snd (snd (build E c s tpl vid created name w)))"
proof -
  have do1: "makes (build_call vid) w (snd (do_call E k w))" if "build_call vid k" for k w
    using that by (rule makes_do_call)
  have jit: "makes (build_call vid) w (snd (gh_GenerateJITConfig E i n w))" for i n w
    by (simp add: gh_GenerateJITConfig_def makes_calls build_call_def)
  have tail: "makes (build_call vid) w (snd (snd (
      case waitForAgent E vid d w of (Some e, w) \<Rightarrow> (True, Some e, w) | (None, w) \<Rightarrow> g w)))"
    if "\<And>w. makes (build_call vid) w (snd (snd (g w)))" for d w and g :: "world \<Rightarrow> bool \<times> error option \<times> world"
    using waitForAgent_makes [of vid w E d] that
    by (auto split: option.split prod.split intro: makes_trans)
  have mid: "makes (build_call vid) w (snd (snd (
      case gh_GenerateJITConfig E i n w of (Inl e, w) \<Rightarrow> (False, Some (wrap m e), w) | (Inr j, w) \<Rightarrow> g j w)))"
    if "\<And>j w. makes (build_call vid) w (snd (snd (g j w)))"
    for i n m w and g :: "string \<Rightarrow> world \<Rightarrow> bool \<times> error option \<times> world"
    using jit [of w i n] that by (auto split: sum.split prod.split intro: makes_trans)
  show ?thesis
    unfolding build_def
    by (intro makes_and_then mid tail do1) (simp_all add: build_call_def)
qed

lemma and_then_ok_iff:
  "and_then reg msg (do_call E k w) f = (reg', None, w') \<longleftrightarrow>
     outcome E (k # trace w) = None \<and> f (calls E k w) = (reg', None, w')"
  by (auto simp: and_then_def do_call_def split: option.splits)

definition ready_calls ::
  "controller \<Rightarrow> scaleSetState \<Rightarrow> vmid \<Rightarrow> vmid \<Rightarrow> time \<Rightarrow> string \<Rightarrow> string \<Rightarrow> call list \<Rightarrow> call list" where
  "ready_calls c s tpl vid created name jit pings =
     [SetConfig vid (ready_settings (sCfg s) created tpl),
      AgentWriteFile vid JITReadyPath [],
      AgentWriteFile vid JITConfigPath jit] @ pings @
     [Start vid,
      GenerateJITConfig (sId s) name,
      GrowDisk vid rootDisk (FreeDiskGiB (ssWorker (sCfg s))),
      SetConfig vid (worker_settings (cCfg c) (sCfg s) created tpl)]"

lemma build_ok:
  assumes "build E c s tpl vid created name w = (reg, None, w')"
  shows "\<exists>jit pings. extends (ready_calls c s tpl vid created name jit pings) w w'
    \<and> ping_calls vid pings \<and> (\<exists>ps. pings = AgentPing vid # ps)"
proof -
  define w3 where "w3 = calls E (Start vid) (calls E (GenerateJITConfig (sId s) name)
    (calls E (GrowDisk vid rootDisk (FreeDiskGiB (ssWorker (sCfg s))))
    (calls E (SetConfig vid (worker_settings (cCfg c) (sCfg s) created tpl)) w)))"
  from assms obtain jit w4 where agent: "waitForAgent E vid (clock w3 + cBootTimeout c) w3 = (None, w4)"
    and w': "w' = calls E (SetConfig vid (ready_settings (sCfg s) created tpl))
      (calls E (AgentWriteFile vid JITReadyPath []) (calls E (AgentWriteFile vid JITConfigPath jit) w4))"
    unfolding build_def and_then_ok_iff gh_GenerateJITConfig_def w3_def
    by (auto simp: and_then_ok_iff split: sum.splits option.splits prod.splits)
  obtain pings where p: "extends pings w3 w4" "ping_calls vid pings" "\<exists>ps. pings = AgentPing vid # ps"
    using waitForAgent_calls [OF agent] by (auto simp: waited_def)
  have "extends [Start vid, GenerateJITConfig (sId s) name,
      GrowDisk vid rootDisk (FreeDiskGiB (ssWorker (sCfg s))),
      SetConfig vid (worker_settings (cCfg c) (sCfg s) created tpl)] w w3"
    unfolding w3_def by (intro extends_snoc extends_calls)
  from extends_trans [OF this p(1)]
  have "extends (ready_calls c s tpl vid created name jit pings) w w'"
    unfolding w' ready_calls_def append_Cons append_Nil by (intro extends_snoc)
  with p(2,3) show ?thesis by blast
qed

lemma create_cases:
  assumes "create E s template vid (c, w) = (r, c', w')"
  obtains (clone_failed) e where "r \<noteq> None" "w' = calls E (Clone (worker_clone (cCfg c) (sCfg s)
        (workerName vid (Truncate (clock w) Second)) (VMID template) vid)) w"
      "outcome E (trace w') = Some e"
      "c' = (if IsVMIDInUse e then c\<lparr>cForeign := insert vid (cForeign c)\<rparr> else c)"
  | (ready) w1 reg where "r = None" "c' = c" "outcome E (trace w1) = None"
      "w1 = calls E (Clone (worker_clone (cCfg c) (sCfg s)
        (workerName vid (Truncate (clock w) Second)) (VMID template) vid)) w"
      "build E c s (VMID template) vid (Truncate (clock w) Second)
         (workerName vid (Truncate (clock w) Second)) w1 = (reg, None, w')"
  | (failed) w1 w2 reg e where "r = Some e" "outcome E (trace w1) = None"
      "w1 = calls E (Clone (worker_clone (cCfg c) (sCfg s)
        (workerName vid (Truncate (clock w) Second)) (VMID template) vid)) w"
      "build E c s (VMID template) vid (Truncate (clock w) Second)
         (workerName vid (Truncate (clock w) Second)) w1 = (reg, Some e, w2)"
      "snd (retire E vid True (if reg then workerName vid (Truncate (clock w) Second) else []) True (c, w2)) = (c', w')"
proof -
  let ?name = "workerName vid (Truncate (clock w) Second)"
  let ?k = "Clone (worker_clone (cCfg c) (sCfg s) ?name (VMID template) vid)"
  show thesis
  proof (cases "outcome E (?k # trace w)")
    case (Some e)
    then show thesis using assms by (intro clone_failed [of e])
      (auto simp: create_def Let_def do_call_def split: if_splits)
  next
    case None
    obtain reg eo w2 where b: "build E c s (VMID template) vid (Truncate (clock w) Second) ?name (calls E ?k w)
        = (reg, eo, w2)" by (metis prod_cases3)
    show thesis
    proof (cases eo)
      case None
      with b assms \<open>outcome E (?k # trace w) = None\<close> show thesis
        by (intro ready [of "calls E ?k w" reg]) (auto simp: create_def Let_def do_call_def)
    next
      case (Some e)
      with b assms \<open>outcome E (?k # trace w) = None\<close> show thesis
        by (intro failed [of e "calls E ?k w" reg w2])
          (auto simp: create_def Let_def do_call_def split: prod.splits)
    qed
  qed
qed

text \<open>The name, creation time and clone call of a worker created at \<open>w\<close>.\<close>

definition created_at :: "world \<Rightarrow> time" where
  "created_at w = Truncate (clock w) Second"

definition clone_call :: "controller \<Rightarrow> scaleSetState \<Rightarrow> vm \<Rightarrow> vmid \<Rightarrow> world \<Rightarrow> call" where
  "clone_call c s template vid w =
     Clone (worker_clone (cCfg c) (sCfg s) (workerName vid (created_at w)) (VMID template) vid)"

lemmas created_defs = created_at_def clone_call_def

lemma create_result_cases:
  obtains r c' w' where "create E s template vid (c, w) = (r, c', w')"
  by (metis prod_cases3)

lemma create_calls_ready:
  assumes "fst (create E s template vid (c, w)) = None"
  shows "\<exists>jit pings. ping_calls vid pings \<and> (\<exists>ps. pings = AgentPing vid # ps) \<and>
    extends (ready_calls c s (VMID template) vid (created_at w) (workerName vid (created_at w)) jit pings
             @ [clone_call c s template vid w]) w (snd (snd (create E s template vid (c, w))))"
proof (rule create_result_cases [of E s template vid c w])
  fix r c' w' assume cr: "create E s template vid (c, w) = (r, c', w')"
  from cr show ?thesis
  proof (cases rule: create_cases)
    case (ready w1 reg)
    have one: "extends [clone_call c s template vid w] w w1"
      using ready(4) extends_calls by (simp add: created_defs)
    obtain jit pings where "extends (ready_calls c s (VMID template) vid (created_at w)
        (workerName vid (created_at w)) jit pings) w1 w'"
      and "ping_calls vid pings" "\<exists>ps. pings = AgentPing vid # ps"
      using build_ok [OF ready(5)] by (auto simp: created_at_def)
    then show ?thesis using extends_trans [OF one] cr by auto
  qed (use assms cr in simp_all)
qed

lemma create_calls_failed:
  assumes "fst (create E s template vid (c, w)) \<noteq> None"
    and "outcome E (clone_call c s template vid w # trace w) = None"
  shows "\<exists>cleanup built. (\<forall>k\<in>set cleanup. touches k = None) \<and> (\<forall>k\<in>set built. build_call vid k) \<and>
    extends (cleanup @ [Destroy vid, Stop vid] @ built @ [clone_call c s template vid w]) w
      (snd (snd (create E s template vid (c, w))))"
proof (rule create_result_cases [of E s template vid c w])
  fix r c' w' assume cr: "create E s template vid (c, w) = (r, c', w')"
  from cr show ?thesis
  proof (cases rule: create_cases)
    case (clone_failed e)
    then show ?thesis using assms(2) by (simp add: created_defs)
  next
    case (ready w1 reg)
    then show ?thesis using assms(1) cr by simp
  next
    case (failed w1 w2 reg e)
    have one: "extends [clone_call c s template vid w] w w1"
      using failed(3) extends_calls by (simp add: created_defs)
    obtain built where two: "extends built w1 w2" and built: "\<forall>k\<in>set built. build_call vid k"
      using build_makes [of vid w1 E c s "VMID template" "Truncate (clock w) Second"
        "workerName vid (Truncate (clock w) Second)"] failed(4) by (auto simp: makes_def)
    obtain rn where rn: "retire E vid True (if reg then workerName vid (Truncate (clock w) Second) else [])
        True (c, w2) = (rn, c', w')"
      using failed(5) by (metis prod.collapse)
    obtain cleanup where "extends (cleanup @ Destroy vid # [Stop vid]) w2 w'"
      and "\<forall>k\<in>set cleanup. touches k = None"
      using retire_forced(2) [OF rn] by auto
    with extends_trans [OF extends_trans [OF one two], of "cleanup @ Destroy vid # [Stop vid]" w']
    show ?thesis using cr built by (intro exI [of _ cleanup] exI [of _ built]) simp
  qed
qed

lemma create_calls_clone_failed:
  assumes "outcome E (clone_call c s template vid w # trace w) = Some e"
  shows "fst (create E s template vid (c, w)) \<noteq> None
    \<and> fst (snd (create E s template vid (c, w))) =
        (if IsVMIDInUse e then c\<lparr>cForeign := insert vid (cForeign c)\<rparr> else c)
    \<and> extends [clone_call c s template vid w] w (snd (snd (create E s template vid (c, w))))"
proof (rule create_result_cases [of E s template vid c w])
  fix r c' w' assume cr: "create E s template vid (c, w) = (r, c', w')"
  from cr show ?thesis
  proof (cases rule: create_cases)
    case (clone_failed e')
    then show ?thesis using assms cr extends_calls [of _ w E] by (simp add: created_defs)
  qed (use assms in \<open>simp_all add: created_defs\<close>)
qed

definition own_call :: "vmid \<Rightarrow> call \<Rightarrow> bool" where
  "own_call vid k \<longleftrightarrow> touches k = None \<or> touches k = Some vid"

lemma build_call_own: "build_call vid k \<Longrightarrow> own_call vid k"
  by (cases k) (auto simp: build_call_def own_call_def)

lemma create_makes: "makes (own_call vid) w (snd (snd (create E s template vid (c, w))))"
proof (cases "outcome E (clone_call c s template vid w # trace w)")
  case (Some e)
  then show ?thesis using create_calls_clone_failed [OF Some]
    by (auto intro!: extends_makes simp: own_call_def clone_call_def worker_clone_def)
next
  case None
  show ?thesis
  proof (cases "fst (create E s template vid (c, w)) = None")
    case True
    then obtain jit pings where "ping_calls vid pings" and "extends (ready_calls c s (VMID template) vid
        (created_at w) (workerName vid (created_at w)) jit pings @ [clone_call c s template vid w]) w
        (snd (snd (create E s template vid (c, w))))"
      using create_calls_ready by blast
    then show ?thesis
      by (elim extends_makes)
        (auto simp: own_call_def ready_calls_def clone_call_def worker_clone_def ping_calls_def)
  next
    case False
    from create_calls_failed [OF this None] obtain cleanup built
      where k: "\<forall>k\<in>set cleanup. touches k = None" "\<forall>k\<in>set built. build_call vid k"
        and x: "extends (cleanup @ [Destroy vid, Stop vid] @ built @ [clone_call c s template vid w]) w
          (snd (snd (create E s template vid (c, w))))"
      by blast
    show ?thesis
    proof (rule extends_makes [OF x])
      fix k assume "k \<in> set (cleanup @ [Destroy vid, Stop vid] @ built @ [clone_call c s template vid w])"
      then show "own_call vid k"
        using k build_call_own by (auto simp: own_call_def clone_call_def worker_clone_def)
    qed
  qed
qed

section \<open>A concrete environment\<close>

definition example_env :: "(call list \<Rightarrow> error option) \<Rightarrow> env" where
  "example_env out =
     \<lparr>listing = (\<lambda>_. Inr []), outcome = out, registered_runner = (\<lambda>_. Inr (Some 7)),
      jit_config = (\<lambda>_. Inr ''jit''), scale_set_id = (\<lambda>_. Inr 3),
      latest_release = (\<lambda>_. Inl Canceled), elapsed = (\<lambda>_. 1000), ctx_ended = (\<lambda>_. False)\<rparr>"

definition all_ok :: "call list \<Rightarrow> error option" where
  "all_ok tr = None"

definition grow_fails :: "call list \<Rightarrow> error option" where
  "grow_fails tr = (case tr of GrowDisk v d n # _ \<Rightarrow> Some (ErrorMsg ''no space'') | _ \<Rightarrow> None)"

definition clone_taken :: "call list \<Rightarrow> error option" where
  "clone_taken tr =
     (case tr of
        Clone co # _ \<Rightarrow>
          Some (APIError \<lparr>Method = ''POST'', Path = ''/clone'', StatusCode = 500,
            Message = ''config file already exists'', ParamErrors = []\<rparr>)
      | _ \<Rightarrow> None)"

definition job_runs :: "call list \<Rightarrow> error option" where
  "job_runs tr = (case tr of RemoveRunner r # _ \<Rightarrow> Some (Wrapped ''remove runner'' [ErrJobStillRunning]) | _ \<Rightarrow> None)"

definition example_world :: world where
  "example_world = \<lparr>trace = [], clock = example_time\<rparr>"

definition example_state :: scaleSetState where
  "example_state = (newScaleSetState (example_scale_set 2))\<lparr>sId := 3\<rparr>"

definition example_controller :: controller where
  "example_controller =
     \<lparr>cCfg = example_config 2, cResync = 15000000000, cBootTimeout = 600000000000,
      cRunnerCheckAfter = 600000000000, cRunnerCheckEvery = 300000000000,
      cRetryBackoff = 10000000000, cParallelism = 3, cScaleSets = [''par'' \<mapsto> example_state],
      cWake = False, cBusy = [], cForeign = {}, cLastRunnerCheck = Map.empty, cNextRunnerCheck = 0,
      cOps = [], cStatus = []\<rparr>"

lemma ping_ok: "outcome E (AgentPing vid # trace w) = None \<Longrightarrow> waitForAgent E vid d w = (None, calls E (AgentPing vid) w)"
  by (simp add: waitForAgent.simps [of E vid d w] do_call_def)

lemma example_create_ok:
  "fst (create (example_env all_ok) example_state (example_template 10097 ''9'') 10000
     (example_controller, example_world)) = None"
  by (simp add: create_def build_def and_then_def do_call_def gh_GenerateJITConfig_def Let_def ping_ok
      example_env_def all_ok_def)

lemma example_create_fails:
  "fst (create (example_env grow_fails) example_state (example_template 10097 ''9'') 10000
     (example_controller, example_world)) \<noteq> None"
  by (simp add: create_def build_def and_then_def do_call_def Let_def example_env_def grow_fails_def
      split: prod.split)

section \<open>Properties\<close>

text \<open>
  C28. A creation that succeeds has cloned the template, tagged the clone as not ready, sized it,
  registered its runner, started it, waited until its guest agent answered, written the JIT config and
  then the file that signals it, and has tagged the worker ready as the very last call; it has made
  no other call.
\<close>

theorem create_success:
  assumes "fst (create E s template vid (c, w)) = None"
  shows "\<exists>jit pings. ping_calls vid pings \<and> (\<exists>ps. pings = AgentPing vid # ps) \<and>
    extends (ready_calls c s (VMID template) vid (created_at w) (workerName vid (created_at w)) jit pings
             @ [clone_call c s template vid w]) w (snd (snd (create E s template vid (c, w))))"
  using create_calls_ready [OF assms] .

theorem create_success_witness:
  "\<exists>jit pings. ping_calls 10000 pings \<and> (\<exists>ps. pings = AgentPing 10000 # ps) \<and>
    extends (ready_calls example_controller example_state (VMID (example_template 10097 ''9'')) 10000
        (created_at example_world) (workerName 10000 (created_at example_world)) jit pings
      @ [clone_call example_controller example_state (example_template 10097 ''9'') 10000 example_world])
      example_world (snd (snd (create (example_env all_ok) example_state (example_template 10097 ''9'') 10000
        (example_controller, example_world))))"
  using create_success [OF example_create_ok] .

text \<open>
  C9. A creation that fails after its clone existed goes after the clone whatever happened: the VM is
  stopped and destroyed after every building call, and after that no call touches any VM.
\<close>

theorem create_failure_destroys_clone:
  assumes "fst (create E s template vid (c, w)) \<noteq> None"
    and "outcome E (clone_call c s template vid w # trace w) = None"
  shows "\<exists>cleanup built. (\<forall>k\<in>set cleanup. touches k = None) \<and> (\<forall>k\<in>set built. build_call vid k) \<and>
    extends (cleanup @ [Destroy vid, Stop vid] @ built @ [clone_call c s template vid w]) w
      (snd (snd (create E s template vid (c, w))))"
  using create_calls_failed [OF assms] .

theorem create_failure_destroys_clone_witness:
  "\<exists>cleanup built. (\<forall>k\<in>set cleanup. touches k = None) \<and> (\<forall>k\<in>set built. build_call 10000 k) \<and>
    extends (cleanup @ [Destroy 10000, Stop 10000] @ built
      @ [clone_call example_controller example_state (example_template 10097 ''9'') 10000 example_world])
      example_world (snd (snd (create (example_env grow_fails) example_state (example_template 10097 ''9'') 10000
        (example_controller, example_world))))"
  by (rule create_failure_destroys_clone [OF example_create_fails])
     (simp add: example_env_def grow_fails_def clone_call_def)

text \<open>
  When the clone fails, the controller makes no further call, so a VM that is not its own is never
  touched, and a VMID that Proxmox says is taken is remembered as foreign.
\<close>

theorem create_clone_failure_stops:
  assumes "outcome E (clone_call c s template vid w # trace w) = Some e"
  shows "fst (create E s template vid (c, w)) \<noteq> None
    \<and> fst (snd (create E s template vid (c, w))) =
        (if IsVMIDInUse e then c\<lparr>cForeign := insert vid (cForeign c)\<rparr> else c)
    \<and> extends [clone_call c s template vid w] w (snd (snd (create E s template vid (c, w))))"
  using create_calls_clone_failed [OF assms] .

theorem create_clone_failure_stops_witness:
  "10000 \<in> cForeign (fst (snd (create (example_env clone_taken) example_state (example_template 10097 ''9'') 10000
     (example_controller, example_world))))"
proof -
  let ?e = "APIError \<lparr>Method = ''POST'', Path = ''/clone'', StatusCode = 500,
    Message = ''config file already exists'', ParamErrors = []\<rparr>"
  have "outcome (example_env clone_taken) (clone_call example_controller example_state
      (example_template 10097 ''9'') 10000 example_world # trace example_world) = Some ?e"
    by (simp add: example_env_def clone_taken_def clone_call_def)
  moreover have "IsVMIDInUse ?e" by (simp add: go_eval)
  ultimately show ?thesis using create_clone_failure_stops by simp
qed

text \<open>
  Whatever Proxmox and GitHub answer, creating a worker touches no VM but the one whose VMID was
  allocated for it.
\<close>

theorem create_touches_only_its_vm:
  "makes (own_call vid) w (snd (snd (create E s template vid (c, w))))"
  by (rule create_makes)



text \<open>
  A forced retirement always stops the VM if it runs and then tries to destroy it, before any call to
  GitHub, and succeeds exactly when the VM is gone, whatever GitHub answers: Proxmox destroyed it, or
  forbids the call and no longer lists the VM.
\<close>

theorem forced_retire_destroys:
  "(fst (retire E vid running name True (c, w)) = None \<longleftrightarrow> gone E vid (stopped_world E vid running w))
   \<and> (\<exists>ks. touches ` set ks \<subseteq> {None}
        \<and> extends (ks @ Destroy vid # (if running then [Stop vid] else [])) w
            (snd (snd (retire E vid running name True (c, w)))))"
proof -
  obtain r c' w' where r: "retire E vid running name True (c, w) = (r, c', w')" by (metis prod_cases3)
  show ?thesis using retire_forced [OF r] unfolding r by auto
qed

text \<open>
  C33. Waiting for a booting worker's guest agent ends: every wait returns after at most one ping more
  than poll intervals fit into the time left until the deadline, and it reports success only if the
  last ping was answered.
\<close>

theorem waitForAgent_bounded:
  "\<exists>ks. extends ks w (snd (waitForAgent E vid deadline w)) \<and> ping_calls vid ks
     \<and> int (length (filter (\<lambda>k. k = AgentPing vid) ks)) \<le> max_pings (deadline - clock w)
     \<and> (case fst (waitForAgent E vid deadline w) of
          None \<Rightarrow> (\<exists>ls. ks = AgentPing vid # ls) \<and> outcome E (ks @ trace w) = None
        | Some e \<Rightarrow> True)"
proof -
  obtain r w' where r: "waitForAgent E vid deadline w = (r, w')" by fastforce
  show ?thesis using waitForAgent_calls [OF r] unfolding r waited_def
    by (auto simp: extends_def split: option.split)
qed

end
