(* ===== verification/Reconcile.thy ===== *)
theory Reconcile
  imports Worker_Facts "HOL-Library.Multiset"
begin

text \<open>
  \<^verbatim>\<open>internal/controller/reconcile.go\<close>, \<^verbatim>\<open>templates.go\<close>, the status counts of \<^verbatim>\<open>status.go\<close> and the
  due check of \<^verbatim>\<open>freshness.go\<close>: one pass of the reconcile loop, as a function on the controller's state
  and the world. Go's map iteration order and the order \<^verbatim>\<open>sort.Slice\<close> gives workers created in the
  same second are unspecified; they are the fields of \<open>orders\<close>.
\<close>

record orders =
  worker_order :: "string list"
  scale_set_order :: "string list"
  sort_idle :: "worker list \<Rightarrow> worker list"

definition sorts_by_age :: "(worker list \<Rightarrow> worker list) \<Rightarrow> bool" where
  "sorts_by_age f \<longleftrightarrow> (\<forall>ws. mset (f ws) = mset ws \<and> sorted (map wCreated (f ws)))"

definition maxRunnerChecksPerPass :: int where "maxRunnerChecksPerPass = 10"
definition runnerCheckBudget :: duration where "runnerCheckBudget = 20 * Second"
definition runnerCheckRetry :: duration where "runnerCheckRetry = Hour"

section \<open>What a pass sees\<close>

record view =
  vTemplate :: "vm option"
  vWorkers :: "string \<Rightarrow> worker list"
  vStrays :: "vm list"
  vUsed :: "vmid set"

definition observe_vm :: "config \<Rightarrow> vm \<Rightarrow> view \<Rightarrow> view" where
  "observe_vm cfg x v0 =
     (let v = v0\<lparr>vUsed := insert (VMID x) (vUsed v0)\<rparr> in
      if Template x \<or> Pool x \<noteq> pxPool (cfgProxmox cfg) \<or> \<not> HasTag x Managed then v
      else if \<not> Contains (Workers (VMIDRange (cfgProxmox cfg))) (VMID x) then v
      else if \<not> HasTag x Worker then v\<lparr>vStrays := vStrays v @ [x]\<rparr>
      else (case parseWorker x of
              Inl e \<Rightarrow> v\<lparr>vStrays := vStrays v @ [x]\<rparr>
            | Inr k \<Rightarrow> v\<lparr>vWorkers := (vWorkers v)(wScaleSet k := vWorkers v (wScaleSet k) @ [k])\<rparr>))"

definition observe :: "config \<Rightarrow> vm list \<Rightarrow> view" where
  "observe cfg vms =
     fold (observe_vm cfg) vms
       \<lparr>vTemplate = NewestTemplate vms (pxPool (cfgProxmox cfg)), vWorkers = (\<lambda>_. []), vStrays = [], vUsed = {}\<rparr>"

section \<open>Retirement reasons\<close>

definition runnerCheckDue :: "vmid \<Rightarrow> time \<Rightarrow> controller \<Rightarrow> bool \<times> controller" where
  "runnerCheckDue vid now c =
     (if (case cLastRunnerCheck c vid of
            Some t \<Rightarrow> time_Sub now t < cRunnerCheckEvery c | None \<Rightarrow> False)
      then (False, c)
      else (True, c\<lparr>cLastRunnerCheck := (cLastRunnerCheck c)(vid \<mapsto> now)\<rparr>))"

definition retireReason ::
  "env \<Rightarrow> time \<Rightarrow> scaleSetState option \<Rightarrow> worker \<Rightarrow> time \<Rightarrow> int \<times> controller \<times> world
   \<Rightarrow> (reason \<times> bool) \<times> int \<times> controller \<times> world" where
  "retireReason E checkDeadline s k now st =
     (case st of (checks, c, w) \<Rightarrow>
      let maxLifetime = (case s of None \<Rightarrow> DefaultMaxLifetime | Some ss \<Rightarrow> MaxLifetime (sCfg ss));
          age = time_Sub now (wCreated k); x = wVM k in
      if age > maxLifetime then ((OlderThanMaxLifetime maxLifetime, True), checks, c, w)
      else if Status x = ''stopped'' \<and> wReady k then ((PoweredOff, True), checks, c, w)
      else if s = None \<or> \<not> wReady k then
        (case runnerCheckDue (VMID x) now c of
           (False, c) \<Rightarrow> ((Keep, False), checks, c, w)
         | (True, c) \<Rightarrow> ((if s = None then ScaleSetRemoved else LeftHalfCreated, False), checks, c, w))
      else if Status x \<noteq> ''running'' then ((Keep, False), checks, c, w)
      else if age < cRunnerCheckAfter c \<or> checks \<ge> maxRunnerChecksPerPass
              \<or> checkDeadline \<le> clock w \<or> ctx_ended E (trace w)
      then ((Keep, False), checks, c, w)
      else
        (case runnerCheckDue (VMID x) now c of
           (False, c) \<Rightarrow> ((Keep, False), checks, c, w)
         | (True, c) \<Rightarrow>
             (case gh_RunnerByName E (wName k) w of
                (Inr None, w) \<Rightarrow> ((RunnerGone, False), checks + 1, c, w)
              | (_, w) \<Rightarrow> ((Keep, False), checks + 1, c, w))))"

section \<open>Templates (templates.go)\<close>

definition managed_clone :: "string \<Rightarrow> vm \<Rightarrow> bool" where
  "managed_clone pool x \<longleftrightarrow> \<not> (Template x \<or> Pool x \<noteq> pool \<or> \<not> HasTag x Managed)"

text \<open>The templates in use, or \<open>None\<close> at a managed VM that does not record its template.\<close>

fun templates_in_use :: "string \<Rightarrow> vm list \<Rightarrow> vmid set option" where
  "templates_in_use pool [] = Some {}"
| "templates_in_use pool (x # vms) =
     (if \<not> managed_clone pool x then templates_in_use pool vms
      else (case tag_Int x TemplateRefPrefix of
              None \<Rightarrow> None
            | Some ref \<Rightarrow> map_option (insert ref) (templates_in_use pool vms)))"

definition prunable :: "string \<Rightarrow> vm \<Rightarrow> vmid set \<Rightarrow> vm \<Rightarrow> bool" where
  "prunable pool newest inUse x \<longleftrightarrow>
     \<not> (\<not> IsTemplate x pool \<or> VMID x = VMID newest \<or> VMID x \<in> inUse)"

definition pruneTemplates :: "vm list \<Rightarrow> vm option \<Rightarrow> controller \<Rightarrow> controller" where
  "pruneTemplates vms newest c =
     (case newest of
        None \<Rightarrow> c
      | Some n \<Rightarrow>
          if creatingAny c then c
          else (let pool = pxPool (cfgProxmox (cCfg c)) in
                case templates_in_use pool vms of
                  None \<Rightarrow> c
                | Some inUse \<Rightarrow>
                    fold (\<lambda>x. startOp (OpPrune x)) (filter (prunable pool n inUse) vms) c))"

section \<open>Freshness (freshness.go)\<close>

text \<open>The state after the due check, and the comparison that is started in the background.\<close>

definition checkRunnerFreshness :: "vm option \<Rightarrow> time \<Rightarrow> controller \<Rightarrow> controller \<times> (vm \<times> time) option" where
  "checkRunnerFreshness template now c =
     (case template of
        Some t \<Rightarrow>
          if \<not> now < cNextRunnerCheck c
          then (c\<lparr>cNextRunnerCheck := now + runnerCheckRetry\<rparr>, Some (t, now)) else (c, None)
      | None \<Rightarrow> (c, None))"

section \<open>Scaling\<close>

function alloc_from :: "int \<Rightarrow> int \<Rightarrow> (vmid \<Rightarrow> bool) \<Rightarrow> vmid option" where
  "alloc_from i hi taken =
     (if i > hi then None else if taken i then alloc_from (i + 1) hi taken else Some i)"
  by pat_completeness auto
termination by (relation "measure (\<lambda>(i, hi, taken). nat (hi + 1 - i))") auto

declare alloc_from.simps [simp del]

definition allocateVMID :: "controller \<Rightarrow> vmid set \<Rightarrow> (vmid \<times> vmid set) option" where
  "allocateVMID c used =
     (let r = Workers (VMIDRange (cfgProxmox (cCfg c))) in
      map_option (\<lambda>i. (i, insert i used))
        (alloc_from (RangeStart r) (RangeEnd r) (\<lambda>i. i \<in> used \<or> i \<in> cForeign c \<or> isBusy c i)))"

fun create_loop ::
  "nat \<Rightarrow> string \<Rightarrow> vm \<Rightarrow> controller \<times> vmid set \<Rightarrow> controller \<times> vmid set" where
  "create_loop 0 name template cu = cu"
| "create_loop (Suc n) name template (c, used) =
     (case allocateVMID c used of
        None \<Rightarrow> (c, used)
      | Some (vid, used') \<Rightarrow> create_loop n name template (startOp (OpCreate name template vid) c, used'))"

text \<open>The listed workers that count as active, and the idle ones among them.\<close>

definition alive :: "controller \<Rightarrow> worker list \<Rightarrow> worker list" where
  "alive c ws = filter (\<lambda>k. \<not> (isBusy c (VMID (wVM k)) \<or> Status (wVM k) = ''stopped'' \<or> \<not> wReady k)) ws"

definition idle :: "controller \<Rightarrow> scaleSetState \<Rightarrow> worker list \<Rightarrow> worker list" where
  "idle c s ws = filter (\<lambda>k. \<not> hasJob (wName k) s) (alive c ws)"

definition retire_worker :: "string option \<Rightarrow> bool \<Rightarrow> reason \<Rightarrow> worker \<Rightarrow> controller \<Rightarrow> controller" where
  "retire_worker s force r k = startOp (OpRetire s (wVM k) (wName k) force r)"

definition scale :: "orders \<Rightarrow> view \<Rightarrow> time \<Rightarrow> string \<Rightarrow> controller \<times> vmid set \<Rightarrow> controller \<times> vmid set" where
  "scale ord v now name cu =
     (case cu of (c, used) \<Rightarrow>
      case cScaleSets c name of
        None \<Rightarrow> (c, used)
      | Some s \<Rightarrow>
          (case target s of (tgt, known) \<Rightarrow>
           if \<not> known \<or> sId s = 0 then (c, used)
           else
             (let n = ssName (sCfg s); creating = creatingFor c n; ws = vWorkers v n;
                  active = creating + int (length (alive c ws)) in
              if active < tgt then
                (case vTemplate v of
                   None \<Rightarrow> (c, used)
                 | Some t \<Rightarrow>
                     if \<not> canCreate now s then (c, used) else create_loop (nat (tgt - active)) n t (c, used))
              else if active > tgt \<and> creating = 0 then
                (fold (retire_worker (Some n) False MoreThanWanted)
                   (take (nat (active - tgt)) (sort_idle ord (idle c s ws))) c, used)
              else (c, used))))"

section \<open>The status counts (status.go)\<close>

definition scale_set_status :: "view \<Rightarrow> string \<Rightarrow> scaleSetState \<Rightarrow> scaleSetStatus" where
  "scale_set_status v name s =
     \<lparr>stName = name, stID = sId s, stWorkers = int (length (vWorkers v name)),
      stReady = int (length (filter wReady (vWorkers v name))),
      stBusy = int (length (filter (\<lambda>k. hasJob (wName k) s) (vWorkers v name)))\<rparr>"

fun insert_status :: "scaleSetStatus \<Rightarrow> scaleSetStatus list \<Rightarrow> scaleSetStatus list" where
  "insert_status s [] = [s]"
| "insert_status s (t # ts) = (if str_less (stName s) (stName t) then s # t # ts else t # insert_status s ts)"

definition countWorkers :: "orders \<Rightarrow> view \<Rightarrow> controller \<Rightarrow> controller" where
  "countWorkers ord v c =
     c\<lparr>cStatus := foldr insert_status
         (List.map_filter (\<lambda>n. map_option (scale_set_status v n) (cScaleSets c n)) (scale_set_order ord)) []\<rparr>"

section \<open>One pass\<close>

definition check_worker ::
  "env \<Rightarrow> time \<Rightarrow> time \<Rightarrow> string \<Rightarrow> worker \<Rightarrow> int \<times> controller \<times> world \<Rightarrow> int \<times> controller \<times> world" where
  "check_worker E checkDeadline now name k st =
     (case st of (checks, c, w) \<Rightarrow>
      if isBusy c (VMID (wVM k)) then (checks, c, w)
      else
        (let s = cScaleSets c name in
         case retireReason E checkDeadline s k now (checks, c, w) of
           ((r, force), checks, c, w) \<Rightarrow>
             if r = Keep then (checks, c, w)
             else (checks, retire_worker (map_option (\<lambda>_. name) s) force r k c, w)))"

definition check_workers ::
  "env \<Rightarrow> orders \<Rightarrow> view \<Rightarrow> time \<Rightarrow> controller \<times> world \<Rightarrow> int \<times> controller \<times> world" where
  "check_workers E ord v now cw =
     (case cw of (c, w) \<Rightarrow>
      fold (\<lambda>name. fold (check_worker E (clock w + runnerCheckBudget) now name) (vWorkers v name))
        (worker_order ord) (0, c, w))"

definition retire_stray :: "vm \<Rightarrow> controller \<Rightarrow> controller" where
  "retire_stray x = startOp (OpRetire None x [] True LeftHalfCreated)"

text \<open>
  A pass: its error, the freshness comparison it starts, and the state it leaves. The pass reads the
  clock once it has the listing.
\<close>

definition reconcile ::
  "env \<Rightarrow> orders \<Rightarrow> controller \<times> world \<Rightarrow> error option \<times> (vm \<times> time) option \<times> controller \<times> world" where
  "reconcile E ord cw =
     (case cw of (c, w) \<Rightarrow>
      case pve_ListVMs E w of
        (Inl e, w) \<Rightarrow> (Some (wrap ''list VMs'' e), None, c, w)
      | (Inr vms, w) \<Rightarrow>
          (let now = clock w; v = observe (cCfg c) vms;
               c = pruneTemplates vms (vTemplate v) c;
               (c, fresh) = checkRunnerFreshness (vTemplate v) now c;
               c = fold retire_stray (vStrays v) c;
               (checks, c, w) = check_workers E ord v now (c, w);
               (c, used) = fold (scale ord v now) (scale_set_order ord) (c, vUsed v);
               c = countWorkers ord v c in
           (None, fresh, c, w)))"

end
