(* ===== verification/Reconcile_Facts.thy ===== *)
theory Reconcile_Facts
  imports Reconcile
begin

text \<open>
  What one pass decides: which VMs it considers at all, which workers it retires and whether by
  force, which VMIDs it allocates, how many workers it starts or retires, and which templates it
  prunes.
\<close>

section \<open>The view\<close>

definition eligible :: "config \<Rightarrow> vm \<Rightarrow> bool" where
  "eligible cfg x \<longleftrightarrow>
     managed_clone (pxPool (cfgProxmox cfg)) x \<and> Contains (Workers (VMIDRange (cfgProxmox cfg))) (VMID x)"

definition worker_of :: "config \<Rightarrow> vm \<Rightarrow> worker option" where
  "worker_of cfg x =
     (if eligible cfg x \<and> HasTag x Worker then right (parseWorker x) else None)"

lemma observe_vm_fields:
  "vTemplate (observe_vm cfg x v) = vTemplate v"
  "vUsed (observe_vm cfg x v) = insert (VMID x) (vUsed v)"
  "vStrays (observe_vm cfg x v) = vStrays v @ (if eligible cfg x \<and> worker_of cfg x = None then [x] else [])"
  "vWorkers (observe_vm cfg x v) n = vWorkers v n @
     (case worker_of cfg x of Some k \<Rightarrow> if wScaleSet k = n then [k] else [] | None \<Rightarrow> [])"
  by (auto simp: observe_vm_def Let_def worker_of_def eligible_def managed_clone_def right_def split: sum.split)

lemma fold_observe_vm:
  "vTemplate (fold (observe_vm cfg) vms v) = vTemplate v"
  "vUsed (fold (observe_vm cfg) vms v) = vUsed v \<union> VMID ` set vms"
  "vStrays (fold (observe_vm cfg) vms v) =
     vStrays v @ filter (\<lambda>x. eligible cfg x \<and> worker_of cfg x = None) vms"
  "vWorkers (fold (observe_vm cfg) vms v) n =
     vWorkers v n @ filter (\<lambda>k. wScaleSet k = n) (List.map_filter (worker_of cfg) vms)"
  by (induction vms arbitrary: v)
     (auto simp: observe_vm_fields List.map_filter_simps split: option.split)

lemma observe_fields:
  "vTemplate (observe cfg vms) = NewestTemplate vms (pxPool (cfgProxmox cfg))"
  "vUsed (observe cfg vms) = VMID ` set vms"
  "vStrays (observe cfg vms) = filter (\<lambda>x. eligible cfg x \<and> worker_of cfg x = None) vms"
  "vWorkers (observe cfg vms) n = filter (\<lambda>k. wScaleSet k = n) (List.map_filter (worker_of cfg) vms)"
  by (simp_all add: observe_def fold_observe_vm)

lemma worker_of_Some:
  "worker_of cfg x = Some k \<longleftrightarrow> eligible cfg x \<and> HasTag x Worker \<and> parseWorker x = Inr k"
  by (auto simp: worker_of_def right_def split: sum.splits)

lemma observed_worker:
  assumes "k \<in> set (vWorkers (observe cfg vms) n)"
  shows "wVM k \<in> set vms" and "eligible cfg (wVM k)" and "HasTag (wVM k) Worker"
    and "wScaleSet k = n" and "parseWorker (wVM k) = Inr k"
proof -
  obtain x where x: "x \<in> set vms" "worker_of cfg x = Some k" "wScaleSet k = n"
    using assms by (auto simp: observe_fields List.map_filter_def)
  then have p: "parseWorker x = Inr k" by (simp add: worker_of_Some)
  then have "wVM k = x" by (rule parseWorker_fields(1))
  with x p show "wVM k \<in> set vms" "eligible cfg (wVM k)" "HasTag (wVM k) Worker"
    "wScaleSet k = n" "parseWorker (wVM k) = Inr k"
    by (simp_all add: worker_of_Some)
qed

section \<open>Reasons to retire\<close>

lemma runnerCheckDue_frame:
  "runnerCheckDue vid now c = (b, c') \<Longrightarrow> c' = c\<lparr>cLastRunnerCheck := cLastRunnerCheck c'\<rparr>"
  by (auto simp: runnerCheckDue_def split: if_splits)

definition overdue :: "scaleSetState option \<Rightarrow> worker \<Rightarrow> time \<Rightarrow> bool" where
  "overdue s k now \<longleftrightarrow>
     time_Sub now (wCreated k) > (case s of None \<Rightarrow> DefaultMaxLifetime | Some ss \<Rightarrow> MaxLifetime (sCfg ss))"

lemma retireReason_cases:
  assumes "retireReason E d s k now (checks, c, w) = ((r, force), checks', c', w')"
  shows "c' = c\<lparr>cLastRunnerCheck := cLastRunnerCheck c'\<rparr>"
    and "force \<longleftrightarrow> overdue s k now \<or> Status (wVM k) = ''stopped'' \<and> wReady k"
    and "overdue s k now \<longrightarrow> r \<noteq> Keep"
    and "r = MoreThanWanted \<longrightarrow> False"
    and "w' = w \<and> checks' = checks \<or>
         w' = calls E (RunnerByName (wName k)) w \<and> checks' = checks + 1 \<and> checks < maxRunnerChecksPerPass
         \<and> clock w < d \<and> \<not> force"
    and "r = RunnerGone \<longrightarrow> registered_runner E (RunnerByName (wName k) # trace w) = Inr None"
  using assms
  by (auto simp: retireReason_def overdue_def Let_def gh_RunnerByName_def
      dest!: runnerCheckDue_frame
      split: if_splits prod.splits bool.splits sum.splits option.splits)

section \<open>Allocation\<close>

lemma alloc_from_Some:
  "alloc_from i hi taken = Some j \<Longrightarrow> i \<le> j \<and> j \<le> hi \<and> \<not> taken j \<and> (\<forall>l. i \<le> l \<and> l < j \<longrightarrow> taken l)"
proof (induction i hi taken rule: alloc_from.induct)
  case (1 i hi taken)
  show ?case
  proof (cases "i \<le> hi \<and> taken i")
    case True
    then have "alloc_from (i + 1) hi taken = Some j" using "1.prems" by (simp add: alloc_from.simps [of i])
    then have ih: "i + 1 \<le> j \<and> j \<le> hi \<and> \<not> taken j \<and> (\<forall>l. i + 1 \<le> l \<and> l < j \<longrightarrow> taken l)"
      using "1.IH" True by simp
    moreover have "taken l" if "i \<le> l" "l < j" for l
      using ih that True by (cases "l = i") auto
    ultimately show ?thesis by simp
  next
    case False
    then show ?thesis using "1.prems" by (auto simp: alloc_from.simps [of i] split: if_splits)
  qed
qed

lemma alloc_from_None: "alloc_from i hi taken = None \<longleftrightarrow> (\<forall>l. i \<le> l \<and> l \<le> hi \<longrightarrow> taken l)"
proof (induction i hi taken rule: alloc_from.induct)
  case (1 i hi taken)
  show ?case
  proof (cases "i \<le> hi \<and> taken i")
    case True
    then have "alloc_from i hi taken = alloc_from (i + 1) hi taken" by (simp add: alloc_from.simps [of i])
    moreover have "(\<forall>l. i + 1 \<le> l \<and> l \<le> hi \<longrightarrow> taken l) \<longleftrightarrow> (\<forall>l. i \<le> l \<and> l \<le> hi \<longrightarrow> taken l)"
      using True by (metis add1_zle_eq order_le_less)
    ultimately show ?thesis using "1.IH" True by simp
  next
    case False
    then show ?thesis by (auto simp: alloc_from.simps [of i])
  qed
qed

definition free_vmid :: "controller \<Rightarrow> vmid set \<Rightarrow> vmid \<Rightarrow> bool" where
  "free_vmid c used i \<longleftrightarrow>
     Contains (Workers (VMIDRange (cfgProxmox (cCfg c)))) i \<and> i \<notin> used \<and> i \<notin> cForeign c \<and> \<not> isBusy c i"

lemma allocateVMID_Some:
  assumes "allocateVMID c used = Some (i, used')"
  shows "free_vmid c used i" and "used' = insert i used" and "free_vmid c used j \<Longrightarrow> i \<le> j"
  using assms alloc_from_Some
  by (auto simp: allocateVMID_def free_vmid_def Contains_def Let_def dest!: alloc_from_Some)

lemma allocateVMID_None: "allocateVMID c used = None \<longleftrightarrow> (\<forall>i. \<not> free_vmid c used i)"
  by (auto simp: allocateVMID_def free_vmid_def Contains_def Let_def alloc_from_None)

section \<open>Starting operations\<close>

lemma startOp_frame [simp]:
  "cCfg (startOp p c) = cCfg c" "cScaleSets (startOp p c) = cScaleSets c" "cForeign (startOp p c) = cForeign c"
  "cParallelism (startOp p c) = cParallelism c" "cRetryBackoff (startOp p c) = cRetryBackoff c"
  by (simp_all add: startOp_def)

lemma startOp_idle:
  "\<not> isBusy c (op_vmid p) \<Longrightarrow> cBusy (startOp p c) = (op_vmid p, op_name p) # cBusy c \<and> cOps (startOp p c) = cOps c @ [p]"
  by (simp add: startOp_def)

lemma isBusy_startOp [simp]: "isBusy (startOp p c) i \<longleftrightarrow> isBusy c i \<or> i = op_vmid p"
  by (auto simp: startOp_def isBusy_def)

lemma creatingFor_startOp_create:
  "\<not> isBusy c i \<Longrightarrow> creatingFor (startOp (OpCreate n t i) c) m = creatingFor c m + (if m = n then 1 else 0)"
  by (auto simp: startOp_def creatingFor_def)

lemma creatingFor_nonneg [simp]: "0 \<le> creatingFor c n"
  by (simp add: creatingFor_def)

lemma not_create_names: "opRetire \<noteq> opCreatePrefix @ n" "opPruneTemplate \<noteq> opCreatePrefix @ n"
  by (simp_all add: opRetire_def opPruneTemplate_def opCreatePrefix_def)

lemma creatingFor_startOp_other:
  "creatingFor (startOp (OpRetire so x r f why) c) m = creatingFor c m"
  "creatingFor (startOp (OpPrune x) c) m = creatingFor c m"
  using not_create_names [of m] by (simp_all add: startOp_def creatingFor_def)

lemma startOp_ops: "set (cOps (startOp p c)) \<subseteq> insert p (set (cOps c))"
  by (auto simp: startOp_def)

lemma fold_startOp_ops: "set (cOps (fold (\<lambda>x. startOp (f x)) xs c)) \<subseteq> set (cOps c) \<union> f ` set xs"
proof (induction xs arbitrary: c)
  case (Cons a xs)
  then show ?case using startOp_ops [of "f a" c] by fastforce
qed simp

section \<open>Creating several workers\<close>

text \<open>
  The VMIDs a creation loop allocates, and the exact effect of the loop.
\<close>

lemma create_loop_effect:
  "\<exists>ids. create_loop n name t (c, used) =
     (fold (\<lambda>i. startOp (OpCreate name t i)) ids c, used \<union> set ids)
   \<and> distinct ids \<and> (\<forall>i\<in>set ids. free_vmid c used i) \<and> length ids \<le> n
   \<and> (length ids < n \<longrightarrow> {i. free_vmid c used i} \<subseteq> set ids)
   \<and> creatingFor (fst (create_loop n name t (c, used))) m = creatingFor c m + (if m = name then int (length ids) else 0)"
proof (induction n arbitrary: c used)
  case 0
  then show ?case by (intro exI [of _ "[]"]) simp
next
  case (Suc n)
  show ?case
  proof (cases "allocateVMID c used")
    case None
    then have "\<forall>i. \<not> free_vmid c used i" by (simp add: allocateVMID_None)
    with None show ?thesis by (intro exI [of _ "[]"]) simp
  next
    case (Some a)
    obtain i used' where a: "a = (i, used')" by fastforce
    let ?c = "startOp (OpCreate name t i) c"
    have i: "free_vmid c used i" "used' = insert i used" using allocateVMID_Some Some a by auto
    then have nb: "\<not> isBusy c i" by (simp add: free_vmid_def)
    have free: "free_vmid ?c used' j \<longleftrightarrow> free_vmid c used j \<and> j \<noteq> i" for j
      using i(2) by (auto simp: free_vmid_def)
    obtain ids where ids: "create_loop n name t (?c, used') =
        (fold (\<lambda>i. startOp (OpCreate name t i)) ids ?c, used' \<union> set ids)"
      "distinct ids" "\<forall>j\<in>set ids. free_vmid ?c used' j" "length ids \<le> n"
      "length ids < n \<longrightarrow> {j. free_vmid ?c used' j} \<subseteq> set ids"
      "creatingFor (fst (create_loop n name t (?c, used'))) m =
        creatingFor ?c m + (if m = name then int (length ids) else 0)"
      using Suc.IH by blast
    have "create_loop (Suc n) name t (c, used) = create_loop n name t (?c, used')" using Some a by simp
    then show ?thesis
      using ids i free creatingFor_startOp_create [OF nb, of name t m]
      by (intro exI [of _ "i # ids"]) auto
  qed
qed

lemma finite_free: "finite {i. free_vmid c used i}"
proof (rule finite_subset)
  let ?r = "Workers (VMIDRange (cfgProxmox (cCfg c)))"
  show "{i. free_vmid c used i} \<subseteq> {RangeStart ?r..RangeEnd ?r}"
    by (auto simp: free_vmid_def Contains_def)
qed simp

text \<open>The operations a loop starts, newest last.\<close>

definition start_creates :: "string \<Rightarrow> vm \<Rightarrow> vmid list \<Rightarrow> controller \<Rightarrow> controller" where
  "start_creates name t ids = fold (\<lambda>i. startOp (OpCreate name t i)) ids"

lemma create_loop_exact:
  "\<exists>ids. create_loop n name t (c, used) = (start_creates name t ids c, used \<union> set ids)
   \<and> distinct ids \<and> (\<forall>i\<in>set ids. free_vmid c used i) \<and> length ids = min n (card {i. free_vmid c used i})"
proof -
  obtain ids where ids: "create_loop n name t (c, used) =
      (fold (\<lambda>i. startOp (OpCreate name t i)) ids c, used \<union> set ids)"
    "distinct ids" "\<forall>i\<in>set ids. free_vmid c used i" "length ids \<le> n"
    "length ids < n \<longrightarrow> {i. free_vmid c used i} \<subseteq> set ids"
    using create_loop_effect [of n name t c used name] by blast
  have sub: "set ids \<subseteq> {i. free_vmid c used i}" using ids(3) by blast
  have "length ids = min n (card {i. free_vmid c used i})"
  proof (cases "length ids < n")
    case True
    then have "set ids = {i. free_vmid c used i}" using ids(5) sub by blast
    then show ?thesis using True distinct_card [OF ids(2)] by simp
  next
    case False
    then have "length ids = n" using ids(4) by simp
    moreover have "length ids \<le> card {i. free_vmid c used i}"
      using card_mono [OF finite_free sub] distinct_card [OF ids(2)] by simp
    ultimately show ?thesis by simp
  qed
  with ids(1-3) show ?thesis by (auto simp: start_creates_def)
qed

section \<open>Scaling\<close>

definition active :: "controller \<Rightarrow> view \<Rightarrow> string \<Rightarrow> int" where
  "active c v n = creatingFor c n + int (length (alive c (vWorkers v n)))"

text \<open>A scale set GitHub has spoken about, under its own name.\<close>

definition governed :: "controller \<Rightarrow> string \<Rightarrow> scaleSetState \<Rightarrow> bool" where
  "governed c n s \<longleftrightarrow> cScaleSets c n = Some s \<and> ssName (sCfg s) = n \<and> sKnown s \<and> sId s \<noteq> 0"

lemma scale_governed:
  assumes "governed c n s"
  shows "scale ord v now n (c, used) =
    (if active c v n < sDesired s then
       (case vTemplate v of
          None \<Rightarrow> (c, used)
        | Some t \<Rightarrow> if \<not> canCreate now s then (c, used)
            else create_loop (nat (sDesired s - active c v n)) n t (c, used))
     else if active c v n > sDesired s \<and> creatingFor c n = 0 then
       (fold (retire_worker (Some n) False MoreThanWanted)
          (take (nat (active c v n - sDesired s)) (sort_idle ord (idle c s (vWorkers v n)))) c, used)
     else (c, used))"
  using assms by (simp add: scale_def governed_def target_def active_def Let_def split: option.split)

lemma scale_ungoverned:
  assumes "\<nexists>s. governed c n s" and "\<And>s. cScaleSets c n = Some s \<Longrightarrow> ssName (sCfg s) = n"
  shows "scale ord v now n (c, used) = (c, used)"
  using assms by (auto simp: scale_def governed_def target_def split: option.split)

lemma oldest_first:
  assumes "sorts_by_age f"
  shows "\<exists>chosen rest. take m (f ws) = chosen \<and> mset ws = mset chosen + mset rest
    \<and> length chosen = min m (length ws) \<and> (\<forall>k\<in>set chosen. \<forall>k'\<in>set rest. wCreated k \<le> wCreated k')"
proof -
  have m: "mset (f ws) = mset ws" and srt: "sorted (map wCreated (f ws))"
    using assms by (auto simp: sorts_by_age_def)
  have split: "map wCreated (f ws) = map wCreated (take m (f ws)) @ map wCreated (drop m (f ws))"
    by (metis append_take_drop_id map_append)
  have "\<forall>k\<in>set (take m (f ws)). \<forall>k'\<in>set (drop m (f ws)). wCreated k \<le> wCreated k'"
    using srt unfolding split sorted_append by auto
  moreover have "mset ws = mset (take m (f ws)) + mset (drop m (f ws))"
    by (metis append_take_drop_id m mset_append)
  moreover have "length (take m (f ws)) = min m (length ws)"
    using m by (metis length_take min.commute size_mset)
  ultimately show ?thesis by blast
qed

section \<open>Pruning\<close>

lemma templates_in_use_Some:
  assumes "templates_in_use pool vms = Some inUse"
  shows "inUse = {ref. \<exists>x\<in>set vms. managed_clone pool x \<and> tag_Int x TemplateRefPrefix = Some ref}"
    and "\<forall>x\<in>set vms. managed_clone pool x \<longrightarrow> tag_Int x TemplateRefPrefix \<noteq> None"
  using assms
  by (induction pool vms arbitrary: inUse rule: templates_in_use.induct)
     (auto split: if_splits option.splits)

lemma templates_in_use_None:
  "templates_in_use pool vms = None \<longleftrightarrow>
     (\<exists>x\<in>set vms. managed_clone pool x \<and> tag_Int x TemplateRefPrefix = None)"
  by (induction pool vms rule: templates_in_use.induct) (auto split: option.splits)

section \<open>Looking up runners\<close>

text \<open>The lookups made so far in a pass, as an invariant of its loop over the workers.\<close>

definition lookups :: "world \<Rightarrow> int \<times> controller \<times> world \<Rightarrow> bool" where
  "lookups w0 st \<longleftrightarrow>
     (case st of (checks, c, w) \<Rightarrow>
      \<exists>ks. extends ks w0 w \<and> (\<forall>k\<in>set ks. \<exists>n. k = RunnerByName n) \<and> checks = int (length ks)
        \<and> checks \<le> maxRunnerChecksPerPass)"

lemma check_worker_lookups: "lookups w0 st \<Longrightarrow> lookups w0 (check_worker E d' now name k st)"
proof -
  assume inv: "lookups w0 st"
  obtain checks c w where st: "st = (checks, c, w)" by (metis prod_cases3)
  obtain r force checks' c' w' where
    rr: "retireReason E d' (cScaleSets c name) k now (checks, c, w) = ((r, force), checks', c', w')"
    by (metis prod.collapse)
  from inv st obtain ks where ks: "extends ks w0 w" "\<forall>k\<in>set ks. \<exists>n. k = RunnerByName n"
    "checks = int (length ks)" "checks \<le> maxRunnerChecksPerPass"
    by (auto simp: lookups_def)
  have "\<exists>ls. extends ls w0 w' \<and> (\<forall>k\<in>set ls. \<exists>n. k = RunnerByName n) \<and> checks' = int (length ls)
      \<and> checks' \<le> maxRunnerChecksPerPass"
    using retireReason_cases(5) [OF rr]
  proof (elim disjE conjE)
    assume "w' = w" "checks' = checks"
    then show ?thesis using ks by blast
  next
    assume "w' = calls E (RunnerByName (wName k)) w" "checks' = checks + 1" "checks < maxRunnerChecksPerPass"
    then show ?thesis using ks extends_snoc [OF ks(1)]
      by (intro exI [of _ "RunnerByName (wName k) # ks"]) auto
  qed
  then show ?thesis
    using inv unfolding st check_worker_def by (auto simp: rr Let_def lookups_def)
qed

lemma fold_invariant_all: "P s \<Longrightarrow> (\<And>x s. x \<in> set xs \<Longrightarrow> P s \<Longrightarrow> P (f x s)) \<Longrightarrow> P (fold f xs s)"
  by (induction xs arbitrary: s) auto

lemma check_workers_lookups: "lookups w (check_workers E ord v now (c, w))"
proof -
  have "lookups w (0, c, w)"
    by (auto simp: lookups_def maxRunnerChecksPerPass_def intro: exI [of _ "[]"])
  then show ?thesis unfolding check_workers_def
    by (auto intro!: fold_invariant_all check_worker_lookups)
qed

section \<open>Properties\<close>

text \<open>
  A pass considers exactly the managed, non-template VMs of the configured pool with a VMID in the
  worker part of the range: each of them is either a stray or a worker of one scale set, never both,
  and no other VM is either.
\<close>

theorem observe_partition:
  "set (vStrays (observe cfg vms)) \<union> {wVM k |k n. k \<in> set (vWorkers (observe cfg vms) n)}
     = {x \<in> set vms. eligible cfg x}
   \<and> set (vStrays (observe cfg vms)) \<inter> {wVM k |k n. k \<in> set (vWorkers (observe cfg vms) n)} = {}"
proof -
  have strays: "set (vStrays (observe cfg vms)) = {x \<in> set vms. eligible cfg x \<and> worker_of cfg x = None}"
    by (simp add: observe_fields)
  have "x \<in> {wVM k |k n. k \<in> set (vWorkers (observe cfg vms) n)} \<longleftrightarrow>
      x \<in> set vms \<and> eligible cfg x \<and> worker_of cfg x \<noteq> None" (is "?l \<longleftrightarrow> ?r") for x
  proof
    assume ?l
    then obtain k n where "k \<in> set (vWorkers (observe cfg vms) n)" "x = wVM k" by blast
    with observed_worker [OF this(1)] show ?r by (simp add: worker_of_def right_def)
  next
    assume r: ?r
    then obtain k where k: "worker_of cfg x = Some k" by blast
    then have "wVM k = x" using parseWorker_fields(1) by (simp add: worker_of_Some)
    moreover have "k \<in> set (vWorkers (observe cfg vms) (wScaleSet k))"
      using r k by (force simp: observe_fields List.map_filter_def)
    ultimately show ?l by blast
  qed
  then show ?thesis unfolding strays by blast
qed

text \<open>
  A worker is retired by force in exactly two cases: it is older than its lifetime limit, which
  retires it whatever else holds, or it is ready and Proxmox says it is stopped. Any other
  retirement is left to GitHub's word on whether a job runs.
\<close>

theorem retire_reason_force:
  "fst (retireReason E d s k now st) =
     (if overdue s k now
      then (OlderThanMaxLifetime (case s of None \<Rightarrow> DefaultMaxLifetime | Some ss \<Rightarrow> MaxLifetime (sCfg ss)), True)
      else if Status (wVM k) = ''stopped'' \<and> wReady k then (PoweredOff, True)
      else (fst (fst (retireReason E d s k now st)), False))"
proof -
  obtain checks c w where st: "st = (checks, c, w)" by (metis prod_cases3)
  obtain r force checks' c' w' where
    rr: "retireReason E d s k now (checks, c, w) = ((r, force), checks', c', w')" by (metis prod.collapse)
  show ?thesis
  proof (cases "overdue s k now \<or> Status (wVM k) = ''stopped'' \<and> wReady k")
    case True
    then show ?thesis by (auto simp: st retireReason_def overdue_def Let_def split: option.splits)
  next
    case False
    then show ?thesis using retireReason_cases(2) [OF rr] by (auto simp: st rr)
  qed
qed

text \<open>
  A pass looks up at most ten runners in GitHub, whatever GitHub answers, and its checks on the
  workers make no other call.
\<close>

theorem pass_lookups_bounded:
  "\<exists>ks. extends ks w (snd (snd (check_workers E ord v now (c, w))))
     \<and> set ks \<subseteq> range RunnerByName \<and> length ks \<le> 10"
  using check_workers_lookups [of w E ord v now c]
  by (fastforce simp: lookups_def maxRunnerChecksPerPass_def split: prod.splits)

text \<open>
  VMID allocation returns the lowest ID of the worker range that no listed VM uses, that is not
  known to be foreign and that has no operation in flight, and finds none only when there is none.
\<close>

theorem allocate_lowest_free:
  "allocateVMID c used =
     (if {i. free_vmid c used i} = {} then None
      else Some (Min {i. free_vmid c used i}, insert (Min {i. free_vmid c used i}) used))"
proof (cases "allocateVMID c used")
  case None
  then show ?thesis by (simp add: allocateVMID_None)
next
  case (Some a)
  obtain i used' where a: "a = (i, used')" by fastforce
  note i = allocateVMID_Some [OF Some [unfolded a]]
  have "Min {j. free_vmid c used j} = i"
    by (rule Min_eqI [OF finite_free]) (use i in auto)
  moreover have "{j. free_vmid c used j} \<noteq> {}" using i(1) by blast
  ultimately show ?thesis using Some a i(2) by simp
qed

text \<open>
  C22. Scaling up: when a scale set has fewer active workers than GitHub wants, there is a template and
  no back-off, the pass starts exactly as many creations as are missing, or as many as there are free
  VMIDs if those are fewer, each on a different free VMID; nothing else changes.
\<close>

theorem scale_up_exact:
  assumes "governed c n s" and "active c v n < sDesired s" and "vTemplate v = Some t" and "canCreate now s"
  shows "\<exists>ids. scale ord v now n (c, used) = (start_creates n t ids c, used \<union> set ids)
    \<and> distinct ids \<and> (\<forall>i\<in>set ids. free_vmid c used i)
    \<and> int (length ids) = min (sDesired s - active c v n) (int (card {i. free_vmid c used i}))"
proof -
  have "scale ord v now n (c, used) = create_loop (nat (sDesired s - active c v n)) n t (c, used)"
    using assms by (simp add: scale_governed)
  then show ?thesis
    using create_loop_exact [of "nat (sDesired s - active c v n)" n t c used] assms(2) by auto
qed

text \<open>
  C30. Scaling down: when a scale set has more active workers than GitHub wants and none is being
  created, the pass asks to retire exactly the surplus, without force, choosing only idle workers and
  the oldest of them first.
\<close>

theorem scale_down_oldest_idle:
  assumes "governed c n s" and "active c v n > sDesired s" and "creatingFor c n = 0"
    and "sorts_by_age (sort_idle ord)"
  shows "\<exists>chosen rest.
    scale ord v now n (c, used) = (fold (retire_worker (Some n) False MoreThanWanted) chosen c, used)
    \<and> mset (idle c s (vWorkers v n)) = mset chosen + mset rest
    \<and> int (length chosen) = min (active c v n - sDesired s) (int (length (idle c s (vWorkers v n))))
    \<and> (\<forall>k\<in>set chosen. \<forall>k'\<in>set rest. wCreated k \<le> wCreated k')"
proof -
  let ?m = "nat (active c v n - sDesired s)" and ?ws = "idle c s (vWorkers v n)"
  have "scale ord v now n (c, used) =
      (fold (retire_worker (Some n) False MoreThanWanted) (take ?m (sort_idle ord ?ws)) c, used)"
    using assms by (simp add: scale_governed)
  moreover obtain chosen rest where "take ?m (sort_idle ord ?ws) = chosen"
    "mset ?ws = mset chosen + mset rest" "length chosen = min ?m (length ?ws)"
    "\<forall>k\<in>set chosen. \<forall>k'\<in>set rest. wCreated k \<le> wCreated k'"
    using oldest_first [OF assms(4), of ?m ?ws] by blast
  moreover have "int (min ?m (length ?ws)) = min (active c v n - sDesired s) (int (length ?ws))"
    using assms(2) by simp
  ultimately show ?thesis by (intro exI [of _ chosen] exI [of _ rest]) simp
qed

text \<open>
  Pruning starts to destroy a template only if it is a managed template of the pool, is not the
  newest one, no worker creation is in flight, and every managed VM of the pool records the template
  it was cloned from and none of them records this one.
\<close>

theorem prune_only_unused:
  assumes "OpPrune x \<in> set (cOps (pruneTemplates vms newest c))" and "OpPrune x \<notin> set (cOps c)"
  shows "\<exists>n. newest = Some n \<and> x \<in> set vms \<and> IsTemplate x (pxPool (cfgProxmox (cCfg c))) \<and> VMID x \<noteq> VMID n
    \<and> \<not> creatingAny c
    \<and> (\<forall>y\<in>set vms. managed_clone (pxPool (cfgProxmox (cCfg c))) y \<longrightarrow>
         (\<exists>ref. tag_Int y TemplateRefPrefix = Some ref \<and> ref \<noteq> VMID x))"
proof -
  let ?pool = "pxPool (cfgProxmox (cCfg c))"
  obtain n where n: "newest = Some n" and idle: "\<not> creatingAny c"
    using assms by (auto simp: pruneTemplates_def split: option.splits if_splits)
  obtain inUse where u: "templates_in_use ?pool vms = Some inUse"
    using assms n idle by (auto simp: pruneTemplates_def Let_def split: option.splits if_splits)
  have "OpPrune x \<in> set (cOps (fold (\<lambda>x. startOp (OpPrune x)) (filter (prunable ?pool n inUse) vms) c))"
    using assms(1) n idle u by (simp add: pruneTemplates_def Let_def)
  then have "x \<in> set (filter (prunable ?pool n inUse) vms)"
    using fold_startOp_ops [of OpPrune "filter (prunable ?pool n inUse) vms" c] assms(2) by auto
  then have x: "x \<in> set vms" "IsTemplate x ?pool" "VMID x \<noteq> VMID n" "VMID x \<notin> inUse"
    by (auto simp: prunable_def)
  moreover have "\<exists>ref. tag_Int y TemplateRefPrefix = Some ref \<and> ref \<noteq> VMID x"
    if y: "y \<in> set vms" "managed_clone ?pool y" for y
  proof -
    obtain ref where ref: "tag_Int y TemplateRefPrefix = Some ref"
      using templates_in_use_Some(2) [OF u] y by blast
    then have "ref \<in> inUse" using y unfolding templates_in_use_Some(1) [OF u] by blast
    with ref x(4) show ?thesis by blast
  qed
  ultimately show ?thesis using n idle by blast
qed

section \<open>Witnesses\<close>

definition example_orders :: orders where
  "example_orders =
     \<lparr>worker_order = [''par''], scale_set_order = [''par''], sort_idle = sort_key wCreated\<rparr>"

definition example_view :: view where
  "example_view =
     \<lparr>vTemplate = Some (example_template 10097 ''9''), vWorkers = (\<lambda>_. []), vStrays = [], vUsed = {}\<rparr>"

definition wanting :: "int \<Rightarrow> controller" where
  "wanting n =
     example_controller\<lparr>cScaleSets := [''par'' \<mapsto> example_state\<lparr>sKnown := True, sDesired := n\<rparr>]\<rparr>"

lemma example_governed: "governed (wanting n) ''par'' (example_state\<lparr>sKnown := True, sDesired := n\<rparr>)"
  by (simp add: governed_def wanting_def example_state_def newScaleSetState_def example_scale_set_def)

lemma example_orders_sort: "sorts_by_age (sort_idle example_orders)"
  by (simp add: sorts_by_age_def example_orders_def)

theorem scale_up_exact_witness:
  "\<exists>ids. scale example_orders example_view example_time ''par'' (wanting 2, {}) =
      (start_creates ''par'' (example_template 10097 ''9'') ids (wanting 2), {} \<union> set ids) \<and> distinct ids"
proof -
  have "active (wanting 2) example_view ''par'' < sDesired (example_state\<lparr>sKnown := True, sDesired := 2\<rparr>)"
    by (simp add: active_def creatingFor_def wanting_def example_controller_def alive_def example_view_def)
  moreover have "canCreate example_time (example_state\<lparr>sKnown := True, sDesired := 2\<rparr>)"
    by (simp add: canCreate_def example_state_def newScaleSetState_def example_time_def)
  ultimately show ?thesis
    using scale_up_exact [OF example_governed, of 2 example_view "example_template 10097 ''9''" example_time
        example_orders "{}"]
    by (force simp: example_view_def)
qed

definition example_worker :: worker where
  "example_worker =
     \<lparr>wVM = (vm_of_resource example_worker_resource)\<lparr>Tags := []\<rparr>, wName = ''par-10001-a'', wScaleSet = ''par'',
      wCreated = example_time, wReady = True\<rparr>"

theorem scale_down_oldest_idle_witness:
  "\<exists>chosen. scale example_orders (example_view\<lparr>vWorkers := (\<lambda>n. [example_worker])\<rparr>) example_time ''par''
       (wanting 0, {}) = (fold (retire_worker (Some ''par'') False MoreThanWanted) chosen (wanting 0), {})
     \<and> length chosen = 1"
proof -
  let ?v = "example_view\<lparr>vWorkers := (\<lambda>n. [example_worker])\<rparr>"
    and ?s = "example_state\<lparr>sKnown := True, sDesired := 0\<rparr>"
  have alive: "alive (wanting 0) (vWorkers ?v ''par'') = [example_worker]"
    by (simp add: alive_def isBusy_def wanting_def example_controller_def example_worker_def
        vm_of_resource_def example_worker_resource_def)
  have none: "creatingFor (wanting 0) ''par'' = 0"
    by (simp add: creatingFor_def wanting_def example_controller_def)
  have act: "active (wanting 0) ?v ''par'' = 1" using alive none by (simp add: active_def)
  have "idle (wanting 0) ?s (vWorkers ?v ''par'') = [example_worker]"
    using alive by (simp add: idle_def hasJob_def example_state_def newScaleSetState_def)
  then show ?thesis
    using scale_down_oldest_idle [OF example_governed, of 0 ?v example_orders example_time "{}"]
      act none example_orders_sort by force
qed

theorem prune_only_unused_witness:
  "VMID (example_template 10096 ''7'') \<noteq> VMID (example_template 10097 ''9'')
   \<and> \<not> creatingAny example_controller"
proof -
  let ?old = "example_template 10096 ''7''" and ?new = "example_template 10097 ''9''"
  have pool: "pxPool (cfgProxmox (cCfg example_controller)) = ''par-runners''"
    by (simp add: example_controller_def example_config_def)
  have "OpPrune ?old \<in> set (cOps (pruneTemplates [?old, ?new] (Some ?new) example_controller))"
    by (simp add: pruneTemplates_def pool creatingAny_def Let_def managed_clone_def prunable_def IsTemplate_def
        example_template_def tag_defs startOp_def isBusy_def) (simp add: example_controller_def)
  moreover have "OpPrune ?old \<notin> set (cOps example_controller)" by (simp add: example_controller_def)
  ultimately show ?thesis using prune_only_unused by fastforce
qed

end
