(* ===== verification/Github.thy ===== *)
theory Github
  imports World "HOL-Library.Char_ord" "HOL-Library.List_Lexorder"
begin

text \<open>
  \<^verbatim>\<open>internal/github\<close>: the runner release comparison of \<^verbatim>\<open>rest.go\<close>, the runner calls of
  \<^verbatim>\<open>runners.go\<close>, the scale set registration of \<^verbatim>\<open>scaleset.go\<close> and the session loop of
  \<^verbatim>\<open>listen.go\<close>. The answers of \<^verbatim>\<open>actions/scaleset\<close> and of GitHub's REST API are parameters.
  Strings are ordered byte by byte, as Go orders them; \<open>List_Lexorder\<close> over \<open>Char_ord\<close> is that order.
\<close>

section \<open>Runner releases (rest.go)\<close>

definition RunnerUpdateDeadline :: duration where "RunnerUpdateDeadline = 30 * 24 * Hour"
definition RunnerUpdateWarnAfter :: duration where "RunnerUpdateWarnAfter = 7 * 24 * Hour"
definition RunnerUpdateErrorAfter :: duration where "RunnerUpdateErrorAfter = 21 * 24 * Hour"

definition version_part :: "string \<Rightarrow> int option" where
  "version_part p = (case Atoi p of Some n \<Rightarrow> if n < 0 then None else Some n | None \<Rightarrow> None)"

text \<open>The parts read before a bad one stay in the result, as in the code.\<close>

definition parseVersion :: "string \<Rightarrow> (int \<times> int \<times> int) \<times> bool" where
  "parseVersion v =
     (case Split (CHR ''.'') v of
        [a, b, c] \<Rightarrow>
          (case version_part a of
             None \<Rightarrow> ((0, 0, 0), False)
           | Some x \<Rightarrow>
               (case version_part b of
                  None \<Rightarrow> ((x, 0, 0), False)
                | Some y \<Rightarrow>
                    (case version_part c of
                       None \<Rightarrow> ((x, y, 0), False)
                     | Some z \<Rightarrow> ((x, y, z), True))))
      | _ \<Rightarrow> ((0, 0, 0), False))"

fun triple_greater :: "int \<times> int \<times> int \<Rightarrow> int \<times> int \<times> int \<Rightarrow> bool" where
  "triple_greater (a, b, c) (x, y, z) =
     (if a \<noteq> x then a > x else if b \<noteq> y then b > y else if c \<noteq> z then c > z else False)"

definition NewerThan :: "runner_release \<Rightarrow> string \<Rightarrow> bool" where
  "NewerThan r version =
     (case parseVersion version of
        (have, False) \<Rightarrow> True
      | (have, True) \<Rightarrow> triple_greater (fst (parseVersion (ReleaseVersion r))) have)"

datatype staleness = Current | Behind | BehindWarn | BehindError

definition Staleness :: "runner_release \<Rightarrow> string \<Rightarrow> time \<Rightarrow> staleness" where
  "Staleness r have now =
     (if \<not> NewerThan r have then Current
      else (let age = time_Sub now (PublishedAt r) in
            if age \<ge> RunnerUpdateErrorAfter then BehindError
            else if age \<ge> RunnerUpdateWarnAfter then BehindWarn else Behind))"

text \<open>The latest release from the decoded answer: its status, tag and publication time.\<close>

definition latestRunnerRelease :: "error + (int \<times> string \<times> time) \<Rightarrow> error + runner_release" where
  "latestRunnerRelease answer =
     (case answer of
        Inl e \<Rightarrow> Inl (wrap ''latest runner release'' e)
      | Inr (status, tag, published) \<Rightarrow>
          if status \<noteq> 200 then Inl (ErrorMsg ''latest runner release: unexpected status'')
          else (let version = TrimPrefix tag ''v'' in
                if \<not> snd (parseVersion version) then Inl (ErrorMsg ''latest runner release: unexpected tag'')
                else Inr \<lparr>ReleaseVersion = version, PublishedAt = published\<rparr>))"

record release_answer =
  raTag :: string
  raDraft :: bool
  raPrerelease :: bool
  raPublished :: time

record published_release =
  relTag :: string
  relPrerelease :: bool
  relPublished :: time

definition releases :: "error + (int \<times> release_answer list) \<Rightarrow> error + published_release list" where
  "releases answer =
     (case answer of
        Inl e \<Rightarrow> Inl (wrap ''releases'' e)
      | Inr (status, out) \<Rightarrow>
          if status = 403 \<or> status = 429 then Inl (ErrorMsg ''rate limit is used up'')
          else if status \<noteq> 200 then Inl (ErrorMsg ''unexpected status'')
          else Inr (map (\<lambda>r. \<lparr>relTag = raTag r, relPrerelease = raPrerelease r, relPublished = raPublished r\<rparr>)
                      (filter (\<lambda>r. \<not> raDraft r) out)))"

section \<open>Runners (runners.go)\<close>

definition client_RemoveRunner :: "error option \<Rightarrow> error option" where
  "client_RemoveRunner answer =
     (case answer of
        None \<Rightarrow> None
      | Some e \<Rightarrow>
          if errors_Is e RunnerNotFoundError then None
          else if errors_Is e JobStillRunningError
          then Some (Wrapped ''remove runner'' [ErrJobStillRunning, e])
          else Some (wrap ''remove runner'' e))"

definition client_RunnerByName :: "error + int option \<Rightarrow> error + int option" where
  "client_RunnerByName answer =
     (case answer of Inl e \<Rightarrow> Inl (wrap ''find runner'' e) | Inr r \<Rightarrow> Inr r)"

text \<open>The answer's runner, if any, as its ID and name, and the encoded config.\<close>

record jit_answer =
  jaRunner :: "(int \<times> string) option"
  jaEncoded :: string

record jit =
  jitRunnerID :: int
  jitRunnerName :: string
  jitEncoded :: string

definition client_GenerateJITConfig :: "error + jit_answer option \<Rightarrow> error + jit" where
  "client_GenerateJITConfig answer =
     (case answer of
        Inl e \<Rightarrow> Inl (wrap ''generate JIT config'' e)
      | Inr None \<Rightarrow> Inl (ErrorMsg ''generate JIT config: GitHub returned no config'')
      | Inr (Some cfg) \<Rightarrow>
          (case jaRunner cfg of
             None \<Rightarrow> Inl (ErrorMsg ''generate JIT config: GitHub returned no config'')
           | Some (rid, name) \<Rightarrow>
               if jaEncoded cfg = [] then Inl (ErrorMsg ''generate JIT config: GitHub returned no config'')
               else Inr \<lparr>jitRunnerID = rid, jitRunnerName = name, jitEncoded = jaEncoded cfg\<rparr>))"

text \<open>\<^verbatim>\<open>JITConfig.String\<close>, which every printing of a config goes through; \<open>quote\<close> is \<^verbatim>\<open>%q\<close>.\<close>

definition redacted :: string where "redacted = ''[REDACTED]''"

definition jit_String :: "(string \<Rightarrow> string) \<Rightarrow> jit \<Rightarrow> string" where
  "jit_String quote j =
     ''JITConfig{RunnerID: '' @ Itoa (jitRunnerID j) @ '', RunnerName: '' @ quote (jitRunnerName j)
     @ '', Encoded: '' @ redacted @ ''}''"

section \<open>Scale sets (scaleset.go)\<close>

definition defaultRunnerGroupID :: int where "defaultRunnerGroupID = 1"

record runner_scale_set =
  rsID :: int
  rsName :: string
  rsGroupID :: int
  rsLabels :: "string list"
  rsDisableUpdate :: bool

record scale_set_spec =
  specName :: string
  specLabels :: "string list"
  specGroup :: string

text \<open>The parts of \<^verbatim>\<open>actions/scaleset\<close> the client calls.\<close>

record scaleset_api =
  api_default_group :: string
  api_group :: "string \<Rightarrow> error + int"
  api_get :: "int \<Rightarrow> string \<Rightarrow> error + runner_scale_set option"
  api_create :: "runner_scale_set \<Rightarrow> error + runner_scale_set"
  api_update :: "int \<Rightarrow> runner_scale_set \<Rightarrow> error + runner_scale_set"
  api_delete :: "int \<Rightarrow> error option"

definition runnerGroupID :: "scaleset_api \<Rightarrow> string \<Rightarrow> error + int" where
  "runnerGroupID A name =
     (if name = api_default_group A then Inr defaultRunnerGroupID
      else (case api_group A name of Inl e \<Rightarrow> Inl (wrap ''runner group'' e) | Inr i \<Rightarrow> Inr i))"

definition sameLabels :: "string list \<Rightarrow> string list \<Rightarrow> bool" where
  "sameLabels a b \<longleftrightarrow> remdups_adj (sort (map ToLower a)) = remdups_adj (sort (map ToLower b))"

definition wanted :: "int \<Rightarrow> scale_set_spec \<Rightarrow> runner_scale_set" where
  "wanted groupID spec =
     \<lparr>rsID = 0, rsName = specName spec, rsGroupID = groupID, rsLabels = specLabels spec, rsDisableUpdate = True\<rparr>"

definition FindScaleSet :: "scaleset_api \<Rightarrow> scale_set_spec \<Rightarrow> error + runner_scale_set option" where
  "FindScaleSet A spec =
     (case runnerGroupID A (specGroup spec) of
        Inl e \<Rightarrow> Inl e
      | Inr groupID \<Rightarrow>
          (case api_get A groupID (specName spec) of
             Inl e \<Rightarrow> Inl (wrap ''find scale set'' e)
           | Inr existing \<Rightarrow> Inr existing))"

text \<open>What \<^verbatim>\<open>EnsureScaleSet\<close> asks GitHub to change, besides its result.\<close>

datatype change = NoChange | Created runner_scale_set | Updated int runner_scale_set

definition client_EnsureScaleSet ::
  "scaleset_api \<Rightarrow> scale_set_spec \<Rightarrow> (error + runner_scale_set) \<times> change" where
  "client_EnsureScaleSet A spec =
     (case runnerGroupID A (specGroup spec) of
        Inl e \<Rightarrow> (Inl e, NoChange)
      | Inr groupID \<Rightarrow>
          (let want = wanted groupID spec in
           case api_get A groupID (specName spec) of
             Inl e \<Rightarrow> (Inl (wrap ''find scale set'' e), NoChange)
           | Inr None \<Rightarrow>
               (case api_create A want of
                  Inl e \<Rightarrow> (Inl (wrap ''create scale set'' e), Created want)
                | Inr created \<Rightarrow> (Inr created, Created want))
           | Inr (Some existing) \<Rightarrow>
               if sameLabels (rsLabels existing) (rsLabels want) \<and> rsDisableUpdate existing
               then (Inr existing, NoChange)
               else (case api_update A (rsID existing) want of
                       Inl e \<Rightarrow> (Inl (wrap ''update scale set'' e), Updated (rsID existing) want)
                     | Inr updated \<Rightarrow> (Inr updated, Updated (rsID existing) want))))"

definition DeleteScaleSet :: "scaleset_api \<Rightarrow> int \<Rightarrow> error option" where
  "DeleteScaleSet A i = map_option (wrap ''delete scale set'') (api_delete A i)"

section \<open>The session loop (listen.go)\<close>

definition defaultMinBackoff :: duration where "defaultMinBackoff = Second"
definition defaultMaxBackoff :: duration where "defaultMaxBackoff = Minute"
definition healthySession :: duration where "healthySession = Minute"

text \<open>
  One session: how long it ran, the error it ended with, and whether the context had ended by its end
  or ended during the wait after it.
\<close>

record session =
  seLasted :: duration
  seError :: "error option"
  seCtxEnded :: bool
  seCtxEndedWaiting :: bool

definition backoff_bounds :: "duration \<Rightarrow> duration \<Rightarrow> duration \<times> duration" where
  "backoff_bounds minB maxB =
     (let lo = (if minB = 0 then defaultMinBackoff else minB);
          hi = (if maxB = 0 then defaultMaxBackoff else maxB) in (lo, max hi lo))"

text \<open>The waits before the following sessions, for as long as the given sessions last.\<close>

fun listen_loop :: "duration \<Rightarrow> duration \<Rightarrow> duration \<Rightarrow> session list \<Rightarrow> duration list" where
  "listen_loop lo hi backoff [] = []"
| "listen_loop lo hi backoff (se # ses) =
     (if seCtxEnded se then []
      else (let b = (if seLasted se \<ge> healthySession then lo else backoff) in
            b # (if seCtxEndedWaiting se then [] else listen_loop lo hi (min (wrap64 (b * 2)) hi) ses)))"

definition Listen :: "duration \<Rightarrow> duration \<Rightarrow> session list \<Rightarrow> duration list" where
  "Listen minB maxB ses = (case backoff_bounds minB maxB of (lo, hi) \<Rightarrow> listen_loop lo hi lo ses)"

section \<open>Facts\<close>

lemma triple_greater_irrefl: "\<not> triple_greater a a"
  by (cases a) simp

lemma triple_greater_trichotomy: "triple_greater a b \<or> triple_greater b a \<or> a = b"
  by (cases a; cases b) auto

lemma triple_greater_trans: "triple_greater a b \<Longrightarrow> triple_greater b c \<Longrightarrow> triple_greater a c"
  by (cases a; cases b; cases c) (auto split: if_splits)

lemma distinct_remdups_adj_sorted: "sorted xs \<Longrightarrow> distinct (remdups_adj xs)"
  by (induction xs rule: remdups_adj.induct) (auto split: if_splits simp: order.antisym)

lemma sorted_remdups_adj_sort: "sorted (remdups_adj (sort xs))"
  by (metis sorted_remdups_adj sorted_sort)

lemma remdups_adj_sort_eq_iff:
  fixes xs ys :: "'a::linorder list"
  shows "remdups_adj (sort xs) = remdups_adj (sort ys) \<longleftrightarrow> set xs = set ys"
proof
  assume "remdups_adj (sort xs) = remdups_adj (sort ys)"
  then show "set xs = set ys" by (metis remdups_adj_set set_sort)
next
  assume "set xs = set ys"
  then show "remdups_adj (sort xs) = remdups_adj (sort ys)"
    by (intro sorted_distinct_set_unique sorted_remdups_adj_sort distinct_remdups_adj_sorted) simp_all
qed

fun staleness_rank :: "staleness \<Rightarrow> nat" where
  "staleness_rank Current = 0"
| "staleness_rank Behind = 1"
| "staleness_rank BehindWarn = 2"
| "staleness_rank BehindError = 3"

lemma time_Sub_mono: "t \<le> t' \<Longrightarrow> time_Sub t u \<le> time_Sub t' u"
  by (auto simp: time_Sub_def)

lemma listen_loop_bounds:
  assumes "0 < lo" and "lo \<le> b" and "b \<le> hi" and "hi \<le> 4611686018427387903"
  shows "set (listen_loop lo hi b ses) \<subseteq> {lo..hi}"
  using assms
proof (induction lo hi b ses rule: listen_loop.induct)
  case (2 lo hi b se ses)
  let ?b = "if seLasted se \<ge> healthySession then lo else b"
  have "lo \<le> ?b" "?b \<le> hi" using "2.prems" by auto
  moreover have "wrap64 (?b * 2) = ?b * 2"
    using \<open>lo \<le> ?b\<close> \<open>?b \<le> hi\<close> "2.prems" by (intro wrap64_id) (simp add: in_int64_def)
  ultimately have "lo \<le> min (wrap64 (?b * 2)) hi" "min (wrap64 (?b * 2)) hi \<le> hi" using "2.prems" by auto
  then show ?case
    using "2.IH" [OF _ refl] "2.prems" \<open>lo \<le> ?b\<close> \<open>?b \<le> hi\<close>
    by (cases "seCtxEnded se"; cases "seCtxEndedWaiting se") (auto simp: Let_def)
qed simp

lemma listen_loop_doubles:
  assumes "\<forall>se\<in>set ses. seLasted se < healthySession \<and> \<not> seCtxEnded se \<and> \<not> seCtxEndedWaiting se"
    and "0 < b" and "b \<le> hi" and "hi \<le> 4611686018427387903"
  shows "listen_loop lo hi b ses = map (\<lambda>k. min (b * 2 ^ k) hi) [0..<length ses]"
  using assms
proof (induction ses arbitrary: b)
  case (Cons se ses)
  have two: "wrap64 (b * 2) = b * 2" using Cons.prems by (intro wrap64_id) (simp add: in_int64_def)
  have "listen_loop lo hi (min (b * 2) hi) ses = map (\<lambda>k. min (min (b * 2) hi * 2 ^ k) hi) [0..<length ses]"
    using Cons by (intro Cons.IH) auto
  moreover have "min (min (b * 2) hi * 2 ^ k) hi = min (b * 2 ^ Suc k) hi" for k
  proof (cases "b * 2 \<le> hi")
    case True
    then show ?thesis by (simp add: ac_simps)
  next
    case False
    have "hi * 1 \<le> hi * 2 ^ k" "(b * 2) * 1 \<le> (b * 2) * 2 ^ k"
      using Cons.prems by (intro mult_left_mono; simp)+
    with False show ?thesis by (simp add: ac_simps)
  qed
  ultimately have "listen_loop lo hi b (se # ses) = b # map (\<lambda>k. min (b * 2 ^ Suc k) hi) [0..<length ses]"
    using Cons.prems two by (simp add: not_le)
  also have "\<dots> = map (\<lambda>k. min (b * 2 ^ k) hi) [0..<length (se # ses)]"
    using Cons.prems by (simp add: upt_conv_Cons map_Suc_upt [symmetric] del: upt_Suc)
  finally show ?case .
qed simp

section \<open>Properties\<close>

text \<open>
  Two label lists count as the same exactly when their names form the same set once case is
  ignored, so order and duplicates never trigger an update.
\<close>

theorem sameLabels_iff: "sameLabels a b \<longleftrightarrow> ToLower ` set a = ToLower ` set b"
  by (simp add: sameLabels_def remdups_adj_sort_eq_iff)

text \<open>
  Registering a scale set leaves GitHub with the wanted labels and with runner updates off,
  provided GitHub stores what it is asked to store; it changes something only if the scale set is
  missing or differs, and then asks for exactly the wanted one.
\<close>

theorem ensure_scale_set_result:
  assumes "client_EnsureScaleSet A spec = (Inr res, ch)"
    and "\<And>want s. api_create A want = Inr s \<Longrightarrow> rsLabels s = rsLabels want \<and> rsDisableUpdate s = rsDisableUpdate want"
    and "\<And>i want s. api_update A i want = Inr s \<Longrightarrow> rsLabels s = rsLabels want \<and> rsDisableUpdate s = rsDisableUpdate want"
  shows "ToLower ` set (rsLabels res) = ToLower ` set (specLabels spec) \<and> rsDisableUpdate res
    \<and> (\<exists>g. runnerGroupID A (specGroup spec) = Inr g \<and>
        (case api_get A g (specName spec) of
           Inl e \<Rightarrow> False
         | Inr None \<Rightarrow> ch = Created (wanted g spec)
         | Inr (Some x) \<Rightarrow>
             ch = (if ToLower ` set (rsLabels x) = ToLower ` set (specLabels spec) \<and> rsDisableUpdate x
                   then NoChange else Updated (rsID x) (wanted g spec))))"
proof -
  obtain g where g: "runnerGroupID A (specGroup spec) = Inr g"
    using assms(1) by (auto simp: client_EnsureScaleSet_def split: sum.splits)
  have same: "sameLabels x (rsLabels (wanted g spec)) \<longleftrightarrow> ToLower ` set x = ToLower ` set (specLabels spec)" for x
    by (simp add: sameLabels_def remdups_adj_sort_eq_iff wanted_def)
  show ?thesis
    using assms(1) g same assms(2) [of "wanted g spec" res] assms(3) [of _ "wanted g spec" res]
    by (auto simp: client_EnsureScaleSet_def Let_def wanted_def split: sum.splits option.splits if_splits)
qed

definition example_api :: scaleset_api where
  "example_api =
     \<lparr>api_default_group = ''default'', api_group = (\<lambda>_. Inl Canceled), api_get = (\<lambda>_ _. Inr None),
      api_create = (\<lambda>w. Inr (w\<lparr>rsID := 5\<rparr>)), api_update = (\<lambda>i w. Inr (w\<lparr>rsID := i\<rparr>)), api_delete = (\<lambda>_. None)\<rparr>"

definition example_spec :: scale_set_spec where
  "example_spec = \<lparr>specName = ''par'', specLabels = [''par''], specGroup = ''default''\<rparr>"

theorem ensure_scale_set_result_witness:
  "rsDisableUpdate ((wanted 1 example_spec)\<lparr>rsID := 5\<rparr>)"
proof -
  have "client_EnsureScaleSet example_api example_spec =
      (Inr ((wanted 1 example_spec)\<lparr>rsID := 5\<rparr>), Created (wanted 1 example_spec))"
    by (simp add: client_EnsureScaleSet_def runnerGroupID_def example_api_def example_spec_def
        defaultRunnerGroupID_def Let_def)
  then show ?thesis by (rule ensure_scale_set_result [THEN conjunct2, THEN conjunct1])
      (auto simp: example_api_def)
qed

text \<open>
  After a session fails, the listener waits between the two configured bounds, doubling with every
  further short session up to the upper bound and starting over after a healthy one.
\<close>

theorem listen_backoff:
  assumes "0 < lo" and "lo \<le> hi" and "hi \<le> 4611686018427387903"
  shows "set (Listen lo hi ses) \<subseteq> {lo..hi}
    \<and> ((\<forall>se\<in>set ses. seLasted se < healthySession \<and> \<not> seCtxEnded se \<and> \<not> seCtxEndedWaiting se)
        \<longrightarrow> Listen lo hi ses = map (\<lambda>k. min (lo * 2 ^ k) hi) [0..<length ses])"
proof -
  have b: "backoff_bounds lo hi = (lo, hi)" using assms by (simp add: backoff_bounds_def)
  show ?thesis
    using listen_loop_bounds [of lo lo hi ses] listen_loop_doubles [of ses lo hi lo] assms
    by (simp add: Listen_def b)
qed

theorem listen_backoff_witness:
  "Listen Second Minute (replicate 3 \<lparr>seLasted = 0, seError = None, seCtxEnded = False, seCtxEndedWaiting = False\<rparr>)
     = [Second, 2 * Second, 4 * Second]"
proof -
  let ?ses = "replicate 3 \<lparr>seLasted = 0, seError = None, seCtxEnded = False, seCtxEndedWaiting = False\<rparr>"
  have "Listen Second Minute ?ses = map (\<lambda>k. min (Second * 2 ^ k) Minute) [0..<length ?ses]"
    using listen_backoff [of Second Minute ?ses] by (simp add: Second_def Minute_def healthySession_def)
  then show ?thesis by (simp add: Second_def Minute_def numeral_3_eq_3)
qed

text \<open>
  How stale a runner counts only grows with time, an outdated runner is reported as an error from 21
  days after the release, nine days before GitHub's deadline, and one that is not outdated never is.
\<close>

theorem staleness_grows:
  assumes "now \<le> later"
  shows "staleness_rank (Staleness r have now) \<le> staleness_rank (Staleness r have later)
    \<and> (Staleness r have later = BehindError \<longleftrightarrow>
         NewerThan r have \<and> PublishedAt r + RunnerUpdateErrorAfter \<le> later)
    \<and> RunnerUpdateErrorAfter + 9 * Day = RunnerUpdateDeadline"
proof -
  have e: "RunnerUpdateErrorAfter \<le> time_Sub later (PublishedAt r) \<longleftrightarrow> PublishedAt r + RunnerUpdateErrorAfter \<le> later"
    by (subst time_Sub_ge_iff) (auto simp: RunnerUpdateErrorAfter_def Hour_def in_int64_def)
  show ?thesis
    using time_Sub_mono [OF assms, of "PublishedAt r"] e
    by (auto simp: Staleness_def Let_def RunnerUpdateDeadline_def RunnerUpdateErrorAfter_def
        RunnerUpdateWarnAfter_def Hour_def Day_def)
qed

theorem staleness_grows_witness:
  "staleness_rank (Staleness \<lparr>ReleaseVersion = ''2.337.0'', PublishedAt = 0\<rparr> ''2.336.0'' 0)
     \<le> staleness_rank (Staleness \<lparr>ReleaseVersion = ''2.337.0'', PublishedAt = 0\<rparr> ''2.336.0'' (8 * Day))"
  using staleness_grows [of 0 "8 * Day"] by (simp add: Day_def)

end
