(* ===== verification/Machine.thy ===== *)
theory Machine
  imports Reconcile_Facts Github
begin

text \<open>
  \<^verbatim>\<open>internal/controller/controller.go\<close> and \<^verbatim>\<open>freshness.go\<close>: constructing the controller, registering
  its scale sets, the background comparison of the runner version, and the running controller as a
  state machine. Its steps are a pass of the loop, an operation taking a parallelism slot, giving up
  because the context ended, or running to its end, a callback of a scale set's listener, the wake
  channel filling or emptying, and the end of a version comparison; they interleave in any order. The body of an operation is one step: it
  reads nothing of the controller that other steps change, and its calls are answered by an
  arbitrary environment.
\<close>

section \<open>Construction\<close>

definition defaultResyncInterval :: duration where "defaultResyncInterval = 15 * Second"
definition defaultBootTimeout :: duration where "defaultBootTimeout = 10 * Minute"
definition defaultRunnerCheckAfter :: duration where "defaultRunnerCheckAfter = 10 * Minute"
definition defaultRunnerCheckEvery :: duration where "defaultRunnerCheckEvery = 5 * Minute"
definition defaultParallelism :: int where "defaultParallelism = 3"
definition defaultRetryBackoff :: duration where "defaultRetryBackoff = 10 * Second"
definition runnerCheckInterval :: duration where "runnerCheckInterval = 6 * Hour"

record options =
  oConfig :: config
  oResyncInterval :: duration
  oBootTimeout :: duration
  oRunnerCheckAfter :: duration
  oRunnerCheckEvery :: duration
  oParallelism :: int
  oRetryBackoff :: duration

definition orDefault :: "duration \<Rightarrow> duration \<Rightarrow> duration" where
  "orDefault d dflt = (if d \<le> 0 then dflt else d)"

definition New :: "options \<Rightarrow> controller" where
  "New opts =
     \<lparr>cCfg = oConfig opts,
      cResync = orDefault (oResyncInterval opts) defaultResyncInterval,
      cBootTimeout = orDefault (oBootTimeout opts) defaultBootTimeout,
      cRunnerCheckAfter = orDefault (oRunnerCheckAfter opts) defaultRunnerCheckAfter,
      cRunnerCheckEvery = orDefault (oRunnerCheckEvery opts) defaultRunnerCheckEvery,
      cRetryBackoff = orDefault (oRetryBackoff opts) defaultRetryBackoff,
      cParallelism = (if oParallelism opts \<le> 0 then defaultParallelism else oParallelism opts),
      cScaleSets = fold (\<lambda>s m. m(ssName s \<mapsto> newScaleSetState s)) (ScaleSets (oConfig opts)) Map.empty,
      cWake = False, cBusy = [], cForeign = {}, cLastRunnerCheck = Map.empty, cNextRunnerCheck = 0,
      cOps = [], cStatus = []\<rparr>"

section \<open>Registering scale sets\<close>

text \<open>
  Registration is retried until it succeeds or the context ends; a loop that never ends has the
  value \<open>None\<close>. The result is GitHub's ID, or \<open>None\<close> inside if the context ended.
\<close>

partial_function (option) ensure_loop ::
  "env \<Rightarrow> scale_set \<Rightarrow> duration \<Rightarrow> world \<Rightarrow> (int option \<times> world) option" where
  "ensure_loop E s backoff w =
     (case gh_EnsureScaleSet E s w of
        (Inr i, w1) \<Rightarrow> Some (Some i, w1)
      | (Inl e, w1) \<Rightarrow>
          (case sleep E backoff w1 of (slept, w2) \<Rightarrow>
             if \<not> slept then Some (None, w2) else ensure_loop E s (min (backoff * 2) Minute) w2))"

fun register_all ::
  "env \<Rightarrow> string list \<Rightarrow> controller \<times> world \<Rightarrow> (bool \<times> controller \<times> world) option" where
  "register_all E [] cw = Some (True, cw)"
| "register_all E (n # ns) (c, w) =
     (case cScaleSets c n of
        None \<Rightarrow> register_all E ns (c, w)
      | Some s \<Rightarrow>
          (case ensure_loop E (sCfg s) Second w of
             None \<Rightarrow> None
           | Some (None, w) \<Rightarrow> Some (False, c, w)
           | Some (Some i, w) \<Rightarrow>
               register_all E ns (on_scale_set (Some n) (\<lambda>s. s\<lparr>sId := i\<rparr>) c, w)))"

definition registerScaleSets ::
  "env \<Rightarrow> orders \<Rightarrow> controller \<times> world \<Rightarrow> (bool \<times> controller \<times> world) option" where
  "registerScaleSets E ord cw = register_all E (scale_set_order ord) cw"

section \<open>Comparing the runner's version (freshness.go)\<close>

datatype level = LevelInfo | LevelWarn | LevelError

definition runnerFreshness :: "string \<Rightarrow> runner_release \<Rightarrow> time \<Rightarrow> level option" where
  "runnerFreshness have latest now =
     (case Staleness latest have now of
        Current \<Rightarrow> None
      | BehindError \<Rightarrow> Some LevelError
      | BehindWarn \<Rightarrow> Some LevelWarn
      | Behind \<Rightarrow> Some LevelInfo)"

text \<open>When to look again, how loudly to say that the template is behind, and the world.\<close>

definition compareRunner :: "env \<Rightarrow> vm \<Rightarrow> time \<Rightarrow> world \<Rightarrow> time \<times> level option \<times> world" where
  "compareRunner E template now w =
     (case gh_LatestRunnerRelease E w of
        (Inl e, w) \<Rightarrow> (now + runnerCheckRetry, None, w)
      | (Inr latest, w) \<Rightarrow>
          (let have = (case tag_String template RunnerVersionPrefix of Some v \<Rightarrow> v | None \<Rightarrow> []) in
           (now + runnerCheckInterval, runnerFreshness have latest now, w)))"

section \<open>The machine\<close>

record machine =
  mC :: controller
  mW :: world
  mRunning :: "op list"
  mFresh :: "(vm \<times> time) list"

text \<open>The events that come from a listener; the others come from operations.\<close>

fun listener_event :: "event \<Rightarrow> bool" where
  "listener_event (Marked r) = False"
| "listener_event (Forgot r) = False"
| "listener_event (BackedOff t) = False"
| "listener_event _ = True"

inductive mstep :: "env \<Rightarrow> machine \<Rightarrow> machine \<Rightarrow> bool" for E where
  pass: "sorts_by_age (sort_idle ord) \<Longrightarrow> reconcile E ord ((mC m)\<lparr>cWake := wk\<rparr>, mW m) = (r, fresh, c, w) \<Longrightarrow>
    mstep E m (m\<lparr>mC := c, mW := w, mFresh := (case fresh of None \<Rightarrow> mFresh m | Some f \<Rightarrow> f # mFresh m)\<rparr>)"
| acquire: "p \<in> set (cOps (mC m)) \<Longrightarrow> int (length (mRunning m)) < cParallelism (mC m) \<Longrightarrow>
    mstep E m (m\<lparr>mC := (mC m)\<lparr>cOps := remove1 p (cOps (mC m))\<rparr>, mRunning := p # mRunning m\<rparr>)"
| abandon: "p \<in> set (cOps (mC m)) \<Longrightarrow> ctx_ended E (trace (mW m)) \<Longrightarrow>
    mstep E m (m\<lparr>mC := finishOp (op_vmid p) ((mC m)\<lparr>cOps := remove1 p (cOps (mC m))\<rparr>)\<rparr>)"
| finish: "p \<in> set (mRunning m) \<Longrightarrow> run_op E p (mC m, mW m) = (r, c, w) \<Longrightarrow>
    mstep E m (m\<lparr>mC := finishOp (op_vmid p) c, mW := w, mRunning := remove1 p (mRunning m)\<rparr>)"
| listen: "listener_event e \<Longrightarrow>
    mstep E m (m\<lparr>mC := (on_scale_set (Some n) (apply_event e) (mC m))\<lparr>cWake := wk\<rparr>\<rparr>)"
| compared: "(t, now) \<in> set (mFresh m) \<Longrightarrow> compareRunner E t now (mW m) = (nxt, lvl, w) \<Longrightarrow>
    mstep E m (m\<lparr>mC := (mC m)\<lparr>cNextRunnerCheck := nxt\<rparr>, mW := w, mFresh := remove1 (t, now) (mFresh m)\<rparr>)"
| wake: "mstep E m (m\<lparr>mC := (mC m)\<lparr>cWake := wk\<rparr>\<rparr>)"
| tick: "mstep E m (m\<lparr>mW := (mW m)\<lparr>clock := clock (mW m) + int d\<rparr>\<rparr>)"

inductive_cases mstep_cases: "mstep E m m'"

text \<open>The machine starts with the constructed controller, its scale sets registered, and no calls made.\<close>

definition with_ids :: "(string \<Rightarrow> int) \<Rightarrow> controller \<Rightarrow> controller" where
  "with_ids ids c = c\<lparr>cScaleSets := (\<lambda>n. map_option (\<lambda>s. s\<lparr>sId := ids n\<rparr>) (cScaleSets c n))\<rparr>"

definition minit :: "options \<Rightarrow> machine \<Rightarrow> bool" where
  "minit opts m \<longleftrightarrow>
     (\<exists>ids t. m = \<lparr>mC = with_ids ids (New opts), mW = \<lparr>trace = [], clock = t\<rparr>, mRunning = [], mFresh = []\<rparr>)"

end
