(* ===== verification/Machine_Facts.thy ===== *)
theory Machine_Facts
  imports Machine
begin

text \<open>
  The invariant of the running controller: one operation per VMID and a slot for each that runs, no
  operation and no call outside what the controller may touch, and never more creations in flight
  than a scale set's \<^verbatim>\<open>maxRunners\<close>. It is kept by every step of \<open>Machine\<close> and so holds in every
  reachable state.
\<close>

section \<open>What operations leave alone\<close>

definition core :: "scaleSetState \<Rightarrow> scale_set \<times> int" where
  "core s = (sCfg s, sDesired s)"

definition same_core :: "controller \<Rightarrow> controller \<Rightarrow> bool" where
  "same_core c c' \<longleftrightarrow>
     cCfg c' = cCfg c \<and> cParallelism c' = cParallelism c \<and> cBusy c' = cBusy c \<and> cOps c' = cOps c
     \<and> (\<forall>n. map_option core (cScaleSets c' n) = map_option core (cScaleSets c n))"

lemma same_core_refl [simp]: "same_core c c"
  by (simp add: same_core_def)

lemma same_core_trans: "same_core c c1 \<Longrightarrow> same_core c1 c2 \<Longrightarrow> same_core c c2"
  by (simp add: same_core_def)

lemma core_ops [simp]:
  "core (forget r s) = core s" "core (markRunning r s) = core s" "core (backOff t s) = core s"
  by (simp_all add: core_def scale_set_ops)

lemma same_core_forgetRunner [simp]: "same_core c (forgetRunner r c)"
  by (simp add: same_core_def forgetRunner_def option.map_comp comp_def)

lemma same_core_forget_check [simp]: "same_core c (forget_check v c)"
  by (simp add: same_core_def forget_check_def)

lemma same_core_on_scale_set: "(\<And>s. core (f s) = core s) \<Longrightarrow> same_core c (on_scale_set so f c)"
  by (cases so) (auto simp: same_core_def on_scale_set_def option.map_comp comp_def)

lemma same_core_foreign [simp]: "same_core c (c\<lparr>cForeign := F\<rparr>)"
  by (simp add: same_core_def)

lemma retire_core: "same_core c (fst (snd (retire E vid running name force (c, w))))"
  by (auto simp: retire_def Let_def split: option.splits prod.splits
      intro: same_core_trans [OF same_core_forget_check same_core_forgetRunner]
        same_core_trans [OF same_core_forgetRunner same_core_forget_check])

lemma create_core: "same_core c (fst (snd (create E s t vid (c, w))))"
proof (rule create_result_cases [of E s t vid c w])
  fix r c' w' assume cr: "create E s t vid (c, w) = (r, c', w')"
  from cr show ?thesis
  proof (cases rule: create_cases)
    case (failed w1 w2 reg e)
    then show ?thesis using retire_core [of c E vid True "if reg then workerName vid (Truncate (clock w) Second)
        else []" True w2] cr by simp
  qed (use cr in simp_all)
qed

lemma run_retire_core: "same_core c (fst (snd (run_retire E so x name force (c, w))))"
  using retire_core [of c E "VMID x" "Status x = ''running''" name force w]
  by (auto simp: run_retire_def split: prod.splits option.splits
      intro: same_core_trans [OF _ same_core_on_scale_set])

lemma run_create_core: "same_core c (fst (snd (run_create E n t vid (c, w))))"
  using create_core [of c E _ t vid w]
  by (auto simp: run_create_def split: prod.splits option.splits
      intro: same_core_trans [OF _ same_core_on_scale_set])
     (metis fst_conv snd_conv same_core_trans same_core_on_scale_set core_ops(3))+

lemma run_op_core: "run_op E p (c, w) = (r, c', w') \<Longrightarrow> same_core c c'"
proof (cases p)
  case (OpPrune x)
  moreover assume "run_op E p (c, w) = (r, c', w')"
  ultimately show ?thesis by (auto simp: run_prune_def split: prod.splits)
next
  case (OpRetire so x name force why)
  moreover assume "run_op E p (c, w) = (r, c', w')"
  ultimately show ?thesis using run_retire_core [of c E so x name force w] by simp
next
  case (OpCreate n t vid)
  moreover assume "run_op E p (c, w) = (r, c', w')"
  ultimately show ?thesis using run_create_core [of c E n t vid w] by simp
qed

section \<open>What the controller may touch\<close>

text \<open>A VM the controller has seen: some listing among the calls so far held it.\<close>

definition seen :: "env \<Rightarrow> call list \<Rightarrow> vm \<Rightarrow> bool" where
  "seen E tr x \<longleftrightarrow>
     (\<exists>us ts vms. tr = us @ ListVMs # ts \<and> listing E (ListVMs # ts) = Inr vms \<and> x \<in> set vms)"

definition worker_vmid :: "config \<Rightarrow> vmid \<Rightarrow> bool" where
  "worker_vmid cfg i \<longleftrightarrow> Contains (Workers (VMIDRange (cfgProxmox cfg))) i"

text \<open>
  A call is allowed, given the calls before it, if it touches no VM; if it clones a worker into the
  pool; if it touches a VM in the worker range that the controller cloned itself or has seen as a
  managed VM of the pool; or if it destroys a template of the pool it has seen.
\<close>

definition allowed :: "env \<Rightarrow> config \<Rightarrow> call list \<Rightarrow> call \<Rightarrow> bool" where
  "allowed E cfg tr k \<longleftrightarrow>
     (case touches k of
        None \<Rightarrow> True
      | Some v \<Rightarrow>
          worker_vmid cfg v
          \<and> ((\<exists>co. k = Clone co \<and> coPool co = pxPool (cfgProxmox cfg))
             \<or> (\<exists>co. Clone co \<in> set tr \<and> NewVMID co = v)
             \<or> (\<exists>x. seen E tr x \<and> VMID x = v \<and> eligible cfg x))
          \<or> k = Destroy v \<and> (\<exists>x. seen E tr x \<and> VMID x = v \<and> IsTemplate x (pxPool (cfgProxmox cfg))))"

fun safe_trace :: "env \<Rightarrow> config \<Rightarrow> call list \<Rightarrow> bool" where
  "safe_trace E cfg [] = True"
| "safe_trace E cfg (k # tr) = (allowed E cfg tr k \<and> safe_trace E cfg tr)"

fun sanctioned :: "env \<Rightarrow> config \<Rightarrow> call list \<Rightarrow> op \<Rightarrow> bool" where
  "sanctioned E cfg tr (OpRetire so x name force why) = (eligible cfg x \<and> seen E tr x)"
| "sanctioned E cfg tr (OpCreate n t vid) = worker_vmid cfg vid"
| "sanctioned E cfg tr (OpPrune x) = (IsTemplate x (pxPool (cfgProxmox cfg)) \<and> seen E tr x)"

lemma seen_mono: "seen E tr x \<Longrightarrow> seen E (ks @ tr) x"
  unfolding seen_def by (metis append.assoc)

lemma allowed_mono: "allowed E cfg tr k \<Longrightarrow> allowed E cfg (ks @ tr) k"
  unfolding allowed_def using seen_mono [of E tr _ ks] by (auto split: option.splits)

lemma sanctioned_mono: "sanctioned E cfg tr p \<Longrightarrow> sanctioned E cfg (ks @ tr) p"
  by (cases p) (auto intro: seen_mono)

lemma safe_trace_append:
  "safe_trace E cfg tr \<Longrightarrow> (\<And>k. k \<in> set ks \<Longrightarrow> allowed E cfg tr k) \<Longrightarrow> safe_trace E cfg (ks @ tr)"
  by (induction ks) (auto intro: allowed_mono)

lemma safe_trace_suffix: "safe_trace E cfg (us @ k # ts) \<Longrightarrow> allowed E cfg ts k"
  by (induction us) auto

lemma allowed_quiet: "touches k = None \<Longrightarrow> allowed E cfg tr k"
  by (simp add: allowed_def)

lemma makes_safe:
  assumes "makes P w w'" and "\<And>k. P k \<Longrightarrow> allowed E cfg (trace w) k" and "safe_trace E cfg (trace w)"
  shows "safe_trace E cfg (trace w')"
proof -
  obtain ks where "trace w' = ks @ trace w" and "\<forall>k\<in>set ks. P k" using assms(1) by (auto simp: makes_def extends_def)
  then show ?thesis using safe_trace_append [OF assms(3)] assms(2) by simp
qed

lemma run_retire_world:
  "snd (snd (run_retire E so x name force (c, w))) =
     snd (snd (retire E (VMID x) (Status x = ''running'') name force (c, w)))"
  by (auto simp: run_retire_def split: prod.splits option.splits)

lemma run_create_world:
  "snd (snd (run_create E n t vid (c, w))) =
     (case cScaleSets c n of None \<Rightarrow> w | Some s \<Rightarrow> snd (snd (create E s t vid (c, w))))"
  by (auto simp: run_create_def split: prod.splits option.splits)

lemma retire_safe:
  assumes "eligible cfg x" and "seen E (trace w) x" and "safe_trace E cfg (trace w)"
  shows "safe_trace E cfg (trace (snd (snd (retire E (VMID x) running name force (c, w)))))"
proof (rule makes_safe [OF retire_makes _ assms(3)])
  have "worker_vmid cfg (VMID x)" using assms(1) by (simp add: eligible_def worker_vmid_def)
  then show "allowed E cfg (trace w) (Stop (VMID x))" "allowed E cfg (trace w) (Destroy (VMID x))"
    using assms(1,2) by (auto simp: allowed_def)
qed (auto intro: allowed_quiet)

lemma create_starts_with_clone:
  "\<exists>ks. extends (ks @ [clone_call c s t vid w]) w (snd (snd (create E s t vid (c, w))))
     \<and> (\<forall>k\<in>set ks. own_call vid k)"
proof -
  have "\<exists>ks. extends (ks @ [clone_call c s t vid w]) w (snd (snd (create E s t vid (c, w))))"
  proof (cases "outcome E (clone_call c s t vid w # trace w)")
    case (Some e)
    then show ?thesis using create_calls_clone_failed [OF Some] by (intro exI [of _ "[]"]) simp
  next
    case None
    show ?thesis
    proof (cases "fst (create E s t vid (c, w)) = None")
      case True
      then show ?thesis using create_calls_ready [of E s t vid c w] by blast
    next
      case False
      from create_calls_failed [OF this None] obtain cleanup built where
        "extends (cleanup @ [Destroy vid, Stop vid] @ built @ [clone_call c s t vid w]) w
          (snd (snd (create E s t vid (c, w))))" by blast
      then show ?thesis by (intro exI [of _ "cleanup @ [Destroy vid, Stop vid] @ built"]) simp
    qed
  qed
  then show ?thesis using makes_extends [OF create_makes] by fastforce
qed

lemma create_safe:
  assumes "worker_vmid (cCfg c) vid" and "safe_trace E (cCfg c) (trace w)"
  shows "safe_trace E (cCfg c) (trace (snd (snd (create E s t vid (c, w)))))"
proof -
  obtain ks where ks: "trace (snd (snd (create E s t vid (c, w)))) = ks @ clone_call c s t vid w # trace w"
    "\<forall>k\<in>set ks. own_call vid k"
    using create_starts_with_clone [of c s t vid w E] by (auto simp: extends_def)
  have cl: "safe_trace E (cCfg c) (clone_call c s t vid w # trace w)"
    using assms by (simp add: allowed_def clone_call_def worker_clone_def)
  have "allowed E (cCfg c) (clone_call c s t vid w # trace w) k" if "own_call vid k" for k
  proof (cases "touches k")
    case (Some v)
    then have "v = vid" using that by (simp add: own_call_def)
    moreover have "\<exists>co. Clone co \<in> set (clone_call c s t vid w # trace w) \<and> NewVMID co = vid"
      by (rule exI [of _ "worker_clone (cCfg c) (sCfg s) (workerName vid (created_at w)) (VMID t) vid"])
         (simp add: clone_call_def worker_clone_def)
    ultimately show ?thesis using Some assms(1) by (simp add: allowed_def)
  qed (rule allowed_quiet)
  then show ?thesis unfolding ks(1) using ks(2) safe_trace_append [OF cl] by blast
qed

lemma run_op_safe:
  assumes "run_op E p (c, w) = (r, c', w')" and "sanctioned E (cCfg c) (trace w) p"
    and "safe_trace E (cCfg c) (trace w)"
  shows "safe_trace E (cCfg c) (trace w')"
proof (cases p)
  case (OpRetire so x name force why)
  then show ?thesis
    using assms retire_safe [of "cCfg c" x E w] run_retire_world [of E so x name force c w] by simp
next
  case (OpCreate n t vid)
  then have "w' = snd (snd (run_create E n t vid (c, w)))" using assms(1) by simp
  then show ?thesis using assms(2,3) OpCreate create_safe [of c vid E w _ t]
    unfolding run_create_world by (cases "cScaleSets c n") simp_all
next
  case (OpPrune x)
  obtain rd where "destroy E (VMID x) w = (rd, w')"
    using assms(1) OpPrune by (auto simp: run_prune_def split: prod.splits)
  then obtain ks where "trace w' = (ks @ [Destroy (VMID x)]) @ trace w" "set ks \<subseteq> {ListVMs}"
    using destroy_calls by (force simp: extends_def)
  moreover have "allowed E (cCfg c) (trace w) k" if "k \<in> set (ks @ [Destroy (VMID x)])" for k
    using that assms(2) OpPrune \<open>set ks \<subseteq> {ListVMs}\<close> by (auto simp: allowed_def)
  ultimately show ?thesis using safe_trace_append [OF assms(3)] by metis
qed

lemma extends_seen: "extends ks w w' \<Longrightarrow> sanctioned E cfg (trace w) p \<Longrightarrow> sanctioned E cfg (trace w') p"
  by (auto simp: extends_def sanctioned_mono)

lemma run_op_extends: "run_op E p (c, w) = (r, c', w') \<Longrightarrow> \<exists>ks. extends ks w w'"
proof (cases p)
  case (OpRetire so x name force why)
  moreover assume "run_op E p (c, w) = (r, c', w')"
  ultimately show ?thesis
    using retire_makes [of "\<lambda>_. True" "VMID x" w E "Status x = ''running''" name force c]
      run_retire_world [of E so x name force c w] by (auto simp: makes_def)
next
  case (OpCreate n t vid)
  assume "run_op E p (c, w) = (r, c', w')"
  then have w': "w' = snd (snd (run_create E n t vid (c, w)))" using OpCreate by simp
  show ?thesis
  proof (cases "cScaleSets c n")
    case None
    then have "w' = w" using w' run_create_world [of E n t vid c w] by simp
    then show ?thesis using extends_refl by blast
  next
    case (Some s)
    then have "w' = snd (snd (create E s t vid (c, w)))"
      using w' run_create_world [of E n t vid c w] by simp
    then show ?thesis using create_starts_with_clone [of c s t vid w E] by blast
  qed
next
  case (OpPrune x)
  moreover assume "run_op E p (c, w) = (r, c', w')"
  ultimately show ?thesis using destroy_calls [of E "VMID x" w]
    by (auto simp: run_prune_def split: prod.splits)
qed

section \<open>The controller's invariant\<close>

definition op_entry :: "op \<Rightarrow> vmid \<times> string" where
  "op_entry p = (op_vmid p, op_name p)"

text \<open>The busy map holds exactly the operations in flight, waiting or running, one per VMID.\<close>

definition booked :: "op list \<Rightarrow> controller \<Rightarrow> bool" where
  "booked R c \<longleftrightarrow> distinct (map fst (cBusy c)) \<and> mset (cBusy c) = mset (map op_entry (cOps c @ R))"

definition scale_sets_ok :: "controller \<Rightarrow> bool" where
  "scale_sets_ok c \<longleftrightarrow>
     (\<forall>n s. cScaleSets c n = Some s \<longrightarrow>
        sCfg s \<in> set (ScaleSets (cCfg c)) \<and> ssName (sCfg s) = n \<and> target_bounded s
        \<and> creatingFor c n \<le> max 0 (MaxRunners (sCfg s)))"

lemma scale_sets_ok_ops: "scale_sets_ok (c\<lparr>cOps := ops\<rparr>) = scale_sets_ok c"
  by (simp add: scale_sets_ok_def creatingFor_def)

definition cinv :: "env \<Rightarrow> config \<Rightarrow> int \<Rightarrow> op list \<Rightarrow> call list \<Rightarrow> controller \<Rightarrow> bool" where
  "cinv E cfg N R tr c \<longleftrightarrow>
     cCfg c = cfg \<and> cParallelism c = N \<and> booked R c \<and> (\<forall>p\<in>set (cOps c @ R). sanctioned E cfg tr p) \<and> scale_sets_ok c"

lemma cinv_cong:
  assumes "cBusy c' = cBusy c" "cOps c' = cOps c" "cCfg c' = cCfg c" "cScaleSets c' = cScaleSets c"
    "cParallelism c' = cParallelism c"
  shows "cinv E cfg N R tr c' \<longleftrightarrow> cinv E cfg N R tr c"
  using assms by (simp add: cinv_def booked_def scale_sets_ok_def creatingFor_def)

lemma cinv_frame [simp]:
  "cinv E cfg N R tr (c\<lparr>cLastRunnerCheck := x\<rparr>) = cinv E cfg N R tr c"
  "cinv E cfg N R tr (c\<lparr>cNextRunnerCheck := t\<rparr>) = cinv E cfg N R tr c"
  "cinv E cfg N R tr (c\<lparr>cStatus := st\<rparr>) = cinv E cfg N R tr c"
  "cinv E cfg N R tr (c\<lparr>cWake := b\<rparr>) = cinv E cfg N R tr c"
  by (rule cinv_cong; simp)+

lemma cinv_mono: "cinv E cfg N R tr c \<Longrightarrow> cinv E cfg N R (ks @ tr) c"
  by (auto simp: cinv_def intro: sanctioned_mono)

lemma booked_busy: "booked R c \<Longrightarrow> isBusy c i \<longleftrightarrow> i \<in> op_vmid ` set (cOps c @ R)"
proof -
  assume "booked R c"
  then have "set (cBusy c) = op_entry ` set (cOps c @ R)"
    by (metis booked_def mset_eq_setD set_map)
  then have "fst ` set (cBusy c) = fst ` op_entry ` set (cOps c @ R)" by simp
  then show ?thesis by (simp add: isBusy_def op_entry_def image_image)
qed

lemma booked_startOp: "booked R c \<Longrightarrow> booked R (startOp p c)"
  by (auto simp: booked_def startOp_def isBusy_def op_entry_def)

text \<open>Starting anything but a creation.\<close>

lemma cinv_startOp:
  assumes "cinv E cfg N R tr c" and "sanctioned E cfg tr p" and "\<And>n. creatingFor (startOp p c) n = creatingFor c n"
  shows "cinv E cfg N R tr (startOp p c)"
  using assms booked_startOp [of R c p] startOp_ops [of p c]
  by (auto simp: cinv_def scale_sets_ok_def)

lemma cinv_retire_worker:
  assumes "cinv E cfg N R tr c" and "eligible cfg (wVM k)" and "seen E tr (wVM k)"
  shows "cinv E cfg N R tr (retire_worker so force why k c)"
  unfolding retire_worker_def using assms
  by (intro cinv_startOp) (simp_all add: creatingFor_startOp_other)

lemma cinv_fold:
  assumes "cinv E cfg N R tr c" and "\<And>x c. x \<in> set xs \<Longrightarrow> cinv E cfg N R tr c \<Longrightarrow> cinv E cfg N R tr (f x c)"
  shows "cinv E cfg N R tr (fold f xs c)"
  by (rule fold_invariant_all [where P = "cinv E cfg N R tr", OF assms])

lemma cinv_pruneTemplates:
  assumes "cinv E cfg N R tr c" and "\<forall>x\<in>set vms. seen E tr x"
  shows "cinv E cfg N R tr (pruneTemplates vms newest c)"
proof -
  have cfg: "cCfg c = cfg" using assms(1) by (simp add: cinv_def)
  have one: "cinv E cfg N R tr (fold (\<lambda>x. startOp (OpPrune x)) (filter (prunable (pxPool (cfgProxmox cfg)) n u) vms) c)"
    for n u
  proof (rule cinv_fold [OF assms(1)])
    fix x c' assume x: "x \<in> set (filter (prunable (pxPool (cfgProxmox cfg)) n u) vms)"
      and c': "cinv E cfg N R tr c'"
    from x assms(2) have "sanctioned E cfg tr (OpPrune x)" by (simp add: prunable_def)
    then show "cinv E cfg N R tr (startOp (OpPrune x) c')"
      by (rule cinv_startOp [OF c']) (rule creatingFor_startOp_other)
  qed
  show ?thesis unfolding pruneTemplates_def cfg Let_def
    using assms(1) one by (simp split: option.split)
qed

lemma cinv_checkRunnerFreshness:
  "cinv E cfg N R tr c \<Longrightarrow> cinv E cfg N R tr (fst (checkRunnerFreshness t now c))"
  by (simp add: checkRunnerFreshness_def split: option.split)

lemma cinv_strays:
  assumes "cinv E cfg N R tr c" and "\<forall>x\<in>set xs. eligible cfg x \<and> seen E tr x"
  shows "cinv E cfg N R tr (fold retire_stray xs c)"
proof (rule cinv_fold [OF assms(1)])
  fix x c' assume x: "x \<in> set xs" and c': "cinv E cfg N R tr c'"
  from x assms(2) have "sanctioned E cfg tr (OpRetire None x [] True LeftHalfCreated)" by simp
  then show "cinv E cfg N R tr (retire_stray x c')" unfolding retire_stray_def
    by (rule cinv_startOp [OF c']) (rule creatingFor_startOp_other)
qed

lemma cinv_check_worker:
  assumes "cinv E cfg N R tr (fst (snd st))" and "eligible cfg (wVM k)" and "seen E tr (wVM k)"
  shows "cinv E cfg N R tr (fst (snd (check_worker E d now name k st)))"
proof -
  obtain checks c w where st: "st = (checks, c, w)" by (metis prod_cases3)
  obtain r force checks' c' w' where
    rr: "retireReason E d (cScaleSets c name) k now (checks, c, w) = ((r, force), checks', c', w')"
    by (metis prod.collapse)
  have "cinv E cfg N R tr c" using assms(1) st by simp
  then have "cinv E cfg N R tr (c\<lparr>cLastRunnerCheck := cLastRunnerCheck c'\<rparr>)" by simp
  then have c': "cinv E cfg N R tr c'" using retireReason_cases(1) [OF rr] by simp
  have rw: "cinv E cfg N R tr (retire_worker so force why k c')" for so why
    by (rule cinv_retire_worker [OF c' assms(2,3)])
  show ?thesis
    using assms(1) rw c' unfolding st check_worker_def by (simp add: rr Let_def)
qed

lemma cinv_check_workers:
  assumes "cinv E cfg N R tr c" and "\<And>n k. k \<in> set (vWorkers v n) \<Longrightarrow> eligible cfg (wVM k) \<and> seen E tr (wVM k)"
  shows "cinv E cfg N R tr (fst (snd (check_workers E ord v now (c, w))))"
proof -
  let ?P = "\<lambda>st :: int \<times> controller \<times> world. cinv E cfg N R tr (fst (snd st))"
  have inner: "?P (fold (check_worker E d now n) (vWorkers v n) st)" if "?P st" for d n st
    by (rule fold_invariant_all [where P = ?P, OF that]) (use assms(2) cinv_check_worker in blast)
  show ?thesis unfolding check_workers_def split
    by (rule fold_invariant_all [where P = ?P]) (use assms(1) inner in auto)
qed

lemma cinv_create_loop:
  assumes "cinv E cfg N R tr c" and "\<And>s. cScaleSets c n = Some s \<Longrightarrow>
      creatingFor c n + int m \<le> max 0 (MaxRunners (sCfg s))"
  shows "cinv E cfg N R tr (fst (create_loop m n t (c, used)))"
  using assms
proof (induction m arbitrary: c used)
  case 0
  then show ?case by simp
next
  case (Suc m)
  show ?case
  proof (cases "allocateVMID c used")
    case None
    then show ?thesis using Suc.prems by simp
  next
    case (Some a)
    obtain i used' where a: "a = (i, used')" by fastforce
    let ?p = "OpCreate n t i" and ?c = "startOp (OpCreate n t i) c"
    have free: "free_vmid c used i" using allocateVMID_Some(1) Some a by blast
    then have nb: "\<not> isBusy c i" and "worker_vmid (cCfg c) i" by (simp_all add: free_vmid_def worker_vmid_def)
    then have san: "sanctioned E cfg tr ?p" using Suc.prems(1) by (simp add: cinv_def)
    note cr = creatingFor_startOp_create [OF nb, of n t]
    have "scale_sets_ok ?c"
      using Suc.prems cr by (fastforce simp: cinv_def scale_sets_ok_def)
    then have inv: "cinv E cfg N R tr ?c"
      using Suc.prems(1) san booked_startOp [of R c ?p] startOp_ops [of ?p c] by (auto simp: cinv_def)
    have "cinv E cfg N R tr (fst (create_loop m n t (?c, used')))"
    proof (rule Suc.IH [OF inv])
      fix s assume "cScaleSets ?c n = Some s"
      then show "creatingFor ?c n + int m \<le> max 0 (MaxRunners (sCfg s))"
        using Suc.prems(2) [of s] cr [of n] by simp
    qed
    then show ?thesis using Some a by simp
  qed
qed

lemma cinv_scale:
  assumes inv: "cinv E cfg N R tr c"
    and ws: "\<And>n k. k \<in> set (vWorkers v n) \<Longrightarrow> eligible cfg (wVM k) \<and> seen E tr (wVM k)"
    and srt: "sorts_by_age (sort_idle ord)"
  shows "cinv E cfg N R tr (fst (scale ord v now n (c, used)))"
proof (cases "\<exists>s. governed c n s")
  case False
  then have "scale ord v now n (c, used) = (c, used)"
    using inv by (intro scale_ungoverned) (auto simp: cinv_def scale_sets_ok_def)
  then show ?thesis using inv by simp
next
  case True
  then obtain s where s: "governed c n s" by blast
  have bound: "sDesired s \<le> max 0 (MaxRunners (sCfg s))"
    using inv s by (auto simp: cinv_def scale_sets_ok_def governed_def target_bounded_def)
  have up: "cinv E cfg N R tr (fst (create_loop (nat (sDesired s - active c v n)) n t (c, used)))"
    if "active c v n < sDesired s" for t
  proof (rule cinv_create_loop [OF inv])
    fix s' assume "cScaleSets c n = Some s'"
    then have "s' = s" using s by (simp add: governed_def)
    moreover have "creatingFor c n \<le> active c v n" by (simp add: active_def)
    ultimately show "creatingFor c n + int (nat (sDesired s - active c v n)) \<le> max 0 (MaxRunners (sCfg s'))"
      using bound that by simp
  qed
  have down: "cinv E cfg N R tr (fold (retire_worker (Some n) False MoreThanWanted)
      (take m (sort_idle ord (idle c s (vWorkers v n)))) c)" for m
  proof (rule cinv_fold [OF inv])
    fix k c' assume "k \<in> set (take m (sort_idle ord (idle c s (vWorkers v n))))" and c': "cinv E cfg N R tr c'"
    then have "k \<in> set (idle c s (vWorkers v n))"
      using srt by (metis in_set_takeD set_mset_mset sorts_by_age_def)
    then have "k \<in> set (vWorkers v n)" by (auto simp: idle_def alive_def)
    then show "cinv E cfg N R tr (retire_worker (Some n) False MoreThanWanted k c')"
      using ws cinv_retire_worker [OF c'] by blast
  qed
  show ?thesis unfolding scale_governed [OF s] using inv up down by (auto split: option.split)
qed

lemma cinv_scale_all:
  assumes "cinv E cfg N R tr c"
    and "\<And>n k. k \<in> set (vWorkers v n) \<Longrightarrow> eligible cfg (wVM k) \<and> seen E tr (wVM k)"
    and "sorts_by_age (sort_idle ord)"
  shows "cinv E cfg N R tr (fst (fold (scale ord v now) ns (c, used)))"
proof (rule fold_invariant_all [where P = "\<lambda>cu. cinv E cfg N R tr (fst cu)"])
  fix n and cu :: "controller \<times> vmid set" assume "cinv E cfg N R tr (fst cu)"
  then show "cinv E cfg N R tr (fst (scale ord v now n cu))"
    using cinv_scale [OF _ assms(2,3)] by (cases cu) simp
qed (simp add: assms(1))

lemma seen_listing: "listing E (ListVMs # tr) = Inr vms \<Longrightarrow> x \<in> set vms \<Longrightarrow> seen E (ListVMs # tr) x"
  unfolding seen_def by (rule exI [of _ "[]"]) auto

lemma reconcile_inv:
  assumes rc: "reconcile E ord (c, w) = (r, fresh, c', w')" and srt: "sorts_by_age (sort_idle ord)"
    and inv: "cinv E cfg N R (trace w) c" and safe: "safe_trace E cfg (trace w)"
  shows "cinv E cfg N R (trace w') c' \<and> safe_trace E cfg (trace w')"
proof (cases "listing E (ListVMs # trace w)")
  case (Inl e)
  then have "c' = c" "trace w' = [ListVMs] @ trace w"
    using rc by (auto simp: reconcile_def pve_ListVMs_def)
  then show ?thesis using cinv_mono [OF inv, of "[ListVMs]"] safe by (simp add: allowed_def)
next
  case (Inr vms)
  define w1 where "w1 = calls E ListVMs w"
  define v where "v = observe cfg vms"
  define c1 where "c1 = fst (checkRunnerFreshness (vTemplate v) (clock w1) (pruneTemplates vms (vTemplate v) c))"
  define c2 where "c2 = fold retire_stray (vStrays v) c1"
  define st where "st = check_workers E ord v (clock w1) (c2, w1)"
  have cfg: "cCfg c = cfg" using inv by (simp add: cinv_def)
  have tr1: "trace w1 = ListVMs # trace w" by (simp add: w1_def)
  have seen: "seen E (trace w1) x" if "x \<in> set vms" for x
    using seen_listing [OF Inr that] tr1 by simp
  have ws: "eligible cfg (wVM k) \<and> seen E (trace w1) (wVM k)" if "k \<in> set (vWorkers v n)" for n k
    using observed_worker(1,2) [of k cfg vms n] that seen by (simp add: v_def)
  have w': "w' = snd (snd st)" and c': "c' = countWorkers ord v
      (fst (fold (scale ord v (clock w1)) (scale_set_order ord) (fst (snd st), vUsed v)))"
    using rc Inr cfg
    by (auto simp: reconcile_def pve_ListVMs_def Let_def w1_def [symmetric] v_def [symmetric] c1_def c2_def st_def
        split: prod.splits)
  have "cinv E cfg N R (trace w1) c" using cinv_mono [OF inv, of "[ListVMs]"] tr1 by simp
  then have "cinv E cfg N R (trace w1) c1"
    unfolding c1_def using seen by (intro cinv_checkRunnerFreshness cinv_pruneTemplates) auto
  then have "cinv E cfg N R (trace w1) c2"
    unfolding c2_def using seen by (intro cinv_strays) (auto simp: v_def observe_fields)
  then have "cinv E cfg N R (trace w1) (fst (snd st))"
    unfolding st_def by (rule cinv_check_workers) (rule ws)
  then have fin: "cinv E cfg N R (trace w1) c'"
    unfolding c' countWorkers_def cinv_frame by (rule cinv_scale_all [OF _ ws srt])
  obtain ks where ks: "trace w' = ks @ trace w1" "\<forall>k\<in>set ks. \<exists>n. k = RunnerByName n"
    using check_workers_lookups [of w1 E ord v "clock w1" c2] unfolding st_def [symmetric] w'
    by (auto simp: lookups_def extends_def split: prod.splits)
  have "safe_trace E cfg (ks @ trace w1)"
    using safe tr1 ks(2) by (intro safe_trace_append) (auto simp: allowed_def)
  then show ?thesis using ks(1) cinv_mono [OF fin] by simp
qed

section \<open>Ends of operations\<close>

lemma filter_key_mset:
  assumes "distinct (map fst xs)" and "(i, n) \<in> set xs"
  shows "mset (filter (\<lambda>(v, m). v \<noteq> i) xs) = mset xs - {#(i, n)#}"
  using assms
proof (induction xs)
  case (Cons x xs)
  obtain v m where x: "x = (v, m)" by fastforce
  show ?case
  proof (cases "v = i")
    case True
    then have "\<forall>y\<in>set xs. fst y \<noteq> i" using Cons.prems(1) x by (auto simp: image_iff)
    moreover have "m = n" using True Cons.prems x by (auto simp: image_iff)
    moreover have "filter (\<lambda>(v, m). v \<noteq> i) xs = xs"
      using \<open>\<forall>y\<in>set xs. fst y \<noteq> i\<close> by (auto simp: filter_id_conv)
    ultimately show ?thesis using True x by (simp del: mset_filter)
  next
    case False
    then show ?thesis using Cons x by (auto simp: image_iff)
  qed
qed simp

lemma length_filter_filter: "length (filter P (filter Q xs)) \<le> length (filter P xs)"
  by (induction xs) auto

lemma creatingFor_finishOp: "creatingFor (finishOp i c) n \<le> creatingFor c n"
  using length_filter_filter by (simp add: creatingFor_def finishOp_def)

lemma booked_finish:
  assumes "booked R c" and "p \<in> set (cOps c @ R)"
    and "mset (cOps c' @ R') = mset (cOps c @ R) - {#p#}" and "cBusy c' = cBusy c"
  shows "booked R' (finishOp (op_vmid p) c')"
proof -
  have d: "distinct (map fst (cBusy c))" and m: "mset (cBusy c) = mset (map op_entry (cOps c @ R))"
    using assms(1) by (simp_all add: booked_def)
  have "op_entry p \<in> set (map op_entry (cOps c @ R))" using assms(2) by auto
  then have mem: "(op_vmid p, op_name p) \<in> set (cBusy c)"
    using m by (metis mset_eq_setD op_entry_def)
  have "mset (map op_entry (cOps c' @ R')) = image_mset op_entry (mset (cOps c @ R) - {#p#})"
    unfolding mset_map assms(3) by (rule refl)
  also have "\<dots> = mset (cBusy c) - {#op_entry p#}"
    using assms(2) unfolding m mset_map by (subst image_mset_Diff) (simp_all del: mset_append set_append)
  also have "\<dots> = mset (filter (\<lambda>(v, n). v \<noteq> op_vmid p) (cBusy c))"
    using filter_key_mset [OF d mem] by (simp add: op_entry_def)
  finally have "mset (filter (\<lambda>(v, n). v \<noteq> op_vmid p) (cBusy c)) = mset (map op_entry (cOps c' @ R'))"
    by (rule sym)
  moreover have "distinct (map fst (filter (\<lambda>(v, n). v \<noteq> op_vmid p) (cBusy c)))"
    using d by (rule distinct_map_filter)
  ultimately show ?thesis using assms(4) by (simp add: booked_def finishOp_def del: mset_filter)
qed

lemma scale_sets_ok_core:
  assumes "scale_sets_ok c" and "\<And>n. map_option core (cScaleSets c' n) = map_option core (cScaleSets c n)"
    and "\<And>n. creatingFor c' n \<le> creatingFor c n" and "cCfg c' = cCfg c"
  shows "scale_sets_ok c'"
  unfolding scale_sets_ok_def
proof (intro allI impI)
  fix n s' assume "cScaleSets c' n = Some s'"
  then obtain s where s: "cScaleSets c n = Some s" "core s' = core s"
    using assms(2) [of n] by (cases "cScaleSets c n") auto
  then show "sCfg s' \<in> set (ScaleSets (cCfg c')) \<and> ssName (sCfg s') = n \<and> target_bounded s'
      \<and> creatingFor c' n \<le> max 0 (MaxRunners (sCfg s'))"
    using assms(1) assms(3) [of n] assms(4) unfolding scale_sets_ok_def
    by (fastforce simp: core_def target_bounded_def intro: order_trans)
qed

text \<open>An operation that ends, in whatever way, keeps the invariant.\<close>

lemma cinv_finish:
  assumes inv: "cinv E cfg N R tr c" and p: "p \<in> set (cOps c @ R)"
    and m: "mset (cOps c' @ R') = mset (cOps c @ R) - {#p#}"
    and c': "cBusy c' = cBusy c" "cCfg c' = cCfg c" "cParallelism c' = cParallelism c"
      "\<And>n. map_option core (cScaleSets c' n) = map_option core (cScaleSets c n)"
  shows "cinv E cfg N R' (ks @ tr) (finishOp (op_vmid p) c')"
proof -
  have "set (cOps c' @ R') \<subseteq> set (cOps c @ R)"
    using m by (metis diff_subset_eq_self set_mset_mono set_mset_mset)
  then have "\<forall>q\<in>set (cOps c' @ R'). sanctioned E cfg (ks @ tr) q"
    using inv by (auto simp: cinv_def intro: sanctioned_mono)
  moreover have "scale_sets_ok (finishOp (op_vmid p) c')"
  proof (rule scale_sets_ok_core)
    show "scale_sets_ok c" using inv by (simp add: cinv_def)
    show "creatingFor (finishOp (op_vmid p) c') n \<le> creatingFor c n" for n
      using creatingFor_finishOp [of "op_vmid p" c' n] c'(1) by (simp add: creatingFor_def)
    show "map_option core (cScaleSets (finishOp (op_vmid p) c') n) = map_option core (cScaleSets c n)" for n
      using c'(4) by (simp add: finishOp_def)
    show "cCfg (finishOp (op_vmid p) c') = cCfg c" using c'(2) by (simp add: finishOp_def)
  qed
  ultimately show ?thesis
    using inv booked_finish [OF _ p m c'(1)] c'(2,3) by (simp add: cinv_def finishOp_def)
qed

section \<open>Every step keeps the invariant\<close>

definition minv :: "env \<Rightarrow> config \<Rightarrow> int \<Rightarrow> machine \<Rightarrow> bool" where
  "minv E cfg N m \<longleftrightarrow>
     cinv E cfg N (mRunning m) (trace (mW m)) (mC m) \<and> safe_trace E cfg (trace (mW m))
     \<and> int (length (mRunning m)) \<le> N"

lemma minv_pass:
  assumes "minv E cfg N m" and "sorts_by_age (sort_idle ord)"
    and "reconcile E ord ((mC m)\<lparr>cWake := wk\<rparr>, mW m) = (r, fresh, c, w)"
  shows "minv E cfg N (m\<lparr>mC := c, mW := w, mFresh := f\<rparr>)"
proof -
  have "cinv E cfg N (mRunning m) (trace (mW m)) ((mC m)\<lparr>cWake := wk\<rparr>)"
    and "safe_trace E cfg (trace (mW m))"
    using assms(1) unfolding minv_def cinv_frame by blast+
  from reconcile_inv [OF assms(3,2) this] show ?thesis using assms(1) by (simp add: minv_def)
qed

lemma minv_acquire:
  assumes "minv E cfg N m" and "p \<in> set (cOps (mC m))" and "int (length (mRunning m)) < cParallelism (mC m)"
  shows "minv E cfg N (m\<lparr>mC := (mC m)\<lparr>cOps := remove1 p (cOps (mC m))\<rparr>, mRunning := p # mRunning m\<rparr>)"
proof -
  have "mset (remove1 p (cOps (mC m)) @ p # mRunning m) = mset (cOps (mC m) @ mRunning m)"
    using assms(2) by simp
  then have "set (remove1 p (cOps (mC m)) @ p # mRunning m) = set (cOps (mC m) @ mRunning m)"
    and "mset (map op_entry (remove1 p (cOps (mC m)) @ p # mRunning m)) =
      mset (map op_entry (cOps (mC m) @ mRunning m))"
    by (metis mset_eq_setD, metis mset_map)
  then show ?thesis
    using assms(1,3) unfolding minv_def cinv_def booked_def
    by (simp add: scale_sets_ok_ops del: set_append mset_append map_append)
qed

lemma minv_abandon:
  assumes "minv E cfg N m" and "p \<in> set (cOps (mC m))"
  shows "minv E cfg N (m\<lparr>mC := finishOp (op_vmid p) ((mC m)\<lparr>cOps := remove1 p (cOps (mC m))\<rparr>)\<rparr>)"
proof -
  have "cinv E cfg N (mRunning m) ([] @ trace (mW m))
      (finishOp (op_vmid p) ((mC m)\<lparr>cOps := remove1 p (cOps (mC m))\<rparr>))"
    by (rule cinv_finish [where c = "mC m" and R = "mRunning m"]) (use assms in \<open>simp_all add: minv_def\<close>)
  then show ?thesis using assms(1) by (simp add: minv_def)
qed

lemma minv_finish:
  assumes "minv E cfg N m" and p: "p \<in> set (mRunning m)" and run: "run_op E p (mC m, mW m) = (r, c, w)"
  shows "minv E cfg N (m\<lparr>mC := finishOp (op_vmid p) c, mW := w, mRunning := remove1 p (mRunning m)\<rparr>)"
proof -
  have inv: "cinv E cfg N (mRunning m) (trace (mW m)) (mC m)" and safe: "safe_trace E cfg (trace (mW m))"
    and len: "int (length (mRunning m)) \<le> N"
    using assms(1) by (simp_all add: minv_def)
  have cfg: "cCfg (mC m) = cfg" using inv by (simp add: cinv_def)
  have san: "sanctioned E cfg (trace (mW m)) p" using inv p by (auto simp: cinv_def)
  have core: "same_core (mC m) c" by (rule run_op_core [OF run])
  obtain ks where ks: "trace w = ks @ trace (mW m)" using run_op_extends [OF run] by (auto simp: extends_def)
  have "cinv E cfg N (remove1 p (mRunning m)) (ks @ trace (mW m)) (finishOp (op_vmid p) c)"
    by (rule cinv_finish [OF inv]) (use core p in \<open>simp_all add: same_core_def\<close>)
  moreover have "safe_trace E cfg (trace w)" using run_op_safe [OF run] san safe cfg by simp
  moreover have "int (length (remove1 p (mRunning m))) \<le> N" using len p by (simp add: length_remove1)
  ultimately show ?thesis using ks by (simp add: minv_def)
qed

lemma minv_listen:
  assumes "minv E cfg N m"
  shows "minv E cfg N (m\<lparr>mC := (on_scale_set (Some n) (apply_event e) (mC m))\<lparr>cWake := wk\<rparr>\<rparr>)"
proof -
  let ?c = "on_scale_set (Some n) (apply_event e) (mC m)"
  have "scale_sets_ok (mC m)" using assms by (simp add: minv_def cinv_def)
  then have "scale_sets_ok ?c" by (auto simp: scale_sets_ok_def on_scale_set_def creatingFor_def)
  then have "cinv E cfg N (mRunning m) (trace (mW m)) ?c"
    using assms unfolding minv_def cinv_def by (simp add: booked_def on_scale_set_def)
  then show ?thesis using assms unfolding minv_def by simp
qed

lemma minv_compared:
  assumes "minv E cfg N m" and "compareRunner E t now (mW m) = (nxt, lvl, w)"
  shows "minv E cfg N (m\<lparr>mC := (mC m)\<lparr>cNextRunnerCheck := nxt\<rparr>, mW := w, mFresh := f\<rparr>)"
proof -
  have w: "trace w = [LatestRunnerRelease] @ trace (mW m)"
    using assms(2) by (auto simp: compareRunner_def gh_LatestRunnerRelease_def Let_def split: sum.splits)
  have "cinv E cfg N (mRunning m) ([LatestRunnerRelease] @ trace (mW m)) (mC m)"
    using assms(1) unfolding minv_def by (intro cinv_mono) blast
  then show ?thesis using assms(1) w by (simp add: minv_def allowed_def)
qed

lemma minv_step:
  assumes "minv E cfg N m" and "mstep E m m'"
  shows "minv E cfg N m'"
  using assms(2)
proof cases
  case (pass ord wk r fresh c w)
  show ?thesis unfolding pass(1) by (rule minv_pass [OF assms(1) pass(2,3)])
next
  case (acquire p)
  show ?thesis unfolding acquire(1) by (rule minv_acquire [OF assms(1) acquire(2,3)])
next
  case (abandon p)
  show ?thesis unfolding abandon(1) by (rule minv_abandon [OF assms(1) abandon(2)])
next
  case (finish p r c w)
  show ?thesis unfolding finish(1) by (rule minv_finish [OF assms(1) finish(2,3)])
next
  case (listen e n wk)
  show ?thesis unfolding listen(1) by (rule minv_listen [OF assms(1)])
next
  case (compared t now nxt lvl w)
  show ?thesis unfolding compared(1) by (rule minv_compared [OF assms(1) compared(3)])
next
  case (wake wk)
  show ?thesis unfolding wake using assms(1) by (simp add: minv_def cinv_frame)
next
  case (tick d)
  show ?thesis unfolding tick using assms(1) by (simp add: minv_def)
qed

lemma scaleSets_of_config:
  "fold (\<lambda>s m. m(ssName s \<mapsto> newScaleSetState s)) ss m0 n = Some x \<Longrightarrow>
     m0 n = Some x \<or> (\<exists>s\<in>set ss. x = newScaleSetState s \<and> ssName s = n)"
proof (induction ss arbitrary: m0)
  case (Cons s ss)
  have "fold (\<lambda>s m. m(ssName s \<mapsto> newScaleSetState s)) ss (m0(ssName s \<mapsto> newScaleSetState s)) n = Some x"
    using Cons.prems by (simp only: fold_simps)
  from Cons.IH [OF this]
  have "(m0(ssName s \<mapsto> newScaleSetState s)) n = Some x \<or> (\<exists>s\<in>set ss. x = newScaleSetState s \<and> ssName s = n)" .
  then show ?case by (auto split: if_splits)
qed simp

definition slots :: "options \<Rightarrow> int" where
  "slots opts = (if oParallelism opts \<le> 0 then defaultParallelism else oParallelism opts)"

lemma minv_init:
  assumes "minit opts m"
  shows "minv E (oConfig opts) (slots opts) m"
proof -
  obtain ids t where m: "m = \<lparr>mC = with_ids ids (New opts), mW = \<lparr>trace = [], clock = t\<rparr>, mRunning = [], mFresh = []\<rparr>"
    using assms by (auto simp: minit_def)
  have "scale_sets_ok (with_ids ids (New opts))"
    unfolding scale_sets_ok_def
  proof (intro allI impI)
    fix n s assume "cScaleSets (with_ids ids (New opts)) n = Some s"
    then obtain x where x: "fold (\<lambda>s m. m(ssName s \<mapsto> newScaleSetState s)) (ScaleSets (oConfig opts)) Map.empty n = Some x"
      "s = x\<lparr>sId := ids n\<rparr>" by (auto simp: with_ids_def New_def)
    then obtain sc where "x = newScaleSetState sc" "ssName sc = n" "sc \<in> set (ScaleSets (oConfig opts))"
      using scaleSets_of_config by fastforce
    then show "sCfg s \<in> set (ScaleSets (cCfg (with_ids ids (New opts)))) \<and> ssName (sCfg s) = n \<and> target_bounded s
        \<and> creatingFor (with_ids ids (New opts)) n \<le> max 0 (MaxRunners (sCfg s))"
      using x(2) by (simp add: newScaleSetState_def target_bounded_def creatingFor_def with_ids_def New_def)
  qed
  then show ?thesis
    by (simp add: m minv_def cinv_def booked_def with_ids_def New_def slots_def defaultParallelism_def)
qed

interpretation machine: transition_system "minit opts" "mstep E" "minv E (oConfig opts) (slots opts)" for opts E
  by unfold_locales (auto intro: minv_init minv_step)

section \<open>Registration\<close>

text \<open>
  Registration ends once GitHub answers: if every attempt from the \<open>N\<close>-th on succeeds, the loop
  returns, whatever the waits.
\<close>

definition attempts :: "call list \<Rightarrow> nat" where
  "attempts tr = length (filter (\<lambda>k. case k of EnsureScaleSet n l g \<Rightarrow> True | _ \<Rightarrow> False) tr)"

lemma ensure_loop_returns:
  assumes "\<And>tr. N \<le> attempts tr \<Longrightarrow> \<exists>i. scale_set_id E tr = Inr i"
  shows "\<exists>r. ensure_loop E s b w = Some r"
proof (induction "N - attempts (trace w)" arbitrary: b w)
  case 0
  let ?k = "EnsureScaleSet (ssName s) (Labels s) (RunnerGroup s)"
  have "N \<le> attempts (?k # trace w)" using 0 by (simp add: attempts_def)
  then obtain i where "scale_set_id E (?k # trace w) = Inr i" using assms by blast
  then show ?case by (subst ensure_loop.simps) (simp add: gh_EnsureScaleSet_def Let_def)
next
  case (Suc d)
  let ?k = "EnsureScaleSet (ssName s) (Labels s) (RunnerGroup s)"
  show ?case
  proof (cases "scale_set_id E (?k # trace w)")
    case (Inr i)
    then show ?thesis by (subst ensure_loop.simps) (simp add: gh_EnsureScaleSet_def Let_def)
  next
    case (Inl e)
    obtain slept w2 where sl: "sleep E b (calls E ?k w) = (slept, w2)" by fastforce
    then have "trace w2 = Sleep b # ?k # trace w" using sleep_extends [OF sl] by (simp add: extends_def)
    then have "d = N - attempts (trace w2)" using Suc.hyps(2) by (simp add: attempts_def)
    then have "\<exists>r. ensure_loop E s (min (b * 2) Minute) w2 = Some r" by (rule Suc.hyps(1))
    then show ?thesis using Inl sl
      by (subst ensure_loop.simps) (auto simp: gh_EnsureScaleSet_def Let_def)
  qed
qed

lemma register_all_returns:
  assumes "\<And>tr. N \<le> attempts tr \<Longrightarrow> \<exists>i. scale_set_id E tr = Inr i"
  shows "\<exists>r. register_all E ns cw = Some r"
proof (induction ns arbitrary: cw)
  case (Cons n ns)
  obtain c w where cw: "cw = (c, w)" by fastforce
  show ?case
  proof (cases "cScaleSets c n")
    case None
    then show ?thesis using Cons cw by simp
  next
    case (Some s)
    obtain r where "ensure_loop E (sCfg s) Second w = Some r" using ensure_loop_returns [OF assms] by blast
    then show ?thesis using Cons Some cw by (cases r) (auto split: option.split)
  qed
qed auto

end
