(* ===== verification/Release.thy ===== *)
theory Release
  imports Strconv Url "HOL-Library.Product_Lexorder" "HOL-Library.Char_ord" "HOL-Library.List_Lexorder"
begin

text \<open>
  \<^verbatim>\<open>internal/release/version.go\<close>: release versions, their printed form and their order. Versions
  are read back from their printed form and from their tag (\<open>codec\<close>). \<open>Compare\<close> is a total order on
  versions whose numeric pre-release identifiers have no leading zero (\<open>total_compare\<close>, through an
  injective key), and is not transitive without that restriction.
\<close>

section \<open>Versions (version.go)\<close>

record version =
  vMajor :: int
  vMinor :: int
  vPatch :: int
  vPre :: string

definition numeric_part :: "string \<Rightarrow> bool" where
  "numeric_part s \<longleftrightarrow> s = ''0'' \<or> (s \<noteq> [] \<and> hd s \<noteq> CHR ''0'' \<and> list_all is_digit s)"

definition pre_char :: "char \<Rightarrow> bool" where
  "pre_char c \<longleftrightarrow> is_digit c \<or> (97 \<le> (of_char c :: nat) \<and> (of_char c :: nat) \<le> 122) \<or> c = CHR ''.''"

text \<open>\<^verbatim>\<open>versionPattern\<close>: the three numbers and the pre-release suffix, empty when there is none.\<close>

definition versionPattern :: "string \<Rightarrow> (string \<times> string \<times> string \<times> string) option" where
  "versionPattern s =
     (case cut_at (CHR ''-'') (TrimPrefix s ''v'') of (nums, pre) \<Rightarrow>
        (case Split (CHR ''.'') nums of
           [a, b, c] \<Rightarrow>
             if numeric_part a \<and> numeric_part b \<and> numeric_part c
                \<and> (case pre of None \<Rightarrow> True | Some p \<Rightarrow> p \<noteq> [] \<and> list_all pre_char p)
             then Some (a, b, c, case pre of None \<Rightarrow> [] | Some p \<Rightarrow> p) else None
         | _ \<Rightarrow> None))"

definition ParseVersion :: "string \<Rightarrow> version option" where
  "ParseVersion s =
     (case versionPattern s of
        None \<Rightarrow> None
      | Some (a, b, c, pre) \<Rightarrow>
          (case (Atoi a, Atoi b, Atoi c) of
             (Some x, Some y, Some z) \<Rightarrow> Some \<lparr>vMajor = x, vMinor = y, vPatch = z, vPre = pre\<rparr>
           | _ \<Rightarrow> None))"

definition version_String :: "version \<Rightarrow> string" where
  "version_String v =
     Itoa (vMajor v) @ ''.'' @ Itoa (vMinor v) @ ''.'' @ Itoa (vPatch v)
     @ (if vPre v \<noteq> [] then ''-'' @ vPre v else [])"

definition version_Tag :: "version \<Rightarrow> string" where
  "version_Tag v = ''v'' @ version_String v"

definition IsPre :: "version \<Rightarrow> bool" where
  "IsPre v \<longleftrightarrow> vPre v \<noteq> []"

definition cmp :: "'a::linorder \<Rightarrow> 'a \<Rightarrow> int" where
  "cmp a b = (if a < b then - 1 else if a > b then 1 else 0)"

text \<open>The loop over the dot-separated identifiers; \<open>m\<close> and \<open>n\<close> are the numbers of identifiers.\<close>

fun compare_ids :: "nat \<Rightarrow> nat \<Rightarrow> string list \<Rightarrow> string list \<Rightarrow> int" where
  "compare_ids m n (a # as) (b # bs) =
     (if a = b then compare_ids m n as bs
      else (case (Atoi a, Atoi b) of
              (Some x, Some y) \<Rightarrow> cmp x y
            | (Some x, None) \<Rightarrow> - 1
            | (None, Some y) \<Rightarrow> 1
            | (None, None) \<Rightarrow> cmp a b))"
| "compare_ids m n as bs = cmp m n"

definition Compare :: "version \<Rightarrow> version \<Rightarrow> int" where
  "Compare v w =
     (if vMajor v \<noteq> vMajor w then cmp (vMajor v) (vMajor w)
      else if vMinor v \<noteq> vMinor w then cmp (vMinor v) (vMinor w)
      else if vPatch v \<noteq> vPatch w then cmp (vPatch v) (vPatch w)
      else if vPre v = vPre w then 0
      else if vPre v = [] then 1
      else if vPre w = [] then - 1
      else (let a = Split (CHR ''.'') (vPre v); b = Split (CHR ''.'') (vPre w) in
            compare_ids (length a) (length b) a b))"


section \<open>Round trip\<close>

definition valid_version :: "version \<Rightarrow> bool" where
  "valid_version v \<longleftrightarrow>
     0 \<le> vMajor v \<and> in_int64 (vMajor v) \<and> 0 \<le> vMinor v \<and> in_int64 (vMinor v)
     \<and> 0 \<le> vPatch v \<and> in_int64 (vPatch v) \<and> list_all pre_char (vPre v)"

lemma digit_char_is_digit: "d < 10 \<Longrightarrow> is_digit (digit_char d)"
  by (simp add: is_digit_def of_char_digit_char)

lemma digit_char_zero_iff: "d < 10 \<Longrightarrow> digit_char d = CHR ''0'' \<longleftrightarrow> d = 0"
proof
  assume "d < 10" and "digit_char d = CHR ''0''"
  then show "d = 0" using of_char_digit_char [of d] by simp
qed (simp add: digit_char_def char_of_def bit_0)

lemma fmt_nat_hd: "0 < n \<Longrightarrow> hd (fmt_nat 10 n) \<noteq> CHR ''0''"
proof (induction n rule: less_induct)
  case (less n)
  then show ?case
    by (cases "n < 10") (simp_all add: fmt_nat.simps [of 10 n] digit_char_zero_iff)
qed

lemma Itoa_is_digit:
  assumes "0 \<le> i"
  shows "list_all is_digit (Itoa i)"
  using assms fmt_nat_digits [of 10 _ "nat i"] digit_char_is_digit
  by (fastforce simp: Itoa_def FormatInt_def list_all_iff)

lemma Itoa_numeric_part: "0 \<le> i \<Longrightarrow> numeric_part (Itoa i)"
  using fmt_nat_hd [of "nat i"] Itoa_is_digit [of i]
  by (cases "i = 0")
    (auto simp: numeric_part_def Itoa_def FormatInt_def fmt_nat.simps [of 10 0] digit_char_zero_iff)

lemma digits_no_char:
  assumes "0 \<le> i" and "\<not> is_digit c"
  shows "c \<notin> set (Itoa i)"
  using Itoa_is_digit [OF assms(1)] assms(2) by (auto simp: list_all_iff)

lemma not_digits [simp]: "\<not> is_digit (CHR ''.'')" "\<not> is_digit (CHR ''-'')" "\<not> is_digit (CHR ''v'')"
  by (simp_all add: is_digit_def)

lemma TrimPrefix_Itoa: "0 \<le> i \<Longrightarrow> TrimPrefix (Itoa i @ s) ''v'' = Itoa i @ s"
  using digits_no_char [of i "CHR ''v''"]
  by (cases "Itoa i") (auto simp: TrimPrefix_def Itoa_def FormatInt_def)

lemma cut_at_found: "sep \<notin> set s \<Longrightarrow> cut_at sep (s @ sep # t) = (s, Some t)"
  by (induction s) auto

lemma versionPattern_String:
  assumes "valid_version v"
  shows "versionPattern (version_String v) = Some (Itoa (vMajor v), Itoa (vMinor v), Itoa (vPatch v), vPre v)"
proof -
  let ?n = "Itoa (vMajor v) @ CHR ''.'' # Itoa (vMinor v) @ CHR ''.'' # Itoa (vPatch v)"
  have dash: "CHR ''-'' \<notin> set ?n"
    using assms by (simp add: valid_version_def digits_no_char)
  have parts: "Split (CHR ''.'') ?n = [Itoa (vMajor v), Itoa (vMinor v), Itoa (vPatch v)]"
    using assms by (simp add: valid_version_def Split_append_sep Split_no_sep digits_no_char)
  have "cut_at (CHR ''-'') (TrimPrefix (version_String v) ''v'')
      = (?n, if vPre v = [] then None else Some (vPre v))"
    using assms cut_at_found [OF dash, of "vPre v"] cut_at_absent [OF dash]
    by (simp add: version_String_def TrimPrefix_Itoa valid_version_def)
  then show ?thesis
    using assms parts by (simp add: versionPattern_def Itoa_numeric_part valid_version_def)
qed

lemma ParseVersion_String: "valid_version v \<Longrightarrow> ParseVersion (version_String v) = Some v"
  using versionPattern_String [of v] by (simp add: ParseVersion_def valid_version_def ParseInt_Itoa)

interpretation versions: codec version_String ParseVersion valid_version
  by unfold_locales (rule ParseVersion_String)

lemma ParseVersion_Tag: "valid_version v \<Longrightarrow> ParseVersion (version_Tag v) = Some v"
proof -
  assume v: "valid_version v"
  have "TrimPrefix (version_Tag v) ''v'' = TrimPrefix (version_String v) ''v''"
    using v TrimPrefix_append [of "''v''" "version_String v"]
    by (simp add: version_Tag_def version_String_def TrimPrefix_Itoa valid_version_def)
  then have "ParseVersion (version_Tag v) = ParseVersion (version_String v)"
    by (simp add: ParseVersion_def versionPattern_def)
  with v show ?thesis by (simp add: ParseVersion_String)
qed

interpretation version_tags: codec version_Tag ParseVersion valid_version
  by unfold_locales (rule ParseVersion_Tag)

lemma numeric_part_digits: "numeric_part s \<Longrightarrow> list_all is_digit s"
  by (auto simp: numeric_part_def is_digit_def)

lemma numeric_part_ParseInt:
  assumes "numeric_part s" and "ParseInt s = Some x"
  shows "0 \<le> x \<and> in_int64 x"
  using numeric_part_digits [OF assms(1)] assms(2)
  by (auto simp: ParseInt_def is_digit_def in_int64_def split: list.splits if_splits option.splits)

lemma ParseVersion_valid:
  assumes "ParseVersion s = Some v"
  shows "valid_version v"
  using assms
  by (auto simp: ParseVersion_def versionPattern_def valid_version_def
      dest: numeric_part_ParseInt
      split: option.splits prod.splits list.splits if_splits)

section \<open>Orders given by a comparison\<close>

text \<open>
  What a three-way comparison promises on the values it is meant for, and the facts its callers use.
\<close>

locale total_compare =
  fixes compare :: "'a \<Rightarrow> 'a \<Rightarrow> int"
    and comparable :: "'a \<Rightarrow> bool"
  assumes compare_range: "compare x y \<in> {- 1, 0, 1}"
    and compare_swap: "comparable x \<Longrightarrow> comparable y \<Longrightarrow> compare y x = - compare x y"
    and compare_zero: "comparable x \<Longrightarrow> comparable y \<Longrightarrow> compare x y = 0 \<longleftrightarrow> x = y"
    and compare_trans:
      "comparable x \<Longrightarrow> comparable y \<Longrightarrow> comparable z \<Longrightarrow> compare x y \<le> 0 \<Longrightarrow> compare y z \<le> 0
        \<Longrightarrow> compare x z \<le> 0"
begin

lemma compare_refl: "comparable x \<Longrightarrow> compare x x = 0"
  by (simp add: compare_zero)

lemma compare_antisym:
  "comparable x \<Longrightarrow> comparable y \<Longrightarrow> compare x y \<le> 0 \<Longrightarrow> compare y x \<le> 0 \<Longrightarrow> x = y"
  using compare_swap [of x y] compare_zero [of x y] by simp

lemma compare_linear: "comparable x \<Longrightarrow> comparable y \<Longrightarrow> compare x y \<le> 0 \<or> compare y x \<le> 0"
  using compare_swap [of x y] by auto

text \<open>The scan that keeps the larger of the best element so far and the next one.\<close>

lemma scan_step:
  assumes "comparable b" and "comparable r" and "\<forall>x\<in>S. comparable x \<and> compare x b \<le> 0"
  shows "\<forall>x\<in>insert r S. compare x (if compare r b > 0 then r else b) \<le> 0"
proof (cases "compare r b > 0")
  case True
  then have "compare b r \<le> 0" using compare_swap [of r b] assms by simp
  with True show ?thesis using assms compare_refl [of r] compare_trans [of _ b r] by auto
next
  case False
  then show ?thesis using assms by auto
qed

end

text \<open>A comparison that agrees with an injective key in a linear order is such an order.\<close>

lemma cmp_range: "cmp a b \<in> {- 1, 0, 1}"
  by (simp add: cmp_def)

locale key_compare =
  fixes compare :: "'a \<Rightarrow> 'a \<Rightarrow> int"
    and comparable :: "'a \<Rightarrow> bool"
    and key :: "'a \<Rightarrow> 'k::linorder"
  assumes range: "compare x y \<in> {- 1, 0, 1}"
    and by_key: "comparable x \<Longrightarrow> comparable y \<Longrightarrow> compare x y = cmp (key x) (key y)"
    and key_inj: "comparable x \<Longrightarrow> comparable y \<Longrightarrow> key x = key y \<Longrightarrow> x = y"

sublocale key_compare \<subseteq> total_compare compare comparable
proof unfold_locales
  show "compare x y \<in> {- 1, 0, 1}" for x y by (rule range)
  show "compare y x = - compare x y" if "comparable x" "comparable y" for x y
    using that by (auto simp: by_key cmp_def)
  show "compare x y = 0 \<longleftrightarrow> x = y" if "comparable x" "comparable y" for x y
    using that key_inj [of x y] by (auto simp: by_key cmp_def)
  show "compare x z \<le> 0"
    if "comparable x" "comparable y" "comparable z" "compare x y \<le> 0" "compare y z \<le> 0" for x y z
    using that by (auto simp: by_key cmp_def split: if_splits)
qed

section \<open>The order of versions\<close>

definition id_key :: "string \<Rightarrow> int \<times> int \<times> string" where
  "id_key a = (case Atoi a of Some x \<Rightarrow> (0, x, []) | None \<Rightarrow> (1, 0, a))"

definition version_key :: "version \<Rightarrow> int \<times> int \<times> int \<times> int \<times> (int \<times> int \<times> string) list" where
  "version_key v =
     (vMajor v, vMinor v, vPatch v,
      if vPre v = [] then (1, []) else (0, map id_key (Split (CHR ''.'') (vPre v))))"

text \<open>Numeric identifiers are written the way they are printed: without a sign or a leading zero.\<close>

definition canonical_id :: "string \<Rightarrow> bool" where
  "canonical_id a \<longleftrightarrow> (case Atoi a of Some x \<Rightarrow> a = Itoa x | None \<Rightarrow> True)"

definition canonical_version :: "version \<Rightarrow> bool" where
  "canonical_version v \<longleftrightarrow> list_all canonical_id (Split (CHR ''.'') (vPre v))"

lemma id_key_inj: "canonical_id a \<Longrightarrow> canonical_id b \<Longrightarrow> id_key a = id_key b \<Longrightarrow> a = b"
  by (auto simp: id_key_def canonical_id_def split: option.splits)

lemma map_id_key_inj:
  "list_all canonical_id as \<Longrightarrow> list_all canonical_id bs \<Longrightarrow> map id_key as = map id_key bs \<Longrightarrow> as = bs"
proof (induction as arbitrary: bs)
  case (Cons a as)
  then show ?case by (cases bs) (auto dest: id_key_inj)
qed simp

lemma cmp_refl [simp]: "cmp a a = 0"
  by (simp add: cmp_def)

lemma cmp_Cons: "cmp (x # xs) (y # ys) = (if x = y then cmp xs ys else cmp x y)"
  by (auto simp: cmp_def)

lemma cmp_Pair: "cmp (a, b) (c, d) = (if a = c then cmp b d else cmp a c)"
  by (auto simp: cmp_def)

lemma cmp_Nil: "cmp [] (y # ys) = - 1" "cmp (y # ys) [] = 1"
  by (simp_all add: cmp_def)

lemma compare_ids_step:
  assumes "canonical_id a" and "canonical_id b" and "a \<noteq> b"
  shows "compare_ids m n (a # as) (b # bs) = cmp (id_key a) (id_key b)"
  using assms by (auto simp: id_key_def canonical_id_def cmp_Pair split: option.splits) (simp_all add: cmp_def)

lemma compare_ids_key:
  assumes "list_all canonical_id as" and "list_all canonical_id bs"
    and "m = k + length as" and "n = k + length bs"
  shows "compare_ids m n as bs = cmp (map id_key as) (map id_key bs)"
  using assms
proof (induction m n as bs arbitrary: k rule: compare_ids.induct [case_names 1 left_end right_end])
  case (1 m n a as b bs)
  show ?case
  proof (cases "a = b")
    case True
    with 1(1) [of "k + 1"] 1(2-) show ?thesis by (simp add: cmp_Cons)
  next
    case False
    with 1(2,3) have "id_key a \<noteq> id_key b" using id_key_inj [of a b] by auto
    with False 1(2,3) show ?thesis using compare_ids_step [of a b m n as bs] by (simp add: cmp_Cons)
  qed
next
  case (left_end m n bs)
  then show ?case by (cases bs) (simp_all add: cmp_Nil, simp_all add: cmp_def)
next
  case (right_end m n as)
  then show ?case by (cases as) (simp_all add: cmp_Nil, simp_all add: cmp_def)
qed

lemma Compare_key:
  assumes "canonical_version v" and "canonical_version w"
  shows "Compare v w = cmp (version_key v) (version_key w)"
  using assms compare_ids_key [of "Split (CHR ''.'') (vPre v)" "Split (CHR ''.'') (vPre w)" _ 0]
  by (auto simp: Compare_def version_key_def canonical_version_def cmp_Pair Let_def) (simp_all add: cmp_def)

lemma Split_inj: "Split sep s = Split sep t \<Longrightarrow> s = t"
  by (metis Join_Split)

lemma version_key_inj:
  assumes "canonical_version v" and "canonical_version w" and "version_key v = version_key w"
  shows "v = w"
proof -
  have "vPre v = vPre w"
  proof (cases "vPre v = []")
    case False
    with assms(3) have "map id_key (Split (CHR ''.'') (vPre v)) = map id_key (Split (CHR ''.'') (vPre w))"
      by (simp add: version_key_def split: if_splits)
    with assms(1,2) show ?thesis
      unfolding canonical_version_def by (intro Split_inj [of "CHR ''.''"] map_id_key_inj)
  qed (use assms(3) in \<open>simp add: version_key_def split: if_splits\<close>)
  with assms(3) show ?thesis by (simp add: version_key_def)
qed

lemma compare_ids_range: "compare_ids m n as bs \<in> {- 1, 0, 1}"
  by (induction m n as bs rule: compare_ids.induct) (auto simp: cmp_def split: option.splits)

lemma Compare_range: "Compare v w \<in> {- 1, 0, 1}"
  using compare_ids_range by (auto simp: Compare_def Let_def cmp_def)

interpretation version_order: key_compare Compare canonical_version version_key
  by unfold_locales (rule Compare_range, rule Compare_key, assumption+, rule version_key_inj)

section \<open>Properties\<close>

text \<open>
  Only versions with three 64-bit non-negative numbers and a suffix of digits, lower-case letters
  and dots are ever parsed, and each such version is read back from its printed form and from its
  git tag; different versions have different tags.
\<close>
theorem version_round_trip:
  assumes "valid_version v" and "valid_version w"
  shows "ParseVersion (version_String v) = Some v \<and> ParseVersion (version_Tag v) = Some v
      \<and> (version_Tag v = version_Tag w \<longleftrightarrow> v = w)
      \<and> (\<forall>s u. ParseVersion s = Some u \<longrightarrow> valid_version u)"
  using versions.round_trip [OF assms(1)] version_tags.round_trip [OF assms(1)]
    version_tags.enc_eq_iff [OF assms] ParseVersion_valid by blast

definition version_rc :: version where
  "version_rc = \<lparr>vMajor = 0, vMinor = 2, vPatch = 0, vPre = ''rc.1''\<rparr>"

theorem version_round_trip_witness:
  "ParseVersion (version_String version_rc) = Some version_rc
   \<and> (version_Tag version_rc = version_Tag (version_rc\<lparr>vPre := []\<rparr>) \<longleftrightarrow> version_rc = version_rc\<lparr>vPre := []\<rparr>)
   \<and> valid_version version_rc"
proof -
  have v: "valid_version version_rc" "valid_version (version_rc\<lparr>vPre := []\<rparr>)"
    by (simp_all add: valid_version_def version_rc_def in_int64_def pre_char_def is_digit_def)
  show ?thesis
    using version_round_trip [OF v] v(1) by simp
qed

text \<open>
  \<open>Compare\<close> is a total order on versions whose numeric pre-release identifiers have no leading
  zeros: it answers -1, 0 or 1, swaps its sign with its arguments, says 0 only for equal versions, and is
  transitive; a pre-release is older than its release.
\<close>
theorem Compare_total_order:
  assumes "canonical_version u" and "canonical_version v" and "canonical_version w"
  shows "Compare u v \<in> {- 1, 0, 1} \<and> Compare v u = - Compare u v \<and> (Compare u v = 0 \<longleftrightarrow> u = v)
      \<and> (Compare u v \<le> 0 \<and> Compare v w \<le> 0 \<longrightarrow> Compare u w \<le> 0)
      \<and> (vPre u \<noteq> [] \<longrightarrow> Compare u (u\<lparr>vPre := []\<rparr>) = - 1)"
  using assms version_order.compare_range [of u v] version_order.compare_swap [of u v]
    version_order.compare_zero [of u v] version_order.compare_trans [of u v w]
  by (auto simp: Compare_def)

theorem Compare_total_order_witness:
  "Compare version_rc (version_rc\<lparr>vPre := []\<rparr>) = - 1
   \<and> (Compare version_rc (version_rc\<lparr>vPre := ''rc.10''\<rparr>) = 0 \<longleftrightarrow> version_rc = version_rc\<lparr>vPre := ''rc.10''\<rparr>)
   \<and> Compare version_rc (version_rc\<lparr>vPre := ''rc.10''\<rparr>) = - 1"
proof -
  have v: "canonical_version version_rc" "canonical_version (version_rc\<lparr>vPre := ''rc.10''\<rparr>)"
    by (simp_all add: canonical_version_def version_rc_def canonical_id_def go_eval char_of_def bit_0)
  show ?thesis
    using Compare_total_order [OF v v(1)] by (simp add: version_rc_def Compare_def go_eval cmp_def)
qed

text \<open>
  Without that restriction \<open>Compare\<close> is no order: the parser accepts pre-release identifiers with
  leading zeros, which semantic versioning forbids, and 1.0.0-01.5 then compares equal to both 1.0.0-1.3
  and 1.0.0-1.5, although the first of these is older than the second.
\<close>
theorem Compare_leading_zeros:
  "\<exists>u v w. ParseVersion ''1.0.0-01.5'' = Some u \<and> ParseVersion ''1.0.0-1.3'' = Some v
     \<and> ParseVersion ''1.0.0-1.5'' = Some w \<and> Compare u v = 0 \<and> Compare u w = 0 \<and> Compare v w = - 1"
  by (simp add: ParseVersion_def versionPattern_def numeric_part_def pre_char_def Compare_def cmp_def go_eval
      TrimPrefix_def)

end
