(* ===== verification/Release_Assets.thy ===== *)
theory Release_Assets
  imports Release Github Units
begin

text \<open>
  \<^verbatim>\<open>internal/release\<close>, \<^verbatim>\<open>verify.go\<close> and \<^verbatim>\<open>download.go\<close>: the newest release, the signed checksum
  list and verified downloads. The Ed25519 check, SHA-256, the downloads and the outcomes of file
  operations are parameters. The newest eligible release is chosen, the checksum list is read back from
  the form \<^verbatim>\<open>sha256sum\<close> writes, only signed checksums are used, and only a file with the right checksum is
  ever returned.
\<close>

section \<open>The newest release (download.go)\<close>

record info =
  iVersion :: version
  iPublished :: time

definition source_Releases :: "error + published_release list \<Rightarrow> error + info list" where
  "source_Releases answer =
     (case answer of
        Inl e \<Rightarrow> Inl e
      | Inr rels \<Rightarrow>
          Inr (List.map_filter
                 (\<lambda>r. map_option (\<lambda>v. \<lparr>iVersion = v, iPublished = relPublished r\<rparr>) (ParseVersion (relTag r)))
                 rels))"

fun latest_loop :: "bool \<Rightarrow> info option \<Rightarrow> info list \<Rightarrow> info option" where
  "latest_loop includePre best [] = best"
| "latest_loop includePre best (r # rs) =
     (if IsPre (iVersion r) \<and> \<not> includePre then latest_loop includePre best rs
      else (case best of
              None \<Rightarrow> latest_loop includePre (Some r) rs
            | Some b \<Rightarrow>
                if Compare (iVersion r) (iVersion b) > 0 then latest_loop includePre (Some r) rs
                else latest_loop includePre best rs))"

definition Latest :: "error + info list \<Rightarrow> bool \<Rightarrow> error + info" where
  "Latest answer includePre =
     (case answer of
        Inl e \<Rightarrow> Inl e
      | Inr rels \<Rightarrow>
          (case latest_loop includePre None rels of
             None \<Rightarrow> Inl (ErrorMsg ''no release is published yet'')
           | Some i \<Rightarrow> Inr i))"

definition Repo :: string where "Repo = ''klponce/proxmox-actions-runners''"

text \<open>An asset's URL; \<open>esc\<close> is \<^verbatim>\<open>url.PathEscape\<close>.\<close>

definition assetURL :: "(string \<Rightarrow> string) \<Rightarrow> string \<Rightarrow> version \<Rightarrow> string \<Rightarrow> string" where
  "assetURL esc base v asset =
     (if base = [] then ''https://github.com'' else base) @ ''/'' @ Repo @ ''/releases/download/''
     @ version_Tag v @ ''/'' @ esc asset"

text \<open>
  Opening a download: what the server answered, its status and its body with the error that ends
  reading it, if any.
\<close>

definition source_Open :: "error + (int \<times> string \<times> error option) \<Rightarrow> error + (string \<times> error option)" where
  "source_Open answer =
     (case answer of
        Inl e \<Rightarrow> Inl (wrap ''download'' e)
      | Inr (status, body) \<Rightarrow> if status \<noteq> 200 then Inl (ErrorMsg ''download'') else Inr body)"

section \<open>Signatures and checksums (verify.go)\<close>

definition VerifySignature :: "('k \<Rightarrow> string \<Rightarrow> string \<Rightarrow> bool) \<Rightarrow> string \<Rightarrow> string \<Rightarrow> 'k list \<Rightarrow> error option" where
  "VerifySignature verify sums sig keys =
     (if keys = [] then Some ErrNoTrustedKeys
      else if list_ex (\<lambda>k. verify k sums sig) keys then None
      else Some (ErrorMsg ''SHA256SUMS.sig does not verify with any trusted key''))"

definition hex_digit :: "char \<Rightarrow> bool" where
  "hex_digit c \<longleftrightarrow> is_digit c \<or> 97 \<le> (of_char c :: nat) \<and> (of_char c :: nat) \<le> 102"

definition name_char :: "char \<Rightarrow> bool" where
  "name_char c \<longleftrightarrow>
     is_digit c \<or> (65 \<le> (of_char c :: nat) \<and> (of_char c :: nat) \<le> 90)
     \<or> (97 \<le> (of_char c :: nat) \<and> (of_char c :: nat) \<le> 122)
     \<or> c = CHR ''.'' \<or> c = CHR ''_'' \<or> c = CHR ''-''"

text \<open>
  A checksum is kept as its 64 lower-case hex digits, the form in which it is read and printed; the
  code keeps the 32 bytes they stand for.
\<close>

definition sumLine :: "string \<Rightarrow> (string \<times> string) option" where
  "sumLine l =
     (let h = take 64 l; r = drop 64 l in
      if length h = 64 \<and> list_all hex_digit h \<and> length r > 2 \<and> r ! 0 = CHR '' ''
         \<and> (r ! 1 = CHR '' '' \<or> r ! 1 = CHR ''*'') \<and> list_all name_char (drop 2 r)
      then Some (h, drop 2 r) else None)"

text \<open>
  \<^verbatim>\<open>bufio.Scanner\<close> with \<^verbatim>\<open>ScanLines\<close>: the lines without their newline, an error at a line that does
  not fit its buffer of 64 KiB, and each line without one trailing carriage return.
\<close>

definition newline :: char where "newline = char_of (10 :: nat)"
definition return_char :: char where "return_char = char_of (13 :: nat)"

definition drop_cr :: "string \<Rightarrow> string" where
  "drop_cr l = (if l \<noteq> [] \<and> last l = return_char then butlast l else l)"

definition scan_lines :: "string \<Rightarrow> string list" where
  "scan_lines data =
     (let ls = Split newline data in if last ls = [] then butlast ls else ls)"

definition max_token :: nat where "max_token = 65536"

fun sums_loop :: "string list \<Rightarrow> (string \<rightharpoonup> string) \<Rightarrow> error + (string \<rightharpoonup> string)" where
  "sums_loop [] m = Inr m"
| "sums_loop (l # ls) m =
     (if length l \<ge> max_token then Inl (ErrorMsg ''SHA256SUMS: token too long'')
      else if drop_cr l = [] then sums_loop ls m
      else (case sumLine (drop_cr l) of
              None \<Rightarrow> Inl (ErrorMsg ''SHA256SUMS: not a checksum line'')
            | Some (h, name) \<Rightarrow> sums_loop ls (m(name \<mapsto> h))))"

definition ParseSums :: "string \<Rightarrow> error + (string \<rightharpoonup> string)" where
  "ParseSums data =
     (case sums_loop (scan_lines data) Map.empty of
        Inl e \<Rightarrow> Inl e
      | Inr m \<Rightarrow> if m = Map.empty then Inl (ErrorMsg ''SHA256SUMS is empty'') else Inr m)"

section \<open>Verified assets (download.go)\<close>

text \<open>
  Opening an asset: its content, and the error that ended reading it, if any.
\<close>

type_synonym source = "version \<Rightarrow> string \<Rightarrow> error + (string \<times> error option)"

record assets =
  aVersion :: version
  aSums :: "string \<rightharpoonup> string"
  aDir :: string
  aSource :: "source option"

definition readAll :: "source \<Rightarrow> version \<Rightarrow> string \<Rightarrow> error + string" where
  "readAll src v asset =
     (case src v asset of
        Inl e \<Rightarrow> Inl e
      | Inr (data, None) \<Rightarrow> Inr (take 1048576 data)
      | Inr (data, Some e) \<Rightarrow>
          if length data \<ge> 1048576 then Inr (take 1048576 data) else Inl (wrap ''download'' e))"

definition Fetch ::
  "('k \<Rightarrow> string \<Rightarrow> string \<Rightarrow> bool) \<Rightarrow> source \<Rightarrow> version \<Rightarrow> string \<Rightarrow> 'k list \<Rightarrow> error + assets" where
  "Fetch verify src v dir keys =
     (case readAll src v ''SHA256SUMS'' of
        Inl e \<Rightarrow> Inl e
      | Inr sums \<Rightarrow>
          (case readAll src v ''SHA256SUMS.sig'' of
             Inl e \<Rightarrow> Inl (wrap ''a release without a signature cannot be verified'' e)
           | Inr sig \<Rightarrow>
               (case VerifySignature verify sums sig keys of
                  Some e \<Rightarrow> Inl (wrap ''release'' e)
                | None \<Rightarrow>
                    (case ParseSums sums of
                       Inl e \<Rightarrow> Inl (wrap ''release'' e)
                     | Inr parsed \<Rightarrow>
                         Inr \<lparr>aVersion = v, aSums = parsed, aDir = dir, aSource = Some src\<rparr>))))"

definition Local :: "error + string \<Rightarrow> string \<Rightarrow> version \<Rightarrow> error + assets" where
  "Local answer dir v =
     (case answer of
        Inl e \<Rightarrow> Inl (wrap ''local assets'' e)
      | Inr data \<Rightarrow>
          (case ParseSums data of
             Inl e \<Rightarrow> Inl (wrap ''local assets'' e)
           | Inr sums \<Rightarrow> Inr \<lparr>aVersion = v, aSums = sums, aDir = dir, aSource = None\<rparr>))"

text \<open>
  The file system is a map from paths to contents; the outcomes of reading, creating, writing, closing,
  removing and renaming a file are parameters, the one of a write with what has reached the file.
\<close>

type_synonym files = "string \<rightharpoonup> string"

record file_ops =
  fo_read :: "string \<Rightarrow> error option"
  fo_create :: "string \<Rightarrow> error option"
  fo_write :: "string \<Rightarrow> string \<Rightarrow> (string \<times> error) option"
  fo_close :: "string \<Rightarrow> error option"
  fo_remove :: "string \<Rightarrow> error option"
  fo_rename :: "string \<Rightarrow> error option"

definition fileSum :: "(string \<Rightarrow> string) \<Rightarrow> file_ops \<Rightarrow> files \<Rightarrow> string \<Rightarrow> error + string" where
  "fileSum sha ops fs path =
     (case fs path of
        None \<Rightarrow> Inl (ErrorMsg ''no such file'')
      | Some d \<Rightarrow> (case fo_read ops path of Some e \<Rightarrow> Inl e | None \<Rightarrow> Inr (sha d)))"

text \<open>\<^verbatim>\<open>io.Copy\<close> into the new file: what is in the file, and the first error of writing or reading.\<close>

definition copy_to :: "file_ops \<Rightarrow> string \<Rightarrow> string \<times> error option \<Rightarrow> string \<times> error option" where
  "copy_to ops part r =
     (case fo_write ops part (fst r) of
        Some (written, e) \<Rightarrow> (written, Some e)
      | None \<Rightarrow> (fst r, snd r))"

definition drop_part :: "file_ops \<Rightarrow> string \<Rightarrow> files \<Rightarrow> files" where
  "drop_part ops part fs = (case fo_remove ops part of None \<Rightarrow> fs(part := None) | Some e \<Rightarrow> fs)"

definition finish_part ::
  "(string \<Rightarrow> string) \<Rightarrow> file_ops \<Rightarrow> string \<Rightarrow> string \<Rightarrow> string \<Rightarrow> string \<times> error option \<Rightarrow> files
   \<Rightarrow> (error + string) \<times> files" where
  "finish_part sha ops want path part copied fs =
     (let data = fst copied; written = fs(part \<mapsto> data) in
      case (case snd copied of None \<Rightarrow> fo_close ops part | Some e \<Rightarrow> Some e) of
        Some e \<Rightarrow> (Inl (wrap ''download'' e), drop_part ops part written)
      | None \<Rightarrow>
          if sha data \<noteq> want
          then (Inl (ErrorMsg ''does not match its checksum''), drop_part ops part written)
          else (case fo_rename ops part of
                  Some e \<Rightarrow> (Inl (wrap ''download'' e), written)
                | None \<Rightarrow> (Inr path, written(part := None, path \<mapsto> data))))"

definition Get ::
  "(string \<Rightarrow> string) \<Rightarrow> (string \<Rightarrow> string \<Rightarrow> string) \<Rightarrow> file_ops \<Rightarrow> assets \<Rightarrow> string \<Rightarrow> files
   \<Rightarrow> (error + string) \<times> files" where
  "Get sha join ops a name fs =
     (case aSums a name of
        None \<Rightarrow> (Inl (ErrorMsg ''release has no such asset''), fs)
      | Some want \<Rightarrow>
          (let path = join (aDir a) name; part = path @ ''.part'' in
           if fileSum sha ops fs path = Inr want then (Inr path, fs)
           else
             (case aSource a of
                None \<Rightarrow> (Inl (ErrorMsg ''missing or does not match its checksum''), fs)
              | Some src \<Rightarrow>
                  (case src (aVersion a) name of
                     Inl e \<Rightarrow> (Inl e, fs)
                   | Inr r \<Rightarrow>
                       (case fo_create ops part of
                          Some e \<Rightarrow> (Inl (wrap ''download'' e), fs)
                        | None \<Rightarrow> finish_part sha ops want path part (copy_to ops part r) fs)))))"

section \<open>The newest release\<close>

abbreviation installable :: "bool \<Rightarrow> info \<Rightarrow> bool" where
  "installable includePre r \<equiv> includePre \<or> \<not> IsPre (iVersion r)"

definition newest_in :: "info \<Rightarrow> info set \<Rightarrow> bool" where
  "newest_in i S \<longleftrightarrow> i \<in> S \<and> (\<forall>r\<in>S. Compare (iVersion r) (iVersion i) \<le> 0)"

lemma newest_in_insert:
  assumes "newest_in i (insert b S)" and "Compare (iVersion r) (iVersion b) \<le> 0"
    and "\<forall>x\<in>insert r (insert b S). canonical_version (iVersion x)"
  shows "newest_in i (insert r (insert b S))"
  using assms version_order.compare_trans [of "iVersion r" "iVersion b" "iVersion i"]
  by (auto simp: newest_in_def)

lemma latest_loop_Some:
  assumes "\<forall>r\<in>insert b (set rs). canonical_version (iVersion r)"
  shows "\<exists>i. latest_loop p (Some b) rs = Some i \<and> newest_in i (insert b (set (filter (installable p) rs)))"
  using assms
proof (induction rs arbitrary: b)
  case Nil
  then show ?case by (simp add: newest_in_def version_order.compare_refl)
next
  case (Cons r rs)
  let ?S = "set (filter (installable p) rs)"
  show ?case
  proof (cases "installable p r \<and> Compare (iVersion r) (iVersion b) > 0")
    case True
    then obtain i where "latest_loop p (Some r) rs = Some i" and "newest_in i (insert r ?S)"
      using Cons.IH [of r] Cons.prems by auto
    moreover have "Compare (iVersion b) (iVersion r) \<le> 0"
      using True Cons.prems version_order.compare_swap [of "iVersion r" "iVersion b"] by simp
    ultimately show ?thesis
      using True Cons.prems newest_in_insert [of i r ?S b] by (auto simp: insert_commute)
  next
    case False
    obtain i where i: "latest_loop p (Some b) rs = Some i" "newest_in i (insert b ?S)"
      using Cons.IH [of b] Cons.prems by auto
    with False show ?thesis
      using Cons.prems newest_in_insert [of i b ?S r] by (auto simp: insert_commute)
  qed
qed

lemma latest_loop_None:
  assumes "\<forall>r\<in>set rs. canonical_version (iVersion r)"
  shows "case latest_loop p None rs of
      None \<Rightarrow> filter (installable p) rs = []
    | Some i \<Rightarrow> newest_in i (set (filter (installable p) rs))"
  using assms
proof (induction rs)
  case (Cons r rs)
  then show ?case using latest_loop_Some [of r rs p] by (auto split: option.split)
qed simp

section \<open>The checksum list\<close>

text \<open>A line of \<^verbatim>\<open>sha256sum\<close>'s output, in text or binary mode, and a whole list of them.\<close>

definition sum_line :: "bool \<times> string \<times> string \<Rightarrow> string" where
  "sum_line e = (case e of (binary, name, h) \<Rightarrow> h @ (if binary then '' *'' else ''  '') @ name)"

definition sums_file :: "(bool \<times> string \<times> string) list \<Rightarrow> string" where
  "sums_file es = concat (map (\<lambda>e. sum_line e @ [newline]) es)"

definition sum_entry :: "bool \<times> string \<times> string \<Rightarrow> bool" where
  "sum_entry e \<longleftrightarrow>
     (case e of (binary, name, h) \<Rightarrow>
        length h = 64 \<and> list_all hex_digit h \<and> name \<noteq> [] \<and> length name < 65000 \<and> list_all name_char name)"

lemma control_chars: "newline = CHR 0x0A" "return_char = CHR 0x0D"
  by (simp_all add: newline_def return_char_def char_of_def bit_0)

lemma name_char_not_control: "name_char c \<Longrightarrow> c \<noteq> newline \<and> c \<noteq> return_char"
  by (auto simp: control_chars name_char_def is_digit_def)

lemma hex_digit_not_newline: "hex_digit c \<Longrightarrow> c \<noteq> newline"
  by (auto simp: control_chars hex_digit_def is_digit_def)

lemma newline_not_in_sum_line: "sum_entry e \<Longrightarrow> newline \<notin> set (sum_line e)"
  using name_char_not_control [of newline] hex_digit_not_newline [of newline]
  by (cases e) (auto simp: sum_entry_def sum_line_def list_all_iff control_chars)

lemma drop_cr_sum_line: "sum_entry e \<Longrightarrow> drop_cr (sum_line e) = sum_line e"
  using name_char_not_control
  by (cases e) (auto simp: sum_entry_def sum_line_def drop_cr_def list_all_iff)

lemma sumLine_sum_line: "sum_entry (m, n, h) \<Longrightarrow> sumLine (sum_line (m, n, h)) = Some (h, n)"
  by (auto simp: sum_entry_def sum_line_def sumLine_def)

lemma sum_line_length: "sum_entry e \<Longrightarrow> 0 < length (sum_line e) \<and> length (sum_line e) < max_token"
  by (cases e) (auto simp: sum_entry_def sum_line_def max_token_def)

lemma scan_lines_step: "newline \<notin> set l \<Longrightarrow> scan_lines (l @ newline # t) = l # scan_lines t"
  by (simp add: scan_lines_def Let_def Split_append_sep)

lemma scan_lines_sums_file: "list_all sum_entry es \<Longrightarrow> scan_lines (sums_file es) = map sum_line es"
proof (induction es)
  case Nil
  show ?case by (simp add: sums_file_def scan_lines_def)
next
  case (Cons e es)
  then show ?case
    using scan_lines_step [OF newline_not_in_sum_line, of e "sums_file es"] by (simp add: sums_file_def)
qed

lemma sums_loop_entries:
  "list_all sum_entry es \<Longrightarrow> sums_loop (map sum_line es) m = Inr (m ++ map_of (rev (map snd es)))"
proof (induction es arbitrary: m)
  case (Cons e es)
  obtain b n h where e: "e = (b, n, h)" by (cases e)
  then show ?case
    using Cons sum_line_length [of e] by (simp add: drop_cr_sum_line sumLine_sum_line)
qed simp

section \<open>Downloads\<close>

lemma part_not_path [simp]: "path @ ''.part'' \<noteq> path" "path \<noteq> path @ ''.part''"
  by auto

text \<open>
  What a download keeps: a returned path holds the wanted checksum, a failure leaves the file there
  alone, and nothing but it and its partial download changes.
\<close>

definition asset_kept ::
  "(string \<Rightarrow> string) \<Rightarrow> string \<Rightarrow> string option \<Rightarrow> files \<Rightarrow> (error + string) \<times> files \<Rightarrow> bool" where
  "asset_kept sha path want fs r \<longleftrightarrow>
     (case r of
        (Inr q, fs') \<Rightarrow> q = path \<and> (\<exists>data. fs' q = Some data \<and> want = Some (sha data))
      | (Inl e, fs') \<Rightarrow> fs' path = fs path)
     \<and> {p. snd r p \<noteq> fs p} \<subseteq> {path, path @ ''.part''}"

lemma asset_kept_refused: "asset_kept sha path want fs (Inl e, fs)"
  by (simp add: asset_kept_def)

lemma asset_kept_present:
  "fileSum sha ops fs path = Inr want \<Longrightarrow> asset_kept sha path (Some want) fs (Inr path, fs)"
  by (auto simp: asset_kept_def fileSum_def split: option.splits)

lemma asset_kept_dropped:
  "asset_kept sha path want fs (Inl e, drop_part ops (path @ ''.part'') (fs(path @ ''.part'' \<mapsto> d)))"
  by (auto simp: asset_kept_def drop_part_def split: option.split)

lemma asset_kept_renamed:
  "asset_kept sha path (Some (sha d)) fs (Inr path, fs(path @ ''.part'' := v, path \<mapsto> d))"
  "asset_kept sha path want fs (Inl e, fs(path @ ''.part'' := v))"
  by (auto simp: asset_kept_def)

lemma finish_part_kept:
  "asset_kept sha path (Some want) fs (finish_part sha ops want path (path @ ''.part'') copied fs)"
  using asset_kept_renamed(1) [of sha path "fst copied" fs None]
  by (auto simp: finish_part_def Let_def asset_kept_dropped asset_kept_renamed(2) split: option.split)

lemma Get_kept: "asset_kept sha (join (aDir a) name) (aSums a name) fs (Get sha join ops a name fs)"
  by (simp add: Get_def Let_def asset_kept_refused asset_kept_present finish_part_kept
      split: option.split sum.split)

section \<open>Properties\<close>

text \<open>
  When the published versions have no leading zeros in their numeric pre-release identifiers,
  \<open>Latest\<close> returns a published release that no other eligible one is newer than, pre-releases being
  eligible only when asked for, and an error exactly when none is eligible.
\<close>
theorem Latest_newest:
  assumes "\<forall>r\<in>set rels. canonical_version (iVersion r)"
  shows "case Latest (Inr rels) includePre of
      Inl e \<Rightarrow> filter (installable includePre) rels = []
    | Inr i \<Rightarrow> newest_in i (set (filter (installable includePre) rels))"
  using latest_loop_None [OF assms, of includePre] by (simp add: Latest_def split: option.splits)

theorem Latest_newest_witness:
  "Latest (Inr [\<lparr>iVersion = version_rc, iPublished = 7\<rparr>]) False = Inl (ErrorMsg ''no release is published yet'')
   \<and> (case Latest (Inr [\<lparr>iVersion = version_rc, iPublished = 7\<rparr>]) True of
        Inl e \<Rightarrow> False | Inr i \<Rightarrow> i \<in> {\<lparr>iVersion = version_rc, iPublished = 7\<rparr>})"
proof -
  have "canonical_version version_rc"
    by (simp add: canonical_version_def version_rc_def canonical_id_def go_eval char_of_def bit_0)
  then show ?thesis
    using Latest_newest [of "[\<lparr>iVersion = version_rc, iPublished = 7\<rparr>]" True]
    by (simp add: Latest_def version_rc_def IsPre_def newest_in_def)
qed

text \<open>
  A checksum list in the form \<^verbatim>\<open>sha256sum\<close> writes, in text or binary mode, is read back as the map
  from each name to its checksum, the last one when a name appears twice.
\<close>
theorem ParseSums_round_trip:
  assumes "list_all sum_entry es" and "es \<noteq> []"
  shows "ParseSums (sums_file es) = Inr (map_of (rev (map snd es)))"
  using assms sums_loop_entries [OF assms(1), of Map.empty]
  by (simp add: ParseSums_def scan_lines_sums_file map_of_eq_empty_iff)

definition zero_sum :: string where "zero_sum = replicate 64 (CHR ''0'')"

theorem ParseSums_round_trip_witness:
  "ParseSums (sums_file [(False, ''parcon'', zero_sum), (True, ''gateway.img'', zero_sum)])
     = Inr [''gateway.img'' \<mapsto> zero_sum, ''parcon'' \<mapsto> zero_sum]"
  using ParseSums_round_trip [of "[(False, ''parcon'', zero_sum), (True, ''gateway.img'', zero_sum)]"]
  by (simp add: sum_entry_def zero_sum_def hex_digit_def name_char_def is_digit_def list_all_iff
      fun_upd_twist)

text \<open>
  \<open>Fetch\<close> accepts a release only when a trusted key verifies the downloaded signature over the
  downloaded checksum list, and the checksums it then uses are those of exactly that list; with no
  trusted key it accepts nothing.
\<close>
theorem Fetch_verified:
  assumes "Fetch verify src v dir keys = Inr a"
  shows "\<exists>sums sig k. readAll src v ''SHA256SUMS'' = Inr sums \<and> readAll src v ''SHA256SUMS.sig'' = Inr sig
      \<and> k \<in> set keys \<and> verify k sums sig \<and> ParseSums sums = Inr (aSums a)
      \<and> aVersion a = v \<and> aDir a = dir \<and> aSource a = Some src"
proof -
  obtain sums sig where s: "readAll src v ''SHA256SUMS'' = Inr sums"
      "readAll src v ''SHA256SUMS.sig'' = Inr sig" "VerifySignature verify sums sig keys = None"
      "ParseSums sums = Inr (aSums a)" "aVersion a = v" "aDir a = dir" "aSource a = Some src"
    using assms by (auto simp: Fetch_def split: sum.splits option.splits)
  moreover obtain k where "k \<in> set keys" and "verify k sums sig"
    using s(3) by (auto simp: VerifySignature_def list_ex_iff split: if_splits)
  ultimately show ?thesis by blast
qed

definition signed_source :: source where
  "signed_source v asset =
     (if asset = ''SHA256SUMS'' then Inr (sums_file [(False, ''parcon'', zero_sum)], None)
      else if asset = ''SHA256SUMS.sig'' then Inr (''sig'', None) else Inl (ErrorMsg ''404''))"

theorem Fetch_verified_witness:
  "\<exists>a. Fetch (\<lambda>k sums sig. sig = ''sig'') signed_source version_rc ''/assets'' [()] = Inr a
     \<and> aSums a = [''parcon'' \<mapsto> zero_sum]
     \<and> (\<exists>sums sig. readAll signed_source version_rc ''SHA256SUMS'' = Inr sums \<and> sig = ''sig'')"
proof -
  have sums: "sums_file [(False, ''parcon'', zero_sum)] = zero_sum @ ''  parcon'' @ [newline]"
    by (simp add: sums_file_def sum_line_def)
  have parsed: "ParseSums (sums_file [(False, ''parcon'', zero_sum)]) = Inr [''parcon'' \<mapsto> zero_sum]"
    using sums_loop_entries [of "[(False, ''parcon'', zero_sum)]" Map.empty]
      scan_lines_sums_file [of "[(False, ''parcon'', zero_sum)]"]
    by (simp add: ParseSums_def sum_entry_def zero_sum_def hex_digit_def name_char_def is_digit_def list_all_iff
        fun_eq_iff)
  have rd: "readAll signed_source version_rc ''SHA256SUMS'' = Inr (sums_file [(False, ''parcon'', zero_sum)])"
    by (simp add: readAll_def signed_source_def sums [unfolded zero_sum_def] zero_sum_def)
  have "Fetch (\<lambda>k sums sig. sig = ''sig'') signed_source version_rc ''/assets'' [()]
      = Inr \<lparr>aVersion = version_rc, aSums = [''parcon'' \<mapsto> zero_sum], aDir = ''/assets'', aSource = Some signed_source\<rparr>"
    using rd parsed by (simp add: Fetch_def VerifySignature_def readAll_def signed_source_def)
  then show ?thesis using Fetch_verified by fastforce
qed

text \<open>
  \<open>Get\<close> returns a path only when the file there has the checksum the list gives for the asset,
  whatever the source sent and whichever file operation failed; when it fails, the file at that path
  is as it was; and no file but this one and its partial download ever changes.
\<close>
theorem Get_verified:
  "(case Get sha join ops a name fs of
      (Inr path, fs') \<Rightarrow>
        path = join (aDir a) name \<and> (\<exists>data. fs' path = Some data \<and> aSums a name = Some (sha data))
    | (Inl e, fs') \<Rightarrow> fs' (join (aDir a) name) = fs (join (aDir a) name))
   \<and> {p. snd (Get sha join ops a name fs) p \<noteq> fs p} \<subseteq> {join (aDir a) name, join (aDir a) name @ ''.part''}"
  using Get_kept [of sha join a name fs ops] unfolding asset_kept_def .

end
