(* ===== verification/Netip.thy ===== *)
theory Netip
  imports Release "HOL-Library.Word"
begin

unbundle bit_operations_syntax

text \<open>
  Go's \<^verbatim>\<open>net/netip\<close> as far as \<^verbatim>\<open>internal/settings\<close> and \<^verbatim>\<open>internal/hostsys\<close> use it: IPv4 addresses and
  prefixes. The program refuses every address that is not IPv4, so parsing answers \<open>None\<close> both for a
  text that is no address and for an IPv6 address. An address is its 32 bits. Addresses and prefixes are
  read back from their printed form, and masking keeps exactly the network part.
\<close>

section \<open>Addresses\<close>

type_synonym addr = "32 word"

definition octet :: "nat \<Rightarrow> addr \<Rightarrow> nat" where
  "octet i a = unat a div 256 ^ i mod 256"

definition AddrFrom4 :: "nat \<Rightarrow> nat \<Rightarrow> nat \<Rightarrow> nat \<Rightarrow> addr" where
  "AddrFrom4 a b c d = of_nat (((a * 256 + b) * 256 + c) * 256 + d)"

definition addr_String :: "addr \<Rightarrow> string" where
  "addr_String a =
     Itoa (int (octet 3 a)) @ ''.'' @ Itoa (int (octet 2 a)) @ ''.'' @ Itoa (int (octet 1 a)) @ ''.''
     @ Itoa (int (octet 0 a))"

definition parse_octet :: "string \<Rightarrow> nat option" where
  "parse_octet s =
     (if numeric_part s then
        (case Atoi s of Some n \<Rightarrow> if n \<le> 255 then Some (nat n) else None | None \<Rightarrow> None)
      else None)"

definition ParseAddr4 :: "string \<Rightarrow> addr option" where
  "ParseAddr4 s =
     (case Split (CHR ''.'') s of
        [a, b, c, d] \<Rightarrow>
          (case (parse_octet a, parse_octet b, parse_octet c, parse_octet d) of
             (Some w, Some x, Some y, Some z) \<Rightarrow> Some (AddrFrom4 w x y z)
           | _ \<Rightarrow> None)
      | _ \<Rightarrow> None)"

section \<open>Prefixes\<close>

record prefix4 =
  pAddr :: addr
  pBits :: nat

definition prefix_bits :: "string \<Rightarrow> nat option" where
  "prefix_bits s =
     (if length s > 1 \<and> \<not> (49 \<le> (of_char (hd s) :: nat) \<and> (of_char (hd s) :: nat) \<le> 57) then None
      else (case Atoi s of Some n \<Rightarrow> if 0 \<le> n \<and> n \<le> 32 then Some (nat n) else None | None \<Rightarrow> None))"

text \<open>The prefix length follows the last slash; no IPv4 address has one.\<close>

definition ParsePrefix4 :: "string \<Rightarrow> prefix4 option" where
  "ParsePrefix4 s =
     (case cut_at (CHR ''/'') s of
        (a, Some b) \<Rightarrow>
          (case (ParseAddr4 a, prefix_bits b) of
             (Some x, Some n) \<Rightarrow> Some \<lparr>pAddr = x, pBits = n\<rparr>
           | _ \<Rightarrow> None)
      | _ \<Rightarrow> None)"

definition prefix_String :: "prefix4 \<Rightarrow> string" where
  "prefix_String p = addr_String (pAddr p) @ ''/'' @ Itoa (int (pBits p))"

definition Masked :: "prefix4 \<Rightarrow> prefix4" where
  "Masked p = p\<lparr>pAddr := pAddr p AND NOT (mask (32 - pBits p))\<rparr>"

section \<open>Round trips\<close>

lemma octet_less: "octet i a < 256"
  by (simp add: octet_def)

lemma base256:
  fixes n :: nat
  shows "((n div 256 ^ 3 * 256 + n div 256 ^ 2 mod 256) * 256 + n div 256 mod 256) * 256 + n mod 256 = n"
proof -
  define q1 where "q1 = n div 256"
  define q2 where "q2 = q1 div 256"
  have q: "n div 256 ^ 2 = q2" "n div 256 ^ 3 = q2 div 256"
    using div_mult2_eq [of n 256 256] div_mult2_eq [of n 65536 256] by (simp_all add: q1_def q2_def)
  have "q2 div 256 * 256 + q2 mod 256 = q2" "q2 * 256 + q1 mod 256 = q1" "q1 * 256 + n mod 256 = n"
    by (simp_all add: q2_def q1_def)
  then show ?thesis unfolding q q1_def [symmetric] by (simp only:)
qed

lemma AddrFrom4_octets: "AddrFrom4 (octet 3 a) (octet 2 a) (octet 1 a) (octet 0 a) = a"
proof -
  have "unat a < 256 * 256 ^ 3" using unsigned_less [of a, where ?'a = nat] by simp
  then have "unat a div 256 ^ 3 mod 256 = unat a div 256 ^ 3" by (simp add: less_mult_imp_div_less)
  then have "((octet 3 a * 256 + octet 2 a) * 256 + octet 1 a) * 256 + octet 0 a = unat a"
    using base256 [of "unat a"] by (simp add: octet_def)
  then show ?thesis by (simp add: AddrFrom4_def)
qed

lemma parse_octet_Itoa: "n < 256 \<Longrightarrow> parse_octet (Itoa (int n)) = Some n"
  by (simp add: parse_octet_def Itoa_numeric_part ParseInt_Itoa in_int64_def)

lemma ParseAddr4_String: "ParseAddr4 (addr_String a) = Some a"
  using octet_less [of _ a] AddrFrom4_octets [of a]
  by (simp add: ParseAddr4_def addr_String_def Split_append_sep Split_no_sep digits_no_char parse_octet_Itoa)

lemma addr_String_chars: "c \<in> set (addr_String a) \<Longrightarrow> is_digit c \<or> c = CHR ''.''"
  using Itoa_is_digit [of "int (octet _ a)"] by (auto simp: addr_String_def list_all_iff)

lemma prefix_bits_Itoa: "n \<le> 32 \<Longrightarrow> prefix_bits (Itoa (int n)) = Some n"
proof -
  assume n: "n \<le> 32"
  have num: "numeric_part (Itoa (int n))" by (rule Itoa_numeric_part) simp
  have "1 < length (Itoa (int n)) \<longrightarrow> hd (Itoa (int n)) \<noteq> CHR ''0'' \<and> is_digit (hd (Itoa (int n)))"
    using num by (cases "Itoa (int n)") (auto simp: numeric_part_def)
  moreover have "(of_char c :: nat) = 48 \<longleftrightarrow> c = CHR ''0''" for c
    using of_char_eq_iff [of c "CHR ''0''", where ?'a = nat] by simp
  ultimately have "1 < length (Itoa (int n)) \<longrightarrow>
      49 \<le> (of_char (hd (Itoa (int n))) :: nat) \<and> (of_char (hd (Itoa (int n))) :: nat) \<le> 57"
    by (metis is_digit_def le_antisym not_less_eq_eq numeral_eq_Suc pred_numeral_simps)
  then show ?thesis using n by (simp add: prefix_bits_def ParseInt_Itoa in_int64_def)
qed

lemma ParsePrefix4_String:
  assumes "pBits p \<le> 32"
  shows "ParsePrefix4 (prefix_String p) = Some p"
proof -
  have "CHR ''/'' \<notin> set (addr_String (pAddr p))"
    using addr_String_chars [of "CHR ''/''" "pAddr p"] by (auto simp: is_digit_def)
  then show ?thesis
    using assms cut_at_found [of "CHR ''/''" "addr_String (pAddr p)" "Itoa (int (pBits p))"]
    by (simp add: ParsePrefix4_def prefix_String_def ParseAddr4_String prefix_bits_Itoa)
qed

interpretation addrs: codec addr_String ParseAddr4 "\<lambda>_. True"
  by unfold_locales (rule ParseAddr4_String)

interpretation prefixes: codec prefix_String ParsePrefix4 "\<lambda>p. pBits p \<le> 32"
  by unfold_locales (rule ParsePrefix4_String)

lemma ParsePrefix4_bits: "ParsePrefix4 s = Some p \<Longrightarrow> pBits p \<le> 32"
  by (auto simp: ParsePrefix4_def prefix_bits_def split: prod.splits option.splits if_splits)

section \<open>Networks\<close>

lemma Masked_iff: "Masked p = p \<longleftrightarrow> take_bit (32 - pBits p) (pAddr p) = 0"
proof -
  have "a AND NOT (mask n) = a \<longleftrightarrow> take_bit n a = 0" for a :: addr and n
    by (auto simp: bit_eq_iff bit_simps)
  then show ?thesis by (cases p) (simp add: Masked_def)
qed

lemma Masked_idem [simp]: "Masked (Masked p) = Masked p"
  by (simp add: Masked_def and.assoc)

lemma network_addr: "Masked p = p \<longleftrightarrow> 2 ^ (32 - pBits p) dvd unat (pAddr p)"
proof -
  have "take_bit n a = 0 \<longleftrightarrow> take_bit n (unat a) = 0" for a :: addr and n
    by (metis unsigned_take_bit_eq unsigned_0 unsigned_word_eqI)
  then show ?thesis by (simp add: Masked_iff take_bit_eq_0_iff)
qed

declare octet_def [go_eval] AddrFrom4_def [go_eval] numeric_part_def [go_eval] parse_octet_def [go_eval]
  ParseAddr4_def [go_eval] prefix_bits_def [go_eval] ParsePrefix4_def [go_eval]

end
