(* ===== verification/Settings.thy ===== *)
theory Settings
  imports Config Units Netip Errors
begin

text \<open>
  \<^verbatim>\<open>internal/settings\<close>: the host's settings and their validation (\<^verbatim>\<open>settings.go\<close>), the keys users
  change (\<^verbatim>\<open>keys.go\<close>) and the controller's configuration rendered from them (\<^verbatim>\<open>render.go\<close>), with the
  parsing of that configuration (\<^verbatim>\<open>config.Parse\<close>). The YAML package is a parameter. Every key satisfies
  the contract \<open>setting_key\<close>; validated settings render to a configuration the controller accepts.
\<close>

section \<open>The settings\<close>

definition settings_Version :: int where "settings_Version = 1"
definition DHCP :: string where "DHCP = ''dhcp''"

definition DefaultScaleSetName :: string where "DefaultScaleSetName = ''proxmox-ubuntu-26.04''"
definition DefaultMinRunners :: int where "DefaultMinRunners = 0"
definition DefaultMaxRunners :: int where "DefaultMaxRunners = 1"
definition DefaultStorage :: string where "DefaultStorage = ''local-lvm''"
definition DefaultBridge :: string where "DefaultBridge = ''vmbr0''"
definition DefaultWorkerSubnet :: string where "DefaultWorkerSubnet = ''10.251.0.0/22''"
definition DefaultVMIDStart :: int where "DefaultVMIDStart = 10000"
definition DefaultVMIDEnd :: int where "DefaultVMIDEnd = 10099"
definition DefaultPool :: string where "DefaultPool = ''par-runners''"
definition DefaultVNet :: string where "DefaultVNet = ''parnet''"
definition DefaultTokenID :: string where "DefaultTokenID = ''par@pve!controller''"

definition config_Dir :: string where "config_Dir = ''/etc/proxmox-actions-runners''"
definition config_TokenSecretFile :: string where "config_TokenSecretFile = config_Dir @ ''/pve-token''"
definition config_AppKeyFile :: string where "config_AppKeyFile = config_Dir @ ''/github-app.pem''"
definition config_CACertFile :: string where "config_CACertFile = config_Dir @ ''/pve-ca.pem''"

lemmas install_defaults = DefaultScaleSetName_def DefaultMinRunners_def DefaultMaxRunners_def
  DefaultStorage_def DefaultBridge_def DefaultWorkerSubnet_def DefaultVMIDStart_def DefaultVMIDEnd_def
  DefaultPool_def DefaultVNet_def DefaultTokenID_def config_Dir_def config_TokenSecretFile_def
  config_AppKeyFile_def config_CACertFile_def settings_Version_def DHCP_def

record network =
  nBridge :: string
  nVLAN :: int
  nPVEAddress :: string
  nGatewayIP :: string
  nControllerIP :: string
  nLANGateway :: string
  nWorkerSubnet :: string

record set_proxmox =
  spStorage :: string
  spVMIDRange :: vmid_range

record set_app =
  saClientID :: string
  saInstallationID :: int
  saSlug :: string

record set_github =
  sgConfigURL :: string
  sgApp :: set_app

record set_scale_set =
  sName :: string
  sLabels :: "string list"
  sRunnerGroup :: string
  sMinRunners :: int
  sMaxRunners :: int
  sMaxLifetime :: duration

record settings =
  stVersion :: int
  stNetwork :: network
  stProxmox :: set_proxmox
  stGitHub :: set_github
  stScaleSet :: set_scale_set
  stWorker :: worker_hw

definition Default :: settings where
  "Default =
     \<lparr>stVersion = settings_Version,
      stNetwork = \<lparr>nBridge = DefaultBridge, nVLAN = 0, nPVEAddress = [], nGatewayIP = DHCP,
                   nControllerIP = DHCP, nLANGateway = [], nWorkerSubnet = DefaultWorkerSubnet\<rparr>,
      stProxmox = \<lparr>spStorage = DefaultStorage,
                   spVMIDRange = \<lparr>RangeStart = DefaultVMIDStart, RangeEnd = DefaultVMIDEnd\<rparr>\<rparr>,
      stGitHub = \<lparr>sgConfigURL = [], sgApp = \<lparr>saClientID = [], saInstallationID = 0, saSlug = []\<rparr>\<rparr>,
      stScaleSet = \<lparr>sName = DefaultScaleSetName, sLabels = [], sRunnerGroup = DefaultRunnerGroup,
                    sMinRunners = DefaultMinRunners, sMaxRunners = DefaultMaxRunners, sMaxLifetime = 0\<rparr>,
      stWorker = \<lparr>Cores = 0, MemoryMiB = 0, FreeDiskGiB = 0\<rparr>\<rparr>"

section \<open>Validation\<close>

definition alnum :: "char \<Rightarrow> bool" where
  "alnum c \<longleftrightarrow> is_alpha c \<or> is_digit c"

definition label_char :: "char \<Rightarrow> bool" where
  "label_char c \<longleftrightarrow> alnum c \<or> c = CHR ''.'' \<or> c = CHR ''_'' \<or> c = CHR ''-''"

definition idPattern :: "string \<Rightarrow> bool" where
  "idPattern s \<longleftrightarrow> s \<noteq> [] \<and> is_alpha (hd s) \<and> list_all label_char s"

definition labelPattern :: "string \<Rightarrow> bool" where
  "labelPattern s \<longleftrightarrow> s \<noteq> [] \<and> list_all label_char s"

definition runnerGroupPattern :: "string \<Rightarrow> bool" where
  "runnerGroupPattern s \<longleftrightarrow> s \<noteq> [] \<and> list_all (\<lambda>c. label_char c \<or> c = CHR '' '') s"

definition owner_char :: "char \<Rightarrow> bool" where
  "owner_char c \<longleftrightarrow> alnum c \<or> c = CHR ''-''"

definition githubURLPattern :: "string \<Rightarrow> bool" where
  "githubURLPattern s \<longleftrightarrow>
     (case CutPrefix s ''https://github.com/'' of
        None \<Rightarrow> False
      | Some r \<Rightarrow>
          (case cut_at (CHR ''/'') r of (owner, repo) \<Rightarrow>
             owner \<noteq> [] \<and> list_all owner_char owner
             \<and> (case repo of None \<Rightarrow> True | Some p \<Rightarrow> p \<noteq> [] \<and> list_all label_char p)))"

definition slug_char :: "char \<Rightarrow> bool" where
  "slug_char c \<longleftrightarrow> name_first c \<or> c = CHR ''-''"

definition slugPattern :: "string \<Rightarrow> bool" where
  "slugPattern s \<longleftrightarrow> s \<noteq> [] \<and> name_first (hd s) \<and> list_all slug_char s"

datatype setting_problem =
    NotBridgeName string
  | BadVLAN int
  | NotIPv4 string
  | NotDHCPOrPrefix string
  | NeedsLANRouter
  | NotSubnet string
  | NotNetworkAddress string prefix4
  | NotStorageID string
  | VMIDsOutOfRange
  | RangeStartAfterEnd int int
  | RangeTooSmall int int
  | NotGitHubURL string
  | NotClientID string
  | NotSlug string
  | SettingNegative
  | NotScaleSetName string
  | NotLabel string
  | NotRunnerGroup string
  | RepositoryNeedsDefaultGroup
  | LifetimeNotAllowed duration
  | SettingAtLeast int
  | MinMoreThanMax int int

type_synonym setting_problems = "(string \<times> setting_problem) list"

definition static_problems :: "string \<Rightarrow> string \<Rightarrow> setting_problems" where
  "static_problems field value =
     (if value = DHCP then []
      else if ParsePrefix4 value = None then [(field, NotDHCPOrPrefix value)] else [])"

definition subnet_problems :: "string \<Rightarrow> setting_problems" where
  "subnet_problems value =
     (case ParsePrefix4 value of
        None \<Rightarrow> [(''network.workerSubnet'', NotSubnet value)]
      | Some sub \<Rightarrow>
          if pBits sub < 8 \<or> pBits sub > 29 \<or> Masked sub \<noteq> sub
          then [(''network.workerSubnet'', NotNetworkAddress value (Masked sub))] else [])"

definition network_problems :: "network \<Rightarrow> setting_problems" where
  "network_problems n =
     (if \<not> idPattern (nBridge n) then [(''network.bridge'', NotBridgeName (nBridge n))] else [])
     @ (if nVLAN n < 0 \<or> nVLAN n > 4094 then [(''network.vlan'', BadVLAN (nVLAN n))] else [])
     @ (if nPVEAddress n \<noteq> [] \<and> ParseAddr4 (nPVEAddress n) = None
        then [(''network.pveAddress'', NotIPv4 (nPVEAddress n))] else [])
     @ static_problems ''network.gatewayIP'' (nGatewayIP n)
     @ static_problems ''network.controllerIP'' (nControllerIP n)
     @ (if (nGatewayIP n \<noteq> DHCP \<or> nControllerIP n \<noteq> DHCP) \<and> ParseAddr4 (nLANGateway n) = None
        then [(''network.lanGateway'', NeedsLANRouter)] else [])
     @ subnet_problems (nWorkerSubnet n)"

definition range_problems :: "vmid_range \<Rightarrow> int \<Rightarrow> setting_problems" where
  "range_problems r maxRunners =
     (if RangeStart r < 100 \<or> RangeEnd r > 999999999 then [(''proxmox.vmidRange'', VMIDsOutOfRange)]
      else if RangeStart r > RangeEnd r
      then [(''proxmox.vmidRange'', RangeStartAfterEnd (RangeStart r) (RangeEnd r))]
      else if Size r < wrap64 (maxRunners + ReservedVMIDs)
      then [(''proxmox.vmidRange'', RangeTooSmall (Size r) (wrap64 (maxRunners + ReservedVMIDs)))] else [])"

definition app_problems :: "set_github \<Rightarrow> setting_problems" where
  "app_problems g =
     (if sgConfigURL g \<noteq> [] \<and> \<not> githubURLPattern (sgConfigURL g)
      then [(''github.configUrl'', NotGitHubURL (sgConfigURL g))] else [])
     @ (if saClientID (sgApp g) \<noteq> [] \<and> \<not> labelPattern (saClientID (sgApp g))
        then [(''github.app.clientId'', NotClientID (saClientID (sgApp g)))] else [])
     @ (if saSlug (sgApp g) \<noteq> [] \<and> \<not> slugPattern (saSlug (sgApp g))
        then [(''github.app.slug'', NotSlug (saSlug (sgApp g)))] else [])
     @ (if saInstallationID (sgApp g) < 0 then [(''github.app.installationId'', SettingNegative)] else [])"

text \<open>\<open>repo\<close>: the target URL is set and is a repository.\<close>

definition group_problems :: "bool \<Rightarrow> string \<Rightarrow> setting_problems" where
  "group_problems repo grp =
     (if \<not> runnerGroupPattern grp then [(''scaleSet.runnerGroup'', NotRunnerGroup grp)]
      else if repo \<and> grp \<noteq> DefaultRunnerGroup then [(''scaleSet.runnerGroup'', RepositoryNeedsDefaultGroup)]
      else [])"

definition set_problems :: "bool \<Rightarrow> set_scale_set \<Rightarrow> setting_problems" where
  "set_problems repo ss =
     (if \<not> ScaleSetNamePattern (sName ss) then [(''scaleSet.name'', NotScaleSetName (sName ss))] else [])
     @ map (\<lambda>l. (''scaleSet.labels'', NotLabel l)) (filter (\<lambda>l. \<not> labelPattern l) (sLabels ss))
     @ group_problems repo (sRunnerGroup ss)
     @ (if sMaxLifetime ss \<noteq> 0 \<and> (sMaxLifetime ss < MinMaxLifetime \<or> sMaxLifetime ss > MaxMaxLifetime)
        then [(''scaleSet.maxLifetime'', LifetimeNotAllowed (sMaxLifetime ss))] else [])
     @ (if sMinRunners ss < 0 then [(''scaleSet.minRunners'', SettingNegative)] else [])
     @ (if sMaxRunners ss < 1 then [(''scaleSet.maxRunners'', SettingAtLeast 1)]
        else if sMinRunners ss > sMaxRunners ss
        then [(''scaleSet.minRunners'', MinMoreThanMax (sMinRunners ss) (sMaxRunners ss))] else [])"

definition hw_problems :: "worker_hw \<Rightarrow> setting_problems" where
  "hw_problems w =
     (if Cores w \<noteq> 0 \<and> Cores w < MinCores then [(''worker.cores'', SettingAtLeast MinCores)] else [])
     @ (if MemoryMiB w \<noteq> 0 \<and> MemoryMiB w < MinMemoryMiB
        then [(''worker.memoryMiB'', SettingAtLeast MinMemoryMiB)] else [])
     @ (if FreeDiskGiB w < 0 then [(''worker.freeDiskGiB'', SettingNegative)] else [])"

definition github_target :: "string \<Rightarrow> github_cfg" where
  "github_target url = \<lparr>ConfigURL = url, App = \<lparr>ClientID = [], InstallationID = 0, PrivateKeyFile = []\<rparr>\<rparr>"

definition Validate :: "(string \<Rightarrow> string option) \<Rightarrow> settings \<Rightarrow> setting_problems" where
  "Validate sh s =
     (let url = sgConfigURL (stGitHub s) in
      network_problems (stNetwork s)
      @ (if \<not> idPattern (spStorage (stProxmox s))
         then [(''proxmox.storage'', NotStorageID (spStorage (stProxmox s)))] else [])
      @ range_problems (spVMIDRange (stProxmox s)) (sMaxRunners (stScaleSet s))
      @ app_problems (stGitHub s)
      @ set_problems (url \<noteq> [] \<and> IsRepository sh (github_target url)) (stScaleSet s)
      @ hw_problems (stWorker s))"

definition EffectiveMaxLifetime :: "settings \<Rightarrow> duration" where
  "EffectiveMaxLifetime s =
     (if sMaxLifetime (stScaleSet s) = 0 then DefaultMaxLifetime else sMaxLifetime (stScaleSet s))"

definition EffectiveWorker :: "settings \<Rightarrow> worker_hw" where
  "EffectiveWorker s =
     (let w = stWorker s; d = DefaultWorker in
      \<lparr>Cores = (if Cores w = 0 then Cores d else Cores w),
       MemoryMiB = (if MemoryMiB w = 0 then MemoryMiB d else MemoryMiB w),
       FreeDiskGiB = (if FreeDiskGiB w = 0 then FreeDiskGiB d else FreeDiskGiB w)\<rparr>)"

datatype settings_error =
    SettingsEmpty
  | SettingsDecode error
  | UnsupportedVersion int
  | InvalidSettings setting_problems

definition settings_Parse ::
  "(string \<Rightarrow> string option) \<Rightarrow> (string \<Rightarrow> settings yaml) \<Rightarrow> string \<Rightarrow> settings_error + settings" where
  "settings_Parse sh decode data =
     (case decode data of
        YamlEOF \<Rightarrow> Inl SettingsEmpty
      | YamlError e \<Rightarrow> Inl (SettingsDecode e)
      | YamlDoc s extra \<Rightarrow>
          if stVersion s \<noteq> settings_Version then Inl (UnsupportedVersion (stVersion s))
          else if Validate sh s \<noteq> [] then Inl (InvalidSettings (Validate sh s))
          else Inr s)"

section \<open>Keys (keys.go)\<close>

record limits =
  HostCPUs :: int
  HostMemMiB :: int

datatype reason =
    NotWholeNumber
  | MustBe int int
  | MustBeAtLeast int
  | NodeHasOnly int
  | SizeReason size_error
  | LifetimeReason lifetime_error
  | LifetimeMustBe duration duration
  | ClashReason setting_problems

type_synonym setter = "settings \<Rightarrow> string \<Rightarrow> limits \<Rightarrow> reason + settings"
type_synonym getter = "settings \<Rightarrow> string \<times> bool"

definition workerIDs :: "settings \<Rightarrow> int" where
  "workerIDs s = max (wrap64 (Size (spVMIDRange (stProxmox s)) - ReservedVMIDs)) 0"

definition runnersMax_Get :: getter where
  "runnersMax_Get s = (Itoa (sMaxRunners (stScaleSet s)), sMaxRunners (stScaleSet s) = DefaultMaxRunners)"

definition runnersMax_Set :: setter where
  "runnersMax_Set s value l =
     (case Atoi (TrimSpace value) of
        None \<Rightarrow> Inl NotWholeNumber
      | Some n \<Rightarrow>
          (let lo = max 1 (sMinRunners (stScaleSet s)); hi = workerIDs s in
           if n < lo \<or> n > hi then Inl (MustBe lo hi)
           else Inr (s\<lparr>stScaleSet := (stScaleSet s)\<lparr>sMaxRunners := n\<rparr>\<rparr>)))"

definition workerCores_Get :: getter where
  "workerCores_Get s = (Itoa (Cores (EffectiveWorker s)), Cores (EffectiveWorker s) = DefaultCores)"

definition workerCores_Set :: setter where
  "workerCores_Set s value l =
     (case Atoi (TrimSpace value) of
        None \<Rightarrow> Inl NotWholeNumber
      | Some n \<Rightarrow>
          if n < MinCores then Inl (MustBeAtLeast MinCores)
          else if HostCPUs l > 0 \<and> n > HostCPUs l then Inl (NodeHasOnly (HostCPUs l))
          else Inr (s\<lparr>stWorker := (stWorker s)\<lparr>Cores := n\<rparr>\<rparr>))"

definition workerMemory_Get :: getter where
  "workerMemory_Get s =
     (FormatMiB (MemoryMiB (EffectiveWorker s)), MemoryMiB (EffectiveWorker s) = DefaultMemoryMiB)"

definition workerMemory_Set :: setter where
  "workerMemory_Set s value l =
     (case ParseSize value of
        Inl e \<Rightarrow> Inl (SizeReason e)
      | Inr mib \<Rightarrow>
          if mib < MinMemoryMiB then Inl (MustBeAtLeast MinMemoryMiB)
          else if HostMemMiB l > 0 \<and> mib > HostMemMiB l then Inl (NodeHasOnly (HostMemMiB l))
          else Inr (s\<lparr>stWorker := (stWorker s)\<lparr>MemoryMiB := mib\<rparr>\<rparr>))"

definition workerMaxLifetime_Get :: getter where
  "workerMaxLifetime_Get s =
     (FormatLifetime (EffectiveMaxLifetime s), EffectiveMaxLifetime s = DefaultMaxLifetime)"

definition workerMaxLifetime_Set :: "(string \<Rightarrow> nat \<Rightarrow> nat) \<Rightarrow> setter" where
  "workerMaxLifetime_Set frac s value l =
     (case ParseLifetime frac value of
        Inl e \<Rightarrow> Inl (LifetimeReason e)
      | Inr d \<Rightarrow>
          if d < MinMaxLifetime \<or> d > MaxMaxLifetime then Inl (LifetimeMustBe MinMaxLifetime MaxMaxLifetime)
          else Inr (s\<lparr>stScaleSet := (stScaleSet s)\<lparr>sMaxLifetime := d\<rparr>\<rparr>))"

record key =
  kName :: string
  kGet :: getter
  kSet :: setter

definition Keys :: "(string \<Rightarrow> nat \<Rightarrow> nat) \<Rightarrow> key list" where
  "Keys frac =
     [\<lparr>kName = ''runners.max'', kGet = runnersMax_Get, kSet = runnersMax_Set\<rparr>,
      \<lparr>kName = ''worker.cores'', kGet = workerCores_Get, kSet = workerCores_Set\<rparr>,
      \<lparr>kName = ''worker.maxLifetime'', kGet = workerMaxLifetime_Get, kSet = workerMaxLifetime_Set frac\<rparr>,
      \<lparr>kName = ''worker.memory'', kGet = workerMemory_Get, kSet = workerMemory_Set\<rparr>]"

definition Lookup :: "(string \<Rightarrow> nat \<Rightarrow> nat) \<Rightarrow> string \<Rightarrow> error + key" where
  "Lookup frac name =
     (case find (\<lambda>k. kName k = name) (Keys frac) of
        Some k \<Rightarrow> Inr k
      | None \<Rightarrow> Inl (wrap (name @ '': the keys are '' @ Join (map kName (Keys frac)) '', '') ErrUnknownKey))"

datatype key_error =
    LookupError error
  | ValueError string string reason

text \<open>
  \<open>SetKey\<close> returns the error, if any, and the settings it leaves behind; \<open>store_key\<close> is the part after
  the lookup.
\<close>

definition store_key ::
  "(string \<Rightarrow> string option) \<Rightarrow> setter \<Rightarrow> settings \<Rightarrow> string \<Rightarrow> string \<Rightarrow> limits
   \<Rightarrow> key_error option \<times> settings" where
  "store_key sh f s name val l =
     (case f s val l of
        Inl r \<Rightarrow> (Some (ValueError name val r), s)
      | Inr s' \<Rightarrow>
          if Validate sh s' \<noteq> [] then (Some (ValueError name val (ClashReason (Validate sh s'))), s)
          else (None, s'))"

definition SetKey ::
  "(string \<Rightarrow> string option) \<Rightarrow> (string \<Rightarrow> nat \<Rightarrow> nat) \<Rightarrow> settings \<Rightarrow> string \<Rightarrow> string \<Rightarrow> limits
   \<Rightarrow> key_error option \<times> settings" where
  "SetKey sh frac s name val l =
     (case Lookup frac name of
        Inl e \<Rightarrow> (Some (LookupError e), s)
      | Inr k \<Rightarrow> store_key sh (kSet k) s name val l)"

record warning =
  wKeys :: "string list"
  wTotal :: int

definition About :: "warning \<Rightarrow> string \<Rightarrow> bool" where
  "About w k \<longleftrightarrow> k \<in> set (wKeys w)"

definition Warnings :: "settings \<Rightarrow> limits \<Rightarrow> warning list" where
  "Warnings s l =
     (if HostMemMiB l > 0 then
        (let tot = wrap64 (sMaxRunners (stScaleSet s) * MemoryMiB (EffectiveWorker s)) in
         if tot > HostMemMiB l then [\<lparr>wKeys = [''runners.max'', ''worker.memory''], wTotal = tot\<rparr>] else [])
      else [])"

section \<open>The controller's configuration (render.go)\<close>

datatype tls_mode = TLSNodeCA | TLSSystem | TLSPin

record tls_info =
  tiMode :: tls_mode
  tiServerName :: string
  tiFingerprint :: string

record set_env =
  enNode :: string
  enPVEAddress :: addr
  enTLS :: tls_info
  enLinkedClone :: bool

definition configHeader :: string where
  "configHeader =
     ''# Written by parcon on the Proxmox host from its settings, and rewritten whenever they change.'' @ [CHR 0x0A]
     @ ''# Change them there with `parcon config set KEY VALUE`, not here.'' @ [CHR 0x0A]"

text \<open>\<^verbatim>\<open>netip.AddrPort\<close>'s text for an IPv4 address.\<close>

definition api_url :: "addr \<Rightarrow> string" where
  "api_url a = ''https://'' @ addr_String a @ '':8006'' @ ''/api2/json''"

definition tls_config :: "tls_info \<Rightarrow> proxmox_cfg \<Rightarrow> proxmox_cfg" where
  "tls_config t p =
     (case tiMode t of
        TLSNodeCA \<Rightarrow> p\<lparr>CACertFile := config_CACertFile, TLSServerName := tiServerName t\<rparr>
      | TLSSystem \<Rightarrow> p\<lparr>TLSServerName := tiServerName t\<rparr>
      | TLSPin \<Rightarrow> p\<lparr>TLSFingerprint := tiFingerprint t\<rparr>)"

definition render :: "settings \<Rightarrow> set_env \<Rightarrow> config" where
  "render s env =
     \<lparr>cfgProxmox = tls_config (enTLS env)
        \<lparr>URL = api_url (enPVEAddress env), TokenID = DefaultTokenID, TokenSecretFile = config_TokenSecretFile,
         CACertFile = [], TLSServerName = [], TLSFingerprint = [], Node = enNode env, pxPool = DefaultPool,
         Storage = spStorage (stProxmox s), Zone = DefaultZone, VNet = DefaultVNet,
         VMIDRange = spVMIDRange (stProxmox s), LinkedClone = Some (enLinkedClone env)\<rparr>,
      cfgGitHub =
        \<lparr>ConfigURL = sgConfigURL (stGitHub s),
         App = (if saClientID (sgApp (stGitHub s)) \<noteq> []
                then \<lparr>ClientID = saClientID (sgApp (stGitHub s)),
                      InstallationID = saInstallationID (sgApp (stGitHub s)),
                      PrivateKeyFile = config_AppKeyFile\<rparr>
                else \<lparr>ClientID = [], InstallationID = 0, PrivateKeyFile = []\<rparr>)\<rparr>,
      cfgWorker = stWorker s,
      ScaleSets =
        [\<lparr>ssName = sName (stScaleSet s), Labels = sLabels (stScaleSet s),
          RunnerGroup = sRunnerGroup (stScaleSet s), MinRunners = sMinRunners (stScaleSet s),
          MaxRunners = sMaxRunners (stScaleSet s), MaxLifetime = sMaxLifetime (stScaleSet s),
          ssWorker = \<lparr>Cores = 0, MemoryMiB = 0, FreeDiskGiB = 0\<rparr>\<rparr>]\<rparr>"

text \<open>\<open>enc\<close> and \<open>decode\<close> are the YAML package.\<close>

definition ControllerConfig ::
  "(string \<Rightarrow> string option) \<Rightarrow> (config \<Rightarrow> error + string) \<Rightarrow> (string \<Rightarrow> config yaml) \<Rightarrow> settings \<Rightarrow> set_env
   \<Rightarrow> config_error + (config \<times> string)" where
  "ControllerConfig sh enc decode s env =
     (case config_Marshal enc (render s env) of
        Inl e \<Rightarrow> Inl e
      | Inr body \<Rightarrow>
          (let data = configHeader @ body in
           case config_Parse sh decode data of
             Inl e \<Rightarrow> Inl (RenderFailed e)
           | Inr parsed \<Rightarrow> Inr (parsed, data)))"

end
