(* ===== verification/Settings_Facts.thy ===== *)
theory Settings_Facts
  imports Settings
begin

text \<open>
  What \<^verbatim>\<open>internal/settings\<close> guarantees: validation accepts exactly the declaratively valid settings,
  every key keeps the contract of \<open>setting_key\<close>, setting a key is all or nothing, and valid settings
  render to a configuration the controller accepts, given distinct labels.
\<close>

section \<open>What validation accepts\<close>

definition valid_address :: "string \<Rightarrow> bool" where
  "valid_address v \<longleftrightarrow> v = DHCP \<or> ParsePrefix4 v \<noteq> None"

definition valid_network :: "network \<Rightarrow> bool" where
  "valid_network n \<longleftrightarrow>
     idPattern (nBridge n) \<and> 0 \<le> nVLAN n \<and> nVLAN n \<le> 4094
     \<and> (nPVEAddress n \<noteq> [] \<longrightarrow> ParseAddr4 (nPVEAddress n) \<noteq> None)
     \<and> valid_address (nGatewayIP n) \<and> valid_address (nControllerIP n)
     \<and> (nGatewayIP n \<noteq> DHCP \<or> nControllerIP n \<noteq> DHCP \<longrightarrow> ParseAddr4 (nLANGateway n) \<noteq> None)
     \<and> (\<exists>sub. ParsePrefix4 (nWorkerSubnet n) = Some sub \<and> 8 \<le> pBits sub \<and> pBits sub \<le> 29
          \<and> 2 ^ (32 - pBits sub) dvd unat (pAddr sub))"

definition valid_range :: "vmid_range \<Rightarrow> int \<Rightarrow> bool" where
  "valid_range r m \<longleftrightarrow>
     100 \<le> RangeStart r \<and> RangeEnd r \<le> 999999999 \<and> RangeStart r \<le> RangeEnd r
     \<and> wrap64 (m + ReservedVMIDs) \<le> Size r"

definition valid_app :: "set_github \<Rightarrow> bool" where
  "valid_app g \<longleftrightarrow>
     (sgConfigURL g \<noteq> [] \<longrightarrow> githubURLPattern (sgConfigURL g))
     \<and> (saClientID (sgApp g) \<noteq> [] \<longrightarrow> labelPattern (saClientID (sgApp g)))
     \<and> (saSlug (sgApp g) \<noteq> [] \<longrightarrow> slugPattern (saSlug (sgApp g))) \<and> 0 \<le> saInstallationID (sgApp g)"

definition valid_set :: "bool \<Rightarrow> set_scale_set \<Rightarrow> bool" where
  "valid_set repo ss \<longleftrightarrow>
     ScaleSetNamePattern (sName ss) \<and> list_all labelPattern (sLabels ss)
     \<and> runnerGroupPattern (sRunnerGroup ss) \<and> (repo \<longrightarrow> sRunnerGroup ss = DefaultRunnerGroup)
     \<and> (sMaxLifetime ss = 0 \<or> MinMaxLifetime \<le> sMaxLifetime ss \<and> sMaxLifetime ss \<le> MaxMaxLifetime)
     \<and> 0 \<le> sMinRunners ss \<and> 1 \<le> sMaxRunners ss \<and> sMinRunners ss \<le> sMaxRunners ss"

definition valid_hw :: "worker_hw \<Rightarrow> bool" where
  "valid_hw w \<longleftrightarrow>
     (Cores w = 0 \<or> MinCores \<le> Cores w) \<and> (MemoryMiB w = 0 \<or> MinMemoryMiB \<le> MemoryMiB w)
     \<and> 0 \<le> FreeDiskGiB w"

definition valid_settings :: "(string \<Rightarrow> string option) \<Rightarrow> settings \<Rightarrow> bool" where
  "valid_settings sh s \<longleftrightarrow>
     valid_network (stNetwork s) \<and> idPattern (spStorage (stProxmox s))
     \<and> valid_range (spVMIDRange (stProxmox s)) (sMaxRunners (stScaleSet s))
     \<and> valid_app (stGitHub s)
     \<and> valid_set (sgConfigURL (stGitHub s) \<noteq> [] \<and> IsRepository sh (github_target (sgConfigURL (stGitHub s))))
         (stScaleSet s)
     \<and> valid_hw (stWorker s)"

lemma static_problems_Nil_iff: "static_problems f v = [] \<longleftrightarrow> valid_address v"
  by (simp add: static_problems_def valid_address_def)

lemma subnet_problems_Nil_iff:
  "subnet_problems v = [] \<longleftrightarrow>
     (\<exists>sub. ParsePrefix4 v = Some sub \<and> 8 \<le> pBits sub \<and> pBits sub \<le> 29
        \<and> 2 ^ (32 - pBits sub) dvd unat (pAddr sub))"
  by (auto simp: subnet_problems_def network_addr not_less split: option.split)

lemma network_problems_Nil_iff: "network_problems n = [] \<longleftrightarrow> valid_network n"
  by (auto simp: network_problems_def valid_network_def static_problems_Nil_iff subnet_problems_Nil_iff)

lemma range_problems_Nil_iff: "range_problems r m = [] \<longleftrightarrow> valid_range r m"
  by (auto simp: range_problems_def valid_range_def)

lemma app_problems_Nil_iff: "app_problems g = [] \<longleftrightarrow> valid_app g"
  by (auto simp: app_problems_def valid_app_def)

lemma set_problems_Nil_iff: "set_problems repo ss = [] \<longleftrightarrow> valid_set repo ss"
  by (auto simp: set_problems_def group_problems_def valid_set_def filter_empty_conv list_all_iff)

lemma hw_problems_Nil_iff: "hw_problems w = [] \<longleftrightarrow> valid_hw w"
  by (auto simp: hw_problems_def valid_hw_def)

lemma Validate_valid: "Validate sh s = [] \<longleftrightarrow> valid_settings sh s"
  by (simp add: Validate_def valid_settings_def Let_def network_problems_Nil_iff range_problems_Nil_iff
      app_problems_Nil_iff set_problems_Nil_iff hw_problems_Nil_iff)

section \<open>The contract of a key\<close>

text \<open>
  What \<open>SetKey\<close> relies on: a key's \<open>put\<close> changes nothing but the key's own field, which \<open>hide\<close> clears,
  and the value \<open>get\<close> then prints is accepted again and changes nothing. With validation on top, setting a
  key to its printed valueue is therefore always accepted and changes nothing.
\<close>

locale setting_key =
  fixes get :: getter
    and put :: setter
    and hide :: "settings \<Rightarrow> settings"
  assumes frame: "put s val l = Inr s' \<Longrightarrow> hide s' = hide s"
    and printed: "put s val l = Inr s' \<Longrightarrow> put s' (fst (get s')) l = Inr s'"
begin

lemma store_valid:
  "store_key sh put s name val l = (None, s') \<Longrightarrow> Validate sh s' = [] \<and> hide s' = hide s"
  by (auto simp: store_key_def frame split: sum.splits if_splits)

lemma store_again:
  "store_key sh put s name val l = (None, s') \<Longrightarrow> store_key sh put s' name (fst (get s')) l = (None, s')"
  by (auto simp: store_key_def printed split: sum.splits if_splits)

end

lemma Atoi_in_int64: "Atoi s = Some n \<Longrightarrow> in_int64 n"
  by (auto simp: ParseInt_def in_int64_def split: list.splits if_splits option.splits)

lemma Atoi_printed: "Atoi s = Some n \<Longrightarrow> 0 \<le> n \<Longrightarrow> Atoi (TrimSpace (Itoa n)) = Some n"
  using Itoa_digits [of n] digit_not_space
  by (auto simp: TrimSpace_clean ParseInt_Itoa Atoi_in_int64)

definition hide_max :: "settings \<Rightarrow> settings" where
  "hide_max s = s\<lparr>stScaleSet := (stScaleSet s)\<lparr>sMaxRunners := 0\<rparr>\<rparr>"

definition hide_lifetime :: "settings \<Rightarrow> settings" where
  "hide_lifetime s = s\<lparr>stScaleSet := (stScaleSet s)\<lparr>sMaxLifetime := 0\<rparr>\<rparr>"

definition hide_cores :: "settings \<Rightarrow> settings" where
  "hide_cores s = s\<lparr>stWorker := (stWorker s)\<lparr>Cores := 0\<rparr>\<rparr>"

definition hide_memory :: "settings \<Rightarrow> settings" where
  "hide_memory s = s\<lparr>stWorker := (stWorker s)\<lparr>MemoryMiB := 0\<rparr>\<rparr>"

interpretation runners_max: setting_key runnersMax_Get runnersMax_Set hide_max
proof unfold_locales
  fix s val l s'
  assume "runnersMax_Set s val l = Inr s'"
  then obtain n where n: "Atoi (TrimSpace val) = Some n" "max 1 (sMinRunners (stScaleSet s)) \<le> n"
      "n \<le> workerIDs s" and s': "s' = s\<lparr>stScaleSet := (stScaleSet s)\<lparr>sMaxRunners := n\<rparr>\<rparr>"
    by (auto simp: runnersMax_Set_def Let_def not_less split: option.splits if_splits)
  show "hide_max s' = hide_max s" by (simp add: s' hide_max_def)
  show "runnersMax_Set s' (fst (runnersMax_Get s')) l = Inr s'"
    using n Atoi_printed [OF n(1)]
    by (auto simp: s' runnersMax_Set_def runnersMax_Get_def workerIDs_def Let_def)
qed

interpretation worker_cores: setting_key workerCores_Get workerCores_Set hide_cores
proof unfold_locales
  fix s val l s'
  assume "workerCores_Set s val l = Inr s'"
  then obtain n where n: "Atoi (TrimSpace val) = Some n" "1 \<le> n" "0 < HostCPUs l \<longrightarrow> n \<le> HostCPUs l"
      and s': "s' = s\<lparr>stWorker := (stWorker s)\<lparr>Cores := n\<rparr>\<rparr>"
    by (auto simp: workerCores_Set_def MinCores_def not_less split: option.splits if_splits)
  show "hide_cores s' = hide_cores s" by (simp add: s' hide_cores_def)
  show "workerCores_Set s' (fst (workerCores_Get s')) l = Inr s'"
    using n Atoi_printed [OF n(1)]
    by (auto simp: s' workerCores_Set_def workerCores_Get_def EffectiveWorker_def MinCores_def Let_def)
qed

interpretation worker_memory: setting_key workerMemory_Get workerMemory_Set hide_memory
proof unfold_locales
  fix s val l s'
  assume "workerMemory_Set s val l = Inr s'"
  then obtain n where n: "ParseSize val = Inr n" "1024 \<le> n" "0 < HostMemMiB l \<longrightarrow> n \<le> HostMemMiB l"
      and s': "s' = s\<lparr>stWorker := (stWorker s)\<lparr>MemoryMiB := n\<rparr>\<rparr>"
    by (auto simp: workerMemory_Set_def MinMemoryMiB_def not_less split: sum.splits if_splits)
  show "hide_memory s' = hide_memory s" by (simp add: s' hide_memory_def)
  show "workerMemory_Set s' (fst (workerMemory_Get s')) l = Inr s'"
    using n ParseSize_FormatMiB [of n] ParseSize_range [OF n(1)]
    by (auto simp: s' workerMemory_Set_def workerMemory_Get_def EffectiveWorker_def MinMemoryMiB_def Let_def)
qed

interpretation worker_lifetime: setting_key workerMaxLifetime_Get "workerMaxLifetime_Set frac" hide_lifetime
  for frac
proof unfold_locales
  fix s val l s'
  assume "workerMaxLifetime_Set frac s val l = Inr s'"
  then obtain d where d: "ParseLifetime frac val = Inr d" "MinMaxLifetime \<le> d" "d \<le> MaxMaxLifetime"
      and s': "s' = s\<lparr>stScaleSet := (stScaleSet s)\<lparr>sMaxLifetime := d\<rparr>\<rparr>"
    by (auto simp: workerMaxLifetime_Set_def not_less split: sum.splits if_splits)
  have "d mod Minute = 0"
    using d(1) by (auto simp: ParseLifetime_def Let_def split: sum.splits if_splits option.splits)
  then have "printable_lifetime d"
    using d(2,3) by (auto simp: printable_lifetime_def MinMaxLifetime_def MaxMaxLifetime_def in_int64_def
        Minute_def Hour_def Day_def)
  then have "ParseLifetime frac (FormatLifetime d) = Inr d" by (rule ParseLifetime_FormatLifetime)
  moreover have "d \<noteq> 0" using d(2) by (auto simp: MinMaxLifetime_def Minute_def)
  ultimately show "workerMaxLifetime_Set frac s' (fst (workerMaxLifetime_Get s')) l = Inr s'"
    using d by (simp add: s' workerMaxLifetime_Set_def workerMaxLifetime_Get_def EffectiveMaxLifetime_def)
  show "hide_lifetime s' = hide_lifetime s" by (simp add: s' hide_lifetime_def)
qed

section \<open>Setting a key\<close>

text \<open>The settings without the field of the named key.\<close>

definition hide_key :: "string \<Rightarrow> settings \<Rightarrow> settings" where
  "hide_key name =
     (if name = ''runners.max'' then hide_max else if name = ''worker.cores'' then hide_cores
      else if name = ''worker.maxLifetime'' then hide_lifetime else hide_memory)"

lemma Lookup_key:
  assumes "Lookup frac name = Inr k"
  shows "setting_key (kGet k) (kSet k) (hide_key name)"
proof -
  have "find (\<lambda>k. kName k = name) (Keys frac) = Some k"
    using assms by (simp add: Lookup_def split: option.splits)
  then have name: "kName k = name" and mem: "k \<in> set (Keys frac)"
    by (auto simp: find_Some_iff)
  show ?thesis
    using mem unfolding name [symmetric] Keys_def
    unfolding list.set insert_iff empty_iff
    by (elim disjE)
      (simp_all add: hide_key_def runners_max.setting_key_axioms worker_cores.setting_key_axioms
        worker_memory.setting_key_axioms worker_lifetime.setting_key_axioms)
qed

lemma SetKey_stored:
  assumes "SetKey sh frac s name val l = (None, s')"
  obtains k where "Lookup frac name = Inr k" and "store_key sh (kSet k) s name val l = (None, s')"
  using assms by (auto simp: SetKey_def split: sum.splits)

lemma SetKey_refused: "SetKey sh frac s name val l = (Some e, s') \<Longrightarrow> s' = s"
  by (auto simp: SetKey_def store_key_def split: sum.splits if_splits)

lemma SetKey_kept:
  assumes "SetKey sh frac s name val l = (None, s')"
  shows "Validate sh s' = [] \<and> hide_key name s' = hide_key name s
    \<and> (\<exists>k. Lookup frac name = Inr k \<and> SetKey sh frac s' name (fst (kGet k s')) l = (None, s'))"
proof -
  obtain k where k: "Lookup frac name = Inr k" "store_key sh (kSet k) s name val l = (None, s')"
    using SetKey_stored [OF assms] .
  note key = Lookup_key [OF k(1)]
  show ?thesis
    using setting_key.store_valid [OF key k(2)] setting_key.store_again [OF key k(2)] k(1)
    by (simp add: SetKey_def)
qed

section \<open>The rendered configuration\<close>

lemma addr_host: "plain_host (addr_String a @ '':8006'')"
proof -
  have ch: "c \<in> set (addr_String a) \<Longrightarrow> host_char c \<and> plain_byte c \<and> c \<noteq> CHR '':'' \<and> c \<noteq> CHR ''[''" for c
    using addr_String_chars [of c a]
    by (auto simp: host_char_def plain_byte_def is_ctl_def is_digit_def)
  have ne: "addr_String a \<noteq> []" by (simp add: addr_String_def)
  have "CHR '':'' \<notin> set (addr_String a)" using ch by blast
  then have cnt: "count_list (addr_String a @ '':8006'') (CHR '':'') = 1"
      and port: "dropWhile (\<lambda>c. c \<noteq> CHR '':'') (addr_String a @ '':8006'') = '':8006''"
    by (auto simp: count_list_0_iff dropWhile_append)
  have "list_all (\<lambda>c. host_char c \<and> plain_byte c) (addr_String a @ '':8006'')"
    unfolding list_all_append using ch
    by (intro conjI) (simp add: list_all_iff, simp add: host_char_def plain_byte_def is_ctl_def is_digit_def)
  moreover have "\<not> HasPrefix (addr_String a @ '':8006'') ''[''"
    using ne ch by (cases "addr_String a") auto
  ultimately show ?thesis
    using ne cnt port by (simp add: plain_host_def validOptionalPort_def is_digit_def)
qed

lemma api_path: "plain_path ''/api2/json''"
  by (simp add: plain_path_def plain_byte_def is_ctl_def)

lemma api_url_parse:
  "url_Parse sh (api_url a) =
     Some \<lparr>Scheme = ''https'', User = None, Host = addr_String a @ '':8006'', UrlPath = ''/api2/json'',
           ForceQuery = False, RawQuery = [], Fragment = []\<rparr>"
  using url_Parse_https [OF addr_host api_path, of sh a] by (simp add: api_url_def)

lemma api_url_complete: "complete_url sh (api_url a) = api_url a"
  by (simp add: complete_url_def api_url_parse)

lemma rendered_proxmox:
  assumes "idPattern (spStorage (stProxmox s))" and "valid_range (spVMIDRange (stProxmox s)) m"
    and "enNode env \<noteq> []"
  shows "valid_proxmox sh (cfgProxmox (applyDefaults sh (render s env)))"
  using assms
  by (auto simp: valid_proxmox_def applyDefaults_def render_def tls_config_def Let_def api_url_complete
      api_url_parse proxmoxAPIPath_def IsAbs_def install_defaults idPattern_def valid_range_def minVMID_def
      split: tls_mode.split)

lemma owner_char_label: "owner_char c \<Longrightarrow> label_char c"
  by (auto simp: owner_char_def label_char_def)

lemma label_char_plain: "label_char c \<Longrightarrow> plain_byte c"
  by (auto simp: label_char_def alnum_def is_alpha_def is_digit_def plain_byte_def is_ctl_def)

lemma label_char_not_slash: "label_char c \<Longrightarrow> c \<noteq> CHR ''/''"
  using label_char_plain not_plain_byte(4) by blast

lemma cut_at_None: "cut_at c s = (a, None) \<Longrightarrow> s = a \<and> c \<notin> set a"
  by (induction s arbitrary: a) (auto split: prod.splits if_splits)

lemma cut_at_Some: "cut_at c s = (a, Some b) \<Longrightarrow> s = a @ c # b \<and> c \<notin> set a"
  by (induction s arbitrary: a) (auto split: prod.splits if_splits)

text \<open>A URL the settings accept names an owner, and maybe a repository, of label bytes.\<close>

lemma githubURLPattern_parts:
  assumes "githubURLPattern url"
  obtains ps where "url = ''https://github.com/'' @ Join ps ''/''" and "length ps \<in> {1, 2}"
    and "list_all labelPattern ps"
proof -
  obtain r owner repo where r: "url = ''https://github.com/'' @ r" "cut_at (CHR ''/'') r = (owner, repo)"
      "owner \<noteq> []" "list_all owner_char owner" "repo \<noteq> None \<longrightarrow> the repo \<noteq> [] \<and> list_all label_char (the repo)"
    using assms by (auto simp: githubURLPattern_def CutPrefix_Some_iff split: option.splits prod.splits)
  have "labelPattern owner"
    using r(3,4) owner_char_label by (auto simp: labelPattern_def list_all_iff)
  with r show thesis
    using that [of "[owner]"] that [of "[owner, the repo]"] cut_at_None [of "CHR ''/''" r owner]
      cut_at_Some [of "CHR ''/''" r owner "the repo"]
    by (cases repo) (auto simp: labelPattern_def)
qed

lemma label_hd_last:
  assumes "labelPattern a"
  shows "hd a \<noteq> CHR ''/''" and "last a \<noteq> CHR ''/''" and "CHR ''/'' \<notin> set a" and "a \<noteq> []"
  using assms label_char_not_slash by (auto simp: labelPattern_def list_all_iff)

lemma trim_slashes_plain:
  assumes "s \<noteq> []" and "hd s \<noteq> CHR ''/''" and "last s \<noteq> CHR ''/''"
  shows "trim_slashes (CHR ''/'' # s) = s"
proof -
  have "dropWhile (\<lambda>c. c = CHR ''/'') (CHR ''/'' # s) = s" using assms(1,2) by (cases s) auto
  moreover have "dropWhile (\<lambda>c. c = CHR ''/'') (rev s) = rev s"
    using assms(1,3) by (cases s rule: rev_cases) auto
  ultimately show ?thesis by (simp add: trim_slashes_def)
qed

lemma Join_labels:
  assumes "length ps \<in> {1, 2}" and "list_all labelPattern ps"
  shows "Join ps ''/'' \<noteq> []" and "hd (Join ps ''/'') \<noteq> CHR ''/''" and "last (Join ps ''/'') \<noteq> CHR ''/''"
    and "Split (CHR ''/'') (Join ps ''/'') = ps"
proof -
  have ps: "ps \<noteq> []" "\<forall>x\<in>set ps. CHR ''/'' \<notin> set x"
    using assms label_hd_last(3) by (auto simp: list_all_iff)
  consider a where "ps = [a]" "labelPattern a" | a b where "ps = [a, b]" "labelPattern a" "labelPattern b"
    using assms by (cases ps; cases "tl ps") (auto simp: numeral_2_eq_2)
  then show "Join ps ''/'' \<noteq> []" "hd (Join ps ''/'') \<noteq> CHR ''/''" "last (Join ps ''/'') \<noteq> CHR ''/''"
    by (cases; simp add: label_hd_last)+
  show "Split (CHR ''/'') (Join ps ''/'') = ps" by (rule Split_Join [OF ps])
qed

lemma Join_plain:
  assumes "list_all labelPattern ps"
  shows "plain_path (CHR ''/'' # Join ps ''/'')"
  using assms label_char_plain
  by (induction ps "''/''" rule: Join.induct)
    (auto simp: plain_path_def labelPattern_def list_all_iff)

lemma github_host: "plain_host ''github.com''"
  by (simp add: plain_host_def host_char_def plain_byte_def is_ctl_def is_alpha_def validOptionalPort_def)

lemma TrimSuffix_absent: "s \<noteq> [] \<Longrightarrow> last s \<noteq> c \<Longrightarrow> TrimSuffix s [c] = s"
  by (cases s rule: rev_cases) (auto simp: TrimSuffix_def)

lemma github_url_accepted:
  assumes "githubURLPattern url"
  shows "TrimSuffix url ''/'' = url" and "ParseGitHubURL sh url \<noteq> None"
proof -
  obtain ps where ps: "url = ''https://github.com/'' @ Join ps ''/''" "length ps \<in> {1, 2}" "list_all labelPattern ps"
    using githubURLPattern_parts [OF assms] .
  note j = Join_labels [OF ps(2,3)]
  show "TrimSuffix url ''/'' = url"
    by (rule TrimSuffix_absent) (simp_all add: ps(1) j(1,3))
  have "url_Parse sh url = Some \<lparr>Scheme = ''https'', User = None, Host = ''github.com'',
      UrlPath = CHR ''/'' # Join ps ''/'', ForceQuery = False, RawQuery = [], Fragment = []\<rparr>"
    using url_Parse_https [OF github_host Join_plain [OF ps(3)], of sh] ps(1) by simp
  then show "ParseGitHubURL sh url \<noteq> None"
    using ps(2,3) trim_slashes_plain [OF j(1-3)] j(4)
    by (auto simp: ParseGitHubURL_def labelPattern_def numeral_2_eq_2 length_Suc_conv)
qed

lemma rendered_github:
  assumes "valid_app (stGitHub s)"
  shows "ConfigURL (cfgGitHub (applyDefaults sh (render s env))) = sgConfigURL (stGitHub s)"
    and "valid_github sh (cfgGitHub (applyDefaults sh (render s env)))"
proof -
  have "TrimSuffix (sgConfigURL (stGitHub s)) ''/'' = sgConfigURL (stGitHub s)"
    using assms github_url_accepted(1) by (cases "sgConfigURL (stGitHub s) = []") (auto simp: valid_app_def TrimSuffix_def)
  then show url: "ConfigURL (cfgGitHub (applyDefaults sh (render s env))) = sgConfigURL (stGitHub s)"
    by (simp add: applyDefaults_def render_def Let_def)
  then show "valid_github sh (cfgGitHub (applyDefaults sh (render s env)))"
    using assms github_url_accepted(2) [of _ sh]
    by (auto simp: valid_github_def applyDefaults_def render_def Let_def valid_app_def IsAbs_def
        config_AppKeyFile_def config_Dir_def)
qed

lemma withDefaults_valid: "valid_hw w \<Longrightarrow> valid_worker (withDefaults w DefaultWorker)"
  by (auto simp: valid_hw_def valid_worker_def withDefaults_def DefaultWorker_def default_defs limit_defs)

lemma withDefaults_unset:
  "valid_worker w \<Longrightarrow> valid_worker (withDefaults \<lparr>Cores = 0, MemoryMiB = 0, FreeDiskGiB = 0\<rparr> w)"
  by (simp add: valid_worker_def withDefaults_def)

lemma rendered_scale_set:
  assumes "valid_set repo (stScaleSet s)" and "valid_hw (stWorker s)"
  shows "list_all (valid_scale_set repo) (ScaleSets (applyDefaults sh (render s env)))"
  using assms withDefaults_unset [OF withDefaults_valid [OF assms(2)]]
  by (auto simp: valid_set_def valid_scale_set_def applyDefaults_def render_def scale_set_defaults_def Let_def
      runnerGroupPattern_def default_defs limit_defs Hour_def Minute_def)

lemma IsRepository_url: "IsRepository sh g = IsRepository sh (github_target (ConfigURL g))"
  by (simp add: IsRepository_def github_target_def)

lemma no_url_no_repository: "\<not> IsRepository sh (github_target [])"
  using url_Parse_Nil_scheme [of sh]
  by (auto simp: IsRepository_def github_target_def ParseGitHubURL_def split: option.splits)

lemma rendered_capacity:
  assumes "1 \<le> sMaxRunners (stScaleSet s)" and "valid_range (spVMIDRange (stProxmox s)) (sMaxRunners (stScaleSet s))"
  shows "wrap64 (total_max (ScaleSets (applyDefaults sh (render s env))) + ReservedVMIDs)
      \<le> Size (VMIDRange (cfgProxmox (applyDefaults sh (render s env))))"
  using assms
  by (simp add: total_max_def applyDefaults_def render_def scale_set_defaults_def Let_def tls_config_def
      valid_range_def split: tls_mode.split)

text \<open>The labels GitHub ends up with: the configured ones, or the name.\<close>

definition effective_labels :: "settings \<Rightarrow> string list" where
  "effective_labels s = (if sLabels (stScaleSet s) = [] then [sName (stScaleSet s)] else sLabels (stScaleSet s))"

lemma rendered_labels:
  assumes "ScaleSetNamePattern (sName (stScaleSet s))"
  shows "concat (map Labels (ScaleSets (applyDefaults sh (render s env)))) = effective_labels s"
  using assms
  by (auto simp: applyDefaults_def render_def scale_set_defaults_def Let_def effective_labels_def
      ScaleSetNamePattern_def)

lemma rendered_valid:
  assumes s: "valid_settings sh s" and node: "enNode env \<noteq> []"
  shows "valid_config sh (applyDefaults sh (render s env)) \<longleftrightarrow> distinct (map ToLower (effective_labels s))"
proof -
  let ?c = "applyDefaults sh (render s env)" and ?url = "sgConfigURL (stGitHub s)"
  note v = s [unfolded valid_settings_def]
  have repo: "IsRepository sh (cfgGitHub ?c) \<longleftrightarrow> ?url \<noteq> [] \<and> IsRepository sh (github_target ?url)"
    using rendered_github(1) [of s sh env] v IsRepository_url [of sh "cfgGitHub ?c"] no_url_no_repository [of sh]
    by (cases "?url = []") simp_all
  have one: "ScaleSets ?c \<noteq> []" "distinct (map ssName (ScaleSets ?c))"
    by (simp_all add: applyDefaults_def render_def Let_def)
  have hw: "valid_worker (cfgWorker ?c)"
    using v withDefaults_valid by (simp add: applyDefaults_def render_def Let_def)
  have name: "ScaleSetNamePattern (sName (stScaleSet s))" and "1 \<le> sMaxRunners (stScaleSet s)"
    using v by (auto simp: valid_set_def)
  then show ?thesis
    using v one hw rendered_proxmox [of s _ env sh] rendered_github(2) [of s sh env] node
      rendered_scale_set [of "IsRepository sh (cfgGitHub ?c)" s sh env] rendered_capacity [of s sh env] repo
    unfolding valid_config_def rendered_labels [OF name] by auto
qed

lemma ControllerConfig_parsed:
  assumes "enc (render s env) = Inr body"
    and "decode (configHeader @ body) = YamlDoc (render s env) False"
  shows "ControllerConfig sh enc decode s env =
    (let c = applyDefaults sh (render s env) in
     if valid_config sh c then Inr (c, configHeader @ body)
     else Inl (RenderFailed (ConfigInvalid (validate sh c))))"
  using assms
  by (simp add: ControllerConfig_def config_Marshal_def config_Parse_def Let_def validate_valid)

section \<open>Concrete settings\<close>

lemma Default_subnet: "ParsePrefix4 ''10.251.0.0/22'' = Some \<lparr>pAddr = AddrFrom4 10 251 0 0, pBits = 22\<rparr>"
  by (simp add: go_eval)

lemma Default_network: "Masked \<lparr>pAddr = AddrFrom4 10 251 0 0, pBits = 22\<rparr> = \<lparr>pAddr = AddrFrom4 10 251 0 0, pBits = 22\<rparr>"
  by (simp add: network_addr AddrFrom4_def unsigned_of_nat take_bit_eq_mod)

lemma Default_hosts: "1024 dvd unat (AddrFrom4 10 251 0 0)"
  using Default_network network_addr [of "\<lparr>pAddr = AddrFrom4 10 251 0 0, pBits = 22\<rparr>"] by simp

lemma Default_valid: "valid_settings sh Default"
  by (simp add: valid_settings_def Default_def install_defaults valid_network_def valid_address_def
      valid_range_def valid_app_def valid_set_def valid_hw_def Default_subnet Default_hosts idPattern_def
      label_char_def alnum_def runnerGroupPattern_def ScaleSetNamePattern_def name_first_def name_rest_def
      is_alpha_def is_digit_def Size_def wrap64_def default_defs)

definition labelled :: "string list \<Rightarrow> settings" where
  "labelled ls = Default\<lparr>stScaleSet := (stScaleSet Default)\<lparr>sLabels := ls\<rparr>\<rparr>"

lemma labelled_valid: "list_all labelPattern ls \<Longrightarrow> valid_settings sh (labelled ls)"
  using Default_valid [of sh] by (simp add: valid_settings_def valid_set_def labelled_def Default_def)

definition example_node :: set_env where
  "example_node =
     \<lparr>enNode = ''pve'', enPVEAddress = AddrFrom4 192 0 2 10,
      enTLS = \<lparr>tiMode = TLSNodeCA, tiServerName = ''pve.example'', tiFingerprint = []\<rparr>, enLinkedClone = True\<rparr>"

section \<open>Properties\<close>

text \<open>
  Validation of the host's settings reports no problem exactly when they are valid in the declarative
  sense: names of the allowed bytes, a VLAN tag in range, IPv4 addresses where addresses are needed, a worker
  subnet between /8 and /29 whose host bits are zero, a VMID range that holds the computed number of IDs, and
  limits kept.
\<close>
theorem settings_validate_iff: "Validate sh s = [] \<longleftrightarrow> valid_settings sh s"
  by (rule Validate_valid)

text \<open>
  C25. Setting a key is all or nothing: on an error the settings are unchanged; on success the new settings
  are valid, differ from the old ones at most in the key's own field, and the value the key now prints is
  accepted again and changes nothing.
\<close>
theorem SetKey_all_or_nothing:
  "case SetKey sh frac s name val l of
     (Some e, s') \<Rightarrow> s' = s
   | (None, s') \<Rightarrow>
       Validate sh s' = [] \<and> hide_key name s' = hide_key name s
       \<and> (\<exists>k. Lookup frac name = Inr k \<and> SetKey sh frac s' name (fst (kGet k s')) l = (None, s'))"
  using SetKey_refused SetKey_kept [of sh frac s name val l]
  by (cases "SetKey sh frac s name val l") (auto split: option.split)

text \<open>
  Rendering valid settings for a named node gives a configuration file that the controller parses and
  accepts, with the settings' VMID range and number of runners, exactly when no two of the effective labels
  are equal up to case. The YAML package is assumed to read back the document it wrote.
\<close>
theorem ControllerConfig_accepted:
  assumes "Validate sh s = []" and "enNode env \<noteq> []"
    and encoded: "enc (render s env) = Inr body"
    and decoded: "decode (configHeader @ body) = YamlDoc (render s env) False"
  shows "(\<exists>c. ControllerConfig sh enc decode s env = Inr (c, configHeader @ body) \<and> validate sh c = []
            \<and> VMIDRange (cfgProxmox c) = spVMIDRange (stProxmox s)
            \<and> map MaxRunners (ScaleSets c) = [sMaxRunners (stScaleSet s)])
         \<longleftrightarrow> distinct (map ToLower (effective_labels s))"
proof -
  have "VMIDRange (cfgProxmox (applyDefaults sh (render s env))) = spVMIDRange (stProxmox s)"
    by (simp add: applyDefaults_def render_def Let_def tls_config_def split: tls_mode.split)
  moreover have "map MaxRunners (ScaleSets (applyDefaults sh (render s env))) = [sMaxRunners (stScaleSet s)]"
    by (simp add: applyDefaults_def render_def Let_def scale_set_defaults_def)
  ultimately show ?thesis
    using rendered_valid [of sh s env] assms(1,2) Validate_valid
      ControllerConfig_parsed [of enc s env body decode sh, OF encoded decoded] validate_valid
    by (auto simp: Let_def)
qed

theorem ControllerConfig_accepted_witness:
  "\<exists>c. ControllerConfig (\<lambda>_. None) (\<lambda>_. Inr []) (\<lambda>_. YamlDoc (render Default example_node) False) Default example_node
         = Inr (c, configHeader) \<and> validate (\<lambda>_. None) c = []"
proof -
  have "distinct (map ToLower (effective_labels Default))"
    by (simp add: effective_labels_def Default_def)
  then show ?thesis
    using ControllerConfig_accepted [of "\<lambda>_. None" Default example_node "\<lambda>_. Inr []" "[]"
        "\<lambda>_. YamlDoc (render Default example_node) False"] Default_valid [of "\<lambda>_. None"]
    by (auto simp: Validate_valid example_node_def)
qed

text \<open>
  The host's validation does not compare labels: settings with two labels that differ only in case are
  valid on the host, and rendering the controller's configuration from them fails.
\<close>
theorem duplicate_labels_refused:
  "Validate sh (labelled [''gpu'', ''GPU'']) = []
   \<and> ControllerConfig sh (\<lambda>_. Inr []) (\<lambda>_. YamlDoc (render (labelled [''gpu'', ''GPU'']) example_node) False)
       (labelled [''gpu'', ''GPU'']) example_node
     = Inl (RenderFailed (ConfigInvalid
         (validate sh (applyDefaults sh (render (labelled [''gpu'', ''GPU'']) example_node)))))"
proof -
  let ?s = "labelled [''gpu'', ''GPU'']"
  have v: "valid_settings sh ?s"
    by (rule labelled_valid) (simp add: labelPattern_def label_char_def alnum_def is_alpha_def)
  have "\<not> distinct (map ToLower (effective_labels ?s))"
    by (simp add: effective_labels_def labelled_def ToLower_def lower_char_def char_of_def bit_0)
  then have "\<not> valid_config sh (applyDefaults sh (render ?s example_node))"
    using rendered_valid [OF v, of example_node] by (simp add: example_node_def)
  then show ?thesis
    using v ControllerConfig_parsed [of "\<lambda>_. Inr []" ?s example_node "[]" "\<lambda>_. YamlDoc (render ?s example_node) False" sh]
    by (simp add: Validate_valid)
qed

text \<open>
  The host's capacity check adds in 64 bits: settings that ask for the largest possible number of
  runners are valid although the VMID range has 100 IDs.
\<close>
theorem settings_overflow:
  "Validate sh (Default\<lparr>stScaleSet := (stScaleSet Default)\<lparr>sMaxRunners := max_int64\<rparr>\<rparr>) = []
   \<and> Size (spVMIDRange (stProxmox Default)) = 100"
  using Default_valid [of sh]
  by (simp add: Validate_valid valid_settings_def valid_set_def valid_range_def Default_def install_defaults
      max_int64_def Size_def wrap64_def ReservedVMIDs_def)

end
