(* ===== verification/Pvecli.thy ===== *)
theory Pvecli
  imports Errors
begin

text \<open>
  \<^verbatim>\<open>internal/pvecli/exec.go\<close>: host commands and the atomic file write. \<open>WriteFileAtomic\<close> is modelled
  with every file operation it makes, each of which may fail, and the file system states a reader can
  observe in between; it refines an atomic write. \<open>Host\<close> treats the write as one event on this ground.
\<close>

section \<open>Commands\<close>

record cmd =
  cmdName :: string
  cmdArgs :: "string list"

definition C_cmd :: "string \<Rightarrow> string list \<Rightarrow> cmd" where
  "C_cmd name args = \<lparr>cmdName = name, cmdArgs = args\<rparr>"

definition cmd_String :: "cmd \<Rightarrow> string" where
  "cmd_String c = Join (cmdName c # cmdArgs c) '' ''"

record exit_error =
  eeCmd :: string
  eeStderr :: string
  eeErr :: string

definition ExitError_Error :: "exit_error \<Rightarrow> string" where
  "ExitError_Error e =
     (if eeStderr e = [] then eeCmd e @ '': '' @ eeErr e
      else eeCmd e @ '': '' @ eeErr e @ '': '' @ eeStderr e)"

section \<open>Writing a file atomically\<close>

type_synonym file_system = "string \<rightharpoonup> string"

text \<open>
  The outcomes of the operations: the random part of the temporary file's name, and each error, the one of
  a failed write with what reached the file.
\<close>

record atomic_ops =
  ao_create :: "error + string"
  ao_chmod :: "error option"
  ao_write :: "(string \<times> error) option"
  ao_sync :: "error option"
  ao_close :: "error option"
  ao_rename :: "error option"
  ao_remove :: "error option"

definition base_name :: "string \<Rightarrow> string" where
  "base_name path = rev (takeWhile (\<lambda>c. c \<noteq> CHR ''/'') (rev path))"

definition dir_prefix :: "string \<Rightarrow> string" where
  "dir_prefix path = rev (dropWhile (\<lambda>c. c \<noteq> CHR ''/'') (rev path))"

definition temp_name :: "string \<Rightarrow> string \<Rightarrow> string" where
  "temp_name path random = dir_prefix path @ ''.'' @ base_name path @ ''.'' @ random"

text \<open>
  The result and the observable states, oldest first. \<open>abandon\<close> is the deferred cleanup: closing has no
  effect on the contents, and the temporary file is removed if that succeeds.
\<close>

definition abandon :: "atomic_ops \<Rightarrow> string \<Rightarrow> file_system \<Rightarrow> file_system" where
  "abandon ops tmp fs = (case ao_remove ops of None \<Rightarrow> fs(tmp := None) | Some e \<Rightarrow> fs)"

definition WriteFileAtomic ::
  "atomic_ops \<Rightarrow> string \<Rightarrow> string \<Rightarrow> file_system \<Rightarrow> error option \<times> file_system list" where
  "WriteFileAtomic ops path data fs =
     (case ao_create ops of
        Inl e \<Rightarrow> (Some (wrap ''write'' e), [fs])
      | Inr random \<Rightarrow>
          let tmp = temp_name path random;
              f1 = fs(tmp \<mapsto> []);
              f2 = fs(tmp \<mapsto> data) in
          case ao_chmod ops of
            Some e \<Rightarrow> (Some (wrap ''write'' e), [fs, f1, abandon ops tmp f1])
          | None \<Rightarrow>
              case ao_write ops of
                Some (part, e) \<Rightarrow>
                  (Some (wrap ''write'' e), [fs, f1, fs(tmp \<mapsto> part), abandon ops tmp (fs(tmp \<mapsto> part))])
              | None \<Rightarrow>
                  case ao_sync ops of
                    Some e \<Rightarrow> (Some (wrap ''write'' e), [fs, f1, f2, abandon ops tmp f2])
                  | None \<Rightarrow>
                      case ao_close ops of
                        Some e \<Rightarrow> (Some (wrap ''write'' e), [fs, f1, f2, abandon ops tmp f2])
                      | None \<Rightarrow>
                          case ao_rename ops of
                            Some e \<Rightarrow> (Some (wrap ''write'' e), [fs, f1, f2, abandon ops tmp f2])
                          | None \<Rightarrow> (None, [fs, f1, f2, f2(tmp := None, path \<mapsto> data)]))"

text \<open>The specification: the content of a path before and after an atomic write.\<close>

definition atomic_write :: "error option \<Rightarrow> string \<Rightarrow> string option \<Rightarrow> string option" where
  "atomic_write res data old = (case res of None \<Rightarrow> Some data | Some e \<Rightarrow> old)"

lemma dir_base: "dir_prefix path @ base_name path = path"
  by (simp add: dir_prefix_def base_name_def flip: rev_append)

lemma temp_name_length: "length path < length (temp_name path random)"
  using arg_cong [OF dir_base [of path], of length] by (simp add: temp_name_def)

lemma temp_name_not_path [simp]: "temp_name path random \<noteq> path" "path \<noteq> temp_name path random"
  using temp_name_length [of path random] by auto

lemma abandon_other: "p \<noteq> tmp \<Longrightarrow> abandon ops tmp fs p = fs p"
  by (simp add: abandon_def split: option.split)

lemma WriteFileAtomic_states:
  "snd (WriteFileAtomic ops path data fs) \<noteq> []
   \<and> hd (snd (WriteFileAtomic ops path data fs)) = fs
   \<and> last (snd (WriteFileAtomic ops path data fs)) path
       = atomic_write (fst (WriteFileAtomic ops path data fs)) data (fs path)
   \<and> (\<lambda>f. f path) ` set (butlast (snd (WriteFileAtomic ops path data fs))) \<subseteq> {fs path}"
  by (simp add: WriteFileAtomic_def atomic_write_def abandon_other Let_def split: sum.split option.split prod.split)

lemma WriteFileAtomic_others:
  "ao_create ops = Inr random \<Longrightarrow> f \<in> set (snd (WriteFileAtomic ops path data fs))
    \<Longrightarrow> p \<noteq> path \<Longrightarrow> p \<noteq> temp_name path random \<Longrightarrow> f p = fs p"
  by (auto simp: WriteFileAtomic_def abandon_other Let_def split: option.splits)

text \<open>
  \<open>WriteFileAtomic\<close> refines an atomic write: whichever of its operations fail, every state a reader can
  observe before the last has the old content at the path, the last one has the new content exactly when
  no error is returned and the old content otherwise, and no file but the path and the temporary file ever
  changes.
\<close>
theorem WriteFileAtomic_refines:
  "last (snd (WriteFileAtomic ops path data fs)) path
     = atomic_write (fst (WriteFileAtomic ops path data fs)) data (fs path)
   \<and> (\<lambda>f. f path) ` set (butlast (snd (WriteFileAtomic ops path data fs))) \<subseteq> {fs path}
   \<and> (case ao_create ops of
        Inl e \<Rightarrow> WriteFileAtomic ops path data fs = (Some (wrap ''write'' e), [fs])
      | Inr random \<Rightarrow>
          (\<lambda>f. f(path := None, temp_name path random := None)) ` set (snd (WriteFileAtomic ops path data fs))
            \<subseteq> {fs(path := None, temp_name path random := None)})"
proof -
  have "(\<lambda>f. f(path := None, temp_name path random := None)) ` set (snd (WriteFileAtomic ops path data fs))
      \<subseteq> {fs(path := None, temp_name path random := None)}" if "ao_create ops = Inr random" for random
    using WriteFileAtomic_others [OF that, of _ path data fs] by fastforce
  then show ?thesis
    using WriteFileAtomic_states [of ops path data fs]
    by (auto simp: WriteFileAtomic_def split: sum.split)
qed

text \<open>Every file operation works.\<close>

definition example_ops :: atomic_ops where
  "example_ops =
     \<lparr>ao_create = Inr ''1'', ao_chmod = None, ao_write = None, ao_sync = None, ao_close = None, ao_rename = None,
      ao_remove = None\<rparr>"

end
