(* ===== verification/Host.thy ===== *)
theory Host
  imports Pvecli Vmtags Settings
begin

text \<open>
  The Proxmox host as \<^verbatim>\<open>parcon\<close>'s host commands see it. What they do is a sequence of events: lines
  they log, host commands and file changes that really run (\<^verbatim>\<open>pvecli.Changer\<close>), commands in a VM
  (\<^verbatim>\<open>PVE.GuestExec\<close>), questions, the lock, waits, and reads. An operation is a function on \<open>host\<close>, which
  holds the events so far, newest first, the clock, and the node's name once it is known; it returns an
  error or a value. The answers come from a \<open>henv\<close>, functions of the events that end with the one
  answered, so a statement about every \<open>henv\<close> covers every behaviour of the host, of Proxmox, of the VMs
  and of the person at the terminal. JSON, YAML and certificates are decoded outside the model: an answer
  is the decoded value or the error. Progress lines (\<^verbatim>\<open>term.Out\<close>) are left out, and the texts of errors keep
  their fixed words.
\<close>

section \<open>Events and answers\<close>

text \<open>
  What is read: a command's output, a file, a path's status, a directory, a link, an HTTPS host, free
  space, the API's certificate, the releases, actions/runner's latest release, and a verified release or asset (\<^verbatim>\<open>release.Fetch\<close>,
  \<^verbatim>\<open>Assets.Get\<close>, modelled in \<open>Release_Assets\<close>).
\<close>

datatype query =
    QRun cmd
  | QFile string
  | QStat string
  | QDir string
  | QLink string
  | QReach string
  | QFreeGiB string
  | QTLS
  | QUser
  | QTool string
  | QCPUs
  | QLatest bool
  | QRunnerRelease
  | QFetch string
  | QAsset string

datatype hevent =
    HLog string
  | HRun cmd
  | HGuest int duration "string list" "string option"
  | HMkdir string
  | HWrite string string
  | HRemove string
  | HInstall string string
  | HExec string "string list"
  | HAsk string
  | HLock
  | HUnlock
  | HSleep duration
  | HRead query

record host =
  hTrace :: "hevent list"
  hClock :: time
  hNode :: string

record exec_result =
  ExitCode :: int
  Signal :: int
  Stdout :: string
  Stderr :: string

record acl =
  aclPath :: string
  aclType :: string
  aclUGID :: string
  aclRole :: string

record storage_status =
  stType :: string
  stContent :: string
  stActive :: int
  stEnabled :: int
  stAvail :: int

record net_addr =
  naDev :: string
  naPrefix :: prefix4

record net_route =
  nrDev :: string
  nrDst :: prefix4

record installation =
  iInstallationID :: int
  iAccount :: string
  iAccountType :: string
  iRepositories :: "string list"

record henv =
  he_error :: "hevent list \<Rightarrow> error option"
  he_confirm :: "hevent list \<Rightarrow> error + bool"
  he_int :: "hevent list \<Rightarrow> error + int"
  he_text :: "hevent list \<Rightarrow> error + string"
  he_texts :: "hevent list \<Rightarrow> error + string list"
  he_resources :: "hevent list \<Rightarrow> error + resource list"
  he_config :: "hevent list \<Rightarrow> error + (string \<rightharpoonup> string)"
  he_pools :: "hevent list \<Rightarrow> error + (string \<times> string) list"
  he_acls :: "hevent list \<Rightarrow> error + acl list"
  he_states :: "hevent list \<Rightarrow> error + (string \<times> string) list"
  he_storage :: "hevent list \<Rightarrow> error + storage_status"
  he_addrs :: "hevent list \<Rightarrow> error + (string \<times> (string \<times> nat) list) list"
  he_routes :: "hevent list \<Rightarrow> error + (string \<times> string) list"
  he_interfaces :: "hevent list \<Rightarrow> error + (string \<times> (string \<times> string) list) list"
  he_stat :: "hevent list \<Rightarrow> error + (bool \<times> bool)"
  he_tls :: "hevent list \<Rightarrow> error + (tls_info \<times> string)"
  he_version :: "hevent list \<Rightarrow> error + version"
  he_sums :: "hevent list \<Rightarrow> error + (string \<rightharpoonup> string)"
  he_exec :: "hevent list \<Rightarrow> error option \<times> (error + exec_result \<times> bool)"
  he_elapsed :: "hevent list \<Rightarrow> nat"
  he_builds :: "string \<Rightarrow> string list option"
  he_token :: "string \<Rightarrow> string"
  he_app :: "string \<Rightarrow> (string \<times> string) option"
  he_installation :: "string \<Rightarrow> installation option"
  he_host :: "string \<Rightarrow> string option"
  he_fraction :: "string \<Rightarrow> nat \<Rightarrow> nat"
  he_readSettings :: "string \<Rightarrow> settings yaml"
  he_writeSettings :: "settings \<Rightarrow> error + string"
  he_readConfig :: "string \<Rightarrow> config yaml"
  he_writeConfig :: "config \<Rightarrow> error + string"

section \<open>Operations\<close>

type_synonym 'a act = "host \<Rightarrow> (error + 'a) \<times> host"

definition ret :: "'a \<Rightarrow> 'a act" where
  "ret x w = (Inr x, w)"

definition fail :: "error \<Rightarrow> 'a act" where
  "fail e w = (Inl e, w)"

definition andthen :: "'a act \<Rightarrow> ('a \<Rightarrow> 'b act) \<Rightarrow> 'b act" where
  "andthen m f w = (case m w of (Inl e, w') \<Rightarrow> (Inl e, w') | (Inr x, w') \<Rightarrow> f x w')"

definition next_act :: "'a act \<Rightarrow> 'b act \<Rightarrow> 'b act" where
  "next_act m n = andthen m (\<lambda>_. n)"

text \<open>The result as a value: where the code looks at an error, or ignores it.\<close>

definition attempt :: "'a act \<Rightarrow> (error + 'a) act" where
  "attempt m w = (case m w of (r, w') \<Rightarrow> (Inr r, w'))"

definition ignoring :: "'a act \<Rightarrow> unit act" where
  "ignoring m = andthen (attempt m) (\<lambda>_. ret ())"

definition succeeds :: "'a act \<Rightarrow> bool act" where
  "succeeds m = andthen (attempt m) (\<lambda>r. ret (case r of Inl e \<Rightarrow> False | Inr x \<Rightarrow> True))"

definition or_else :: "'a act \<Rightarrow> 'a \<Rightarrow> 'a act" where
  "or_else m d = andthen (attempt m) (\<lambda>r. ret (case r of Inl e \<Rightarrow> d | Inr x \<Rightarrow> x))"

definition when_act :: "bool \<Rightarrow> unit act \<Rightarrow> unit act" where
  "when_act b m = (if b then m else ret ())"

text \<open>An error is wrapped or replaced on its way out.\<close>

definition mapping_error :: "(error \<Rightarrow> error) \<Rightarrow> 'a act \<Rightarrow> 'a act" where
  "mapping_error f m = andthen (attempt m) (\<lambda>r. case r of Inl e \<Rightarrow> fail (f e) | Inr x \<Rightarrow> ret x)"

primrec for_each :: "('a \<Rightarrow> unit act) \<Rightarrow> 'a list \<Rightarrow> unit act" where
  "for_each f [] = ret ()"
| "for_each f (x # xs) = next_act (f x) (for_each f xs)"

primrec collect :: "('a \<Rightarrow> 'b act) \<Rightarrow> 'a list \<Rightarrow> 'b list act" where
  "collect f [] = ret []"
| "collect f (x # xs) = andthen (f x) (\<lambda>y. andthen (collect f xs) (\<lambda>ys. ret (y # ys)))"

definition sequence :: "unit act list \<Rightarrow> unit act" where
  "sequence ms = for_each (\<lambda>m. m) ms"

text \<open>A deferred cleanup runs whatever happened; its own error counts only when there was none.\<close>

definition finally_do :: "'a act \<Rightarrow> unit act \<Rightarrow> 'a act" where
  "finally_do m d =
     andthen (attempt m) (\<lambda>r. case r of Inl e \<Rightarrow> next_act (ignoring d) (fail e) | Inr x \<Rightarrow> next_act d (ret x))"

definition hwaits :: "hevent \<Rightarrow> duration" where
  "hwaits ev = (case ev of HSleep d \<Rightarrow> max 0 d | _ \<Rightarrow> 0)"

definition emit :: "henv \<Rightarrow> hevent \<Rightarrow> host \<Rightarrow> host" where
  "emit E ev w =
     w\<lparr>hTrace := ev # hTrace w, hClock := hClock w + hwaits ev + int (he_elapsed E (ev # hTrace w))\<rparr>"

definition event :: "henv \<Rightarrow> hevent \<Rightarrow> (henv \<Rightarrow> hevent list \<Rightarrow> error + 'a) \<Rightarrow> 'a act" where
  "event E ev answer w = (answer E (ev # hTrace w), emit E ev w)"

definition finished :: "henv \<Rightarrow> hevent list \<Rightarrow> error + unit" where
  "finished E es = (case he_error E es of None \<Rightarrow> Inr () | Some e \<Rightarrow> Inl e)"

definition now :: "time act" where
  "now w = (Inr (hClock w), w)"

definition asks :: "henv \<Rightarrow> query \<Rightarrow> (henv \<Rightarrow> hevent list \<Rightarrow> error + 'a) \<Rightarrow> 'a act" where
  "asks E q answer = event E (HRead q) answer"

definition reads :: "henv \<Rightarrow> string \<Rightarrow> string list \<Rightarrow> (henv \<Rightarrow> hevent list \<Rightarrow> error + 'a) \<Rightarrow> 'a act" where
  "reads E name args answer = asks E (QRun (C_cmd name args)) answer"

definition ReadFile :: "henv \<Rightarrow> string \<Rightarrow> string act" where
  "ReadFile E path = asks E (QFile path) he_text"

definition fileExists :: "henv \<Rightarrow> string \<Rightarrow> bool act" where
  "fileExists E path = succeeds (asks E (QStat path) he_stat)"

section \<open>Changes (exec.go)\<close>

definition Log :: "henv \<Rightarrow> string \<Rightarrow> unit act" where
  "Log E line = event E (HLog line) (\<lambda>_ _. Inr ())"

definition Changer_Run :: "henv \<Rightarrow> bool \<Rightarrow> cmd \<Rightarrow> string act" where
  "Changer_Run E dryRun c =
     next_act (Log E (cmd_String c)) (if dryRun then ret [] else event E (HRun c) he_text)"

definition Changer_WriteFile :: "henv \<Rightarrow> bool \<Rightarrow> string \<Rightarrow> string \<Rightarrow> unit act" where
  "Changer_WriteFile E dryRun path data =
     next_act (Log E (''write '' @ path)) (if dryRun then ret () else event E (HWrite path data) finished)"

definition Changer_Remove :: "henv \<Rightarrow> bool \<Rightarrow> string \<Rightarrow> unit act" where
  "Changer_Remove E dryRun path =
     next_act (Log E (''rm '' @ path))
       (if dryRun then ret ()
        else andthen (attempt (event E (HRemove path) finished)) (\<lambda>r.
          case r of
            Inl e \<Rightarrow> if errors_Is e ErrNotExist then ret () else fail (wrap ''remove'' e)
          | Inr _ \<Rightarrow> ret ()))"

section \<open>Proxmox through its command line (pve.go)\<close>

definition pve_json :: "henv \<Rightarrow> string \<Rightarrow> string list \<Rightarrow> (henv \<Rightarrow> hevent list \<Rightarrow> error + 'a) \<Rightarrow> 'a act" where
  "pve_json E name args answer = reads E name (args @ [''--output-format'', ''json'']) answer"

definition NodeName :: "henv \<Rightarrow> string act" where
  "NodeName E =
     andthen (pve_json E ''pvesh'' [''get'', ''/nodes''] he_texts) (\<lambda>nodes.
       case nodes of
         [] \<Rightarrow> fail (ErrorMsg ''pvesh get /nodes: no node'')
       | n # _ \<Rightarrow> if n = [] then fail (ErrorMsg ''pvesh get /nodes: no node'') else ret n)"

definition listing :: query where
  "listing = QRun (C_cmd ''pvesh'' [''get'', ''/cluster/resources'', ''--type'', ''vm'', ''--output-format'', ''json''])"

definition VMs :: "henv \<Rightarrow> string \<Rightarrow> vm list act" where
  "VMs E node = andthen (asks E listing he_resources) (\<lambda>rs. ret (vmsOnNode rs node))"

definition VMConfig :: "henv \<Rightarrow> string \<Rightarrow> int \<Rightarrow> (string \<rightharpoonup> string) act" where
  "VMConfig E node vmid =
     pve_json E ''pvesh'' [''get'', ''/nodes/'' @ node @ ''/qemu/'' @ Itoa vmid @ ''/config''] he_config"

definition Pools :: "henv \<Rightarrow> (string \<times> string) list act" where
  "Pools E = pve_json E ''pveum'' [''pool'', ''list''] he_pools"

text \<open>Of the roles only the IDs are used.\<close>

definition Roles :: "henv \<Rightarrow> string list act" where
  "Roles E = pve_json E ''pveum'' [''role'', ''list''] he_texts"

definition Users :: "henv \<Rightarrow> string list act" where
  "Users E = pve_json E ''pveum'' [''user'', ''list''] he_texts"

definition Tokens :: "henv \<Rightarrow> string \<Rightarrow> string list act" where
  "Tokens E user = pve_json E ''pveum'' [''user'', ''token'', ''list'', user] he_texts"

definition ACLs :: "henv \<Rightarrow> acl list act" where
  "ACLs E = pve_json E ''pveum'' [''acl'', ''list''] he_acls"

definition SDNExists :: "henv \<Rightarrow> string \<Rightarrow> bool act" where
  "SDNExists E path = succeeds (reads E ''pvesh'' [''get'', ''/cluster/sdn/'' @ path, ''--output-format'', ''json''] he_text)"

text \<open>An object is its ID and its state, empty where they are missing or no strings.\<close>

definition pending_ids :: "string list \<Rightarrow> (string \<times> string) list \<Rightarrow> string list" where
  "pending_ids ours objs = map fst (filter (\<lambda>(i, st). st \<noteq> [] \<and> i \<noteq> [] \<and> i \<notin> set ours) objs)"

definition PendingSDN :: "henv \<Rightarrow> string list \<Rightarrow> string list act" where
  "PendingSDN E ours =
     andthen (collect (\<lambda>kind. pve_json E ''pvesh'' [''get'', ''/cluster/sdn/'' @ kind @ ''s'', ''--pending'', ''1''] he_states)
                [''zone'', ''vnet''])
       (\<lambda>objs. ret (concat (map (pending_ids ours) objs)))"

definition pve_Storage :: "henv \<Rightarrow> string \<Rightarrow> string \<Rightarrow> storage_status act" where
  "pve_Storage E node storage =
     pve_json E ''pvesh'' [''get'', ''/nodes/'' @ node @ ''/storage/'' @ storage @ ''/status''] he_storage"

definition NextID :: "henv \<Rightarrow> int act" where
  "NextID E =
     andthen (reads E ''pvesh'' [''get'', ''/cluster/nextid''] he_text) (\<lambda>out.
       case Atoi (trim_quotes (TrimSpace out)) of
         None \<Rightarrow> fail (ErrorMsg ''pvesh get /cluster/nextid: not a VMID'')
       | Some n \<Rightarrow> ret n)"

definition AgentPing :: "henv \<Rightarrow> int \<Rightarrow> unit act" where
  "AgentPing E vmid = reads E ''qm'' [''guest'', ''cmd'', Itoa vmid, ''ping''] finished"

definition MaxAgentStdinBytes :: nat where "MaxAgentStdinBytes = 65536"

definition GuestExec :: "henv \<Rightarrow> int \<Rightarrow> duration \<Rightarrow> string list \<Rightarrow> string option \<Rightarrow> exec_result act" where
  "GuestExec E vmid timeout argv stdin =
     (if (case stdin of None \<Rightarrow> 0 | Some data \<Rightarrow> length data) > MaxAgentStdinBytes
      then fail (ErrorMsg ''guest exec: stdin is too large'')
      else event E (HGuest vmid timeout argv stdin)
        (\<lambda>E es. case he_exec E es of
           (Some e, Inr (res, True)) \<Rightarrow> Inr res
         | (Some e, _) \<Rightarrow> Inl (wrap ''guest exec'' e)
         | (None, Inl e) \<Rightarrow> Inl (wrap ''guest exec'' e)
         | (None, Inr (res, exited)) \<Rightarrow> if exited then Inr res else Inl (wrap ''guest exec'' ErrExecTimeout)))"

end
