(* ===== verification/Host_Facts.thy ===== *)
theory Host_Facts
  imports Host
begin

text \<open>
  Reasoning about what host operations do. \<open>emits P m\<close>: \<open>m\<close> only adds events in \<open>P\<close>, whatever the
  answers. \<open>does ok m w Q\<close>: run from \<open>w\<close>, every event \<open>m\<close> adds is allowed by the events before it, and \<open>Q\<close>
  holds of its result and the state it leaves; the node's name, once known, never changes. Each way of composing operations has one rule; the
  collection \<open>emits_rules\<close> makes the first kind a syntax-directed proof.
\<close>

named_theorems emits_rules \<open>rules that show which events an operation adds\<close>

section \<open>Lawful histories\<close>

fun lawful_from :: "(hevent list \<Rightarrow> hevent \<Rightarrow> bool) \<Rightarrow> hevent list \<Rightarrow> hevent list \<Rightarrow> bool" where
  "lawful_from ok [] ts = True"
| "lawful_from ok (e # es) ts = (ok (es @ ts) e \<and> lawful_from ok es ts)"

definition does :: "(hevent list \<Rightarrow> hevent \<Rightarrow> bool) \<Rightarrow> 'a act \<Rightarrow> host \<Rightarrow> (error + 'a \<Rightarrow> host \<Rightarrow> bool) \<Rightarrow> bool" where
  "does ok m w Q \<longleftrightarrow>
     (\<exists>es. hTrace (snd (m w)) = es @ hTrace w \<and> lawful_from ok es (hTrace w))
     \<and> (hNode w \<noteq> [] \<longrightarrow> hNode (snd (m w)) = hNode w)
     \<and> Q (fst (m w)) (snd (m w))"

definition emits :: "(hevent \<Rightarrow> bool) \<Rightarrow> 'a act \<Rightarrow> bool" where
  "emits P m \<longleftrightarrow> (\<forall>w. does (\<lambda>_. P) m w (\<lambda>_ _. True))"

lemma lawful_from_append:
  "lawful_from ok (es @ fs) ts \<longleftrightarrow> lawful_from ok es (fs @ ts) \<and> lawful_from ok fs ts"
  by (induction es) auto

lemma lawful_from_const: "lawful_from (\<lambda>_. P) es ts \<longleftrightarrow> list_all P es"
  by (induction es) auto

lemma lawful_from_all: "(\<And>us e. ok (us @ ts) e) \<Longrightarrow> lawful_from ok es ts"
  by (induction es) auto

lemma lawful_from_mono:
  "lawful_from ok es ts \<Longrightarrow> (\<And>us e. ok (us @ ts) e \<Longrightarrow> ok' (us @ ts) e) \<Longrightarrow> lawful_from ok' es ts"
  by (induction es) auto

lemma lawful_from_split: "lawful_from ok (us @ e # es) ts \<Longrightarrow> ok (es @ ts) e"
  by (induction us) auto

lemma lawful_from_fold:
  "lawful_from ok es ts \<longleftrightarrow> (\<forall>us e vs. es = us @ e # vs \<longrightarrow> ok (vs @ ts) e)"
proof (induction es)
  case (Cons x xs)
  show ?case
  proof
    assume "lawful_from ok (x # xs) ts"
    then show "\<forall>us e vs. x # xs = us @ e # vs \<longrightarrow> ok (vs @ ts) e"
      using lawful_from_split [of ok _ _ _ ts] by metis
  next
    assume a: "\<forall>us e vs. x # xs = us @ e # vs \<longrightarrow> ok (vs @ ts) e"
    have "ok (xs @ ts) x" using a by blast
    moreover have "\<forall>us e vs. xs = us @ e # vs \<longrightarrow> ok (vs @ ts) e" using a by (metis append_Cons)
    ultimately show "lawful_from ok (x # xs) ts" using Cons by simp
  qed
qed simp

section \<open>One operation after another\<close>

lemma emits_iff:
  "emits P m \<longleftrightarrow> (\<forall>w. (\<exists>es. hTrace (snd (m w)) = es @ hTrace w \<and> list_all P es)
     \<and> (hNode w \<noteq> [] \<longrightarrow> hNode (snd (m w)) = hNode w))"
  by (simp add: emits_def does_def lawful_from_const)

lemma emitsE:
  assumes "emits P m"
  obtains es where "hTrace (snd (m w)) = es @ hTrace w" and "list_all P es"
  using assms by (auto simp: emits_iff)

lemma does_ret: "Q (Inr x) w \<Longrightarrow> does ok (ret x) w Q"
  by (simp add: does_def ret_def)

lemma does_fail: "Q (Inl e) w \<Longrightarrow> does ok (fail e) w Q"
  by (simp add: does_def fail_def)

lemma does_now: "Q (Inr (hClock w)) w \<Longrightarrow> does ok now w Q"
  by (simp add: does_def now_def)

lemma does_event:
  "ok (hTrace w) ev \<Longrightarrow> Q (answer E (ev # hTrace w)) (emit E ev w) \<Longrightarrow> does ok (event E ev answer) w Q"
  by (simp add: does_def event_def emit_def)

lemma does_andthen:
  assumes "does ok m w (\<lambda>r w'. case r of Inl e \<Rightarrow> Q (Inl e) w' | Inr x \<Rightarrow> does ok (f x) w' Q)"
  shows "does ok (andthen m f) w Q"
proof (cases "m w")
  case (Pair r w')
  then obtain es where es: "hTrace w' = es @ hTrace w" "lawful_from ok es (hTrace w)"
    and n: "hNode w \<noteq> [] \<longrightarrow> hNode w' = hNode w"
    and q: "case r of Inl e \<Rightarrow> Q (Inl e) w' | Inr x \<Rightarrow> does ok (f x) w' Q"
    using assms by (auto simp: does_def)
  show ?thesis
  proof (cases r)
    case (Inl e)
    with Pair es n q show ?thesis by (simp add: does_def andthen_def)
  next
    case (Inr x)
    with q obtain fs where "hTrace (snd (f x w')) = fs @ hTrace w'" "lawful_from ok fs (hTrace w')"
      and "hNode w' \<noteq> [] \<longrightarrow> hNode (snd (f x w')) = hNode w'"
      and "Q (fst (f x w')) (snd (f x w'))" by (auto simp: does_def)
    then show ?thesis
      using Pair Inr es n by (auto simp: does_def andthen_def lawful_from_append intro!: exI [of _ "fs @ es"])
  qed
qed

lemma does_attempt: "does ok m w (\<lambda>r w'. Q (Inr r) w') \<Longrightarrow> does ok (attempt m) w Q"
  by (auto simp: does_def attempt_def split: prod.split)

lemma does_weaken:
  assumes "does ok m w Q"
    and "\<And>r w'. suffix (hTrace w) (hTrace w') \<Longrightarrow> hNode w = [] \<or> hNode w' = hNode w \<Longrightarrow> Q r w' \<Longrightarrow> Q' r w'"
  shows "does ok m w Q'"
  using assms by (auto simp: does_def suffix_def)

lemma does_mono:
  assumes "does ok m w Q" and "\<And>us e. ok (us @ hTrace w) e \<Longrightarrow> ok' (us @ hTrace w) e"
  shows "does ok' m w Q"
  using assms lawful_from_mono [of ok _ "hTrace w" ok'] by (auto simp: does_def)

lemma does_emits:
  assumes "emits P m" and "\<And>us e. P e \<Longrightarrow> ok (us @ hTrace w) e"
    and "\<And>r w'. suffix (hTrace w) (hTrace w') \<Longrightarrow> hNode w = [] \<or> hNode w' = hNode w \<Longrightarrow> Q r w'"
  shows "does ok m w Q"
proof -
  have "does (\<lambda>_. P) m w (\<lambda>_ _. True)" using assms(1) by (simp add: emits_def)
  then have "does (\<lambda>_. P) m w Q" by (rule does_weaken) (use assms(3) in blast)
  then show ?thesis by (rule does_mono) (use assms(2) in blast)
qed

text \<open>The operations that are composed of others.\<close>

lemma does_next:
  "does ok m w (\<lambda>r w'. case r of Inl e \<Rightarrow> Q (Inl e) w' | Inr x \<Rightarrow> does ok n w' Q) \<Longrightarrow> does ok (next_act m n) w Q"
  unfolding next_act_def by (rule does_andthen)

section \<open>Events of composed operations\<close>

lemma emits_mono: "emits P m \<Longrightarrow> (\<And>e. P e \<Longrightarrow> P' e) \<Longrightarrow> emits P' m"
  unfolding emits_def using does_mono [of "\<lambda>_. P" m _ _ "\<lambda>_. P'"] by blast

lemma emits_ret [emits_rules]: "emits P (ret x)"
  by (simp add: emits_def does_ret)

lemma emits_fail [emits_rules]: "emits P (fail e)"
  by (simp add: emits_def does_fail)

lemma emits_now [emits_rules]: "emits P now"
  by (simp add: emits_def does_now)

lemma emits_event [emits_rules]: "P ev \<Longrightarrow> emits P (event E ev answer)"
  by (simp add: emits_def does_event)

lemma emits_andthen [emits_rules]:
  assumes "emits P m" and "\<And>x. emits P (f x)"
  shows "emits P (andthen m f)"
  unfolding emits_def
proof
  fix w
  have "does (\<lambda>_. P) m w (\<lambda>_ _. True)" using assms(1) by (simp add: emits_def)
  then have "does (\<lambda>_. P) m w (\<lambda>r w'. case r of Inl e \<Rightarrow> True | Inr x \<Rightarrow> does (\<lambda>_. P) (f x) w' (\<lambda>_ _. True))"
    by (rule does_weaken) (use assms(2) in \<open>auto simp: emits_def split: sum.split\<close>)
  then show "does (\<lambda>_. P) (andthen m f) w (\<lambda>_ _. True)" by (rule does_andthen)
qed

lemma emits_next [emits_rules]: "emits P m \<Longrightarrow> emits P n \<Longrightarrow> emits P (next_act m n)"
  unfolding next_act_def by (rule emits_andthen)

lemma emits_attempt [emits_rules]: "emits P m \<Longrightarrow> emits P (attempt m)"
  unfolding emits_def using does_attempt [of "\<lambda>_. P" m _ "\<lambda>_ _. True"] by blast

lemma emits_if [emits_rules]: "(b \<Longrightarrow> emits P m) \<Longrightarrow> (\<not> b \<Longrightarrow> emits P n) \<Longrightarrow> emits P (if b then m else n)"
  by simp

lemma emits_when [emits_rules]: "(b \<Longrightarrow> emits P m) \<Longrightarrow> emits P (when_act b m)"
  unfolding when_act_def by (rule emits_if) (auto intro: emits_ret)

lemma emits_sum [emits_rules]:
  "(\<And>e. r = Inl e \<Longrightarrow> emits P (f e)) \<Longrightarrow> (\<And>x. r = Inr x \<Longrightarrow> emits P (g x))
    \<Longrightarrow> emits P (case r of Inl e \<Rightarrow> f e | Inr x \<Rightarrow> g x)"
  by (cases r) auto

lemma emits_option [emits_rules]:
  "(x = None \<Longrightarrow> emits P m) \<Longrightarrow> (\<And>y. x = Some y \<Longrightarrow> emits P (f y)) \<Longrightarrow> emits P (case x of None \<Rightarrow> m | Some y \<Rightarrow> f y)"
  by (cases x) auto

lemma emits_list [emits_rules]:
  "(xs = [] \<Longrightarrow> emits P m) \<Longrightarrow> (\<And>y ys. xs = y # ys \<Longrightarrow> emits P (f y ys)) \<Longrightarrow> emits P (case xs of [] \<Rightarrow> m | y # ys \<Rightarrow> f y ys)"
  by (cases xs) auto

lemma emits_prod [emits_rules]: "(\<And>x y. p = (x, y) \<Longrightarrow> emits P (f x y)) \<Longrightarrow> emits P (case p of (x, y) \<Rightarrow> f x y)"
  by (cases p) auto

lemma emits_let [emits_rules]: "emits P (f x) \<Longrightarrow> emits P (Let x f)"
  by simp

lemma emits_ignoring [emits_rules]: "emits P m \<Longrightarrow> emits P (ignoring m)"
  unfolding ignoring_def by (intro emits_rules)

lemma emits_succeeds [emits_rules]: "emits P m \<Longrightarrow> emits P (succeeds m)"
  unfolding succeeds_def by (intro emits_rules)

lemma emits_or_else [emits_rules]: "emits P m \<Longrightarrow> emits P (or_else m d)"
  unfolding or_else_def by (intro emits_rules)

lemma emits_mapping_error [emits_rules]: "emits P m \<Longrightarrow> emits P (mapping_error f m)"
  unfolding mapping_error_def by (intro emits_rules)

lemma emits_finally [emits_rules]: "emits P m \<Longrightarrow> emits P d \<Longrightarrow> emits P (finally_do m d)"
  unfolding finally_do_def by (intro emits_rules)

lemma emits_for_each [emits_rules]: "(\<And>x. x \<in> set xs \<Longrightarrow> emits P (f x)) \<Longrightarrow> emits P (for_each f xs)"
  by (induction xs) (auto intro!: emits_ret emits_next)

lemma emits_collect [emits_rules]: "(\<And>x. x \<in> set xs \<Longrightarrow> emits P (f x)) \<Longrightarrow> emits P (collect f xs)"
  by (induction xs) (auto intro!: emits_ret emits_andthen)

lemma emits_sequence [emits_rules]: "(\<And>m. m \<in> set ms \<Longrightarrow> emits P m) \<Longrightarrow> emits P (sequence ms)"
  unfolding sequence_def by (rule emits_for_each)

lemma emits_asks [emits_rules]: "P (HRead q) \<Longrightarrow> emits P (asks E q answer)"
  unfolding asks_def by (intro emits_rules)

end
