(* ===== verification/Hostsys.thy ===== *)
theory Hostsys
  imports Host_Facts
begin

text \<open>
  \<^verbatim>\<open>internal/hostsys/hostsys.go\<close>: what the host commands read of the node. The JSON of \<^verbatim>\<open>ip\<close> is
  decoded outside the model; texts such as \<^verbatim>\<open>/proc/meminfo\<close> and \<^verbatim>\<open>ethtool -k\<close> are read here. An index out of range
  panics in Go: the operation then fails outside every place that handles an error.
\<close>

section \<open>Paths\<close>

record paths =
  PVEDir :: string
  SysNet :: string
  MemInfo :: string
  Interfaces :: string
  KVM :: string
  UdevRule :: string
  EthtoolPath :: string
  ProcCmdline :: string
  GrubDefaults :: string
  GrubDropIn :: string
  GrubCfg :: string
  KernelCmdline :: string
  BootUUIDs :: string

definition DefaultPaths :: paths where
  "DefaultPaths =
     \<lparr>PVEDir = ''/etc/pve'', SysNet = ''/sys/class/net'', MemInfo = ''/proc/meminfo'',
      Interfaces = ''/etc/network/interfaces'', KVM = ''/dev/kvm'',
      UdevRule = ''/etc/udev/rules.d/90-par-offloads.rules'', EthtoolPath = ''/usr/sbin/ethtool'',
      ProcCmdline = ''/proc/cmdline'', GrubDefaults = ''/etc/default/grub'',
      GrubDropIn = ''/etc/default/grub.d/par-no-kvm-apf.cfg'', GrubCfg = ''/boot/grub/grub.cfg'',
      KernelCmdline = ''/etc/kernel/cmdline'', BootUUIDs = ''/etc/kernel/proxmox-boot-uuids''\<rparr>"

definition Fields :: "string \<Rightarrow> string list" where
  "Fields s = FieldsFunc s is_space"

definition text_lines :: "string \<Rightarrow> string list" where
  "text_lines s = map (\<lambda>l. if l \<noteq> [] \<and> last l = CHR 0x0D then butlast l else l) (Split (CHR 0x0A) s)"

section \<open>Network\<close>

text \<open>
  The decoded answers of \<^verbatim>\<open>ip\<close>: each interface with its addresses and prefix lengths, which are at most 32 for
  IPv4, and each route's destination and device.
\<close>

definition host_addrs :: "(string \<times> (string \<times> nat) list) list \<Rightarrow> net_addr list" where
  "host_addrs ifs =
     concat (map (\<lambda>(name, as). concat (map (\<lambda>(local, bits).
       case ParseAddr4 local of
         None \<Rightarrow> []
       | Some ip \<Rightarrow> [\<lparr>naDev = name, naPrefix = \<lparr>pAddr = ip, pBits = bits\<rparr>\<rparr>]) as)) ifs)"

definition Addrs :: "henv \<Rightarrow> net_addr list act" where
  "Addrs E =
     andthen (reads E ''ip'' [''-j'', ''-4'', ''addr'', ''show''] he_addrs) (\<lambda>ifs. ret (host_addrs ifs))"

definition host_routes :: "(string \<times> string) list \<Rightarrow> net_route list" where
  "host_routes raw =
     concat (map (\<lambda>(dst, dev).
       if dst = ''default'' then []
       else case ParsePrefix4 dst of
         Some p \<Rightarrow> [\<lparr>nrDev = dev, nrDst = p\<rparr>]
       | None \<Rightarrow>
           (case ParseAddr4 dst of
              None \<Rightarrow> []
            | Some a \<Rightarrow> [\<lparr>nrDev = dev, nrDst = \<lparr>pAddr = a, pBits = 32\<rparr>\<rparr>])) raw)"

definition Routes :: "henv \<Rightarrow> net_route list act" where
  "Routes E =
     andthen (reads E ''ip'' [''-j'', ''-4'', ''route'', ''show''] he_routes) (\<lambda>raw. ret (host_routes raw))"

definition IsBridge :: "henv \<Rightarrow> paths \<Rightarrow> string \<Rightarrow> bool act" where
  "IsBridge E p name =
     andthen (attempt (asks E (QStat (SysNet p @ ''/'' @ name @ ''/bridge'')) he_stat))
       (\<lambda>r. ret (case r of Inl e \<Rightarrow> False | Inr (isDir, isExec) \<Rightarrow> isDir))"

definition BridgePorts :: "henv \<Rightarrow> paths \<Rightarrow> string \<Rightarrow> string list act" where
  "BridgePorts E p bridge = or_else (asks E (QDir (SysNet p @ ''/'' @ bridge @ ''/brif'')) he_texts) []"

definition Driver :: "henv \<Rightarrow> paths \<Rightarrow> string \<Rightarrow> string act" where
  "Driver E p nic =
     andthen (attempt (asks E (QLink (SysNet p @ ''/'' @ nic @ ''/device/driver'')) he_text))
       (\<lambda>r. ret (case r of Inl e \<Rightarrow> [] | Inr target \<Rightarrow> base_name target))"

definition Exists :: "henv \<Rightarrow> paths \<Rightarrow> string \<Rightarrow> bool act" where
  "Exists E p nic = fileExists E (SysNet p @ ''/'' @ nic)"

section \<open>Memory, space, clock and packages\<close>

text \<open>The first line that names the total decides; one that is no number ends the search.\<close>

fun mem_total :: "string list \<Rightarrow> int option" where
  "mem_total [] = None"
| "mem_total (l # ls) =
     (case Fields l of
        name # kib # _ \<Rightarrow>
          if name = ''MemTotal:'' then (case Atoi kib of None \<Rightarrow> None | Some n \<Rightarrow> Some (quot n 1024))
          else mem_total ls
      | _ \<Rightarrow> mem_total ls)"

definition MemTotalMiB :: "henv \<Rightarrow> paths \<Rightarrow> int act" where
  "MemTotalMiB E p =
     andthen (mapping_error (wrap ''read memory size'') (ReadFile E (MemInfo p))) (\<lambda>data.
       case mem_total (text_lines data) of
         None \<Rightarrow> fail (ErrorMsg ''no MemTotal'')
       | Some n \<Rightarrow> ret n)"

definition FreeGiB :: "henv \<Rightarrow> string \<Rightarrow> int act" where
  "FreeGiB E path = mapping_error (wrap ''free space'') (asks E (QFreeGiB path) he_int)"

definition says :: "henv \<Rightarrow> string \<Rightarrow> string list \<Rightarrow> (string \<Rightarrow> bool) \<Rightarrow> bool act" where
  "says E name args f =
     andthen (attempt (reads E name args he_text)) (\<lambda>r. ret (case r of Inl e \<Rightarrow> False | Inr out \<Rightarrow> f out))"

definition NTPSynced :: "henv \<Rightarrow> bool act" where
  "NTPSynced E =
     says E ''timedatectl'' [''show'', ''-p'', ''NTPSynchronized'', ''--value''] (\<lambda>out. TrimSpace out = ''yes'')"

definition PVEVersion :: "henv \<Rightarrow> (error + string) act" where
  "PVEVersion E =
     andthen (attempt (reads E ''pveversion'' [] he_text)) (\<lambda>r.
       case r of
         Inl e \<Rightarrow> ret (Inl e)
       | Inr out \<Rightarrow>
           (case Fields (out @ '' '') of
              [] \<Rightarrow> fail (ErrorMsg ''panic: index out of range'')
            | v # _ \<Rightarrow> ret (Inr v)))"

definition InContainer :: "henv \<Rightarrow> bool act" where
  "InContainer E = says E ''systemd-detect-virt'' [''--container'', ''--quiet''] (\<lambda>_. True)"

definition KVMGuest :: "henv \<Rightarrow> bool act" where
  "KVMGuest E = says E ''systemd-detect-virt'' [''--vm''] (\<lambda>out. TrimSpace out = ''kvm'')"

definition PackageInstalled :: "henv \<Rightarrow> string \<Rightarrow> bool act" where
  "PackageInstalled E pkg =
     says E ''dpkg-query'' [''-W'', ''-f'', ''${Status}'', pkg] (\<lambda>out. Contains_str out ''install ok installed'')"

section \<open>Offload features\<close>

definition Ethtool :: "henv \<Rightarrow> paths \<Rightarrow> string act" where
  "Ethtool E p =
     andthen (attempt (asks E (QStat (EthtoolPath p)) he_stat)) (\<lambda>r.
       case r of
         Inl e \<Rightarrow> fail (ErrorMsg ''ethtool isn't installed'')
       | Inr (isDir, isExec) \<Rightarrow>
           if isDir \<or> \<not> isExec then fail (ErrorMsg ''ethtool isn't installed'') else ret (EthtoolPath p))"

text \<open>\<^verbatim>\<open>strings.Cut\<close> at \<open>'': ''\<close>.\<close>

fun cut_colon :: "string \<Rightarrow> (string \<times> string) option" where
  "cut_colon (a # b # s) =
     (if a = CHR '':'' \<and> b = CHR '' '' then Some ([], s)
      else map_option (\<lambda>(n, v). (a # n, v)) (cut_colon (b # s)))"
| "cut_colon _ = None"

definition feature_line :: "(string \<rightharpoonup> bool) \<Rightarrow> string \<Rightarrow> (string \<rightharpoonup> bool)" where
  "feature_line m l =
     (if l = [] \<or> hd l = CHR '' '' \<or> hd l = CHR 0x09 then m
      else (case cut_colon l of None \<Rightarrow> m | Some (name, v) \<Rightarrow> m(name \<mapsto> HasPrefix v ''on'')))"

definition Features :: "henv \<Rightarrow> string \<Rightarrow> (string \<rightharpoonup> bool) act" where
  "Features E nic =
     andthen (reads E ''ethtool'' [''-k'', nic] he_text)
       (\<lambda>out. ret (foldl feature_line Map.empty (text_lines out)))"

section \<open>Reading changes nothing\<close>

definition is_read :: "hevent \<Rightarrow> bool" where
  "is_read ev \<longleftrightarrow> (case ev of HRead q \<Rightarrow> True | _ \<Rightarrow> False)"

lemma is_read_HRead [simp]: "is_read (HRead q)"
  by (simp add: is_read_def)

named_theorems reading \<open>operations that only read\<close>

lemma reads_only [reading]:
  "emits is_read (asks E q ans)" "emits is_read (reads E name args ans)" "emits is_read (ReadFile E path)"
  "emits is_read (fileExists E path)" "emits is_read (pve_json E name args ans)"
  unfolding reads_def ReadFile_def fileExists_def pve_json_def by (intro emits_rules is_read_HRead)+

lemma pve_reads [reading]:
  "emits is_read (NodeName E)" "emits is_read (VMs E node)" "emits is_read (VMConfig E node vmid)"
  "emits is_read (Pools E)" "emits is_read (Roles E)" "emits is_read (Users E)" "emits is_read (Tokens E user)"
  "emits is_read (ACLs E)" "emits is_read (SDNExists E path)" "emits is_read (PendingSDN E ours)"
  "emits is_read (pve_Storage E node storage)" "emits is_read (NextID E)" "emits is_read (AgentPing E vmid)"
  unfolding NodeName_def VMs_def VMConfig_def Pools_def Roles_def Users_def Tokens_def ACLs_def SDNExists_def
    PendingSDN_def pve_Storage_def NextID_def AgentPing_def
  by (intro emits_rules reads_only)+

lemma says_reads [reading]: "emits is_read (says E name args f)"
  unfolding says_def by (intro emits_rules reads_only)

lemma hostsys_reads [reading]:
  "emits is_read (Addrs E)" "emits is_read (Routes E)" "emits is_read (IsBridge E p name)"
  "emits is_read (BridgePorts E p bridge)" "emits is_read (Driver E p nic)" "emits is_read (Exists E p nic)"
  "emits is_read (MemTotalMiB E p)" "emits is_read (FreeGiB E path)" "emits is_read (NTPSynced E)"
  "emits is_read (PVEVersion E)" "emits is_read (InContainer E)" "emits is_read (KVMGuest E)"
  "emits is_read (PackageInstalled E pkg)" "emits is_read (Ethtool E p)" "emits is_read (Features E nic)"
  unfolding Addrs_def Routes_def IsBridge_def BridgePorts_def Driver_def Exists_def MemTotalMiB_def FreeGiB_def
    NTPSynced_def PVEVersion_def InContainer_def KVMGuest_def PackageInstalled_def Ethtool_def Features_def
  by (intro emits_rules reading)+

end
