(* ===== verification/Installer.thy ===== *)
theory Installer
  imports Hostsys
begin

text \<open>
  \<^verbatim>\<open>internal/installer\<close>'s base: \<^verbatim>\<open>installer.go\<close> (the Proxmox objects' names, the lock, confirmation, VMs by
  tag, the installed release, settings) and \<^verbatim>\<open>guest.go\<close> (commands in a VM and the waits for one). The
  waits share the loop \<open>poll_until\<close>, which is shown to end.
\<close>

section \<open>Names and sizes\<close>

definition SystemPool :: string where "SystemPool = ''par-system''"
definition RunnerPool :: string where "RunnerPool = DefaultPool"
definition Role :: string where "Role = ''PARController''"
definition PVEUser :: string where "PVEUser = ''par@pve''"
definition TokenName :: string where "TokenName = ''controller''"
definition inst_Zone :: string where "inst_Zone = DefaultZone"
definition inst_VNet :: string where "inst_VNet = DefaultVNet"
definition PoolComment :: string where "PoolComment = ''proxmox-actions-runners''"

definition GatewayGiB :: int where "GatewayGiB = 6"
definition ControllerGiB :: int where "ControllerGiB = 6"
definition FreeGiB_needed :: int where "FreeGiB_needed = 50"
definition DownloadDir :: string where "DownloadDir = ''/var/tmp''"
definition DownloadGiB :: int where "DownloadGiB = 6"
definition ControllerStopTimeout :: duration where "ControllerStopTimeout = 420 * Second"
definition HelperURL :: string where "HelperURL = ''https://klponce.github.io/proxmox-actions-runners/app/v1/''"
definition BinaryPath :: string where "BinaryPath = ''/usr/local/bin/parcon''"
definition guestTimeout :: duration where "guestTimeout = 15 * Second"
definition config_DefaultPath :: string where "config_DefaultPath = config_Dir @ ''/config.yaml''"

record installer =
  inDryRun :: bool
  inYes :: bool
  inPaths :: paths
  inSettingsPath :: string
  inBinaryPath :: string
  inSelf :: string
  inVersion :: version
  inAssets :: string
  inStopAfter :: string
  inLockPath :: string

section \<open>The lock and confirmation\<close>

definition errorf :: "string \<Rightarrow> 'a act" where
  "errorf m = fail (ErrorMsg m)"

text \<open>\<open>locked\<close> runs an operation with the lock held: \<^verbatim>\<open>in.Lock()\<close> and the deferred \<^verbatim>\<open>unlock()\<close>.\<close>

definition Lock :: "henv \<Rightarrow> installer \<Rightarrow> unit act" where
  "Lock E ins = (if inLockPath ins = [] then ret () else event E HLock finished)"

definition unlock :: "henv \<Rightarrow> installer \<Rightarrow> unit act" where
  "unlock E ins = (if inLockPath ins = [] then ret () else event E HUnlock (\<lambda>_ _. Inr ()))"

definition locked :: "henv \<Rightarrow> installer \<Rightarrow> 'a act \<Rightarrow> 'a act" where
  "locked E ins m = next_act (Lock E ins) (finally_do m (unlock E ins))"

definition confirm :: "henv \<Rightarrow> installer \<Rightarrow> string \<Rightarrow> unit act" where
  "confirm E ins question =
     (if inYes ins then ret ()
      else andthen (attempt (event E (HAsk question) he_confirm)) (\<lambda>r.
        case r of
          Inl e \<Rightarrow>
            if errors_Is e ErrNoTerminal
            then errorf (question @ '' There's no terminal to answer on: run with --yes to answer yes'')
            else fail e
        | Inr yes \<Rightarrow> if yes then ret () else fail ErrCanceled))"

section \<open>The node and its VMs\<close>

definition nodeName :: "henv \<Rightarrow> string act" where
  "nodeName E w =
     (if hNode w = []
      then andthen (NodeName E) (\<lambda>n w'. (Inr n, w'\<lparr>hNode := n\<rparr>)) w
      else (Inr (hNode w), w))"

definition vms :: "henv \<Rightarrow> vm list act" where
  "vms E = andthen (nodeName E) (VMs E)"

definition tagged :: "vm list \<Rightarrow> string \<Rightarrow> string \<Rightarrow> vm list" where
  "tagged vs pool tag = filter (\<lambda>v. Pool v = pool \<and> HasTag v tag) vs"

definition findSystemVM :: "vm list \<Rightarrow> string \<Rightarrow> vm option" where
  "findSystemVM vs tag = (case tagged vs SystemPool tag of [] \<Rightarrow> None | v # _ \<Rightarrow> Some v)"

definition systemVM :: "henv \<Rightarrow> string \<Rightarrow> vm option act" where
  "systemVM E tag =
     andthen (vms E) (\<lambda>vs. ret (case tagged vs SystemPool tag of [] \<Rightarrow> None | v # _ \<Rightarrow> Some v))"

definition releaseTag :: "installer \<Rightarrow> string" where
  "releaseTag ins = ReleasePrefix @ version_String (inVersion ins)"

definition InstalledRelease :: "henv \<Rightarrow> version option act" where
  "InstalledRelease E =
     andthen (systemVM E Controller) (\<lambda>v.
       case v of
         None \<Rightarrow> ret None
       | Some v \<Rightarrow>
           (case tag_String v ReleasePrefix of
              None \<Rightarrow> ret None
            | Some s \<Rightarrow>
                (case ParseVersion s of
                   None \<Rightarrow> errorf ''controller VM: not a version''
                 | Some rel \<Rightarrow> ret (Some rel))))"

section \<open>Settings\<close>

definition settings_failure :: "settings_error \<Rightarrow> error" where
  "settings_failure e =
     (case e of
        SettingsDecode d \<Rightarrow> wrap ''settings'' d
      | _ \<Rightarrow> ErrorMsg ''invalid settings'')"

definition settings_Load :: "henv \<Rightarrow> string \<Rightarrow> settings act" where
  "settings_Load E path =
     andthen (mapping_error (wrap ''read settings'') (ReadFile E path)) (\<lambda>data.
       case settings_Parse (he_host E) (he_readSettings E) data of
         Inl e \<Rightarrow> fail (wrap path (settings_failure e))
       | Inr s \<Rightarrow> ret s)"

definition loadSettings :: "henv \<Rightarrow> installer \<Rightarrow> settings act" where
  "loadSettings E ins =
     mapping_error
       (\<lambda>e. if errors_Is e ErrNotExist
            then ErrorMsg ''parcon isn't installed on this node; run parcon install'' else e)
       (settings_Load E (inSettingsPath ins))"

definition saveSettings :: "henv \<Rightarrow> installer \<Rightarrow> settings \<Rightarrow> unit act" where
  "saveSettings E ins s =
     (case he_writeSettings E s of
        Inl e \<Rightarrow> fail e
      | Inr data \<Rightarrow>
          andthen (attempt (event E (HMkdir (butlast (dir_prefix (inSettingsPath ins)))) finished)) (\<lambda>r.
            case r of
              Inl e \<Rightarrow>
                if inDryRun ins then Changer_WriteFile E (inDryRun ins) (inSettingsPath ins) data
                else fail (wrap ''save settings'' e)
            | Inr _ \<Rightarrow> Changer_WriteFile E (inDryRun ins) (inSettingsPath ins) data))"

definition pveAddress :: "henv \<Rightarrow> settings \<Rightarrow> addr act" where
  "pveAddress E s =
     (if nPVEAddress (stNetwork s) \<noteq> []
      then (case ParseAddr4 (nPVEAddress (stNetwork s)) of
              None \<Rightarrow> errorf ''not an address''
            | Some a \<Rightarrow> ret a)
      else andthen (Addrs E) (\<lambda>as.
        case filter (\<lambda>a. naDev a = nBridge (stNetwork s)) as of
          [] \<Rightarrow> errorf (nBridge (stNetwork s) @ '' has no IPv4 address; set --pve-address'')
        | a # _ \<Rightarrow> ret (pAddr (naPrefix a))))"

definition node_limits :: "henv \<Rightarrow> installer \<Rightarrow> limits act" where
  "node_limits E ins =
     andthen (or_else (MemTotalMiB E (inPaths ins)) 0) (\<lambda>mem.
       andthen (or_else (asks E QCPUs he_int) 0) (\<lambda>cpus. ret \<lparr>HostCPUs = cpus, HostMemMiB = mem\<rparr>))"

section \<open>Commands in a VM (guest.go)\<close>

text \<open>\<open>guest_answer\<close> also gives the output of a command that failed, which some callers show or read.\<close>

definition guest_answer :: "henv \<Rightarrow> int \<Rightarrow> duration \<Rightarrow> string option \<Rightarrow> string list \<Rightarrow> (string \<times> error option) act" where
  "guest_answer E vmid timeout stdin argv =
     andthen (attempt (GuestExec E vmid timeout argv stdin)) (\<lambda>r. ret
       (case r of
          Inl e \<Rightarrow> ([], Some e)
        | Inr res \<Rightarrow>
            if ExitCode res \<noteq> 0 \<or> Signal res \<noteq> 0
            then (Stdout res, Some (ExecError \<lparr>xVMID = vmid, xCommand = hd argv, xExitCode = ExitCode res,
                    xStderr = TrimSpace (Stderr res)\<rparr>))
            else (Stdout res, None)))"

definition guestExec :: "henv \<Rightarrow> int \<Rightarrow> duration \<Rightarrow> string option \<Rightarrow> string list \<Rightarrow> string act" where
  "guestExec E vmid timeout stdin argv =
     andthen (guest_answer E vmid timeout stdin argv)
       (\<lambda>(out, err). case err of None \<Rightarrow> ret out | Some e \<Rightarrow> fail e)"

definition parcon_argv :: "string list \<Rightarrow> string list" where
  "parcon_argv argv = [''runuser'', ''-u'', ''parcon'', ''--''] @ argv"

definition asParcon :: "henv \<Rightarrow> int \<Rightarrow> duration \<Rightarrow> string option \<Rightarrow> string list \<Rightarrow> string act" where
  "asParcon E vmid timeout stdin argv = guestExec E vmid timeout stdin (parcon_argv argv)"

definition write_argv :: "string \<Rightarrow> string list" where
  "write_argv path = [''sh'', ''-c'', ''umask 077 && cat >'' @ [CHR 0x22] @ ''$1'' @ [CHR 0x22], ''sh'', path]"

definition writeControllerFile :: "henv \<Rightarrow> installer \<Rightarrow> int \<Rightarrow> string \<Rightarrow> string \<Rightarrow> unit act" where
  "writeControllerFile E ins vmid path data =
     next_act (Log E (''controller VM '' @ Itoa vmid @ '': write '' @ path))
       (if inDryRun ins then ret ()
        else mapping_error (wrap ''write in the controller VM'')
               (next_act (asParcon E vmid (30 * Second) (Some data) (write_argv path)) (ret ())))"

text \<open>
  The waits: make the event, stop if its answer is the one awaited, give up after the deadline, or sleep and
  try again. Every sleep in the code is of a second or more; the loop sleeps a nanosecond at least.
\<close>

function poll_until ::
  "henv \<Rightarrow> hevent \<Rightarrow> (hevent list \<Rightarrow> 'a option) \<Rightarrow> time \<Rightarrow> duration \<Rightarrow> error \<Rightarrow> 'a act" where
  "poll_until E ev awaited deadline period err w =
     (let w1 = emit E ev w in
      case awaited (ev # hTrace w) of
        Some x \<Rightarrow> (Inr x, w1)
      | None \<Rightarrow>
          if deadline < hClock w1 then (Inl err, w1)
          else (case event E (HSleep (max 1 period)) finished w1 of
                  (Inl e, w2) \<Rightarrow> (Inl e, w2)
                | (Inr _, w2) \<Rightarrow> poll_until E ev awaited deadline period err w2))"
  by pat_completeness auto

termination
  by (relation "measure (\<lambda>(E, ev, aw, deadline, period, err, w). nat (deadline + 1 - hClock w))")
    (auto simp: emit_def event_def hwaits_def split: hevent.splits)

declare poll_until.simps [simp del]

definition polling :: "henv \<Rightarrow> hevent \<Rightarrow> (hevent list \<Rightarrow> 'a option) \<Rightarrow> duration \<Rightarrow> duration \<Rightarrow> error \<Rightarrow> 'a act" where
  "polling E ev awaited within period err =
     andthen now (\<lambda>t. poll_until E ev awaited (t + within) period err)"

definition waitAgent :: "henv \<Rightarrow> int \<Rightarrow> unit act" where
  "waitAgent E vmid =
     polling E (HRead (QRun (C_cmd ''qm'' [''guest'', ''cmd'', Itoa vmid, ''ping''])))
       (\<lambda>es. case finished E es of Inl e \<Rightarrow> None | Inr _ \<Rightarrow> Some ())
       (5 * Minute) (2 * Second) (ErrorMsg ''the guest agent didn't answer within 5 minutes'')"

definition is_ExecError :: "error \<Rightarrow> bool" where
  "is_ExecError e \<longleftrightarrow> (case e of ExecError x \<Rightarrow> True | _ \<Rightarrow> False)"

definition boot_state :: "string \<Rightarrow> unit act" where
  "boot_state out =
     (if TrimSpace out \<in> {''running'', ''degraded''} then ret () else errorf ''the VM didn't finish booting'')"

definition waitBooted :: "henv \<Rightarrow> int \<Rightarrow> unit act" where
  "waitBooted E vmid =
     next_act (waitAgent E vmid)
       (andthen (guest_answer E vmid (10 * Minute) None [''systemctl'', ''is-system-running'', ''--wait'']) (\<lambda>(out, err).
          case err of
            None \<Rightarrow> boot_state out
          | Some e \<Rightarrow>
              if is_ExecError e then boot_state out
              else fail (wrap ''the VM didn't finish booting within 10 minutes'' e)))"

text \<open>\<^verbatim>\<open>IsLinkLocalUnicast\<close> for IPv4: 169.254.0.0/16.\<close>

definition link_local :: "addr \<Rightarrow> bool" where
  "link_local a \<longleftrightarrow> octet 3 a = 169 \<and> octet 2 a = 254"

definition lan_address :: "(string \<times> (string \<times> string) list) list \<Rightarrow> addr option" where
  "lan_address ifs =
     (case concat (map (\<lambda>(name, as).
             if name = ''lo'' \<or> name = ''net1'' then []
             else concat (map (\<lambda>(typ, ip).
                    case ParseAddr4 ip of
                      None \<Rightarrow> []
                    | Some a \<Rightarrow> if typ = ''ipv4'' \<and> \<not> link_local a then [a] else []) as)) ifs) of
        [] \<Rightarrow> None
      | a # _ \<Rightarrow> Some a)"

definition interfaces_query :: "int \<Rightarrow> query" where
  "interfaces_query vmid = QRun (C_cmd ''qm'' [''guest'', ''cmd'', Itoa vmid, ''network-get-interfaces''])"

definition address_answer :: "henv \<Rightarrow> hevent list \<Rightarrow> addr option" where
  "address_answer E es = (case he_interfaces E es of Inl e \<Rightarrow> None | Inr ifs \<Rightarrow> lan_address ifs)"

definition agentIPv4 :: "henv \<Rightarrow> int \<Rightarrow> addr option act" where
  "agentIPv4 E vmid = asks E (interfaces_query vmid) (\<lambda>E es. Inr (address_answer E es))"

definition vmIPv4 :: "henv \<Rightarrow> int \<Rightarrow> addr act" where
  "vmIPv4 E vmid =
     polling E (HRead (interfaces_query vmid)) (address_answer E)
       (2 * Minute) (2 * Second) (ErrorMsg ''the VM got no IPv4 address'')"

end
