(* ===== verification/Tuning.thy ===== *)
theory Tuning
  imports Installer
begin

text \<open>
  The host's tuning on a node that is itself a VM: the LAN NICs' offloads (\<^verbatim>\<open>offloads.go\<close>) and KVM's
  async page faults (\<^verbatim>\<open>asyncpf.go\<close>), with their checks, plans and removal. What tuning writes, removing
  finds again: the udev rule names its NICs, and the kernel command line gets its parameters back.
\<close>

definition run :: "henv \<Rightarrow> installer \<Rightarrow> string \<Rightarrow> string list \<Rightarrow> unit act" where
  "run E ins name args = next_act (Changer_Run E (inDryRun ins) (C_cmd name args)) (ret ())"

datatype mode = ModeInstall | ModeCheck | ModeInstalled

text \<open>A check's result: whether it passed, and what it says.\<close>

type_synonym check_result = "bool \<times> string"

section \<open>Offloads (offloads.go)\<close>

definition offloads :: "(string \<times> string) list" where
  "offloads =
     [(''gro'', ''generic-receive-offload''), (''gso'', ''generic-segmentation-offload''),
      (''tso'', ''tcp-segmentation-offload''), (''tx'', ''tx-checksumming'')]"

definition offloadArgs :: "string \<Rightarrow> string \<Rightarrow> string list" where
  "offloadArgs nic state = [''-K'', nic] @ concat (map (\<lambda>(fl, feature). [fl, state]) offloads)"

definition offloadFlags :: string where
  "offloadFlags = Join (map fst offloads) '' ''"

definition virtioPorts :: "henv \<Rightarrow> paths \<Rightarrow> string \<Rightarrow> string list act" where
  "virtioPorts E p bridge =
     andthen (BridgePorts E p bridge) (\<lambda>ports.
       andthen (collect (\<lambda>nic. andthen (Driver E p nic) (\<lambda>d. ret (nic, d))) ports)
         (\<lambda>ds. ret (map fst (filter (\<lambda>(nic, d). d = ''virtio_net'') ds))))"

definition quote :: char where "quote = CHR 0x22"

definition quoted :: "string \<Rightarrow> string" where
  "quoted s = quote # s @ [quote]"

definition rule_line :: "string \<Rightarrow> string \<Rightarrow> string" where
  "rule_line ethtool nic =
     ''ACTION=='' @ quoted ''add'' @ '', SUBSYSTEM=='' @ quoted ''net'' @ '', NAME=='' @ quoted nic
     @ '', RUN+='' @ quoted (ethtool @ '' '' @ Join (offloadArgs nic ''off'') '' '') @ [CHR 0x0A]"

definition offloadRule :: "string \<Rightarrow> string list \<Rightarrow> string" where
  "offloadRule ethtool nics =
     ''# Written by parcon, and removed by parcon uninstall.'' @ [CHR 0x0A] @ concat (map (rule_line ethtool) nics)"

text \<open>The matches of \<^verbatim>\<open>ruleNIC\<close> from left to right: the name between the quotes after \<open>NAME==\<close>.\<close>

definition name_key :: string where "name_key = ''NAME=='' @ [quote]"

lemma cut_at_shorter: "cut_at sep s = (a, Some b) \<Longrightarrow> length b < length s"
  by (induction s arbitrary: a) (auto split: if_splits prod.splits)

lemma CutPrefix_length: "CutPrefix s p = Some r \<Longrightarrow> length r \<le> length s"
  by (simp add: CutPrefix_Some_iff)

function ruleNICs :: "string \<Rightarrow> string list" where
  "ruleNICs [] = []"
| "ruleNICs (c # s) =
     (case CutPrefix (c # s) name_key of
        None \<Rightarrow> ruleNICs s
      | Some r \<Rightarrow> (case cut_at quote r of (nic, None) \<Rightarrow> ruleNICs s | (nic, Some t) \<Rightarrow> nic # ruleNICs t))"
  by pat_completeness auto

termination
  by (relation "measure length") (auto dest!: cut_at_shorter CutPrefix_length cut_at_shorter [OF sym] CutPrefix_length [OF sym])

record offload_state =
  osNICs :: "string list"
  osNoEthtool :: bool
  osPending :: "string list"
  osEthtool :: string
  osRule :: string

definition nic_pending :: "henv \<Rightarrow> string \<Rightarrow> string list act" where
  "nic_pending E nic =
     andthen (attempt (Features E nic)) (\<lambda>r. ret
       (case r of
          Inl e \<Rightarrow> [nic @ '': can't read its offloads'']
        | Inr features \<Rightarrow>
            (let on = map snd (filter (\<lambda>(fl, feature). features feature = Some True) offloads) in
             if on \<noteq> [] then [nic @ '': '' @ Join on '' '' @ '' on''] else [])))"

definition rule_differs :: "henv \<Rightarrow> installer \<Rightarrow> string \<Rightarrow> bool act" where
  "rule_differs E ins rule =
     andthen (attempt (ReadFile E (UdevRule (inPaths ins))))
       (\<lambda>r. ret (case r of Inl e \<Rightarrow> True | Inr have \<Rightarrow> have \<noteq> rule))"

definition Offloads :: "henv \<Rightarrow> installer \<Rightarrow> settings \<Rightarrow> offload_state act" where
  "Offloads E ins s =
     andthen (virtioPorts E (inPaths ins) (nBridge (stNetwork s))) (\<lambda>nics.
       if nics = [] then ret \<lparr>osNICs = [], osNoEthtool = False, osPending = [], osEthtool = [], osRule = []\<rparr>
       else andthen (attempt (Ethtool E (inPaths ins))) (\<lambda>r.
         case r of
           Inl e \<Rightarrow> ret \<lparr>osNICs = nics, osNoEthtool = True, osPending = [], osEthtool = [], osRule = []\<rparr>
         | Inr ethtool \<Rightarrow>
             (let rule = offloadRule ethtool nics in
              andthen (rule_differs E ins rule) (\<lambda>differs.
                andthen (collect (nic_pending E) nics) (\<lambda>ps.
                  ret \<lparr>osNICs = nics, osNoEthtool = False,
                       osPending = (if differs then [''udev rule '' @ UdevRule (inPaths ins)] else []) @ concat ps,
                       osEthtool = ethtool, osRule = rule\<rparr>)))))"

definition checkOffloads :: "henv \<Rightarrow> installer \<Rightarrow> settings \<Rightarrow> mode \<Rightarrow> check_result act" where
  "checkOffloads E ins s mode =
     andthen (Offloads E ins s) (\<lambda>st. ret
       (if osNICs st = [] then (True, ''not needed: no virtio NIC on '' @ nBridge (stNetwork s))
        else if osNoEthtool st then (False, ''ethtool isn't installed, so they can't be turned off'')
        else if osPending st = [] then (True, ''off on '' @ Join (osNICs st) '' '')
        else if mode \<noteq> ModeInstall
        then (False, ''the node is a VM, and they aren't off for good ('' @ Join (osPending st) ''; ''
                     @ ''); parcon install and parcon update turn them off'')
        else (True, ''the node is a VM: they will be turned off on '' @ Join (osNICs st) '' '')))"

definition offloadPlan :: "henv \<Rightarrow> installer \<Rightarrow> settings \<Rightarrow> string list act" where
  "offloadPlan E ins s =
     andthen (Offloads E ins s) (\<lambda>st. ret
       (if osNICs st = [] \<or> osNoEthtool st \<or> osPending st = [] then []
        else [''turn off offloads ('' @ offloadFlags @ '') on '' @ Join (osNICs st) '' '' @ '', the virtio NIC under ''
              @ nBridge (stNetwork s) @ '', now and at each boot'',
              ''  (udev rule '' @ UdevRule (inPaths ins)
              @ ''): on a node that is itself a VM, they stall workers' downloads'']))"

definition tune_nic :: "henv \<Rightarrow> installer \<Rightarrow> string \<Rightarrow> string \<Rightarrow> unit act" where
  "tune_nic E ins ethtool nic =
     andthen (Features E nic) (\<lambda>features.
       if list_ex (\<lambda>(fl, feature). features feature = Some True) offloads
       then run E ins ethtool (offloadArgs nic ''off'') else ret ())"

definition tuneOffloads :: "henv \<Rightarrow> installer \<Rightarrow> settings \<Rightarrow> unit act" where
  "tuneOffloads E ins s =
     andthen (Offloads E ins s) (\<lambda>st.
       if osNICs st = [] \<or> osNoEthtool st then ret ()
       else andthen (rule_differs E ins (osRule st)) (\<lambda>differs.
         next_act (when_act differs (Changer_WriteFile E (inDryRun ins) (UdevRule (inPaths ins)) (osRule st)))
           (for_each (tune_nic E ins (osEthtool st)) (osNICs st))))"

definition offloadRemovePlan :: "henv \<Rightarrow> installer \<Rightarrow> string act" where
  "offloadRemovePlan E ins =
     andthen (attempt (ReadFile E (UdevRule (inPaths ins)))) (\<lambda>r. ret
       (case r of
          Inl e \<Rightarrow> []
        | Inr rule \<Rightarrow> ''remove the udev rule '' @ UdevRule (inPaths ins) @ '' and turn the offloads of ''
                      @ Join (ruleNICs rule) '' '' @ '' back on''))"

definition restore_nic :: "henv \<Rightarrow> installer \<Rightarrow> error + string \<Rightarrow> string \<Rightarrow> unit act" where
  "restore_nic E ins ethtool nic =
     (case ethtool of
        Inl e \<Rightarrow> ret ()
      | Inr tool \<Rightarrow>
          andthen (Exists E (inPaths ins) nic) (\<lambda>there.
            when_act there (ignoring (run E ins tool (offloadArgs nic ''on'')))))"

definition removeOffloads :: "henv \<Rightarrow> installer \<Rightarrow> unit act" where
  "removeOffloads E ins =
     andthen (attempt (ReadFile E (UdevRule (inPaths ins)))) (\<lambda>r.
       case r of
         Inl e \<Rightarrow> if errors_Is e ErrNotExist then ret () else fail e
       | Inr rule \<Rightarrow>
           andthen (attempt (Ethtool E (inPaths ins))) (\<lambda>tool.
             next_act (for_each (restore_nic E ins tool) (ruleNICs rule))
               (Changer_Remove E (inDryRun ins) (UdevRule (inPaths ins)))))"

section \<open>Async page faults (asyncpf.go)\<close>

definition noKVMAPF :: string where "noKVMAPF = ''no-kvm-apf''"

definition grubDropIn :: string where
  "grubDropIn =
     ''# Written by parcon, and removed by parcon uninstall: on a node that is itself a VM, KVM's'' @ [CHR 0x0A]
     @ ''# async page faults can panic it.'' @ [CHR 0x0A]
     @ ''GRUB_CMDLINE_LINUX='' @ quoted (''$GRUB_CMDLINE_LINUX '' @ noKVMAPF) @ [CHR 0x0A]"

definition first_line :: "string \<Rightarrow> string" where
  "first_line s = fst (cut_at (CHR 0x0A) s)"

definition other_lines :: "string \<Rightarrow> string" where
  "other_lines s = (case snd (cut_at (CHR 0x0A) s) of None \<Rightarrow> [] | Some t \<Rightarrow> t)"

definition hasNoKVMAPF :: "string \<Rightarrow> bool" where
  "hasNoKVMAPF cmdline \<longleftrightarrow> noKVMAPF \<in> set (Fields (first_line cmdline))"

record apf_state =
  apGuest :: bool
  apBooted :: bool
  apGrub :: bool
  apCmdline :: bool
  apPending :: "string list"
  apGrubLacks :: bool
  apCmdlineLacks :: bool

definition grub_lacks :: "error + string \<Rightarrow> error + string \<Rightarrow> bool" where
  "grub_lacks dropIn cfg =
     (case dropIn of
        Inl e \<Rightarrow> True
      | Inr have \<Rightarrow> have \<noteq> grubDropIn
          \<or> \<not> Contains_str (case cfg of Inl e \<Rightarrow> [] | Inr text \<Rightarrow> text) noKVMAPF)"

definition grub_state :: "henv \<Rightarrow> paths \<Rightarrow> (bool \<times> bool) act" where
  "grub_state E p =
     andthen (fileExists E (GrubDefaults p)) (\<lambda>grub.
       if \<not> grub then ret (False, False)
       else andthen (attempt (ReadFile E (GrubDropIn p))) (\<lambda>dropIn.
         andthen (attempt (ReadFile E (GrubCfg p))) (\<lambda>cfg. ret (True, grub_lacks dropIn cfg))))"

definition cmdline_state :: "henv \<Rightarrow> paths \<Rightarrow> (bool \<times> bool) act" where
  "cmdline_state E p =
     andthen (attempt (ReadFile E (KernelCmdline p))) (\<lambda>r. ret
       (case r of Inl e \<Rightarrow> (False, False) | Inr kc \<Rightarrow> (True, \<not> hasNoKVMAPF kc)))"

definition AsyncPF :: "henv \<Rightarrow> installer \<Rightarrow> apf_state act" where
  "AsyncPF E ins =
     (let p = inPaths ins in
      andthen (KVMGuest E) (\<lambda>guest.
        if \<not> guest
        then ret \<lparr>apGuest = False, apBooted = False, apGrub = False, apCmdline = False, apPending = [],
                  apGrubLacks = False, apCmdlineLacks = False\<rparr>
        else andthen (or_else (ReadFile E (ProcCmdline p)) []) (\<lambda>running.
          andthen (grub_state E p) (\<lambda>(grub, grubLacks).
          andthen (cmdline_state E p) (\<lambda>(cmdline, cmdlineLacks).
            (let pending = (if grubLacks then [GrubDropIn p @ '' and update-grub''] else [])
                           @ (if cmdlineLacks then [KernelCmdline p] else []) in
             andthen (if pending \<noteq> [] then fileExists E (BootUUIDs p) else ret False) (\<lambda>refresh.
               ret \<lparr>apGuest = True, apBooted = hasNoKVMAPF running, apGrub = grub, apCmdline = cmdline,
                    apPending = pending @ (if refresh then [''proxmox-boot-tool refresh''] else []),
                    apGrubLacks = grubLacks, apCmdlineLacks = cmdlineLacks\<rparr>)))))))"

definition checkAsyncPF :: "henv \<Rightarrow> installer \<Rightarrow> mode \<Rightarrow> check_result act" where
  "checkAsyncPF E ins mode =
     andthen (AsyncPF E ins) (\<lambda>st. ret
       (if \<not> apGuest st then (True, ''not needed: the node isn't a VM on KVM'')
        else if \<not> apGrub st \<and> \<not> apCmdline st
        then (False, ''the node is a VM on KVM, and they can panic it, but it has neither GRUB nor ''
                     @ KernelCmdline (inPaths ins) @ '' to turn them off with; boot it with '' @ noKVMAPF)
        else if apPending st = [] \<and> apBooted st then (True, ''off: the node booted with '' @ noKVMAPF)
        else if apPending st = []
        then (False, noKVMAPF @ '' is set, and turns them off once the node reboots; reboot it when no job runs'')
        else if mode = ModeInstall
        then (True, ''the node is a VM on KVM: '' @ noKVMAPF @ '' will turn them off from its next boot'')
        else (False, ''the node is a VM on KVM, and they can panic it ('' @ Join (apPending st) '', ''
                     @ '' left to set); parcon install and parcon update turn them off'')))"

definition asyncPFPlan :: "henv \<Rightarrow> installer \<Rightarrow> string list act" where
  "asyncPFPlan E ins =
     andthen (AsyncPF E ins) (\<lambda>st. ret
       (if apPending st = [] then []
        else [''turn off KVM async page faults from the next boot: add '' @ noKVMAPF
              @ '' to the kernel command line ('' @ Join (apPending st) '', '' @ '')'',
              ''  on a node that is itself a VM, they can panic it; parcon doesn't reboot the node, you do'']))"

definition edited_cmdline :: "(string list \<Rightarrow> string list) \<Rightarrow> string \<Rightarrow> string" where
  "edited_cmdline edit kc = Join (edit (Fields (first_line kc))) '' '' @ CHR 0x0A # other_lines kc"

definition editCmdline :: "henv \<Rightarrow> installer \<Rightarrow> (string list \<Rightarrow> string list) \<Rightarrow> unit act" where
  "editCmdline E ins edit =
     (let path = KernelCmdline (inPaths ins) in
      next_act (asks E (QStat path) he_stat)
        (andthen (ReadFile E path) (\<lambda>kc. Changer_WriteFile E (inDryRun ins) path (edited_cmdline edit kc))))"

definition add_param :: "string list \<Rightarrow> string list" where
  "add_param params = params @ [noKVMAPF]"

definition drop_param :: "string list \<Rightarrow> string list" where
  "drop_param params = filter (\<lambda>s. s \<noteq> noKVMAPF) params"

definition refresh_boot :: "henv \<Rightarrow> installer \<Rightarrow> unit act" where
  "refresh_boot E ins =
     andthen (fileExists E (BootUUIDs (inPaths ins)))
       (\<lambda>there. when_act there (run E ins ''proxmox-boot-tool'' [''refresh'']))"

definition tuneAsyncPF :: "henv \<Rightarrow> installer \<Rightarrow> unit act" where
  "tuneAsyncPF E ins =
     (let p = inPaths ins in
      andthen (AsyncPF E ins) (\<lambda>st.
        if \<not> apGuest st \<or> (apPending st = [] \<and> apBooted st) then ret ()
        else if \<not> apGrub st \<and> \<not> apCmdline st then ret ()
        else if apPending st = [] then ret ()
        else next_act
          (when_act (apGrubLacks st)
            (andthen (attempt (ReadFile E (GrubDropIn p))) (\<lambda>have.
              next_act
                (when_act (case have of Inl e \<Rightarrow> True | Inr text \<Rightarrow> text \<noteq> grubDropIn)
                  (Changer_WriteFile E (inDryRun ins) (GrubDropIn p) grubDropIn))
                (run E ins ''update-grub'' []))))
          (next_act (when_act (apCmdlineLacks st) (editCmdline E ins add_param)) (refresh_boot E ins))))"

definition asyncPFRemovePlan :: "henv \<Rightarrow> installer \<Rightarrow> string act" where
  "asyncPFRemovePlan E ins =
     (let p = inPaths ins in
      andthen (fileExists E (GrubDropIn p)) (\<lambda>grub.
        andthen (attempt (ReadFile E (KernelCmdline p))) (\<lambda>kc. ret
          (let what = (if grub then [''remove '' @ GrubDropIn p @ '' and run update-grub''] else [])
                 @ (case kc of
                      Inl e \<Rightarrow> []
                    | Inr text \<Rightarrow>
                        if hasNoKVMAPF text then [''take '' @ noKVMAPF @ '' out of '' @ KernelCmdline p] else []) in
           if what = [] then []
           else Join what '', '' @ '': KVM async page faults come back on at the next boot''))))"

definition removeAsyncPF :: "henv \<Rightarrow> installer \<Rightarrow> unit act" where
  "removeAsyncPF E ins =
     (let p = inPaths ins in
      andthen (fileExists E (GrubDropIn p)) (\<lambda>grub.
        andthen (attempt (ReadFile E (KernelCmdline p))) (\<lambda>kc.
          (let cmdline = (case kc of Inl e \<Rightarrow> False | Inr text \<Rightarrow> hasNoKVMAPF text) in
           if \<not> grub \<and> \<not> cmdline then ret ()
           else next_act
             (when_act grub
               (next_act (Changer_Remove E (inDryRun ins) (GrubDropIn p))
                 (andthen (fileExists E (GrubDefaults p)) (\<lambda>there. when_act there (run E ins ''update-grub'' [])))))
             (next_act (when_act cmdline (editCmdline E ins drop_param)) (refresh_boot E ins))))))"

section \<open>Reading the rule back\<close>

lemma name_key_quote:
  assumes "quote \<notin> set c" and "CutPrefix (c @ quote # s) name_key = Some r"
  shows "c = ''NAME=='' \<and> r = s"
proof -
  have "c @ quote # s = ''NAME=='' @ quote # r"
    using assms(2) unfolding CutPrefix_Some_iff name_key_def by simp
  moreover have "quote \<notin> set ''NAME==''" by (simp add: quote_def)
  ultimately show ?thesis using cut_at_found [OF assms(1), of s] cut_at_found [of quote "''NAME==''" r]
    by (metis Pair_inject option.inject)
qed

lemma ruleNICs_skip:
  assumes "quote \<notin> set c" and "\<not> HasSuffix c ''NAME==''"
  shows "ruleNICs (c @ quote # s) = ruleNICs s"
  using assms
proof (induction c)
  case Nil
  have "CutPrefix (quote # s) name_key = None"
    by (simp add: CutPrefix_def name_key_def quote_def)
  then show ?case by simp
next
  case (Cons a c)
  have "CutPrefix ((a # c) @ quote # s) name_key = None"
  proof (rule ccontr)
    assume "CutPrefix ((a # c) @ quote # s) name_key \<noteq> None"
    then have "a # c = ''NAME==''" using name_key_quote [OF Cons.prems(1), of s] by auto
    with Cons.prems(2) show False by (simp add: HasPrefix_prefix)
  qed
  moreover have "\<not> HasSuffix c ''NAME==''"
    using Cons.prems(2) by (auto simp: HasPrefix_prefix prefix_def)
  ultimately show ?case using Cons by simp
qed

lemma ruleNICs_take:
  assumes "quote \<notin> set nic"
  shows "ruleNICs (''NAME=='' @ quote # nic @ quote # s) = nic # ruleNICs s"
proof -
  have "CutPrefix (''NAME=='' @ quote # nic @ quote # s) name_key = Some (nic @ quote # s)"
    by (simp add: CutPrefix_Some_iff name_key_def)
  then show ?thesis using cut_at_found [OF assms, of s] by simp
qed

lemma ruleNICs_line:
  assumes "quote \<notin> set nic" and "quote \<notin> set ethtool"
  shows "ruleNICs (rule_line ethtool nic @ s) = nic # ruleNICs (CHR 0x0A # s)"
proof -
  define args where "args = ethtool @ '' '' @ Join (offloadArgs nic ''off'') '' ''"
  have args: "args = ethtool @ '' -K '' @ nic @ '' gro off gso off tso off tx off''"
    by (simp add: args_def offloadArgs_def offloads_def)
  have "quote \<notin> set args" using assms by (simp add: args quote_def)
  moreover have "\<not> HasSuffix args ''NAME==''" unfolding args by simp
  ultimately have skip: "ruleNICs (args @ CHR 0x22 # t) = ruleNICs t" for t
    using ruleNICs_skip [of args t] by (simp add: quote_def)
  have cut: "cut_at (CHR 0x22) (nic @ CHR 0x22 # t) = (nic, Some t)" for t
    using assms(1) by (simp add: cut_at_found quote_def)
  show ?thesis
    unfolding rule_line_def args_def [symmetric] quoted_def
    by (simp add: quote_def name_key_def CutPrefix_def skip cut)
qed

lemma ruleNICs_lines:
  assumes "quote \<notin> set ethtool" and "\<forall>nic\<in>set nics. quote \<notin> set nic"
  shows "ruleNICs (concat (map (rule_line ethtool) nics)) = nics"
    and "ruleNICs (CHR 0x0A # concat (map (rule_line ethtool) nics)) = nics"
proof -
  have newline: "ruleNICs (CHR 0x0A # t) = ruleNICs t" for t
    by (simp add: CutPrefix_def name_key_def)
  show "ruleNICs (concat (map (rule_line ethtool) nics)) = nics"
    using assms(2) by (induction nics) (simp_all add: ruleNICs_line [OF _ assms(1)] newline del: ruleNICs.simps(2))
  then show "ruleNICs (CHR 0x0A # concat (map (rule_line ethtool) nics)) = nics" by (simp only: newline)
qed

lemma ruleNICs_offloadRule:
  assumes "quote \<notin> set ethtool" and "\<forall>nic\<in>set nics. quote \<notin> set nic"
  shows "ruleNICs (offloadRule ethtool nics) = nics"
  using ruleNICs_lines(2) [OF assms]
  by (simp add: offloadRule_def quote_def name_key_def CutPrefix_def)

section \<open>Editing the kernel command line\<close>

lemma Fields_Join: "Fields (Join (Fields s) '' '') = Fields s"
  using FieldsFunc_clean [of _ s is_space]
  by (simp add: Fields_def FieldsFunc_Join is_space_def)

lemma Fields_add: "Fields (Join (Fields s @ [noKVMAPF]) '' '') = Fields s @ [noKVMAPF]"
proof -
  have "noKVMAPF \<noteq> [] \<and> (\<forall>c\<in>set noKVMAPF. \<not> is_space c)" by (simp add: noKVMAPF_def is_space_def)
  moreover have "is_space (CHR '' '')" by (simp add: is_space_def)
  ultimately show ?thesis
    unfolding Fields_def by (intro FieldsFunc_Join) (auto dest: FieldsFunc_clean)
qed

lemma Join_no_newline: "CHR 0x0A \<notin> set sep \<Longrightarrow> \<forall>x\<in>set xs. CHR 0x0A \<notin> set x \<Longrightarrow> CHR 0x0A \<notin> set (Join xs sep)"
  by (induction xs sep rule: Join.induct) auto

lemma edited_lines:
  assumes "\<forall>x\<in>set (edit (Fields (first_line kc))). CHR 0x0A \<notin> set x"
  shows "first_line (edited_cmdline edit kc) = Join (edit (Fields (first_line kc))) '' ''"
    and "other_lines (edited_cmdline edit kc) = other_lines kc"
  using cut_at_found [OF Join_no_newline [OF _ assms], of "'' ''"]
  by (simp_all add: edited_cmdline_def first_line_def other_lines_def)

lemma Fields_no_newline: "x \<in> set (Fields s) \<Longrightarrow> CHR 0x0A \<notin> set x"
  using FieldsFunc_clean [of x s is_space] by (auto simp: Fields_def is_space_def)

lemma added_lines:
  "first_line (edited_cmdline add_param kc) = Join (Fields (first_line kc) @ [noKVMAPF]) '' ''"
  "other_lines (edited_cmdline add_param kc) = other_lines kc"
  using edited_lines [of add_param kc] Fields_no_newline [of _ "first_line kc"]
  by (auto simp: add_param_def noKVMAPF_def)

text \<open>
  What tuning adds, uninstalling takes out again. The NICs are read back from the udev rule written for
  them. A kernel command line without \<^verbatim>\<open>no-kvm-apf\<close> has it once it is added, with its other parameters and
  the other lines as they were, and taking it out again gives the same parameters and lines back.
\<close>
theorem tuning_round_trip:
  assumes "CHR 0x22 \<notin> set ethtool" and "\<forall>nic\<in>set nics. CHR 0x22 \<notin> set nic" and "\<not> hasNoKVMAPF kc"
  shows "ruleNICs (offloadRule ethtool nics) = nics
    \<and> hasNoKVMAPF (edited_cmdline add_param kc)
    \<and> other_lines (edited_cmdline add_param kc) = other_lines kc
    \<and> edited_cmdline drop_param (edited_cmdline add_param kc) = edited_cmdline (\<lambda>params. params) kc
    \<and> Fields (first_line (edited_cmdline (\<lambda>params. params) kc)) = Fields (first_line kc)
    \<and> other_lines (edited_cmdline (\<lambda>params. params) kc) = other_lines kc"
proof -
  have nics: "ruleNICs (offloadRule ethtool nics) = nics"
    using assms(1,2) by (intro ruleNICs_offloadRule) (auto simp: quote_def)
  have kept: "filter (\<lambda>s. s \<noteq> noKVMAPF) (Fields (first_line kc)) = Fields (first_line kc)"
    using assms(3) by (auto simp: hasNoKVMAPF_def filter_id_conv)
  have same: "\<forall>x\<in>set (Fields (first_line kc)). CHR 0x0A \<notin> set x" using Fields_no_newline by blast
  have "edited_cmdline drop_param (edited_cmdline add_param kc) = edited_cmdline (\<lambda>params. params) kc"
    by (simp add: edited_cmdline_def [of drop_param] edited_cmdline_def [of "\<lambda>params. params"] added_lines Fields_add
        drop_param_def kept)
  then show ?thesis
    using nics edited_lines [of "\<lambda>params. params" kc] same
    by (simp add: hasNoKVMAPF_def added_lines Fields_add Fields_Join)
qed

theorem tuning_round_trip_witness:
  "ruleNICs (offloadRule ''/usr/sbin/ethtool'' [''nic0'', ''nic1'']) = [''nic0'', ''nic1'']
   \<and> hasNoKVMAPF (edited_cmdline add_param ''root=ZFS=rpool  boot=zfs'')
   \<and> edited_cmdline drop_param (edited_cmdline add_param ''root=ZFS=rpool  boot=zfs'')
       = ''root=ZFS=rpool boot=zfs'' @ [CHR 0x0A]"
proof -
  have "\<not> hasNoKVMAPF ''root=ZFS=rpool  boot=zfs''"
    by (simp add: go_eval hasNoKVMAPF_def first_line_def Fields_def noKVMAPF_def)
  then show ?thesis
    using tuning_round_trip [of "''/usr/sbin/ethtool''" "[''nic0'', ''nic1'']" "''root=ZFS=rpool  boot=zfs''"]
    by (simp add: go_eval edited_cmdline_def [of "\<lambda>params. params"] first_line_def other_lines_def Fields_def)
qed

end
