(* ===== verification/Preflight.thy ===== *)
theory Preflight
  imports Tuning
begin

text \<open>
  \<^verbatim>\<open>internal/installer/preflight.go\<close>: the checks before an install and for \<^verbatim>\<open>parcon check\<close>. They only read the
  host. A passed subnet check means that the worker subnet shares no address with the host's networks, and
  a passed VMID check that no foreign VM is in the range.
\<close>

section \<open>Overlapping prefixes\<close>

text \<open>\<^verbatim>\<open>netip.Prefix.Overlaps\<close> for valid IPv4 prefixes.\<close>

definition network_at :: "nat \<Rightarrow> addr \<Rightarrow> addr" where
  "network_at bits a = pAddr (Masked \<lparr>pAddr = a, pBits = bits\<rparr>)"

definition Overlaps :: "prefix4 \<Rightarrow> prefix4 \<Rightarrow> bool" where
  "Overlaps p q \<longleftrightarrow>
     p = q
     \<or> (let minBits = (if pBits p < pBits q then pBits p else pBits q) in
        minBits = 0 \<or> network_at minBits (pAddr p) = network_at minBits (pAddr q))"

text \<open>The addresses of a prefix: those with the same network part.\<close>

definition in_prefix :: "addr \<Rightarrow> prefix4 \<Rightarrow> bool" where
  "in_prefix a p \<longleftrightarrow> network_at (pBits p) a = network_at (pBits p) (pAddr p)"

section \<open>Checks\<close>

datatype level = Hard | Warn

record check =
  cLevel :: level
  cDesc :: string
  cOK :: bool
  cReason :: string

definition check_String :: "check \<Rightarrow> string" where
  "check_String c =
     (let label = (if \<not> cOK c \<and> cLevel c = Hard then ''FAIL '' else if \<not> cOK c then ''WARN '' else ''ok   '') in
      if cReason c = [] then label @ '' '' @ cDesc c else label @ '' '' @ cDesc c @ '': '' @ cReason c)"

definition Failed :: "check list \<Rightarrow> bool" where
  "Failed checks \<longleftrightarrow> list_ex (\<lambda>c. \<not> cOK c \<and> cLevel c = Hard) checks"

definition check_Warnings :: "check list \<Rightarrow> check list" where
  "check_Warnings checks = filter (\<lambda>c. \<not> cOK c \<and> cLevel c = Warn) checks"

definition passes :: "string \<Rightarrow> check_result" where "passes reason = (True, reason)"
definition fails :: "string \<Rightarrow> check_result" where "fails reason = (False, reason)"

text \<open>What a failing read makes of a check: its error as the reason. Only its presence matters here.\<close>

definition checked :: "'a act \<Rightarrow> ('a \<Rightarrow> check_result act) \<Rightarrow> check_result act" where
  "checked m f = andthen (attempt m) (\<lambda>r. case r of Inl e \<Rightarrow> ret (fails ''error'') | Inr x \<Rightarrow> f x)"

definition checkRoot :: "henv \<Rightarrow> check_result act" where
  "checkRoot E =
     andthen (or_else (asks E QUser he_int) 1)
       (\<lambda>uid. ret (if uid \<noteq> 0 then fails ''run it as root'' else passes []))"

definition checkPVE9 :: "henv \<Rightarrow> check_result act" where
  "checkPVE9 E =
     andthen (PVEVersion E) (\<lambda>r. ret
       (case r of
          Inl e \<Rightarrow> fails ''pveversion not found''
        | Inr v \<Rightarrow> if HasPrefix v ''pve-manager/9.'' then passes v else fails v))"

definition checkPVENode :: "henv \<Rightarrow> installer \<Rightarrow> check_result act" where
  "checkPVENode E ins =
     andthen (attempt (asks E (QStat (PVEDir (inPaths ins) @ ''/nodes'')) he_stat)) (\<lambda>r.
       if (case r of Inl e \<Rightarrow> True | Inr (isDir, isExec) \<Rightarrow> \<not> isDir)
       then ret (fails (PVEDir (inPaths ins) @ '' isn't mounted''))
       else andthen (InContainer E) (\<lambda>c. ret (if c then fails ''running in a container'' else passes [])))"

definition checkExists :: "henv \<Rightarrow> string \<Rightarrow> check_result act" where
  "checkExists E path =
     andthen (fileExists E path) (\<lambda>there. ret (if there then passes [] else fails (path @ '' is missing'')))"

definition checkTools :: "henv \<Rightarrow> check_result act" where
  "checkTools E =
     andthen (collect (\<lambda>tool. andthen (succeeds (asks E (QTool tool) he_text)) (\<lambda>found. ret (tool, found)))
                [''qm'', ''pveum'', ''pvesh'', ''pvesm'', ''ip''])
       (\<lambda>found. ret
          (let missing = map fst (filter (\<lambda>(tool, there). \<not> there) found) in
           if missing \<noteq> [] then fails (''missing '' @ Join missing '' '') else passes []))"

definition checkStandalone :: "henv \<Rightarrow> installer \<Rightarrow> check_result act" where
  "checkStandalone E ins =
     andthen (fileExists E (PVEDir (inPaths ins) @ ''/corosync.conf''))
       (\<lambda>there. ret (if there then fails ''this node is in a cluster; clusters aren't supported'' else passes []))"

definition checkClock :: "henv \<Rightarrow> check_result act" where
  "checkClock E =
     andthen (NTPSynced E) (\<lambda>synced. ret
       (if synced then passes []
        else fails ''the clock isn't synchronized; GitHub App tokens fail when it drifts''))"

definition httpsHosts :: "string list" where
  "httpsHosts = [''github.com'', ''api.github.com'', ''objects.githubusercontent.com'', ''release-assets.githubusercontent.com'']"

definition checkHTTPS :: "henv \<Rightarrow> check_result act" where
  "checkHTTPS E =
     andthen (collect (\<lambda>h. andthen (succeeds (asks E (QReach h) finished)) (\<lambda>there. ret (h, there))) httpsHosts)
       (\<lambda>found. ret
          (let failed = map fst (filter (\<lambda>(h, there). \<not> there) found) in
           if failed \<noteq> [] then fails (''can't reach '' @ Join failed '' '') else passes []))"

definition inst_storage :: "henv \<Rightarrow> settings \<Rightarrow> storage_status act" where
  "inst_storage E s =
     andthen (nodeName E) (\<lambda>node.
       mapping_error (\<lambda>_. ErrorMsg ''no such storage on this node'')
         (pve_Storage E node (spStorage (stProxmox s))))"

definition checkStorage :: "henv \<Rightarrow> settings \<Rightarrow> check_result act" where
  "checkStorage E s =
     checked (inst_storage E s) (\<lambda>st. ret
       (if stActive st = 0 \<or> stEnabled st = 0 then fails (spStorage (stProxmox s) @ '' isn't active'')
        else if ''images'' \<notin> set (Split (CHR '','') (stContent st))
        then fails (spStorage (stProxmox s) @ '' doesn't accept VM disks (content images)'')
        else passes (stType st)))"

definition linkedCloneTypes :: "string list" where
  "linkedCloneTypes = [''lvmthin'', ''zfspool'', ''rbd'', ''dir'', ''nfs'', ''cifs'', ''glusterfs'', ''btrfs'']"

definition linkedClones :: "henv \<Rightarrow> settings \<Rightarrow> (bool \<times> string) act" where
  "linkedClones E s =
     andthen (attempt (inst_storage E s)) (\<lambda>r. ret
       (case r of Inl e \<Rightarrow> (False, []) | Inr st \<Rightarrow> (stType st \<in> set linkedCloneTypes, stType st)))"

definition checkLinkedClones :: "henv \<Rightarrow> settings \<Rightarrow> check_result act" where
  "checkLinkedClones E s =
     andthen (linkedClones E s) (\<lambda>(ok, typ). ret
       (if ok then passes []
        else fails (typ @ '' storage can't make linked clones; workers will be full clones (slower, more space)'')))"

definition space_result :: "int \<Rightarrow> int \<Rightarrow> check_result" where
  "space_result avail need = (need \<le> avail, Itoa avail @ '' GiB free, '' @ Itoa need @ '' GiB needed'')"

definition checkFreeSpace :: "henv \<Rightarrow> settings \<Rightarrow> check_result act" where
  "checkFreeSpace E s = checked (inst_storage E s) (\<lambda>st. ret (space_result (stAvail st div 2 ^ 30) FreeGiB_needed))"

definition checkDownloadSpace :: "henv \<Rightarrow> check_result act" where
  "checkDownloadSpace E = checked (FreeGiB E DownloadDir) (\<lambda>avail. ret (space_result avail DownloadGiB))"

definition systemVMsMiB :: int where "systemVMsMiB = 1024 + 2048"

definition memory_need :: "settings \<Rightarrow> vm list \<Rightarrow> int" where
  "memory_need s vs =
     (let used = fold (\<lambda>v n. if \<not> Template v \<and> Pool v \<noteq> SystemPool \<and> Pool v \<noteq> RunnerPool
                             then wrap64 (n + MaxMemBytes v) else n) vs 0 in
      wrap64 (used div 2 ^ 20 + wrap64 (sMaxRunners (stScaleSet s) * MemoryMiB (EffectiveWorker s)) + systemVMsMiB))"

definition checkMemory :: "henv \<Rightarrow> installer \<Rightarrow> settings \<Rightarrow> check_result act" where
  "checkMemory E ins s =
     checked (MemTotalMiB E (inPaths ins)) (\<lambda>mem.
       checked (vms E) (\<lambda>vs. ret
         (memory_need s vs \<le> mem,
          Itoa mem @ '' MiB RAM, '' @ Itoa (memory_need s vs) @ '' MiB allocated to VMs with ''
          @ Itoa (sMaxRunners (stScaleSet s)) @ '' workers'')))"

definition checkBridge :: "henv \<Rightarrow> installer \<Rightarrow> settings \<Rightarrow> check_result act" where
  "checkBridge E ins s =
     andthen (IsBridge E (inPaths ins) (nBridge (stNetwork s))) (\<lambda>bridge.
       if \<not> bridge then ret (fails (''no bridge '' @ nBridge (stNetwork s)))
       else checked (pveAddress E s) (\<lambda>a. ret (passes (addr_String a))))"

definition checkTLS :: "henv \<Rightarrow> check_result act" where
  "checkTLS E =
     checked (asks E QTLS he_tls) (\<lambda>(info, ca). ret
       (case tiMode info of
          TLSNodeCA \<Rightarrow> passes ''the node's own certificate, verified against the node's CA''
        | TLSSystem \<Rightarrow> passes (''a certificate the system CAs trust, verified as '' @ tiServerName info)
        | TLSPin \<Rightarrow> fails ''a certificate from a CA the host doesn't trust''))"

definition blank :: "char \<Rightarrow> bool" where
  "blank c \<longleftrightarrow> c = CHR '' '' \<or> c = CHR 0x09"

definition sourceInterfacesD :: "string \<Rightarrow> bool" where
  "sourceInterfacesD text \<longleftrightarrow>
     list_ex (\<lambda>l.
       case CutPrefix (dropWhile blank l) ''source'' of
         None \<Rightarrow> False
       | Some r \<Rightarrow> r \<noteq> [] \<and> blank (hd r) \<and> HasPrefix (dropWhile blank r) ''/etc/network/interfaces.d/*'')
       (Split (CHR 0x0A) text)"

definition checkSDN :: "henv \<Rightarrow> installer \<Rightarrow> check_result act" where
  "checkSDN E ins =
     andthen (PackageInstalled E ''ifupdown2'') (\<lambda>there.
       if \<not> there then ret (fails ''ifupdown2 isn't installed'')
       else andthen (attempt (ReadFile E (Interfaces (inPaths ins)))) (\<lambda>r. ret
         (if (case r of Inl e \<Rightarrow> True | Inr text \<Rightarrow> \<not> sourceInterfacesD text)
          then fails (Interfaces (inPaths ins) @ '' doesn't source /etc/network/interfaces.d/*'') else passes [])))"

text \<open>The prefixes the worker subnet must not overlap: the host's addresses and foreign routes, then the LAN.\<close>

definition taken_prefixes :: "net_addr list \<Rightarrow> net_route list \<Rightarrow> prefix4 list" where
  "taken_prefixes as rs = map naPrefix as @ map nrDst (filter (\<lambda>r. nrDev r \<noteq> inst_VNet) rs)"

definition lan_prefixes :: "settings \<Rightarrow> prefix4 list" where
  "lan_prefixes s =
     concat (map (\<lambda>v. case ParsePrefix4 v of None \<Rightarrow> [] | Some p \<Rightarrow> [p])
       [nGatewayIP (stNetwork s), nControllerIP (stNetwork s)])"

definition checkWorkerSubnet :: "henv \<Rightarrow> settings \<Rightarrow> check_result act" where
  "checkWorkerSubnet E s =
     (case ParsePrefix4 (nWorkerSubnet (stNetwork s)) of
        None \<Rightarrow> ret (fails ''not a subnet'')
      | Some subnet \<Rightarrow>
          checked (Addrs E) (\<lambda>as. checked (Routes E) (\<lambda>rs. ret
            (case filter (Overlaps subnet) (taken_prefixes as rs) of
               p # _ \<Rightarrow> fails (prefix_String subnet @ '' overlaps '' @ prefix_String p
                                @ '' on this host; choose another with --worker-subnet'')
             | [] \<Rightarrow>
                 (case filter (Overlaps subnet) (lan_prefixes s) of
                    p # _ \<Rightarrow> fails (prefix_String subnet @ '' overlaps the LAN '' @ prefix_String p)
                  | [] \<Rightarrow> passes [])))))"

definition ours :: "henv \<Rightarrow> bool act" where
  "ours E = andthen (Pools E) (\<lambda>pools. ret (list_ex (\<lambda>(i, comment). i = SystemPool \<and> comment = PoolComment) pools))"

definition checkNames :: "henv \<Rightarrow> mode \<Rightarrow> check_result act" where
  "checkNames E mode =
     checked (ours E) (\<lambda>own.
       if own then ret (passes (if mode = ModeInstall then ''found an earlier install; continuing it'' else ''ours''))
       else andthen (SDNExists E (''zones/'' @ inst_Zone)) (\<lambda>zone.
         andthen (SDNExists E (''vnets/'' @ inst_VNet)) (\<lambda>vnet.
         andthen (or_else (Pools E) []) (\<lambda>pools.
         andthen (or_else (Roles E) []) (\<lambda>roles.
         andthen (or_else (Users E) []) (\<lambda>users. ret
           (let taken = (if zone then [''SDN zone '' @ inst_Zone] else [])
                  @ (if vnet then [''SDN VNet '' @ inst_VNet] else [])
                  @ map (\<lambda>(i, c). ''pool '' @ i) (filter (\<lambda>(i, c). i = RunnerPool \<or> i = SystemPool) pools)
                  @ (if Role \<in> set roles then [''role '' @ Role] else [])
                  @ (if PVEUser \<in> set users then [''user '' @ PVEUser] else []) in
            if taken \<noteq> [] then fails (''already exist and weren't created by parcon: '' @ Join taken '', '')
            else passes [])))))))"

definition vmid_clashes :: "settings \<Rightarrow> vm list \<Rightarrow> vm list" where
  "vmid_clashes s vs = filter (\<lambda>v. Contains (spVMIDRange (stProxmox s)) (VMID v) \<and> Pool v \<noteq> RunnerPool) vs"

definition checkVMIDs :: "henv \<Rightarrow> settings \<Rightarrow> check_result act" where
  "checkVMIDs E s =
     checked (vms E) (\<lambda>vs. ret
       (let clash = map (\<lambda>v. Itoa (VMID v)) (vmid_clashes s vs) in
        if clash \<noteq> []
        then fails (''VMIDs '' @ Join clash '' '' @ '' belong to other VMs; choose another range with --vmid-range'')
        else passes []))"

definition checkPendingSDN :: "henv \<Rightarrow> check_result act" where
  "checkPendingSDN E =
     checked (PendingSDN E [inst_Zone, inst_VNet]) (\<lambda>pending. ret
       (if pending \<noteq> []
        then fails (''pending SDN changes to '' @ Join pending '' ''
                    @ '' would be applied too; apply or revert them first'')
        else passes []))"

section \<open>All checks\<close>

definition preflight_checks :: "henv \<Rightarrow> installer \<Rightarrow> settings \<Rightarrow> mode \<Rightarrow> (level \<times> string \<times> check_result act) list" where
  "preflight_checks E ins s mode =
     [(Hard, ''running as root'', checkRoot E),
      (Hard, ''Proxmox VE 9.x'', checkPVE9 E),
      (Hard, ''running on a Proxmox VE node'', checkPVENode E ins),
      (Hard, ''KVM available'', checkExists E (KVM (inPaths ins))),
      (Hard, ''required tools present'', checkTools E),
      (Hard, ''standalone node'', checkStandalone E ins),
      (Hard, ''clock synchronized'', checkClock E),
      (Hard, ''outbound HTTPS to GitHub'', checkHTTPS E),
      (Hard, ''storage '' @ spStorage (stProxmox s), checkStorage E s),
      (Warn, ''linked clones on '' @ spStorage (stProxmox s), checkLinkedClones E s),
      (Hard, ''free space on '' @ spStorage (stProxmox s), checkFreeSpace E s),
      (Hard, ''free space for downloads in '' @ DownloadDir, checkDownloadSpace E),
      (Warn, ''memory'', checkMemory E ins s),
      (Hard, ''LAN bridge '' @ nBridge (stNetwork s), checkBridge E ins s),
      (Warn, ''LAN NIC offloads'', checkOffloads E ins s mode),
      (Warn, ''KVM async page faults'', checkAsyncPF E ins mode),
      (Warn, ''API certificate'', checkTLS E),
      (Hard, ''SDN available'', checkSDN E ins),
      (Hard, ''worker subnet '' @ nWorkerSubnet (stNetwork s) @ '' free'', checkWorkerSubnet E s),
      (Hard, ''names free'', checkNames E mode),
      (Hard, ''VMIDs '' @ Itoa (RangeStart (spVMIDRange (stProxmox s))) @ ''-''
             @ Itoa (RangeEnd (spVMIDRange (stProxmox s))) @ '' free'', checkVMIDs E s),
      (Hard, ''no pending SDN changes'', checkPendingSDN E)]"

definition Preflight :: "henv \<Rightarrow> installer \<Rightarrow> settings \<Rightarrow> mode \<Rightarrow> check list act" where
  "Preflight E ins s mode =
     collect (\<lambda>(lvl, desc, fn). andthen fn (\<lambda>(ok, reason). ret \<lparr>cLevel = lvl, cDesc = desc, cOK = ok, cReason = reason\<rparr>))
       (filter (\<lambda>(lvl, desc, fn). \<not> (mode = ModeInstalled \<and> HasPrefix desc ''free space''))
         (preflight_checks E ins s mode))"

section \<open>The checks only read\<close>

lemma nodeName_reads [reading]: "emits is_read (nodeName E)"
  unfolding emits_iff
proof
  fix w
  obtain es where "hTrace (snd (NodeName E w)) = es @ hTrace w" and "list_all is_read es"
    using emitsE [OF pve_reads(1), of E w] by blast
  then show "(\<exists>es. hTrace (snd (nodeName E w)) = es @ hTrace w \<and> list_all is_read es)
      \<and> (hNode w \<noteq> [] \<longrightarrow> hNode (snd (nodeName E w)) = hNode w)"
    by (auto simp: nodeName_def andthen_def split: prod.splits sum.splits)
qed

lemma vms_reads [reading]:
  "emits is_read (vms E)" "emits is_read (systemVM E tag)" "emits is_read (InstalledRelease E)"
  "emits is_read (settings_Load E path)" "emits is_read (loadSettings E ins)" "emits is_read (pveAddress E s)"
  "emits is_read (node_limits E ins)" "emits is_read (agentIPv4 E vmid)" "emits is_read (errorf msg)"
  unfolding vms_def systemVM_def InstalledRelease_def settings_Load_def loadSettings_def pveAddress_def
    node_limits_def agentIPv4_def errorf_def
  by (intro emits_rules reading)+

lemma tuning_reads [reading]:
  "emits is_read (virtioPorts E p bridge)" "emits is_read (nic_pending E nic)"
  "emits is_read (rule_differs E ins rule)" "emits is_read (offloadRemovePlan E ins)"
  "emits is_read (grub_state E p)" "emits is_read (cmdline_state E p)" "emits is_read (asyncPFRemovePlan E ins)"
  unfolding virtioPorts_def nic_pending_def rule_differs_def offloadRemovePlan_def grub_state_def
    cmdline_state_def asyncPFRemovePlan_def
  by (intro emits_rules reading)+

lemma tuning_states_read [reading]: "emits is_read (Offloads E ins s)" "emits is_read (AsyncPF E ins)"
  unfolding Offloads_def AsyncPF_def by (intro emits_rules reading)+

lemma tuning_plans_read [reading]:
  "emits is_read (checkOffloads E ins s mode)" "emits is_read (offloadPlan E ins s)"
  "emits is_read (checkAsyncPF E ins mode)" "emits is_read (asyncPFPlan E ins)"
  unfolding checkOffloads_def offloadPlan_def checkAsyncPF_def asyncPFPlan_def by (intro emits_rules reading)+

lemma checked_reads: "emits is_read m \<Longrightarrow> (\<And>x. emits is_read (f x)) \<Longrightarrow> emits is_read (checked m f)"
  unfolding checked_def by (intro emits_rules)

lemma storage_reads [reading]: "emits is_read (inst_storage E s)" "emits is_read (linkedClones E s)"
  unfolding inst_storage_def linkedClones_def by (intro emits_rules reading)+

lemma host_checks_read [reading]:
  "emits is_read (checkRoot E)" "emits is_read (checkPVE9 E)" "emits is_read (checkPVENode E ins)"
  "emits is_read (checkExists E path)" "emits is_read (checkTools E)" "emits is_read (checkStandalone E ins)"
  "emits is_read (checkClock E)" "emits is_read (checkHTTPS E)" "emits is_read (checkSDN E ins)"
  "emits is_read (checkLinkedClones E s)"
  unfolding checkRoot_def checkPVE9_def checkPVENode_def checkExists_def checkTools_def checkStandalone_def
    checkClock_def checkHTTPS_def checkSDN_def checkLinkedClones_def
  by (intro emits_rules reading)+

lemma ours_reads [reading]: "emits is_read (ours E)"
  unfolding ours_def by (intro emits_rules reading)

lemma node_checks_read [reading]:
  "emits is_read (checkStorage E s)" "emits is_read (checkFreeSpace E s)" "emits is_read (checkDownloadSpace E)"
  "emits is_read (checkMemory E ins s)" "emits is_read (checkBridge E ins s)" "emits is_read (checkTLS E)"
  "emits is_read (checkWorkerSubnet E s)" "emits is_read (checkNames E mode)" "emits is_read (checkVMIDs E s)"
  "emits is_read (checkPendingSDN E)"
  unfolding checkStorage_def checkFreeSpace_def checkDownloadSpace_def checkMemory_def checkBridge_def checkTLS_def
    checkWorkerSubnet_def checkNames_def checkVMIDs_def checkPendingSDN_def
  by (intro emits_rules reading checked_reads)+

lemma preflight_checks_read: "list_all (\<lambda>(lvl, desc, fn). emits is_read fn) (preflight_checks E ins s mode)"
  unfolding preflight_checks_def by (simp add: reading)

lemma Preflight_reads [reading]: "emits is_read (Preflight E ins s mode)"
  unfolding Preflight_def using preflight_checks_read [of E ins s mode]
  by (intro emits_rules) (auto simp: list_all_iff)

section \<open>The worker subnet\<close>

lemma network_at_eq: "network_at n a = network_at n b \<longleftrightarrow> drop_bit (32 - n) a = drop_bit (32 - n) b"
proof -
  have "push_bit m (drop_bit m x) = x AND NOT (mask m)" for m and x :: addr
    by (rule bit_eqI) (auto simp: bit_simps)
  then have masked: "network_at n x = push_bit (32 - n) (drop_bit (32 - n) x)" for x
    by (simp add: network_at_def Masked_def)
  have "drop_bit m (push_bit m (drop_bit m x)) = drop_bit m x" for m and x :: addr
    by (rule bit_eqI) (auto simp: bit_simps dest: bit_imp_le_length)
  then show ?thesis unfolding masked by metis
qed

lemma network_at_shorter:
  assumes "m \<le> n" and "network_at n a = network_at n b"
  shows "network_at m a = network_at m b"
proof -
  have "drop_bit (32 - m) x = drop_bit (n - m - (n - 32)) (drop_bit (32 - n) x)" for x :: addr
    using assms(1) by (cases "n \<le> 32") (simp_all add: drop_bit_drop_bit)
  then show ?thesis using assms(2) unfolding network_at_eq by metis
qed

lemma network_at_0: "network_at 0 a = network_at 0 b"
proof -
  have "drop_bit 32 x = 0" for x :: addr by (rule bit_eqI) (auto simp: bit_simps dest: bit_imp_le_length)
  then show ?thesis by (simp add: network_at_eq)
qed

lemma Overlaps_iff: "Overlaps p q \<longleftrightarrow> (\<exists>a. in_prefix a p \<and> in_prefix a q)"
proof -
  define m where "m = (if pBits p < pBits q then pBits p else pBits q)"
  have le: "m \<le> pBits p" "m \<le> pBits q" by (simp_all add: m_def)
  have "Overlaps p q \<longleftrightarrow> network_at m (pAddr p) = network_at m (pAddr q)"
    using network_at_0 unfolding Overlaps_def Let_def m_def [symmetric] by metis
  also have "\<dots> \<longleftrightarrow> (\<exists>a. in_prefix a p \<and> in_prefix a q)"
  proof
    assume eq: "network_at m (pAddr p) = network_at m (pAddr q)"
    show "\<exists>a. in_prefix a p \<and> in_prefix a q"
      using eq unfolding in_prefix_def m_def by (cases "pBits p < pBits q") metis+
  next
    assume "\<exists>a. in_prefix a p \<and> in_prefix a q"
    then obtain a where "network_at (pBits p) a = network_at (pBits p) (pAddr p)"
      and "network_at (pBits q) a = network_at (pBits q) (pAddr q)" unfolding in_prefix_def by blast
    then show "network_at m (pAddr p) = network_at m (pAddr q)" using network_at_shorter le by metis
  qed
  finally show ?thesis .
qed

definition disjoint_from :: "prefix4 \<Rightarrow> prefix4 list \<Rightarrow> bool" where
  "disjoint_from subnet ps \<longleftrightarrow> (\<nexists>p a. p \<in> set ps \<and> in_prefix a subnet \<and> in_prefix a p)"

lemma no_overlap_iff: "filter (Overlaps subnet) ps = [] \<longleftrightarrow> disjoint_from subnet ps"
  by (auto simp: disjoint_from_def filter_empty_conv Overlaps_iff)

definition addrs_query :: hevent where
  "addrs_query = HRead (QRun (C_cmd ''ip'' [''-j'', ''-4'', ''addr'', ''show'']))"

definition routes_query :: hevent where
  "routes_query = HRead (QRun (C_cmd ''ip'' [''-j'', ''-4'', ''route'', ''show'']))"

text \<open>
  The worker subnet check passes exactly when the setting is a subnet that shares no address with any
  network of the host, neither an address' network on any interface, nor a route other than the worker
  VNet's own, nor the LAN of a static gateway or controller address; it fails when the host's addresses or
  routes cannot be read.
\<close>
theorem worker_subnet_free:
  "map_sum (\<lambda>e. ()) fst (fst (checkWorkerSubnet E s w)) = Inr
     (case (he_addrs E (addrs_query # hTrace w), he_routes E (routes_query # addrs_query # hTrace w)) of
        (Inr as, Inr rs) \<Rightarrow>
          (\<exists>subnet. ParsePrefix4 (nWorkerSubnet (stNetwork s)) = Some subnet
             \<and> disjoint_from subnet (taken_prefixes (host_addrs as) (host_routes rs) @ lan_prefixes s))
      | _ \<Rightarrow> False)"
proof -
  have split: "disjoint_from subnet (ps @ qs) \<longleftrightarrow> disjoint_from subnet ps \<and> disjoint_from subnet qs" for subnet ps qs
    by (auto simp: disjoint_from_def)
  show ?thesis
    unfolding checkWorkerSubnet_def
    by (auto simp: checked_def andthen_def attempt_def ret_def Addrs_def Routes_def reads_def asks_def event_def emit_def
        fails_def passes_def addrs_query_def routes_query_def split no_overlap_iff [symmetric]
        split: option.splits sum.splits list.splits)
qed

end
