(* ===== verification/Steps.thy ===== *)
theory Steps
  imports Preflight Access
begin

text \<open>
  \<^verbatim>\<open>internal/installer/steps.go\<close> and \<^verbatim>\<open>systemvm.go\<close>: the steps that create the Proxmox objects, the worker
  network, the runner template, and the gateway and controller VMs. Every step checks what exists, so a
  re-run continues. A release's assets are their verified checksums; fetching them, with the temporary
  directory it uses, is one event, and so is getting one verified file.
\<close>

section \<open>Access and network (steps.go)\<close>

definition privileges :: string where
  "privileges =
     Join (remdups_adj (sort (concat (map Privileges (RequiredPrivileges RunnerPool ''storage'' inst_Zone inst_VNet)))))
       '',''"

definition createAccess :: "henv \<Rightarrow> installer \<Rightarrow> unit act" where
  "createAccess E ins =
     andthen (Pools E) (\<lambda>pools.
       next_act
         (for_each (\<lambda>pool. when_act (pool \<notin> fst ` set pools)
            (run E ins ''pveum'' [''pool'', ''add'', pool, ''--comment'', PoolComment])) [SystemPool, RunnerPool])
         (andthen (Roles E) (\<lambda>roles.
           next_act (run E ins ''pveum'' [''role'', if Role \<in> set roles then ''modify'' else ''add'', Role,
                       ''--privs'', privileges])
             (andthen (Users E) (\<lambda>users.
               when_act (PVEUser \<notin> set users)
                 (run E ins ''pveum'' [''user'', ''add'', PVEUser, ''--comment'',
                   ''proxmox-actions-runners controller'']))))))"

definition grantACLs :: "henv \<Rightarrow> installer \<Rightarrow> settings \<Rightarrow> unit act" where
  "grantACLs E ins s =
     for_each (\<lambda>path. run E ins ''pveum'' [''acl'', ''modify'', path, ''--users'', PVEUser, ''--tokens'',
                 PVEUser @ ''!'' @ TokenName, ''--roles'', Role])
       [''/pool/'' @ RunnerPool, ''/storage/'' @ spStorage (stProxmox s), ''/sdn/zones/'' @ inst_Zone @ ''/'' @ inst_VNet]"

definition sdn_create :: "henv \<Rightarrow> installer \<Rightarrow> string \<Rightarrow> string list \<Rightarrow> bool act" where
  "sdn_create E ins obj args =
     andthen (SDNExists E obj) (\<lambda>there.
       if there then ret False else next_act (run E ins ''pvesh'' args) (ret True))"

definition createNetwork :: "henv \<Rightarrow> installer \<Rightarrow> unit act" where
  "createNetwork E ins =
     andthen (sdn_create E ins (''zones/'' @ inst_Zone)
                [''create'', ''/cluster/sdn/zones'', ''--type'', ''simple'', ''--zone'', inst_Zone]) (\<lambda>zone.
     andthen (sdn_create E ins (''vnets/'' @ inst_VNet)
                [''create'', ''/cluster/sdn/vnets'', ''--vnet'', inst_VNet, ''--zone'', inst_Zone]) (\<lambda>vnet.
     next_act (when_act (zone \<or> vnet) (run E ins ''pvesh'' [''set'', ''/cluster/sdn'']))
       (if inDryRun ins then ret ()
        else polling E (HRead (QStat (SysNet (inPaths ins) @ ''/'' @ inst_VNet)))
               (\<lambda>es. case he_stat E es of Inl e \<Rightarrow> None | Inr _ \<Rightarrow> Some ())
               Minute Second (ErrorMsg ''the VNet didn't come up after applying the SDN config''))))"

section \<open>Release assets and the runner template (steps.go)\<close>

definition runnerImage :: "version \<Rightarrow> string" where "runnerImage v = ''par-runner-'' @ version_String v @ ''.qcow2''"
definition runnerManifest :: "version \<Rightarrow> string" where "runnerManifest v = ''par-runner-'' @ version_String v @ ''.json''"
definition gatewayImage :: "version \<Rightarrow> string" where "gatewayImage v = ''par-gateway-'' @ version_String v @ ''.qcow2''"
definition controllerImage :: "version \<Rightarrow> string" where "controllerImage v = ''parcon-'' @ version_String v @ ''.qcow2''"
definition BinaryAsset :: "version \<Rightarrow> string" where "BinaryAsset v = ''parcon-'' @ version_String v @ ''-linux-amd64''"

type_synonym release_assets = "string \<rightharpoonup> string"

definition inst_assets :: "henv \<Rightarrow> installer \<Rightarrow> release_assets act" where
  "inst_assets E ins =
     asks E (QFetch (if inAssets ins \<noteq> [] then inAssets ins else version_Tag (inVersion ins))) he_sums"

definition inst_get :: "henv \<Rightarrow> string \<Rightarrow> string act" where
  "inst_get E name = asks E (QAsset name) he_text"

definition runnerVersion :: "henv \<Rightarrow> string \<Rightarrow> string act" where
  "runnerVersion E path =
     andthen (ReadFile E path) (\<lambda>data.
       case he_builds E data of
         None \<Rightarrow> errorf ''not a Packer manifest''
       | Some builds \<Rightarrow>
           if builds = [] then errorf ''not a Packer manifest''
           else if last builds = [] then errorf ''the manifest names no runner version''
           else ret (last builds))"

definition freeReservedVMID :: "vm list \<Rightarrow> vmid_range \<Rightarrow> int option" where
  "freeReservedVMID vs r =
     find (\<lambda>i. \<not> list_ex (\<lambda>v. VMID v = i) vs) [RangeEnd r - ReservedVMIDs + 1 .. RangeEnd r]"

definition reservedVMID :: "vm list \<Rightarrow> settings \<Rightarrow> int act" where
  "reservedVMID vs s =
     (case freeReservedVMID vs (spVMIDRange (stProxmox s)) of
        None \<Rightarrow> errorf ''no free VMID in the reserved IDs''
      | Some i \<Rightarrow> ret i)"

definition destroy_args :: "int \<Rightarrow> string list" where
  "destroy_args vmid = [''destroy'', Itoa vmid, ''--purge'', ''1'']"

text \<open>What the loop over this release's VMs leaves: none to import, or the VMs still there.\<close>

fun template_scan :: "henv \<Rightarrow> installer \<Rightarrow> bool \<Rightarrow> vm list \<Rightarrow> vm list \<Rightarrow> vm list option act" where
  "template_scan E ins again [] vs = ret (Some vs)"
| "template_scan E ins again (t # ts) vs =
     (if Template t then (if \<not> again then ret None else template_scan E ins again ts vs)
      else next_act (run E ins ''qm'' (destroy_args (VMID t) @ [''--destroy-unreferenced-disks'', ''1'']))
             (template_scan E ins again ts (filter (\<lambda>v. VMID v \<noteq> VMID t) vs)))"

definition template_tags :: "installer \<Rightarrow> time \<Rightarrow> string \<Rightarrow> string" where
  "template_tags ins t rv =
     Join [Managed, TemplateTag, TemplateVersionPrefix @ FormatInt (unix_of t) 10, RunnerVersionPrefix @ rv, releaseTag ins]
       '';''"

definition dots_to_dashes :: "string \<Rightarrow> string" where
  "dots_to_dashes s = map (\<lambda>c. if c = CHR ''.'' then CHR ''-'' else c) s"

definition import_cmds :: "installer \<Rightarrow> settings \<Rightarrow> string \<Rightarrow> string \<Rightarrow> string \<Rightarrow> string list list" where
  "import_cmds ins s vid tags img =
     [[''create'', vid, ''--name'', ''par-runner-'' @ dots_to_dashes (version_String (inVersion ins)), ''--pool'',
       RunnerPool, ''--memory'', ''2048'', ''--cores'', ''2'', ''--cpu'', ''host'', ''--ostype'', ''l26'', ''--scsihw'',
       ''virtio-scsi-single'', ''--net0'', ''virtio,bridge='' @ inst_VNet, ''--agent'', ''enabled=1'', ''--serial0'',
       ''socket'', ''--vga'', ''serial0'', ''--tags'', tags],
      [''set'', vid, ''--scsi0'', spStorage (stProxmox s) @ '':0,import-from='' @ img],
      [''set'', vid, ''--ide2'', spStorage (stProxmox s) @ '':cloudinit'', ''--boot'', ''order=scsi0'', ''--ipconfig0'',
       ''ip=dhcp''],
      [''template'', vid]]"

definition importTemplate :: "henv \<Rightarrow> installer \<Rightarrow> settings \<Rightarrow> bool \<Rightarrow> unit act" where
  "importTemplate E ins s again =
     andthen (vms E) (\<lambda>vs.
     andthen (template_scan E ins again (tagged vs RunnerPool (releaseTag ins)) vs) (\<lambda>left.
       case left of
         None \<Rightarrow> ret ()
       | Some vs' \<Rightarrow>
           andthen (inst_get E (runnerImage (inVersion ins))) (\<lambda>img.
           andthen (inst_get E (runnerManifest (inVersion ins))) (\<lambda>manifest.
           andthen (runnerVersion E manifest) (\<lambda>rv.
           andthen (reservedVMID vs' s) (\<lambda>vmid.
           andthen now (\<lambda>t.
             for_each (run E ins ''qm'') (import_cmds ins s (Itoa vmid) (template_tags ins t rv) img))))))))"

section \<open>Gateway and controller VMs (systemvm.go)\<close>

record vm_spec =
  specName :: string
  specCores :: int
  specMemoryMiB :: int
  specDiskGiB :: int
  specTags :: "string list"
  specNet0 :: string
  specIpconfig0 :: string
  specNet1 :: string

definition gatewaySpec :: "version \<Rightarrow> string \<Rightarrow> string \<Rightarrow> string \<Rightarrow> vm_spec" where
  "gatewaySpec v net0 ipconfig0 net1 =
     \<lparr>specName = ''par-gateway'', specCores = 1, specMemoryMiB = 1024, specDiskGiB = GatewayGiB,
      specTags = [Managed, Gateway, ReleasePrefix @ version_String v],
      specNet0 = net0, specIpconfig0 = ipconfig0, specNet1 = net1\<rparr>"

definition netConfig :: "settings \<Rightarrow> string" where
  "netConfig s =
     ''virtio,bridge='' @ nBridge (stNetwork s)
     @ (if nVLAN (stNetwork s) \<noteq> 0 then '',tag='' @ Itoa (nVLAN (stNetwork s)) else [])"

definition ipConfig :: "settings \<Rightarrow> string \<Rightarrow> string" where
  "ipConfig s a = (if a = DHCP then ''ip=dhcp'' else ''ip='' @ a @ '',gw='' @ nLANGateway (stNetwork s))"

definition controllerSpec :: "settings \<Rightarrow> vm_spec" where
  "controllerSpec s =
     \<lparr>specName = ''par-controller'', specCores = 2, specMemoryMiB = 2048, specDiskGiB = ControllerGiB,
      specTags = [Managed, Controller], specNet0 = netConfig s,
      specIpconfig0 = ipConfig s (nControllerIP (stNetwork s)), specNet1 = []\<rparr>"

definition system_cmds :: "string \<Rightarrow> vm_spec \<Rightarrow> string \<Rightarrow> string \<Rightarrow> string list list" where
  "system_cmds vid spec img storage =
     [[''create'', vid, ''--name'', specName spec, ''--pool'', SystemPool, ''--memory'', Itoa (specMemoryMiB spec),
       ''--cores'', Itoa (specCores spec), ''--cpu'', ''host'', ''--ostype'', ''l26'', ''--scsihw'', ''virtio-scsi-single'',
       ''--net0'', specNet0 spec, ''--agent'', ''enabled=1'', ''--onboot'', ''1'', ''--serial0'', ''socket'', ''--vga'',
       ''serial0'', ''--tags'', Join (specTags spec) '';'']
        @ (if specNet1 spec \<noteq> [] then [''--net1'', specNet1 spec] else []),
      [''set'', vid, ''--scsi0'', storage @ '':0,import-from='' @ img],
      [''set'', vid, ''--ide2'', storage @ '':cloudinit'', ''--boot'', ''order=scsi0'', ''--ipconfig0'', specIpconfig0 spec,
       ''--ciupgrade'', ''0''],
      [''start'', vid]]"

definition createSystemVM :: "henv \<Rightarrow> installer \<Rightarrow> int \<Rightarrow> vm_spec \<Rightarrow> string \<Rightarrow> string \<Rightarrow> unit act" where
  "createSystemVM E ins vmid spec img storage =
     for_each (run E ins ''qm'') (system_cmds (Itoa vmid) spec img storage)"

text \<open>The first free ID from \<open>i\<close> on; one of the next \<open>n\<close> is free when fewer VMs than that are listed.\<close>

fun free_above :: "nat \<Rightarrow> vm list \<Rightarrow> int \<Rightarrow> int" where
  "free_above 0 vs i = i"
| "free_above (Suc n) vs i = (if list_ex (\<lambda>v. VMID v = i) vs then free_above n vs (i + 1) else i)"

definition systemVMID :: "henv \<Rightarrow> settings \<Rightarrow> int act" where
  "systemVMID E s =
     (let r = spVMIDRange (stProxmox s) in
      andthen (NextID E) (\<lambda>i.
        if \<not> Contains r i then ret i
        else andthen (vms E) (\<lambda>vs. ret (free_above (Suc (length vs)) vs (RangeEnd r + 1)))))"

definition existingSystemVM :: "henv \<Rightarrow> installer \<Rightarrow> string \<Rightarrow> int option act" where
  "existingSystemVM E ins tag =
     andthen (systemVM E tag) (\<lambda>found.
       case found of
         None \<Rightarrow> ret None
       | Some v \<Rightarrow>
           andthen (nodeName E) (\<lambda>node.
           andthen (VMConfig E node (VMID v)) (\<lambda>cfg.
             if cfg ''scsi0'' = None then next_act (run E ins ''qm'' (destroy_args (VMID v))) (ret None)
             else next_act (when_act (Status v \<noteq> ''running'') (run E ins ''qm'' [''start'', Itoa (VMID v)]))
                    (ret (Some (VMID v))))))"

definition is_loopback :: "addr \<Rightarrow> bool" where
  "is_loopback a \<longleftrightarrow> octet 3 a = 127"

definition blocked_prefixes :: "settings \<Rightarrow> net_addr list \<Rightarrow> addr option \<Rightarrow> addr option \<Rightarrow> string list" where
  "blocked_prefixes s as pve controller =
     remdups_adj (sort
       (concat (map (\<lambda>a. (if naDev a = nBridge (stNetwork s) then [prefix_String (Masked (naPrefix a))] else [])
                        @ (if \<not> is_loopback (pAddr (naPrefix a)) then [addr_String (pAddr (naPrefix a))] else [])) as)
        @ (case pve of None \<Rightarrow> [] | Some a \<Rightarrow> [addr_String a])
        @ (case controller of None \<Rightarrow> [] | Some a \<Rightarrow> [addr_String a])
        @ (case ParsePrefix4 (nControllerIP (stNetwork s)) of None \<Rightarrow> [] | Some p \<Rightarrow> [addr_String (pAddr p)])))"

definition gatewayBlock :: "henv \<Rightarrow> settings \<Rightarrow> addr option \<Rightarrow> string list act" where
  "gatewayBlock E s controller =
     andthen (Addrs E) (\<lambda>as.
     andthen (attempt (pveAddress E s)) (\<lambda>pve. ret
       (blocked_prefixes s as (case pve of Inl e \<Rightarrow> None | Inr a \<Rightarrow> Some a) controller)))"

definition gateway_input :: "settings \<Rightarrow> string list \<Rightarrow> string" where
  "gateway_input s block =
     ''WORKER_SUBNET='' @ nWorkerSubnet (stNetwork s) @ [CHR 0x0A] @ ''BLOCK='' @ Join block '' '' @ [CHR 0x0A]"

definition configureGateway :: "henv \<Rightarrow> installer \<Rightarrow> int \<Rightarrow> settings \<Rightarrow> addr option \<Rightarrow> unit act" where
  "configureGateway E ins vmid s controller =
     andthen (gatewayBlock E s controller) (\<lambda>block.
     next_act (Log E (''gateway VM '' @ Itoa vmid @ '': par-gateway-configure''))
       (if inDryRun ins then ret ()
        else next_act
          (mapping_error (wrap ''configuring the gateway failed'')
            (guestExec E vmid (3 * Minute) (Some (gateway_input s block)) [''/usr/local/sbin/par-gateway-configure'']))
          (next_act
            (mapping_error (wrap ''the gateway VM can't reach GitHub'')
              (guestExec E vmid (30 * Second) None
                [''curl'', ''-sS'', ''-o'', ''/dev/null'', ''--max-time'', ''10'', ''https://api.github.com/'']))
            (ret ()))))"

text \<open>The VM with the tag, or a new one from its image.\<close>

definition ensureSystemVM :: "henv \<Rightarrow> installer \<Rightarrow> settings \<Rightarrow> string \<Rightarrow> vm_spec \<Rightarrow> string \<Rightarrow> int act" where
  "ensureSystemVM E ins s tag spec img =
     andthen (existingSystemVM E ins tag) (\<lambda>found.
       case found of
         Some vmid \<Rightarrow> ret vmid
       | None \<Rightarrow>
           andthen (systemVMID E s) (\<lambda>vmid.
           andthen (inst_get E img) (\<lambda>path.
             next_act (createSystemVM E ins vmid spec path (spStorage (stProxmox s))) (ret vmid))))"

definition createGateway :: "henv \<Rightarrow> installer \<Rightarrow> settings \<Rightarrow> int act" where
  "createGateway E ins s =
     andthen (ensureSystemVM E ins s Gateway
                (gatewaySpec (inVersion ins) (netConfig s) (ipConfig s (nGatewayIP (stNetwork s)))
                  (''virtio,bridge='' @ inst_VNet)) (gatewayImage (inVersion ins))) (\<lambda>vmid.
       next_act (waitBooted E vmid) (next_act (configureGateway E ins vmid s None) (ret vmid)))"

definition createController :: "henv \<Rightarrow> installer \<Rightarrow> settings \<Rightarrow> int \<Rightarrow> (int \<times> addr) act" where
  "createController E ins s gateway =
     andthen (ensureSystemVM E ins s Controller (controllerSpec s) (controllerImage (inVersion ins))) (\<lambda>vmid.
       next_act (waitBooted E vmid)
         (andthen (mapping_error (wrap ''the controller VM got no IPv4 address'') (vmIPv4 E vmid)) (\<lambda>a.
           next_act (configureGateway E ins gateway s (Some a)) (ret (vmid, a)))))"

end
