(* ===== verification/Provision.thy ===== *)
theory Provision
  imports Steps
begin

text \<open>
  \<^verbatim>\<open>internal/installer/controller.go\<close> and \<^verbatim>\<open>smoke.go\<close>: the controller VM's configuration, its API token, the
  GitHub App, starting it, and the worker network check with its throw-away clone. What the person types and
  what commands in the VM print comes from the \<open>henv\<close>, and so does the random state of the App flow.
\<close>

section \<open>The controller's configuration (controller.go)\<close>

definition inst_env :: "henv \<Rightarrow> settings \<Rightarrow> (set_env \<times> string) act" where
  "inst_env E s =
     andthen (nodeName E) (\<lambda>node.
     andthen (pveAddress E s) (\<lambda>a.
     andthen (asks E QTLS he_tls) (\<lambda>(info, ca).
     andthen (linkedClones E s) (\<lambda>(linked, typ).
       ret (\<lparr>enNode = node, enPVEAddress = a, enTLS = info, enLinkedClone = linked\<rparr>, ca)))))"

definition RenderConfig :: "henv \<Rightarrow> settings \<Rightarrow> (string \<times> set_env \<times> string) act" where
  "RenderConfig E s =
     andthen (inst_env E s) (\<lambda>(env, ca).
       case ControllerConfig (he_host E) (he_writeConfig E) (he_readConfig E) s env of
         Inl e \<Rightarrow> errorf ''the settings don't render a config''
       | Inr (parsed, data) \<Rightarrow> ret (data, env, ca))"

definition next_path :: string where "next_path = config_DefaultPath @ ''.new''"

definition check_argv :: "string list" where
  "check_argv = [''parcon'', ''check'', ''config'', ''-config'', next_path]"

definition replace_argv :: "string list" where
  "replace_argv = [''mv'', next_path, config_DefaultPath]"

definition install_config :: "henv \<Rightarrow> int \<Rightarrow> unit act" where
  "install_config E vmid =
     andthen (guest_answer E vmid Minute None (parcon_argv check_argv)) (\<lambda>(out, err).
       case err of
         Some e \<Rightarrow>
           next_act (ignoring (asParcon E vmid (30 * Second) None [''rm'', ''-f'', next_path]))
             (fail (wrap ''the controller's parcon refuses the new config'' e))
       | None \<Rightarrow>
           mapping_error (wrap ''replace the controller's config'')
             (next_act (asParcon E vmid (30 * Second) None replace_argv) (ret ())))"

definition pushConfig :: "henv \<Rightarrow> installer \<Rightarrow> int \<Rightarrow> settings \<Rightarrow> unit act" where
  "pushConfig E ins vmid s =
     andthen (RenderConfig E s) (\<lambda>(data, env, ca).
     next_act (when_act (tiMode (enTLS env) = TLSNodeCA) (writeControllerFile E ins vmid config_CACertFile ca))
     (next_act (writeControllerFile E ins vmid next_path data)
     (next_act (Log E (''controller VM '' @ Itoa vmid @ '': parcon check config, then mv''))
       (if inDryRun ins then ret () else install_config E vmid))))"

definition ensureToken :: "henv \<Rightarrow> installer \<Rightarrow> int \<Rightarrow> unit act" where
  "ensureToken E ins vmid =
     andthen (or_else (Tokens E PVEUser) []) (\<lambda>tokens.
     andthen (if TokenName \<in> set tokens
              then andthen (succeeds (asParcon E vmid (30 * Second) None [''test'', ''-s'', config_TokenSecretFile])) (\<lambda>held.
                if held then ret True
                else next_act (run E ins ''pveum'' [''user'', ''token'', ''remove'', PVEUser, TokenName]) (ret False))
              else ret False) (\<lambda>held.
       if held then ret ()
       else andthen (Changer_Run E (inDryRun ins) (C_cmd ''pveum'' [''user'', ''token'', ''add'', PVEUser, TokenName,
                ''--privsep'', ''1'', ''--comment'', ''proxmox-actions-runners controller'', ''--output-format'', ''json''])) (\<lambda>out.
         if inDryRun ins then ret ()
         else if he_token E out = [] then errorf ''creating the API token returned no secret''
         else writeControllerFile E ins vmid config_TokenSecretFile (he_token E out @ [CHR 0x0A]))))"

definition configureController :: "henv \<Rightarrow> installer \<Rightarrow> int \<Rightarrow> settings \<Rightarrow> unit act" where
  "configureController E ins vmid s =
     next_act (pushConfig E ins vmid s)
     (next_act (ensureToken E ins vmid)
     (next_act (grantACLs E ins s)
       (mapping_error (wrap ''parcon check proxmox failed in the controller VM'')
         (next_act (asParcon E vmid Minute None [''parcon'', ''check'', ''proxmox'']) (ret ())))))"

section \<open>The GitHub App (controller.go)\<close>

datatype app_mode = AppManifest | AppManual

definition saveAndPush :: "henv \<Rightarrow> installer \<Rightarrow> int \<Rightarrow> settings \<Rightarrow> unit act" where
  "saveAndPush E ins vmid s = next_act (saveSettings E ins s) (pushConfig E ins vmid s)"

definition installationTarget :: "henv \<Rightarrow> installation \<Rightarrow> string \<Rightarrow> string act" where
  "installationTarget E inst wanted =
     (let base = ''https://github.com/'' @ iAccount inst; repos = iRepositories inst in
      if iAccountType inst = ''Organization'' then ret base
      else case repos of
        [] \<Rightarrow> errorf ''the App is installed on a personal account without a repository''
      | [r] \<Rightarrow> ret (base @ ''/'' @ r)
      | _ \<Rightarrow>
          if list_ex (\<lambda>r. wanted = base @ ''/'' @ r) repos then ret wanted
          else andthen (mapping_error (\<lambda>e. if errors_Is e ErrNoTerminal
                           then ErrorMsg ''the App can reach several repositories; run parcon install again with --github-url'' else e)
                         (event E (HAsk ''Which one do the runners serve?'') he_int)) (\<lambda>i.
            if 0 \<le> i \<and> i < int (length repos) then ret (base @ ''/'' @ repos ! nat i)
            else errorf ''panic: index out of range''))"

definition createApp :: "henv \<Rightarrow> int \<Rightarrow> (string \<times> string) act" where
  "createApp E vmid =
     andthen (or_else (ReadFile E ''/dev/urandom'') []) (\<lambda>state.
     andthen (mapping_error (\<lambda>e. if errors_Is e ErrNoTerminal
                 then ErrorMsg ''creating the GitHub App needs a terminal'' else e)
                (event E (HAsk ''Line from the page'') he_text)) (\<lambda>line.
       case cut_at (CHR ''.'') (TrimSpace line) of
         (got, None) \<Rightarrow> errorf ''that line isn't from this install's link; run parcon install again''
       | (got, Some code) \<Rightarrow>
           if got \<noteq> state \<or> code = [] then errorf ''that line isn't from this install's link; run parcon install again''
           else andthen (mapping_error (wrap ''creating the GitHub App failed'')
                   (asParcon E vmid Minute (Some (code @ [CHR 0x0A])) [''parcon'', ''github'', ''app'', ''create''])) (\<lambda>out.
             case he_app E out of
               None \<Rightarrow> errorf ''parcon github app create printed something else''
             | Some (clientID, slug) \<Rightarrow>
                 if clientID = [] then errorf ''parcon github app create printed something else''
                 else ret (clientID, slug))))"

definition importAppKey :: "henv \<Rightarrow> int \<Rightarrow> unit act" where
  "importAppKey E vmid =
     andthen (mapping_error (\<lambda>e. if errors_Is e ErrNoTerminal
                 then ErrorMsg ''--app manual reads the App's private key from the terminal'' else e)
                (event E (HAsk ''Paste the App's private key'') he_text)) (\<lambda>key.
       mapping_error (wrap ''importing the key failed'')
         (next_act (asParcon E vmid (30 * Second) (Some key) [''parcon'', ''github'', ''app'', ''import'']) (ret ())))"

definition with_app :: "settings \<Rightarrow> string \<Rightarrow> string \<Rightarrow> settings" where
  "with_app s clientID slug =
     s\<lparr>stGitHub := (stGitHub s)\<lparr>sgApp := (sgApp (stGitHub s))\<lparr>saClientID := clientID, saSlug := slug\<rparr>\<rparr>\<rparr>"

definition with_installation :: "settings \<Rightarrow> string \<Rightarrow> int \<Rightarrow> settings" where
  "with_installation s url i =
     s\<lparr>stGitHub := (stGitHub s)\<lparr>sgConfigURL := url, sgApp := (sgApp (stGitHub s))\<lparr>saInstallationID := i\<rparr>\<rparr>\<rparr>"

definition app_created :: "henv \<Rightarrow> installer \<Rightarrow> int \<Rightarrow> settings \<Rightarrow> app_mode \<Rightarrow> string \<Rightarrow> settings act" where
  "app_created E ins vmid s mode clientID =
     (if saClientID (sgApp (stGitHub s)) \<noteq> [] then ret s
      else andthen
        (case mode of
           AppManual \<Rightarrow> next_act (importAppKey E vmid) (ret (clientID, saSlug (sgApp (stGitHub s))))
         | AppManifest \<Rightarrow> createApp E vmid) (\<lambda>(i, slug).
        let s' = with_app s i slug in next_act (saveAndPush E ins vmid s') (ret s')))"

definition app_installed :: "henv \<Rightarrow> installer \<Rightarrow> int \<Rightarrow> settings \<Rightarrow> settings act" where
  "app_installed E ins vmid s =
     (if saInstallationID (sgApp (stGitHub s)) \<noteq> 0 then ret s
      else andthen (mapping_error (wrap ''the App wasn't installed; run parcon install again to keep waiting'')
             (asParcon E vmid (16 * Minute) None [''parcon'', ''github'', ''app'', ''wait-installation'', ''-client-id'',
                saClientID (sgApp (stGitHub s))])) (\<lambda>out.
        case he_installation E out of
          None \<Rightarrow> errorf ''parcon github app wait-installation printed something else''
        | Some inst \<Rightarrow>
            if iInstallationID inst = 0 then errorf ''parcon github app wait-installation printed something else''
            else andthen (installationTarget E inst (sgConfigURL (stGitHub s))) (\<lambda>target.
              if sgConfigURL (stGitHub s) \<noteq> [] \<and> sgConfigURL (stGitHub s) \<noteq> target
              then errorf ''the App is installed elsewhere than --github-url''
              else (let s' = with_installation s target (iInstallationID inst) in
                    if Validate (he_host E) s' \<noteq> [] then errorf ''invalid settings''
                    else next_act (saveAndPush E ins vmid s') (ret s')))))"

definition setupApp :: "henv \<Rightarrow> installer \<Rightarrow> int \<Rightarrow> settings \<Rightarrow> app_mode \<Rightarrow> string \<Rightarrow> settings act" where
  "setupApp E ins vmid s mode clientID =
     andthen (app_created E ins vmid s mode clientID) (\<lambda>s1.
     andthen (app_installed E ins vmid s1) (\<lambda>s2.
       next_act (mapping_error (wrap ''parcon check github failed in the controller VM'')
                  (asParcon E vmid Minute None [''parcon'', ''check'', ''github'']))
         (ret s2)))"

section \<open>Starting the controller (controller.go)\<close>

definition startController :: "henv \<Rightarrow> int \<Rightarrow> time act" where
  "startController E vmid =
     andthen now (\<lambda>started.
     next_act (Log E (''controller VM '' @ Itoa vmid @ '': systemctl enable --now parcon.service''))
     (next_act (mapping_error (wrap ''starting parcon.service failed'')
                 (guestExec E vmid Minute None [''systemctl'', ''enable'', ''--now'', ''parcon.service'']))
       (ret started)))"

definition session_argv :: "time \<Rightarrow> string list" where
  "session_argv since =
     [''journalctl'', ''-u'', ''parcon.service'', ''--since'', ''@'' @ FormatInt (unix_of since) 10, ''-o'', ''cat'']"

text \<open>The answer of a command in a VM, as \<open>guestExec\<close> gives it.\<close>

definition guest_output :: "henv \<Rightarrow> hevent list \<Rightarrow> string option" where
  "guest_output E es =
     (case he_exec E es of
        (err, Inr (res, exited)) \<Rightarrow>
          if exited \<and> ExitCode res = 0 \<and> Signal res = 0 then Some (Stdout res) else None
      | (err, Inl e) \<Rightarrow> None)"

definition session_opened :: "henv \<Rightarrow> hevent list \<Rightarrow> bool" where
  "session_opened E es \<longleftrightarrow>
     (case guest_output E es of None \<Rightarrow> False | Some out \<Rightarrow> Contains_str out ''scale set session opened'')"

definition waitSession :: "henv \<Rightarrow> int \<Rightarrow> time \<Rightarrow> duration \<Rightarrow> unit act" where
  "waitSession E vmid since within =
     polling E (HGuest vmid (30 * Second) (session_argv since) None)
       (\<lambda>es. if session_opened E es then Some () else None)
       within (5 * Second) (ErrorMsg ''the controller didn't open its scale set session'')"

section \<open>The worker network check (smoke.go)\<close>

definition destroy_listed :: "henv \<Rightarrow> installer \<Rightarrow> vm \<Rightarrow> unit act" where
  "destroy_listed E ins v =
     next_act (when_act (Status v = ''running'')
                (ignoring (run E ins ''qm'' [''stop'', Itoa (VMID v), ''--skiplock'', ''1''])))
       (mapping_error (wrap ''destroying the VM failed'') (run E ins ''qm'' (destroy_args (VMID v))))"

definition inst_destroyVM :: "henv \<Rightarrow> installer \<Rightarrow> int \<Rightarrow> unit act" where
  "inst_destroyVM E ins vmid =
     andthen (vms E) (\<lambda>vs. for_each (destroy_listed E ins) (filter (\<lambda>v. VMID v = vmid) vs))"

definition destroyBuildVMs :: "henv \<Rightarrow> installer \<Rightarrow> unit act" where
  "destroyBuildVMs E ins =
     andthen (vms E) (\<lambda>vs. for_each (\<lambda>v. inst_destroyVM E ins (VMID v)) (tagged vs RunnerPool Build))"

definition network_failures :: "henv \<Rightarrow> int \<Rightarrow> addr \<Rightarrow> addr option \<Rightarrow> string list act" where
  "network_failures E vmid pve controller =
     andthen (succeeds (vmIPv4 E vmid)) (\<lambda>lease.
     andthen (succeeds (guestExec E vmid (30 * Second) None
                [''curl'', ''-sS'', ''-o'', ''/dev/null'', ''--max-time'', ''15'', ''https://api.github.com/''])) (\<lambda>github.
     andthen (succeeds (guestExec E vmid (30 * Second) None
                [''curl'', ''-sk'', ''-o'', ''/dev/null'', ''--max-time'', ''5'', ''https://'' @ addr_String pve @ '':8006/''])) (\<lambda>api.
     andthen (case controller of
                None \<Rightarrow> ret False
              | Some a \<Rightarrow> succeeds (guestExec E vmid (30 * Second) None
                  [''timeout'', ''5'', ''bash'', ''-c'', ''</dev/tcp/'' @ addr_String a @ ''/22''])) (\<lambda>ssh. ret
       ((if lease then [] else [''the worker got no DHCP lease''])
        @ (if github then [] else [''the worker can't reach GitHub''])
        @ (if api then [''the worker can reach the Proxmox API''] else [])
        @ (if ssh then [''the worker can reach the controller VM''] else []))))))"

definition smoke_test :: "henv \<Rightarrow> installer \<Rightarrow> settings \<Rightarrow> addr option \<Rightarrow> int \<Rightarrow> unit act" where
  "smoke_test E ins s controller vmid =
     next_act (run E ins ''qm'' [''set'', Itoa vmid, ''--tags'', Managed @ '';'' @ Build, ''--ciupgrade'', ''0''])
     (next_act (run E ins ''qm'' [''start'', Itoa vmid])
       (if inDryRun ins then ret ()
        else next_act (waitBooted E vmid)
          (andthen (pveAddress E s) (\<lambda>pve.
           andthen (network_failures E vmid pve controller) (\<lambda>failures.
             if failures \<noteq> [] then errorf (''worker network check: '' @ Join failures ''; '') else ret ())))))"

definition clone_args :: "int \<Rightarrow> int \<Rightarrow> string list" where
  "clone_args template vmid =
     [''clone'', Itoa template, Itoa vmid, ''--name'', ''par-smoke-test'', ''--pool'', RunnerPool]"

definition CheckNetwork :: "henv \<Rightarrow> installer \<Rightarrow> settings \<Rightarrow> addr option \<Rightarrow> unit act" where
  "CheckNetwork E ins s controller =
     next_act (destroyBuildVMs E ins)
     (andthen (vms E) (\<lambda>vs.
       case NewestTemplate vs RunnerPool of
         None \<Rightarrow> errorf ''there is no runner template to clone''
       | Some template \<Rightarrow>
           andthen (reservedVMID vs s) (\<lambda>vmid.
             next_act (run E ins ''qm'' (clone_args (VMID template) vmid))
               (finally_do (smoke_test E ins s controller vmid) (inst_destroyVM E ins vmid)))))"

end
