(* ===== verification/Commands.thy ===== *)
theory Commands
  imports Provision
begin

text \<open>
  The host commands: \<^verbatim>\<open>parcon install\<close> (\<^verbatim>\<open>install.go\<close>), \<^verbatim>\<open>parcon update\<close> (\<^verbatim>\<open>update.go\<close>), \<^verbatim>\<open>parcon config\<close>
  (\<^verbatim>\<open>config.go\<close>), \<^verbatim>\<open>parcon uninstall\<close> (\<^verbatim>\<open>uninstall.go\<close>) and \<^verbatim>\<open>parcon check\<close> (\<^verbatim>\<open>check.go\<close>). An upgrade is a list of
  steps that pass on the release's assets once one of them has fetched them.
\<close>

section \<open>Restarting and configuring the controller (config.go)\<close>

definition restartController :: "henv \<Rightarrow> installer \<Rightarrow> int \<Rightarrow> unit act" where
  "restartController E ins vmid =
     next_act (Log E (''controller VM '' @ Itoa vmid @ '': systemctl try-restart parcon.service''))
       (if inDryRun ins then ret ()
        else andthen now (\<lambda>restarted.
          next_act (mapping_error (wrap ''restarting the controller failed'')
                     (guestExec E vmid (ControllerStopTimeout + Minute) None [''systemctl'', ''try-restart'', ''parcon.service'']))
          (andthen (succeeds (guestExec E vmid guestTimeout None [''systemctl'', ''is-active'', ''parcon.service''])) (\<lambda>active.
            if \<not> active then ret () else waitSession E vmid restarted (5 * Minute)))))"

definition sameVersion :: "henv \<Rightarrow> installer \<Rightarrow> int \<Rightarrow> unit act" where
  "sameVersion E ins vmid =
     andthen (mapping_error (wrap ''ask the controller's parcon for its version'')
                (asParcon E vmid guestTimeout None [''parcon'', ''version''])) (\<lambda>out.
       if TrimSpace out \<noteq> version_String (inVersion ins)
       then errorf ''the controller runs another parcon than this host; run parcon update first'' else ret ())"

definition config_apply :: "henv \<Rightarrow> installer \<Rightarrow> settings \<Rightarrow> unit act" where
  "config_apply E ins s =
     andthen (systemVM E Controller) (\<lambda>found.
       case found of
         None \<Rightarrow> saveSettings E ins s
       | Some v \<Rightarrow>
           if Status v \<noteq> ''running'' then saveSettings E ins s
           else next_act (sameVersion E ins (VMID v))
             (next_act (pushConfig E ins (VMID v) s)
             (next_act (mapping_error (wrap ''the controller has the new config, but saving the settings failed'')
                         (saveSettings E ins s))
               (restartController E ins (VMID v)))))"

definition key_failure :: "key_error \<Rightarrow> error" where
  "key_failure e = (case e of LookupError u \<Rightarrow> u | ValueError name v r \<Rightarrow> ErrValue name v)"

definition SetConfig :: "henv \<Rightarrow> installer \<Rightarrow> string \<Rightarrow> string \<Rightarrow> unit act" where
  "SetConfig E ins key val =
     andthen (loadSettings E ins) (\<lambda>s.
       case Lookup (he_fraction E) key of
         Inl e \<Rightarrow> fail e
       | Inr k \<Rightarrow>
           andthen (node_limits E ins) (\<lambda>l.
             case SetKey (he_host E) (he_fraction E) s key val l of
               (Some e, s') \<Rightarrow> fail (key_failure e)
             | (None, s') \<Rightarrow>
                 if fst (kGet k s') = fst (kGet k s) then fail ErrUnchanged
                 else next_act (ignoring (node_limits E ins)) (locked E ins (config_apply E ins s'))))"

definition ApplyConfig :: "henv \<Rightarrow> installer \<Rightarrow> unit act" where
  "ApplyConfig E ins = andthen (loadSettings E ins) (\<lambda>s. locked E ins (config_apply E ins s))"

section \<open>Update (update.go)\<close>

record update_options =
  uPre :: bool
  uContinue :: bool
  uForce :: bool

definition installBinary :: "henv \<Rightarrow> installer \<Rightarrow> unit act" where
  "installBinary E ins =
     (if inSelf ins = inBinaryPath ins then ret ()
      else next_act (Log E (''install '' @ inSelf ins @ '' '' @ inBinaryPath ins))
        (if inDryRun ins then ret () else event E (HInstall (inSelf ins) (inBinaryPath ins)) finished))"

definition sameFile :: "henv \<Rightarrow> string \<Rightarrow> string \<Rightarrow> bool act" where
  "sameFile E a b =
     (if a = b then ret True
      else andthen (attempt (ReadFile E a)) (\<lambda>x. andthen (attempt (ReadFile E b)) (\<lambda>y. ret
        (case (x, y) of (Inr s, Inr t) \<Rightarrow> s = t | _ \<Rightarrow> False))))"

definition config_text :: "(string \<rightharpoonup> string) \<Rightarrow> string \<Rightarrow> string \<Rightarrow> string" where
  "config_text cfg key d = (case cfg key of None \<Rightarrow> d | Some v \<Rightarrow> if v = [] then d else v)"

definition replaceGateway :: "henv \<Rightarrow> installer \<Rightarrow> int \<Rightarrow> int \<Rightarrow> settings \<Rightarrow> unit act" where
  "replaceGateway E ins vmid controller s =
     andthen (inst_get E (gatewayImage (inVersion ins))) (\<lambda>img.
     andthen (nodeName E) (\<lambda>node.
     andthen (VMConfig E node vmid) (\<lambda>cfg.
     next_act (run E ins ''qm'' [''stop'', Itoa vmid])
     (next_act (run E ins ''qm'' (destroy_args vmid @ [''--destroy-unreferenced-disks'', ''1'']))
     (next_act (createSystemVM E ins vmid
                 (gatewaySpec (inVersion ins) (config_text cfg ''net0'' (netConfig s))
                   (config_text cfg ''ipconfig0'' (ipConfig s (nGatewayIP (stNetwork s))))
                   (config_text cfg ''net1'' (''virtio,bridge='' @ inst_VNet))) img (spStorage (stProxmox s)))
     (next_act (waitBooted E vmid)
     (andthen (agentIPv4 E controller) (\<lambda>a. configureGateway E ins vmid s a))))))))"

definition upgrade_script :: string where
  "upgrade_script =
     Join [''set -e'', ''curl -fsSL --retry 3 -o /usr/local/bin/parcon.new '' @ quoted ''$1'',
           ''echo '' @ quoted ''$2  /usr/local/bin/parcon.new'' @ '' | sha256sum -c --quiet -'',
           ''chmod 0755 /usr/local/bin/parcon.new'', ''mv /usr/local/bin/parcon.new /usr/local/bin/parcon'']
       [CHR 0x0A, CHR 0x09, CHR 0x09]"

text \<open>Asset names have no byte that a URL path escapes.\<close>

definition AssetURL :: "version \<Rightarrow> string \<Rightarrow> string" where
  "AssetURL v name =
     ''https://github.com/klponce/proxmox-actions-runners/releases/download/'' @ version_Tag v @ ''/'' @ name"

definition upgradeControllerBinary :: "henv \<Rightarrow> installer \<Rightarrow> int \<Rightarrow> release_assets \<Rightarrow> unit act" where
  "upgradeControllerBinary E ins vmid sums =
     (let name = BinaryAsset (inVersion ins) in
      case sums name of
        None \<Rightarrow> errorf ''the release has no parcon binary''
      | Some digest \<Rightarrow>
          if inAssets ins \<noteq> [] then errorf ''local assets can't give the controller VM its parcon''
          else next_act (Log E (''controller VM '' @ Itoa vmid @ '': download '' @ name))
            (if inDryRun ins then ret ()
             else mapping_error (wrap ''upgrading the controller's parcon failed'')
               (next_act (guestExec E vmid (5 * Minute) None
                  [''sh'', ''-c'', upgrade_script, ''sh'', AssetURL (inVersion ins) name, digest]) (ret ()))))"

type_synonym fetched = "release_assets option"

record upgrade_step =
  stepPlan :: string
  stepDo :: "fetched \<Rightarrow> fetched act"

definition plain_step :: "string \<Rightarrow> unit act \<Rightarrow> upgrade_step" where
  "plain_step plan m = \<lparr>stepPlan = plan, stepDo = (\<lambda>a. next_act m (ret a))\<rparr>"

definition fetching_step :: "henv \<Rightarrow> installer \<Rightarrow> string \<Rightarrow> (release_assets \<Rightarrow> unit act) \<Rightarrow> upgrade_step" where
  "fetching_step E ins plan f =
     \<lparr>stepPlan = plan,
      stepDo = (\<lambda>a. andthen (case a of Some x \<Rightarrow> ret x | None \<Rightarrow> inst_assets E ins) (\<lambda>x. next_act (f x) (ret (Some x))))\<rparr>"

primrec run_steps :: "upgrade_step list \<Rightarrow> fetched \<Rightarrow> unit act" where
  "run_steps [] a = ret ()"
| "run_steps (st # sts) a = andthen (stepDo st a) (run_steps sts)"

text \<open>The tags that mark a finished install or update.\<close>

definition tag_args :: "installer \<Rightarrow> settings \<Rightarrow> int \<Rightarrow> string list" where
  "tag_args ins s vmid = [''set'', Itoa vmid, ''--tags'', Join (specTags (controllerSpec s) @ [releaseTag ins]) '';'']"

record upgrade_facts =
  ufSame :: bool
  ufTemplate :: bool
  ufGateway :: "vm option"
  ufController :: vm
  ufVersion :: string
  ufDrift :: bool
  ufOffloads :: "string list"
  ufAsyncPF :: "string list"

definition planned_steps :: "henv \<Rightarrow> installer \<Rightarrow> settings \<Rightarrow> bool \<Rightarrow> upgrade_facts \<Rightarrow> upgrade_step list" where
  "planned_steps E ins s force u =
     (let cid = VMID (ufController u); needBinary = ufVersion u \<noteq> version_String (inVersion ins) in
      (if \<not> ufSame u then [plain_step ''install parcon'' (installBinary E ins)] else [])
      @ (if \<not> ufTemplate u \<or> force
         then [fetching_step E ins ''import the runner template'' (\<lambda>_. importTemplate E ins s force)] else [])
      @ (case ufGateway u of
           None \<Rightarrow>
             [fetching_step E ins ''create the gateway VM'' (\<lambda>_.
                andthen (createGateway E ins s) (\<lambda>vmid.
                andthen (agentIPv4 E cid) (\<lambda>a. configureGateway E ins vmid s a)))]
         | Some g \<Rightarrow>
             if force \<or> \<not> HasTag g (releaseTag ins)
             then [fetching_step E ins ''replace the gateway VM'' (\<lambda>_. replaceGateway E ins (VMID g) cid s)] else [])
      @ (if needBinary \<or> force
         then [fetching_step E ins ''replace parcon in the controller VM'' (upgradeControllerBinary E ins cid)] else [])
      @ (if needBinary \<or> ufDrift u \<or> force
         then [plain_step ''render the controller's config'' (next_act (pushConfig E ins cid s) (restartController E ins cid))]
         else [])
      @ (if ufOffloads u \<noteq> [] \<or> force then [plain_step ''turn off offloads'' (tuneOffloads E ins s)] else [])
      @ (if ufAsyncPF u \<noteq> [] \<or> force then [plain_step ''turn off async page faults'' (tuneAsyncPF E ins)] else []))"

definition tag_step :: "henv \<Rightarrow> installer \<Rightarrow> settings \<Rightarrow> int \<Rightarrow> upgrade_step" where
  "tag_step E ins s vmid = plain_step ''tag the controller VM'' (run E ins ''qm'' (tag_args ins s vmid))"

definition upgradeSteps :: "henv \<Rightarrow> installer \<Rightarrow> settings \<Rightarrow> bool \<Rightarrow> upgrade_step list act" where
  "upgradeSteps E ins s force =
     andthen (vms E) (\<lambda>vs.
       let gateway = findSystemVM vs Gateway in
       if gateway = None \<and> \<not> force then errorf ''the install has no gateway VM; run parcon update --force to create it''
       else case findSystemVM vs Controller of
         None \<Rightarrow> errorf ''the controller VM isn't running''
       | Some controller \<Rightarrow>
           if Status controller \<noteq> ''running'' then errorf ''the controller VM isn't running''
           else
             andthen (mapping_error (wrap ''ask the controller's parcon for its version'')
                        (asParcon E (VMID controller) guestTimeout None [''parcon'', ''version''])) (\<lambda>out.
             andthen (RenderConfig E s) (\<lambda>(want, env, ca).
             andthen (attempt (asParcon E (VMID controller) guestTimeout None [''cat'', config_DefaultPath])) (\<lambda>have.
             andthen (offloadPlan E ins s) (\<lambda>offl.
             andthen (asyncPFPlan E ins) (\<lambda>apf.
             andthen (sameFile E (inSelf ins) (inBinaryPath ins)) (\<lambda>same.
               (let steps = planned_steps E ins s force
                      \<lparr>ufSame = same, ufTemplate = list_ex Template (tagged vs RunnerPool (releaseTag ins)),
                       ufGateway = gateway, ufController = controller, ufVersion = TrimSpace out,
                       ufDrift = (case have of Inl e \<Rightarrow> True | Inr text \<Rightarrow> TrimSpace text \<noteq> TrimSpace want),
                       ufOffloads = offl, ufAsyncPF = apf\<rparr> in
                if steps = [] \<and> HasTag controller (releaseTag ins) then ret []
                else ret (steps @ [tag_step E ins s (VMID controller)])))))))))"

definition Upgrade :: "henv \<Rightarrow> installer \<Rightarrow> version \<Rightarrow> bool \<Rightarrow> bool \<Rightarrow> unit act" where
  "Upgrade E ins installed confirmed force =
     (if Compare installed (inVersion ins) > 0
      then errorf ''the node runs a newer release than this parcon; run parcon update''
      else andthen (loadSettings E ins) (\<lambda>s.
        andthen (upgradeSteps E ins s force) (\<lambda>steps.
          if steps = [] then ret ()
          else if inDryRun ins then ret ()
          else next_act (when_act (\<not> confirmed) (confirm E ins ''Update with this plan?''))
            (locked E ins (next_act (run_steps steps None) (ignoring (AsyncPF E ins)))))))"

definition install_release :: "henv \<Rightarrow> installer \<Rightarrow> version \<Rightarrow> unit act" where
  "install_release E ins v =
     next_act (asks E (QFetch (version_Tag v)) he_sums)
       (andthen (inst_get E (BinaryAsset v)) (\<lambda>bin.
         next_act (Log E (''install '' @ BinaryAsset v @ '' '' @ inBinaryPath ins))
           (event E (HInstall bin (inBinaryPath ins)) finished)))"

definition updateSelf :: "henv \<Rightarrow> installer \<Rightarrow> version \<Rightarrow> update_options \<Rightarrow> unit act" where
  "updateSelf E ins v opts =
     (if inDryRun ins then ret ()
      else next_act (confirm E ins ''Update?'')
        (next_act (locked E ins (install_release E ins v))
          (event E (HExec (inBinaryPath ins)
             ([inBinaryPath ins, ''update'', ''--continue'', ''--yes''] @ (if uPre opts then [''--pre''] else [])
              @ (if uForce opts then [''--force''] else []))) finished)))"

definition Update :: "henv \<Rightarrow> installer \<Rightarrow> update_options \<Rightarrow> unit act" where
  "Update E ins opts =
     andthen (InstalledRelease E) (\<lambda>installed.
       case installed of
         None \<Rightarrow> errorf ''there is no finished install on this node; run parcon install''
       | Some v \<Rightarrow>
           if \<not> uContinue opts \<and> inAssets ins = []
           then andthen (mapping_error (wrap ''find the newest release'') (asks E (QLatest (uPre opts)) he_version)) (\<lambda>latest.
             if Compare latest (inVersion ins) > 0 then updateSelf E ins latest opts
             else Upgrade E ins v (uContinue opts) (uForce opts))
           else Upgrade E ins v (uContinue opts) (uForce opts))"

section \<open>Install (install.go)\<close>

record install_options =
  ioSettings :: settings
  ioFlagsGiven :: bool
  ioApp :: app_mode
  ioClientID :: string

definition printPlan :: "henv \<Rightarrow> installer \<Rightarrow> settings \<Rightarrow> unit act" where
  "printPlan E ins s =
     next_act (nodeName E) (next_act (offloadPlan E ins s) (next_act (asyncPFPlan E ins) (next_act (node_limits E ins) (ret ()))))"

definition finish_install :: "henv \<Rightarrow> installer \<Rightarrow> settings \<Rightarrow> install_options \<Rightarrow> int \<Rightarrow> addr \<Rightarrow> unit act" where
  "finish_install E ins s opts controller a =
     andthen (setupApp E ins controller s (ioApp opts) (ioClientID opts)) (\<lambda>s'.
     andthen (startController E controller) (\<lambda>started.
     next_act (CheckNetwork E ins s' (Some a))
     (next_act (waitSession E controller started (5 * Minute))
     (next_act (run E ins ''qm'' (tag_args ins s' controller))
       (ignoring (AsyncPF E ins))))))"

definition install_vms :: "henv \<Rightarrow> installer \<Rightarrow> settings \<Rightarrow> install_options \<Rightarrow> unit act" where
  "install_vms E ins s opts =
     next_act (inst_assets E ins)
     (next_act (importTemplate E ins s False)
     (andthen (createGateway E ins s) (\<lambda>gateway.
      andthen (createController E ins s gateway) (\<lambda>(controller, a).
      next_act (configureController E ins controller s)
        (if inStopAfter ins = ''configure'' then ret () else finish_install E ins s opts controller a)))))"

definition do_install :: "henv \<Rightarrow> installer \<Rightarrow> settings \<Rightarrow> install_options \<Rightarrow> unit act" where
  "do_install E ins s opts =
     next_act (installBinary E ins)
     (next_act (saveSettings E ins s)
     (next_act (createAccess E ins)
     (next_act (createNetwork E ins)
     (next_act (tuneOffloads E ins s)
     (next_act (tuneAsyncPF E ins)
       (if inStopAfter ins = ''network'' then ret () else install_vms E ins s opts))))))"

definition checked_install :: "henv \<Rightarrow> installer \<Rightarrow> settings \<Rightarrow> install_options \<Rightarrow> unit act" where
  "checked_install E ins s opts =
     (if Validate (he_host E) s \<noteq> [] then errorf ''invalid settings''
      else if ioApp opts = AppManual \<and> ioClientID opts = [] \<and> saClientID (sgApp (stGitHub s)) = []
      then errorf ''--app manual needs --client-id''
      else andthen (Preflight E ins s ModeInstall) (\<lambda>checks.
        if Failed checks then fail errPreflight
        else next_act (printPlan E ins s)
          (if inDryRun ins then ret ()
           else next_act (confirm E ins ''Install with this plan?'') (locked E ins (do_install E ins s opts)))))"

definition Install :: "henv \<Rightarrow> installer \<Rightarrow> install_options \<Rightarrow> unit act" where
  "Install E ins opts =
     andthen (InstalledRelease E) (\<lambda>installed.
       case installed of
         Some v \<Rightarrow>
           if Compare v (inVersion ins) < 0 then Upgrade E ins v False False else fail (wrap ''release'' ErrInstalled)
       | None \<Rightarrow>
           andthen (attempt (settings_Load E (inSettingsPath ins))) (\<lambda>r.
             case r of
               Inr saved \<Rightarrow>
                 if ioFlagsGiven opts then errorf ''an earlier install's settings are saved''
                 else checked_install E ins saved opts
             | Inl e \<Rightarrow>
                 if errors_Is e ErrNotExist then checked_install E ins (ioSettings opts) opts else fail e))"

section \<open>Uninstall (uninstall.go)\<close>

definition managedVMs :: "vm list \<Rightarrow> vm list" where
  "managedVMs vs =
     sort_key (\<lambda>v. (Template v, VMID v))
       (filter (\<lambda>v. (Pool v = SystemPool \<or> Pool v = RunnerPool) \<and> HasTag v Managed) vs)"

definition removeAccess :: "henv \<Rightarrow> installer \<Rightarrow> unit act" where
  "removeAccess E ins =
     andthen (Pools E) (\<lambda>pools.
     next_act (for_each (\<lambda>(i, c). when_act (i = SystemPool \<or> i = RunnerPool)
                 (ignoring (run E ins ''pveum'' [''pool'', ''delete'', i]))) pools)
     (andthen (Users E) (\<lambda>users.
     next_act (for_each (\<lambda>u. when_act (u = PVEUser)
       (andthen (ACLs E) (\<lambda>acls.
        next_act (for_each (\<lambda>a. when_act (aclUGID a = PVEUser \<or> HasPrefix (aclUGID a) (PVEUser @ ''!''))
                   (run E ins ''pveum'' [''acl'', ''delete'', aclPath a, ''--'' @ aclType a @ ''s'', aclUGID a, ''--roles'', aclRole a])) acls)
        (andthen (or_else (Tokens E PVEUser) []) (\<lambda>tokens.
         next_act (for_each (\<lambda>t. when_act (t = TokenName)
                    (run E ins ''pveum'' [''user'', ''token'', ''remove'', PVEUser, TokenName])) tokens)
          (run E ins ''pveum'' [''user'', ''delete'', PVEUser])))))) users)
     (andthen (Roles E) (\<lambda>roles. when_act (Role \<in> set roles) (run E ins ''pveum'' [''role'', ''delete'', Role]))))))"

definition sdn_delete :: "henv \<Rightarrow> installer \<Rightarrow> string \<Rightarrow> bool act" where
  "sdn_delete E ins obj =
     andthen (SDNExists E obj) (\<lambda>there.
       if there then next_act (run E ins ''pvesh'' [''delete'', ''/cluster/sdn/'' @ obj]) (ret True) else ret False)"

definition removeNetwork :: "henv \<Rightarrow> installer \<Rightarrow> unit act" where
  "removeNetwork E ins =
     andthen (sdn_delete E ins (''vnets/'' @ inst_VNet)) (\<lambda>vnet.
     andthen (sdn_delete E ins (''zones/'' @ inst_Zone)) (\<lambda>zone.
       if \<not> vnet \<and> \<not> zone then ret ()
       else andthen (PendingSDN E [inst_Zone, inst_VNet]) (\<lambda>pending.
         if pending \<noteq> [] then ret () else run E ins ''pvesh'' [''set'', ''/cluster/sdn''])))"

definition stop_controller :: "henv \<Rightarrow> vm option \<Rightarrow> unit act" where
  "stop_controller E controller =
     (case controller of
        None \<Rightarrow> ret ()
      | Some v \<Rightarrow>
          when_act (Status v = ''running'')
            (next_act (Log E (''controller VM '' @ Itoa (VMID v) @ '': systemctl disable --now parcon.service''))
            (next_act (ignoring (guestExec E (VMID v) ControllerStopTimeout None
                        [''systemctl'', ''disable'', ''--now'', ''parcon.service'']))
            (next_act (Log E (''controller VM '' @ Itoa (VMID v) @ '': parcon github scaleset delete''))
              (ignoring (asParcon E (VMID v) (2 * Minute) None [''parcon'', ''github'', ''scaleset'', ''delete'']))))))"

definition destroy_managed :: "henv \<Rightarrow> installer \<Rightarrow> unit act" where
  "destroy_managed E ins =
     andthen (vms E) (\<lambda>vs. for_each (\<lambda>v. inst_destroyVM E ins (VMID v)) (managedVMs vs))"

definition do_uninstall :: "henv \<Rightarrow> installer \<Rightarrow> vm option \<Rightarrow> unit act" where
  "do_uninstall E ins controller =
     next_act (stop_controller E controller)
     (next_act (destroy_managed E ins)
     (next_act (removeAccess E ins)
     (next_act (removeNetwork E ins)
     (next_act (removeOffloads E ins)
     (next_act (removeAsyncPF E ins)
     (next_act (Changer_Remove E (inDryRun ins) (inSettingsPath ins))
     (next_act (ignoring (event E (HRemove (butlast (dir_prefix (inSettingsPath ins)))) finished))
       (Changer_Remove E (inDryRun ins) (inBinaryPath ins)))))))))"

definition Uninstall :: "henv \<Rightarrow> installer \<Rightarrow> unit act" where
  "Uninstall E ins =
     next_act (vms E)
     (andthen (systemVM E Controller) (\<lambda>controller.
     next_act (nodeName E)
     (next_act (offloadRemovePlan E ins)
     (next_act (asyncPFRemovePlan E ins)
       (if inDryRun ins then ret ()
        else next_act (confirm E ins ''Uninstall with this plan? This can't be undone.'')
          (locked E ins (do_uninstall E ins controller)))))))"

section \<open>Check (check.go)\<close>

definition settingsOrDefault :: "henv \<Rightarrow> installer \<Rightarrow> settings act" where
  "settingsOrDefault E ins =
     andthen (attempt (settings_Load E (inSettingsPath ins))) (\<lambda>r.
       case r of Inl e \<Rightarrow> if errors_Is e ErrNotExist then ret Default else fail e | Inr s \<Rightarrow> ret s)"

definition Forward :: "henv \<Rightarrow> string list \<Rightarrow> unit act" where
  "Forward E args =
     andthen (systemVM E Controller) (\<lambda>found.
       case found of
         None \<Rightarrow> errorf ''there is no controller VM; run parcon install''
       | Some v \<Rightarrow>
           if Status v \<noteq> ''running'' then errorf ''the controller VM isn't running''
           else andthen (GuestExec E (VMID v) (2 * Minute) (parcon_argv (''parcon'' # args)) None) (\<lambda>res.
             if ExitCode res \<noteq> 0 then fail ErrChecksFailed else ret ()))"

definition Check :: "henv \<Rightarrow> installer \<Rightarrow> unit act" where
  "Check E ins =
     andthen (settingsOrDefault E ins) (\<lambda>s.
     andthen (InstalledRelease E) (\<lambda>installed.
     andthen (Preflight E ins s (if installed = None then ModeCheck else ModeInstalled)) (\<lambda>checks.
     andthen (if installed = None then ret []
              else andthen (systemVM E Controller) (\<lambda>found.
                if found = None then ret []
                else collect (\<lambda>t. succeeds (Forward E [''check'', t])) [''config'', ''proxmox'', ''github'', ''template''])) (\<lambda>oks.
       if list_ex (\<lambda>c. \<not> cOK c) checks \<or> False \<in> set oks then fail ErrChecksFailed else ret ()))))"

definition CheckNetworkInstalled :: "henv \<Rightarrow> installer \<Rightarrow> unit act" where
  "CheckNetworkInstalled E ins =
     andthen (loadSettings E ins) (\<lambda>s.
     andthen (systemVM E Controller) (\<lambda>found.
       case found of
         None \<Rightarrow> errorf ''there is no controller VM; run parcon install''
       | Some v \<Rightarrow>
           andthen (vmIPv4 E (VMID v)) (\<lambda>a. locked E ins (CheckNetwork E ins s (Some a)))))"

end
