(* ===== verification/Commands_Facts.thy ===== *)
theory Commands_Facts
  imports Commands
begin

text \<open>
  What the host commands do to the node, for every behaviour of Proxmox, the VMs and the person at the
  terminal: the classes of their events, and what follows for consent, the lock, the VMs they destroy and
  the mark of a finished install.
\<close>

named_theorems event_facts \<open>the class of an event\<close>
named_theorems stepping \<open>operations whose events are harmless\<close>
named_theorems marking \<open>operations that neither take the lock nor mark an install finished\<close>

section \<open>Events of the basic operations\<close>

lemma emits_Log [emits_rules]: "P (HLog l) \<Longrightarrow> emits P (Log E l)"
  unfolding Log_def by (intro emits_rules)

lemma emits_Changer_Run [emits_rules]:
  "P (HLog (cmd_String c)) \<Longrightarrow> P (HRun c) \<Longrightarrow> emits P (Changer_Run E dryRun c)"
  unfolding Changer_Run_def by (intro emits_rules)

lemma emits_run [emits_rules]:
  "P (HLog (cmd_String (C_cmd name args))) \<Longrightarrow> P (HRun (C_cmd name args)) \<Longrightarrow> emits P (run E ins name args)"
  unfolding run_def by (intro emits_rules)

lemma emits_WriteFile [emits_rules]:
  "P (HLog (''write '' @ path)) \<Longrightarrow> P (HWrite path data) \<Longrightarrow> emits P (Changer_WriteFile E dryRun path data)"
  unfolding Changer_WriteFile_def by (intro emits_rules)

lemma emits_Remove [emits_rules]:
  "P (HLog (''rm '' @ path)) \<Longrightarrow> P (HRemove path) \<Longrightarrow> emits P (Changer_Remove E dryRun path)"
  unfolding Changer_Remove_def by (intro emits_rules)

lemma emits_GuestExec [emits_rules]: "P (HGuest vmid t argv stdin) \<Longrightarrow> emits P (GuestExec E vmid t argv stdin)"
  unfolding GuestExec_def by (intro emits_rules)

lemma emits_guest_answer [emits_rules]: "P (HGuest vmid t argv stdin) \<Longrightarrow> emits P (guest_answer E vmid t stdin argv)"
  unfolding guest_answer_def by (intro emits_rules)

lemma emits_guestExec [emits_rules]: "P (HGuest vmid t argv stdin) \<Longrightarrow> emits P (guestExec E vmid t stdin argv)"
  unfolding guestExec_def by (intro emits_rules)

lemma emits_asParcon [emits_rules]: "P (HGuest vmid t (parcon_argv argv) stdin) \<Longrightarrow> emits P (asParcon E vmid t stdin argv)"
  unfolding asParcon_def by (intro emits_rules)

lemma emits_errorf [emits_rules]: "emits P (errorf m)"
  unfolding errorf_def by (intro emits_rules)

lemma emits_poll_until:
  assumes "P ev" and "P (HSleep (max 1 period))"
  shows "emits P (poll_until E ev awaited deadline period err)"
  unfolding emits_iff
proof
  fix w
  show "(\<exists>es. hTrace (snd (poll_until E ev awaited deadline period err w)) = es @ hTrace w \<and> list_all P es)
      \<and> (hNode w \<noteq> [] \<longrightarrow> hNode (snd (poll_until E ev awaited deadline period err w)) = hNode w)"
    using assms
  proof (induction E ev awaited deadline period err w rule: poll_until.induct)
    case (1 E ev awaited deadline period err w)
    define w1 where "w1 = emit E ev w"
    have w1: "hTrace w1 = ev # hTrace w" "hNode w1 = hNode w" by (simp_all add: w1_def emit_def)
    obtain r w2 where w2: "event E (HSleep (max 1 period)) finished w1 = (r, w2)" by (cases "event E (HSleep (max 1 period)) finished w1")
    then have t2: "hTrace w2 = HSleep (max 1 period) # hTrace w1" "hNode w2 = hNode w1"
      by (auto simp: event_def emit_def)
    have again: "poll_until E ev awaited deadline period err w =
        (case awaited (ev # hTrace w) of
           Some x \<Rightarrow> (Inr x, w1)
         | None \<Rightarrow> if deadline < hClock w1 then (Inl err, w1)
             else (case r of Inl e \<Rightarrow> (Inl e, w2) | Inr _ \<Rightarrow> poll_until E ev awaited deadline period err w2))"
      by (subst poll_until.simps) (simp add: Let_def w1_def w2 [unfolded w1_def] split: option.split sum.split)
    show ?case
    proof (cases "awaited (ev # hTrace w) = None \<and> \<not> deadline < hClock w1 \<and> (\<exists>u. r = Inr u)")
      case True
      then obtain u where u: "r = Inr u" and c: "awaited (ev # hTrace w) = None" "\<not> deadline < hClock w1" by blast
      have "poll_until E ev awaited deadline period err w = poll_until E ev awaited deadline period err w2"
        using c u again by simp
      moreover have "(\<exists>es. hTrace (snd (poll_until E ev awaited deadline period err w2)) = es @ hTrace w2 \<and> list_all P es)
          \<and> (hNode w2 \<noteq> [] \<longrightarrow> hNode (snd (poll_until E ev awaited deadline period err w2)) = hNode w2)"
        using 1(1) [of w1 r w2 u] 1(2,3) c u w2 by (simp add: w1_def)
      ultimately show ?thesis using t2 w1 1(2,3) by auto
    next
      case False
      then show ?thesis using again w1 t2 1(2,3) by (auto split: option.splits sum.splits)
    qed
  qed
qed

lemma emits_polling [emits_rules]:
  "P ev \<Longrightarrow> P (HSleep (max 1 period)) \<Longrightarrow> emits P (polling E ev awaited within period err)"
  unfolding polling_def by (intro emits_rules emits_poll_until)

section \<open>Classes of events\<close>

definition lock_event :: "hevent \<Rightarrow> bool" where
  "lock_event ev \<longleftrightarrow> ev = HLock \<or> ev = HUnlock"

text \<open>The command that puts the release tag on a VM, the mark of a finished install.\<close>

definition marks_finished :: "hevent \<Rightarrow> bool" where
  "marks_finished ev \<longleftrightarrow>
     (case ev of
        HRun c \<Rightarrow> cmdName c = ''qm'' \<and> length (cmdArgs c) = 4 \<and> cmdArgs c ! 0 = ''set'' \<and> cmdArgs c ! 2 = ''--tags''
      | _ \<Rightarrow> False)"

definition destroys :: "hevent \<Rightarrow> bool" where
  "destroys ev \<longleftrightarrow>
     (case ev of HRun c \<Rightarrow> cmdName c = ''qm'' \<and> cmdArgs c \<noteq> [] \<and> hd (cmdArgs c) = ''destroy'' | _ \<Rightarrow> False)"

definition step_event :: "hevent \<Rightarrow> bool" where
  "step_event ev \<longleftrightarrow> \<not> lock_event ev \<and> \<not> marks_finished ev"

definition harmless :: "hevent \<Rightarrow> bool" where
  "harmless ev \<longleftrightarrow> step_event ev \<and> \<not> destroys ev"

lemmas event_class_defs = lock_event_def marks_finished_def destroys_def step_event_def harmless_def C_cmd_def

lemma harmless_events [event_facts]:
  "harmless (HLog l)" "harmless (HRead q)" "harmless (HGuest vmid t argv stdin)" "harmless (HMkdir path)"
  "harmless (HWrite path data)" "harmless (HRemove path)" "harmless (HInstall a b)" "harmless (HExec a args)"
  "harmless (HAsk question)" "harmless (HSleep d)"
  by (simp_all add: event_class_defs)

lemma reads_harmless: "emits is_read m \<Longrightarrow> emits harmless m"
  by (erule emits_mono) (auto simp: is_read_def event_facts split: hevent.splits)

lemmas harmless_reads [stepping] = reading [THEN reads_harmless]

section \<open>Steps that destroy nothing\<close>

lemma guest_steps [stepping]:
  "emits harmless (writeControllerFile E ins vmid path data)" "emits harmless (waitAgent E vmid)"
  "emits harmless (waitBooted E vmid)" "emits harmless (vmIPv4 E vmid)" "emits harmless (saveSettings E ins s)"
  unfolding writeControllerFile_def waitAgent_def waitBooted_def boot_state_def vmIPv4_def saveSettings_def
  by (intro emits_rules stepping event_facts)+

lemma offload_harmless: "harmless (HRun (C_cmd name (offloadArgs nic state)))"
  by (simp add: offloadArgs_def event_class_defs)

lemma tuning_steps [stepping]:
  "emits harmless (tune_nic E ins ethtool nic)" "emits harmless (editCmdline E ins edit)"
  "emits harmless (refresh_boot E ins)" "emits harmless (restore_nic E ins tool nic)"
  unfolding tune_nic_def editCmdline_def refresh_boot_def restore_nic_def
  by (intro emits_rules stepping event_facts offload_harmless; simp add: event_class_defs)+

lemma tuning_commands [stepping]:
  "emits harmless (tuneOffloads E ins s)" "emits harmless (removeOffloads E ins)"
  "emits harmless (tuneAsyncPF E ins)" "emits harmless (removeAsyncPF E ins)"
  unfolding tuneOffloads_def removeOffloads_def tuneAsyncPF_def removeAsyncPF_def
  by (intro emits_rules stepping event_facts; simp add: event_class_defs)+

lemma access_steps [stepping]:
  "emits harmless (createAccess E ins)" "emits harmless (grantACLs E ins s)" "emits harmless (createNetwork E ins)"
  "emits harmless (inst_assets E ins)" "emits harmless (inst_get E name)" "emits harmless (runnerVersion E path)"
  "emits harmless (reservedVMID vs s)" "emits harmless (systemVMID E s)"
  "emits harmless (gatewayBlock E s a)" "emits harmless (configureGateway E ins vmid s a)"
  unfolding createAccess_def grantACLs_def createNetwork_def sdn_create_def inst_assets_def inst_get_def
    runnerVersion_def reservedVMID_def systemVMID_def gatewayBlock_def configureGateway_def
  by (intro emits_rules stepping event_facts; simp add: event_class_defs)+

lemma import_harmless: "args \<in> set (import_cmds ins s vid tags img) \<Longrightarrow> harmless (HRun (C_cmd ''qm'' args))"
  by (auto simp: import_cmds_def event_class_defs)

lemma system_harmless: "args \<in> set (system_cmds vid spec img storage) \<Longrightarrow> harmless (HRun (C_cmd ''qm'' args))"
  by (auto simp: system_cmds_def event_class_defs)

lemma createSystemVM_step [stepping]: "emits harmless (createSystemVM E ins vmid spec img storage)"
  unfolding createSystemVM_def by (intro emits_rules stepping event_facts system_harmless)

lemma config_steps [stepping]:
  "emits harmless (inst_env E s)" "emits harmless (RenderConfig E s)" "emits harmless (install_config E vmid)"
  "emits harmless (pushConfig E ins vmid s)" "emits harmless (ensureToken E ins vmid)"
  "emits harmless (configureController E ins vmid s)"
  unfolding inst_env_def RenderConfig_def install_config_def pushConfig_def ensureToken_def configureController_def
  by (intro emits_rules stepping event_facts; simp add: event_class_defs)+

lemma app_steps [stepping]:
  "emits harmless (saveAndPush E ins vmid s)" "emits harmless (installationTarget E inst wanted)"
  "emits harmless (createApp E vmid)" "emits harmless (importAppKey E vmid)"
  unfolding saveAndPush_def installationTarget_def createApp_def importAppKey_def
  by (intro emits_rules stepping event_facts; simp add: event_class_defs)+

lemma app_mode_step [stepping]:
  "emits harmless m \<Longrightarrow> emits harmless n \<Longrightarrow> emits harmless (case mode of AppManifest \<Rightarrow> m | AppManual \<Rightarrow> n)"
  by (cases mode) auto

lemma app_setup_steps [stepping]:
  "emits harmless (app_created E ins vmid s mode clientID)" "emits harmless (app_installed E ins vmid s)"
  "emits harmless (setupApp E ins vmid s mode clientID)" "emits harmless (startController E vmid)"
  "emits harmless (waitSession E vmid since within)"
  unfolding app_created_def app_installed_def setupApp_def startController_def waitSession_def
  by (intro emits_rules stepping event_facts)+

lemma smoke_steps [stepping]:
  "emits harmless (network_failures E vmid pve a)" "emits harmless (smoke_test E ins s a vmid)"
  unfolding network_failures_def smoke_test_def
  by (intro emits_rules stepping event_facts; simp add: event_class_defs)+

lemma command_steps [stepping]:
  "emits harmless (restartController E ins vmid)" "emits harmless (sameVersion E ins vmid)"
  "emits harmless (config_apply E ins s)" "emits harmless (installBinary E ins)" "emits harmless (sameFile E x y)"
  "emits harmless (upgradeControllerBinary E ins vmid sums)" "emits harmless (install_release E ins v)"
  "emits harmless (printPlan E ins s)" "emits harmless (removeAccess E ins)" "emits harmless (removeNetwork E ins)"
  "emits harmless (stop_controller E controller)" "emits harmless (confirm E ins question)"
  unfolding restartController_def sameVersion_def config_apply_def installBinary_def sameFile_def
    upgradeControllerBinary_def install_release_def printPlan_def removeAccess_def removeNetwork_def sdn_delete_def
    stop_controller_def confirm_def
  by (intro emits_rules stepping event_facts; simp add: event_class_defs)+

section \<open>Steps that destroy\<close>

lemma harmless_step: "emits harmless m \<Longrightarrow> emits step_event m"
  by (erule emits_mono) (simp add: harmless_def)

lemmas step_ops [marking] = stepping [THEN harmless_step]

lemma step_events [event_facts]:
  "step_event (HLog l)" "step_event (HRead q)" "step_event (HGuest vmid t argv stdin)" "step_event (HMkdir path)"
  "step_event (HWrite path data)" "step_event (HRemove path)" "step_event (HInstall a b)" "step_event (HExec a args)"
  "step_event (HAsk question)" "step_event (HSleep d)"
  using harmless_events by (simp_all add: harmless_def)

lemma destroy_is_step: "step_event (HRun (C_cmd ''qm'' (destroy_args vmid)))"
  "step_event (HRun (C_cmd ''qm'' (destroy_args vmid @ args)))"
  by (simp_all add: destroy_args_def event_class_defs)

lemma template_scan_step [marking]: "emits step_event (template_scan E ins again ts vs)"
  by (induction ts arbitrary: vs) (auto intro!: emits_rules event_facts destroy_is_step)

lemma destroying_steps [marking]:
  "emits step_event (existingSystemVM E ins tag)" "emits step_event (destroy_listed E ins v)"
  unfolding existingSystemVM_def destroy_listed_def
  by (intro emits_rules marking event_facts destroy_is_step; simp add: event_class_defs)+

lemma destroying_operations [marking]:
  "emits step_event (ensureSystemVM E ins s tag spec img)" "emits step_event (inst_destroyVM E ins vmid)"
  unfolding ensureSystemVM_def inst_destroyVM_def
  by (intro emits_rules marking event_facts)+

lemma import_step: "args \<in> set (import_cmds ins s vid tags img) \<Longrightarrow> step_event (HRun (C_cmd ''qm'' args))"
  using import_harmless [of args ins s vid tags img] by (simp add: harmless_def)

lemma importTemplate_step [marking]: "emits step_event (importTemplate E ins s again)"
  unfolding importTemplate_def by (intro emits_rules marking event_facts import_step)

lemma destroying_commands [marking]:
  "emits step_event (createGateway E ins s)" "emits step_event (createController E ins s gateway)"
  "emits step_event (destroyBuildVMs E ins)" "emits step_event (CheckNetwork E ins s a)"
  "emits step_event (replaceGateway E ins vmid cid s)" "emits step_event (destroy_managed E ins)"
  unfolding createGateway_def createController_def destroyBuildVMs_def CheckNetwork_def replaceGateway_def
    destroy_managed_def
  by (intro emits_rules marking event_facts destroy_is_step; simp add: event_class_defs clone_args_def)+

lemma do_uninstall_step [marking]: "emits step_event (do_uninstall E ins controller)"
  unfolding do_uninstall_def by (intro emits_rules marking event_facts)

lemma planned_steps_step [marking]:
  assumes "st \<in> set (planned_steps E ins s force u)"
  shows "emits step_event (stepDo st a)"
proof -
  have plain: "emits step_event (stepDo (plain_step plan m) b)" if "emits step_event m" for plan m b
    unfolding plain_step_def upgrade_step.simps using that by (intro emits_rules)
  have fetching: "emits step_event (stepDo (fetching_step E ins plan f) b)" if "\<And>x. emits step_event (f x)" for plan f b
    unfolding fetching_step_def upgrade_step.simps using that by (intro emits_rules marking)
  show ?thesis
    using assms unfolding planned_steps_def Let_def
    by (auto split: if_splits option.splits intro!: plain fetching marking emits_rules)
qed

end
