(* ===== verification/Commands_Safety.thy ===== *)
theory Commands_Safety
  imports Commands_Facts
begin

text \<open>
  Safety of the host commands: a dry run changes nothing; a change is made only after the person agreed and
  while the lock is held.
\<close>

section \<open>Changes\<close>

text \<open>Commands in a VM that only look.\<close>

definition inspections :: "string list set" where
  "inspections = {parcon_argv [''parcon'', ''version''], parcon_argv [''cat'', config_DefaultPath]}"

definition changes :: "hevent \<Rightarrow> bool" where
  "changes ev \<longleftrightarrow>
     (case ev of
        HRun c \<Rightarrow> True
      | HMkdir path \<Rightarrow> True
      | HWrite path data \<Rightarrow> True
      | HRemove path \<Rightarrow> True
      | HInstall a b \<Rightarrow> True
      | HGuest vmid t argv stdin \<Rightarrow> argv \<notin> inspections
      | _ \<Rightarrow> False)"

abbreviation quiet :: "hevent \<Rightarrow> bool" where
  "quiet ev \<equiv> \<not> changes ev"

text \<open>The person answered a question with yes, or \<^verbatim>\<open>--yes\<close> did.\<close>

definition consented :: "henv \<Rightarrow> installer \<Rightarrow> hevent list \<Rightarrow> bool" where
  "consented E ins tr \<longleftrightarrow>
     inYes ins \<or> (\<exists>us q ts. tr = us @ HAsk q # ts \<and> he_confirm E (HAsk q # ts) = Inr True)"

fun lock_held :: "henv \<Rightarrow> hevent list \<Rightarrow> bool" where
  "lock_held E [] = False"
| "lock_held E (ev # tr) =
     (if ev = HLock then he_error E (ev # tr) = None else if ev = HUnlock then False else lock_held E tr)"

definition allowed_change :: "henv \<Rightarrow> installer \<Rightarrow> bool \<Rightarrow> hevent list \<Rightarrow> hevent \<Rightarrow> bool" where
  "allowed_change E ins confirmed tr ev \<longleftrightarrow>
     (changes ev \<longrightarrow> (confirmed \<or> consented E ins tr) \<and> lock_held E tr)"

lemma quiet_events [event_facts]:
  "quiet (HLog l)" "quiet (HAsk q)" "quiet HLock" "quiet HUnlock" "quiet (HSleep d)" "quiet (HRead q')"
  "quiet (HExec path args)"
  by (simp_all add: changes_def)

lemma quiet_looks [event_facts]:
  "quiet (HGuest vmid t (parcon_argv [''parcon'', ''version'']) stdin)"
  "quiet (HGuest vmid t (parcon_argv [''cat'', config_DefaultPath]) stdin)"
  by (simp_all add: changes_def inspections_def)

lemma reads_quiet: "emits is_read m \<Longrightarrow> emits quiet m"
  by (erule emits_mono) (auto simp: is_read_def changes_def split: hevent.splits)

named_theorems quieting \<open>operations that change nothing\<close>

lemmas quiet_reads [quieting] = reading [THEN reads_quiet]

lemma plans_quiet [quieting]:
  "emits quiet (printPlan E ins s)" "emits quiet (confirm E ins question)" "emits quiet (inst_env E s)"
  "emits quiet (RenderConfig E s)" "emits quiet (sameFile E a b)" "emits quiet (inst_get E name)"
  unfolding printPlan_def confirm_def inst_env_def RenderConfig_def sameFile_def inst_get_def
  by (intro emits_rules quieting event_facts)+

lemma upgradeSteps_quiet [quieting]: "emits quiet (upgradeSteps E ins s force)"
  unfolding upgradeSteps_def Let_def by (intro emits_rules quieting event_facts)

section \<open>Dry runs\<close>

lemma upgrade_dry [quieting]: "inDryRun ins \<Longrightarrow> emits quiet (Upgrade E ins installed confirmed force)"
  unfolding Upgrade_def by (simp only: if_True) (intro emits_rules quieting event_facts)

lemma update_dry: "inDryRun ins \<Longrightarrow> emits quiet (updateSelf E ins v opts)" "inDryRun ins \<Longrightarrow> emits quiet (Update E ins opts)"
proof -
  assume dry: "inDryRun ins"
  show self: "emits quiet (updateSelf E ins v opts)" for v
    unfolding updateSelf_def using dry by (simp add: emits_ret)
  show "emits quiet (Update E ins opts)"
    unfolding Update_def using dry by (intro emits_rules quieting event_facts self)
qed

lemma install_dry: "inDryRun ins \<Longrightarrow> emits quiet (Install E ins opts)"
proof -
  assume dry: "inDryRun ins"
  have "emits quiet (checked_install E ins s opts)" for s
    unfolding checked_install_def using dry by (simp only: if_True) (intro emits_rules quieting event_facts)
  then show ?thesis unfolding Install_def using dry by (intro emits_rules quieting event_facts)
qed

lemma uninstall_dry: "inDryRun ins \<Longrightarrow> emits quiet (Uninstall E ins)"
  unfolding Uninstall_def by (simp only: if_True) (intro emits_rules quieting event_facts)

section \<open>Consent and the lock\<close>

abbreviation unlocked :: "hevent \<Rightarrow> bool" where
  "unlocked ev \<equiv> \<not> lock_event ev"

lemma lock_held_append: "list_all unlocked us \<Longrightarrow> lock_held E (us @ tr) = lock_held E tr"
  by (induction us) (auto simp: lock_event_def)

lemma does_of_emits:
  assumes "emits P m" and "\<And>es. list_all P es \<Longrightarrow> lawful_from ok es (hTrace w)"
    and "\<And>r w'. suffix (hTrace w) (hTrace w') \<Longrightarrow> Q r w'"
  shows "does ok m w Q"
proof -
  obtain es where "hTrace (snd (m w)) = es @ hTrace w" "list_all P es" using emitsE [OF assms(1), of w] by blast
  moreover have "hNode w \<noteq> [] \<longrightarrow> hNode (snd (m w)) = hNode w" using assms(1) by (simp add: emits_iff)
  ultimately show ?thesis using assms(2,3) by (auto simp: does_def suffix_def)
qed

lemma does_quiet:
  assumes "emits quiet m" and "\<And>r w'. suffix (hTrace w) (hTrace w') \<Longrightarrow> Q r w'"
  shows "does (allowed_change E ins confirmed) m w Q"
  by (rule does_emits [OF assms(1)]) (simp_all add: allowed_change_def assms(2))

lemma locked_lawful:
  assumes "list_all unlocked es" and "lock_held E ts" and "\<And>us. confirmed \<or> consented E ins (us @ ts)"
  shows "lawful_from (allowed_change E ins confirmed) es ts"
  using assms(1)
proof (induction es)
  case (Cons e es)
  have "lock_held E (es @ ts)"
    using Cons.prems assms(2) by (subst lock_held_append) (auto simp: list_all_iff)
  then show ?case using Cons assms(3) by (simp add: allowed_change_def)
qed simp

lemma does_locked:
  assumes path: "inLockPath ins \<noteq> []" and m: "emits unlocked m"
    and ok: "\<And>us. confirmed \<or> consented E ins (us @ hTrace w)"
  shows "does (allowed_change E ins confirmed) (locked E ins m) w (\<lambda>_ _. True)"
  unfolding locked_def Lock_def unlock_def finally_do_def
proof (simp only: path if_False, rule does_next, rule does_event, simp add: allowed_change_def changes_def, goal_cases)
  case 1
  define w1 where "w1 = emit E HLock w"
  have t1: "hTrace w1 = HLock # hTrace w" by (simp add: w1_def emit_def)
  have "does (allowed_change E ins confirmed)
      (andthen (attempt m) (\<lambda>r. case r of
         Inl e \<Rightarrow> next_act (ignoring (event E HUnlock (\<lambda>_ _. Inr ()))) (fail e)
       | Inr x \<Rightarrow> next_act (event E HUnlock (\<lambda>_ _. Inr ())) (ret x))) w1 (\<lambda>_ _. True)"
    if "he_error E (HLock # hTrace w) = None"
  proof (rule does_andthen, rule does_attempt, rule does_of_emits [OF m])
    fix es
    assume "list_all unlocked es"
    moreover have "confirmed \<or> consented E ins (us @ hTrace w1)" for us
      using ok [of "us @ [HLock]"] by (simp add: t1)
    ultimately show "lawful_from (allowed_change E ins confirmed) es (hTrace w1)"
      using that by (intro locked_lawful) (simp_all add: t1)
  qed (auto intro!: does_quiet emits_rules event_facts)
  then show ?case by (auto simp: finished_def w1_def split: option.splits sum.splits)
qed

lemma does_confirm:
  "does (allowed_change E ins confirmed) (confirm E ins q) w
     (\<lambda>r w'. case r of Inl e \<Rightarrow> True | Inr _ \<Rightarrow> (\<forall>us. consented E ins (us @ hTrace w')))"
proof -
  have "\<forall>us. consented E ins (us @ HAsk q # hTrace w)" if "he_confirm E (HAsk q # hTrace w) = Inr True"
    using that by (auto simp: consented_def)
  then show ?thesis
    by (auto simp: does_def confirm_def ret_def andthen_def attempt_def event_def emit_def fail_def errorf_def
        allowed_change_def changes_def consented_def split: sum.splits)
qed

definition obeys :: "henv \<Rightarrow> installer \<Rightarrow> bool \<Rightarrow> 'a act \<Rightarrow> bool" where
  "obeys E ins confirmed m \<longleftrightarrow> (\<forall>w. does (allowed_change E ins confirmed) m w (\<lambda>_ _. True))"

lemma obeys_quiet: "emits quiet m \<Longrightarrow> obeys E ins confirmed m"
  unfolding obeys_def by (auto intro: does_quiet)

lemma obeys_andthen:
  assumes "emits quiet m" and "\<And>x. obeys E ins confirmed (f x)"
  shows "obeys E ins confirmed (andthen m f)"
  unfolding obeys_def
  by (intro allI does_andthen does_quiet [OF assms(1)]) (use assms(2) in \<open>auto simp: obeys_def split: sum.split\<close>)

lemma obeys_next: "emits quiet m \<Longrightarrow> obeys E ins confirmed n \<Longrightarrow> obeys E ins confirmed (next_act m n)"
  unfolding next_act_def by (rule obeys_andthen)

lemma obeys_cases:
  "(b \<Longrightarrow> obeys E ins c m) \<Longrightarrow> (\<not> b \<Longrightarrow> obeys E ins c n) \<Longrightarrow> obeys E ins c (if b then m else n)"
  "(x = None \<Longrightarrow> obeys E ins c m) \<Longrightarrow> (\<And>y. x = Some y \<Longrightarrow> obeys E ins c (f y)) \<Longrightarrow> obeys E ins c (case x of None \<Rightarrow> m | Some y \<Rightarrow> f y)"
  "(\<And>e. r = Inl e \<Longrightarrow> obeys E ins c (g e)) \<Longrightarrow> (\<And>z. r = Inr z \<Longrightarrow> obeys E ins c (h z))
     \<Longrightarrow> obeys E ins c (case r of Inl e \<Rightarrow> g e | Inr z \<Rightarrow> h z)"
  by (auto split: option.split sum.split)

lemmas obeys_rules = obeys_andthen obeys_next obeys_cases

lemma obeys_agreed:
  assumes "inLockPath ins \<noteq> []" and "emits unlocked m"
  shows "obeys E ins confirmed (next_act (confirm E ins q) (locked E ins m))"
    and "c \<longrightarrow> confirmed \<Longrightarrow> obeys E ins confirmed (next_act (when_act (\<not> c) (confirm E ins q)) (locked E ins m))"
    and "emits quiet n \<Longrightarrow> obeys E ins confirmed (next_act (confirm E ins q) (next_act (locked E ins m) n))"
proof -
  have ready: "does (allowed_change E ins confirmed) (confirm E ins q) w
      (\<lambda>r w'. case r of Inl e \<Rightarrow> True | Inr _ \<Rightarrow> does (allowed_change E ins confirmed) (locked E ins m) w' (\<lambda>_ _. True))" for w
    by (rule does_weaken [OF does_confirm]) (auto intro!: does_locked assms split: sum.splits)
  then show "obeys E ins confirmed (next_act (confirm E ins q) (locked E ins m))"
    unfolding obeys_def by (auto intro!: does_next)
  then show "obeys E ins confirmed (next_act (when_act (\<not> c) (confirm E ins q)) (locked E ins m))" if "c \<longrightarrow> confirmed"
    using that unfolding obeys_def when_act_def
    by (cases c) (auto intro!: does_next does_ret does_locked assms)
  show "obeys E ins confirmed (next_act (confirm E ins q) (next_act (locked E ins m) n))" if "emits quiet n"
    unfolding obeys_def
    by (intro allI does_next does_weaken [OF ready])
      (auto intro!: does_next elim!: does_weaken split: sum.splits, auto intro!: does_quiet that)
qed

lemma run_steps_marking:
  assumes "\<And>st a. st \<in> set sts \<Longrightarrow> emits P (stepDo st a)"
  shows "emits P (run_steps sts a)"
  using assms by (induction sts arbitrary: a) (auto intro!: emits_rules)

lemma step_unlocked: "emits step_event m \<Longrightarrow> emits unlocked m"
  by (erule emits_mono) (simp add: step_event_def)

lemmas unlocked_ops = marking [THEN step_unlocked]

lemma unlocked_run: "emits unlocked (run E ins name args)"
  by (intro emits_rules) (simp_all add: lock_event_def)

lemma install_unlocked: "emits unlocked (do_install E ins s opts)"
  unfolding do_install_def install_vms_def finish_install_def
  by (intro emits_rules unlocked_ops unlocked_run)

section \<open>Listings\<close>

text \<open>A VM that an earlier listing of the node's VMs showed.\<close>

definition listed :: "henv \<Rightarrow> hevent list \<Rightarrow> vm \<Rightarrow> bool" where
  "listed E tr v \<longleftrightarrow>
     (\<exists>us ts rs node. tr = us @ HRead listing # ts \<and> he_resources E (HRead listing # ts) = Inr rs
        \<and> v \<in> set (vmsOnNode rs node))"

lemma listed_suffix: "suffix tr tr' \<Longrightarrow> listed E tr v \<Longrightarrow> listed E tr' v"
  unfolding listed_def suffix_def by (metis append_assoc)

lemma does_result: "does ok m w (\<lambda>_ _. True) \<Longrightarrow> Q (fst (m w)) (snd (m w)) \<Longrightarrow> does ok m w Q"
  by (simp add: does_def)

lemma nodeName_known: "fst (nodeName E w) = Inr n \<Longrightarrow> hNode (snd (nodeName E w)) \<noteq> []"
  by (auto simp: nodeName_def NodeName_def andthen_def ret_def fail_def split: if_splits prod.splits sum.splits list.splits)

lemma does_vms:
  assumes "\<And>us q. ok (us @ hTrace w) (HRead q)"
  shows "does ok (vms E) w
    (\<lambda>r w'. case r of Inl e \<Rightarrow> True | Inr vs \<Rightarrow> (\<forall>v\<in>set vs. listed E (hTrace w') v) \<and> hNode w' \<noteq> [])"
proof -
  have "does ok (nodeName E) w (\<lambda>_ _. True)"
    by (rule does_emits [OF nodeName_reads]) (auto simp: is_read_def assms split: hevent.splits)
  then have "does ok (nodeName E) w (\<lambda>r w'. suffix (hTrace w) (hTrace w') \<and> (case r of Inl e \<Rightarrow> True | Inr n \<Rightarrow> hNode w' \<noteq> []))"
    using nodeName_known [of E w] by (auto simp: does_def suffix_def split: sum.split)
  then have "does ok (nodeName E) w (\<lambda>r w'. case r of Inl e \<Rightarrow> True | Inr n \<Rightarrow>
      does ok (VMs E n) w' (\<lambda>r w'. case r of Inl e \<Rightarrow> True | Inr vs \<Rightarrow> (\<forall>v\<in>set vs. listed E (hTrace w') v) \<and> hNode w' \<noteq> []))"
  proof (rule does_weaken, goal_cases)
    case (1 r w')
    then obtain us where us: "hTrace w' = us @ hTrace w" by (auto simp: suffix_def)
    have "listed E (HRead listing # hTrace w') v" if "he_resources E (HRead listing # hTrace w') = Inr rs" "v \<in> set (vmsOnNode rs n)" for rs v n
      unfolding listed_def using that by blast
    then show ?case
      using 1 assms [of us] unfolding VMs_def asks_def us [symmetric]
      by (auto intro!: does_andthen does_event does_ret simp: emit_def split: sum.splits)
  qed
  then show ?thesis
    unfolding vms_def by (intro does_andthen) (erule does_weaken, auto split: sum.splits)
qed

section \<open>The steps of an upgrade\<close>

definition upgrade_plan :: "henv \<Rightarrow> installer \<Rightarrow> settings \<Rightarrow> bool \<Rightarrow> upgrade_step list \<Rightarrow> hevent list \<Rightarrow> bool" where
  "upgrade_plan E ins s force steps tr \<longleftrightarrow>
     steps = []
     \<or> (\<exists>u vmid. steps = planned_steps E ins s force u @ [tag_step E ins s vmid]
          \<and> (\<forall>g. ufGateway u = Some g \<longrightarrow> listed E tr g \<and> Pool g = SystemPool \<and> HasTag g Gateway))"

lemma findSystemVM_Some: "findSystemVM vs tag = Some v \<Longrightarrow> v \<in> set vs \<and> Pool v = SystemPool \<and> HasTag v tag"
proof -
  assume "findSystemVM vs tag = Some v"
  then have "v \<in> set (tagged vs SystemPool tag)" by (auto simp: findSystemVM_def split: list.splits)
  then show ?thesis by (simp add: tagged_def)
qed

lemma does_andthen_emits:
  assumes "suffix tr (hTrace w)" and "emits P m" and "\<And>us e. P e \<Longrightarrow> ok (us @ tr) e"
    and "\<And>e w'. suffix tr (hTrace w') \<Longrightarrow> Q (Inl e) w'"
    and "\<And>x w'. suffix tr (hTrace w') \<Longrightarrow> does ok (f x) w' Q"
  shows "does ok (andthen m f) w Q"
proof (rule does_andthen, rule does_emits [OF assms(2)])
  obtain vs where "hTrace w = vs @ tr" using assms(1) by (auto simp: suffix_def)
  then show "ok (us @ hTrace w) e" if "P e" for us e using assms(3) [OF that, of "us @ vs"] by simp
  show "case r of Inl e \<Rightarrow> Q (Inl e) w' | Inr x \<Rightarrow> does ok (f x) w' Q" if "suffix (hTrace w) (hTrace w')" for r w'
    using assms(4,5) suffix_order.trans [OF assms(1) that] by (simp split: sum.split)
qed

lemma does_cases:
  "(b \<Longrightarrow> does ok m w Q) \<Longrightarrow> (\<not> b \<Longrightarrow> does ok n w Q) \<Longrightarrow> does ok (if b then m else n) w Q"
  "(x = None \<Longrightarrow> does ok m w Q) \<Longrightarrow> (\<And>y. x = Some y \<Longrightarrow> does ok (f y) w Q) \<Longrightarrow> does ok (case x of None \<Rightarrow> m | Some y \<Rightarrow> f y) w Q"
  "(\<And>y z. p = (y, z) \<Longrightarrow> does ok (g y z) w Q) \<Longrightarrow> does ok (case p of (y, z) \<Rightarrow> g y z) w Q"
  by (auto split: option.split prod.split)

lemma does_errorf: "Q (Inl (ErrorMsg e)) w \<Longrightarrow> does ok (errorf e) w Q"
  unfolding errorf_def by (rule does_fail)

lemma upgradeSteps_does:
  assumes "\<And>tr ev. quiet ev \<Longrightarrow> ok tr ev"
  shows "does ok (upgradeSteps E ins s force) w
    (\<lambda>r w'. case r of Inl e \<Rightarrow> True | Inr steps \<Rightarrow> upgrade_plan E ins s force steps (hTrace w'))"
  unfolding upgradeSteps_def
proof (rule does_andthen, rule does_weaken [OF does_vms], goal_cases)
  case (1 us q)
  show ?case using assms by (simp add: changes_def)
next
  case (2 r w1)
  show ?case
  proof (cases r)
    case (Inr vs)
    then have seen: "listed E (hTrace w1) v" if "v \<in> set vs" for v using 2 that by simp
    have plan: "upgrade_plan E ins s force (planned_steps E ins s force u @ [tag_step E ins s vmid]) (hTrace w')"
      if "suffix (hTrace w1) (hTrace w')" and "ufGateway u = findSystemVM vs Gateway" for u vmid w'
      unfolding upgrade_plan_def
      using that(2) seen findSystemVM_Some [of vs Gateway] listed_suffix [OF that(1)]
      by (intro disjI2 exI [of _ u] exI [of _ vmid]) auto
    have none: "upgrade_plan E ins s force [] tr" for tr by (simp add: upgrade_plan_def)
    show ?thesis
      unfolding Inr sum.case Let_def
      by (intro does_cases does_errorf does_ret does_andthen_emits [where P = quiet and tr = "hTrace w1"] quieting
          emits_rules event_facts assms; simp add: plan none)
  qed simp
qed

lemma upgrade_unlocked:
  assumes "upgrade_plan E ins s force steps tr"
  shows "emits unlocked (run_steps steps a)"
proof (rule run_steps_marking)
  fix st b
  assume "st \<in> set steps"
  then consider u where "st \<in> set (planned_steps E ins s force u)" | vmid where "st = tag_step E ins s vmid"
    using assms unfolding upgrade_plan_def by auto
  then show "emits unlocked (stepDo st b)"
  proof cases
    case 1
    then show ?thesis by (intro step_unlocked planned_steps_step)
  next
    case (2 vmid)
    then show ?thesis
      unfolding tag_step_def plain_step_def by simp (intro emits_rules unlocked_run)
  qed
qed

lemma obeys_Upgrade:
  assumes "inLockPath ins \<noteq> []" and "c \<longrightarrow> confirmed"
  shows "obeys E ins confirmed (Upgrade E ins installed c force)"
proof -
  have steps: "obeys E ins confirmed (andthen (upgradeSteps E ins s force) (\<lambda>steps.
      if steps = [] then ret () else if inDryRun ins then ret ()
      else next_act (when_act (\<not> c) (confirm E ins q))
             (locked E ins (next_act (run_steps steps None) (ignoring (AsyncPF E ins))))))" for s q
    unfolding obeys_def
  proof (intro allI does_andthen does_weaken [OF upgradeSteps_does], goal_cases)
    case (1 w tr ev)
    then show ?case by (simp add: allowed_change_def)
  next
    case (2 w r w')
    have "emits unlocked (next_act (run_steps steps None) (ignoring (AsyncPF E ins)))"
      if "upgrade_plan E ins s force steps (hTrace w')" for steps
      by (intro emits_rules upgrade_unlocked [OF that] unlocked_ops)
    with 2 assms show ?case
      by (auto simp: obeys_agreed(2) [unfolded obeys_def] intro!: does_ret split: sum.splits)
  qed
  show ?thesis
    unfolding Upgrade_def
    by (intro obeys_rules steps obeys_quiet quieting emits_rules)
qed

text \<open>A node for examples: \<open>rs\<close> are its VMs, and every command succeeds.\<close>

definition example_henv :: "resource list \<Rightarrow> henv" where
  "example_henv rs =
     \<lparr>he_error = (\<lambda>_. None), he_confirm = (\<lambda>_. Inr True), he_int = (\<lambda>_. Inr 0), he_text = (\<lambda>_. Inr []),
      he_texts = (\<lambda>_. Inr [''pve'']), he_resources = (\<lambda>_. Inr rs), he_config = (\<lambda>_. Inr Map.empty),
      he_pools = (\<lambda>_. Inr []), he_acls = (\<lambda>_. Inr []), he_states = (\<lambda>_. Inr []),
      he_storage = (\<lambda>_. Inl ErrNotExist), he_addrs = (\<lambda>_. Inr []), he_routes = (\<lambda>_. Inr []),
      he_interfaces = (\<lambda>_. Inr []), he_stat = (\<lambda>_. Inr (True, True)), he_tls = (\<lambda>_. Inl ErrNotExist),
      he_version = (\<lambda>_. Inl ErrNotExist), he_sums = (\<lambda>_. Inr Map.empty),
      he_exec = (\<lambda>_. (None, Inr (\<lparr>ExitCode = 0, Signal = 0, Stdout = ''running'', Stderr = []\<rparr>, True))),
      he_elapsed = (\<lambda>_. 0), he_builds = (\<lambda>_. None), he_token = (\<lambda>_. ''secret''), he_app = (\<lambda>_. None),
      he_installation = (\<lambda>_. None), he_host = Some, he_fraction = (\<lambda>_ _. 0),
      he_readSettings = (\<lambda>_. YamlEOF), he_writeSettings = (\<lambda>_. Inr ''settings''),
      he_readConfig = (\<lambda>_. YamlEOF), he_writeConfig = (\<lambda>_. Inr ''config'')\<rparr>"

definition example_installer :: "bool \<Rightarrow> installer" where
  "example_installer dryRun =
     \<lparr>inDryRun = dryRun, inYes = True, inPaths = DefaultPaths, inSettingsPath = ''/etc/parcon/settings.yaml'',
      inBinaryPath = BinaryPath, inSelf = ''/tmp/parcon'', inVersion = \<lparr>vMajor = 1, vMinor = 2, vPatch = 3, vPre = []\<rparr>,
      inAssets = [], inStopAfter = [], inLockPath = ''/run/lock/parcon.lock''\<rparr>"

definition example_options :: install_options where
  "example_options = \<lparr>ioSettings = Default, ioFlagsGiven = False, ioApp = AppManifest, ioClientID = []\<rparr>"

definition example_update :: update_options where
  "example_update = \<lparr>uPre = False, uContinue = False, uForce = True\<rparr>"

definition example_host :: host where
  "example_host = \<lparr>hTrace = [], hClock = 0, hNode = []\<rparr>"

text \<open>
  With \<^verbatim>\<open>--dry-run\<close>, install, update and uninstall change nothing: they run no changing command on the
  host or in a VM, and write, install and remove no file, whatever they find.
\<close>
theorem dry_run_changes_nothing:
  assumes "inDryRun ins"
  shows "emits (\<lambda>ev. \<not> changes ev) (Install E ins opts)
    \<and> emits (\<lambda>ev. \<not> changes ev) (Update E ins upd)
    \<and> emits (\<lambda>ev. \<not> changes ev) (Uninstall E ins)"
  using assms install_dry update_dry(2) uninstall_dry by blast

theorem dry_run_changes_nothing_witness:
  "inDryRun (example_installer True)
   \<and> emits (\<lambda>ev. \<not> changes ev) (Uninstall (example_henv []) (example_installer True))"
  using dry_run_changes_nothing [of "example_installer True" "example_henv []" example_options example_update]
  by (simp add: example_installer_def)

text \<open>
  C8. Every change that install, update and uninstall make to the host or in a VM is made after the person
  answered yes (or \<^verbatim>\<open>--yes\<close> did, or, for an update continued by the parcon it installed, the update before)
  and while the lock is held that keeps two commands from changing the node at once.
\<close>
theorem changes_consented:
  assumes "inLockPath ins \<noteq> []"
  shows "does (allowed_change E ins False) (Install E ins opts) w (\<lambda>_ _. True)
    \<and> does (allowed_change E ins (uContinue upd)) (Update E ins upd) w (\<lambda>_ _. True)
    \<and> does (allowed_change E ins False) (Uninstall E ins) w (\<lambda>_ _. True)"
proof -
  have "obeys E ins False (checked_install E ins s opts)" for s
    unfolding checked_install_def
    by (intro obeys_rules obeys_agreed(1) [OF assms] install_unlocked obeys_quiet quieting emits_rules)
  note new = this
  have "obeys E ins False (Install E ins opts)"
    unfolding Install_def
    by (intro obeys_rules obeys_Upgrade new assms; (intro obeys_quiet quieting emits_rules)?; simp)
  moreover have "obeys E ins (uContinue upd) (updateSelf E ins v upd)" for v
    unfolding updateSelf_def
    by (intro obeys_rules(3-5) obeys_agreed(3) [OF assms] unlocked_ops obeys_quiet quieting emits_rules event_facts)
  note self = this
  have "obeys E ins (uContinue upd) (Update E ins upd)"
    unfolding Update_def
    by (intro obeys_rules obeys_Upgrade self assms; (intro obeys_quiet quieting emits_rules event_facts)?; simp)
  moreover have "obeys E ins False (Uninstall E ins)"
    unfolding Uninstall_def
    by (intro obeys_agreed(1) [OF assms] unlocked_ops obeys_quiet quieting emits_rules obeys_rules)
  ultimately show ?thesis unfolding obeys_def by blast
qed

theorem changes_consented_witness:
  "inLockPath (example_installer False) \<noteq> []
   \<and> does (allowed_change (example_henv []) (example_installer False) False)
       (Uninstall (example_henv []) (example_installer False)) example_host (\<lambda>_ _. True)"
  using changes_consented [of "example_installer False" "example_henv []" example_options example_host example_update]
  by (simp add: example_installer_def)

end
