(* ===== verification/Commands_VMs.thy ===== *)
theory Commands_VMs
  imports Commands_Safety
begin

text \<open>
  What the host commands do to VMs: they destroy only VMs of the two pools that they saw listed with a tag
  of the project, or the clone they made themselves, and the clone of the network check is always destroyed.
\<close>

section \<open>VMs that may be destroyed\<close>

definition ours_vm :: "vm \<Rightarrow> bool" where
  "ours_vm v \<longleftrightarrow> (Pool v = SystemPool \<or> Pool v = RunnerPool) \<and> list_ex (\<lambda>t. HasPrefix t ''par-'') (Tags v)"

definition may_destroy :: "henv \<Rightarrow> hevent list \<Rightarrow> int \<Rightarrow> bool" where
  "may_destroy E tr vmid \<longleftrightarrow>
     (\<exists>v. listed E tr v \<and> ours_vm v \<and> VMID v = vmid)
     \<or> (\<exists>t. HRun (C_cmd ''qm'' (clone_args t vmid)) \<in> set tr)"

definition own_only :: "henv \<Rightarrow> hevent list \<Rightarrow> hevent \<Rightarrow> bool" where
  "own_only E tr ev \<longleftrightarrow>
     (destroys ev \<longrightarrow> (\<exists>vmid args. ev = HRun (C_cmd ''qm'' (destroy_args vmid @ args)) \<and> may_destroy E tr vmid))"

text \<open>An operation that destroys only such VMs whenever the history ends with \<open>tr\<close>.\<close>

definition safe_from :: "henv \<Rightarrow> hevent list \<Rightarrow> 'a act \<Rightarrow> bool" where
  "safe_from E tr m \<longleftrightarrow> (\<forall>w. suffix tr (hTrace w) \<longrightarrow> does (own_only E) m w (\<lambda>_ _. True))"

named_theorems safe_rules \<open>rules that show an operation destroys only the project's VMs\<close>

lemma may_destroy_suffix: "suffix tr tr' \<Longrightarrow> may_destroy E tr vmid \<Longrightarrow> may_destroy E tr' vmid"
  unfolding may_destroy_def using listed_suffix set_mono_suffix by blast

lemma tagged_ours:
  assumes "v \<in> set (tagged vs pool tag)" and "pool \<in> {SystemPool, RunnerPool}" and "HasPrefix tag ''par-''"
  shows "v \<in> set vs \<and> ours_vm v"
  using assms by (auto simp: tagged_def ours_vm_def HasTag_iff list_ex_iff)

lemma par_tags [simp]:
  "HasPrefix Managed ''par-''" "HasPrefix Gateway ''par-''" "HasPrefix Controller ''par-''" "HasPrefix Build ''par-''"
  "HasPrefix (releaseTag ins) ''par-''"
  by (simp_all add: tag_defs releaseTag_def)

lemma listed_may_destroy: "listed E tr v \<Longrightarrow> ours_vm v \<Longrightarrow> may_destroy E tr (VMID v)"
  unfolding may_destroy_def by blast

section \<open>Composing\<close>

lemma safe_emits: "emits (\<lambda>ev. \<not> destroys ev) m \<Longrightarrow> safe_from E tr m"
  unfolding safe_from_def by (auto intro!: does_emits simp: own_only_def)

lemma safe_harmless: "emits harmless m \<Longrightarrow> safe_from E tr m"
  by (rule safe_emits, erule emits_mono) (simp add: harmless_def)

lemmas safe_steps [safe_rules] = stepping [THEN safe_harmless]

lemma safe_suffix: "safe_from E tr m \<Longrightarrow> suffix tr tr' \<Longrightarrow> safe_from E tr' m"
  unfolding safe_from_def by (meson suffix_order.trans)

lemma safe_ret [safe_rules]: "safe_from E tr (ret x)" "safe_from E tr (fail e)" "safe_from E tr now"
  "safe_from E tr (errorf msg)"
  by (auto intro!: safe_emits emits_rules)

lemma safe_andthen [safe_rules]:
  assumes "safe_from E tr m" and "\<And>x. safe_from E tr (f x)"
  shows "safe_from E tr (andthen m f)"
  unfolding safe_from_def
proof (intro allI impI does_andthen)
  fix w :: host
  assume w: "suffix tr (hTrace w)"
  with assms(1) have "does (own_only E) m w (\<lambda>_ _. True)" by (simp add: safe_from_def)
  then show "does (own_only E) m w (\<lambda>r w'. case r of Inl e \<Rightarrow> True | Inr x \<Rightarrow> does (own_only E) (f x) w' (\<lambda>_ _. True))"
    by (rule does_weaken) (use assms(2) suffix_order.trans [OF w] in \<open>auto simp: safe_from_def split: sum.split\<close>)
qed

lemma safe_next [safe_rules]: "safe_from E tr m \<Longrightarrow> safe_from E tr n \<Longrightarrow> safe_from E tr (next_act m n)"
  unfolding next_act_def by (rule safe_andthen)

lemma safe_attempt [safe_rules]: "safe_from E tr m \<Longrightarrow> safe_from E tr (attempt m)"
  unfolding safe_from_def using does_attempt [of "own_only E" m _ "\<lambda>_ _. True"] by blast

lemma safe_cases [safe_rules]:
  "(b \<Longrightarrow> safe_from E tr m) \<Longrightarrow> (\<not> b \<Longrightarrow> safe_from E tr n) \<Longrightarrow> safe_from E tr (if b then m else n)"
  "(x = None \<Longrightarrow> safe_from E tr m) \<Longrightarrow> (\<And>y. x = Some y \<Longrightarrow> safe_from E tr (f y))
     \<Longrightarrow> safe_from E tr (case x of None \<Rightarrow> m | Some y \<Rightarrow> f y)"
  "(\<And>e. r = Inl e \<Longrightarrow> safe_from E tr (g e)) \<Longrightarrow> (\<And>z. r = Inr z \<Longrightarrow> safe_from E tr (h z))
     \<Longrightarrow> safe_from E tr (case r of Inl e \<Rightarrow> g e | Inr z \<Rightarrow> h z)"
  "(\<And>y z. p = (y, z) \<Longrightarrow> safe_from E tr (k y z)) \<Longrightarrow> safe_from E tr (case p of (y, z) \<Rightarrow> k y z)"
  by (auto split: option.split sum.split prod.split)

lemma safe_when [safe_rules]: "(b \<Longrightarrow> safe_from E tr m) \<Longrightarrow> safe_from E tr (when_act b m)"
  unfolding when_act_def by (intro safe_rules)

lemma safe_wrapped [safe_rules]:
  "safe_from E tr m \<Longrightarrow> safe_from E tr (ignoring m)"
  "safe_from E tr m \<Longrightarrow> safe_from E tr (succeeds m)"
  "safe_from E tr m \<Longrightarrow> safe_from E tr (mapping_error f m)"
  unfolding ignoring_def succeeds_def mapping_error_def by (intro safe_rules; assumption)+

lemma safe_finally [safe_rules]: "safe_from E tr m \<Longrightarrow> safe_from E tr d \<Longrightarrow> safe_from E tr (finally_do m d)"
  unfolding finally_do_def by (intro safe_rules)

lemma safe_for_each [safe_rules]: "(\<And>x. x \<in> set xs \<Longrightarrow> safe_from E tr (f x)) \<Longrightarrow> safe_from E tr (for_each f xs)"
  by (induction xs) (auto intro!: safe_rules)

lemma safe_locked [safe_rules]: "safe_from E tr m \<Longrightarrow> safe_from E tr (locked E ins m)"
  unfolding locked_def Lock_def unlock_def
  by (intro safe_rules) (auto intro!: safe_emits emits_rules simp: destroys_def)

lemma safe_run:
  assumes "cmdName (C_cmd name args) \<noteq> ''qm'' \<or> hd args \<noteq> ''destroy''"
  shows "safe_from E tr (run E ins name args)"
  using assms by (auto intro!: safe_emits emits_rules simp: destroys_def C_cmd_def)

lemma safe_destroy [safe_rules]:
  assumes "may_destroy E tr vmid"
  shows "safe_from E tr (run E ins ''qm'' (destroy_args vmid))"
    and "safe_from E tr (run E ins ''qm'' (destroy_args vmid @ args))"
proof -
  have "does (own_only E) (run E ins ''qm'' (destroy_args vmid @ args)) w (\<lambda>_ _. True)" if "suffix tr (hTrace w)" for w args
  proof -
    have "may_destroy E (HLog l # hTrace w) vmid" for l
      using may_destroy_suffix [OF _ assms] that by (meson suffix_Cons)
    then have "own_only E (HLog l # hTrace w) (HRun (C_cmd ''qm'' (destroy_args vmid @ args)))" for l
      unfolding own_only_def by blast
    moreover have "own_only E ts (HLog l)" for ts l by (simp add: own_only_def destroys_def)
    ultimately show ?thesis
      unfolding run_def Changer_Run_def Log_def
      by (auto intro!: does_next does_ret does_event simp: emit_def split: sum.split)
  qed
  from this [where args = args] this [where args = "[]"]
  show "safe_from E tr (run E ins ''qm'' (destroy_args vmid))" "safe_from E tr (run E ins ''qm'' (destroy_args vmid @ args))"
    unfolding safe_from_def by simp_all
qed

lemma safe_vms:
  assumes "\<And>vs ts. suffix tr ts \<Longrightarrow> \<forall>v\<in>set vs. listed E ts v \<Longrightarrow> safe_from E ts (f vs)"
  shows "safe_from E tr (andthen (vms E) f)"
  unfolding safe_from_def
proof (intro allI impI does_andthen)
  fix w :: host
  assume w: "suffix tr (hTrace w)"
  have "does (own_only E) (vms E) w (\<lambda>r w'. case r of Inl e \<Rightarrow> True | Inr vs \<Rightarrow> (\<forall>v\<in>set vs. listed E (hTrace w') v) \<and> hNode w' \<noteq> [])"
    by (rule does_vms) (simp add: own_only_def destroys_def)
  then show "does (own_only E) (vms E) w (\<lambda>r w'. case r of Inl e \<Rightarrow> True | Inr vs \<Rightarrow> does (own_only E) (f vs) w' (\<lambda>_ _. True))"
    by (rule does_weaken) (use assms suffix_order.trans [OF w] in \<open>auto simp: safe_from_def split: sum.splits\<close>)
qed

section \<open>The commands' operations\<close>

lemma safe_template_scan:
  "\<forall>t\<in>set ts. may_destroy E tr (VMID t) \<Longrightarrow> safe_from E tr (template_scan E ins again ts vs)"
  by (induction ts arbitrary: vs) (auto intro!: safe_rules)

lemma safe_import_cmds [safe_rules]:
  "safe_from E tr (for_each (run E ins ''qm'') (import_cmds ins s vid tags img))"
  by (intro safe_harmless emits_rules event_facts import_harmless)

lemma safe_importTemplate [safe_rules]: "safe_from E tr (importTemplate E ins s again)"
  unfolding importTemplate_def
proof (rule safe_vms)
  fix vs ts
  assume "\<forall>v\<in>set vs. listed E ts v"
  then have "\<forall>t\<in>set (tagged vs RunnerPool (releaseTag ins)). may_destroy E ts (VMID t)"
    using tagged_ours [of _ vs RunnerPool "releaseTag ins"] listed_may_destroy by fastforce
  then show "safe_from E ts (andthen (template_scan E ins again (tagged vs RunnerPool (releaseTag ins)) vs) (\<lambda>left.
       case left of
         None \<Rightarrow> ret ()
       | Some vs' \<Rightarrow>
           andthen (inst_get E (runnerImage (inVersion ins))) (\<lambda>img.
           andthen (inst_get E (runnerManifest (inVersion ins))) (\<lambda>manifest.
           andthen (runnerVersion E manifest) (\<lambda>rv.
           andthen (reservedVMID vs' s) (\<lambda>vmid.
           andthen now (\<lambda>t.
             for_each (run E ins ''qm'') (import_cmds ins s (Itoa vmid) (template_tags ins t rv) img))))))))"
    by (intro safe_andthen safe_template_scan safe_cases safe_ret safe_steps safe_import_cmds)
qed

lemma safe_systemVM:
  assumes "\<And>v ts. suffix tr ts \<Longrightarrow> listed E ts v \<and> Pool v = SystemPool \<and> HasTag v tag \<Longrightarrow> safe_from E ts (f (Some v))"
    and "safe_from E tr (f None)"
  shows "safe_from E tr (andthen (systemVM E tag) f)"
proof -
  have "safe_from E tr (andthen (vms E) (\<lambda>vs. f (findSystemVM vs tag)))"
  proof (rule safe_vms)
    fix vs ts
    assume "suffix tr ts" and seen: "\<forall>v\<in>set vs. listed E ts v"
    then show "safe_from E ts (f (findSystemVM vs tag))"
      using assms(1) [of ts] safe_suffix [OF assms(2)] findSystemVM_Some [of vs tag] by (cases "findSystemVM vs tag") auto
  qed
  moreover have "andthen (systemVM E tag) f = andthen (vms E) (\<lambda>vs. f (findSystemVM vs tag))"
    by (auto simp: systemVM_def findSystemVM_def andthen_def ret_def split: prod.splits sum.splits)
  ultimately show ?thesis by simp
qed

lemma safe_existingSystemVM [safe_rules]:
  assumes "HasPrefix tag ''par-''"
  shows "safe_from E tr (existingSystemVM E ins tag)"
  unfolding existingSystemVM_def
proof (rule safe_systemVM)
  fix v ts
  assume v: "listed E ts v \<and> Pool v = SystemPool \<and> HasTag v tag"
  then have "ours_vm v" using assms by (auto simp: ours_vm_def HasTag_iff list_ex_iff)
  then have "may_destroy E ts (VMID v)" using v listed_may_destroy by blast
  then show "safe_from E ts (case Some v of
         None \<Rightarrow> ret None
       | Some v \<Rightarrow>
           andthen (nodeName E) (\<lambda>node.
           andthen (VMConfig E node (VMID v)) (\<lambda>cfg.
             if cfg ''scsi0'' = None then next_act (run E ins ''qm'' (destroy_args (VMID v))) (ret None)
             else next_act (when_act (Status v \<noteq> ''running'') (run E ins ''qm'' [''start'', Itoa (VMID v)]))
                    (ret (Some (VMID v))))))"
    unfolding option.case by (intro safe_rules safe_run) simp_all
qed (simp add: safe_ret)

lemma safe_ensureSystemVM [safe_rules]:
  "HasPrefix tag ''par-'' \<Longrightarrow> safe_from E tr (ensureSystemVM E ins s tag spec img)"
  unfolding ensureSystemVM_def by (intro safe_rules)

lemma safe_system_commands [safe_rules]:
  "safe_from E tr (createGateway E ins s)" "safe_from E tr (createController E ins s gateway)"
  unfolding createGateway_def createController_def by (intro safe_rules; simp)+

lemma safe_destroy_listed [safe_rules]: "may_destroy E tr (VMID v) \<Longrightarrow> safe_from E tr (destroy_listed E ins v)"
  unfolding destroy_listed_def by (intro safe_rules safe_run) simp_all

lemma safe_destroyVM [safe_rules]:
  assumes "may_destroy E tr vmid"
  shows "safe_from E tr (inst_destroyVM E ins vmid)"
  unfolding inst_destroyVM_def
proof (rule safe_vms, rule safe_for_each, rule safe_destroy_listed)
  fix vs ts v
  assume "suffix tr ts" and "v \<in> set (filter (\<lambda>v. VMID v = vmid) vs)"
  then show "may_destroy E ts (VMID v)" using assms may_destroy_suffix by auto
qed

lemma safe_destroy_all:
  assumes "\<And>vs v. v \<in> set (select vs) \<Longrightarrow> v \<in> set vs \<and> ours_vm v"
  shows "safe_from E tr (andthen (vms E) (\<lambda>vs. for_each (\<lambda>v. inst_destroyVM E ins (VMID v)) (select vs)))"
  by (intro safe_vms safe_for_each safe_destroyVM) (use assms listed_may_destroy in blast)

lemma managed_ours: "v \<in> set (managedVMs vs) \<Longrightarrow> v \<in> set vs \<and> ours_vm v"
  by (auto simp: managedVMs_def ours_vm_def HasTag_iff list_ex_iff intro!: bexI [of _ Managed])

lemma safe_destroyBuildVMs [safe_rules]: "safe_from E tr (destroyBuildVMs E ins)"
  unfolding destroyBuildVMs_def
  by (rule safe_destroy_all [of "\<lambda>vs. tagged vs RunnerPool Build"], rule tagged_ours [where pool = RunnerPool and tag = Build]) simp_all

lemma safe_destroy_managed [safe_rules]: "safe_from E tr (destroy_managed E ins)"
  unfolding destroy_managed_def by (rule safe_destroy_all [of managedVMs], rule managed_ours)

text \<open>Once the clone command has run, its VM may be destroyed.\<close>

lemma does_clone:
  assumes "\<not> inDryRun ins"
  shows "does (own_only E) (run E ins ''qm'' (clone_args t vmid)) w
    (\<lambda>r w'. HRun (C_cmd ''qm'' (clone_args t vmid)) \<in> set (hTrace w') \<and> suffix (hTrace w) (hTrace w'))"
proof -
  have "own_only E ts (HRun (C_cmd ''qm'' (clone_args t vmid)))" "own_only E ts (HLog l)" for ts l
    by (simp_all add: own_only_def destroys_def C_cmd_def clone_args_def)
  then show ?thesis
    unfolding run_def Changer_Run_def Log_def using assms
    by (auto intro!: does_next does_ret does_event simp: emit_def suffix_Cons split: sum.split)
qed

lemma safe_CheckNetwork [safe_rules]:
  assumes "\<not> inDryRun ins"
  shows "safe_from E tr (CheckNetwork E ins s a)"
proof -
  have clone: "safe_from E ts (next_act (run E ins ''qm'' (clone_args t vmid))
      (finally_do (smoke_test E ins s a vmid) (inst_destroyVM E ins vmid)))" for ts t vmid
    unfolding safe_from_def
  proof (intro allI impI does_next does_weaken [OF does_clone [OF assms]], goal_cases)
    case (1 w r w')
    then have "may_destroy E (hTrace w') vmid" unfolding may_destroy_def by blast
    then have "safe_from E (hTrace w') (finally_do (smoke_test E ins s a vmid) (inst_destroyVM E ins vmid))"
      by (intro safe_rules)
    then show ?case by (simp add: safe_from_def split: sum.split)
  qed
  show ?thesis unfolding CheckNetwork_def by (intro safe_next safe_andthen safe_cases safe_ret safe_destroyBuildVMs safe_steps clone)
qed

lemma safe_replaceGateway [safe_rules]:
  "may_destroy E tr vmid \<Longrightarrow> safe_from E tr (replaceGateway E ins vmid cid s)"
  unfolding replaceGateway_def by (intro safe_rules safe_run) simp_all

lemma safe_planned_steps:
  assumes "\<And>g. ufGateway u = Some g \<Longrightarrow> may_destroy E tr (VMID g)" and "st \<in> set (planned_steps E ins s force u)"
  shows "safe_from E tr (stepDo st a)"
proof -
  have plain: "safe_from E tr (stepDo (plain_step plan m) b)" if "safe_from E tr m" for plan m b
    unfolding plain_step_def upgrade_step.simps using that by (intro safe_rules)
  have fetching: "safe_from E tr (stepDo (fetching_step E ins plan f) b)" if "\<And>x. safe_from E tr (f x)" for plan f b
    unfolding fetching_step_def upgrade_step.simps using that by (intro safe_rules)
  show ?thesis
    using assms unfolding planned_steps_def Let_def
    by (auto split: if_splits option.splits intro!: plain fetching safe_rules)
qed

lemma safe_run_steps:
  assumes "\<And>st b. st \<in> set sts \<Longrightarrow> safe_from E tr (stepDo st b)"
  shows "safe_from E tr (run_steps sts a)"
  using assms by (induction sts arbitrary: a) (auto intro!: safe_rules)

lemma safe_upgrade_plan:
  assumes "upgrade_plan E ins s force steps tr"
  shows "safe_from E tr (run_steps steps a)"
proof (rule safe_run_steps)
  fix st b
  assume "st \<in> set steps"
  then consider u where "st \<in> set (planned_steps E ins s force u)"
      "\<And>g. ufGateway u = Some g \<Longrightarrow> listed E tr g \<and> Pool g = SystemPool \<and> HasTag g Gateway"
    | vmid where "st = tag_step E ins s vmid"
    using assms unfolding upgrade_plan_def by auto
  then show "safe_from E tr (stepDo st b)"
  proof cases
    case (1 u)
    have "may_destroy E tr (VMID g)" if "ufGateway u = Some g" for g
      using 1(2) [OF that] by (intro listed_may_destroy) (auto simp: ours_vm_def HasTag_iff list_ex_iff intro!: bexI [of _ Gateway])
    then show ?thesis using 1(1) by (rule safe_planned_steps)
  next
    case (2 vmid)
    then show ?thesis
      unfolding tag_step_def plain_step_def by simp (intro safe_rules safe_run, simp add: tag_args_def)
  qed
qed

lemma safe_Upgrade [safe_rules]: "safe_from E tr (Upgrade E ins installed confirmed force)"
proof -
  have "safe_from E ts (andthen (upgradeSteps E ins s force) (\<lambda>steps.
      if steps = [] then ret () else if inDryRun ins then ret ()
      else next_act (when_act (\<not> confirmed) (confirm E ins q))
             (locked E ins (next_act (run_steps steps None) (ignoring (AsyncPF E ins))))))" for ts s q
    unfolding safe_from_def
  proof (intro allI impI does_andthen does_weaken [OF upgradeSteps_does], goal_cases)
    case (1 w tr ev)
    then show ?case by (auto simp: own_only_def changes_def destroys_def split: hevent.splits)
  next
    case (2 w r w')
    show ?case
    proof (cases r)
      case (Inr steps)
      with 2 have "upgrade_plan E ins s force steps (hTrace w')" by simp
      then have "safe_from E (hTrace w') (if steps = [] then ret () else if inDryRun ins then ret ()
          else next_act (when_act (\<not> confirmed) (confirm E ins q))
                 (locked E ins (next_act (run_steps steps None) (ignoring (AsyncPF E ins)))))"
        by (intro safe_rules safe_upgrade_plan)
      then show ?thesis using Inr by (simp add: safe_from_def)
    qed simp
  qed
  note steps = this
  show ?thesis
    unfolding Upgrade_def
    by (intro safe_cases(1) safe_ret safe_andthen [where m = "loadSettings E ins"] safe_steps steps)
qed

lemma safe_do_install:
  assumes "\<not> inDryRun ins"
  shows "safe_from E tr (do_install E ins s opts)"
  unfolding do_install_def install_vms_def finish_install_def
  by (intro safe_rules assms safe_run) (simp add: tag_args_def)



end
