(* ===== verification/Commands_Order.thy ===== *)
theory Commands_Order
  imports Commands_VMs
begin

text \<open>
  The order of what install and update do: the mark of a finished install comes last, and exactly when all steps
  succeeded.
\<close>

section \<open>The mark of a finished install\<close>

text \<open>A marking command that succeeded, after the history \<open>tr0\<close>.\<close>

definition newly_marked :: "henv \<Rightarrow> hevent list \<Rightarrow> hevent list \<Rightarrow> bool" where
  "newly_marked E tr0 tr \<longleftrightarrow>
     (\<exists>us ev vs out. tr = us @ ev # vs @ tr0 \<and> marks_finished ev \<and> he_text E (ev # vs @ tr0) = Inr out)"

definition finishes :: "henv \<Rightarrow> hevent list \<Rightarrow> bool \<Rightarrow> unit act \<Rightarrow> bool" where
  "finishes E tr0 complete m \<longleftrightarrow>
     (\<forall>w. suffix tr0 (hTrace w) \<longrightarrow> \<not> newly_marked E tr0 (hTrace w) \<longrightarrow>
        (newly_marked E tr0 (hTrace (snd (m w))) \<longleftrightarrow> fst (m w) = Inr () \<and> complete))"

lemma newly_marked_Cons:
  assumes "suffix tr0 tr"
  shows "newly_marked E tr0 (ev # tr) \<longleftrightarrow>
    newly_marked E tr0 tr \<or> marks_finished ev \<and> (\<exists>out. he_text E (ev # tr) = Inr out)"
proof -
  obtain vs where tr: "tr = vs @ tr0" using assms by (auto simp: suffix_def)
  show ?thesis
  proof
    assume "newly_marked E tr0 (ev # tr)"
    then obtain us e ws out where e: "ev # tr = us @ e # ws @ tr0" "marks_finished e" "he_text E (e # ws @ tr0) = Inr out"
      unfolding newly_marked_def by blast
    show "newly_marked E tr0 tr \<or> marks_finished ev \<and> (\<exists>out. he_text E (ev # tr) = Inr out)"
    proof (cases us)
      case Nil
      with e show ?thesis by auto
    next
      case (Cons u us')
      with e show ?thesis unfolding newly_marked_def by auto
    qed
  next
    assume "newly_marked E tr0 tr \<or> marks_finished ev \<and> (\<exists>out. he_text E (ev # tr) = Inr out)"
    then show "newly_marked E tr0 (ev # tr)"
    proof
      assume "newly_marked E tr0 tr"
      then show ?thesis unfolding newly_marked_def by (metis append_Cons)
    next
      assume "marks_finished ev \<and> (\<exists>out. he_text E (ev # tr) = Inr out)"
      then show ?thesis unfolding newly_marked_def tr by (intro exI [of _ "[]"]) auto
    qed
  qed
qed

lemma newly_marked_steps:
  assumes "suffix tr0 tr" and "list_all step_event es"
  shows "newly_marked E tr0 (es @ tr) \<longleftrightarrow> newly_marked E tr0 tr"
  using assms(2)
proof (induction es)
  case (Cons e es)
  have "suffix tr0 (es @ tr)" using assms(1) by (simp add: suffix_appendI)
  with Cons show ?case by (simp add: newly_marked_Cons step_event_def)
qed simp

lemma finishes_andthen:
  assumes "emits step_event m" and "\<And>x. finishes E tr0 complete (f x)"
  shows "finishes E tr0 complete (andthen m f)"
  unfolding finishes_def
proof (intro allI impI)
  fix w :: host
  assume w: "suffix tr0 (hTrace w)" "\<not> newly_marked E tr0 (hTrace w)"
  obtain es where es: "hTrace (snd (m w)) = es @ hTrace w" "list_all step_event es"
    using emitsE [OF assms(1), of w] by blast
  have still: "\<not> newly_marked E tr0 (hTrace (snd (m w)))" "suffix tr0 (hTrace (snd (m w)))"
    using w es by (simp_all add: newly_marked_steps suffix_appendI)
  show "newly_marked E tr0 (hTrace (snd (andthen m f w))) \<longleftrightarrow> fst (andthen m f w) = Inr () \<and> complete"
  proof (cases "m w")
    case (Pair r w')
    with still assms(2) show ?thesis by (cases r) (auto simp: andthen_def finishes_def)
  qed
qed

lemma finishes_next: "emits step_event m \<Longrightarrow> finishes E tr0 complete n \<Longrightarrow> finishes E tr0 complete (next_act m n)"
  unfolding next_act_def by (rule finishes_andthen)

lemma finishes_stop: "finishes E tr0 False (ret ())"
  by (simp add: finishes_def ret_def)

lemma finishes_if:
  "(b \<Longrightarrow> finishes E tr0 c m) \<Longrightarrow> (\<not> b \<Longrightarrow> finishes E tr0 c n) \<Longrightarrow> finishes E tr0 c (if b then m else n)"
  "(\<And>y z. finishes E tr0 c (f y z)) \<Longrightarrow> finishes E tr0 c (case p of (y, z) \<Rightarrow> f y z)"
  by (auto split: prod.split)

lemma ignoring_result: "fst (ignoring m w) = Inr ()" "snd (ignoring m w) = snd (m w)"
  by (simp_all add: ignoring_def andthen_def attempt_def ret_def split: prod.split)

lemma mark_events:
  assumes "\<not> inDryRun ins" and "emits step_event n"
  shows "finishes E tr0 True (next_act (run E ins ''qm'' (tag_args ins s vmid)) (ignoring n))"
  unfolding finishes_def
proof (intro allI impI)
  fix w :: host
  assume w: "suffix tr0 (hTrace w)" "\<not> newly_marked E tr0 (hTrace w)"
  define c where "c = C_cmd ''qm'' (tag_args ins s vmid)"
  define w1 where "w1 = emit E (HLog (cmd_String c)) w"
  define w2 where "w2 = emit E (HRun c) w1"
  have mark: "marks_finished (HRun c)" and log: "\<not> marks_finished (HLog l)" for l
    by (simp_all add: c_def tag_args_def marks_finished_def C_cmd_def)
  have t: "hTrace w1 = HLog (cmd_String c) # hTrace w" "hTrace w2 = HRun c # hTrace w1"
    by (simp_all add: w1_def w2_def emit_def)
  have s1: "suffix tr0 (hTrace w1)" and s2: "suffix tr0 (hTrace w2)" using w(1) by (simp_all add: t suffix_Cons)
  have run: "run E ins ''qm'' (tag_args ins s vmid) w = (map_sum id (\<lambda>_. ()) (he_text E (hTrace w2)), w2)"
    using assms(1) by (auto simp: run_def Changer_Run_def Log_def next_act_def andthen_def event_def ret_def t
        simp flip: c_def w1_def w2_def split: sum.split)
  have "\<not> newly_marked E tr0 (hTrace w1)" using w log by (simp add: t newly_marked_Cons)
  then have at2: "newly_marked E tr0 (hTrace w2) \<longleftrightarrow> (\<exists>out. he_text E (hTrace w2) = Inr out)"
    using s1 mark by (simp add: t newly_marked_Cons)
  obtain es where "hTrace (snd (n w2)) = es @ hTrace w2" "list_all step_event es"
    using emitsE [OF assms(2), of w2] by blast
  then have "newly_marked E tr0 (hTrace (snd (n w2))) \<longleftrightarrow> newly_marked E tr0 (hTrace w2)"
    using s2 by (simp add: newly_marked_steps)
  then show "newly_marked E tr0 (hTrace (snd (next_act (run E ins ''qm'' (tag_args ins s vmid)) (ignoring n) w)))
      \<longleftrightarrow> fst (next_act (run E ins ''qm'' (tag_args ins s vmid)) (ignoring n) w) = Inr () \<and> True"
    using at2 by (cases "he_text E (hTrace w2)") (simp_all add: next_act_def andthen_def run ignoring_result)
qed

lemma next_andthen: "next_act (andthen p q) r = andthen p (\<lambda>x. next_act (q x) r)"
  by (auto simp: next_act_def andthen_def fun_eq_iff split: prod.split sum.split)

lemma finishes_finish_install:
  assumes "\<not> inDryRun ins"
  shows "finishes E tr0 True (finish_install E ins s opts vmid a)"
  unfolding finish_install_def
  by (rule finishes_andthen, intro marking, rule finishes_andthen, intro marking, rule finishes_next, intro marking,
      rule finishes_next, intro marking, rule mark_events [OF assms], intro marking)

lemma finishes_run_steps:
  assumes "\<not> inDryRun ins" and "\<And>st a. st \<in> set sts \<Longrightarrow> emits step_event (stepDo st a)" and "emits step_event n"
  shows "finishes E tr0 True (next_act (run_steps (sts @ [tag_step E ins s vmid]) a) (ignoring n))"
proof -
  show ?thesis
    using assms(2)
  proof (induction sts arbitrary: a)
    case Nil
    have "next_act (run_steps [tag_step E ins s vmid] a) (ignoring n)
        = next_act (run E ins ''qm'' (tag_args ins s vmid)) (ignoring n)"
      by (auto simp: tag_step_def plain_step_def next_act_def andthen_def ret_def fun_eq_iff split: prod.split sum.split)
    then show ?case using mark_events [OF assms(1,3)] by simp
  next
    case (Cons st sts)
    then show ?case by (auto simp: next_andthen intro!: finishes_andthen)
  qed
qed



end
