(* ===== verification/Commands_Config.thy ===== *)
theory Commands_Config
  imports Commands_Safety
begin

text \<open>
  \<^verbatim>\<open>parcon config set\<close> and \<^verbatim>\<open>parcon config apply\<close> never leave settings behind that the running controller has
  not accepted: the settings file is written only after the controller's own parcon checked the configuration
  rendered from them and it replaced the old one, or when no controller runs.
\<close>

section \<open>Commands that succeeded in a VM\<close>

text \<open>The newest event is a command in a VM that finished with status 0.\<close>

definition guest_ok :: "henv \<Rightarrow> hevent list \<Rightarrow> bool" where
  "guest_ok E es \<longleftrightarrow> (\<exists>e res. he_exec E es = (e, Inr (res, True)) \<and> ExitCode res = 0 \<and> Signal res = 0)"

lemma andthen_Inr: "andthen m f w = (Inr y, w'') \<longleftrightarrow> (\<exists>x w'. m w = (Inr x, w') \<and> f x w' = (Inr y, w''))"
  by (auto simp: andthen_def split: prod.splits sum.splits)

lemma next_Inr: "next_act m n w = (Inr y, w'') \<longleftrightarrow> (\<exists>x w'. m w = (Inr x, w') \<and> n w' = (Inr y, w''))"
  by (simp add: next_act_def andthen_Inr)

lemma mapping_Inr: "mapping_error f m w = (Inr y, w') \<longleftrightarrow> m w = (Inr y, w')"
  by (auto simp: mapping_error_def andthen_def attempt_def ret_def fail_def split: prod.splits sum.splits)

lemma guest_answer_ok:
  assumes "guest_answer E vid t stdin argv w = (Inr (out, None), w')"
  shows "hTrace w' = HGuest vid t argv stdin # hTrace w \<and> guest_ok E (hTrace w')"
  using assms
  by (auto simp: guest_answer_def GuestExec_def attempt_def event_def emit_def andthen_def ret_def fail_def guest_ok_def
      split: prod.splits sum.splits option.splits if_splits bool.splits)

lemma asParcon_ok:
  assumes "asParcon E vid t stdin argv w = (Inr out, w')"
  shows "hTrace w' = HGuest vid t (parcon_argv argv) stdin # hTrace w \<and> guest_ok E (hTrace w')"
proof -
  have "guest_answer E vid t stdin (parcon_argv argv) w = (Inr (out, None), w')"
    using assms by (auto simp: asParcon_def guestExec_def andthen_Inr ret_def fail_def split: option.splits)
  then show ?thesis by (rule guest_answer_ok)
qed

section \<open>Accepted configurations\<close>

definition write_event :: "vmid \<Rightarrow> string \<Rightarrow> hevent" where
  "write_event vid text = HGuest vid (30 * Second) (parcon_argv (write_argv next_path)) (Some text)"

definition check_event :: "vmid \<Rightarrow> hevent" where
  "check_event vid = HGuest vid Minute (parcon_argv check_argv) None"

definition replace_event :: "vmid \<Rightarrow> hevent" where
  "replace_event vid = HGuest vid (30 * Second) (parcon_argv replace_argv) None"

text \<open>
  Since \<open>tr0\<close>, the controller was given the text as its next configuration, its own parcon accepted it, and
  it took the old one's place.
\<close>

definition took_config :: "henv \<Rightarrow> hevent list \<Rightarrow> string \<Rightarrow> hevent list \<Rightarrow> bool" where
  "took_config E tr0 text tr \<longleftrightarrow>
     (\<exists>us vid l ys. let written = write_event vid text # ys @ tr0; checked = check_event vid # HLog l # written;
         replaced = replace_event vid # checked
       in tr = us @ replaced \<and> guest_ok E written \<and> guest_ok E checked \<and> guest_ok E replaced)"

definition renders :: "henv \<Rightarrow> settings \<Rightarrow> string \<Rightarrow> bool" where
  "renders E s text \<longleftrightarrow>
     (\<exists>env parsed. ControllerConfig (he_host E) (he_writeConfig E) (he_readConfig E) s env = Inr (parsed, text))"

definition accepted :: "henv \<Rightarrow> hevent list \<Rightarrow> settings \<Rightarrow> hevent list \<Rightarrow> bool" where
  "accepted E tr0 s tr \<longleftrightarrow> (\<exists>text. renders E s text \<and> took_config E tr0 text tr)"

text \<open>Since \<open>tr0\<close>, the node's VMs were listed, and no controller VM ran.\<close>

definition no_controller :: "henv \<Rightarrow> hevent list \<Rightarrow> hevent list \<Rightarrow> bool" where
  "no_controller E tr0 tr \<longleftrightarrow>
     (\<exists>us ts rs node. tr = us @ HRead listing # ts @ tr0 \<and> he_resources E (HRead listing # ts @ tr0) = Inr rs
        \<and> (case findSystemVM (vmsOnNode rs node) Controller of None \<Rightarrow> True | Some v \<Rightarrow> Status v \<noteq> ''running''))"

definition save_allowed :: "henv \<Rightarrow> installer \<Rightarrow> hevent list \<Rightarrow> hevent list \<Rightarrow> hevent \<Rightarrow> bool" where
  "save_allowed E ins tr0 tr ev \<longleftrightarrow>
     (\<forall>data. ev = HWrite (inSettingsPath ins) data \<longrightarrow>
        (\<exists>s. he_writeSettings E s = Inr data \<and> (accepted E tr0 s tr \<or> no_controller E tr0 tr)))"

lemma took_config_suffix: "took_config E tr0 text tr \<Longrightarrow> suffix tr tr' \<Longrightarrow> took_config E tr0 text tr'"
  unfolding took_config_def Let_def suffix_def by (metis append_assoc)

lemma accepted_suffix: "accepted E tr0 s tr \<Longrightarrow> suffix tr tr' \<Longrightarrow> accepted E tr0 s tr'"
  unfolding accepted_def using took_config_suffix by blast

lemma no_controller_suffix: "no_controller E tr0 tr \<Longrightarrow> suffix tr tr' \<Longrightarrow> no_controller E tr0 tr'"
  unfolding no_controller_def suffix_def by (metis append_assoc)

lemma RenderConfig_renders:
  assumes "RenderConfig E s w = (Inr (content, env, ca), w')"
  shows "renders E s content"
proof -
  obtain env' ca' w1 where "(case ControllerConfig (he_host E) (he_writeConfig E) (he_readConfig E) s env' of
      Inl e \<Rightarrow> errorf ''the settings don't render a config'' | Inr (parsed, data) \<Rightarrow> ret (data, env', ca')) w1
      = (Inr (content, env, ca), w')"
    using assms unfolding RenderConfig_def andthen_Inr by auto
  then obtain p where "ControllerConfig (he_host E) (he_writeConfig E) (he_readConfig E) s env' = Inr p" and "snd p = content"
    by (auto simp: errorf_def fail_def ret_def split: sum.splits prod.splits)
  then have "ControllerConfig (he_host E) (he_writeConfig E) (he_readConfig E) s env' = Inr (fst p, content)" by auto
  then show ?thesis unfolding renders_def by (intro exI)
qed

lemma Log_trace: "Log E l w = (Inr (), emit E (HLog l) w)"
  by (simp add: Log_def event_def)

lemma emit_trace [simp]: "hTrace (emit E ev w) = ev # hTrace w"
  by (simp add: emit_def)

lemma writeControllerFile_ok:
  assumes "writeControllerFile E ins vid path data w = (Inr (), w')" and "\<not> inDryRun ins"
  shows "\<exists>us. hTrace w' = HGuest vid (30 * Second) (parcon_argv (write_argv path)) (Some data) # us @ hTrace w
    \<and> guest_ok E (hTrace w')"
proof -
  obtain out where "asParcon E vid (30 * Second) (Some data) (write_argv path)
      (emit E (HLog (''controller VM '' @ Itoa vid @ '': write '' @ path)) w) = (Inr out, w')"
    using assms by (auto simp: writeControllerFile_def next_Inr Log_trace mapping_Inr ret_def)
  from asParcon_ok [OF this] show ?thesis
    by (intro exI [of _ "[HLog (''controller VM '' @ Itoa vid @ '': write '' @ path)]"]) auto
qed

lemma install_config_ok:
  assumes "install_config E vid w = (Inr (), w')"
  shows "hTrace w' = replace_event vid # check_event vid # hTrace w
    \<and> guest_ok E (check_event vid # hTrace w) \<and> guest_ok E (hTrace w')"
proof -
  obtain out w1 out' where a: "guest_answer E vid Minute None (parcon_argv check_argv) w = (Inr (out, None), w1)"
    and b: "asParcon E vid (30 * Second) None replace_argv w1 = (Inr out', w')"
    using assms by (auto simp: install_config_def andthen_Inr next_Inr mapping_Inr fail_def ret_def split: option.splits)
  from guest_answer_ok [OF a] asParcon_ok [OF b] show ?thesis by (auto simp: check_event_def replace_event_def)
qed

lemma took_configI:
  assumes "tr = replace_event vid # check_event vid # HLog l # write_event vid content # ys @ tr0"
    and "guest_ok E (write_event vid content # ys @ tr0)"
    and "guest_ok E (check_event vid # HLog l # write_event vid content # ys @ tr0)" and "guest_ok E tr"
  shows "took_config E tr0 content tr"
  unfolding took_config_def Let_def
  by (rule exI [of _ "[]"], rule exI [of _ vid], rule exI [of _ l], rule exI [of _ ys]) (use assms in simp)

lemma pushConfig_accepted:
  assumes "pushConfig E ins vid s w = (Inr (), w')" and "\<not> inDryRun ins" and "suffix tr0 (hTrace w)"
  shows "accepted E tr0 s (hTrace w')"
proof -
  obtain content env ca w1 w2 w3 where r: "RenderConfig E s w = (Inr (content, env, ca), w1)"
    and ca: "when_act (tiMode (enTLS env) = TLSNodeCA) (writeControllerFile E ins vid config_CACertFile ca) w1 = (Inr (), w2)"
    and wr: "writeControllerFile E ins vid next_path content w2 = (Inr (), w3)"
    and installed: "install_config E vid (emit E (HLog (''controller VM '' @ Itoa vid @ '': parcon check config, then mv'')) w3) = (Inr (), w')"
    using assms(1,2) by (auto simp: pushConfig_def andthen_Inr next_Inr Log_trace)
  have "emits harmless (RenderConfig E s)"
    and "emits harmless (when_act (tiMode (enTLS env) = TLSNodeCA) (writeControllerFile E ins vid config_CACertFile ca))"
    by (intro stepping emits_rules)+
  then obtain us vs where t1: "hTrace w1 = us @ hTrace w" and t2: "hTrace w2 = vs @ hTrace w1"
    using r ca by (metis emitsE snd_conv)
  obtain ws where t3: "hTrace w3 = write_event vid content # ws @ hTrace w2" "guest_ok E (hTrace w3)"
    using writeControllerFile_ok [OF wr assms(2)] by (auto simp: write_event_def)
  obtain xs where t0: "hTrace w = xs @ tr0" using assms(3) by (auto simp: suffix_def)
  have "took_config E tr0 content (hTrace w')"
    by (rule took_configI [of _ vid _ _ "ws @ vs @ us @ xs"]; use install_config_ok [OF installed] t3 in \<open>auto simp: t0 t1 t2\<close>)
  then show ?thesis using RenderConfig_renders [OF r] by (auto simp: accepted_def)
qed

lemma systemVM_listing:
  assumes "systemVM E Controller w = (Inr found, w')" and "suffix tr0 (hTrace w)"
    and "case found of None \<Rightarrow> True | Some v \<Rightarrow> Status v \<noteq> ''running''"
  shows "no_controller E tr0 (hTrace w')"
proof -
  obtain node w1 vs where node: "nodeName E w = (Inr node, w1)" and vs: "VMs E node w1 = (Inr vs, w')"
    and found: "found = findSystemVM vs Controller"
    using assms(1) unfolding systemVM_def vms_def andthen_Inr by (auto simp: ret_def findSystemVM_def)
  obtain ts where ts: "hTrace w1 = ts @ hTrace w" using emitsE [OF nodeName_reads, of E w] node by auto
  obtain rs where rs: "he_resources E (HRead listing # hTrace w1) = Inr rs" "vs = vmsOnNode rs node"
    "hTrace w' = HRead listing # hTrace w1"
    using vs by (auto simp: VMs_def asks_def event_def andthen_Inr ret_def)
  obtain xs where "hTrace w = xs @ tr0" using assms(2) by (auto simp: suffix_def)
  then show ?thesis
    using rs assms(3) unfolding no_controller_def found ts
    by (intro exI [of _ "[]"] exI [of _ "ts @ xs"] exI [of _ rs] exI [of _ node]) simp
qed


section \<open>Saving settings\<close>

definition no_save :: "installer \<Rightarrow> hevent \<Rightarrow> bool" where
  "no_save ins ev \<longleftrightarrow> (\<forall>data. ev \<noteq> HWrite (inSettingsPath ins) data)"

text \<open>An operation that, from any history after \<open>tr0\<close> with \<open>P\<close>, saves only what may be saved.\<close>

definition saves_well :: "henv \<Rightarrow> installer \<Rightarrow> hevent list \<Rightarrow> (hevent list \<Rightarrow> bool) \<Rightarrow> 'a act \<Rightarrow> bool" where
  "saves_well E ins tr0 P m \<longleftrightarrow>
     (\<forall>w. suffix tr0 (hTrace w) \<longrightarrow> P (hTrace w) \<longrightarrow> does (save_allowed E ins tr0) m w (\<lambda>_ _. True))"

lemma no_save_allowed: "no_save ins ev \<Longrightarrow> save_allowed E ins tr0 tr ev"
  by (simp add: no_save_def save_allowed_def)

lemma saves_well_emits: "emits (no_save ins) m \<Longrightarrow> saves_well E ins tr0 P m"
  unfolding saves_well_def by (blast intro: does_emits no_save_allowed)

lemma saves_well_andthen:
  assumes "emits (no_save ins) m"
    and "\<And>x w w'. suffix tr0 (hTrace w) \<Longrightarrow> P (hTrace w) \<Longrightarrow> suffix (hTrace w) (hTrace w') \<Longrightarrow> m w = (Inr x, w')
      \<Longrightarrow> Q x (hTrace w')"
    and "\<And>x. saves_well E ins tr0 (Q x) (f x)"
  shows "saves_well E ins tr0 P (andthen m f)"
  unfolding saves_well_def
proof (intro allI impI)
  fix w :: host
  assume w: "suffix tr0 (hTrace w)" "P (hTrace w)"
  have "does (save_allowed E ins tr0) m w (\<lambda>r w'. suffix (hTrace w) (hTrace w'))"
    by (rule does_emits [OF assms(1)]) (auto intro: no_save_allowed)
  then have d: "does (save_allowed E ins tr0) m w (\<lambda>r w'. suffix (hTrace w) (hTrace w') \<and> m w = (r, w'))"
    by (simp add: does_def)
  show "does (save_allowed E ins tr0) (andthen m f) w (\<lambda>_ _. True)"
  proof (rule does_andthen, rule does_weaken [OF d])
    fix r w'
    assume r: "suffix (hTrace w) (hTrace w') \<and> m w = (r, w')"
    then have "suffix tr0 (hTrace w')" using w(1) suffix_order.trans by blast
    with r show "case r of Inl e \<Rightarrow> True | Inr x \<Rightarrow> does (save_allowed E ins tr0) (f x) w' (\<lambda>_ _. True)"
      using assms(2) [OF w] assms(3) by (cases r) (auto simp: saves_well_def)
  qed
qed

lemma saves_well_next:
  "emits (no_save ins) m \<Longrightarrow> (\<And>x w w'. suffix tr0 (hTrace w) \<Longrightarrow> P (hTrace w) \<Longrightarrow> suffix (hTrace w) (hTrace w')
      \<Longrightarrow> m w = (Inr x, w') \<Longrightarrow> Q (hTrace w')) \<Longrightarrow> saves_well E ins tr0 Q n \<Longrightarrow> saves_well E ins tr0 P (next_act m n)"
  unfolding next_act_def by (rule saves_well_andthen)

text \<open>After an operation that saves, one that does not.\<close>

lemma saves_well_then:
  assumes "saves_well E ins tr0 P m" and "\<And>x. emits (no_save ins) (f x)"
  shows "saves_well E ins tr0 P (andthen m f)"
  unfolding saves_well_def
proof (intro allI impI, rule does_andthen)
  fix w :: host
  assume "suffix tr0 (hTrace w)" "P (hTrace w)"
  with assms(1) have "does (save_allowed E ins tr0) m w (\<lambda>_ _. True)" by (simp add: saves_well_def)
  then show "does (save_allowed E ins tr0) m w
      (\<lambda>r w'. case r of Inl e \<Rightarrow> True | Inr x \<Rightarrow> does (save_allowed E ins tr0) (f x) w' (\<lambda>_ _. True))"
    by (rule does_weaken) (auto intro!: does_emits [OF assms(2)] no_save_allowed split: sum.split)
qed

lemma saves_well_cases:
  "(b \<Longrightarrow> saves_well E ins tr0 P m) \<Longrightarrow> (\<not> b \<Longrightarrow> saves_well E ins tr0 P n) \<Longrightarrow> saves_well E ins tr0 P (if b then m else n)"
  "(\<And>y z. p = (y, z) \<Longrightarrow> saves_well E ins tr0 P (g y z)) \<Longrightarrow> saves_well E ins tr0 P (case p of (y, z) \<Rightarrow> g y z)"
  by (auto split: prod.split)

lemma saves_well_save:
  assumes "\<And>tr. P tr \<Longrightarrow> accepted E tr0 s tr \<or> no_controller E tr0 tr"
  shows "saves_well E ins tr0 P (saveSettings E ins s)"
  unfolding saves_well_def
proof (intro allI impI)
  fix w :: host
  assume w: "suffix tr0 (hTrace w)" "P (hTrace w)"
  have save: "save_allowed E ins tr0 (us @ hTrace w) (HWrite (inSettingsPath ins) data)"
    if "he_writeSettings E s = Inr data" for us data
  proof -
    have "suffix (hTrace w) (us @ hTrace w)" by (simp add: suffix_def)
    then have "accepted E tr0 s (us @ hTrace w) \<or> no_controller E tr0 (us @ hTrace w)"
      using assms [OF w(2)] accepted_suffix no_controller_suffix by blast
    with that show ?thesis by (auto simp: save_allowed_def)
  qed
  have other: "save_allowed E ins tr0 tr ev" if "no_save ins ev" for tr ev using that by (rule no_save_allowed)
  show "does (save_allowed E ins tr0) (saveSettings E ins s) w (\<lambda>_ _. True)"
  proof (cases "he_writeSettings E s")
    case (Inr data)
    note written = save [OF Inr, of "[_, _]"]
    show ?thesis
      using written
      by (auto simp: saveSettings_def Inr Changer_WriteFile_def Log_def next_act_def
          intro!: does_andthen does_attempt does_event does_ret does_fail
          simp: other no_save_def emit_def split: sum.split)
  qed (simp add: saveSettings_def does_fail)
qed


section \<open>Operations that save no settings\<close>

lemma no_save_events [event_facts]:
  "no_save ins (HLog l)" "no_save ins (HRead q)" "no_save ins (HGuest vmid t argv stdin)" "no_save ins (HSleep d)"
  "no_save ins HLock" "no_save ins HUnlock" "no_save ins (HMkdir path)"
  by (simp_all add: no_save_def)

lemma reads_no_save: "emits is_read m \<Longrightarrow> emits (no_save ins) m"
  by (erule emits_mono) (auto simp: is_read_def no_save_def split: hevent.splits)

lemmas saveless_reads = reading [THEN reads_no_save]

lemma saveless_steps:
  "emits (no_save ins) (writeControllerFile E ins vid path data)" "emits (no_save ins) (inst_env E s)"
  "emits (no_save ins) (RenderConfig E s)" "emits (no_save ins) (install_config E vid)"
  unfolding writeControllerFile_def inst_env_def RenderConfig_def install_config_def
  by (intro emits_rules saveless_reads event_facts)+

lemma saveless_config:
  "emits (no_save ins) (pushConfig E ins vid s)" "emits (no_save ins) (sameVersion E ins vid)"
  "emits (no_save ins) (restartController E ins vid)"
  unfolding pushConfig_def sameVersion_def restartController_def waitSession_def
  by (intro emits_rules saveless_reads saveless_steps event_facts)+

lemmas saveless = saveless_reads saveless_steps saveless_config

section \<open>Applying a configuration\<close>

lemma saves_well_mapping: "saves_well E ins tr0 P m \<Longrightarrow> saves_well E ins tr0 P (mapping_error f m)"
  unfolding saves_well_def mapping_error_def
  by (intro allI impI does_andthen does_attempt) (auto elim!: does_weaken intro!: does_fail does_ret split: sum.split)

lemma saves_well_weaken: "(\<And>tr. P tr \<Longrightarrow> P' tr) \<Longrightarrow> saves_well E ins tr0 P' m \<Longrightarrow> saves_well E ins tr0 P m"
  unfolding saves_well_def by blast

lemma saves_well_dry: "inDryRun ins \<Longrightarrow> saves_well E ins tr0 P (saveSettings E ins s)"
  unfolding saveSettings_def Changer_WriteFile_def
  by (rule saves_well_emits) (intro emits_rules event_facts; simp)

lemma config_apply_saves_well: "saves_well E ins tr0 (\<lambda>_. True) (config_apply E ins s)"
  unfolding config_apply_def
proof (rule saves_well_andthen [where Q = "\<lambda>found tr. case found of
      None \<Rightarrow> no_controller E tr0 tr | Some v \<Rightarrow> Status v \<noteq> ''running'' \<longrightarrow> no_controller E tr0 tr"], goal_cases)
  case 1
  show ?case by (intro saveless)
next
  case (2 found w w')
  then show ?case using systemVM_listing [of E w found w' tr0] by (auto split: option.split)
next
  case (3 found)
  have "saves_well E ins tr0 (\<lambda>tr. inDryRun ins \<or> accepted E tr0 s tr) (saveSettings E ins s)"
    by (cases "inDryRun ins") (auto intro: saves_well_dry saves_well_save)
  then have save: "saves_well E ins tr0 (\<lambda>tr. inDryRun ins \<or> accepted E tr0 s tr)
      (next_act (mapping_error f (saveSettings E ins s)) (restartController E ins vid))" for vid f
    unfolding next_act_def by (intro saves_well_then saves_well_mapping saveless)
  have pushed: "saves_well E ins tr0 (\<lambda>_. True) (next_act (pushConfig E ins vid s)
      (next_act (mapping_error f (saveSettings E ins s)) (restartController E ins vid)))" for vid f
  proof (rule saves_well_next [OF _ _ save], goal_cases)
    case (2 x w w')
    then show ?case using pushConfig_accepted [of E ins vid s w w' tr0] by (cases x) auto
  qed (rule saveless)
  show ?case
  proof (cases found)
    case None
    then show ?thesis by (auto intro!: saves_well_save)
  next
    case (Some v)
    have "saves_well E ins tr0 P (next_act (sameVersion E ins (VMID v)) (next_act (pushConfig E ins (VMID v) s)
        (next_act (mapping_error f (saveSettings E ins s)) (restartController E ins (VMID v)))))" for P f
      by (rule saves_well_next [OF _ _ pushed]) (intro saveless TrueI)+
    then show ?thesis using Some by (auto intro!: saves_well_save)
  qed
qed

lemma locked_saves_well:
  assumes "saves_well E ins tr0 (\<lambda>_. True) m"
  shows "saves_well E ins tr0 (\<lambda>_. True) (locked E ins m)"
proof -
  have attempt: "saves_well E ins tr0 (\<lambda>_. True) (attempt m)"
    using assms unfolding saves_well_def by (auto intro!: does_attempt elim!: does_weaken)
  have unlocked: "saves_well E ins tr0 (\<lambda>_. True) (finally_do m (unlock E ins))"
    unfolding finally_do_def unlock_def
    by (rule saves_well_then [OF attempt]) (intro emits_rules event_facts)
  show ?thesis
    unfolding locked_def Lock_def by (rule saves_well_next [OF _ _ unlocked]) (intro emits_rules event_facts TrueI)+
qed

text \<open>
  C13. \<^verbatim>\<open>parcon config set\<close> and \<^verbatim>\<open>parcon config apply\<close> write the settings file only with settings that the node
  runs or will run: since the command began, either the running controller was given the configuration these
  settings render, its own parcon checked it and it replaced the old one, each of the three commands succeeding
  and in this order, or a listing of the node showed that no controller VM runs. So a rejected configuration
  never leaves settings behind that the controller doesn't have.
\<close>
theorem settings_saved_after_acceptance:
  "does (save_allowed E ins (hTrace w)) (SetConfig E ins key val) w (\<lambda>_ _. True)
   \<and> does (save_allowed E ins (hTrace w)) (ApplyConfig E ins) w (\<lambda>_ _. True)"
proof -
  have applied: "saves_well E ins tr0 (\<lambda>_. True) (locked E ins (config_apply E ins s))" for tr0 s
    by (intro locked_saves_well config_apply_saves_well)
  have "saves_well E ins tr0 (\<lambda>_. True) (ApplyConfig E ins)" for tr0
    unfolding ApplyConfig_def by (rule saves_well_andthen [OF _ _ applied]) (intro saveless TrueI)+
  moreover have "saves_well E ins tr0 (\<lambda>_. True) (next_act (ignoring (node_limits E ins)) (locked E ins (config_apply E ins s)))" for tr0 s
    by (rule saves_well_next [OF _ _ applied]) (intro emits_rules saveless TrueI)+
  note locked = this
  have "saves_well E ins tr0 (\<lambda>_. True) (SetConfig E ins key val)" for tr0
    unfolding SetConfig_def
    by (rule saves_well_andthen [where Q = "\<lambda>_ _. True"], intro saveless, simp, split sum.split)
      (auto intro!: saves_well_andthen [where Q = "\<lambda>_ _. True"] saveless saves_well_emits [OF emits_fail] locked
        split: prod.split option.split)
  ultimately show ?thesis unfolding saves_well_def by blast
qed

end
