(* ===== verification/Status_Report.thy ===== *)
theory Status_Report
  imports Commands Reconcile Github
begin

text \<open>
  \<^verbatim>\<open>parcon status\<close> (\<^verbatim>\<open>internal/installer/status.go\<close>) and the status file that the controller writes after each
  pass for it (\<^verbatim>\<open>internal/controller/status.go\<close>). The parts of a report are collected at the same time by the
  program and one after the other here; each only looks, and none uses another's result. Reading the
  controller's status file and asking for actions/runner's latest release are parameters (\<open>status_env\<close>).
  Of an error's text only the fixed words are kept.
\<close>

section \<open>The controller's status file (internal/controller/status.go)\<close>

definition StatusPath :: string where "StatusPath = ''/run/parcon/status.json''"

definition ctl_StatusSchema :: int where "ctl_StatusSchema = 1"

record session_status = scaleSetStatus +
  stSessionOpen :: bool
  stSessionSince :: time
  stSessionError :: string
  stDesired :: "int option"
  stStats :: "stats option"

record snapshot =
  snSchema :: int
  snVersion :: string
  snStartedAt :: time
  snUpdatedAt :: time
  snLastError :: string
  snScaleSets :: "session_status list"

text \<open>
  What \<^verbatim>\<open>writeStatus\<close> adds to the counts of the last pass. The counts are of configured scale sets only, so
  each is found again.
\<close>

definition session_part :: "scaleSetStatus \<Rightarrow> scaleSetState \<Rightarrow> session_status" where
  "session_part ss s =
     \<lparr>stName = stName ss, stID = stID ss, stWorkers = stWorkers ss, stReady = stReady ss, stBusy = stBusy ss,
      stSessionOpen = sSessionOpen s, stSessionSince = sSessionSince s, stSessionError = sSessionErr s,
      stDesired = (if sKnown s then Some (sDesired s) else None), stStats = sStats s\<rparr>"

definition writeStatus :: "string \<Rightarrow> string \<Rightarrow> time \<Rightarrow> time \<Rightarrow> string option \<Rightarrow> controller \<Rightarrow> snapshot option" where
  "writeStatus statusPath ver startedAt at err c =
     (if statusPath = [] then None
      else Some \<lparr>snSchema = ctl_StatusSchema, snVersion = ver, snStartedAt = startedAt, snUpdatedAt = at,
        snLastError = (case err of None \<Rightarrow> [] | Some e \<Rightarrow> e),
        snScaleSets = List.map_filter (\<lambda>ss. map_option (session_part ss) (cScaleSets c (stName ss))) (cStatus c)\<rparr>)"

section \<open>Reports\<close>

definition StatusSchema :: int where "StatusSchema = 1"

datatype status_level = OK | WARN | FAIL

record finding =
  fLevel :: status_level
  fText :: string

record system_vm_status =
  svVMID :: vmid
  svRunning :: bool
  svRelease :: string
  svAddress :: string
  svFindings :: "finding list"

record template_status =
  tsVMID :: vmid
  tsRunnerVersion :: string
  tsImportedAt :: time
  tsNewest :: bool

record worker_status =
  wsVMID :: vmid
  wsName :: string
  wsScaleSet :: string
  wsRunning :: bool
  wsReady :: bool
  wsCreatedAt :: time

record setting_status =
  seKey :: string
  seValue :: string
  seIsDefault :: bool

record report =
  rpSchema :: int
  rpVersion :: string
  rpNode :: string
  rpPVEVersion :: string
  rpInstalled :: string
  rpLatest :: string
  rpLatestError :: "error option"
  rpHost :: "finding list"
  rpGateway :: "system_vm_status option"
  rpController :: "system_vm_status option"
  rpGitHub :: "finding list"
  rpScaleSets :: "session_status list"
  rpTemplates :: "template_status list"
  rpWorkers :: "worker_status list"
  rpMaxRunners :: int
  rpSettings :: "setting_status list"
  rpSettingsWarnings :: "warning list"

definition finding_of :: "status_level \<Rightarrow> string \<Rightarrow> finding" where
  "finding_of l t = \<lparr>fLevel = l, fText = t\<rparr>"

definition report_Failed :: "report \<Rightarrow> bool" where
  "report_Failed r \<longleftrightarrow>
     list_ex (\<lambda>f. fLevel f = FAIL)
       (rpHost r @ rpGitHub r
        @ concat (map (\<lambda>vm. case vm of None \<Rightarrow> [] | Some st \<Rightarrow> svFindings st) [rpGateway r, rpController r]))"

fun worst_from :: "status_level \<Rightarrow> finding list \<Rightarrow> status_level" where
  "worst_from l [] = l"
| "worst_from l (f # fs) =
     (case fLevel f of FAIL \<Rightarrow> FAIL | WARN \<Rightarrow> worst_from WARN fs | OK \<Rightarrow> worst_from l fs)"

definition worst :: "finding list \<Rightarrow> status_level" where
  "worst fs = worst_from OK fs"

definition orNone :: "string \<Rightarrow> string" where
  "orNone s = (if s = [] then ''unknown'' else s)"

text \<open>
  Go divides in floating point and cuts the fraction off, which for these units is division towards zero,
  short of the last nanosecond before a whole unit of a long time.
\<close>

definition ago :: "duration \<Rightarrow> string" where
  "ago d =
     (if d < Minute then Itoa (quot d Second) @ ''s''
      else if d < Hour then Itoa (quot d Minute) @ ''m''
      else if d < 48 * Hour then Itoa (quot d Hour) @ ''h''
      else Itoa (quot d (24 * Hour)) @ ''d'')"

section \<open>The host\<close>

definition missing_objects ::
  "(string \<times> string) list \<Rightarrow> string list \<Rightarrow> string list \<Rightarrow> bool \<Rightarrow> bool \<Rightarrow> string list" where
  "missing_objects pools roles tokens zone vnet =
     map (\<lambda>p. ''pool '' @ p) (filter (\<lambda>p. p \<notin> set (map fst pools)) [SystemPool, RunnerPool])
     @ (if Role \<in> set roles then [] else [''role '' @ Role])
     @ (if TokenName \<in> set tokens then [] else [''token '' @ PVEUser @ ''!'' @ TokenName])
     @ (if zone then [] else [''SDN zones/'' @ inst_Zone])
     @ (if vnet then [] else [''SDN vnets/'' @ inst_VNet])"

definition tuning_finding :: "string \<Rightarrow> check_result \<Rightarrow> finding" where
  "tuning_finding name r = finding_of (if fst r then OK else WARN) (name @ '': '' @ snd r)"

definition hostFindings :: "henv \<Rightarrow> installer \<Rightarrow> Settings.settings \<Rightarrow> finding list act" where
  "hostFindings E ins s =
     andthen (or_else (Pools E) []) (\<lambda>pools.
     andthen (or_else (Roles E) []) (\<lambda>roles.
     andthen (or_else (Tokens E PVEUser) []) (\<lambda>tokens.
     andthen (SDNExists E (''zones/'' @ inst_Zone)) (\<lambda>zone.
     andthen (SDNExists E (''vnets/'' @ inst_VNet)) (\<lambda>vnet.
     andthen (checkOffloads E ins s ModeInstalled) (\<lambda>offl.
     andthen (checkAsyncPF E ins ModeInstalled) (\<lambda>apf.
       (let missing = missing_objects pools roles tokens zone vnet in ret
        [finding_of OK (''parcon '' @ version_String (inVersion ins) @ '' at '' @ inBinaryPath ins
           @ '', settings at '' @ inSettingsPath ins),
         if missing \<noteq> [] then finding_of FAIL (''missing '' @ Join missing '', '' @ ''; run parcon install'')
         else finding_of OK (''pools, role, token, and the worker network '' @ inst_Zone @ ''/'' @ inst_VNet),
         tuning_finding ''LAN NIC offloads'' offl, tuning_finding ''KVM async page faults'' apf]))))))))"

section \<open>The system VMs\<close>

definition status_guest :: "henv \<Rightarrow> vmid \<Rightarrow> string list \<Rightarrow> (string \<times> error option) act" where
  "status_guest E vid argv =
     andthen (guest_answer E vid guestTimeout None argv) (\<lambda>(out, err). ret (TrimSpace out, err))"

definition tag_text :: "vm \<Rightarrow> string \<Rightarrow> string" where
  "tag_text v p = (case tag_String v p of None \<Rightarrow> [] | Some s \<Rightarrow> s)"

definition systemVMStatus :: "henv \<Rightarrow> vm \<Rightarrow> system_vm_status act" where
  "systemVMStatus E v =
     (let st = \<lparr>svVMID = VMID v, svRunning = (Status v = ''running''), svRelease = tag_text v ReleasePrefix,
                svAddress = [], svFindings = []\<rparr> in
      if Status v \<noteq> ''running''
      then ret (st\<lparr>svFindings := [finding_of FAIL
             (''VM '' @ Itoa (VMID v) @ '' isn't running; start it with qm start '' @ Itoa (VMID v))]\<rparr>)
      else andthen (attempt (Host.AgentPing E (VMID v))) (\<lambda>r.
        case r of
          Inl e \<Rightarrow> ret (st\<lparr>svFindings := [finding_of FAIL ''its guest agent doesn't answer'']\<rparr>)
        | Inr _ \<Rightarrow>
            andthen (agentIPv4 E (VMID v)) (\<lambda>a.
              ret (case a of None \<Rightarrow> st | Some ip \<Rightarrow> st\<lparr>svAddress := addr_String ip\<rparr>))))"

definition add_finding :: "finding \<Rightarrow> system_vm_status \<Rightarrow> system_vm_status" where
  "add_finding f st = st\<lparr>svFindings := svFindings st @ [f]\<rparr>"

definition newlines_to_commas :: "string \<Rightarrow> string" where
  "newlines_to_commas s = concat (map (\<lambda>c. if c = CHR 0x0A then '', '' else [c]) s)"

definition gateway_services :: "string list" where
  "gateway_services = [''systemctl'', ''is-active'', ''dnsmasq.service'', ''nftables.service'']"

definition gatewayStatus :: "henv \<Rightarrow> vm \<Rightarrow> system_vm_status act" where
  "gatewayStatus E v =
     andthen (systemVMStatus E v) (\<lambda>st.
       if svFindings st \<noteq> [] then ret (add_finding (finding_of FAIL ''parcon update --force replaces it'') st)
       else andthen (status_guest E (VMID v) gateway_services) (\<lambda>(out, err).
         ret (add_finding
           (case err of
              Some e \<Rightarrow> finding_of FAIL (''dnsmasq or nftables isn't active ('' @ newlines_to_commas out
                         @ ''): workers get no network'')
            | None \<Rightarrow> finding_of OK ''DHCP, DNS, and NAT for the worker network are active'')
           (add_finding (finding_of OK (''running, release '' @ orNone (svRelease st) @ '', '' @ orNone (svAddress st))) st))))"

record status_env =
  se_snapshot :: "string \<Rightarrow> snapshot option"
  se_runner :: "hevent list \<Rightarrow> error + runner_release"

definition zero_version :: version where
  "zero_version = \<lparr>vMajor = 0, vMinor = 0, vPatch = 0, vPre = []\<rparr>"

definition version_findings :: "installer \<Rightarrow> string \<Rightarrow> system_vm_status \<Rightarrow> finding list" where
  "version_findings ins ver st =
     finding_of OK (''running, release '' @ orNone (svRelease st) @ '', '' @ orNone (svAddress st) @ '', parcon '' @ ver)
     # (if ver \<noteq> version_String (inVersion ins) \<and> inVersion ins \<noteq> zero_version
        then [finding_of WARN (''the controller runs parcon '' @ ver @ '' and this host parcon ''
                @ version_String (inVersion ins) @ ''; run parcon update'')] else [])"

definition service_query :: "string list" where
  "service_query = [''systemctl'', ''is-active'', ''parcon.service'']"

definition service_finding :: "vmid \<Rightarrow> string \<times> error option \<Rightarrow> finding" where
  "service_finding vid r =
     (case snd r of
        Some e \<Rightarrow> finding_of FAIL (''parcon.service is '' @ fst r @ ''; see journalctl -u parcon in VM '' @ Itoa vid)
      | None \<Rightarrow> finding_of OK ''parcon.service is active'')"

definition config_finding :: "henv \<Rightarrow> vmid \<Rightarrow> Settings.settings \<Rightarrow> finding act" where
  "config_finding E vid s =
     andthen (attempt (RenderConfig E s)) (\<lambda>r.
       case r of
         Inl e \<Rightarrow> ret (finding_of FAIL ''the settings don't render a config'')
       | Inr (want, env, ca) \<Rightarrow>
           andthen (status_guest E vid (parcon_argv [''cat'', config_DefaultPath])) (\<lambda>(have, err). ret
             (case err of
                Some e \<Rightarrow> finding_of FAIL ''can't read the controller's config''
              | None \<Rightarrow>
                  if have \<noteq> TrimSpace want
                  then finding_of WARN ''the controller's config doesn't match the settings; run parcon config apply''
                  else finding_of OK ''its config matches the settings'')))"

definition pass_findings :: "time \<Rightarrow> snapshot \<Rightarrow> finding list" where
  "pass_findings at snap =
     (let age = time_Sub at (snUpdatedAt snap) in
      (if age > 2 * Minute then [finding_of WARN (''its last pass was '' @ ago age @ '' ago'')] else [])
      @ (if snLastError snap \<noteq> [] then [finding_of WARN (''its last pass failed: '' @ snLastError snap)] else []))"

definition read_snapshot :: "henv \<Rightarrow> status_env \<Rightarrow> vmid \<Rightarrow> snapshot option act" where
  "read_snapshot E se vid =
     andthen (status_guest E vid [''cat'', StatusPath]) (\<lambda>(out, err). ret
       (case err of
          Some e \<Rightarrow> None
        | None \<Rightarrow>
            (case se_snapshot se out of
               None \<Rightarrow> None
             | Some snap \<Rightarrow> if snSchema snap \<noteq> ctl_StatusSchema then None else Some snap)))"

definition controllerStatus ::
  "henv \<Rightarrow> status_env \<Rightarrow> installer \<Rightarrow> vm \<Rightarrow> Settings.settings \<Rightarrow> (system_vm_status \<times> snapshot option) act" where
  "controllerStatus E se ins v s =
     andthen (systemVMStatus E v) (\<lambda>st.
       if svFindings st \<noteq> [] then ret (st, None)
       else andthen (status_guest E (VMID v) (parcon_argv [''parcon'', ''version''])) (\<lambda>(out, verr).
       andthen (status_guest E (VMID v) service_query) (\<lambda>service.
       andthen (config_finding E (VMID v) s) (\<lambda>cfg.
       andthen (read_snapshot E se (VMID v)) (\<lambda>snap.
       andthen now (\<lambda>t.
         ret (st\<lparr>svFindings :=
                  version_findings ins (if verr = None then out else ''unknown'') st
                  @ [service_finding (VMID v) service, cfg]
                  @ (case snap of None \<Rightarrow> [] | Some sn \<Rightarrow> pass_findings t sn)\<rparr>, snap)))))))"

section \<open>GitHub, templates and workers\<close>

definition session_finding :: "time \<Rightarrow> session_status \<Rightarrow> finding" where
  "session_finding at ss =
     (if stSessionOpen ss
      then finding_of OK (''scale set '' @ stName ss @ '' (ID '' @ Itoa (stID ss) @ ''): listening for jobs for ''
             @ ago (time_Sub at (stSessionSince ss)))
      else if stSessionError ss \<noteq> []
      then finding_of FAIL (''scale set '' @ stName ss @ '': no session with GitHub since ''
             @ ago (time_Sub at (stSessionSince ss)) @ '' ago: '' @ stSessionError ss)
      else finding_of WARN (''scale set '' @ stName ss @ '': no session with GitHub yet''))"

definition stats_finding :: "stats \<Rightarrow> finding" where
  "stats_finding st =
     finding_of OK (''  jobs: '' @ Itoa (wrap64 (AvailableJobs st + AcquiredJobs st)) @ '' waiting, ''
       @ Itoa (RunningJobs st) @ '' running; runners: '' @ Itoa (RegisteredRunners st) @ '' (''
       @ Itoa (BusyRunners st) @ '' busy, '' @ Itoa (IdleRunners st) @ '' idle)'')"

definition githubFindings :: "Settings.settings \<Rightarrow> snapshot option \<Rightarrow> time \<Rightarrow> finding list" where
  "githubFindings s snap at =
     (let app = sgApp (stGitHub s) in
      if saClientID app = [] \<or> saInstallationID app = 0
      then [finding_of FAIL ''the GitHub App isn't set up yet; run parcon install'']
      else finding_of OK (sgConfigURL (stGitHub s) @ '', App '' @ saClientID app @ '', installation ''
             @ Itoa (saInstallationID app))
        # (case snap of
             None \<Rightarrow> [finding_of WARN ''the controller reports no status yet'']
           | Some sn \<Rightarrow>
               concat (map (\<lambda>ss. session_finding at ss
                                 # (case stStats ss of None \<Rightarrow> [] | Some st \<Rightarrow> [stats_finding st])) (snScaleSets sn))))"

text \<open>A number whose error is ignored: 0 for a text that is none, the nearest 64-bit number for one out of range.\<close>

definition parsed_value :: "string \<Rightarrow> int" where
  "parsed_value s =
     (case ParseInt s of
        Some n \<Rightarrow> n
      | None \<Rightarrow>
          (case s of
             [] \<Rightarrow> 0
           | c # cs \<Rightarrow>
               if c = CHR ''-'' then (if parse_nat cs = None then 0 else min_int64)
               else (if parse_nat (if c = CHR ''+'' then cs else s) = None then 0 else max_int64)))"

definition tag_int :: "vm \<Rightarrow> string \<Rightarrow> int" where
  "tag_int v p = (case tag_String v p of None \<Rightarrow> 0 | Some s \<Rightarrow> parsed_value s)"

definition template_statuses :: "vm list \<Rightarrow> template_status list" where
  "template_statuses vs =
     map (\<lambda>v. \<lparr>tsVMID = VMID v, tsRunnerVersion = tag_text v RunnerVersionPrefix,
               tsImportedAt = time_Unix (tag_int v TemplateVersionPrefix),
               tsNewest = (case NewestTemplate vs RunnerPool of None \<Rightarrow> False | Some n \<Rightarrow> VMID v = VMID n)\<rparr>)
       (filter (\<lambda>v. IsTemplate v RunnerPool) vs)"

definition worker_statuses :: "vm list \<Rightarrow> worker_status list" where
  "worker_statuses vs =
     map (\<lambda>v. \<lparr>wsVMID = VMID v, wsName = VMName v, wsScaleSet = tag_text v ScaleSetPrefix,
               wsRunning = (Status v = ''running''), wsReady = HasTag v Ready,
               wsCreatedAt = time_Unix (tag_int v CreatedPrefix)\<rparr>)
       (filter (\<lambda>v. Pool v = RunnerPool \<and> HasTag v Worker) vs)"

definition runner_verdict :: "template_status \<Rightarrow> runner_release \<Rightarrow> time \<Rightarrow> finding" where
  "runner_verdict t rel at =
     (let have = ''template '' @ Itoa (tsVMID t) @ '' has actions/runner '' @ tsRunnerVersion t in
      case Staleness rel (tsRunnerVersion t) at of
        Current \<Rightarrow> finding_of OK (have @ '', the latest'')
      | BehindError \<Rightarrow> finding_of FAIL (have @ '', but '' @ ReleaseVersion rel @ '' came out ''
          @ ago (time_Sub at (PublishedAt rel)) @ '' ago: GitHub stops accepting it '' @ ago RunnerUpdateDeadline
          @ '' after that; run parcon update'')
      | _ \<Rightarrow> finding_of WARN (have @ ''; '' @ ReleaseVersion rel
          @ '' is out: run parcon update when a release carries it''))"

definition runnerFinding :: "henv \<Rightarrow> status_env \<Rightarrow> template_status list \<Rightarrow> finding act" where
  "runnerFinding E se ts =
     (if filter tsNewest ts = [] then ret (finding_of FAIL ''there is no runner template; run parcon update'')
      else (let t = last (filter tsNewest ts) in
        andthen (attempt (asks E QRunnerRelease (\<lambda>_ es. se_runner se es))) (\<lambda>r.
          case r of
            Inl e \<Rightarrow> ret (finding_of WARN (''template '' @ Itoa (tsVMID t) @ '' has actions/runner ''
                       @ tsRunnerVersion t @ ''; the latest release isn't known''))
          | Inr rel \<Rightarrow> andthen now (\<lambda>t2. ret (runner_verdict t rel t2)))))"

section \<open>The report\<close>

definition maybe :: "bool \<Rightarrow> finding \<Rightarrow> finding list" where
  "maybe b f = (if b then [f] else [])"

definition when_some :: "'a option \<Rightarrow> ('a \<Rightarrow> 'b act) \<Rightarrow> 'b option act" where
  "when_some x f = (case x of None \<Rightarrow> ret None | Some y \<Rightarrow> andthen (f y) (\<lambda>z. ret (Some z)))"

definition assembled ::
  "Settings.settings \<Rightarrow> finding list \<Rightarrow> system_vm_status option \<Rightarrow> (system_vm_status \<times> snapshot option) option
   \<Rightarrow> error + version \<Rightarrow> finding \<Rightarrow> time \<Rightarrow> report \<Rightarrow> report" where
  "assembled s hf gw ctl latest runner at r0 =
     (let snap = (case ctl of None \<Rightarrow> None | Some (st, sn) \<Rightarrow> sn) in
      r0\<lparr>rpHost := hf @ maybe (gw = None) (finding_of FAIL ''there is no gateway VM; run parcon install'')
            @ maybe (ctl = None) (finding_of FAIL ''there is no controller VM; run parcon install''),
         rpGateway := gw, rpController := map_option fst ctl,
         rpLatest := (case latest of Inl e \<Rightarrow> [] | Inr v \<Rightarrow> version_String v),
         rpLatestError := (case latest of Inl e \<Rightarrow> Some e | Inr v \<Rightarrow> None),
         rpGitHub := githubFindings s snap at @ [runner],
         rpScaleSets := (case snap of None \<Rightarrow> [] | Some sn \<Rightarrow> snScaleSets sn)\<rparr>)"

definition status_parts ::
  "henv \<Rightarrow> status_env \<Rightarrow> installer \<Rightarrow> Settings.settings \<Rightarrow> vm list \<Rightarrow> report \<Rightarrow> report act" where
  "status_parts E se ins s vs r0 =
     andthen (hostFindings E ins s) (\<lambda>hf.
     andthen (when_some (findSystemVM vs Gateway) (gatewayStatus E)) (\<lambda>gw.
     andthen (when_some (findSystemVM vs Controller) (\<lambda>v. controllerStatus E se ins v s)) (\<lambda>ctl.
     andthen (attempt (asks E (QLatest (IsPre (inVersion ins))) he_version)) (\<lambda>latest.
     andthen (runnerFinding E se (rpTemplates r0)) (\<lambda>runner.
     andthen now (\<lambda>t. ret (assembled s hf gw ctl latest runner t r0)))))))"

definition Status_op :: "henv \<Rightarrow> status_env \<Rightarrow> installer \<Rightarrow> report act" where
  "Status_op E se ins =
     andthen (nodeName E) (\<lambda>node.
     andthen (PVEVersion E) (\<lambda>pve.
     andthen (InstalledRelease E) (\<lambda>installed.
     andthen (mapping_error (wrap ''run parcon install'') (settings_Load E (inSettingsPath ins))) (\<lambda>s.
     andthen (node_limits E ins) (\<lambda>l.
     andthen (vms E) (\<lambda>vs.
       status_parts E se ins s vs
         \<lparr>rpSchema = StatusSchema, rpVersion = version_String (inVersion ins), rpNode = node,
          rpPVEVersion = (case pve of Inl e \<Rightarrow> [] | Inr v \<Rightarrow> v),
          rpInstalled = (case installed of None \<Rightarrow> [] | Some v \<Rightarrow> version_String v),
          rpLatest = [], rpLatestError = None, rpHost = [], rpGateway = None, rpController = None, rpGitHub = [],
          rpScaleSets = [], rpTemplates = template_statuses vs, rpWorkers = worker_statuses vs,
          rpMaxRunners = sMaxRunners (stScaleSet s),
          rpSettings = map (\<lambda>k. \<lparr>seKey = kName k, seValue = fst (kGet k s), seIsDefault = snd (kGet k s)\<rparr>)
                         (Keys (he_fraction E)),
          rpSettingsWarnings = Warnings s l\<rparr>))))))"

section \<open>The report for people\<close>

definition compareVersions :: "string \<Rightarrow> string \<Rightarrow> int" where
  "compareVersions a b =
     (case (ParseVersion a, ParseVersion b) of
        (Some va, Some vb) \<Rightarrow> Compare va vb
      | _ \<Rightarrow> 0)"

text \<open>\<^verbatim>\<open>%-ns\<close>: the text, padded with blanks to \<open>n\<close> characters.\<close>

definition padded :: "nat \<Rightarrow> string \<Rightarrow> string" where
  "padded n s = s @ replicate (n - length s) (CHR '' '')"

definition level_label :: "status_level \<Rightarrow> string" where
  "level_label l = (case l of OK \<Rightarrow> ''ok   '' | WARN \<Rightarrow> ''WARN '' | FAIL \<Rightarrow> ''FAIL '')"

definition finding_line :: "finding \<Rightarrow> string" where
  "finding_line f = ''  '' @ level_label (fLevel f) @ '' '' @ fText f"

definition release_lines :: "(error \<Rightarrow> string) \<Rightarrow> report \<Rightarrow> string list" where
  "release_lines text_of r =
     (case rpLatestError r of
        Some e \<Rightarrow> [''  latest release unknown: '' @ text_of e]
      | None \<Rightarrow>
          if rpLatest r \<noteq> [] \<and> rpInstalled r \<noteq> [] \<and> compareVersions (rpLatest r) (rpInstalled r) > 0
          then [''  release '' @ rpLatest r @ '' is out: run parcon update'']
          else if rpLatest r \<noteq> [] then [''  up to date with the latest release, '' @ rpLatest r]
          else [])"

definition vm_lines :: "string \<Rightarrow> system_vm_status option \<Rightarrow> string list" where
  "vm_lines name st =
     (case st of
        None \<Rightarrow> []
      | Some v \<Rightarrow> [[], name @ '' VM '' @ Itoa (svVMID v)] @ map finding_line (svFindings v))"

definition worker_line :: "time \<Rightarrow> worker_status \<Rightarrow> string" where
  "worker_line at w =
     ''  '' @ padded 6 (Itoa (wsVMID w)) @ '' ''
     @ padded 8 (if wsRunning w then (if wsReady w then ''ready'' else ''booting'') else ''stopped'') @ '' ''
     @ padded 4 (ago (time_Sub at (wsCreatedAt w))) @ '' old  '' @ wsName w"

definition setting_line :: "setting_status \<Rightarrow> string" where
  "setting_line k = ''  '' @ padded 19 (seKey k) @ '' '' @ seValue k @ (if seIsDefault k then '' (default)'' else [])"

definition Render :: "(error \<Rightarrow> string) \<Rightarrow> (warning \<Rightarrow> string) \<Rightarrow> report \<Rightarrow> time \<Rightarrow> string list" where
  "Render text_of warn_text r at =
     [''proxmox-actions-runners '' @ (if rpInstalled r = [] then ''not finished'' else rpInstalled r) @ '' on ''
        @ rpNode r @ '' ('' @ rpPVEVersion r @ '')'']
     @ release_lines text_of r
     @ [[], ''Host''] @ map finding_line (rpHost r)
     @ vm_lines ''Gateway'' (rpGateway r) @ vm_lines ''Controller'' (rpController r)
     @ [[], ''GitHub''] @ map finding_line (rpGitHub r)
     @ [[], ''Workers: '' @ Itoa (int (length (rpWorkers r))) @ '' of at most '' @ Itoa (rpMaxRunners r) @ '', ''
          @ Itoa (int (length (filter wsReady (rpWorkers r)))) @ '' ready'']
     @ map (worker_line at) (rpWorkers r)
     @ [[], ''Settings (parcon config get --all)''] @ map setting_line (rpSettings r)
     @ map (\<lambda>w. ''  WARN  '' @ warn_text w) (rpSettingsWarnings r)"

end
