(* ===== verification/Status_Facts.thy ===== *)
theory Status_Facts
  imports Status_Report Commands_Safety Reconcile_Facts
begin

text \<open>
  What \<^verbatim>\<open>parcon status\<close> promises: it only looks, every look into a VM is bounded, and a report without a failure
  is one whose VMs ran and whose services answered. What the controller writes into its status file is what the
  report says of its sessions.
\<close>

section \<open>Levels\<close>

abbreviation failing :: "finding list \<Rightarrow> bool" where
  "failing fs \<equiv> list_ex (\<lambda>f. fLevel f = FAIL) fs"

lemma finding_level [simp]: "fLevel (finding_of l t) = l"
  by (simp add: finding_of_def)

lemma failing_append [simp]: "failing (fs @ gs) \<longleftrightarrow> failing fs \<or> failing gs"
  by (auto simp: list_ex_iff)

lemma worst_from_cases:
  "worst_from l fs = (if failing fs then FAIL else if list_ex (\<lambda>f. fLevel f = WARN) fs then WARN else l)"
  by (induction l fs rule: worst_from.induct) (auto split: status_level.splits)

section \<open>Looking only\<close>

definition status_commands :: "string list set" where
  "status_commands =
     {gateway_services, service_query, parcon_argv [''parcon'', ''version''],
      parcon_argv [''cat'', config_DefaultPath], [''cat'', StatusPath]}"

definition status_look :: "hevent \<Rightarrow> bool" where
  "status_look ev \<longleftrightarrow> is_read ev \<or> (\<exists>vid. \<exists>argv\<in>status_commands. ev = HGuest vid guestTimeout argv None)"

named_theorems looking \<open>parts of the status that only look\<close>

lemma read_look: "emits is_read m \<Longrightarrow> emits status_look m"
  by (erule emits_mono) (simp add: status_look_def)

lemmas reading_looks [looking] = reading [THEN read_look]

lemma guest_look [looking]: "argv \<in> status_commands \<Longrightarrow> emits status_look (status_guest E vid argv)"
  unfolding status_guest_def guest_answer_def GuestExec_def
  by (intro emits_rules) (auto simp: status_look_def)

lemma render_look [looking]: "emits status_look (RenderConfig E s)"
  unfolding RenderConfig_def inst_env_def by (intro emits_rules looking)

lemma parts_look [looking]:
  "emits status_look (hostFindings E ins s)" "emits status_look (systemVMStatus E v)"
  "emits status_look (config_finding E vid s)" "emits status_look (read_snapshot E se vid)"
  "emits status_look (runnerFinding E se ts)"
  unfolding hostFindings_def systemVMStatus_def config_finding_def read_snapshot_def runnerFinding_def
  by (intro emits_rules looking; simp add: status_commands_def)+

lemma vms_look [looking]:
  "emits status_look (gatewayStatus E v)" "emits status_look (controllerStatus E se ins v s)"
  unfolding gatewayStatus_def controllerStatus_def
  by (intro emits_rules looking; simp add: status_commands_def)+

lemma when_some_look [looking]: "(\<And>y. emits status_look (f y)) \<Longrightarrow> emits status_look (when_some x f)"
  unfolding when_some_def by (intro emits_rules)


lemma Status_look: "emits status_look (Status_op E se ins)"
  unfolding Status_op_def status_parts_def by (intro emits_rules looking)

section \<open>A report without failures\<close>

text \<open>A command in a VM that exited with status 0, somewhere in the history.\<close>

definition active :: "henv \<Rightarrow> vmid \<Rightarrow> string list \<Rightarrow> hevent list \<Rightarrow> bool" where
  "active E vid argv tr \<longleftrightarrow>
     (\<exists>us es e res. tr = us @ HGuest vid guestTimeout argv None # es
        \<and> he_exec E (HGuest vid guestTimeout argv None # es) = (e, Inr (res, True))
        \<and> ExitCode res = 0 \<and> Signal res = 0)"

lemma active_suffix: "active E vid argv tr \<Longrightarrow> suffix tr tr' \<Longrightarrow> active E vid argv tr'"
  unfolding active_def suffix_def by (metis append_assoc)

abbreviation any_event :: "hevent list \<Rightarrow> hevent \<Rightarrow> bool" where
  "any_event \<equiv> \<lambda>_ _. True"

text \<open>What holds of a result when there is one.\<close>

definition gives :: "'a act \<Rightarrow> host \<Rightarrow> ('a \<Rightarrow> host \<Rightarrow> bool) \<Rightarrow> bool" where
  "gives m w P \<longleftrightarrow> does any_event m w (\<lambda>r w'. case r of Inl e \<Rightarrow> True | Inr x \<Rightarrow> P x w')"

lemma gives_andthen:
  assumes "gives m w P" and "\<And>x w'. P x w' \<Longrightarrow> suffix (hTrace w) (hTrace w') \<Longrightarrow> gives (f x) w' Q"
  shows "gives (andthen m f) w Q"
  unfolding gives_def
proof (rule does_andthen, rule does_weaken)
  show "does any_event m w (\<lambda>r w'. case r of Inl e \<Rightarrow> True | Inr x \<Rightarrow> P x w')" using assms(1) by (simp add: gives_def)
  fix r w'
  assume "suffix (hTrace w) (hTrace w')" and "case r of Inl e \<Rightarrow> True | Inr x \<Rightarrow> P x w'"
  with assms(2) show "case r of Inl e \<Rightarrow> (case Inl e of Inl e \<Rightarrow> True | Inr x \<Rightarrow> Q x w')
      | Inr x \<Rightarrow> does any_event (f x) w' (\<lambda>r w'. case r of Inl e \<Rightarrow> True | Inr x \<Rightarrow> Q x w')"
    by (cases r) (auto simp: gives_def)
qed

lemma gives_any: "emits Q m \<Longrightarrow> gives m w (\<lambda>_ _. True)"
  unfolding gives_def by (rule does_emits [of Q]) (auto split: sum.split)

lemma gives_look: "emits status_look m \<Longrightarrow> (\<And>x w'. suffix (hTrace w) (hTrace w') \<Longrightarrow> gives (f x) w' Q) \<Longrightarrow> gives (andthen m f) w Q"
  by (rule gives_andthen [OF gives_any])

lemma gives_ret: "P x w \<Longrightarrow> gives (ret x) w P"
  by (simp add: gives_def does_ret)

lemma gives_weaken: "gives m w P \<Longrightarrow> (\<And>x w'. P x w' \<Longrightarrow> suffix (hTrace w) (hTrace w') \<Longrightarrow> Q x w') \<Longrightarrow> gives m w Q"
  unfolding gives_def by (erule does_weaken) (auto split: sum.splits)

lemma gives_result: "gives m w P \<Longrightarrow> m w = (Inr x, w') \<Longrightarrow> P x w'"
  by (simp add: gives_def does_def)

lemma gives_guest:
  "gives (status_guest E vid argv) w (\<lambda>(out, err) w'. err = None \<longrightarrow> active E vid argv (hTrace w'))"
  unfolding gives_def does_def
  by (auto simp: status_guest_def guest_answer_def GuestExec_def attempt_def event_def emit_def andthen_def ret_def
      active_def split: prod.splits sum.splits option.splits if_splits bool.splits)

lemma gives_systemVM:
  "gives (systemVMStatus E v) w (\<lambda>st w'. svVMID st = VMID v \<and> svRunning st = (Status v = ''running'')
     \<and> (if svFindings st = [] then Status v = ''running'' else failing (svFindings st)))"
  unfolding systemVMStatus_def Let_def
  by (auto intro!: gives_look looking emits_rules gives_ret split: sum.split option.split)

text \<open>A VM that ran, and a command in it that found its services active.\<close>

definition vm_clear :: "henv \<Rightarrow> vm \<Rightarrow> string list \<Rightarrow> system_vm_status \<Rightarrow> hevent list \<Rightarrow> bool" where
  "vm_clear E v argv st tr \<longleftrightarrow>
     failing (svFindings st)
     \<or> svVMID st = VMID v \<and> svRunning st \<and> Status v = ''running'' \<and> active E (VMID v) argv tr"

lemma vm_clear_suffix: "vm_clear E v argv st tr \<Longrightarrow> suffix tr tr' \<Longrightarrow> vm_clear E v argv st tr'"
  unfolding vm_clear_def using active_suffix by blast

lemma gives_gateway: "gives (gatewayStatus E v) w (\<lambda>st w'. vm_clear E v gateway_services st (hTrace w'))"
  unfolding gatewayStatus_def
  by (rule gives_andthen [OF gives_systemVM])
    (auto intro!: gives_ret gives_andthen [OF gives_guest] simp: vm_clear_def add_finding_def split: option.split)

lemma service_fails: "failing [service_finding vid r] \<longleftrightarrow> snd r \<noteq> None"
  by (auto simp: service_finding_def split: option.split)

lemma gives_if: "(b \<Longrightarrow> gives m w P) \<Longrightarrow> (\<not> b \<Longrightarrow> gives n w P) \<Longrightarrow> gives (if b then m else n) w P"
  by simp

lemma gives_prod: "(\<And>a b. p = (a, b) \<Longrightarrow> gives (f a b) w Q) \<Longrightarrow> gives (case p of (a, b) \<Rightarrow> f a b) w Q"
  by (cases p) simp

lemma gives_controller:
  "gives (controllerStatus E se ins v s) w (\<lambda>(st, snap) w'. vm_clear E v service_query st (hTrace w'))"
  unfolding controllerStatus_def
proof (rule gives_andthen [OF gives_systemVM], rule gives_if)
  fix st :: system_vm_status and w' :: host
  assume st: "svVMID st = VMID v \<and> svRunning st = (Status v = ''running'')
     \<and> (if svFindings st = [] then Status v = ''running'' else failing (svFindings st))"
  show "gives (ret (st, None)) w' (\<lambda>(st, snap) w'. vm_clear E v service_query st (hTrace w'))"
    if "svFindings st \<noteq> []" using st that by (auto intro!: gives_ret simp: vm_clear_def)
  show "gives (andthen (status_guest E (VMID v) (parcon_argv [''parcon'', ''version''])) (\<lambda>(out, verr).
       andthen (status_guest E (VMID v) service_query) (\<lambda>service.
       andthen (config_finding E (VMID v) s) (\<lambda>cfg.
       andthen (read_snapshot E se (VMID v)) (\<lambda>snap.
       andthen now (\<lambda>t.
         ret (st\<lparr>svFindings :=
                  version_findings ins (if verr = None then out else ''unknown'') st
                  @ [service_finding (VMID v) service, cfg]
                  @ (case snap of None \<Rightarrow> [] | Some sn \<Rightarrow> pass_findings t sn)\<rparr>, snap)))))))
     w' (\<lambda>(st, snap) w'. vm_clear E v service_query st (hTrace w'))" if "\<not> svFindings st \<noteq> []"
    apply (rule gives_look, intro looking, simp add: status_commands_def, rule gives_prod)
    apply (rule gives_andthen [OF gives_guest])
    apply (rule gives_look, intro looking, rule gives_look, intro looking, rule gives_look, intro emits_rules, rule gives_ret)
    using st that service_fails by (auto simp: vm_clear_def) (meson active_suffix)+
qed

lemma gives_when_some:
  assumes "\<And>y. gives (f y) w (P y)"
  shows "gives (when_some x f) w (\<lambda>r w'. case r of None \<Rightarrow> x = None | Some z \<Rightarrow> \<exists>y. x = Some y \<and> P y z w')"
  unfolding when_some_def
  by (cases x) (auto intro!: gives_ret gives_andthen [OF assms])

lemma gives_runner: "gives (runnerFinding E se ts) w (\<lambda>f w'. fLevel f = FAIL \<or> list_ex tsNewest ts)"
  unfolding runnerFinding_def Let_def
  by (auto intro!: gives_ret gives_look looking emits_rules simp: filter_empty_conv list_ex_iff split: sum.split)

definition session_fine :: "session_status \<Rightarrow> bool" where
  "session_fine ss \<longleftrightarrow> stSessionOpen ss \<or> stSessionError ss = []"

lemma session_fails: "fLevel (session_finding at ss) = FAIL \<longleftrightarrow> \<not> session_fine ss"
  by (simp add: session_finding_def session_fine_def)

lemma github_fails:
  "failing (githubFindings s snap at) \<longleftrightarrow>
     saClientID (sgApp (stGitHub s)) = [] \<or> saInstallationID (sgApp (stGitHub s)) = 0
     \<or> (\<exists>sn. snap = Some sn \<and> \<not> list_all session_fine (snScaleSets sn))"
  by (auto simp: githubFindings_def Let_def list_ex_iff list_all_iff session_fails stats_finding_def
      split: option.splits)

definition all_clear :: "henv \<Rightarrow> report \<Rightarrow> hevent list \<Rightarrow> bool" where
  "all_clear E r tr \<longleftrightarrow>
     (\<exists>g c. rpGateway r = Some g \<and> svRunning g \<and> active E (svVMID g) gateway_services tr
        \<and> rpController r = Some c \<and> svRunning c \<and> active E (svVMID c) service_query tr)
     \<and> list_ex tsNewest (rpTemplates r) \<and> list_all session_fine (rpScaleSets r)"

definition vm_part_clear :: "henv \<Rightarrow> string list \<Rightarrow> system_vm_status option \<Rightarrow> hevent list \<Rightarrow> bool" where
  "vm_part_clear E argv part tr \<longleftrightarrow> (case part of None \<Rightarrow> True | Some st \<Rightarrow> \<exists>v. vm_clear E v argv st tr)"

lemma vm_part_clear_suffix: "vm_part_clear E argv part tr \<Longrightarrow> suffix tr tr' \<Longrightarrow> vm_part_clear E argv part tr'"
  unfolding vm_part_clear_def using vm_clear_suffix by (auto split: option.splits) blast

lemma gives_gateway_part:
  "gives (when_some x (gatewayStatus E)) w (\<lambda>r w'. vm_part_clear E gateway_services r (hTrace w'))"
  by (rule gives_weaken [OF gives_when_some [OF gives_gateway]]) (auto simp: vm_part_clear_def split: option.splits)

lemma gives_controller_part:
  "gives (when_some x (\<lambda>v. controllerStatus E se ins v s)) w
     (\<lambda>r w'. vm_part_clear E service_query (map_option fst r) (hTrace w'))"
  by (rule gives_weaken [OF gives_when_some [OF gives_controller]]) (auto simp: vm_part_clear_def split: option.splits)

lemma assembled_clear:
  assumes "vm_part_clear E gateway_services gw tr" and "vm_part_clear E service_query (map_option fst ctl) tr"
    and "fLevel runner = FAIL \<or> list_ex tsNewest (rpTemplates r0)"
  shows "report_Failed (assembled s hf gw ctl latest runner at r0)
    \<or> all_clear E (assembled s hf gw ctl latest runner at r0) tr"
proof (cases "gw = None \<or> ctl = None")
  case True
  then show ?thesis by (auto simp: report_Failed_def assembled_def maybe_def Let_def)
next
  case False
  then obtain g st snap where "gw = Some g" and "ctl = Some (st, snap)" by auto
  with assms show ?thesis
    by (cases snap)
      (auto simp: report_Failed_def assembled_def maybe_def all_clear_def vm_clear_def vm_part_clear_def github_fails)
qed

lemma gives_parts: "gives (status_parts E se ins s vs r0) w (\<lambda>r w'. report_Failed r \<or> all_clear E r (hTrace w'))"
  unfolding status_parts_def
  apply (rule gives_look, intro looking)
  apply (rule gives_andthen [OF gives_gateway_part])
  apply (rule gives_andthen [OF gives_controller_part])
  apply (rule gives_look, intro emits_rules, simp add: status_look_def)
  apply (rule gives_andthen [OF gives_runner], rule gives_look, intro emits_rules, rule gives_ret)
  by (rule assembled_clear) (assumption | erule vm_part_clear_suffix; meson suffix_order.trans)+

lemma status_clear:
  "case Status_op E se ins w of
     (Inl e, w') \<Rightarrow> True
   | (Inr r, w') \<Rightarrow> report_Failed r \<or> all_clear E r (hTrace w')"
proof -
  have g: "gives (Status_op E se ins) w (\<lambda>r w'. report_Failed r \<or> all_clear E r (hTrace w'))"
    unfolding Status_op_def by (intro gives_look emits_rules looking gives_parts)
  obtain r w' where r: "Status_op E se ins w = (r, w')" by (cases "Status_op E se ins w")
  show ?thesis using gives_result [OF g] by (cases r) (simp_all add: r)
qed


section \<open>The controller's file and the report\<close>

lemma set_insert_status [simp]: "set (insert_status s ss) = insert s (set ss)"
  by (induction s ss rule: insert_status.induct) auto

lemma set_counted: "set (foldr insert_status ss []) = set ss"
  by (induction ss) auto

lemma set_map_filter: "set (List.map_filter f xs) = {y. \<exists>x\<in>set xs. f x = Some y}"
  by (induction xs) (auto simp: List.map_filter_simps split: option.splits)

lemma counted_name [simp]: "stName (scale_set_status v n s) = n"
  by (simp add: scale_set_status_def)

lemma session_fine_part [simp]: "session_fine (session_part ss s) \<longleftrightarrow> sSessionOpen s \<or> sSessionErr s = []"
  by (simp add: session_fine_def session_part_def)

lemma written_sessions:
  assumes "writeStatus p ver st at err (countWorkers ord v c) = Some snap"
  shows "list_all session_fine (snScaleSets snap) \<longleftrightarrow>
    (\<forall>n\<in>set (scale_set_order ord). \<forall>s. cScaleSets c n = Some s \<longrightarrow> sSessionOpen s \<or> sSessionErr s = [])"
proof -
  define counted where "counted = List.map_filter (\<lambda>n. map_option (scale_set_status v n) (cScaleSets c n)) (scale_set_order ord)"
  have counted: "ss \<in> set counted \<longleftrightarrow> (\<exists>n s. n \<in> set (scale_set_order ord) \<and> cScaleSets c n = Some s \<and> ss = scale_set_status v n s)" for ss
    by (auto simp: counted_def set_map_filter)
  have "snScaleSets snap = List.map_filter (\<lambda>ss. map_option (session_part ss) (cScaleSets c (stName ss)))
      (foldr insert_status counted [])"
    using assms by (auto simp: writeStatus_def countWorkers_def counted_def split: if_splits)
  then have "x \<in> set (snScaleSets snap) \<longleftrightarrow>
      (\<exists>ss\<in>set counted. \<exists>s. cScaleSets c (stName ss) = Some s \<and> x = session_part ss s)" for x
    by (auto simp: set_map_filter set_counted)
  then show ?thesis unfolding list_all_iff counted by (metis counted counted_name session_fine_part)
qed

text \<open>
  The status file carries the controller's sessions to the report. For the file written after a pass, the
  report's GitHub part counts as failed exactly when the App is not set up or the session of some configured
  scale set has ended with an error and is not open again.
\<close>
theorem session_failures_reported:
  assumes "writeStatus p ver st at err (countWorkers ord v c) = Some snap"
    and "set (scale_set_order ord) = dom (cScaleSets c)"
  shows "list_ex (\<lambda>f. fLevel f = FAIL) (githubFindings s (Some snap) at') \<longleftrightarrow>
    saClientID (sgApp (stGitHub s)) = [] \<or> saInstallationID (sgApp (stGitHub s)) = 0
    \<or> (\<exists>n state. cScaleSets c n = Some state \<and> \<not> sSessionOpen state \<and> sSessionErr state \<noteq> [])"
  unfolding github_fails using written_sessions [OF assms(1)] assms(2) by auto


definition ended_controller :: controller where
  "ended_controller = example_controller\<lparr>cScaleSets := [''par'' \<mapsto> SessionEnded 5 ''gone'' example_state]\<rparr>"

definition app_settings :: Settings.settings where
  "app_settings =
     Default\<lparr>stGitHub := \<lparr>sgConfigURL = ''https://github.com/org'',
       sgApp = \<lparr>saClientID = ''Iv1'', saInstallationID = 7, saSlug = []\<rparr>\<rparr>\<rparr>"

theorem session_failures_reported_witness:
  "\<exists>snap. writeStatus StatusPath ''0.2.0'' 0 9 None (countWorkers example_orders example_view ended_controller) = Some snap
     \<and> list_ex (\<lambda>f. fLevel f = FAIL) (githubFindings app_settings (Some snap) 20)"
proof -
  have orders: "set (scale_set_order example_orders) = dom (cScaleSets ended_controller)"
    by (simp add: example_orders_def ended_controller_def)
  obtain snap where snap:
    "writeStatus StatusPath ''0.2.0'' 0 9 None (countWorkers example_orders example_view ended_controller) = Some snap"
    by (simp add: writeStatus_def StatusPath_def)
  have "\<exists>n state. cScaleSets ended_controller n = Some state \<and> \<not> sSessionOpen state \<and> sSessionErr state \<noteq> []"
    by (simp add: ended_controller_def SessionEnded_def)
  then show ?thesis using session_failures_reported [OF snap orders, of app_settings 20] snap by blast
qed

end
