(* ===== verification/Pve_Client.thy ===== *)
theory Pve_Client
  imports Access Url World Host
begin

text \<open>
  The Proxmox HTTP client (\<^verbatim>\<open>internal/proxmox/client.go\<close>) and the operations it offers (\<^verbatim>\<open>vm.go\<close>,
  \<^verbatim>\<open>agent.go\<close>, \<^verbatim>\<open>access.go\<close>, \<^verbatim>\<open>tasks.go\<close>). A request is a value. \<open>wire\<close> holds what is outside the program:
  the server's answers, functions of the requests sent so far, newest first, with the request they answer;
  \<^verbatim>\<open>encoding/json\<close>, from the texts the program decodes to its types; and whether the context ends while a
  poll waits. Strings are the bytes of Go's strings.
\<close>

section \<open>Escaping (net/url)\<close>

definition upper_hex :: "nat \<Rightarrow> char" where
  "upper_hex n = ''0123456789ABCDEF'' ! n"

definition percent :: "char \<Rightarrow> string" where
  "percent c = [CHR ''%'', upper_hex (of_char c div 16), upper_hex (of_char c mod 16)]"

definition unreserved :: "char \<Rightarrow> bool" where
  "unreserved c \<longleftrightarrow> is_alpha c \<or> is_digit c \<or> c \<in> set ''-_.~''"

definition segment_char :: "char \<Rightarrow> bool" where
  "segment_char c \<longleftrightarrow> unreserved c \<or> c \<in> set ''$&+=:@''"

definition PathEscape :: "string \<Rightarrow> string" where
  "PathEscape s = concat (map (\<lambda>c. if segment_char c then [c] else percent c) s)"

definition QueryEscape :: "string \<Rightarrow> string" where
  "QueryEscape s = concat (map (\<lambda>c. if unreserved c then [c] else if c = CHR '' '' then ''+'' else percent c) s)"

text \<open>\<^verbatim>\<open>url.Values\<close>: a map from names to their values, here each name once.\<close>

type_synonym params = "(string \<times> string list) list"

fun insert_param :: "string \<times> string list \<Rightarrow> params \<Rightarrow> params" where
  "insert_param p [] = [p]"
| "insert_param p (q # qs) = (if str_less (fst q) (fst p) then q # insert_param p qs else p # q # qs)"

definition Encode :: "params \<Rightarrow> string" where
  "Encode ps =
     Join (concat (map (\<lambda>(k, vs). map (\<lambda>v. QueryEscape k @ ''='' @ QueryEscape v) vs) (foldr insert_param ps []))) ''&''"

definition setParam :: "string \<Rightarrow> string \<Rightarrow> params \<Rightarrow> params" where
  "setParam k v ps = (k, [v]) # filter (\<lambda>p. fst p \<noteq> k) ps"

definition setIf :: "string \<Rightarrow> string \<Rightarrow> params \<Rightarrow> params" where
  "setIf k v ps = (if v \<noteq> [] then setParam k v ps else ps)"

text \<open>
  A path as it was written in a URL. \<^verbatim>\<open>EscapedPath\<close> keeps it when it is a valid encoding, and escapes the
  path it stands for otherwise.
\<close>

definition path_char :: "char \<Rightarrow> bool" where
  "path_char c \<longleftrightarrow> unreserved c \<or> c \<in> set ''$&+,/:;=@''"

definition valid_encoded :: "string \<Rightarrow> bool" where
  "valid_encoded s \<longleftrightarrow>
     list_all (\<lambda>c. c \<in> set ''!$&()*+,;=:@[]%'' \<or> c = CHR 0x27 \<or> path_char c) s"

definition EscapedPath :: "string \<Rightarrow> string" where
  "EscapedPath raw =
     (if valid_encoded raw then raw
      else (case unescape raw of
              None \<Rightarrow> raw
            | Some p \<Rightarrow> concat (map (\<lambda>c. if path_char c then [c] else percent c) p)))"

text \<open>The path part of an absolute URL, as written.\<close>

definition raw_path :: "string \<Rightarrow> string" where
  "raw_path raw =
     (case getScheme (fst (cut_at (CHR ''#'') raw)) of
        None \<Rightarrow> []
      | Some (scheme, rest) \<Rightarrow>
          (case split_query rest of (force, r, query) \<Rightarrow> dropWhile (\<lambda>c. c \<noteq> CHR ''/'') (drop 2 r)))"

section \<open>The client (client.go)\<close>

definition defaultRequestTimeout :: duration where "defaultRequestTimeout = 60 * Second"
definition defaultPollInterval :: duration where "defaultPollInterval = 250000000"
definition defaultMaxPollInterval :: duration where "defaultMaxPollInterval = 2 * Second"
definition maxResponseBytes :: nat where "maxResponseBytes = 33554432"

record pve_options =
  poURL :: string
  poTokenID :: string
  poTokenSecret :: string
  poTLSFingerprint :: string
  poCACertPEM :: string
  poServerName :: string
  poNode :: string
  poRequestTimeout :: duration
  poPollInterval :: duration
  poMaxPollInterval :: duration
  poUserAgent :: string

text \<open>What a connection trusts: the system's CAs, the given CAs, or one certificate.\<close>

datatype tls_trust = SystemRoots | RootCAs string | Pinned string

record pve_client =
  pcBase :: url
  pcBasePath :: string
  pcAuthHeader :: string
  pcNode :: string
  pcTrust :: tls_trust
  pcServerName :: string
  pcTimeout :: duration
  pcPollInterval :: duration
  pcMaxPollInterval :: duration
  pcUserAgent :: string

definition orDefault :: "duration \<Rightarrow> duration \<Rightarrow> duration" where
  "orDefault d def = (if d \<le> 0 then def else d)"

text \<open>\<^verbatim>\<open>hex.DecodeString\<close>.\<close>

fun hex_decode :: "string \<Rightarrow> string option" where
  "hex_decode [] = Some []"
| "hex_decode [c] = None"
| "hex_decode (a # b # s) =
     (case (hex_val a, hex_val b, hex_decode s) of
        (Some x, Some y, Some t) \<Rightarrow> Some (char_of (16 * x + y) # t)
      | _ \<Rightarrow> None)"

definition parseFingerprint :: "string \<Rightarrow> error + string" where
  "parseFingerprint s =
     (case hex_decode (filter (\<lambda>c. c \<noteq> CHR '':'') s) of
        Some b \<Rightarrow>
          if length b = 32 then Inr b
          else Inl (ErrorMsg ''proxmox TLS fingerprint must be a SHA-256 fingerprint: 32 hex bytes separated by colons'')
      | None \<Rightarrow> Inl (ErrorMsg ''proxmox TLS fingerprint must be a SHA-256 fingerprint: 32 hex bytes separated by colons''))"

text \<open>\<open>has_certs\<close> is \<^verbatim>\<open>AppendCertsFromPEM\<close>: whether a text holds a certificate.\<close>

definition trust_of :: "(string \<Rightarrow> bool) \<Rightarrow> pve_options \<Rightarrow> error + tls_trust" where
  "trust_of has_certs o' =
     (if poTLSFingerprint o' \<noteq> [] then
        (case parseFingerprint (poTLSFingerprint o') of Inl e \<Rightarrow> Inl e | Inr b \<Rightarrow> Inr (Pinned b))
      else if poCACertPEM o' \<noteq> [] then
        (if has_certs (poCACertPEM o') then Inr (RootCAs (poCACertPEM o'))
         else Inl (ErrorMsg ''proxmox CA certificate has no PEM certificates''))
      else Inr SystemRoots)"

definition pve_New :: "(string \<Rightarrow> string option) \<Rightarrow> (string \<Rightarrow> bool) \<Rightarrow> pve_options \<Rightarrow> error + pve_client" where
  "pve_New sh has_certs o' =
     (case url_Parse sh (poURL o') of
        None \<Rightarrow> Inl (ErrorMsg ''proxmox URL must be an https:// URL'')
      | Some base \<Rightarrow>
          if Scheme base \<noteq> ''https'' \<or> Host base = [] then Inl (ErrorMsg ''proxmox URL must be an https:// URL'')
          else if poTokenID o' = [] \<or> poTokenSecret o' = [] then
            Inl (ErrorMsg ''proxmox token ID and secret are required'')
          else if poNode o' = [] then Inl (ErrorMsg ''proxmox node is required'')
          else (case trust_of has_certs o' of
                  Inl e \<Rightarrow> Inl e
                | Inr trust \<Rightarrow>
                    let p = orDefault (poPollInterval o') defaultPollInterval;
                        m = orDefault (poMaxPollInterval o') defaultMaxPollInterval in
                    Inr \<lparr>pcBase = base, pcBasePath = EscapedPath (raw_path (poURL o')),
                         pcAuthHeader = ''PVEAPIToken='' @ poTokenID o' @ ''='' @ poTokenSecret o',
                         pcNode = poNode o', pcTrust = trust, pcServerName = poServerName o',
                         pcTimeout = orDefault (poRequestTimeout o') defaultRequestTimeout,
                         pcPollInterval = p, pcMaxPollInterval = (if m < p then p else m),
                         pcUserAgent = poUserAgent o'\<rparr>))"

text \<open>
  The check of a connection's certificates, the leaf first. Without a pin the chain is verified, by the
  parameter \<open>chain_ok\<close>; a pin replaces that.
\<close>

definition certificate_error ::
  "(string \<Rightarrow> string) \<Rightarrow> (pve_client \<Rightarrow> string list \<Rightarrow> error option) \<Rightarrow> pve_client \<Rightarrow> string list \<Rightarrow> error option" where
  "certificate_error sha256 chain_ok C certs =
     (case pcTrust C of
        Pinned want \<Rightarrow>
          (case certs of
             [] \<Rightarrow> Some (ErrorMsg ''proxmox server sent no certificate'')
           | leaf # rest \<Rightarrow>
               if sha256 leaf \<noteq> want
               then Some (ErrorMsg ''proxmox server certificate doesn't match the pinned fingerprint'') else None)
      | _ \<Rightarrow> chain_ok C certs)"

section \<open>Requests\<close>

definition joinSegments :: "string list \<Rightarrow> string" where
  "joinSegments segs = Join (map PathEscape segs) ''/''"

definition nodePath :: "pve_client \<Rightarrow> string list \<Rightarrow> string" where
  "nodePath C segs = ''/nodes/'' @ PathEscape (pcNode C) @ ''/'' @ joinSegments segs"

definition vmPath :: "pve_client \<Rightarrow> vmid \<Rightarrow> string list \<Rightarrow> string" where
  "vmPath C vid segs = nodePath C ([''qemu'', Itoa vid] @ segs)"

datatype http_method = GET | POST | PUT | DELETE

definition method_String :: "http_method \<Rightarrow> string" where
  "method_String m = (case m of GET \<Rightarrow> ''GET'' | POST \<Rightarrow> ''POST'' | PUT \<Rightarrow> ''PUT'' | DELETE \<Rightarrow> ''DELETE'')"

record request =
  rqMethod :: http_method
  rqURL :: string
  rqHeaders :: "(string \<times> string) list"
  rqBody :: "string option"

record response =
  rsStatusCode :: int
  rsStatus :: string
  rsBody :: string
  rsBodyError :: "error option"

text \<open>A transport error that quotes the URL (\<^verbatim>\<open>*url.Error\<close>), or another one.\<close>

datatype send_error = URLError string error | OtherError error

record envelope =
  evData :: string
  evMessage :: string
  evErrors :: "(string \<times> string) list"

record exec_status =
  esExited :: bool
  esExitCode :: int
  esSignal :: int
  esOutData :: string
  esErrData :: string
  esOutTruncated :: bool
  esErrTruncated :: bool

record vm_state =
  vsVMID :: int
  vsName :: string
  vsStatus :: string
  vsQMPStatus :: string
  vsLock :: string
  vsTags :: string
  vsTemplate :: bool
  vsMaxDisk :: int
  vsUptime :: int
  vsAgent :: bool

record storage_state =
  ssType :: string
  ssActive :: bool
  ssEnabled :: bool
  ssShared :: bool
  ssContent :: string
  ssTotal :: int
  ssAvail :: int
  ssUsed :: int

record wire =
  wi_send :: "request list \<Rightarrow> send_error + response"
  wi_canceled :: "request list \<Rightarrow> bool"
  wi_envelope :: "string \<Rightarrow> envelope \<times> error option"
  wi_string :: "string \<Rightarrow> error + string"
  wi_int :: "string \<Rightarrow> error + int"
  wi_resources :: "string \<Rightarrow> error + resource list"
  wi_task :: "string \<Rightarrow> error + task_status"
  wi_exec :: "string \<Rightarrow> error + exec_status"
  wi_vm :: "string \<Rightarrow> error + vm_state"
  wi_version :: "string \<Rightarrow> error + pve_version"
  wi_storage :: "string \<Rightarrow> error + storage_state"
  wi_permissions :: "string \<Rightarrow> error + permissions"

definition requestURL :: "pve_client \<Rightarrow> string \<Rightarrow> string \<Rightarrow> error + string" where
  "requestURL C path query =
     (let raw = TrimSuffix (pcBasePath C) ''/'' @ path in
      case unescape raw of
        None \<Rightarrow> Inl (ErrorMsg ''invalid URL escape'')
      | Some p \<Rightarrow> Inr (url_String ((pcBase C)\<lparr>UrlPath := raw, RawQuery := query\<rparr>)))"

definition redactURLError :: "send_error \<Rightarrow> error" where
  "redactURLError e = (case e of URLError u inner \<Rightarrow> inner | OtherError e' \<Rightarrow> e')"

definition request_of :: "pve_client \<Rightarrow> http_method \<Rightarrow> string \<Rightarrow> params \<Rightarrow> error + request" where
  "request_of C m path ps =
     (let sends_body = (m = POST \<or> m = PUT) in
      case requestURL C path (if sends_body then [] else Encode ps) of
        Inl e \<Rightarrow> Inl e
      | Inr dest \<Rightarrow>
          Inr \<lparr>rqMethod = m, rqURL = dest,
               rqHeaders = [(''Authorization'', pcAuthHeader C), (''Accept'', ''application/json'')]
                 @ (if sends_body then [(''Content-Type'', ''application/x-www-form-urlencoded'')] else [])
                 @ (if pcUserAgent C \<noteq> [] then [(''User-Agent'', pcUserAgent C)] else []),
               rqBody = (if sends_body then Some (Encode ps) else None)\<rparr>)"

text \<open>\<^verbatim>\<open>io.ReadAll\<close> of the body's first \<open>maxResponseBytes\<close> bytes: an error beyond them is not seen.\<close>

definition read_body :: "response \<Rightarrow> error + string" where
  "read_body r =
     (case rsBodyError r of
        Some e \<Rightarrow> if length (rsBody r) < maxResponseBytes then Inl e else Inr (take maxResponseBytes (rsBody r))
      | None \<Rightarrow> Inr (take maxResponseBytes (rsBody r)))"

definition api_error_of :: "http_method \<Rightarrow> string \<Rightarrow> response \<Rightarrow> envelope \<Rightarrow> api_error" where
  "api_error_of m path r ev =
     \<lparr>Method = method_String m, Path = path, StatusCode = rsStatusCode r,
      Message = (if TrimSpace (evMessage ev) = []
                 then TrimSpace (TrimPrefix (rsStatus r) (Itoa (rsStatusCode r))) else TrimSpace (evMessage ev)),
      ParamErrors = evErrors ev\<rparr>"

text \<open>
  What a response means. \<open>decode\<close> reads the data into the caller's type and \<open>zero\<close> is its zero value, which
  stays when there is no data.
\<close>

definition response_result ::
  "wire \<Rightarrow> http_method \<Rightarrow> string \<Rightarrow> (string \<Rightarrow> error + 'a) \<Rightarrow> 'a \<Rightarrow> response \<Rightarrow> error + 'a" where
  "response_result W m path decode zero r =
     (let at = method_String m @ '' '' @ path in
      case read_body r of
        Inl e \<Rightarrow> Inl (wrap (at @ '': read response'') e)
      | Inr body \<Rightarrow>
          (case wi_envelope W body of (ev, decodeErr) \<Rightarrow>
             if rsStatusCode r < 200 \<or> rsStatusCode r > 299 then Inl (APIError (api_error_of m path r ev))
             else (case decodeErr of
                     Some e \<Rightarrow> Inl (wrap (at @ '': decode response'') e)
                   | None \<Rightarrow>
                       if evData ev = [] \<or> evData ev = ''null'' then Inr zero
                       else (case decode (evData ev) of
                               Inl e \<Rightarrow> Inl (wrap (at @ '': decode data'') e)
                             | Inr x \<Rightarrow> Inr x))))"

type_synonym 'a sends = "request list \<Rightarrow> (error + 'a) \<times> request list"

definition do_request ::
  "wire \<Rightarrow> pve_client \<Rightarrow> http_method \<Rightarrow> string \<Rightarrow> params \<Rightarrow> (string \<Rightarrow> error + 'a) \<Rightarrow> 'a \<Rightarrow> 'a sends" where
  "do_request W C m path ps decode zero h =
     (let at = method_String m @ '' '' @ path in
      case request_of C m path ps of
        Inl e \<Rightarrow> (Inl (wrap at e), h)
      | Inr rq \<Rightarrow>
          (case wi_send W (rq # h) of
             Inl e \<Rightarrow> (Inl (wrap at (redactURLError e)), rq # h)
           | Inr r \<Rightarrow> (response_result W m path decode zero r, rq # h)))"

text \<open>A request whose answer's data is not looked at.\<close>

definition send_only :: "wire \<Rightarrow> pve_client \<Rightarrow> http_method \<Rightarrow> string \<Rightarrow> params \<Rightarrow> unit sends" where
  "send_only W C m path ps = do_request W C m path ps (\<lambda>_. Inr ()) ()"

section \<open>Tasks and polling (tasks.go)\<close>

text \<open>The same request sent again and again: the history before the \<open>i\<close>-th time, and its answer.\<close>

definition before_look :: "'a sends \<Rightarrow> request list \<Rightarrow> nat \<Rightarrow> request list" where
  "before_look look h i = ((\<lambda>h'. snd (look h')) ^^ i) h"

definition looked :: "'a sends \<Rightarrow> request list \<Rightarrow> nat \<Rightarrow> error + 'a" where
  "looked look h i = fst (look (before_look look h i))"

definition task_look :: "wire \<Rightarrow> pve_client \<Rightarrow> string \<Rightarrow> task_status sends" where
  "task_look W C upid =
     do_request W C GET (nodePath C [''tasks'', upid, ''status'']) [] (wi_task W)
       \<lparr>tsStatus = [], tsExitStatus = [], tsType = []\<rparr>"

text \<open>
  A request that starts a task, and the wait for the task. \<open>None\<close>: it is still polling after \<open>fuel\<close> looks.
  The sleeps between the looks are returned with the error.
\<close>

definition run_task ::
  "wire \<Rightarrow> pve_client \<Rightarrow> nat \<Rightarrow> string sends \<Rightarrow> request list \<Rightarrow> (error option \<times> duration list) option" where
  "run_task W C fuel start h =
     (case start h of (r, h1) \<Rightarrow>
        (let look = task_look W C (case r of Inl e \<Rightarrow> [] | Inr upid \<Rightarrow> upid) in
         runTask fuel r (looked look h1) (\<lambda>i. wi_canceled W (before_look look h1 (Suc i)))
           (pcPollInterval C) (pcMaxPollInterval C)))"

definition task_failing :: "string \<Rightarrow> (error option \<times> duration list) option \<Rightarrow> (error option \<times> duration list) option" where
  "task_failing m = map_option (\<lambda>(e, sleeps). (map_option (wrap m) e, sleeps))"

definition failing_with :: "string \<Rightarrow> 'a sends \<Rightarrow> 'a sends" where
  "failing_with m f h = (case f h of (Inl e, h') \<Rightarrow> (Inl (wrap m e), h') | (Inr x, h') \<Rightarrow> (Inr x, h'))"

section \<open>VMs (vm.go)\<close>

definition cl_ListVMs :: "wire \<Rightarrow> pve_client \<Rightarrow> vm list sends" where
  "cl_ListVMs W C h =
     (case failing_with ''list VMs'' (do_request W C GET ''/cluster/resources'' [(''type'', [''vm''])] (wi_resources W) []) h of
        (Inl e, h') \<Rightarrow> (Inl e, h')
      | (Inr rs, h') \<Rightarrow> (Inr (vmsOnNode rs (pcNode C)), h'))"

definition ParseResources :: "wire \<Rightarrow> string \<Rightarrow> string \<Rightarrow> error + vm list" where
  "ParseResources W data node =
     (case wi_resources W data of
        Inl e \<Rightarrow> Inl (wrap ''decode cluster resources'' e)
      | Inr rs \<Rightarrow> Inr (vmsOnNode rs node))"

record vm_status =
  vtVMID :: vmid
  vtName :: string
  vtStatus :: string
  vtQMPStatus :: string
  vtLock :: string
  vtTags :: "string list"
  vtTemplate :: bool
  vtMaxDiskBytes :: int
  vtUptimeSeconds :: int
  vtAgentEnabled :: bool

definition vm_status_of :: "vm_state \<Rightarrow> vm_status" where
  "vm_status_of r =
     \<lparr>vtVMID = vsVMID r, vtName = vsName r, vtStatus = vsStatus r, vtQMPStatus = vsQMPStatus r, vtLock = vsLock r,
      vtTags = ParseTags (vsTags r), vtTemplate = vsTemplate r, vtMaxDiskBytes = vsMaxDisk r,
      vtUptimeSeconds = vsUptime r, vtAgentEnabled = vsAgent r\<rparr>"

definition zero_vm_state :: vm_state where
  "zero_vm_state =
     \<lparr>vsVMID = 0, vsName = [], vsStatus = [], vsQMPStatus = [], vsLock = [], vsTags = [], vsTemplate = False,
      vsMaxDisk = 0, vsUptime = 0, vsAgent = False\<rparr>"

definition cl_Status :: "wire \<Rightarrow> pve_client \<Rightarrow> vmid \<Rightarrow> vm_status sends" where
  "cl_Status W C vid h =
     (case failing_with (''status of VM '' @ Itoa vid)
             (do_request W C GET (vmPath C vid [''status'', ''current'']) [] (wi_vm W) zero_vm_state) h of
        (Inl e, h') \<Rightarrow> (Inl e, h')
      | (Inr r, h') \<Rightarrow> (Inr (vm_status_of r), h'))"

definition clone_params :: "clone_options \<Rightarrow> params" where
  "clone_params o' =
     (let ps = setIf ''description'' (Description o') (setIf ''pool'' (coPool o')
                 (setIf ''name'' (coName o') [(''newid'', [Itoa (NewVMID o')])])) in
      if Full o' then setIf ''storage'' (coStorage o') (setParam ''full'' ''1'' ps) else setParam ''full'' ''0'' ps)"

definition cl_Clone :: "wire \<Rightarrow> pve_client \<Rightarrow> nat \<Rightarrow> clone_options \<Rightarrow> request list \<Rightarrow> (error option \<times> duration list) option" where
  "cl_Clone W C fuel o' h =
     task_failing (''clone VM '' @ Itoa (SourceVMID o') @ '' to '' @ Itoa (NewVMID o'))
       (run_task W C fuel
          (do_request W C POST (vmPath C (SourceVMID o') [''clone'']) (clone_params o') (wi_string W) []) h)"

definition config_params :: "(string \<times> string) list \<Rightarrow> string list \<Rightarrow> params" where
  "config_params st del =
     (let ps = foldl (\<lambda>ps (k, v). setParam k v ps) [] st in
      if del \<noteq> [] then setParam ''delete'' (Join del '','') ps else ps)"

definition cl_SetConfig :: "wire \<Rightarrow> pve_client \<Rightarrow> vmid \<Rightarrow> (string \<times> string) list \<Rightarrow> string list \<Rightarrow> unit sends" where
  "cl_SetConfig W C vid st del h =
     (if config_params st del = [] then (Inr (), h)
      else failing_with (''configure VM '' @ Itoa vid)
             (send_only W C PUT (vmPath C vid [''config'']) (config_params st del)) h)"

definition cl_GrowDisk ::
  "wire \<Rightarrow> pve_client \<Rightarrow> nat \<Rightarrow> vmid \<Rightarrow> string \<Rightarrow> int \<Rightarrow> request list \<Rightarrow> (error option \<times> duration list) option" where
  "cl_GrowDisk W C fuel vid disk addGiB h =
     task_failing (''grow disk '' @ disk @ '' of VM '' @ Itoa vid)
       (run_task W C fuel
          (do_request W C PUT (vmPath C vid [''resize''])
             [(''disk'', [disk]), (''size'', [''+'' @ Itoa addGiB @ ''G''])] (wi_string W) []) h)"

definition vmTask ::
  "wire \<Rightarrow> pve_client \<Rightarrow> nat \<Rightarrow> vmid \<Rightarrow> string \<Rightarrow> params \<Rightarrow> string list \<Rightarrow> request list
   \<Rightarrow> (error option \<times> duration list) option" where
  "vmTask W C fuel vid action ps segs h =
     task_failing (action @ '' VM '' @ Itoa vid)
       (run_task W C fuel (do_request W C POST (vmPath C vid segs) ps (wi_string W) []) h)"

definition cl_Start :: "wire \<Rightarrow> pve_client \<Rightarrow> nat \<Rightarrow> vmid \<Rightarrow> request list \<Rightarrow> (error option \<times> duration list) option" where
  "cl_Start W C fuel vid = vmTask W C fuel vid ''start'' [] [''status'', ''start'']"

definition cl_Shutdown ::
  "wire \<Rightarrow> pve_client \<Rightarrow> nat \<Rightarrow> vmid \<Rightarrow> int \<Rightarrow> request list \<Rightarrow> (error option \<times> duration list) option" where
  "cl_Shutdown W C fuel vid timeoutSeconds =
     vmTask W C fuel vid ''shut down'' [(''forceStop'', [''1'']), (''timeout'', [Itoa timeoutSeconds])]
       [''status'', ''shutdown'']"

definition cl_Stop :: "wire \<Rightarrow> pve_client \<Rightarrow> nat \<Rightarrow> vmid \<Rightarrow> request list \<Rightarrow> (error option \<times> duration list) option" where
  "cl_Stop W C fuel vid = vmTask W C fuel vid ''stop'' [] [''status'', ''stop'']"

definition cl_ConvertToTemplate ::
  "wire \<Rightarrow> pve_client \<Rightarrow> nat \<Rightarrow> vmid \<Rightarrow> request list \<Rightarrow> (error option \<times> duration list) option" where
  "cl_ConvertToTemplate W C fuel vid = vmTask W C fuel vid ''convert to template'' [] [''template'']"

definition cl_Destroy :: "wire \<Rightarrow> pve_client \<Rightarrow> nat \<Rightarrow> vmid \<Rightarrow> request list \<Rightarrow> (error option \<times> duration list) option" where
  "cl_Destroy W C fuel vid h =
     task_failing (''destroy VM '' @ Itoa vid)
       (run_task W C fuel
          (do_request W C DELETE (vmPath C vid []) [(''purge'', [''1'']), (''destroy-unreferenced-disks'', [''1''])]
             (wi_string W) []) h)"

section \<open>The guest agent (agent.go)\<close>

definition cl_AgentPing :: "wire \<Rightarrow> pve_client \<Rightarrow> vmid \<Rightarrow> unit sends" where
  "cl_AgentPing W C vid =
     failing_with (''ping guest agent of VM '' @ Itoa vid) (send_only W C POST (vmPath C vid [''agent'', ''ping'']) [])"

definition cl_AgentWriteFile :: "wire \<Rightarrow> pve_client \<Rightarrow> vmid \<Rightarrow> string \<Rightarrow> string \<Rightarrow> unit sends" where
  "cl_AgentWriteFile W C vid path content =
     failing_with (''write '' @ path @ '' in VM '' @ Itoa vid)
       (send_only W C POST (vmPath C vid [''agent'', ''file-write'']) [(''file'', [path]), (''content'', [content])])"

record exec_outcome = exec_result +
  StdoutTruncated :: bool
  StderrTruncated :: bool

definition exec_outcome_of :: "exec_status \<Rightarrow> exec_outcome" where
  "exec_outcome_of st =
     \<lparr>ExitCode = esExitCode st, Signal = esSignal st, Stdout = esOutData st, Stderr = esErrData st,
      StdoutTruncated = esOutTruncated st, StderrTruncated = esErrTruncated st\<rparr>"

definition zero_exec_status :: exec_status where
  "zero_exec_status =
     \<lparr>esExited = False, esExitCode = 0, esSignal = 0, esOutData = [], esErrData = [], esOutTruncated = False,
      esErrTruncated = False\<rparr>"

definition exec_look :: "wire \<Rightarrow> pve_client \<Rightarrow> vmid \<Rightarrow> int \<Rightarrow> exec_status sends" where
  "exec_look W C vid pid =
     do_request W C GET (vmPath C vid [''agent'', ''exec-status'']) [(''pid'', [Itoa pid])] (wi_exec W) zero_exec_status"

definition exec_check :: "error + exec_status \<Rightarrow> bool \<times> error option" where
  "exec_check r = (case r of Inl e \<Rightarrow> (False, Some e) | Inr st \<Rightarrow> (esExited st, None))"

text \<open>\<open>None\<close>: the command is still running after \<open>fuel\<close> looks.\<close>

definition cl_AgentExec ::
  "wire \<Rightarrow> pve_client \<Rightarrow> nat \<Rightarrow> vmid \<Rightarrow> string list \<Rightarrow> string option \<Rightarrow> request list \<Rightarrow> (error + exec_outcome) option" where
  "cl_AgentExec W C fuel vid cmd stdin h =
     (case cmd of
        [] \<Rightarrow> Some (Inl (ErrorMsg ''guest exec: command is required''))
      | name # args \<Rightarrow>
          (let at = ''guest exec '' @ name @ '' in VM '' @ Itoa vid in
           if (case stdin of None \<Rightarrow> 0 | Some s \<Rightarrow> length s) > MaxAgentStdinBytes
           then Some (Inl (ErrorMsg (at @ '': stdin is more than the limit'')))
           else (case do_request W C POST (vmPath C vid [''agent'', ''exec''])
                        (case stdin of None \<Rightarrow> [(''command'', cmd)] | Some s \<Rightarrow> setParam ''input-data'' s [(''command'', cmd)])
                        (wi_int W) 0 h of
                   (Inl e, h1) \<Rightarrow> Some (Inl (wrap at e))
                 | (Inr pid, h1) \<Rightarrow>
                     (let look = exec_look W C vid pid in
                      case poll fuel (\<lambda>i. exec_check (looked look h1 i)) (\<lambda>i. wi_canceled W (before_look look h1 (Suc i)))
                             (pcMaxPollInterval C) (pcPollInterval C) 0 of
                        None \<Rightarrow> None
                      | Some (Some e, sleeps) \<Rightarrow> Some (Inl (wrap (at @ '': wait for exit'') e))
                      | Some (None, sleeps) \<Rightarrow>
                          (case looked look h1 (length sleeps) of
                             Inl e \<Rightarrow> Some (Inl e)
                           | Inr st \<Rightarrow> Some (Inr (exec_outcome_of st)))))))"

definition ParseAgentExecStatus :: "wire \<Rightarrow> string \<Rightarrow> error + exec_outcome \<times> bool" where
  "ParseAgentExecStatus W data =
     (case wi_exec W data of
        Inl e \<Rightarrow> Inl (wrap ''decode guest exec status'' e)
      | Inr st \<Rightarrow> Inr (exec_outcome_of st, esExited st))"

section \<open>Version, storage and permissions (access.go)\<close>

definition cl_Version :: "wire \<Rightarrow> pve_client \<Rightarrow> pve_version sends" where
  "cl_Version W C =
     failing_with ''version'' (do_request W C GET ''/version'' [] (wi_version W) \<lparr>pvVersion = [], pvRelease = []\<rparr>)"

record pve_storage =
  sgType :: string
  sgActive :: bool
  sgEnabled :: bool
  sgShared :: bool
  sgContent :: "string list"
  sgTotalBytes :: int
  sgAvailBytes :: int
  sgUsedBytes :: int

definition pve_storage_of :: "storage_state \<Rightarrow> pve_storage" where
  "pve_storage_of r =
     \<lparr>sgType = ssType r, sgActive = ssActive r, sgEnabled = ssEnabled r, sgShared = ssShared r,
      sgContent = storage_content (ssContent r), sgTotalBytes = ssTotal r, sgAvailBytes = ssAvail r,
      sgUsedBytes = ssUsed r\<rparr>"

definition zero_storage_state :: storage_state where
  "zero_storage_state =
     \<lparr>ssType = [], ssActive = False, ssEnabled = False, ssShared = False, ssContent = [], ssTotal = 0, ssAvail = 0,
      ssUsed = 0\<rparr>"

definition cl_StorageStatus :: "wire \<Rightarrow> pve_client \<Rightarrow> string \<Rightarrow> pve_storage sends" where
  "cl_StorageStatus W C name h =
     (case failing_with (''status of storage '' @ name)
             (do_request W C GET (nodePath C [''storage'', name, ''status'']) [] (wi_storage W) zero_storage_state) h of
        (Inl e, h') \<Rightarrow> (Inl e, h')
      | (Inr r, h') \<Rightarrow> (Inr (pve_storage_of r), h'))"

definition cl_Permissions :: "wire \<Rightarrow> pve_client \<Rightarrow> permissions sends" where
  "cl_Permissions W C =
     failing_with ''permissions'' (do_request W C GET ''/access/permissions'' [] (wi_permissions W) (\<lambda>_ _. None))"

end
