(* ===== verification/Pve_Client_Facts.thy ===== *)
theory Pve_Client_Facts
  imports Pve_Client
begin

text \<open>
  What the Proxmox client guarantees: names stay single path segments of the URL; the outcome of a request on
  every kind of answer; secrets never reach an error; and an operation that starts a task succeeds only when
  Proxmox says the task did.
\<close>

section \<open>Escaped texts\<close>

lemma hex_val_upper: "n < 16 \<Longrightarrow> hex_val (upper_hex n) = Some n"
proof -
  assume "n < 16"
  then have "n \<in> {0, 1, 2, 3, 4, 5, 6, 7, 8, 9, 10, 11, 12, 13, 14, 15}" by simp presburger
  then show ?thesis by (auto simp: hex_val_def upper_hex_def)
qed

lemma nibbles: "of_char c div 16 < (16 :: nat)" "of_char c mod 16 < (16 :: nat)"
  by (rule less_mult_imp_div_less) simp_all

lemma hex_digits_of: "hex_val (upper_hex (of_char c div 16)) = Some (of_char c div 16)"
  "hex_val (upper_hex (of_char c mod 16)) = Some (of_char c mod 16)"
  by (intro hex_val_upper nibbles)+

lemma unescape_percent: "unescape (percent c @ s) = map_option (\<lambda>t. c # t) (unescape s)"
  by (simp add: percent_def hex_digits_of)

lemma unescape_plain_append: "CHR ''%'' \<noteq> c \<Longrightarrow> unescape ([c] @ s) = map_option (\<lambda>t. c # t) (unescape s)"
  by simp

lemma unescape_escaped:
  assumes "\<not> keep (CHR ''%'')"
  shows "unescape (concat (map (\<lambda>c. if keep c then [c] else percent c) s)) = Some s"
  using assms
proof (induction s)
  case (Cons c s)
  then show ?case
    using unescape_percent [of c] unescape_plain_append [of c] by (cases "keep c") auto
qed simp

lemma kept_bytes: "\<not> segment_char (CHR ''%'')" "\<not> segment_char (CHR ''/'')" "\<not> segment_char (CHR ''?'')"
  "\<not> segment_char (CHR ''#'')" "\<not> path_char (CHR ''%'')"
  by (simp_all add: segment_char_def path_char_def unreserved_def is_alpha_def is_digit_def)

interpretation path_segment: codec PathEscape unescape "\<lambda>_. True"
  by unfold_locales (simp add: PathEscape_def unescape_escaped kept_bytes)

lemma upper_hex_digit: "n < 16 \<Longrightarrow> upper_hex n \<in> set ''0123456789ABCDEF''"
  unfolding upper_hex_def by (rule nth_mem) simp

lemma percent_bytes:
  assumes "d \<in> set (percent c)"
  shows "d \<in> set ''%0123456789ABCDEF''"
proof -
  from assms consider "d = CHR ''%''" | "d = upper_hex (of_char c div 16)" | "d = upper_hex (of_char c mod 16)"
    unfolding percent_def by auto
  then show ?thesis
  proof cases
    case 2
    then have "d \<in> set ''0123456789ABCDEF''" using upper_hex_digit [OF nibbles(1)] by (simp only:)
    then show ?thesis by (rule list.set_intros(2))
  next
    case 3
    then have "d \<in> set ''0123456789ABCDEF''" using upper_hex_digit [OF nibbles(2)] by (simp only:)
    then show ?thesis by (rule list.set_intros(2))
  qed simp
qed

lemma hex_bytes: "list_all (\<lambda>c. segment_char c \<or> c = CHR ''%'') ''%0123456789ABCDEF''"
  by (simp add: segment_char_def unreserved_def is_alpha_def is_digit_def)

lemma PathEscape_bytes:
  assumes "c \<in> set (PathEscape s)"
  shows "segment_char c \<or> c = CHR ''%''"
proof -
  obtain d where d: "c \<in> set (if segment_char d then [d] else percent d)"
    using assms unfolding PathEscape_def set_concat set_map by blast
  show ?thesis
  proof (cases "segment_char d")
    case False
    with d have "c \<in> set ''%0123456789ABCDEF''" using percent_bytes by simp
    with hex_bytes show ?thesis unfolding list_all_iff by blast
  qed (use d in simp)
qed

lemma no_separator: "CHR ''/'' \<notin> set (PathEscape s)"
  using PathEscape_bytes [of "CHR ''/''" s] kept_bytes(2) by auto

lemma node_path_segments:
  assumes "segs \<noteq> []"
  shows "Split (CHR ''/'') (nodePath C segs) = [[], ''nodes'', PathEscape (pcNode C)] @ map PathEscape segs"
proof -
  have "Split (CHR ''/'') (joinSegments segs) = map PathEscape segs"
    unfolding joinSegments_def by (rule Split_Join) (use assms no_separator in auto)
  moreover have "Split (CHR ''/'') (PathEscape (pcNode C) @ CHR ''/'' # joinSegments segs)
      = PathEscape (pcNode C) # Split (CHR ''/'') (joinSegments segs)"
    by (rule Split_append_sep [OF no_separator])
  ultimately show ?thesis unfolding nodePath_def by simp
qed

section \<open>The URL of a request\<close>

lemma unescape_append: "unescape s = Some x \<Longrightarrow> unescape (s @ t) = map_option (\<lambda>y. x @ y) (unescape t)"
proof (induction s arbitrary: x rule: unescape.induct)
  case 1
  then show ?case by (simp add: option.map_ident)
next
  case (2 c s)
  show ?case
  proof (cases "c = CHR ''%''")
    case True
    with 2(3) obtain a b r u v where s: "s = a # b # r" "hex_val a = Some u" "hex_val b = Some v"
      by (auto split: list.splits option.splits)
    with True 2(3) obtain y where y: "unescape r = Some y" "x = char_of (16 * u + v) # y" by auto
    show ?thesis using 2(1) [OF True s(1) _ refl s(2,3) y(1)] s True y by (cases "unescape t") auto
  next
    case False
    with 2 show ?thesis by (cases "unescape t") auto
  qed
qed

lemma unescape_drop_slash: "unescape (s @ ''/'') = Some x \<Longrightarrow> \<exists>y. unescape s = Some y"
proof (induction s arbitrary: x rule: unescape.induct)
  case (2 c s)
  have slash: "hex_val (CHR ''/'') = None" by (simp add: hex_val_def)
  show ?case
  proof (cases "c = CHR ''%''")
    case True
    with 2(3) obtain a b r u v where s: "s @ ''/'' = a # b # r" "hex_val a = Some u" "hex_val b = Some v"
      by (auto split: list.splits option.splits)
    with slash obtain r' where "s = a # b # r'" "r = r' @ ''/''"
      by (cases s; cases "tl s") auto
    with True 2 s show ?thesis by fastforce
  next
    case False
    with 2 show ?thesis by auto
  qed
qed simp

lemma EscapedPath_unescape: "unescape raw = Some p \<Longrightarrow> unescape (EscapedPath raw) = Some p"
  by (simp add: EscapedPath_def unescape_escaped kept_bytes)

lemma New_parses:
  assumes "pve_New sh hc o' = Inr C"
  obtains base where "url_Parse sh (poURL o') = Some base" "pcBase C = base" "Scheme base = ''https''" "Host base \<noteq> []"
    "pcBasePath C = EscapedPath (raw_path (poURL o'))"
  using assms by (auto simp: pve_New_def Let_def split: option.splits if_splits sum.splits)

lemma Parse_raw_path:
  assumes "url_Parse sh raw = Some base" and "Host base \<noteq> []"
  shows "unescape (raw_path raw) = Some (UrlPath base)"
proof -
  obtain p where p: "url_parse_nofrag sh (fst (cut_at (CHR ''#'') raw)) = Some p" "Host p = Host base" "UrlPath p = UrlPath base"
    using assms(1) by (auto simp: url_Parse_def split: prod.splits option.splits)
  then show ?thesis
    using assms(2) unfolding raw_path_def url_parse_nofrag_def Let_def
    by (auto split: if_splits option.splits prod.splits)
qed

lemma base_path_unescapes:
  assumes "pve_New sh hc o' = Inr C"
  shows "\<exists>p. unescape (TrimSuffix (pcBasePath C) ''/'') = Some p"
proof -
  from assms obtain base where "url_Parse sh (poURL o') = Some base" "Host base \<noteq> []"
    and path: "pcBasePath C = EscapedPath (raw_path (poURL o'))" by (elim New_parses) auto
  then have whole: "unescape (pcBasePath C) = Some (UrlPath base)" using EscapedPath_unescape Parse_raw_path by simp
  show ?thesis
  proof (cases "HasSuffix (pcBasePath C) ''/''")
    case True
    then obtain s where "pcBasePath C = s @ ''/''"
      by (auto simp: HasPrefix_prefix prefix_def)
    with whole show ?thesis using unescape_drop_slash True by (auto simp: TrimSuffix_def)
  next
    case False
    then show ?thesis using whole by (simp add: TrimSuffix_def)
  qed
qed

section \<open>Answers and errors\<close>

lemma requestURL_ok:
  assumes "pve_New sh hc o' = Inr C" and "segs \<noteq> []"
  shows "requestURL C (nodePath C segs) query =
    Inr (url_String ((pcBase C)\<lparr>UrlPath := TrimSuffix (pcBasePath C) ''/'' @ nodePath C segs, RawQuery := query\<rparr>))"
proof -
  obtain p where p: "unescape (TrimSuffix (pcBasePath C) ''/'') = Some p" using base_path_unescapes [OF assms(1)] by blast
  have parts: "unescape (Join (map PathEscape xs) ''/'') = Some (Join xs ''/'')" for xs
  proof (induction xs "''/''" rule: Join.induct)
    case (3 x y zs)
    have tail: "unescape (''/'' @ t) = map_option (\<lambda>u. CHR ''/'' # u) (unescape t)" for t by simp
    show ?case
      using unescape_append [OF path_segment.round_trip, of x "''/'' @ Join (map PathEscape (y # zs)) ''/''"] 3 tail
      by simp
  qed (simp_all add: path_segment.round_trip)
  have plain: "unescape (''/nodes/'' @ t) = map_option (\<lambda>u. ''/nodes/'' @ u) (unescape t)" for t
    by (cases "unescape t") simp_all
  have "unescape (PathEscape (pcNode C) @ ''/'' @ joinSegments segs) = Some (pcNode C @ ''/'' @ Join segs ''/'')"
    using unescape_append [OF path_segment.round_trip, of "pcNode C" "''/'' @ joinSegments segs"] parts [of segs]
    by (simp add: joinSegments_def)
  then have "unescape (nodePath C segs) = Some (''/nodes/'' @ pcNode C @ ''/'' @ Join segs ''/'')"
    using plain [of "PathEscape (pcNode C) @ ''/'' @ joinSegments segs"] by (simp add: nodePath_def)
  then show ?thesis unfolding requestURL_def Let_def by (simp add: unescape_append [OF p])
qed

text \<open>Two transports that answer alike: the same responses, and errors that differ at most in the URL they quote.\<close>

definition same_answer :: "send_error + response \<Rightarrow> send_error + response \<Rightarrow> bool" where
  "same_answer a b \<longleftrightarrow>
     (case (a, b) of
        (Inl e, Inl e') \<Rightarrow> redactURLError e = redactURLError e'
      | (Inr r, Inr r') \<Rightarrow> r = r'
      | _ \<Rightarrow> False)"

definition alike :: "wire \<Rightarrow> wire \<Rightarrow> bool" where
  "alike W W' \<longleftrightarrow>
     W' = W\<lparr>wi_send := wi_send W', wi_canceled := wi_canceled W'\<rparr>
     \<and> (\<forall>h h'. length h = length h' \<longrightarrow>
          same_answer (wi_send W h) (wi_send W' h') \<and> wi_canceled W h = wi_canceled W' h')"

lemma alike_decoders:
  assumes "alike W W'"
  shows "wi_envelope W' = wi_envelope W" "wi_exec W' = wi_exec W" "wi_int W' = wi_int W" "wi_task W' = wi_task W"
    "wi_string W' = wi_string W"
proof -
  have "W' = W\<lparr>wi_send := wi_send W', wi_canceled := wi_canceled W'\<rparr>" using assms unfolding alike_def by blast
  then show "wi_envelope W' = wi_envelope W" "wi_exec W' = wi_exec W" "wi_int W' = wi_int W" "wi_task W' = wi_task W"
    "wi_string W' = wi_string W"
    by (metis wire.select_convs wire.surjective wire.update_convs)+
qed

text \<open>The same client with another token.\<close>

abbreviation other_token :: "string \<Rightarrow> pve_client \<Rightarrow> pve_client" where
  "other_token a C \<equiv> C\<lparr>pcAuthHeader := a\<rparr>"

lemma response_alike:
  assumes "alike W W'"
  shows "response_result W' m path dec z r = response_result W m path dec z r"
  unfolding response_result_def alike_decoders [OF assms] ..

lemma request_fails_alike:
  "(\<exists>e. request_of C m path ps = Inl e \<and> request_of (other_token a C) m path ps' = Inl e)
   \<or> (\<exists>rq rq'. request_of C m path ps = Inr rq \<and> request_of (other_token a C) m path ps' = Inr rq')"
  by (cases "unescape (TrimSuffix (pcBasePath C) ''/'' @ path)")
    (auto simp: request_of_def requestURL_def Let_def)

lemma do_request_alike:
  assumes "alike W W'" and "length h = length h'"
  shows "fst (do_request W C m path ps dec z h) = fst (do_request W' (other_token a C) m path ps' dec z h')
    \<and> length (snd (do_request W C m path ps dec z h)) = length (snd (do_request W' (other_token a C) m path ps' dec z h'))"
  using request_fails_alike [of C m path ps a ps']
proof (elim disjE exE conjE)
  fix rq rq'
  assume rq: "request_of C m path ps = Inr rq" "request_of (other_token a C) m path ps' = Inr rq'"
  have "same_answer (wi_send W (rq # h)) (wi_send W' (rq' # h'))" using assms by (simp add: alike_def)
  then show ?thesis
    using rq assms(2)
    by (auto simp: do_request_def same_answer_def Let_def response_alike [OF assms(1)] split: sum.splits)
qed (simp add: do_request_def assms(2))

lemma failing_alike:
  assumes "fst (f h) = fst (g h')" and "length (snd (f h)) = length (snd (g h'))"
  shows "fst (failing_with m f h) = fst (failing_with m g h')
    \<and> length (snd (failing_with m f h)) = length (snd (failing_with m g h'))"
  using assms by (auto simp: failing_with_def split: prod.splits sum.splits)

lemma look_alike:
  assumes "alike W W'" and "length h = length h'"
  shows "length (before_look (do_request W C m path ps dec z) h i)
      = length (before_look (do_request W' (other_token a C) m path ps' dec z) h' i)"
    and "looked (do_request W C m path ps dec z) h i = looked (do_request W' (other_token a C) m path ps' dec z) h' i"
proof -
  show len: "length (before_look (do_request W C m path ps dec z) h i)
      = length (before_look (do_request W' (other_token a C) m path ps' dec z) h' i)" for i
  proof (induction i)
    case (Suc i)
    then show ?case
      using do_request_alike [OF assms(1) Suc, of C m path ps dec z a ps'] by (simp add: before_look_def)
  qed (simp add: before_look_def assms(2))
  then show "looked (do_request W C m path ps dec z) h i = looked (do_request W' (other_token a C) m path ps' dec z) h' i"
    using do_request_alike [OF assms(1) len [of i], of C m path ps dec z a ps'] by (simp add: looked_def)
qed

lemma canceled_alike: "alike W W' \<Longrightarrow> length h = length h' \<Longrightarrow> wi_canceled W h = wi_canceled W' h'"
  by (simp add: alike_def)

lemma AgentExec_alike:
  assumes "alike W W'" and "length s \<le> MaxAgentStdinBytes" and "length s' \<le> MaxAgentStdinBytes"
  shows "cl_AgentExec W C fuel vid cmd (Some s) h = cl_AgentExec W' (other_token a C) fuel vid cmd (Some s') h"
proof (cases cmd)
  case (Cons name args)
  let ?run = "\<lambda>W C s. do_request W C POST (vmPath C vid [''agent'', ''exec'']) (setParam ''input-data'' s [(''command'', cmd)]) (wi_int W) 0 h"
  have path: "vmPath (other_token a C) vid segs = vmPath C vid segs" for segs by (simp add: vmPath_def nodePath_def)
  have first: "fst (?run W C s) = fst (?run W' (other_token a C) s')"
    and len: "length (snd (?run W C s)) = length (snd (?run W' (other_token a C) s'))"
    using do_request_alike [OF assms(1), of h h C POST _ _ "wi_int W" 0 a] by (simp_all add: path alike_decoders [OF assms(1)])
  obtain r h1 h1' where r: "?run W C s = (r, h1)" "?run W' (other_token a C) s' = (r, h1')" "length h1 = length h1'"
    using first len by (metis prod.collapse)
  have same: "exec_look W' (other_token a C) vid pid = do_request W' (other_token a C) GET
      (vmPath C vid [''agent'', ''exec-status'']) [(''pid'', [Itoa pid])] (wi_exec W) zero_exec_status" for pid
    by (simp add: exec_look_def path alike_decoders [OF assms(1)])
  have "looked (exec_look W C vid pid) h1 i = looked (exec_look W' (other_token a C) vid pid) h1' i"
    and "wi_canceled W (before_look (exec_look W C vid pid) h1 i)
      = wi_canceled W' (before_look (exec_look W' (other_token a C) vid pid) h1' i)" for pid i
    unfolding same unfolding exec_look_def
    by (rule look_alike(2) [OF assms(1) r(3)], rule canceled_alike [OF assms(1)], rule look_alike(1) [OF assms(1) r(3)])
  note looks = this
  show ?thesis
    using assms(2,3) r by (simp add: cl_AgentExec_def Cons Let_def looks split: sum.splits option.splits prod.splits)
qed (simp add: cl_AgentExec_def)

text \<open>
  C19. Secrets never reach an error. Writing a file in a VM, and running a command there, return the same whatever
  the file holds, the command reads from its input and the client's token is, when the server and the
  transport answer alike. A transport that quotes the request's URL in its errors still answers alike.
\<close>
theorem secrets_stay_out_of_errors:
  assumes "alike W W'" and "length s \<le> MaxAgentStdinBytes" and "length s' \<le> MaxAgentStdinBytes"
  shows "fst (cl_AgentWriteFile W C vid path s h) = fst (cl_AgentWriteFile W' (C\<lparr>pcAuthHeader := a\<rparr>) vid path s' h)
    \<and> cl_AgentExec W C fuel vid cmd (Some s) h = cl_AgentExec W' (C\<lparr>pcAuthHeader := a\<rparr>) fuel vid cmd (Some s') h"
proof
  have path: "vmPath (other_token a C) vid segs = vmPath C vid segs" for segs by (simp add: vmPath_def nodePath_def)
  show "fst (cl_AgentWriteFile W C vid path s h) = fst (cl_AgentWriteFile W' (C\<lparr>pcAuthHeader := a\<rparr>) vid path s' h)"
    unfolding cl_AgentWriteFile_def send_only_def path
    by (rule failing_alike [OF do_request_alike [OF assms(1) refl, THEN conjunct1]
          do_request_alike [OF assms(1) refl, THEN conjunct2], THEN conjunct1])
  show "cl_AgentExec W C fuel vid cmd (Some s) h = cl_AgentExec W' (C\<lparr>pcAuthHeader := a\<rparr>) fuel vid cmd (Some s') h"
    by (rule AgentExec_alike [OF assms])
qed

definition example_client :: pve_client where
  "example_client =
     \<lparr>pcBase = \<lparr>Scheme = ''https'', User = None, Host = ''pve:8006'', UrlPath = ''/api2/json'', ForceQuery = False,
        RawQuery = [], Fragment = []\<rparr>,
      pcBasePath = ''/api2/json'', pcAuthHeader = ''PVEAPIToken=par@pve!controller=secret'', pcNode = ''pve'',
      pcTrust = SystemRoots, pcServerName = [], pcTimeout = Minute, pcPollInterval = Second,
      pcMaxPollInterval = Second, pcUserAgent = ''parcon''\<rparr>"

text \<open>A network that loses every request, and says which.\<close>

definition example_wire :: "string \<Rightarrow> wire" where
  "example_wire said =
     \<lparr>wi_send = (\<lambda>_. Inl (URLError said DeadlineExceeded)), wi_canceled = (\<lambda>_. False),
      wi_envelope = (\<lambda>_. (\<lparr>evData = [], evMessage = [], evErrors = []\<rparr>, None)), wi_string = Inr, wi_int = (\<lambda>_. Inr 0),
      wi_resources = (\<lambda>_. Inr []), wi_task = (\<lambda>_. Inl Canceled), wi_exec = (\<lambda>_. Inl Canceled),
      wi_vm = (\<lambda>_. Inl Canceled), wi_version = (\<lambda>_. Inl Canceled), wi_storage = (\<lambda>_. Inl Canceled),
      wi_permissions = (\<lambda>_. Inl Canceled)\<rparr>"

theorem secrets_stay_out_of_errors_witness:
  "alike (example_wire ''https://pve?a'') (example_wire ''https://pve?b'')
   \<and> fst (cl_AgentWriteFile (example_wire ''https://pve?a'') example_client 100 ''/run/jit'' ''one'' [])
     = fst (cl_AgentWriteFile (example_wire ''https://pve?b'') (example_client\<lparr>pcAuthHeader := ''other''\<rparr>) 100 ''/run/jit'' ''two'' [])"
proof
  show a: "alike (example_wire ''https://pve?a'') (example_wire ''https://pve?b'')"
    by (simp add: alike_def example_wire_def same_answer_def redactURLError_def)
  show "fst (cl_AgentWriteFile (example_wire ''https://pve?a'') example_client 100 ''/run/jit'' ''one'' [])
     = fst (cl_AgentWriteFile (example_wire ''https://pve?b'') (example_client\<lparr>pcAuthHeader := ''other''\<rparr>) 100 ''/run/jit'' ''two'' [])"
    using secrets_stay_out_of_errors [OF a, of "''one''" "''two''"] by (simp add: MaxAgentStdinBytes_def)
qed

section \<open>Names stay path segments\<close>

text \<open>
  C36. A request for names on the node never leaves the API's path for it: for a client that \<^verbatim>\<open>New\<close> made, whatever
  bytes the node's name and the other names hold, the request's URL is the base URL's path followed by the
  path of the names, then at most a query and a fragment, and the server reads each name back as one whole segment.
\<close>
theorem names_stay_segments:
  assumes "pve_New sh has_certs opts = Inr C" and "segs \<noteq> []"
  shows "\<exists>rq rest. request_of C m (nodePath C segs) ps = Inr rq
    \<and> rqURL rq = url_String ((pcBase C)\<lparr>UrlPath := TrimSuffix (pcBasePath C) ''/'', ForceQuery := False,
        RawQuery := [], Fragment := []\<rparr>) @ nodePath C segs @ rest
    \<and> (rest = [] \<or> hd rest \<in> set ''?#'')
    \<and> map unescape (Split (CHR ''/'') (nodePath C segs)) = map Some ([[], ''nodes'', pcNode C] @ segs)"
proof -
  obtain rq query where "request_of C m (nodePath C segs) ps = Inr rq" and
    url: "rqURL rq = url_String ((pcBase C)\<lparr>UrlPath := TrimSuffix (pcBasePath C) ''/'' @ nodePath C segs, RawQuery := query\<rparr>)"
    using requestURL_ok [OF assms] by (auto simp: request_of_def Let_def)
  moreover have "map unescape (Split (CHR ''/'') (nodePath C segs)) = map Some ([[], ''nodes'', pcNode C] @ segs)"
    using node_path_segments [OF assms(2)] path_segment.round_trip by (simp add: comp_def)
  moreover have "\<exists>rest. rqURL rq = url_String ((pcBase C)\<lparr>UrlPath := TrimSuffix (pcBasePath C) ''/'', ForceQuery := False,
        RawQuery := [], Fragment := []\<rparr>) @ nodePath C segs @ rest \<and> (rest = [] \<or> hd rest \<in> set ''?#'')"
    unfolding url by (auto simp: url_String_def)
  ultimately show ?thesis by blast
qed

definition example_pve_options :: pve_options where
  "example_pve_options =
     \<lparr>poURL = ''https://pve:8006/api2/json'', poTokenID = ''par@pve!controller'', poTokenSecret = ''s'',
      poTLSFingerprint = [], poCACertPEM = [], poServerName = [], poNode = ''a/b'', poRequestTimeout = 0,
      poPollInterval = 0, poMaxPollInterval = 0, poUserAgent = []\<rparr>"

theorem names_stay_segments_witness:
  "\<exists>C. pve_New (\<lambda>_. None) (\<lambda>_. False) example_pve_options = Inr C
     \<and> map unescape (Split (CHR ''/'') (nodePath C [''storage'', ''x/../y''])) = map Some [[], ''nodes'', ''a/b'', ''storage'', ''x/../y'']"
proof -
  obtain C where C: "pve_New (\<lambda>_. None) (\<lambda>_. False) example_pve_options = Inr C" and "pcNode C = ''a/b''"
    by (simp add: pve_New_def example_pve_options_def go_eval trust_of_def Let_def)
  then show ?thesis using names_stay_segments [OF C, of "[''storage'', ''x/../y'']"] by auto
qed

section \<open>Refusals\<close>

text \<open>
  The client tells a refused request apart: when neither transport nor decoders bring API errors of their own, a
  request fails with an error that counts as forbidden exactly when the server answered with status 403.
\<close>
theorem forbidden_means_403:
  assumes "\<And>h e. wi_send W h = Inl e \<Longrightarrow> as_api (redactURLError e) = None"
    and "\<And>h r e. wi_send W h = Inr r \<Longrightarrow> rsBodyError r = Some e \<Longrightarrow> as_api e = None"
    and "\<And>t e. snd (wi_envelope W t) = Some e \<Longrightarrow> as_api e = None"
    and "\<And>t e. decode t = Inl e \<Longrightarrow> as_api e = None"
  shows "(\<exists>e. fst (do_request W C m path ps decode zero h) = Inl e \<and> IsForbidden e) \<longleftrightarrow>
    (\<exists>rq r body. request_of C m path ps = Inr rq \<and> wi_send W (rq # h) = Inr r \<and> read_body r = Inr body
       \<and> rsStatusCode r = 403)"
proof -
  have plain: "\<not> IsForbidden e" if "as_api e = None" for e using that by (simp add: IsForbidden_def)
  have url: "as_api e = None" if "request_of C m path ps = Inl e" for e
    using that by (auto simp: request_of_def requestURL_def Let_def split: sum.splits option.splits)
  have body: "as_api e = None" if "wi_send W h' = Inr r" "read_body r = Inl e" for h' r e
    using that assms(2) by (auto simp: read_body_def split: option.splits if_splits)
  have api: "IsForbidden (APIError a) \<longleftrightarrow> StatusCode a = 403" for a by (simp add: IsForbidden_def)
  show ?thesis
  proof (cases "request_of C m path ps")
    case (Inl e)
    then show ?thesis using plain [OF url] by (simp add: do_request_def)
  next
    case (Inr rq)
    show ?thesis
    proof (cases "wi_send W (rq # h)")
      case (Inl e)
      then show ?thesis using Inr plain [OF assms(1) [OF Inl]] by (simp add: do_request_def Let_def)
    next
      case send: (Inr r)
      show ?thesis
      proof (cases "read_body r")
        case (Inl e)
        then show ?thesis using Inr send plain [OF body [OF send Inl]] by (simp add: do_request_def response_result_def Let_def)
      next
        case (Inr t)
        obtain ev err where env: "wi_envelope W t = (ev, err)" by (cases "wi_envelope W t")
        have "\<not> IsForbidden (wrap x e)" if "err = Some e" for x e using plain assms(3) [of t e] env that by simp
        moreover have "\<not> IsForbidden (wrap x e)" if "decode d = Inl e" for x d e using plain assms(4) [OF that] by simp
        ultimately show ?thesis
          using \<open>request_of C m path ps = Inr rq\<close> send Inr env api
          by (auto simp: do_request_def response_result_def api_error_of_def Let_def split: option.splits sum.splits)
      qed
    qed
  qed
qed

definition example_refusal :: wire where
  "example_refusal =
     (example_wire [])\<lparr>wi_send := (\<lambda>_. Inr \<lparr>rsStatusCode = 403, rsStatus = ''403 Forbidden'', rsBody = [], rsBodyError = None\<rparr>)\<rparr>"

theorem forbidden_means_403_witness:
  "\<exists>e. fst (do_request example_refusal example_client GET ''/version'' [] (\<lambda>_. Inr ()) () []) = Inl e \<and> IsForbidden e"
proof -
  obtain rq where "request_of example_client GET ''/version'' [] = Inr rq"
    by (simp add: request_of_def requestURL_def example_client_def TrimSuffix_def Let_def)
  moreover have "read_body \<lparr>rsStatusCode = 403, rsStatus = ''403 Forbidden'', rsBody = [], rsBodyError = None\<rparr> = Inr []"
    by (simp add: read_body_def)
  ultimately show ?thesis
    by (subst forbidden_means_403) (auto simp: example_refusal_def example_wire_def)
qed

section \<open>Operations that start a task\<close>

text \<open>Proxmox said that a task stopped, and how.\<close>

definition task_succeeded :: "task_status \<Rightarrow> bool" where
  "task_succeeded st \<longleftrightarrow> tsStatus st = ''stopped'' \<and> (tsExitStatus st = ''OK'' \<or> HasPrefix (tsExitStatus st) ''WARNINGS'')"

definition task_running :: "task_status \<Rightarrow> bool" where
  "task_running st \<longleftrightarrow> tsStatus st \<noteq> ''stopped''"

lemma task_check_done: "task_check upid r = (done, None) \<Longrightarrow> (if done then \<exists>st. r = Inr st \<and> task_succeeded st else \<exists>st. r = Inr st \<and> task_running st)"
  by (auto simp: task_check_def task_succeeded_def task_running_def split: sum.splits if_splits)

lemma poll_success:
  assumes "poll fuel check canceled mx iv i = Some (None, sleeps)"
  shows "fst (check (i + length sleeps)) \<and> snd (check (i + length sleeps)) = None
    \<and> (\<forall>j<length sleeps. check (i + j) = (False, None) \<and> \<not> canceled (i + j))"
  using assms
proof (induction fuel check canceled mx iv i arbitrary: sleeps rule: poll.induct)
  case (2 fuel check canceled mx iv i)
  obtain b e where c: "check i = (b, e)" by (cases "check i")
  show ?case
  proof (cases "b \<or> e \<noteq> None \<or> canceled i")
    case True
    then show ?thesis using 2(2) c by (auto split: if_splits)
  next
    case False
    then obtain rest where rest: "poll fuel check canceled mx (min (iv * 2) mx) (Suc i) = Some (None, rest)" "sleeps = iv # rest"
      using 2(2) c by auto
    have IH: "fst (check (Suc i + length rest)) \<and> snd (check (Suc i + length rest)) = None
        \<and> (\<forall>j<length rest. check (Suc i + j) = (False, None) \<and> \<not> canceled (Suc i + j))"
      using 2(1) [OF c [symmetric] _ _ rest(1)] False by auto
    have "check (i + j) = (False, None) \<and> \<not> canceled (i + j)" if "j < Suc (length rest)" for j
      using that IH c False by (cases j) auto
    then show ?thesis using IH rest(2) by simp
  qed
qed simp

text \<open>What a finished operation has seen of its task: its ID, unless there was none, and the looks at it.\<close>

definition task_done :: "wire \<Rightarrow> pve_client \<Rightarrow> string sends \<Rightarrow> request list \<Rightarrow> nat \<Rightarrow> bool" where
  "task_done W C start h n \<longleftrightarrow>
     (\<exists>upid h1. start h = (Inr upid, h1)
        \<and> (upid \<noteq> [] \<longrightarrow>
             (\<exists>st. looked (task_look W C upid) h1 n = Inr st \<and> task_succeeded st)
             \<and> (\<forall>j<n. \<exists>st. looked (task_look W C upid) h1 j = Inr st \<and> task_running st)))"

lemma run_task_done:
  assumes "run_task W C fuel start h = Some (None, sleeps)"
  shows "task_done W C start h (length sleeps)"
proof -
  obtain r h1 where r: "start h = (r, h1)" by (cases "start h")
  with assms obtain upid where upid: "r = Inr upid"
    by (cases r) (auto simp: run_task_def runTask_def Let_def)
  show ?thesis
  proof (cases "upid = []")
    case False
    let ?look = "looked (task_look W C upid) h1"
    have "poll fuel (\<lambda>i. task_check upid (?look i)) (\<lambda>i. wi_canceled W (before_look (task_look W C upid) h1 (Suc i)))
        (pcMaxPollInterval C) (pcPollInterval C) 0 = Some (None, sleeps)"
      using assms r upid False by (simp add: run_task_def runTask_def WaitTask_def Let_def)
    from poll_success [OF this] have looks: "fst (task_check upid (?look (length sleeps)))"
      "snd (task_check upid (?look (length sleeps))) = None" "\<forall>j<length sleeps. task_check upid (?look j) = (False, None)"
      by simp_all
    have "\<exists>st. ?look (length sleeps) = Inr st \<and> task_succeeded st"
      using task_check_done [of upid "?look (length sleeps)" True] looks(1,2) by (metis (full_types) prod.collapse)
    moreover have "\<forall>j<length sleeps. \<exists>st. ?look j = Inr st \<and> task_running st"
      using task_check_done [of upid _ False] looks(3) by auto
    ultimately show ?thesis using r upid unfolding task_done_def by blast
  qed (use r upid in \<open>auto simp: task_done_def\<close>)
qed

lemma task_failing_None: "task_failing m x = Some (None, sleeps) \<longleftrightarrow> x = Some (None, sleeps)"
  by (auto simp: task_failing_def)

text \<open>
  C23. An operation that starts a task reports success only when Proxmox did: cloning, growing a disk, starting,
  stopping and destroying a VM return without an error only if the request was accepted and, unless it finished
  at once, a look at its task saw it stopped with OK or with warnings, after looks that all saw it running.
\<close>
theorem tasks_succeed_when_done:
  "(cl_Clone W C fuel opts h = Some (None, sleeps) \<longrightarrow>
      task_done W C (do_request W C POST (vmPath C (SourceVMID opts) [''clone'']) (clone_params opts) (wi_string W) []) h (length sleeps))
   \<and> (cl_GrowDisk W C fuel vid disk n h = Some (None, sleeps) \<longrightarrow>
      task_done W C (do_request W C PUT (vmPath C vid [''resize''])
        [(''disk'', [disk]), (''size'', [''+'' @ Itoa n @ ''G''])] (wi_string W) []) h (length sleeps))
   \<and> (cl_Start W C fuel vid h = Some (None, sleeps) \<longrightarrow>
      task_done W C (do_request W C POST (vmPath C vid [''status'', ''start'']) [] (wi_string W) []) h (length sleeps))
   \<and> (cl_Stop W C fuel vid h = Some (None, sleeps) \<longrightarrow>
      task_done W C (do_request W C POST (vmPath C vid [''status'', ''stop'']) [] (wi_string W) []) h (length sleeps))
   \<and> (cl_Destroy W C fuel vid h = Some (None, sleeps) \<longrightarrow>
      task_done W C (do_request W C DELETE (vmPath C vid [])
        [(''purge'', [''1'']), (''destroy-unreferenced-disks'', [''1''])] (wi_string W) []) h (length sleeps))"
  unfolding cl_Clone_def cl_GrowDisk_def cl_Start_def cl_Stop_def cl_Destroy_def vmTask_def task_failing_None
  by (intro conjI impI run_task_done)

definition example_success :: wire where
  "example_success =
     (example_wire [])\<lparr>wi_send := (\<lambda>_. Inr \<lparr>rsStatusCode = 200, rsStatus = ''200 OK'', rsBody = ''data'', rsBodyError = None\<rparr>),
        wi_envelope := (\<lambda>d. (\<lparr>evData = d, evMessage = [], evErrors = []\<rparr>, None)), wi_string := (\<lambda>_. Inr ''UPID:pve''),
        wi_task := (\<lambda>_. Inr \<lparr>tsStatus = ''stopped'', tsExitStatus = ''OK'', tsType = ''qmstart''\<rparr>)\<rparr>"

lemma example_answers:
  assumes "dec ''data'' = Inr x"
  shows "fst (do_request example_success example_client m (nodePath example_client segs) ps dec z h) = Inr x"
proof -
  have "unescape (''/api2/json'' @ nodePath example_client segs) \<noteq> None"
  proof -
    have "unescape (PathEscape x @ t) \<noteq> None" if "unescape t \<noteq> None" for x t
      using unescape_append [OF path_segment.round_trip, of x t] that by auto
    then have "unescape (Join (map PathEscape xs) ''/'') \<noteq> None" for xs
      by (induction xs "''/''" rule: Join.induct) (auto simp: path_segment.round_trip)
    then show ?thesis
      using unescape_append [OF path_segment.round_trip, of "pcNode example_client" "''/'' @ joinSegments segs"]
      by (auto simp: nodePath_def joinSegments_def)
  qed
  then obtain rq where "request_of example_client m (nodePath example_client segs) ps = Inr rq"
    by (auto simp: request_of_def requestURL_def TrimSuffix_def example_client_def Let_def split: option.splits)
  then show ?thesis
    using assms
    by (simp add: do_request_def response_result_def read_body_def example_success_def maxResponseBytes_def Let_def)
qed

theorem tasks_succeed_when_done_witness:
  "cl_Start example_success example_client 1 100 [] = Some (None, [])
   \<and> task_done example_success example_client
        (do_request example_success example_client POST (vmPath example_client 100 [''status'', ''start'']) []
           (wi_string example_success) []) [] 0"
proof -
  let ?start = "do_request example_success example_client POST (vmPath example_client 100 [''status'', ''start'']) []
      (wi_string example_success) []"
  have "fst (?start []) = Inr ''UPID:pve''"
    unfolding vmPath_def by (rule example_answers) (simp add: example_success_def)
  then obtain h1 where h1: "?start [] = (Inr ''UPID:pve'', h1)" by (metis prod.collapse)
  have stopped: "wi_task example_success ''data'' = Inr \<lparr>tsStatus = ''stopped'', tsExitStatus = ''OK'', tsType = ''qmstart''\<rparr>"
    by (simp add: example_success_def)
  have "task_check u (looked (task_look example_success example_client u) h1 0) = (True, None)" for u
    using example_answers [of "wi_task example_success", OF stopped]
    by (simp add: looked_def before_look_def task_look_def task_check_def)
  then have "cl_Start example_success example_client 1 100 [] = Some (None, [])"
    using h1 by (simp add: cl_Start_def vmTask_def run_task_def runTask_def WaitTask_def task_failing_def Let_def)
  then show ?thesis
    using tasks_succeed_when_done [of example_success example_client 1 _ "[]" "[]" 100] by simp
qed

end
