(* ===== verification/Pve_TLS.thy ===== *)
theory Pve_TLS
  imports Pve_Client_Facts Hostsys
begin

text \<open>
  How the controller comes to trust the node's certificate (\<^verbatim>\<open>internal/hostsys/tls.go\<close>): the installer looks at
  the certificate that the API serves and writes what to check into the configuration, and the Proxmox client
  checks it. PEM, X.509 parsing and verification, and SHA-256 are parameters (\<open>tls_env\<close>).
\<close>

section \<open>The certificate the node serves (tls.go)\<close>

record cert =
  ceRaw :: string
  ceDNSNames :: "string list"

record tls_env =
  te_stat :: "string \<Rightarrow> error option"
  te_read :: "string \<Rightarrow> error + string"
  te_blocks :: "string \<Rightarrow> (string \<times> string) list"
  te_parse :: "string \<Rightarrow> error + cert"
  te_roots :: "error option"
  te_verify :: "cert \<Rightarrow> cert list \<Rightarrow> bool"
  te_sha256 :: "string \<Rightarrow> string"

fun parse_certs :: "(string \<Rightarrow> error + cert) \<Rightarrow> string \<Rightarrow> (string \<times> string) list \<Rightarrow> error + cert list" where
  "parse_certs parse path [] = Inr []"
| "parse_certs parse path ((type, bytes) # bs) =
     (if type \<noteq> ''CERTIFICATE'' then parse_certs parse path bs
      else (case parse bytes of
              Inl e \<Rightarrow> Inl (wrap (''parse '' @ path) e)
            | Inr c \<Rightarrow> (case parse_certs parse path bs of Inl e \<Rightarrow> Inl e | Inr cs \<Rightarrow> Inr (c # cs))))"

definition readCerts :: "tls_env \<Rightarrow> string \<Rightarrow> error + cert list" where
  "readCerts T path =
     (case te_read T path of
        Inl e \<Rightarrow> Inl (wrap ''read the API's certificate'' e)
      | Inr data \<Rightarrow>
          (case parse_certs (te_parse T) path (te_blocks T data) of
             Inl e \<Rightarrow> Inl e
           | Inr [] \<Rightarrow> Inl (ErrorMsg (path @ '' holds no certificate''))
           | Inr (c # cs) \<Rightarrow> Inr (c # cs)))"

text \<open>\<^verbatim>\<open>AA:BB:...\<close>, two upper-case hexadecimal digits for a byte.\<close>

definition hex_pair :: "char \<Rightarrow> string" where
  "hex_pair c = [upper_hex (of_char c div 16), upper_hex (of_char c mod 16)]"

definition fingerprint_text :: "string \<Rightarrow> string" where
  "fingerprint_text b = Join (map hex_pair b) '':''"

definition server_name :: "string list \<Rightarrow> string" where
  "server_name names = (case filter (\<lambda>n. n \<noteq> ''localhost'') names of [] \<Rightarrow> [] | n # ns \<Rightarrow> n)"

text \<open>What to check, and the node's CA certificate for \<open>TLSNodeCA\<close>.\<close>

definition hostsys_TLS :: "tls_env \<Rightarrow> string \<Rightarrow> error + tls_info \<times> string" where
  "hostsys_TLS T dir =
     (let custom = dir @ ''/local/pveproxy-ssl.pem'';
          own = (case te_stat T custom of Some e \<Rightarrow> errors_Is e ErrNotExist | None \<Rightarrow> False);
          path = (if own then dir @ ''/local/pve-ssl.pem'' else custom) in
      case readCerts T path of
        Inl e \<Rightarrow> Inl e
      | Inr [] \<Rightarrow> Inl (ErrorMsg (path @ '' holds no certificate''))
      | Inr (leaf # rest) \<Rightarrow>
          if own then
            (case te_read T (dir @ ''/pve-root-ca.pem'') of
               Inl e \<Rightarrow> Inl (wrap ''read the node's CA'' e)
             | Inr ca \<Rightarrow> Inr (\<lparr>tiMode = TLSNodeCA, tiServerName = server_name (ceDNSNames leaf), tiFingerprint = []\<rparr>, ca))
          else (case te_roots T of
                  Some e \<Rightarrow> Inl (wrap ''load the system CAs'' e)
                | None \<Rightarrow>
                    if te_verify T leaf rest
                    then Inr (\<lparr>tiMode = TLSSystem, tiServerName = server_name (ceDNSNames leaf), tiFingerprint = []\<rparr>, [])
                    else Inr (\<lparr>tiMode = TLSPin, tiServerName = [], tiFingerprint = fingerprint_text (te_sha256 T (ceRaw leaf))\<rparr>, [])))"

section \<open>A pinned certificate\<close>

lemma hex_pair_decode: "hex_decode (hex_pair c @ s) = map_option (\<lambda>t. c # t) (hex_decode s)"
  by (cases "hex_decode s") (simp_all add: hex_pair_def hex_digits_of)

lemma no_colon: "CHR '':'' \<notin> set (hex_pair c)"
proof -
  have "CHR '':'' \<notin> set ''0123456789ABCDEF''" by simp
  then show ?thesis
    using upper_hex_digit [OF nibbles(1), of c] upper_hex_digit [OF nibbles(2), of c] unfolding hex_pair_def
    by (metis empty_iff list.set(1) set_ConsD)
qed

lemma filter_colons: "filter (\<lambda>c. c \<noteq> CHR '':'') (fingerprint_text b) = concat (map hex_pair b)"
proof -
  have kept: "filter (\<lambda>c. c \<noteq> CHR '':'') (hex_pair c) = hex_pair c" for c
    using no_colon [of c] by (auto simp: filter_id_conv)
  have "filter (\<lambda>c. c \<noteq> CHR '':'') (Join ws '':'') = concat (map (filter (\<lambda>c. c \<noteq> CHR '':'')) ws)" for ws
    by (induction ws "'':''" rule: Join.induct) simp_all
  then show ?thesis by (simp add: fingerprint_text_def kept comp_def)
qed

lemma hex_decode_pairs: "hex_decode (concat (map hex_pair b)) = Some b"
  by (induction b) (simp_all add: hex_pair_decode)

lemma parse_fingerprint_text: "length b = 32 \<Longrightarrow> parseFingerprint (fingerprint_text b) = Inr b"
  by (simp add: parseFingerprint_def filter_colons hex_decode_pairs)

lemma fingerprint_text_nonempty: "b \<noteq> [] \<Longrightarrow> fingerprint_text b \<noteq> []"
  by (cases b rule: list.exhaust; cases "tl b") (auto simp: fingerprint_text_def hex_pair_def)

text \<open>
  C37. The fingerprint the installer reads off the node pins exactly that certificate. When the node serves a
  certificate that the system's CAs don't trust, the installer decides to pin it, and a client made with that
  fingerprint takes a connection exactly when the certificate the server shows has the same SHA-256 sum, so it
  takes the node's own; no chain is verified then.
\<close>
theorem pin_accepts_own_certificate:
  assumes "hostsys_TLS T dir = Inr (info, ca)" and "tiMode info = TLSPin" and "\<And>x. length (te_sha256 T x) = 32"
    and "pve_New sh has_certs opts = Inr C" and "poTLSFingerprint opts = tiFingerprint info"
  shows "\<exists>leaf rest. readCerts T (dir @ ''/local/pveproxy-ssl.pem'') = Inr (leaf # rest) \<and> \<not> te_verify T leaf rest
    \<and> (\<forall>shown. certificate_error (te_sha256 T) chain_ok C shown = None \<longleftrightarrow>
          shown \<noteq> [] \<and> te_sha256 T (hd shown) = te_sha256 T (ceRaw leaf))"
proof -
  obtain leaf rest where leaf: "readCerts T (dir @ ''/local/pveproxy-ssl.pem'') = Inr (leaf # rest)" "\<not> te_verify T leaf rest"
    "tiFingerprint info = fingerprint_text (te_sha256 T (ceRaw leaf))"
    using assms(1,2) by (auto simp: hostsys_TLS_def Let_def split: sum.splits list.splits if_splits option.splits)
  let ?sum = "te_sha256 T (ceRaw leaf)"
  have "?sum \<noteq> []" using assms(3) [of "ceRaw leaf"] by auto
  then have "poTLSFingerprint opts \<noteq> []" using fingerprint_text_nonempty leaf(3) assms(5) by simp
  then have "trust_of has_certs opts = Inr (Pinned ?sum)"
    using assms(3,5) leaf(3) by (simp add: trust_of_def parse_fingerprint_text)
  then have "pcTrust C = Pinned ?sum"
    using assms(4) by (auto simp: pve_New_def Let_def split: option.splits if_splits)
  then have "certificate_error (te_sha256 T) chain_ok C shown = None \<longleftrightarrow>
      shown \<noteq> [] \<and> te_sha256 T (hd shown) = ?sum" for shown
    by (cases shown) (simp_all add: certificate_error_def)
  with leaf show ?thesis by blast
qed

definition example_tls :: tls_env where
  "example_tls =
     \<lparr>te_stat = (\<lambda>_. None), te_read = (\<lambda>_. Inr ''pem''), te_blocks = (\<lambda>_. [(''CERTIFICATE'', ''der'')]),
      te_parse = (\<lambda>b. Inr \<lparr>ceRaw = b, ceDNSNames = [''pve.example'']\<rparr>), te_roots = None, te_verify = (\<lambda>_ _. False),
      te_sha256 = (\<lambda>x. replicate 32 (CHR 0xAB))\<rparr>"

theorem pin_accepts_own_certificate_witness:
  "\<exists>info C. hostsys_TLS example_tls ''/etc/pve'' = Inr (info, []) \<and> tiMode info = TLSPin
     \<and> pve_New (\<lambda>_. None) (\<lambda>_. False) (example_pve_options\<lparr>poTLSFingerprint := tiFingerprint info\<rparr>) = Inr C
     \<and> certificate_error (te_sha256 example_tls) (\<lambda>_ _. None) C [''der''] = None"
proof -
  define info where "info = \<lparr>tiMode = TLSPin, tiServerName = [], tiFingerprint = fingerprint_text (replicate 32 (CHR 0xAB))\<rparr>"
  have info: "hostsys_TLS example_tls ''/etc/pve'' = Inr (info, [])" "tiMode info = TLSPin"
    by (simp_all add: hostsys_TLS_def example_tls_def readCerts_def info_def)
  have "parseFingerprint (tiFingerprint info) = Inr (replicate 32 (CHR 0xAB))"
    unfolding info_def tls_info.select_convs by (rule parse_fingerprint_text) simp
  then obtain C where C: "pve_New (\<lambda>_. None) (\<lambda>_. False) (example_pve_options\<lparr>poTLSFingerprint := tiFingerprint info\<rparr>) = Inr C"
    by (cases "tiFingerprint info = []")
      (simp_all add: pve_New_def example_pve_options_def go_eval trust_of_def Let_def)
  have sums: "length (te_sha256 example_tls x) = 32" for x by (simp add: example_tls_def)
  show ?thesis
    using pin_accepts_own_certificate [OF info sums C, of "\<lambda>_ _. None"] info C
    by (auto simp: example_tls_def readCerts_def)
qed

end
