(* ===== verification/Github_Rest.thy ===== *)
theory Github_Rest
  imports Github Pve_Client
begin

text \<open>
  What \<^verbatim>\<open>internal/github\<close> asks of GitHub's REST API itself: the calls of \<^verbatim>\<open>rest.go\<close>, the GitHub App's creation
  and installation (\<^verbatim>\<open>app.go\<close>), and the checks of a client's options (\<^verbatim>\<open>client.go\<close>). \<open>rest_env\<close> holds what is
  outside: the server's answers, functions of the requests so far, newest first; \<^verbatim>\<open>encoding/json\<close> into the
  program's types; PEM, X.509 and the signing of tokens.
\<close>

section \<open>Calls (rest.go)\<close>

definition restTimeout :: duration where "restTimeout = 30 * Second"
definition defaultAPIBase :: string where "defaultAPIBase = ''https://api.github.com''"
definition systemName :: string where "systemName = ''proxmox-actions-runners''"

record rest_response =
  rrStatus :: int
  rrBody :: string

record account =
  acLogin :: string
  acType :: string

record app_answer =
  aaID :: int
  aaSlug :: string
  aaClientID :: string
  aaPEM :: string
  aaOwner :: account

record claims =
  clIssuer :: string
  clIssuedAt :: int
  clExpiresAt :: int

text \<open>A decoded PEM block: its type, and whether its bytes parse as the key the type names, and that key is RSA.\<close>

record pem_block =
  pbType :: string
  pbPKCS1 :: bool
  pbPKCS8 :: bool
  pbRSA :: bool

record rest_env =
  re_send :: "request list \<Rightarrow> send_error + rest_response"
  re_valid :: "string \<Rightarrow> bool"
  re_release :: "string \<Rightarrow> error + string \<times> time"
  re_releases :: "string \<Rightarrow> error + release_answer list"
  re_app :: "string \<Rightarrow> error + app_answer"
  re_installations :: "string \<Rightarrow> error + (int \<times> account) list"
  re_token :: "string \<Rightarrow> error + string"
  re_repositories :: "string \<Rightarrow> error + string list"
  re_pem :: "string \<Rightarrow> pem_block option"
  re_rsa_key :: "string \<Rightarrow> bool"
  re_sign :: "string \<Rightarrow> claims \<Rightarrow> error + string"

definition rest_request :: "http_method \<Rightarrow> string \<Rightarrow> string \<Rightarrow> string \<Rightarrow> request" where
  "rest_request m apiBase path token =
     \<lparr>rqMethod = m, rqURL = apiBase @ path,
      rqHeaders = [(''Accept'', ''application/vnd.github+json''), (''X-GitHub-Api-Version'', ''2022-11-28''),
         (''User-Agent'', systemName)] @ (if token \<noteq> [] then [(''Authorization'', ''Bearer '' @ token)] else []),
      rqBody = None\<rparr>"

text \<open>The largest answer that is decoded, in bytes.\<close>

definition rest_limit :: nat where "rest_limit = 1048576"

text \<open>The status, and the decoded answer, which stays \<open>zero\<close> for a status that is not a success.\<close>

definition restCall ::
  "rest_env \<Rightarrow> string \<Rightarrow> http_method \<Rightarrow> string \<Rightarrow> string \<Rightarrow> (string \<Rightarrow> error + 'a) \<Rightarrow> 'a \<Rightarrow> (int \<times> 'a) sends" where
  "restCall R apiBase m path token decode zero h =
     (if \<not> re_valid R (apiBase @ path) then (Inl (ErrorMsg ''invalid request''), h)
      else (let rq = rest_request m apiBase path token in
        case re_send R (rq # h) of
          Inl e \<Rightarrow> (Inl (redactURLError e), rq # h)
        | Inr resp \<Rightarrow>
            if quot (rrStatus resp) 100 \<noteq> 2 then (Inr (rrStatus resp, zero), rq # h)
            else (case decode (take rest_limit (rrBody resp)) of
                    Inl e \<Rightarrow> (Inl (wrap ''decode the response'' e), rq # h)
                  | Inr x \<Rightarrow> (Inr (rrStatus resp, x), rq # h))))"

definition rest_LatestRunnerRelease :: "rest_env \<Rightarrow> string \<Rightarrow> runner_release sends" where
  "rest_LatestRunnerRelease R apiBase h =
     (case restCall R apiBase GET ''/repos/actions/runner/releases/latest'' [] (re_release R) ([], 0) h of
        (Inl e, h') \<Rightarrow> (latestRunnerRelease (Inl e), h')
      | (Inr (status, tag, published), h') \<Rightarrow> (latestRunnerRelease (Inr (status, tag, published)), h'))"

definition rest_Releases :: "rest_env \<Rightarrow> string \<Rightarrow> string \<Rightarrow> published_release list sends" where
  "rest_Releases R apiBase repo h =
     (case restCall R apiBase GET (''/repos/'' @ repo @ ''/releases?per_page=50'') [] (re_releases R) [] h of
        (r, h') \<Rightarrow> (releases r, h'))"

section \<open>Clients and keys (client.go)\<close>

definition CheckPrivateKey :: "rest_env \<Rightarrow> string \<Rightarrow> error option" where
  "CheckPrivateKey R key =
     (case re_pem R (TrimSpace key) of
        None \<Rightarrow> Some (ErrorMsg ''github: App private key is not PEM-encoded'')
      | Some b \<Rightarrow>
          if pbType b = ''RSA PRIVATE KEY'' then
            (if pbPKCS1 b then None else Some (ErrorMsg ''github: App private key is not a valid RSA key''))
          else if pbType b = ''PRIVATE KEY'' then
            (if \<not> pbPKCS8 b then Some (ErrorMsg ''github: App private key is not a valid PKCS #8 key'')
             else if \<not> pbRSA b then Some (ErrorMsg ''github: App private key must be an RSA key'') else None)
          else Some (ErrorMsg (''github: App private key has PEM type '' @ pbType b @ ''; want an RSA private key'')))"

record github_options =
  goConfigURL :: string
  goClientID :: string
  goInstallationID :: int
  goPrivateKeyPEM :: string
  goVersion :: string

text \<open>The checks before \<^verbatim>\<open>actions/scaleset\<close> makes its client, which may refuse the options too (\<open>made\<close>).\<close>

definition github_New :: "rest_env \<Rightarrow> (github_options \<Rightarrow> error option) \<Rightarrow> github_options \<Rightarrow> error option" where
  "github_New R made o' =
     (if goConfigURL o' = [] then Some (ErrorMsg ''github: config URL is required'')
      else if goClientID o' = [] then Some (ErrorMsg ''github: App client ID is required'')
      else if goInstallationID o' \<le> 0 then Some (ErrorMsg ''github: App installation ID is required'')
      else (case CheckPrivateKey R (goPrivateKeyPEM o') of
              Some e \<Rightarrow> Some e
            | None \<Rightarrow> map_option (wrap ''github'') (made o')))"

section \<open>The GitHub App (app.go)\<close>

record gh_app =
  gaID :: int
  gaSlug :: string
  gaClientID :: string
  gaOwner :: string
  gaOwnerType :: string

definition zero_app :: app_answer where
  "zero_app = \<lparr>aaID = 0, aaSlug = [], aaClientID = [], aaPEM = [], aaOwner = \<lparr>acLogin = [], acType = []\<rparr>\<rparr>"

text \<open>The App and its private key, from what the call returned.\<close>

definition converted :: "(string \<Rightarrow> error option) \<Rightarrow> error + (int \<times> app_answer) \<Rightarrow> error + (gh_app \<times> string)" where
  "converted chk r =
     (case r of
        Inl e \<Rightarrow> Inl (wrap ''github: convert the App manifest code'' e)
      | Inr (status, out) \<Rightarrow>
          if status = 404 \<or> status = 422
          then Inl (ErrorMsg (''github: convert the App manifest code: '' @ Itoa status
                 @ '': the code is invalid, already used, or more than an hour old''))
          else if status \<noteq> 201 then Inl (ErrorMsg (''github: convert the App manifest code: '' @ Itoa status))
          else (case chk (aaPEM out) of
                  Some e \<Rightarrow> Inl e
                | None \<Rightarrow>
                    Inr (\<lparr>gaID = aaID out, gaSlug = aaSlug out, gaClientID = aaClientID out,
                          gaOwner = acLogin (aaOwner out), gaOwnerType = acType (aaOwner out)\<rparr>, aaPEM out)))"

definition convertManifest :: "rest_env \<Rightarrow> string \<Rightarrow> string \<Rightarrow> (gh_app \<times> string) sends" where
  "convertManifest R apiBase code h =
     (case restCall R apiBase POST (''/app-manifests/'' @ PathEscape code @ ''/conversions'') [] (re_app R) zero_app h of
        (r, h') \<Rightarrow> (converted (CheckPrivateKey R) r, h'))"

record gh_installation =
  giID :: int
  giAccount :: string
  giAccountType :: string
  giRepositories :: "string list"

definition no_installation :: gh_installation where
  "no_installation = \<lparr>giID = 0, giAccount = [], giAccountType = [], giRepositories = []\<rparr>"

text \<open>\<^verbatim>\<open>jwt.NewNumericDate\<close>: whole seconds since 1970.\<close>

definition app_claims :: "string \<Rightarrow> time \<Rightarrow> claims" where
  "app_claims clientID t =
     \<lparr>clIssuer = clientID, clIssuedAt = unix_of (t - Minute), clExpiresAt = unix_of (t + 9 * Minute)\<rparr>"

definition appJWT :: "rest_env \<Rightarrow> string \<Rightarrow> string \<Rightarrow> time \<Rightarrow> error + string" where
  "appJWT R clientID keyPEM t =
     (if \<not> re_rsa_key R keyPEM then Inl (ErrorMsg ''github: App private key is not a valid RSA key'')
      else re_sign R keyPEM (app_claims clientID t))"

definition restGet :: "rest_env \<Rightarrow> string \<Rightarrow> string \<Rightarrow> string \<Rightarrow> (string \<Rightarrow> error + 'a) \<Rightarrow> 'a \<Rightarrow> 'a sends" where
  "restGet R apiBase path token decode zero h =
     (case restCall R apiBase GET path token decode zero h of
        (Inl e, h') \<Rightarrow> (Inl e, h')
      | (Inr (status, x), h') \<Rightarrow>
          (if status \<noteq> 200 then Inl (ErrorMsg (''GET '' @ path @ '': '' @ Itoa status)) else Inr x, h'))"

definition token_path :: "int \<Rightarrow> string" where
  "token_path i = ''/app/installations/'' @ Itoa i @ ''/access_tokens''"

text \<open>The repositories an installation reaches, for which it needs a token of its own.\<close>

definition installation_repositories :: "rest_env \<Rightarrow> string \<Rightarrow> string \<Rightarrow> int \<Rightarrow> string list sends" where
  "installation_repositories R apiBase jwt i h =
     (case restCall R apiBase POST (token_path i) jwt (re_token R) [] h of
        (Inl e, h') \<Rightarrow> (Inl (wrap ''github: list the installation's repositories'' e), h')
      | (Inr (status, token), h') \<Rightarrow>
          if status \<noteq> 201
          then (Inl (ErrorMsg (''github: list the installation's repositories: POST '' @ token_path i @ '': '' @ Itoa status)), h')
          else failing_with ''github: list the installation's repositories''
                 (restGet R apiBase ''/installation/repositories?per_page=100'' token (re_repositories R) []) h')"

definition findInstallation :: "rest_env \<Rightarrow> string \<Rightarrow> string \<Rightarrow> string \<Rightarrow> time \<Rightarrow> gh_installation sends" where
  "findInstallation R apiBase clientID keyPEM t h =
     (case appJWT R clientID keyPEM t of
        Inl e \<Rightarrow> (Inl e, h)
      | Inr jwt \<Rightarrow>
          (case restGet R apiBase ''/app/installations'' jwt (re_installations R) [] h of
             (Inl e, h') \<Rightarrow> (Inl (wrap ''github: find the App's installation'' e), h')
           | (Inr [], h') \<Rightarrow> (Inr no_installation, h')
           | (Inr ((i, account) # others), h') \<Rightarrow>
               (let found = \<lparr>giID = i, giAccount = acLogin account, giAccountType = acType account, giRepositories = []\<rparr> in
                if acType account \<noteq> ''User'' then (Inr found, h')
                else (case installation_repositories R apiBase jwt i h' of
                        (Inl e, h'') \<Rightarrow> (Inl e, h'')
                      | (Inr names, h'') \<Rightarrow> (Inr (found\<lparr>giRepositories := names\<rparr>), h'')))))"

section \<open>Tokens\<close>

text \<open>
  The token that authenticates as the App holds at the time it is made, for nine more minutes, and is never valid
  for more than the ten minutes after its issue that GitHub allows.
\<close>

lemma claims_window:
  assumes "in_int64 ((t - Minute) div Second - unixToInternal)" and "in_int64 ((t + 9 * Minute) div Second - unixToInternal)"
  shows "clExpiresAt (app_claims c t) = clIssuedAt (app_claims c t) + 600
   \<and> (clIssuedAt (app_claims c t) + unixToInternal) * Second \<le> t \<and> t < (clExpiresAt (app_claims c t) + unixToInternal) * Second"
proof -
  have "(t + 540000000000) div 1000000000 = (t - 60000000000 + 600 * 1000000000) div 1000000000" by simp
  also have "\<dots> = (t - 60000000000) div 1000000000 + 600" using div_mult_self1 [of 1000000000 "t - 60000000000" 600] by simp
  finally have e: "(t + 540000000000) div 1000000000 = (t - 60000000000) div 1000000000 + 600" .
  have "(t - 60000000000) div 1000000000 * 1000000000 + (t - 60000000000) mod 1000000000 = t - 60000000000"
    and "0 \<le> (t - 60000000000) mod 1000000000" and "(t - 60000000000) mod 1000000000 < 1000000000" by simp_all
  then have "(t - 60000000000) div 1000000000 * 1000000000 \<le> t"
    and "t < ((t - 60000000000) div 1000000000 + 600) * 1000000000"
    unfolding distrib_right by linarith+
  with assms e show ?thesis by (simp add: app_claims_def unix_of_def wrap64_id Minute_def Second_def)
qed

section \<open>Credentials and errors\<close>

text \<open>Two worlds in which GitHub and the transport answer alike, and that decode and sign alike.\<close>

definition answered_alike :: "send_error + rest_response \<Rightarrow> send_error + rest_response \<Rightarrow> bool" where
  "answered_alike a b \<longleftrightarrow>
     (case (a, b) of
        (Inl e, Inl e') \<Rightarrow> redactURLError e = redactURLError e'
      | (Inr r, Inr r') \<Rightarrow> r = r'
      | _ \<Rightarrow> False)"

definition rest_alike :: "rest_env \<Rightarrow> rest_env \<Rightarrow> bool" where
  "rest_alike R R' \<longleftrightarrow>
     R' = R\<lparr>re_send := re_send R'\<rparr>
     \<and> (\<forall>h h'. length h = length h' \<longrightarrow> answered_alike (re_send R h) (re_send R' h'))"

lemma rest_alike_env:
  assumes "rest_alike R R'"
  shows "re_valid R' = re_valid R" "re_app R' = re_app R" "re_pem R' = re_pem R"
proof -
  have "R' = R\<lparr>re_send := re_send R'\<rparr>" using assms unfolding rest_alike_def by blast
  then show "re_valid R' = re_valid R" "re_app R' = re_app R" "re_pem R' = re_pem R"
    by (metis rest_env.select_convs rest_env.surjective rest_env.update_convs)+
qed

lemma restCall_alike:
  assumes "rest_alike R R'" and "length h = length h'"
    and "re_valid R (apiBase @ path)" and "re_valid R (apiBase @ path')"
  shows "fst (restCall R apiBase m path token dec z h) = fst (restCall R' apiBase m path' token' dec z h')"
proof -
  let ?a = "re_send R (rest_request m apiBase path token # h)"
  let ?b = "re_send R' (rest_request m apiBase path' token' # h')"
  have "answered_alike ?a ?b" using assms(1,2) unfolding rest_alike_def by simp
  then show ?thesis
    unfolding restCall_def Let_def rest_alike_env [OF assms(1)] using assms(3,4)
    by (cases ?a; cases ?b) (simp_all add: answered_alike_def split: sum.split)
qed

lemma convertManifest_fst:
  "fst (convertManifest R apiBase code h) = converted (CheckPrivateKey R)
     (fst (restCall R apiBase POST (''/app-manifests/'' @ PathEscape code @ ''/conversions'') [] (re_app R) zero_app h))"
  by (simp add: convertManifest_def split_beta)

lemma check_key_alike: "rest_alike R R' \<Longrightarrow> CheckPrivateKey R' = CheckPrivateKey R"
  by (simp add: CheckPrivateKey_def fun_eq_iff rest_alike_env)


definition example_rest :: "string \<Rightarrow> rest_env" where
  "example_rest quoted =
     \<lparr>re_send = (\<lambda>h. Inl (URLError quoted DeadlineExceeded)), re_valid = (\<lambda>_. True),
      re_release = (\<lambda>_. Inl Canceled), re_releases = (\<lambda>_. Inl Canceled), re_app = (\<lambda>_. Inl Canceled),
      re_installations = (\<lambda>_. Inl Canceled), re_token = (\<lambda>_. Inl Canceled), re_repositories = (\<lambda>_. Inl Canceled),
      re_pem = (\<lambda>_. None), re_rsa_key = (\<lambda>_. False), re_sign = (\<lambda>_ _. Inl Canceled)\<rparr>"


end
