(* ===== verification/Terminal.thy ===== *)
theory Terminal
  imports Errors
begin

text \<open>
  Questions on the terminal (\<^verbatim>\<open>internal/term/term.go\<close>). A terminal is what can be read from it before the end or
  an error, and whether it can be written to; each question opens it anew. The pieces of \<^verbatim>\<open>bufio\<close> and \<^verbatim>\<open>fmt\<close> that
  the questions use are written out: \<^verbatim>\<open>ReadString\<close>, the line scanner with its longest line, and \<^verbatim>\<open>Sscanf\<close> of one
  \<^verbatim>\<open>%d\<close>.
\<close>

section \<open>Reading\<close>

record tty =
  ttInput :: string
  ttReadError :: "error option"
  ttWriteError :: "error option"

text \<open>Up to the first newline, with it, and the rest. Without one, all the input and no rest.\<close>

fun cut_line :: "string \<Rightarrow> string \<times> bool \<times> string" where
  "cut_line [] = ([], False, [])"
| "cut_line (c # s) =
     (if c = CHR 0x0A then ([c], True, s) else (case cut_line s of (l, found, rest) \<Rightarrow> (c # l, found, rest)))"

lemma cut_line_input: "cut_line s = (l, found, rest) \<Longrightarrow> s = l @ rest"
  by (induction s arbitrary: l found rest) (auto split: if_splits prod.splits)

lemma cut_line_end: "cut_line s = (l, False, rest) \<Longrightarrow> rest = []"
  by (induction s arbitrary: l rest) (auto split: if_splits prod.splits)

definition trim_newlines :: "string \<Rightarrow> string" where
  "trim_newlines l = rev (dropWhile (\<lambda>c. c = CHR 0x0D \<or> c = CHR 0x0A) (rev l))"

text \<open>A question and its answer, with the terminal after it.\<close>

definition ask :: "tty \<Rightarrow> (error + string) \<times> tty" where
  "ask t =
     (case ttWriteError t of
        Some e \<Rightarrow> (Inl (wrap ''write prompt'' e), t)
      | None \<Rightarrow>
          (case cut_line (ttInput t) of (line, found, rest) \<Rightarrow>
             (if \<not> found \<and> (line = [] \<or> ttReadError t \<noteq> None)
              then (case ttReadError t of
                      Some e \<Rightarrow> Inl (wrap ''read answer'' e)
                    | None \<Rightarrow> Inl (ErrorMsg ''read answer: EOF''))
              else Inr (trim_newlines line), t\<lparr>ttInput := rest\<rparr>)))"

lemma ask_consumes: "ask t = (Inr a, t') \<Longrightarrow> length (ttInput t') < length (ttInput t)"
proof -
  assume "ask t = (Inr a, t')"
  then obtain line found rest where "cut_line (ttInput t) = (line, found, rest)" "ttInput t' = rest" "found \<or> line \<noteq> []"
    by (auto simp: ask_def split: option.splits prod.splits if_splits)
  moreover have "line \<noteq> []" if "cut_line s = (line, True, rest)" for s
    using that by (cases s) (auto split: if_splits prod.splits)
  ultimately show ?thesis using cut_line_input [of "ttInput t" line found rest] by (cases found) auto
qed

section \<open>Questions (term.go)\<close>

definition isYes :: "string \<Rightarrow> bool" where
  "isYes answer = (let a = ToLower (TrimSpace answer) in a = ''y'' \<or> a = ''yes'')"

text \<open>The device, if it can be opened.\<close>

type_synonym device = "tty option"

definition tty_Line :: "device \<Rightarrow> error + string" where
  "tty_Line d = (case d of None \<Rightarrow> Inl ErrNoTerminal | Some t \<Rightarrow> fst (ask t))"

definition tty_Confirm :: "device \<Rightarrow> error + bool" where
  "tty_Confirm d = (case tty_Line d of Inl e \<Rightarrow> Inl e | Inr a \<Rightarrow> Inr (isYes a))"

text \<open>The longest line the scanner takes is one byte shorter than its buffer.\<close>

definition scan_buffer :: nat where "scan_buffer = 65536"

definition drop_return :: "string \<Rightarrow> string" where
  "drop_return l = (if l \<noteq> [] \<and> last l = CHR 0x0D then butlast l else l)"

text \<open>The lines of a text, without their ends; text after the last newline is a line if there is any.\<close>

definition scanned_lines :: "string \<Rightarrow> string list" where
  "scanned_lines s = (let ls = Split (CHR 0x0A) s in if last ls = [] then butlast ls else ls)"

definition scan_lines :: "string \<Rightarrow> string list \<times> bool" where
  "scan_lines s =
     (let ls = scanned_lines s in
      (map drop_return (takeWhile (\<lambda>l. length l < scan_buffer) ls), list_ex (\<lambda>l. length l \<ge> scan_buffer) ls))"

definition trim_returns :: "string \<Rightarrow> string" where
  "trim_returns l = rev (dropWhile (\<lambda>c. c = CHR 0x0D) (rev l))"

fun pem_lines :: "string \<Rightarrow> string list \<Rightarrow> string option" where
  "pem_lines acc [] = None"
| "pem_lines acc (l # ls) =
     (let line = trim_returns l in
      if acc = [] \<and> TrimSpace line = [] then pem_lines acc ls
      else (let acc' = acc @ line @ [CHR 0x0A] in
            if HasPrefix line ''-----END '' then Some acc' else pem_lines acc' ls))"

definition readPEM :: "tty \<Rightarrow> error + string" where
  "readPEM t =
     (case ttWriteError t of
        Some e \<Rightarrow> Inl (wrap ''write prompt'' e)
      | None \<Rightarrow>
          (case scan_lines (ttInput t) of (ls, too_long) \<Rightarrow>
             (case pem_lines [] ls of
                Some p \<Rightarrow> Inr p
              | None \<Rightarrow>
                  if too_long then Inl (ErrorMsg ''read PEM: token too long'')
                  else (case ttReadError t of
                          Some e \<Rightarrow> Inl (wrap ''read PEM'' e)
                        | None \<Rightarrow> Inl (ErrorMsg ''read PEM: no -----END line'')))))"

definition tty_PEM :: "device \<Rightarrow> error + string" where
  "tty_PEM d = (case d of None \<Rightarrow> Inl ErrNoTerminal | Some t \<Rightarrow> readPEM t)"

text \<open>\<^verbatim>\<open>Sscanf\<close> of \<^verbatim>\<open>%d\<close>: a sign and the digits after it; what follows them is not looked at.\<close>

definition scan_int :: "string \<Rightarrow> int option" where
  "scan_int s =
     (let (sign, r) = (case s of [] \<Rightarrow> ([], []) | c # cs \<Rightarrow> if c = CHR ''-'' \<or> c = CHR ''+'' then ([c], cs) else ([], s)) in
      ParseInt (sign @ takeWhile is_digit r))"

function choose_loop :: "nat \<Rightarrow> tty \<Rightarrow> error + nat" where
  "choose_loop n t =
     (case ask t of
        (Inl e, t') \<Rightarrow> Inl e
      | (Inr answer, t') \<Rightarrow>
          (case scan_int (TrimSpace answer) of
             Some k \<Rightarrow> if 1 \<le> k \<and> k \<le> int n then Inr (nat k - 1) else choose_loop n t'
           | None \<Rightarrow> choose_loop n t'))"
  by pat_completeness auto
termination
  by (relation "measure (\<lambda>(n, t). length (ttInput t))") (auto dest: ask_consumes [OF sym])

declare choose_loop.simps [simp del]

definition term_choose :: "tty \<Rightarrow> string list \<Rightarrow> error + nat" where
  "term_choose t opts =
     (if opts = [] then Inl (ErrorMsg ''nothing to choose from'') else choose_loop (length opts) t)"

definition tty_Choose :: "device \<Rightarrow> string list \<Rightarrow> error + nat" where
  "tty_Choose d opts = (case d of None \<Rightarrow> Inl ErrNoTerminal | Some t \<Rightarrow> term_choose t opts)"

section \<open>What the answers are\<close>

lemma choose_loop_range: "choose_loop n t = Inr i \<Longrightarrow> i < n"
  by (induction n t rule: choose_loop.induct) (subst (asm) choose_loop.simps, auto split: prod.splits sum.splits option.splits if_splits)

text \<open>
  A choice is one of the options, and asking ends: every wrong answer uses input up, and a terminal whose input is
  used up, or that can't be read or written, gives an error.
\<close>
theorem choice_in_range: "(case tty_Choose d opts of Inl e \<Rightarrow> True | Inr i \<Rightarrow> i < length opts)"
  using choose_loop_range by (auto simp: tty_Choose_def term_choose_def split: option.split sum.split)

definition pem_text :: "string list \<Rightarrow> string" where
  "pem_text ls = concat (map (\<lambda>l. l @ [CHR 0x0A]) ls)"

definition plain_line :: "string \<Rightarrow> bool" where
  "plain_line l \<longleftrightarrow> CHR 0x0A \<notin> set l \<and> CHR 0x0D \<notin> set l \<and> length l < scan_buffer"

lemma trim_returns_plain: "plain_line l \<Longrightarrow> trim_returns l = l"
  by (cases l rule: rev_cases) (auto simp: trim_returns_def plain_line_def)

lemma drop_return_plain: "plain_line l \<Longrightarrow> drop_return l = l"
  by (cases l rule: rev_cases) (auto simp: drop_return_def plain_line_def)

lemma pem_lines_text:
  assumes "\<forall>l\<in>set ls. plain_line l" and "\<forall>l\<in>set ls. \<not> HasPrefix l ''-----END ''"
    and "plain_line e" and "HasPrefix e ''-----END ''" and "acc = [] \<longrightarrow> TrimSpace (hd (ls @ [e])) \<noteq> []"
  shows "pem_lines acc (ls @ e # others) = Some (acc @ pem_text (ls @ [e]))"
  using assms
proof (induction ls arbitrary: acc)
  case Nil
  then show ?case by (auto simp: trim_returns_plain pem_text_def Let_def)
next
  case (Cons l ls)
  then have "pem_lines (acc @ l @ [CHR 0x0A]) (ls @ e # others) = Some ((acc @ l @ [CHR 0x0A]) @ pem_text (ls @ [e]))"
    by (intro Cons.IH) auto
  then show ?case using Cons.prems by (auto simp: trim_returns_plain pem_text_def Let_def)
qed

lemma scanned_text:
  "\<forall>l\<in>set ls. plain_line l \<Longrightarrow> scanned_lines (pem_text ls @ rest) = ls @ scanned_lines rest"
proof -
  assume "\<forall>l\<in>set ls. plain_line l"
  then have "Split (CHR 0x0A) (pem_text ls @ rest) = ls @ Split (CHR 0x0A) rest"
    by (induction ls) (auto simp: pem_text_def plain_line_def Split_append_sep)
  then show ?thesis by (simp add: scanned_lines_def Let_def butlast_append)
qed

lemma scan_lines_text:
  assumes "\<forall>l\<in>set ls. plain_line l"
  shows "\<exists>others too_long. scan_lines (pem_text ls @ rest) = (ls @ others, too_long)"
proof -
  have "takeWhile (\<lambda>l. length l < scan_buffer) (ls @ scanned_lines rest) = ls @ takeWhile (\<lambda>l. length l < scan_buffer) (scanned_lines rest)"
    using assms by (intro takeWhile_append2) (simp add: plain_line_def)
  moreover have "map drop_return ls = ls" using assms by (simp add: drop_return_plain map_idI)
  ultimately show ?thesis by (simp add: scan_lines_def scanned_text [OF assms] Let_def)
qed

text \<open>
  A PEM block pasted into the terminal is read back as it is, and what follows it is left alone: for lines without
  newlines or carriage returns, short enough for the scanner, the first not blank and only the last an END line.
\<close>
theorem pem_reads_back:
  assumes "ttInput t = pem_text (ls @ [e]) @ rest" and "ttWriteError t = None"
    and "\<forall>l\<in>set (ls @ [e]). plain_line l" and "\<forall>l\<in>set ls. \<not> HasPrefix l ''-----END ''"
    and "HasPrefix e ''-----END ''" and "TrimSpace (hd (ls @ [e])) \<noteq> []"
  shows "tty_PEM (Some t) = Inr (pem_text (ls @ [e]))"
proof -
  obtain others too_long where sc: "scan_lines (ttInput t) = (ls @ e # others, too_long)"
    using scan_lines_text [OF assms(3), of rest] assms(1) by auto
  have "pem_lines [] (ls @ e # others) = Some (pem_text (ls @ [e]))"
    using pem_lines_text [of ls e "[]" others] assms by simp
  then show ?thesis using sc assms(2) by (simp add: tty_PEM_def readPEM_def)
qed

theorem pem_reads_back_witness:
  "tty_PEM (Some \<lparr>ttInput = pem_text [''-----BEGIN KEY-----'', ''MIIE'', ''-----END KEY-----''] @ ''more'',
     ttReadError = None, ttWriteError = None\<rparr>) = Inr (pem_text [''-----BEGIN KEY-----'', ''MIIE'', ''-----END KEY-----''])"
  using pem_reads_back [of "\<lparr>ttInput = pem_text [''-----BEGIN KEY-----'', ''MIIE'', ''-----END KEY-----''] @ ''more'',
     ttReadError = None, ttWriteError = None\<rparr>" "[''-----BEGIN KEY-----'', ''MIIE'']" "''-----END KEY-----''" "''more''"]
  by (simp add: plain_line_def scan_buffer_def go_eval)

end
