(* ===== verification/Describe.thy ===== *)
theory Describe
  imports Settings
begin

text \<open>
  What \<^verbatim>\<open>parcon config\<close> says of a key (\<^verbatim>\<open>internal/settings/keys.go\<close>): its summary, the values it takes on this node,
  its default, its current value and when a change applies. A described key extends the key that \<open>Settings\<close>
  models. The values that \<open>config describe\<close> names as the bounds of the whole-number keys are the ones
  \<open>config set\<close> takes.
\<close>

section \<open>The keys' texts\<close>

record described_key = key +
  kSummary :: string
  kAllowed :: "settings \<Rightarrow> limits \<Rightarrow> string"
  kDefault :: string
  kApplies :: string

definition runnersMax_Allowed :: "settings \<Rightarrow> limits \<Rightarrow> string" where
  "runnersMax_Allowed s l =
     (let r = spVMIDRange (stProxmox s); m = sMinRunners (stScaleSet s) in
      ''a whole number from '' @ Itoa (max 1 m) @ '' to '' @ Itoa (workerIDs s) @ '': the VMID range ''
      @ Itoa (RangeStart r) @ ''-'' @ Itoa (RangeEnd r) @ '' has '' @ Itoa (workerIDs s) @ '' IDs for workers''
      @ (if m > 1 then '', and it can't be less than minRunners ('' @ Itoa m @ '')'' else []))"

definition appliesToNewWorkers :: string where
  "appliesToNewWorkers = ''to new workers; the controller restarts, and running workers keep going''"

definition runnersMax :: described_key where
  "runnersMax =
     \<lparr>kName = ''runners.max'', kGet = runnersMax_Get, kSet = runnersMax_Set,
      kSummary = ''the most worker VMs at once, and so the most jobs at once'',
      kAllowed = runnersMax_Allowed, kDefault = Itoa DefaultMaxRunners,
      kApplies = ''within seconds; the controller restarts, and running workers keep going''\<rparr>"

definition workerCores_Allowed :: "settings \<Rightarrow> limits \<Rightarrow> string" where
  "workerCores_Allowed s l =
     (if HostCPUs l > 0
      then ''a whole number from '' @ Itoa MinCores @ '' to '' @ Itoa (HostCPUs l) @ '' (this node's CPU threads)''
      else ''a whole number, at least '' @ Itoa MinCores @ '' and at most this node's CPU threads'')"

definition workerCores :: described_key where
  "workerCores =
     \<lparr>kName = ''worker.cores'', kGet = workerCores_Get, kSet = workerCores_Set,
      kSummary = ''vCPUs per worker VM'', kAllowed = workerCores_Allowed,
      kDefault = Itoa DefaultCores @ '', like GitHub's ubuntu-latest for private repositories'',
      kApplies = appliesToNewWorkers\<rparr>"

definition workerMemory_Allowed :: "settings \<Rightarrow> limits \<Rightarrow> string" where
  "workerMemory_Allowed s l =
     ''a size in GiB or MiB from '' @ FormatMiB MinMemoryMiB @ '' to ''
     @ (if HostMemMiB l > 0 then FormatMiB (HostMemMiB l) @ '' (this node's memory)'' else ''this node's memory'')
     @ '', such as 8GiB or 12288MiB; GB and MB aren't accepted, because Proxmox sizes memory in binary units''"

definition workerMemory :: described_key where
  "workerMemory =
     \<lparr>kName = ''worker.memory'', kGet = workerMemory_Get, kSet = workerMemory_Set,
      kSummary = ''memory per worker VM'', kAllowed = workerMemory_Allowed,
      kDefault = FormatMiB DefaultMemoryMiB @ '', like GitHub's ubuntu-latest for private repositories'',
      kApplies = appliesToNewWorkers\<rparr>"

definition workerMaxLifetime_Allowed :: "settings \<Rightarrow> limits \<Rightarrow> string" where
  "workerMaxLifetime_Allowed s l =
     ''a duration from '' @ FormatLifetime MinMaxLifetime @ '' to '' @ FormatLifetime MaxMaxLifetime
     @ '' (GitHub's job limit for self-hosted runners), such as 12h, 1h30m, or 2d. GitHub also cancels a job after its ''
     @ ''timeout-minutes, 360 (6h) unless the workflow sets more, so a job that runs longer needs both''"

definition workerMaxLifetime :: "(string \<Rightarrow> nat \<Rightarrow> nat) \<Rightarrow> described_key" where
  "workerMaxLifetime frac =
     \<lparr>kName = ''worker.maxLifetime'', kGet = workerMaxLifetime_Get, kSet = workerMaxLifetime_Set frac,
      kSummary = ''how long a worker VM may live, its job included, before it is destroyed'',
      kAllowed = workerMaxLifetime_Allowed,
      kDefault = FormatLifetime DefaultMaxLifetime @ '', the job limit on GitHub-hosted runners'',
      kApplies = ''to every worker, running ones included: the controller restarts, and a worker already older than a ''
        @ ''lower limit is destroyed, even in the middle of its job''\<rparr>"

definition described_keys :: "(string \<Rightarrow> nat \<Rightarrow> nat) \<Rightarrow> described_key list" where
  "described_keys frac = [runnersMax, workerCores, workerMaxLifetime frac, workerMemory]"

text \<open>They are the keys of \<open>Settings\<close>, in the same order.\<close>

lemma described_keys_Keys: "map key.truncate (described_keys frac) = Keys frac"
  by (simp add: described_keys_def Keys_def runnersMax_def workerCores_def workerMaxLifetime_def workerMemory_def
      key.truncate_def)

definition described_key :: "(string \<Rightarrow> nat \<Rightarrow> nat) \<Rightarrow> string \<Rightarrow> described_key option" where
  "described_key frac name = find (\<lambda>k. kName k = name) (described_keys frac)"

lemma described_key_Lookup:
  "Lookup frac name = Inr k \<longleftrightarrow> (\<exists>d. described_key frac name = Some d \<and> key.truncate d = k)"
  by (auto simp: Lookup_def described_key_def Keys_def described_keys_def runnersMax_def workerCores_def
      workerMaxLifetime_def workerMemory_def key.truncate_def split: if_splits)

definition Describe :: "described_key \<Rightarrow> settings \<Rightarrow> limits \<Rightarrow> string list" where
  "Describe k s l =
     [kName k @ ''  '' @ kSummary k, ''  allowed:  '' @ kAllowed k s l, ''  default:  '' @ kDefault k,
      ''  current:  '' @ fst (kGet k s), ''  applies:  '' @ kApplies k]"

section \<open>Warnings\<close>

definition warning_String :: "settings \<Rightarrow> limits \<Rightarrow> warning \<Rightarrow> string" where
  "warning_String s l w =
     ''runners.max '' @ Itoa (sMaxRunners (stScaleSet s)) @ '' '' @ [CHR 0xC3, CHR 0x97] @ '' worker.memory ''
     @ FormatMiB (MemoryMiB (EffectiveWorker s)) @ '' is '' @ FormatMiB (wTotal w) @ '', more than this node's ''
     @ FormatMiB (HostMemMiB l) @ '': workers will fail to start once memory runs out''"

section \<open>A table of columns\<close>

text \<open>
  \<^verbatim>\<open>text/tabwriter\<close> as \<^verbatim>\<open>config get --all\<close> uses it: each cell but a line's last is padded to its column's widest cell
  and two blanks more.
\<close>

definition column_width :: "string list list \<Rightarrow> nat \<Rightarrow> nat" where
  "column_width rows i = Max (insert 0 (set (map (\<lambda>r. length (r ! i)) rows))) + 2"

fun padded_cells :: "nat list \<Rightarrow> string list \<Rightarrow> string" where
  "padded_cells ws [] = []"
| "padded_cells ws [c] = c"
| "padded_cells [] (c # cs) = c @ padded_cells [] cs"
| "padded_cells (w # ws) (c # cs) = c @ replicate (w - length c) (CHR '' '') @ padded_cells ws cs"

definition tabulated :: "string list list \<Rightarrow> string list" where
  "tabulated rows =
     (case rows of
        [] \<Rightarrow> []
      | r # rs \<Rightarrow> map (padded_cells (map (column_width rows) [0 ..< length r - 1])) rows)"

definition before_comma :: "string \<Rightarrow> string" where
  "before_comma s = takeWhile (\<lambda>c. c \<noteq> CHR '','') s"

definition keys_table :: "(string \<Rightarrow> nat \<Rightarrow> nat) \<Rightarrow> settings \<Rightarrow> string list" where
  "keys_table frac s =
     tabulated ([''KEY'', ''VALUE'', ''DEFAULT'', ''DESCRIPTION'']
       # map (\<lambda>k. [kName k, fst (kGet k s), before_comma (kDefault k), kSummary k]) (described_keys frac))"

end
