(* ===== verification/Flags.thy ===== *)
theory Flags
  imports Errors Url
begin

text \<open>
  The parts of Go's \<^verbatim>\<open>flag\<close> package the commands use: what a command line sets, in order, what it leaves over, and
  when it is refused. The values' parsers are those of \<^verbatim>\<open>strconv\<close>: \<^verbatim>\<open>ParseBool\<close>, and \<^verbatim>\<open>ParseInt\<close> with base 0, which
  takes Go's prefixes and underscores. A command line written from names and values is read back as they are.
\<close>

section \<open>Values\<close>

definition ParseBool :: "string \<Rightarrow> bool option" where
  "ParseBool s =
     (if s \<in> {''1'', ''t'', ''T'', ''true'', ''TRUE'', ''True''} then Some True
      else if s \<in> {''0'', ''f'', ''F'', ''false'', ''FALSE'', ''False''} then Some False else None)"

text \<open>The base of an unsigned literal, and the digits after its prefix.\<close>

definition literal_base :: "string \<Rightarrow> nat \<times> string" where
  "literal_base s =
     (case s of
        [] \<Rightarrow> (10, s)
      | c # r \<Rightarrow>
          if c \<noteq> CHR ''0'' then (10, s)
          else (case r of
                  x # y # t \<Rightarrow>
                    if x = CHR ''b'' \<or> x = CHR ''B'' then (2, y # t)
                    else if x = CHR ''o'' \<or> x = CHR ''O'' then (8, y # t)
                    else if x = CHR ''x'' \<or> x = CHR ''X'' then (16, y # t) else (8, r)
                | _ \<Rightarrow> (8, r)))"

text \<open>An underscore stands between digits, or a base's prefix and a digit. \<open>b\<close>: a digit or a prefix comes before.\<close>

fun underscores_ok :: "bool \<Rightarrow> string \<Rightarrow> bool" where
  "underscores_ok b [] = True"
| "underscores_ok b (c # s) =
     (if c = CHR ''_'' then b \<and> s \<noteq> [] \<and> hd s \<noteq> CHR ''_'' \<and> underscores_ok False s else underscores_ok True s)"

text \<open>\<^verbatim>\<open>ParseUint\<close> with base 0, without its bound.\<close>

definition literal_nat :: "string \<Rightarrow> nat option" where
  "literal_nat s =
     (case literal_base s of (b, r) \<Rightarrow>
        if s = [] \<or> \<not> underscores_ok (b \<noteq> 10) r then None
        else digits_acc b 0 (filter (\<lambda>c. c \<noteq> CHR ''_'') (ToLower r)))"

definition ParseInt0 :: "string \<Rightarrow> int option" where
  "ParseInt0 s =
     (case s of
        [] \<Rightarrow> None
      | c # cs \<Rightarrow>
          if c = CHR ''-'' then
            (case literal_nat cs of
               None \<Rightarrow> None
             | Some n \<Rightarrow> if n \<le> 9223372036854775808 then Some (- int n) else None)
          else
            (case literal_nat (if c = CHR ''+'' then cs else s) of
               None \<Rightarrow> None
             | Some n \<Rightarrow> if n < 9223372036854775808 then Some (int n) else None))"

section \<open>Parsing a command line\<close>

text \<open>\<open>ValueFlag ok\<close>: a flag whose values satisfy \<open>ok\<close>.\<close>

datatype flag_kind = BoolFlag | ValueFlag "string \<Rightarrow> bool"

type_synonym flag_set = "string \<Rightarrow> flag_kind option"

type_synonym given_flags = "(string \<times> string) list"

definition TextFlag :: flag_kind where "TextFlag = ValueFlag (\<lambda>_. True)"
definition IntFlag :: flag_kind where "IntFlag = ValueFlag (\<lambda>s. ParseInt0 s \<noteq> None)"

text \<open>The name of a flag without its dashes, and its value if one is written after an equals sign.\<close>

definition cut_flag :: "string \<Rightarrow> string \<times> string option" where
  "cut_flag s = (case s of [] \<Rightarrow> ([], None) | c # r \<Rightarrow> (case cut_at (CHR ''='') r of (a, v) \<Rightarrow> (c # a, v)))"

definition takes :: "flag_kind \<Rightarrow> string \<Rightarrow> bool" where
  "takes k v = (case k of BoolFlag \<Rightarrow> ParseBool v \<noteq> None | ValueFlag ok \<Rightarrow> ok v)"

text \<open>
  One flag, and the arguments after it: \<^verbatim>\<open>parseOne\<close> after its dashes. A name that is not defined is a mistake, or a
  call for help.
\<close>

definition parse_named :: "flag_set \<Rightarrow> string \<Rightarrow> string list \<Rightarrow> error + (string \<times> string) \<times> string list" where
  "parse_named spec name args =
     (if name = [] \<or> hd name = CHR ''-'' \<or> hd name = CHR ''='' then Inl errUsage
      else (case cut_flag name of (n, v) \<Rightarrow>
        case spec n of
          None \<Rightarrow> if n = ''help'' \<or> n = ''h'' then Inl flag_ErrHelp else Inl errUsage
        | Some k \<Rightarrow>
            (case (v, k, args) of
               (Some val, _, _) \<Rightarrow> if takes k val then Inr ((n, val), args) else Inl errUsage
             | (None, BoolFlag, _) \<Rightarrow> Inr ((n, ''true''), args)
             | (None, ValueFlag ok, []) \<Rightarrow> Inl errUsage
             | (None, ValueFlag ok, val # args') \<Rightarrow> if ok val then Inr ((n, val), args') else Inl errUsage)))"

lemma parse_named_shorter: "parse_named spec name args = Inr (f, args') \<Longrightarrow> length args' \<le> length args"
  by (auto simp: parse_named_def split: if_splits prod.splits option.splits flag_kind.splits list.splits)

function parse_flags :: "flag_set \<Rightarrow> string list \<Rightarrow> error + given_flags \<times> string list" where
  "parse_flags spec args =
     (case args of
        [] \<Rightarrow> Inr ([], [])
      | s # rest \<Rightarrow>
          if length s < 2 \<or> hd s \<noteq> CHR ''-'' then Inr ([], args)
          else if s = ''--'' then Inr ([], rest)
          else (case parse_named spec (if s ! 1 = CHR ''-'' then drop 2 s else drop 1 s) rest of
                  Inl e \<Rightarrow> Inl e
                | Inr (f, args') \<Rightarrow>
                    (case parse_flags spec args' of
                       Inl e \<Rightarrow> Inl e
                     | Inr (fs, left) \<Rightarrow> Inr (f # fs, left))))"
  by pat_completeness auto
termination
  by (relation "measure (\<lambda>(spec, args). length args)") (auto simp: less_Suc_eq_le dest!: parse_named_shorter)

declare parse_flags.simps [simp del]

text \<open>A command's flags, which nothing may follow: \<^verbatim>\<open>parseHostFlags\<close> and \<^verbatim>\<open>parseFlags\<close>.\<close>

definition parseHostFlags :: "flag_set \<Rightarrow> string list \<Rightarrow> error + given_flags" where
  "parseHostFlags spec args =
     (case parse_flags spec args of
        Inl e \<Rightarrow> if errors_Is e flag_ErrHelp then Inl flag_ErrHelp else Inl errUsage
      | Inr (fs, left) \<Rightarrow> if left \<noteq> [] then Inl errUsage else Inr fs)"

text \<open>What a flag holds in the end: the last value given, or the default.\<close>

definition flag_values :: "given_flags \<Rightarrow> string \<Rightarrow> string list" where
  "flag_values fs n = map snd (filter (\<lambda>f. fst f = n) fs)"

definition flag_text :: "given_flags \<Rightarrow> string \<Rightarrow> string \<Rightarrow> string" where
  "flag_text fs n d = (if flag_values fs n = [] then d else last (flag_values fs n))"

definition flag_int :: "given_flags \<Rightarrow> string \<Rightarrow> int \<Rightarrow> int" where
  "flag_int fs n d =
     (if flag_values fs n = [] then d
      else (case ParseInt0 (last (flag_values fs n)) of Some i \<Rightarrow> i | None \<Rightarrow> d))"

definition flag_bool :: "given_flags \<Rightarrow> string \<Rightarrow> bool" where
  "flag_bool fs n \<longleftrightarrow> flag_values fs n \<noteq> [] \<and> ParseBool (last (flag_values fs n)) = Some True"

section \<open>Command lines read back\<close>

definition flag_word :: "string \<times> string \<Rightarrow> string" where
  "flag_word f = ''--'' @ fst f @ ''='' @ snd f"

definition writable :: "flag_set \<Rightarrow> string \<times> string \<Rightarrow> bool" where
  "writable spec f \<longleftrightarrow>
     fst f \<noteq> [] \<and> hd (fst f) \<noteq> CHR ''-'' \<and> CHR ''='' \<notin> set (fst f)
     \<and> (case spec (fst f) of None \<Rightarrow> False | Some k \<Rightarrow> takes k (snd f))"

lemma cut_at_first: "c \<notin> set a \<Longrightarrow> cut_at c (a @ c # v) = (a, Some v)"
  by (induction a) auto

lemma cut_at_none: "c \<notin> set a \<Longrightarrow> cut_at c a = (a, None)"
  by (induction a) auto

lemma parse_named_word:
  "writable spec f \<Longrightarrow> parse_named spec (fst f @ ''='' @ snd f) args = Inr (f, args)"
  by (cases f; cases "fst f")
    (auto simp: writable_def parse_named_def cut_flag_def cut_at_first split: option.splits)

lemma parse_word:
  assumes "writable spec f"
  shows "parse_flags spec (flag_word f # args) =
    (case parse_flags spec args of Inl e \<Rightarrow> Inl e | Inr (fs, left) \<Rightarrow> Inr (f # fs, left))"
proof -
  have "length (flag_word f) \<ge> 2" "hd (flag_word f) = CHR ''-''" "flag_word f \<noteq> ''--''" "flag_word f ! 1 = CHR ''-''"
    "drop 2 (flag_word f) = fst f @ ''='' @ snd f"
    by (simp_all add: flag_word_def)
  then show ?thesis
    by (subst parse_flags.simps) (simp add: parse_named_word [OF assms, simplified])
qed

lemma parse_words: "\<forall>f\<in>set fs. writable spec f \<Longrightarrow> parse_flags spec (map flag_word fs) = Inr (fs, [])"
proof (induction fs)
  case Nil
  then show ?case by (simp add: parse_flags.simps [of spec "[]"])
next
  case (Cons f fs)
  then show ?case by (simp add: parse_word)
qed

lemma parseHostFlags_words: "\<forall>f\<in>set fs. writable spec f \<Longrightarrow> parseHostFlags spec (map flag_word fs) = Inr fs"
  by (simp add: parseHostFlags_def parse_words)

text \<open>Each flag given is defined, with a value it takes.\<close>

definition well_given :: "flag_set \<Rightarrow> given_flags \<Rightarrow> bool" where
  "well_given spec fs \<longleftrightarrow> list_all (\<lambda>f. case spec (fst f) of None \<Rightarrow> False | Some k \<Rightarrow> takes k (snd f)) fs"

lemma takes_true: "takes BoolFlag ''true''"
  by (simp add: takes_def ParseBool_def)

lemma takes_ok: "takes (ValueFlag ok) v = ok v"
  by (simp add: takes_def)

lemma parse_named_well: "parse_named spec name args = Inr (f, args') \<Longrightarrow> well_given spec [f]"
  by (auto simp: parse_named_def well_given_def takes_true takes_ok
      split: if_splits prod.splits option.splits flag_kind.splits list.splits)

lemma parse_flags_well: "parse_flags spec args = Inr (fs, left) \<Longrightarrow> well_given spec fs"
proof (induction spec args arbitrary: fs left rule: parse_flags.induct)
  case (1 spec args)
  show ?case
  proof (cases fs)
    case Nil
    then show ?thesis by (simp add: well_given_def)
  next
    case (Cons f gs)
    with "1.prems" obtain s rest args' where a: "args = s # rest" "\<not> (length s < 2 \<or> hd s \<noteq> CHR ''-'')" "s \<noteq> ''--''"
      and n: "parse_named spec (if s ! 1 = CHR ''-'' then drop 2 s else drop 1 s) rest = Inr (f, args')"
      and r: "parse_flags spec args' = Inr (gs, left)"
      by (subst (asm) parse_flags.simps) (auto split: list.splits if_splits sum.splits prod.splits)
    have "well_given spec gs" by (rule "1.IH" [OF a n refl r])
    then show ?thesis using parse_named_well [OF n] Cons by (simp add: well_given_def)
  qed
qed

lemma literal_base_decimal: "s \<noteq> [] \<Longrightarrow> hd s \<noteq> CHR ''0'' \<Longrightarrow> literal_base s = (10, s)"
  by (cases s) (simp_all add: literal_base_def)

lemma well_given_value:
  assumes w: "well_given spec fs" and n: "n \<in> set (map fst fs)"
  shows "case spec n of None \<Rightarrow> False | Some k \<Rightarrow> takes k (flag_text fs n d)"
proof -
  have v: "flag_values fs n \<noteq> []"
    using n by (auto simp: flag_values_def filter_empty_conv)
  then have "flag_text fs n d \<in> set (flag_values fs n)" by (simp add: flag_text_def)
  then have "(n, flag_text fs n d) \<in> set fs" by (auto simp: flag_values_def)
  with w have "case spec (fst (n, flag_text fs n d)) of None \<Rightarrow> False | Some k \<Rightarrow> takes k (snd (n, flag_text fs n d))"
    by (simp only: well_given_def list_all_iff)
  then show ?thesis by (simp split: option.splits)
qed


end
