(* ===== verification/Release_Keys.thy ===== *)
theory Release_Keys
  imports Release_Assets
begin

text \<open>
  The release signing keys of \<^verbatim>\<open>internal/release/verify.go\<close>: how they are read from the directory embedded in
  parcon, and what accepting a release therefore means. PEM, PKIX and Ed25519 are parameters (\<open>key_codec\<close>), and so is
  the embedded directory (\<open>key_dir\<close>), as the build puts it there.
\<close>

text \<open>A public key: \<^verbatim>\<open>crypto/x509\<close> gives one of several kinds, of which one is kept.\<close>

type_synonym public_key = string

datatype pkix_key = Ed25519Key public_key | OtherKey string

record pem_block =
  pbType :: string
  pbBytes :: string

record key_codec =
  kcDecode :: "string \<Rightarrow> pem_block option"
  kcParsePKIX :: "string \<Rightarrow> error + pkix_key"

definition ParsePublicKey :: "key_codec \<Rightarrow> string \<Rightarrow> error + public_key" where
  "ParsePublicKey K data =
     (case kcDecode K data of
        None \<Rightarrow> Inl (ErrorMsg ''not a PEM public key'')
      | Some block \<Rightarrow>
          if pbType block \<noteq> ''PUBLIC KEY'' then Inl (ErrorMsg ''not a PEM public key'')
          else (case kcParsePKIX K (pbBytes block) of
                  Inl e \<Rightarrow> Inl e
                | Inr (OtherKey kind) \<Rightarrow> Inl (ErrorMsg (''a '' @ kind @ '', not an Ed25519 key''))
                | Inr (Ed25519Key k) \<Rightarrow> Inr k))"

text \<open>A directory: its entries' names, in order, and each file's content. \<^verbatim>\<open>path.Join\<close> puts a slash between clean names.\<close>

record key_dir =
  kdEntries :: "string \<Rightarrow> error + string list"
  kdRead :: "string \<Rightarrow> error + string"

fun load_entries :: "key_codec \<Rightarrow> key_dir \<Rightarrow> string \<Rightarrow> string list \<Rightarrow> error + public_key list" where
  "load_entries K D dir [] = Inr []"
| "load_entries K D dir (name # names) =
     (if \<not> HasSuffix name ''.pem'' then load_entries K D dir names
      else (case kdRead D (dir @ ''/'' @ name) of
              Inl e \<Rightarrow> Inl (wrap (''release key '' @ name) e)
            | Inr data \<Rightarrow>
                (case ParsePublicKey K data of
                   Inl e \<Rightarrow> Inl (wrap (''release key '' @ name) e)
                 | Inr k \<Rightarrow>
                     (case load_entries K D dir names of Inl e \<Rightarrow> Inl e | Inr ks \<Rightarrow> Inr (k # ks)))))"

definition loadKeys :: "key_codec \<Rightarrow> key_dir \<Rightarrow> string \<Rightarrow> error + public_key list" where
  "loadKeys K D dir =
     (case kdEntries D dir of
        Inl e \<Rightarrow> Inl (wrap ''release keys'' e)
      | Inr names \<Rightarrow> load_entries K D dir names)"

definition TrustedKeys :: "key_codec \<Rightarrow> key_dir \<Rightarrow> error + public_key list" where
  "TrustedKeys K D = loadKeys K D ''keys''"

section \<open>What is trusted\<close>

text \<open>A file that holds an Ed25519 public key in PEM.\<close>

definition holds_key :: "key_codec \<Rightarrow> key_dir \<Rightarrow> string \<Rightarrow> string \<Rightarrow> public_key \<Rightarrow> bool" where
  "holds_key K D dir name k \<longleftrightarrow>
     (\<exists>data block. kdRead D (dir @ ''/'' @ name) = Inr data \<and> kcDecode K data = Some block
        \<and> pbType block = ''PUBLIC KEY'' \<and> kcParsePKIX K (pbBytes block) = Inr (Ed25519Key k))"

lemma ParsePublicKey_Inr:
  "ParsePublicKey K data = Inr k \<longleftrightarrow>
     (\<exists>block. kcDecode K data = Some block \<and> pbType block = ''PUBLIC KEY''
        \<and> kcParsePKIX K (pbBytes block) = Inr (Ed25519Key k))"
  by (auto simp: ParsePublicKey_def split: option.splits sum.splits pkix_key.splits)

lemma load_entries_Inr:
  "load_entries K D dir names = Inr ks \<longleftrightarrow>
     list_all2 (holds_key K D dir) (filter (\<lambda>n. HasSuffix n ''.pem'') names) ks"
proof (induction names arbitrary: ks)
  case (Cons n names)
  have one: "holds_key K D dir n k \<longleftrightarrow> (\<exists>data. kdRead D (dir @ ''/'' @ n) = Inr data \<and> ParsePublicKey K data = Inr k)" for k
    by (auto simp: holds_key_def ParsePublicKey_Inr)
  show ?case
  proof (cases "HasSuffix n ''.pem''")
    case True
    then show ?thesis
      by (cases ks) (auto simp: one Cons.IH [symmetric] simp del: HasSuffix.simps split: sum.splits)
  qed (simp add: Cons.IH del: HasSuffix.simps)
qed auto

text \<open>
  Loading the keys is all or nothing: it succeeds exactly when the directory is read and every \<^verbatim>\<open>.pem\<close> file in it holds
  an Ed25519 public key, and then gives those keys in that order, one for each file, and no other.
\<close>

lemma TrustedKeys_exact:
  "TrustedKeys K D = Inr ks \<longleftrightarrow>
     (\<exists>names. kdEntries D ''keys'' = Inr names
        \<and> list_all2 (holds_key K D ''keys'') (filter (\<lambda>n. HasSuffix n ''.pem'') names) ks)"
  by (auto simp: TrustedKeys_def loadKeys_def load_entries_Inr split: sum.splits)

text \<open>
  C20. A release that is accepted with the embedded keys was signed by one of them: the signature over exactly the checksum
  list that is then used verifies with an Ed25519 key that a \<^verbatim>\<open>.pem\<close> file of the embedded directory holds. Every file that
  \<open>Get\<close> then returns has the checksum this list gives it.
\<close>

theorem release_signed_by_embedded_key:
  assumes "TrustedKeys K D = Inr ks" and "Fetch verify src v dir ks = Inr a"
    and "Get sha join ops a name fs = (Inr path, fs')"
  shows "\<exists>sums sig pem k data. readAll src v ''SHA256SUMS'' = Inr sums \<and> readAll src v ''SHA256SUMS.sig'' = Inr sig
      \<and> HasSuffix pem ''.pem'' \<and> holds_key K D ''keys'' pem k \<and> verify k sums sig
      \<and> fs' path = Some data \<and> (\<exists>m. ParseSums sums = Inr m \<and> m name = Some (sha data))"
proof -
  obtain names where names: "list_all2 (holds_key K D ''keys'') (filter (\<lambda>n. HasSuffix n ''.pem'') names) ks"
    using assms(1) TrustedKeys_exact by blast
  obtain sums sig k where f: "readAll src v ''SHA256SUMS'' = Inr sums" "readAll src v ''SHA256SUMS.sig'' = Inr sig"
      "k \<in> set ks" "verify k sums sig" "ParseSums sums = Inr (aSums a)"
    using assms(2) by (auto simp: Fetch_def VerifySignature_def list_ex_iff split: sum.splits option.splits if_splits)
  obtain pem where "pem \<in> set (filter (\<lambda>n. HasSuffix n ''.pem'') names)" "holds_key K D ''keys'' pem k"
    using names f(3) by (metis in_set_conv_nth list_all2_conv_all_nth)
  moreover obtain data where "fs' path = Some data" "aSums a name = Some (sha data)"
    using Get_kept [of sha join a name fs ops] assms(3) by (auto simp: asset_kept_def)
  ultimately show ?thesis using f by auto
qed

text \<open>One key file beside a README, and a source that is signed with its key.\<close>

definition example_codec :: key_codec where
  "example_codec =
     \<lparr>kcDecode = (\<lambda>data. if data = ''pem'' then Some \<lparr>pbType = ''PUBLIC KEY'', pbBytes = ''der''\<rparr> else None),
      kcParsePKIX = (\<lambda>bytes. Inr (Ed25519Key ''key''))\<rparr>"

definition example_keys :: key_dir where
  "example_keys =
     \<lparr>kdEntries = (\<lambda>dir. Inr [''2026-1.pem'', ''README.md'']),
      kdRead = (\<lambda>path. if path = ''keys/2026-1.pem'' then Inr ''pem'' else Inl (ErrorMsg ''no such file''))\<rparr>"

lemma example_trusted: "TrustedKeys example_codec example_keys = Inr [''key'']"
  by (simp add: TrustedKeys_def loadKeys_def example_keys_def ParsePublicKey_def example_codec_def)

theorem release_signed_by_embedded_key_witness:
  "\<exists>pem k. HasSuffix pem ''.pem'' \<and> holds_key example_codec example_keys ''keys'' pem k \<and> k = ''key''"
proof -
  have parsed: "ParseSums (sums_file [(False, ''parcon'', zero_sum)]) = Inr [''parcon'' \<mapsto> zero_sum]"
    using sums_loop_entries [of "[(False, ''parcon'', zero_sum)]" Map.empty]
      scan_lines_sums_file [of "[(False, ''parcon'', zero_sum)]"]
    by (simp add: ParseSums_def sum_entry_def zero_sum_def hex_digit_def name_char_def is_digit_def list_all_iff
        fun_eq_iff)
  have rd: "readAll signed_source version_rc ''SHA256SUMS'' = Inr (sums_file [(False, ''parcon'', zero_sum)])"
    by (simp add: readAll_def signed_source_def sums_file_def sum_line_def zero_sum_def)
  let ?verify = "\<lambda>k sums sig. k = ''key'' \<and> sig = ''sig''"
  let ?a = "\<lparr>aVersion = version_rc, aSums = [''parcon'' \<mapsto> zero_sum], aDir = ''/assets'', aSource = Some signed_source\<rparr>"
  let ?ops = "\<lparr>fo_read = (\<lambda>_. None), fo_create = (\<lambda>_. None), fo_write = (\<lambda>_ _. None), fo_close = (\<lambda>_. None),
      fo_remove = (\<lambda>_. None), fo_rename = (\<lambda>_. None)\<rparr>"
  have f: "Fetch ?verify signed_source version_rc ''/assets'' [''key''] = Inr ?a"
    using rd parsed by (simp add: Fetch_def VerifySignature_def readAll_def signed_source_def)
  have g: "Get (\<lambda>_. zero_sum) (\<lambda>d n. d @ ''/'' @ n) ?ops ?a ''parcon'' [''/assets/parcon'' \<mapsto> ''data'']
      = (Inr ''/assets/parcon'', [''/assets/parcon'' \<mapsto> ''data''])"
    by (simp add: Get_def fileSum_def Let_def)
  show ?thesis using release_signed_by_embedded_key [OF example_trusted f g] by metis
qed

end
