(* ===== verification/Cli.thy ===== *)
theory Cli
  imports Commands_Safety Status_Facts Describe Flags Release_Keys
begin

text \<open>
  \<^verbatim>\<open>parcon\<close>'s command line on the Proxmox host (\<^verbatim>\<open>cmd/parcon/main.go\<close>, \<^verbatim>\<open>host.go\<close>, \<^verbatim>\<open>configcmd.go\<close>): which command
  runs where, what its flags mean, and how it exits. A command gives the lines it prints on standard output and
  its error, if any; what goes to standard error is \<open>main_says\<close> alone, usage texts and the flag package's
  complaints being left out. \<open>cli_env\<close> holds what is outside: the host, whether this is one, parcon's own path and
  build, the embedded keys and JSON.
\<close>

section \<open>The program\<close>

record cli_env =
  ce_host :: henv
  ce_status :: status_env
  ce_hostMode :: bool
  ce_self :: "error + string"
  ce_version :: string
  ce_module :: "(string \<times> (string \<times> string) list) option"
  ce_codec :: key_codec
  ce_keys :: key_dir
  ce_json :: "report \<Rightarrow> error + string"
  ce_text :: "error \<Rightarrow> string"
  ce_warning :: "warning \<Rightarrow> string"

definition add_revision :: "string \<Rightarrow> (string \<times> string) list \<Rightarrow> string" where
  "add_revision v settings =
     foldl (\<lambda>v (key, val). if key = ''vcs.revision'' \<and> length val \<ge> 12 then v @ '' ('' @ take 12 val @ '')'' else v)
       v settings"

definition buildVersion :: "cli_env \<Rightarrow> string" where
  "buildVersion C =
     (if ce_version C \<noteq> [] then ce_version C
      else (case ce_module C of None \<Rightarrow> ''unknown'' | Some (v, settings) \<Rightarrow> add_revision v settings))"

definition host_version :: "cli_env \<Rightarrow> version" where
  "host_version C = (case ParseVersion (ce_version C) of None \<Rightarrow> zero_version | Some v \<Rightarrow> v)"

definition settings_DefaultPath :: string where
  "settings_DefaultPath = config_Dir @ ''/settings.yaml''"

definition installer_New :: "cli_env \<Rightarrow> string \<Rightarrow> version \<Rightarrow> bool \<Rightarrow> error + installer" where
  "installer_New C self v dryRun =
     (case TrustedKeys (ce_codec C) (ce_keys C) of
        Inl e \<Rightarrow> Inl e
      | Inr keys \<Rightarrow>
          Inr \<lparr>inDryRun = dryRun, inYes = False, inPaths = DefaultPaths, inSettingsPath = settings_DefaultPath,
               inBinaryPath = BinaryPath, inSelf = self, inVersion = v, inAssets = [], inStopAfter = [],
               inLockPath = ''/run/lock/parcon.lock''\<rparr>)"

definition newInstaller :: "cli_env \<Rightarrow> bool \<Rightarrow> error + installer" where
  "newInstaller C dryRun =
     (case ce_self C of
        Inl e \<Rightarrow> Inl (wrap ''find parcon's own path'' e)
      | Inr self \<Rightarrow> installer_New C self (host_version C) dryRun)"

definition needRelease :: "installer \<Rightarrow> string \<Rightarrow> error + installer" where
  "needRelease ins assetsVersion =
     (if assetsVersion \<noteq> []
      then (case ParseVersion assetsVersion of
              None \<Rightarrow> Inl (ErrorMsg ''not a version'')
            | Some v \<Rightarrow> Inr (ins\<lparr>inVersion := v\<rparr>))
      else if inVersion ins = zero_version
      then Inl (ErrorMsg ''this parcon is a development build without a release version; install from a release'')
      else Inr ins)"

section \<open>The settings' flags\<close>

definition hostFlags :: "(string \<times> flag_kind) list" where
  "hostFlags = [(''yes'', BoolFlag), (''dry-run'', BoolFlag)]"

definition assetFlags :: "(string \<times> flag_kind) list" where
  "assetFlags = [(''assets'', TextFlag), (''assets-version'', TextFlag)]"

definition settingsFlags :: "(string \<times> flag_kind) list" where
  "settingsFlags =
     [(''bridge'', TextFlag), (''vlan'', IntFlag), (''pve-address'', TextFlag), (''gateway-ip'', TextFlag),
      (''controller-ip'', TextFlag), (''lan-gateway'', TextFlag), (''worker-subnet'', TextFlag), (''storage'', TextFlag),
      (''vmid-range'', TextFlag), (''scale-set'', TextFlag), (''labels'', TextFlag), (''runner-group'', TextFlag),
      (''min-runners'', IntFlag), (''github-url'', TextFlag), (''set'', TextFlag), (''app'', TextFlag),
      (''client-id'', TextFlag)]"

definition install_flags :: flag_set where
  "install_flags = map_of (hostFlags @ assetFlags @ settingsFlags @ [(''stop-after'', TextFlag)])"

text \<open>The settings with every flag but \<^verbatim>\<open>--vmid-range\<close> and \<^verbatim>\<open>--set\<close> applied.\<close>

definition flagged_network :: "given_flags \<Rightarrow> network" where
  "flagged_network fs =
     (let n = stNetwork Default in
      \<lparr>nBridge = flag_text fs ''bridge'' (nBridge n), nVLAN = flag_int fs ''vlan'' 0,
       nPVEAddress = flag_text fs ''pve-address'' [], nGatewayIP = flag_text fs ''gateway-ip'' (nGatewayIP n),
       nControllerIP = flag_text fs ''controller-ip'' (nControllerIP n), nLANGateway = flag_text fs ''lan-gateway'' [],
       nWorkerSubnet = flag_text fs ''worker-subnet'' (nWorkerSubnet n)\<rparr>)"

definition flagged_scale_set :: "given_flags \<Rightarrow> set_scale_set" where
  "flagged_scale_set fs =
     (let ss = stScaleSet Default; labels = flag_text fs ''labels'' [] in
      ss\<lparr>sName := flag_text fs ''scale-set'' (sName ss),
         sLabels := (if labels \<noteq> [] then Split (CHR '','') labels else sLabels ss),
         sRunnerGroup := flag_text fs ''runner-group'' (sRunnerGroup ss),
         sMinRunners := flag_int fs ''min-runners'' (sMinRunners ss)\<rparr>)"

definition flagged :: "given_flags \<Rightarrow> vmid_range \<Rightarrow> Settings.settings" where
  "flagged fs r =
     Default\<lparr>stNetwork := flagged_network fs,
       stProxmox := \<lparr>spStorage = flag_text fs ''storage'' (spStorage (stProxmox Default)), spVMIDRange = r\<rparr>,
       stGitHub := (stGitHub Default)\<lparr>sgConfigURL := TrimSuffix (flag_text fs ''github-url'' []) ''/''\<rparr>,
       stScaleSet := flagged_scale_set fs\<rparr>"

definition default_vmids :: string where
  "default_vmids = Itoa DefaultVMIDStart @ ''-'' @ Itoa DefaultVMIDEnd"

definition vmid_range_of :: "string \<Rightarrow> vmid_range option" where
  "vmid_range_of s =
     (case cut_at (CHR ''-'') s of
        (start, Some end') \<Rightarrow>
          (case (Atoi start, Atoi end') of
             (Some a, Some b) \<Rightarrow> Some \<lparr>RangeStart = a, RangeEnd = b\<rparr>
           | _ \<Rightarrow> None)
      | _ \<Rightarrow> None)"

text \<open>The values of \<^verbatim>\<open>--set\<close>, one after the other.\<close>

fun set_keys :: "henv \<Rightarrow> limits \<Rightarrow> string list \<Rightarrow> Settings.settings \<Rightarrow> error + Settings.settings" where
  "set_keys E l [] s = Inr s"
| "set_keys E l (kv # kvs) s =
     (case cut_at (CHR ''='') kv of
        (key, None) \<Rightarrow> Inl (ErrorMsg ''--set must be KEY=VALUE'')
      | (key, Some val) \<Rightarrow>
          (case SetKey (he_host E) (he_fraction E) s key val l of
             (Some e, s') \<Rightarrow> Inl (key_failure e)
           | (None, s') \<Rightarrow> set_keys E l kvs s'))"

definition app_mode_of :: "string \<Rightarrow> app_mode option" where
  "app_mode_of s = (if s = ''manifest'' then Some AppManifest else if s = ''manual'' then Some AppManual else None)"

text \<open>Whether the person gave settings: every flag that was set counts, but two.\<close>

definition settings_given :: "given_flags \<Rightarrow> bool" where
  "settings_given fs \<longleftrightarrow> list_ex (\<lambda>f. fst f \<noteq> ''app'' \<and> fst f \<noteq> ''client-id'') fs"

definition flag_settings :: "henv \<Rightarrow> given_flags \<Rightarrow> limits \<Rightarrow> error + Settings.settings \<times> app_mode" where
  "flag_settings E fs l =
     (case vmid_range_of (flag_text fs ''vmid-range'' default_vmids) of
        None \<Rightarrow> Inl (ErrorMsg ''--vmid-range must be FIRST-LAST, such as 10000-10099'')
      | Some r \<Rightarrow>
          (case set_keys E l (flag_values fs ''set'') (flagged fs r) of
             Inl e \<Rightarrow> Inl e
           | Inr s \<Rightarrow>
               (case app_mode_of (flag_text fs ''app'' ''manifest'') of
                  None \<Rightarrow> Inl (ErrorMsg ''--app must be manifest or manual'')
                | Some m \<Rightarrow> if Validate (he_host E) s \<noteq> [] then Inl (ErrorMsg ''invalid settings'') else Inr (s, m))))"

section \<open>Commands\<close>

text \<open>What a command prints, and its error.\<close>

type_synonym outcome = "string list \<times> error option"

definition silent :: "unit act \<Rightarrow> outcome act" where
  "silent m = next_act m (ret ([], None))"

definition concluded :: "error + outcome \<Rightarrow> outcome" where
  "concluded r = (case r of Inl e \<Rightarrow> ([], Some e) | Inr x \<Rightarrow> x)"

definition lifted :: "error + 'a \<Rightarrow> 'a act" where
  "lifted r = (case r of Inl e \<Rightarrow> fail e | Inr x \<Rightarrow> ret x)"

text \<open>The flags, or how a command ends without them: asking for help is no failure.\<close>

definition with_flags :: "flag_set \<Rightarrow> string list \<Rightarrow> (given_flags \<Rightarrow> outcome act) \<Rightarrow> outcome act" where
  "with_flags spec args k =
     (case parseHostFlags spec args of
        Inl e \<Rightarrow> if errors_Is e flag_ErrHelp then ret ([], None) else fail e
      | Inr fs \<Rightarrow> k fs)"

definition install_with :: "cli_env \<Rightarrow> given_flags \<Rightarrow> outcome act" where
  "install_with C fs =
     (let E = ce_host C; assets = flag_text fs ''assets'' []; assetsVersion = flag_text fs ''assets-version'' [] in
      if assets = [] \<and> assetsVersion \<noteq> [] then fail (ErrorMsg ''--assets-version needs --assets'')
      else andthen (lifted (newInstaller C (flag_bool fs ''dry-run''))) (\<lambda>in0.
        andthen (lifted (needRelease in0 assetsVersion)) (\<lambda>in1.
          let ins = in1\<lparr>inYes := flag_bool fs ''yes'', inAssets := assets, inStopAfter := flag_text fs ''stop-after'' []\<rparr> in
          andthen (node_limits E ins) (\<lambda>l.
          andthen (lifted (flag_settings E fs l)) (\<lambda>(s, mode).
            silent (Install E ins
              \<lparr>ioSettings = s, ioFlagsGiven = settings_given fs, ioApp = mode,
               ioClientID = flag_text fs ''client-id'' []\<rparr>))))))"

definition runInstall :: "cli_env \<Rightarrow> string list \<Rightarrow> outcome act" where
  "runInstall C args = with_flags install_flags args (install_with C)"

definition runUninstall :: "cli_env \<Rightarrow> string list \<Rightarrow> outcome act" where
  "runUninstall C args =
     with_flags (map_of hostFlags) args (\<lambda>fs.
       andthen (lifted (newInstaller C (flag_bool fs ''dry-run''))) (\<lambda>ins.
         silent (Uninstall (ce_host C) (ins\<lparr>inYes := flag_bool fs ''yes''\<rparr>))))"

text \<open>The check named by the first argument, if it is no flag.\<close>

definition check_target :: "string list \<Rightarrow> string \<times> string list" where
  "check_target args =
     (case args of
        [] \<Rightarrow> ([], [])
      | a # rest \<Rightarrow> if HasPrefix a ''-'' then ([], args) else (a, rest))"

definition runHostCheck :: "cli_env \<Rightarrow> string list \<Rightarrow> outcome act" where
  "runHostCheck C args0 =
     (case check_target args0 of (target', args) \<Rightarrow>
        with_flags Map.empty args (\<lambda>fs.
          andthen (lifted (newInstaller C False)) (\<lambda>ins.
            if target' = [] then silent (Check (ce_host C) ins)
            else if target' = ''network'' then silent (CheckNetworkInstalled (ce_host C) ins)
            else if target' \<in> {''config'', ''proxmox'', ''github'', ''template''}
            then silent (Forward (ce_host C) [''check'', target'])
            else fail errUsage)))"

definition status_output :: "cli_env \<Rightarrow> bool \<Rightarrow> report \<Rightarrow> outcome act" where
  "status_output C asJSON r =
     (let verdict = (if report_Failed r then Some ErrChecksFailed else None) in
      if asJSON then (case ce_json C r of Inl e \<Rightarrow> fail e | Inr out \<Rightarrow> ret ([out], verdict))
      else andthen now (\<lambda>t. ret (Render (ce_text C) (ce_warning C) r t, verdict)))"

definition runStatus :: "cli_env \<Rightarrow> string list \<Rightarrow> outcome act" where
  "runStatus C args =
     with_flags (map_of [(''json'', BoolFlag)]) args (\<lambda>fs.
       andthen (lifted (newInstaller C False)) (\<lambda>ins.
       andthen (Status_op (ce_host C) (ce_status C) ins) (status_output C (flag_bool fs ''json''))))"

definition updateFlags :: "(string \<times> flag_kind) list" where
  "updateFlags = [(''pre'', BoolFlag), (''force'', BoolFlag), (''continue'', BoolFlag)]"

definition runUpdate :: "cli_env \<Rightarrow> string list \<Rightarrow> outcome act" where
  "runUpdate C args =
     with_flags (map_of (hostFlags @ assetFlags @ updateFlags)) args (\<lambda>fs.
       andthen (lifted (newInstaller C (flag_bool fs ''dry-run''))) (\<lambda>in0.
       andthen (lifted (needRelease in0 (flag_text fs ''assets-version'' []))) (\<lambda>in1.
         silent (Update (ce_host C)
           (in1\<lparr>inYes := flag_bool fs ''yes'' \<or> flag_bool fs ''continue'', inAssets := flag_text fs ''assets'' []\<rparr>)
           \<lparr>uPre = flag_bool fs ''pre'', uContinue = flag_bool fs ''continue'', uForce = flag_bool fs ''force''\<rparr>))))"

section \<open>parcon config (configcmd.go)\<close>

text \<open>A key that a person asked about, an unknown one being a usage error.\<close>

definition asked_key :: "henv \<Rightarrow> string \<Rightarrow> described_key act" where
  "asked_key E name =
     (case described_key (he_fraction E) name of None \<Rightarrow> fail errUsage | Some k \<Rightarrow> ret k)"

definition configGet :: "henv \<Rightarrow> installer \<Rightarrow> string \<Rightarrow> outcome act" where
  "configGet E ins name =
     andthen (loadSettings E ins) (\<lambda>s. andthen (asked_key E name) (\<lambda>k. ret ([fst (kGet k s)], None)))"

definition configGetAll :: "henv \<Rightarrow> installer \<Rightarrow> outcome act" where
  "configGetAll E ins =
     andthen (loadSettings E ins) (\<lambda>s.
       ret (keys_table (he_fraction E) s @ [[], ''parcon config describe <key> says which values a key takes.''], None))"

definition describe_all :: "henv \<Rightarrow> installer \<Rightarrow> Settings.settings \<Rightarrow> described_key list \<Rightarrow> string list act" where
  "describe_all E ins s ks =
     andthen (collect (\<lambda>k. andthen (node_limits E ins) (\<lambda>l. ret (Describe k s l))) ks) (\<lambda>parts.
       ret (case parts of [] \<Rightarrow> [] | p # ps \<Rightarrow> p @ concat (map (Cons []) ps)))"

definition configDescribe :: "henv \<Rightarrow> installer \<Rightarrow> string list \<Rightarrow> outcome act" where
  "configDescribe E ins names =
     andthen (loadSettings E ins) (\<lambda>s.
     andthen (case names of [n] \<Rightarrow> andthen (asked_key E n) (\<lambda>k. ret [k]) | _ \<Rightarrow> ret (described_keys (he_fraction E))) (\<lambda>ks.
     andthen (describe_all E ins s ks) (\<lambda>out. ret (out, None))))"

text \<open>
  A refused value is explained with the key's description, for which the settings and the node are read again.
\<close>

definition configError :: "henv \<Rightarrow> installer \<Rightarrow> error + unit \<Rightarrow> outcome act" where
  "configError E ins r =
     (case r of
        Inr _ \<Rightarrow> ret ([], None)
      | Inl e \<Rightarrow>
          if errors_Is e ErrUnchanged then ret ([], None)
          else if as_value e \<noteq> None
          then next_act (ignoring (andthen (loadSettings E ins) (\<lambda>s. node_limits E ins))) (fail errUsage)
          else if errors_Is e ErrUnknownKey then fail errUsage
          else fail e)"

definition isAll :: "string \<Rightarrow> bool" where "isAll arg \<longleftrightarrow> arg = ''--all'' \<or> arg = ''-all''"

definition config_verb :: "henv \<Rightarrow> installer \<Rightarrow> string \<Rightarrow> string list \<Rightarrow> outcome act" where
  "config_verb E ins verb rest =
     (case rest of
        [] \<Rightarrow>
          if verb = ''describe'' then configDescribe E ins []
          else if verb = ''apply'' then silent (ApplyConfig E ins) else fail errUsage
      | [a] \<Rightarrow>
          if verb = ''get'' then (if isAll a then configGetAll E ins else configGet E ins a)
          else if verb = ''describe'' then configDescribe E ins [a] else fail errUsage
      | [a, b] \<Rightarrow>
          if verb = ''set'' then andthen (attempt (Commands.SetConfig E ins a b)) (configError E ins) else fail errUsage
      | _ \<Rightarrow> fail errUsage)"

definition runConfig :: "cli_env \<Rightarrow> string list \<Rightarrow> outcome act" where
  "runConfig C args =
     (case args of
        [] \<Rightarrow> fail errUsage
      | verb # rest \<Rightarrow> andthen (lifted (newInstaller C False)) (\<lambda>ins. config_verb (ce_host C) ins verb rest))"

section \<open>Usage (main.go)\<close>

definition hostUsage :: "string list" where
  "hostUsage =
     [''usage on the Proxmox host, as root:'',
      ''  parcon install [flags]                install the runners on this node, or continue an install that stopped;'',
      ''                                        parcon install -h lists the flags'',
      ''  parcon status [-json]                 the state of the whole install'',
      ''  parcon config get <key>               print a setting'',
      ''  parcon config get --all               print every setting, with its default and what it is'',
      ''  parcon config set <key> <value>       change a setting; the controller restarts with it'',
      ''  parcon config describe [<key>]        which values a setting takes, and when a change applies'',
      ''  parcon config apply                   push the settings to the controller again'',
      ''  parcon update [-pre] [-yes] [-dry-run]'',
      ''                                        update to the newest release (-pre: or pre-release), once its signature'',
      ''                                        checks out; running it again continues an update that stopped'',
      ''  parcon uninstall [-yes] [-dry-run]    remove everything parcon created, and parcon itself'',
      ''  parcon check                          check this node, and after an install, the controller too'',
      ''  parcon check network                  check the worker network from a throwaway worker'',
      ''  parcon check config|proxmox|github|template'',
      ''                                        run one of the controller's checks in the controller VM'',
      ''  parcon version'']"

definition vmUsage :: "string list" where
  "vmUsage =
     [''usage in the controller VM:'',
      ''  parcon version'',
      ''  parcon run [-config path] [-log-level level]'',
      ''                                        run the controller until SIGINT or SIGTERM'',
      ''  parcon check config [-config path]    validate the config file'',
      ''  parcon check proxmox [-config path]   check the Proxmox VE API, token privileges, and storage'',
      ''  parcon check github [-config path]    check the GitHub App credentials and scale set registration'',
      ''  parcon check template [-config path]  check the runner template and its actions/runner version'',
      ''  parcon github app create [-key-file path] < code'',
      ''                                        create the GitHub App from the manifest code on stdin, write its key,'',
      ''                                        and print its clientId, appId, slug, owner, and ownerType as JSON'',
      ''  parcon github app import [-key-file path] < key.pem'',
      ''                                        write an existing GitHub App's private key from stdin'',
      ''  parcon github app wait-installation -client-id id [-key-file path] [-timeout duration]'',
      ''                                        wait until the App is installed and print its installationId,'',
      ''                                        account, accountType, and (for a personal account) repositories'',
      ''                                        as JSON'',
      ''  parcon github scaleset delete [-config path]'',
      ''                                        remove the configured scale sets and their runners from GitHub'']"

definition usageText :: "bool \<Rightarrow> string list" where
  "usageText onHost = (if onHost then hostUsage else vmUsage)"

section \<open>Which command runs\<close>

definition quieted :: "error \<Rightarrow> error" where
  "quieted e = (if errors_Is e ErrCanceled \<or> errors_Is e ErrChecksFailed then Quiet e else e)"

definition host_command :: "cli_env \<Rightarrow> string \<Rightarrow> (string list \<Rightarrow> outcome act) option" where
  "host_command C command =
     map_of
       [(''install'', runInstall C), (''uninstall'', runUninstall C), (''check'', runHostCheck C),
        (''status'', runStatus C), (''config'', runConfig C), (''update'', runUpdate C)] command"

definition finish :: "outcome act \<Rightarrow> host \<Rightarrow> outcome \<times> host" where
  "finish m w = (case m w of (r, w') \<Rightarrow> (case concluded r of (out, err) \<Rightarrow> (out, map_option quieted err), w'))"

definition runHost :: "cli_env \<Rightarrow> string \<Rightarrow> string list \<Rightarrow> host \<Rightarrow> outcome \<times> host" where
  "runHost C command args w =
     (case host_command C command of
        Some f \<Rightarrow> finish (f args) w
      | None \<Rightarrow>
          if command = ''run'' \<or> command = ''github''
          then (([], Some (ErrorMsg (''parcon '' @ command @ '' runs in the controller VM; parcon install sets it up''))), w)
          else (([], Some errUsage), w))"

text \<open>The controller VM's commands are a parameter: \<open>vm\<close> is what one of them does with its arguments.\<close>

definition cli_run ::
  "cli_env \<Rightarrow> (string \<Rightarrow> string list \<Rightarrow> outcome) \<Rightarrow> string list \<Rightarrow> host \<Rightarrow> outcome \<times> host" where
  "cli_run C vm args w =
     (case args of
        [] \<Rightarrow> (([], Some errUsage), w)
      | command # rest \<Rightarrow>
          if command = ''version'' then (([buildVersion C], None), w)
          else if command \<in> {''help'', ''-h'', ''-help'', ''--help''} then ((usageText (ce_hostMode C), None), w)
          else if ce_hostMode C then runHost C command rest w
          else if command \<in> {''run'', ''check'', ''github''} then (vm command rest, w)
          else if command \<in> {''install'', ''uninstall'', ''status'', ''update'', ''config''}
          then (([], Some (ErrorMsg (''parcon '' @ command @ '' runs on the Proxmox host, not in the controller VM''))), w)
          else (([], Some errUsage), w))"

section \<open>How parcon exits\<close>

definition exit_code :: "error option \<Rightarrow> int" where
  "exit_code err = (case err of None \<Rightarrow> 0 | Some e \<Rightarrow> if errors_Is e errUsage then 2 else 1)"

definition main_says :: "(error \<Rightarrow> string) \<Rightarrow> error option \<Rightarrow> string option" where
  "main_says text_of err =
     (case err of
        None \<Rightarrow> None
      | Some e \<Rightarrow>
          if errors_Is e errUsage then None
          else if as_quiet e \<noteq> None
          then (if errors_Is e ErrCanceled then Some ''parcon: canceled'' else None)
          else Some (''parcon: '' @ text_of e))"

end
