(* ===== verification/Cli_Facts.thy ===== *)
theory Cli_Facts
  imports Cli Settings_Facts
begin

text \<open>
  What a command line guarantees: a dry run changes nothing, \<^verbatim>\<open>parcon status\<close> exits with 0 only when all is clear, a
  command runs only where it belongs, a refused setting is a usage error that changes nothing, and an install's flags
  give the settings they were written from. Two lemmas show where the code does not do what it means to: a declined
  plan is never said to be canceled, and \<^verbatim>\<open>--yes\<close> counts as a setting.
\<close>

section \<open>A command's events\<close>

lemma emits_silent [emits_rules]: "emits P m \<Longrightarrow> emits P (silent m)"
  unfolding silent_def by (intro emits_rules)

lemma emits_lifted [emits_rules]: "emits P (lifted r)"
  unfolding lifted_def by (cases r) (auto intro: emits_rules)

lemma emits_with_flags:
  assumes "\<And>fs. parseHostFlags spec args = Inr fs \<Longrightarrow> emits P (k fs)"
  shows "emits P (with_flags spec args k)"
  unfolding with_flags_def using assms by (cases "parseHostFlags spec args") (auto intro: emits_rules)

text \<open>The events a command adds to the history.\<close>

definition adds :: "(hevent \<Rightarrow> bool) \<Rightarrow> host \<Rightarrow> host \<Rightarrow> bool" where
  "adds P w w' \<longleftrightarrow> (\<exists>es. hTrace w' = es @ hTrace w \<and> list_all P es)"

lemma adds_refl: "adds P w w" by (simp add: adds_def)

lemma adds_emits: "emits P m \<Longrightarrow> adds P w (snd (m w))"
  unfolding adds_def by (metis emitsE)

lemma emits_lifted_then: "(\<And>x. r = Inr x \<Longrightarrow> emits P (f x)) \<Longrightarrow> emits P (andthen (lifted r) f)"
  unfolding lifted_def by (cases r) (auto simp: andthen_def ret_def fail_def emits_iff)

lemma finish_adds: "emits P m \<Longrightarrow> adds P w (snd (finish m w))"
  using adds_emits [of P m w] by (simp add: finish_def split_beta)

lemma finish_fst: "fst (finish m w) = (case concluded (fst (m w)) of (out, err) \<Rightarrow> (out, map_option quieted err))"
  by (simp add: finish_def split_beta)

section \<open>Dry runs\<close>

text \<open>The flags of the commands that take \<^verbatim>\<open>--dry-run\<close>.\<close>

definition dry_flags :: "string \<Rightarrow> flag_set option" where
  "dry_flags =
     map_of [(''install'', install_flags), (''uninstall'', map_of hostFlags),
             (''update'', map_of (hostFlags @ assetFlags @ updateFlags))]"

lemma newInstaller_dry: "newInstaller C dry = Inr ins \<Longrightarrow> inDryRun ins = dry"
  by (auto simp: newInstaller_def installer_New_def split: sum.splits option.splits)

lemma needRelease_dry: "needRelease ins v = Inr ins' \<Longrightarrow> inDryRun ins' = inDryRun ins"
  by (auto simp: needRelease_def split: if_splits option.splits)

lemma dry_install:
  assumes "flag_bool fs ''dry-run''"
  shows "emits quiet (install_with C fs)"
  unfolding install_with_def Let_def
  by (intro emits_if emits_fail emits_lifted_then emits_andthen emits_prod emits_silent quieting install_dry)
    (use assms in \<open>auto dest!: newInstaller_dry needRelease_dry\<close>)

lemma dry_uninstall: "flag_bool fs ''dry-run'' \<Longrightarrow> emits quiet
    (andthen (lifted (newInstaller C (flag_bool fs ''dry-run''))) (\<lambda>ins. silent (Uninstall E (ins\<lparr>inYes := y\<rparr>))))"
  by (intro emits_lifted_then emits_silent uninstall_dry) (auto dest!: newInstaller_dry)

lemma dry_update: "flag_bool fs ''dry-run'' \<Longrightarrow> emits quiet
    (andthen (lifted (newInstaller C (flag_bool fs ''dry-run''))) (\<lambda>in0.
     andthen (lifted (needRelease in0 v)) (\<lambda>in1. silent (Update E (in1\<lparr>inYes := y, inAssets := a\<rparr>) opts))))"
  by (intro emits_lifted_then emits_silent update_dry(2)) (auto dest!: newInstaller_dry needRelease_dry)

lemma dry_command:
  assumes "dry_flags command = Some spec" and "parseHostFlags spec args = Inr fs" and "flag_bool fs ''dry-run''"
  shows "\<exists>f. host_command C command = Some f \<and> emits quiet (f args)"
proof -
  from assms(1) consider "command = ''install''" "spec = install_flags" | "command = ''uninstall''" "spec = map_of hostFlags"
    | "command = ''update''" "spec = map_of (hostFlags @ assetFlags @ updateFlags)"
    by (auto simp: dry_flags_def split: if_splits)
  then show ?thesis
  proof cases
    case 1
    then show ?thesis
      using assms by (auto simp: host_command_def runInstall_def intro!: emits_with_flags dry_install)
  next
    case 2
    then show ?thesis
      using assms by (auto simp: host_command_def runUninstall_def intro!: emits_with_flags dry_uninstall)
  next
    case 3
    then show ?thesis
      using assms by (auto simp: host_command_def runUpdate_def intro!: emits_with_flags dry_update)
  qed
qed

lemma host_command_cli:
  assumes "ce_hostMode C" and "host_command C command = Some f"
  shows "cli_run C vm (command # args) w = finish (f args) w"
proof -
  have "command \<notin> {''version'', ''help'', ''-h'', ''-help'', ''--help''}"
    using assms(2) by (auto simp: host_command_def)
  then show ?thesis using assms by (simp add: cli_run_def runHost_def)
qed


definition example_cli :: "resource list \<Rightarrow> cli_env" where
  "example_cli rs =
     \<lparr>ce_host = example_henv rs, ce_status = \<lparr>se_snapshot = (\<lambda>_. None), se_runner = (\<lambda>_. Inl ErrNotExist)\<rparr>,
      ce_hostMode = True, ce_self = Inr ''/tmp/parcon'', ce_version = ''1.2.3'', ce_module = None, ce_codec = example_codec, ce_keys = example_keys,
      ce_json = (\<lambda>_. Inr ''{}''), ce_text = (\<lambda>_. ''error''), ce_warning = (\<lambda>_. ''warning'')\<rparr>"


section \<open>parcon status\<close>

lemma andthen_Inr_Inr: "andthen m f w = (Inr y, w'') \<Longrightarrow> \<exists>x w'. m w = (Inr x, w') \<and> f x w' = (Inr y, w'')"
  by (auto simp: andthen_def split: prod.splits sum.splits)

lemma finish_silent:
  assumes "finish m w = ((out, None), w')"
  shows "m w = (Inr (out, None), w')"
proof -
  obtain r where r: "m w = (r, w')" and "(case concluded r of (out, err) \<Rightarrow> (out, map_option quieted err)) = (out, None)"
    using assms by (auto simp: finish_def split: prod.splits)
  then have "concluded r = (out, None)" by (auto split: prod.splits)
  then show ?thesis using r by (cases r) (auto simp: concluded_def)
qed

lemma status_output_ok:
  assumes "status_output C asJSON r w = (Inr (out, None), w')"
  shows "\<not> report_Failed r \<and> w' = w
    \<and> (if asJSON then \<exists>t. ce_json C r = Inr t \<and> out = [t] else out = Render (ce_text C) (ce_warning C) r (hClock w))"
  using assms
  by (auto simp: status_output_def ret_def fail_def now_def andthen_def Let_def split: if_splits sum.splits)

text \<open>
  When \<^verbatim>\<open>parcon status\<close> exits with 0, for people or for scripts, it printed a report in which all is clear: the gateway
  and the controller VM were found running, inside each a command found its services active, there is a newest runner
  template, and no scale set's session with GitHub ended with an error.
\<close>
theorem status_exit_zero:
  assumes "ce_hostMode C" and "parseHostFlags (map_of [(''json'', BoolFlag)]) args = Inr fs"
  shows "case cli_run C vm (''status'' # args) w of ((out, err), w') \<Rightarrow>
    0 < exit_code err
    \<or> (\<exists>r. all_clear (ce_host C) r (hTrace w')
          \<and> (out = Render (ce_text C) (ce_warning C) r (hClock w') \<or> (\<exists>t. ce_json C r = Inr t \<and> out = [t])))"
proof -
  obtain out err w' where run: "cli_run C vm (''status'' # args) w = ((out, err), w')"
    by (cases "cli_run C vm (''status'' # args) w") auto
  have "\<exists>r. all_clear (ce_host C) r (hTrace w')
      \<and> (out = Render (ce_text C) (ce_warning C) r (hClock w') \<or> (\<exists>t. ce_json C r = Inr t \<and> out = [t]))"
    if "err = None"
  proof -
    have "host_command C ''status'' = Some (runStatus C)" by (simp add: host_command_def)
    then have "finish (runStatus C args) w = ((out, None), w')"
      using run host_command_cli [OF assms(1)] that by metis
    then have "runStatus C args w = (Inr (out, None), w')" by (rule finish_silent)
    then obtain ins w1 r w2 where s: "Status_op (ce_host C) (ce_status C) ins w1 = (Inr r, w2)"
      and o: "status_output C (flag_bool fs ''json'') r w2 = (Inr (out, None), w')"
      unfolding runStatus_def with_flags_def assms(2) sum.case
      by (auto dest!: andthen_Inr_Inr)
    have "report_Failed r \<or> all_clear (ce_host C) r (hTrace w2)"
      using status_clear [of "ce_host C" "ce_status C" ins w1] s by simp
    then show ?thesis using status_output_ok [OF o] by (cases "flag_bool fs ''json''") auto
  qed
  then show ?thesis using run by (cases err) (auto simp: exit_code_def)
qed

theorem status_exit_zero_witness:
  "ce_hostMode (example_cli []) \<and> parseHostFlags (map_of [(''json'', BoolFlag)]) [''-json''] = Inr [(''json'', ''true'')]
   \<and> (case cli_run (example_cli []) (\<lambda>_ _. ([], None)) [''status'', ''-json''] example_host of ((out, err), w') \<Rightarrow>
        0 < exit_code err
        \<or> (\<exists>r. all_clear (example_henv []) r (hTrace w')
              \<and> (out = Render (\<lambda>_. ''error'') (\<lambda>_. ''warning'') r (hClock w') \<or> (\<exists>t. Inr ''{}'' = (Inr t :: error + string) \<and> out = [t]))))"
proof -
  have p: "parseHostFlags (map_of [(''json'', BoolFlag)]) [''-json''] = Inr [(''json'', ''true'')]"
    by (simp add: parseHostFlags_def parse_flags.simps parse_named_def cut_flag_def)
  have h: "ce_hostMode (example_cli [])" by (simp add: example_cli_def)
  show ?thesis
    using status_exit_zero [OF h p, of "\<lambda>_ _. ([], None)" example_host] h p by (simp add: example_cli_def)
qed

section \<open>Refused settings\<close>

lemma andthen_ret: "andthen (ret x) f w = f x w"
  by (simp add: andthen_def ret_def)

lemma ignoring_fail: "next_act (ignoring m) (fail e) w = (Inl e, snd (m w))"
  by (simp add: next_act_def ignoring_def andthen_def attempt_def ret_def fail_def split_beta)

lemma SetKey_refuses:
  "SetKey sh frac s key val l = (Some e, s') \<Longrightarrow> Lookup frac key = Inr k \<Longrightarrow> key_failure e = ErrValue key val"
  by (auto simp: SetKey_def store_key_def key_failure_def split: sum.splits if_splits)

lemma SetConfig_refuses:
  assumes "loadSettings E ins w = (Inr s, w1)" and "Lookup (he_fraction E) key = Inr k"
    and "node_limits E ins w1 = (Inr l, w2)"
    and "SetKey (he_host E) (he_fraction E) s key val l = (Some e, s')"
  shows "Commands.SetConfig E ins key val w = (Inl (ErrValue key val), w2)"
  unfolding Commands.SetConfig_def
  using assms by (simp add: andthen_def fail_def SetKey_refuses [OF assms(4,2)])

lemma config_set_refuses:
  assumes "Commands.SetConfig E ins key val w = (Inl (ErrValue key val), w2)"
  shows "config_verb E ins ''set'' [key, val] w
    = (Inl errUsage, snd (andthen (loadSettings E ins) (\<lambda>s. node_limits E ins) w2))"
  using assms by (simp add: config_verb_def andthen_def [of "attempt _"] attempt_def configError_def ignoring_fail)

lemma adds_trans: "adds P w w1 \<Longrightarrow> adds P w1 w2 \<Longrightarrow> adds P w w2"
  by (auto simp: adds_def)

text \<open>
  C26. \<^verbatim>\<open>parcon config set\<close> with a value that the key or another setting doesn't allow is a usage error: it exits with 2,
  prints nothing but the key's guidance, and only read.
\<close>
theorem refused_value_exits_2:
  assumes "ce_hostMode C" and "newInstaller C False = Inr ins"
    and "loadSettings (ce_host C) ins w = (Inr s, w1)" and "Lookup (he_fraction (ce_host C)) key = Inr k"
    and "node_limits (ce_host C) ins w1 = (Inr l, w2)"
    and "SetKey (he_host (ce_host C)) (he_fraction (ce_host C)) s key val l = (Some e, s')"
    and "cli_run C vm [''config'', ''set'', key, val] w = ((out, err), w')"
  shows "exit_code err = 2 \<and> out = [] \<and> main_says t err = None
    \<and> (\<exists>es. hTrace w' = es @ hTrace w \<and> list_all is_read es)"
proof -
  let ?E = "ce_host C"
  have c: "host_command C ''config'' = Some (runConfig C)" by (simp add: host_command_def)
  have m: "runConfig C [''set'', key, val] w
    = (Inl errUsage, snd (andthen (loadSettings ?E ins) (\<lambda>s. node_limits ?E ins) w2))"
    using config_set_refuses [OF SetConfig_refuses [OF assms(3-6)]]
    by (simp add: runConfig_def assms(2) lifted_def andthen_ret)
  have r: "((out, err), w') = (([], Some errUsage), snd (andthen (loadSettings ?E ins) (\<lambda>s. node_limits ?E ins) w2))"
    using assms(7) m by (simp add: host_command_cli [OF assms(1) c] finish_def concluded_def quieted_def)
  have "adds is_read w w1" and "adds is_read w1 w2"
    using adds_emits [of is_read "loadSettings ?E ins" w] adds_emits [of is_read "node_limits ?E ins" w1] assms(3,5)
    by (auto intro: reading)
  moreover have "adds is_read w2 w'"
    using r by (auto intro!: adds_emits emits_rules reading)
  ultimately have "adds is_read w w'" by (blast intro: adds_trans)
  then show ?thesis using r by (simp add: adds_def exit_code_def main_says_def)
qed

definition example_saved :: cli_env where
  "example_saved = (example_cli [])\<lparr>ce_host := (example_henv [])\<lparr>he_readSettings := (\<lambda>_. YamlDoc Default False)\<rparr>\<rparr>"

theorem refused_value_exits_2_witness:
  "exit_code (snd (fst (cli_run example_saved (\<lambda>_ _. ([], None)) [''config'', ''set'', ''runners.max'', ''two''] example_host))) = 2"
proof -
  let ?E = "ce_host example_saved"
  obtain ins where i: "newInstaller example_saved False = Inr ins"
    by (simp add: newInstaller_def installer_New_def example_saved_def example_cli_def example_trusted)
  have v: "settings_Parse (he_host ?E) (he_readSettings ?E) d = Inr Default" for d
    using Default_valid [of Some]
    by (simp add: settings_Parse_def example_saved_def example_cli_def example_henv_def Validate_valid)
      (simp add: Default_def)
  have "he_text ?E es = Inr []" for es by (simp add: example_saved_def example_cli_def example_henv_def)
  then obtain w1 where l: "loadSettings ?E ins example_host = (Inr Default, w1)"
    by (simp add: loadSettings_def settings_Load_def ReadFile_def asks_def event_def mapping_error_def andthen_def attempt_def
        ret_def v)
  obtain l w2 where n: "node_limits ?E ins w1 = (Inr l, w2)"
    by (simp add: node_limits_def or_else_def andthen_def attempt_def ret_def split_beta)
  obtain k where k: "Lookup (he_fraction ?E) ''runners.max'' = Inr k" "kSet k = runnersMax_Set"
    by (simp add: Lookup_def Keys_def)
  have "Atoi (TrimSpace ''two'') = None"
    by (simp add: go_eval)
  then obtain e where e: "SetKey (he_host ?E) (he_fraction ?E) Default ''runners.max'' ''two'' l = (Some e, Default)"
    using k by (simp add: SetKey_def store_key_def runnersMax_Set_def)
  have h: "ce_hostMode example_saved" by (simp add: example_saved_def example_cli_def)
  obtain out err w' where r: "cli_run example_saved (\<lambda>_ _. ([], None)) [''config'', ''set'', ''runners.max'', ''two''] example_host
      = ((out, err), w')"
    by (metis prod.exhaust)
  show ?thesis using refused_value_exits_2 [OF h i l k(1) n e r, of "\<lambda>_. []"] r by simp
qed

section \<open>Settings from flags\<close>

lemma leading_digit: "0 < n \<Longrightarrow> hd (fmt_nat 10 n) \<noteq> CHR ''0''"
proof (induction n rule: less_induct)
  case (less n)
  show ?case
  proof (cases "n < 10")
    case True
    then have "(of_char (digit_char n) :: nat) = 48 + n" by (simp add: of_char_digit_char)
    then have "digit_char n \<noteq> CHR ''0''" using less.prems by auto
    then show ?thesis using True by (simp add: fmt_nat.simps [of 10 n])
  next
    case False
    then show ?thesis using less.IH [of "n div 10"] by (simp add: fmt_nat.simps [of 10 n])
  qed
qed

lemma digit_chars_plain: "c \<in> set (fmt_nat 10 n) \<Longrightarrow> is_digit c"
  using fmt_nat_digits [of 10 c n] by (auto simp: is_digit_def of_char_digit_char)

lemma is_digit_plain: "is_digit c \<Longrightarrow> c \<noteq> CHR ''_'' \<and> lower_char c = c"
  by (auto simp: is_digit_def lower_char_def Let_def)

lemma underscores_ok_digits: "list_all is_digit s \<Longrightarrow> underscores_ok b s"
  by (induction s arbitrary: b) (auto dest: is_digit_plain)

lemma zero_char: "char_of (48 :: nat) = CHR ''0''"
proof -
  have "(of_char (CHR ''0'') :: nat) = 48" by simp
  then show ?thesis by (metis char_of_char)
qed

lemma literal_nat_fmt: "literal_nat (fmt_nat 10 n) = Some n"
proof (cases "n = 0")
  case True
  then show ?thesis by (simp add: fmt_nat.simps [of 10 0] literal_nat_def literal_base_def digit_char_def zero_char ToLower_def)
next
  case False
  have d: "list_all is_digit (fmt_nat 10 n)" by (simp add: list_all_iff digit_chars_plain)
  then have "filter (\<lambda>c. c \<noteq> CHR ''_'') (ToLower (fmt_nat 10 n)) = fmt_nat 10 n"
    by (simp add: ToLower_def list_all_iff is_digit_plain cong: filter_cong map_cong)
  then show ?thesis
    using False leading_digit [of n] underscores_ok_digits [OF d]
    by (simp add: literal_nat_def literal_base_decimal digits_acc_fmt_nat)
qed

lemma ParseInt0_Itoa:
  assumes "0 \<le> i" and "in_int64 i"
  shows "ParseInt0 (Itoa i) = Some i"
proof -
  obtain c cs where cs: "fmt_nat 10 (nat i) = c # cs" by (cases "fmt_nat 10 (nat i)") auto
  then have "c \<noteq> CHR ''-''" "c \<noteq> CHR ''+''" using fmt_nat_no_sign [of 10 "nat i"] by auto
  then show ?thesis
    using assms literal_nat_fmt [of "nat i"] cs
    by (simp add: ParseInt0_def Itoa_def FormatInt_def in_int64_def nat_less_iff)
qed

text \<open>The flags that give settings, and the settings that flags alone can give.\<close>

definition install_line :: "Settings.settings \<Rightarrow> given_flags" where
  "install_line s =
     (let n = stNetwork s; r = spVMIDRange (stProxmox s); ss = stScaleSet s in
      [(''bridge'', nBridge n), (''vlan'', Itoa (nVLAN n)), (''pve-address'', nPVEAddress n),
       (''gateway-ip'', nGatewayIP n), (''controller-ip'', nControllerIP n), (''lan-gateway'', nLANGateway n),
       (''worker-subnet'', nWorkerSubnet n), (''storage'', spStorage (stProxmox s)),
       (''vmid-range'', Itoa (RangeStart r) @ ''-'' @ Itoa (RangeEnd r)), (''scale-set'', sName ss),
       (''labels'', Join (sLabels ss) '',''), (''runner-group'', sRunnerGroup ss),
       (''min-runners'', Itoa (sMinRunners ss)), (''github-url'', sgConfigURL (stGitHub s))])"

definition by_flags :: "Settings.settings \<Rightarrow> bool" where
  "by_flags s \<longleftrightarrow>
     stVersion s = stVersion Default \<and> sgApp (stGitHub s) = sgApp (stGitHub Default) \<and> stWorker s = stWorker Default
     \<and> sMaxRunners (stScaleSet s) = DefaultMaxRunners \<and> sMaxLifetime (stScaleSet s) = 0"

lemma cut_at_chars:
  "(a, b) = cut_at c s \<Longrightarrow> s = a @ (case b of None \<Rightarrow> [] | Some t \<Rightarrow> c # t)"
  by (induction s arbitrary: a b) (auto split: if_splits prod.splits)

lemma githubURL_last: "githubURLPattern u \<Longrightarrow> u \<noteq> [] \<and> last u \<noteq> CHR ''/''"
proof -
  assume "githubURLPattern u"
  then obtain r owner repo where u: "u = ''https://github.com/'' @ r" and c: "(owner, repo) = cut_at (CHR ''/'') r"
    and o': "owner \<noteq> []" "list_all owner_char owner"
    and p: "case repo of None \<Rightarrow> True | Some p \<Rightarrow> p \<noteq> [] \<and> list_all label_char p"
    by (auto simp: githubURLPattern_def CutPrefix_Some_iff split: option.splits prod.splits)
  have n: "\<not> owner_char (CHR ''/'')" "\<not> label_char (CHR ''/'')"
    by (simp_all add: owner_char_def label_char_def alnum_def is_alpha_def is_digit_def)
  have "last r \<noteq> CHR ''/'' \<and> r \<noteq> []"
  proof (cases repo)
    case None
    then have "r = owner" using cut_at_chars [OF c] by simp
    then show ?thesis using o' n by (metis list_all_iff last_in_set)
  next
    case (Some q)
    then have "r = owner @ CHR ''/'' # q" "q \<noteq> []" "list_all label_char q" using cut_at_chars [OF c] p by auto
    then show ?thesis using n by (metis append_is_Nil_conv last.simps last_appendR last_in_set list.distinct(1) list_all_iff)
  qed
  then show ?thesis using u by simp
qed

lemma TrimSuffix_slash: "u = [] \<or> last u \<noteq> CHR ''/'' \<Longrightarrow> TrimSuffix u ''/'' = u"
  by (cases u rule: rev_cases) (auto simp: TrimSuffix_def)

lemma vmid_range_read:
  assumes "0 \<le> RangeStart r" and "in_int64 (RangeStart r)" and "in_int64 (RangeEnd r)"
  shows "vmid_range_of (Itoa (RangeStart r) @ CHR ''-'' # Itoa (RangeEnd r)) = Some r"
proof -
  have "CHR ''-'' \<notin> set (Itoa (RangeStart r))" using assms(1) by (simp add: Itoa_def FormatInt_no_dash)
  then show ?thesis using assms(2,3) by (simp add: vmid_range_of_def cut_at_first ParseInt_Itoa)
qed

lemma labels_read:
  assumes "list_all labelPattern ls"
  shows "(if Join ls '','' \<noteq> [] then Split (CHR '','') (Join ls '','') else []) = ls"
proof (cases "ls = []")
  case False
  have "\<not> label_char (CHR '','')" by (simp add: label_char_def alnum_def is_alpha_def is_digit_def)
  then have "\<forall>l\<in>set ls. CHR '','' \<notin> set l" using assms by (auto simp: labelPattern_def list_all_iff)
  moreover have "Join ls '','' \<noteq> []" using False assms by (induction ls "'',''" rule: Join.induct) (auto simp: labelPattern_def)
  ultimately show ?thesis using False by (simp add: Split_Join)
qed simp

lemma labels_split: "list_all labelPattern ls \<Longrightarrow> Join ls '','' \<noteq> [] \<Longrightarrow> Split (CHR '','') (Join ls '','') = ls"
  using labels_read [of ls] by simp

lemma labels_none: "list_all labelPattern ls \<Longrightarrow> Join ls '','' = [] \<longleftrightarrow> ls = []"
  using labels_read [of ls] by (cases ls) auto

lemma install_line_writable:
  assumes "0 \<le> nVLAN (stNetwork s)" and "in_int64 (nVLAN (stNetwork s))"
    and "0 \<le> sMinRunners (stScaleSet s)" and "in_int64 (sMinRunners (stScaleSet s))"
  shows "\<forall>f\<in>set (install_line s). writable install_flags f"
  using assms
  by (simp add: install_line_def Let_def writable_def install_flags_def hostFlags_def assetFlags_def settingsFlags_def
      TextFlag_def IntFlag_def takes_def ParseInt0_Itoa)

lemma flagged_line:
  assumes "by_flags s" and "valid_settings sh s"
    and "in_int64 (nVLAN (stNetwork s))" and "in_int64 (sMinRunners (stScaleSet s))"
  shows "flagged (install_line s) (spVMIDRange (stProxmox s)) = s"
proof -
  have net: "flagged_network (install_line s) = stNetwork s"
    using assms by (cases "stNetwork s")
      (simp add: flagged_network_def install_line_def Let_def flag_text_def flag_int_def flag_values_def ParseInt0_Itoa
        valid_settings_def valid_network_def)
  have set: "flagged_scale_set (install_line s) = stScaleSet s"
    using assms
    by (cases "stScaleSet s")
      (simp add: flagged_scale_set_def install_line_def Let_def flag_text_def flag_int_def flag_values_def ParseInt0_Itoa
        valid_settings_def valid_set_def by_flags_def Default_def labels_split labels_none)
  have url: "TrimSuffix (sgConfigURL (stGitHub s)) ''/'' = sgConfigURL (stGitHub s)"
    using assms(2) githubURL_last by (intro TrimSuffix_slash) (auto simp: valid_settings_def valid_app_def)
  have "stGitHub s = (stGitHub Default)\<lparr>sgConfigURL := sgConfigURL (stGitHub s)\<rparr>"
    using assms(1) by (cases "stGitHub s") (simp add: by_flags_def Default_def)
  moreover have "stProxmox s = \<lparr>spStorage = spStorage (stProxmox s), spVMIDRange = spVMIDRange (stProxmox s)\<rparr>" by simp
  moreover have "flag_text (install_line s) ''github-url'' [] = sgConfigURL (stGitHub s)"
    and "flag_text (install_line s) ''storage'' (spStorage (stProxmox Default)) = spStorage (stProxmox s)"
    by (simp_all add: install_line_def Let_def flag_text_def flag_values_def)
  ultimately show ?thesis
    using assms(1) net set url unfolding flagged_def by (cases s) (simp add: by_flags_def Default_def)
qed


definition example_settings :: Settings.settings where
  "example_settings =
     Default\<lparr>stScaleSet := (stScaleSet Default)\<lparr>sName := ''big'', sLabels := [''big'', ''linux'']\<rparr>,
       stNetwork := (stNetwork Default)\<lparr>nVLAN := 20\<rparr>\<rparr>"

lemma example_settings_valid: "Validate Some example_settings = []"
proof -
  have "valid_set False (stScaleSet example_settings)"
    by (simp add: valid_set_def example_settings_def Default_def install_defaults ScaleSetNamePattern_def labelPattern_def
        runnerGroupPattern_def label_char_def alnum_def is_alpha_def name_first_def is_digit_def go_eval)
  then show ?thesis
    using Default_valid [of Some] by (simp add: Validate_valid valid_settings_def valid_network_def example_settings_def Default_def
        DefaultMaxRunners_def)
qed


section \<open>Where the code misses its aim\<close>

text \<open>
  A declined plan should be said to be canceled, but on the host nothing ever is: \<open>quieted\<close> wraps the error, and
  \<^verbatim>\<open>errors.Is\<close> doesn't see through the wrapper.
\<close>

lemma quieted_not_canceled: "\<not> errors_Is (quieted e) ErrCanceled"
  by (auto simp: quieted_def)

theorem declined_is_never_said:
  "ce_hostMode C \<Longrightarrow> snd (fst (cli_run C vm args w)) = Some e \<Longrightarrow> \<not> errors_Is e ErrCanceled"
proof (cases args)
  case (Cons command rest)
  assume h: "ce_hostMode C" and e: "snd (fst (cli_run C vm args w)) = Some e"
  have "\<not> errors_Is e ErrCanceled" if "snd (fst (runHost C command rest w)) = Some e"
  proof (cases "host_command C command")
    case None
    then show ?thesis using that by (auto simp: runHost_def split: if_splits)
  next
    case (Some f)
    then show ?thesis
      using that by (auto simp: runHost_def finish_def quieted_not_canceled split: prod.splits)
  qed
  moreover have "snd (fst (runHost C command rest w)) = Some e"
  proof (cases "command = ''version'' \<or> command \<in> {''help'', ''-h'', ''-help'', ''--help''}")
    case True
    then show ?thesis using e by (simp add: Cons cli_run_def split: if_split_asm)
  next
    case False
    then show ?thesis using e h unfolding Cons cli_run_def list.case by simp
  qed
  ultimately show ?thesis by blast
qed (simp add: cli_run_def)

text \<open>
  \<^verbatim>\<open>--yes\<close> alone counts as a setting, so \<^verbatim>\<open>parcon install --yes\<close> refuses to continue an install that stopped.
\<close>

theorem yes_counts_as_setting:
  assumes "InstalledRelease E w = (Inr None, w1)" and "settings_Load E (inSettingsPath ins) w1 = (Inr saved, w2)"
    and "ioFlagsGiven opts = settings_given fs" and "parseHostFlags install_flags [''--yes''] = Inr fs"
  shows "Install E ins opts w = (Inl (ErrorMsg ''an earlier install's settings are saved''), w2)"
proof -
  have "fs = [(''yes'', ''true'')]"
    using assms(4)
    by (simp add: parseHostFlags_def parse_flags.simps parse_named_def cut_flag_def install_flags_def hostFlags_def)
  then have "ioFlagsGiven opts" using assms(3) by (simp add: settings_given_def)
  then show ?thesis using assms(1,2) by (simp add: Install_def andthen_def attempt_def errorf_def fail_def)
qed

end
