(* ===== verification/Vm_Commands.thy ===== *)
theory Vm_Commands
  imports Flags Github_Rest Config Pvecli
begin

text \<open>
  \<^verbatim>\<open>parcon\<close>'s commands in the controller VM (\<^verbatim>\<open>cmd/parcon/check.go\<close>, \<^verbatim>\<open>github.go\<close>, \<^verbatim>\<open>scaleset.go\<close>, \<^verbatim>\<open>run.go\<close>). A command
  works on \<open>vm_world\<close>: the VM's files, the requests sent to Proxmox and GitHub so far, the scale sets it asked GitHub
  to delete, and the clock. \<open>vm_env\<close> holds what is outside: the servers' answers, the file operations' outcomes, YAML,
  standard input, and how errors and dates are written. Standard error is left out.
\<close>

section \<open>The VM's world\<close>

record vm_env =
  ve_rest :: rest_env
  ve_wire :: wire
  ve_api :: scaleset_api
  ve_made :: "github_options \<Rightarrow> error option"
  ve_ops :: atomic_ops
  ve_stdin :: "string \<times> error option"
  ve_stat :: "string \<Rightarrow> file_info option"
  ve_yaml :: "string \<Rightarrow> config yaml"
  ve_host :: "string \<Rightarrow> string option"
  ve_certs :: "string \<Rightarrow> bool"
  ve_fraction :: "string \<Rightarrow> nat \<Rightarrow> nat"
  ve_elapsed :: "request list \<Rightarrow> nat"
  ve_version :: string
  ve_hostname :: "string option"
  ve_text :: "error \<Rightarrow> string"
  ve_date :: "time \<Rightarrow> string"

record vm_world =
  vwFiles :: file_system
  vwSent :: "request list"
  vwDeleted :: "int list"
  vwClock :: time

text \<open>What is printed: a line, or a value that \<^verbatim>\<open>encoding/json\<close> writes.\<close>

datatype printed = Line string | AppJSON gh_app | InstallationJSON gh_installation

type_synonym vm_outcome = "printed list \<times> error option"
type_synonym 'a vm_act = "vm_world \<Rightarrow> 'a \<times> vm_world"

text \<open>A call over the network: its requests are sent, and take time.\<close>

definition calling :: "vm_env \<Rightarrow> 'a sends \<Rightarrow> (error + 'a) vm_act" where
  "calling V f w =
     (case f (vwSent w) of
        (r, h) \<Rightarrow> (r, w\<lparr>vwSent := h, vwClock := vwClock w + int (ve_elapsed V h)\<rparr>))"

definition secret_failure :: "secret_error \<Rightarrow> error" where
  "secret_failure e =
     (case e of
        StatFailed \<Rightarrow> ErrorMsg ''stat failed''
      | NotRegular \<Rightarrow> ErrorMsg ''not a regular file''
      | WrongMode m \<Rightarrow> ErrorMsg ''the file must not be readable by others''
      | ReadFailed \<Rightarrow> ErrorMsg ''read failed''
      | EmptySecret \<Rightarrow> ErrorMsg ''the file is empty'')"

definition secret_of :: "vm_env \<Rightarrow> file_system \<Rightarrow> string \<Rightarrow> error + string" where
  "secret_of V fs path =
     (case ReadSecretFile (ve_stat V path) (fs path) of Inl e \<Rightarrow> Inl (secret_failure e) | Inr s \<Rightarrow> Inr s)"

definition config_failure :: "config_error \<Rightarrow> error" where
  "config_failure e = (case e of ConfigRead r \<Rightarrow> wrap ''read config'' r | _ \<Rightarrow> ErrorMsg ''invalid config'')"

definition loaded :: "vm_env \<Rightarrow> file_system \<Rightarrow> string \<Rightarrow> error + config" where
  "loaded V fs path =
     (case config_Load (ve_host V) (ve_yaml V) (\<lambda>p. case fs p of None \<Rightarrow> Inl ErrNotExist | Some s \<Rightarrow> Inr s) path of
        Inl e \<Rightarrow> Inl (config_failure e)
      | Inr c \<Rightarrow> Inr c)"

section \<open>Clients (check.go)\<close>

definition checkTimeout :: duration where "checkTimeout = 30 * Second"
definition supportedPVEMajor :: int where "supportedPVEMajor = 9"

definition newProxmoxClient :: "vm_env \<Rightarrow> file_system \<Rightarrow> config \<Rightarrow> error + pve_client" where
  "newProxmoxClient V fs cfg =
     (let p = cfgProxmox cfg in
      case secret_of V fs (TokenSecretFile p) of
        Inl e \<Rightarrow> Inl (wrap ''proxmox token'' e)
      | Inr secret \<Rightarrow>
          (let ca = (if CACertFile p = [] then Some [] else fs (CACertFile p)) in
           case ca of
             None \<Rightarrow> Inl (wrap ''proxmox CA certificate'' ErrNotExist)
           | Some pem \<Rightarrow>
               pve_New (ve_host V) (ve_certs V)
                 \<lparr>poURL = URL p, poTokenID = TokenID p, poTokenSecret = secret, poTLSFingerprint = TLSFingerprint p,
                  poCACertPEM = pem, poServerName = TLSServerName p, poNode = Node p, poRequestTimeout = 0,
                  poPollInterval = 0, poMaxPollInterval = 0, poUserAgent = ''parcon/'' @ ve_version V\<rparr>))"

definition newGitHubClient :: "vm_env \<Rightarrow> file_system \<Rightarrow> config \<Rightarrow> error + unit" where
  "newGitHubClient V fs cfg =
     (if RequireGitHubApp cfg \<noteq> [] then Inl (ErrorMsg ''the GitHub App isn't set up'')
      else (case secret_of V fs (PrivateKeyFile (App (cfgGitHub cfg))) of
              Inl e \<Rightarrow> Inl (wrap ''GitHub App key'' e)
            | Inr key \<Rightarrow>
                (case github_New (ve_rest V) (ve_made V)
                        \<lparr>goConfigURL = ConfigURL (cfgGitHub cfg), goClientID = ClientID (App (cfgGitHub cfg)),
                         goInstallationID = InstallationID (App (cfgGitHub cfg)), goPrivateKeyPEM = key,
                         goVersion = ve_version V\<rparr> of
                   Some e \<Rightarrow> Inl e
                 | None \<Rightarrow> Inr ())))"

section \<open>parcon check (check.go)\<close>

text \<open>One line per check, and whether it passed.\<close>

type_synonym check_lines = "(bool \<times> string) list"

definition check_line :: "bool \<times> string \<Rightarrow> printed" where
  "check_line c = Line ((if fst c then ''ok    '' else ''FAIL  '') @ snd c)"

definition checker_err :: "check_lines \<Rightarrow> error option" where
  "checker_err cs =
     (let n = length (filter (\<lambda>c. \<not> fst c) cs) in
      if n > 0 then Some (ErrorMsg (Itoa (int n) @ '' check(s) failed'')) else None)"

definition checked_lines :: "check_lines \<Rightarrow> vm_outcome" where
  "checked_lines cs = (map check_line cs, checker_err cs)"

text \<open>One decimal of a number of GiB, a tie going to the even one, for sizes a 64-bit float holds exactly.\<close>

definition formatGiB :: "int \<Rightarrow> string" where
  "formatGiB bytes =
     (let q = bytes * 10 div 1073741824; r = bytes * 10 mod 1073741824;
          t = (if 2 * r > 1073741824 \<or> 2 * r = 1073741824 \<and> odd q then q + 1 else q) in
      Itoa (t div 10) @ ''.'' @ Itoa (t mod 10) @ '' GiB'')"

definition formatDays :: "duration \<Rightarrow> string" where
  "formatDays d = Itoa (quot d (24 * Hour)) @ '' days''"

definition checkConfig :: "config \<Rightarrow> string \<Rightarrow> vm_outcome" where
  "checkConfig cfg path =
     ([Line (path @ '': OK, '' @ Itoa (int (length (ScaleSets cfg))) @ '' scale set(s)'')], None)"

definition version_check :: "proxmox_cfg \<Rightarrow> pve_version \<Rightarrow> bool \<times> string" where
  "version_check p v =
     (if Major v \<noteq> supportedPVEMajor
      then (False, ''Proxmox VE '' @ pvVersion v @ '': only '' @ Itoa supportedPVEMajor @ ''.x is supported'')
      else (True, ''Proxmox VE '' @ pvVersion v @ '' at '' @ URL p @ '', token '' @ TokenID p))"

definition privilege_check :: "permissions \<Rightarrow> requirement \<Rightarrow> bool \<times> string" where
  "privilege_check perms req =
     (if Missing perms req \<noteq> []
      then (False, ''privileges on '' @ reqPath req @ '': missing '' @ Join (Missing perms req) '', ''
              @ '' (grant it to both the token and its user)'')
      else (True, ''privileges on '' @ reqPath req))"

definition permission_checks :: "(error \<Rightarrow> string) \<Rightarrow> proxmox_cfg \<Rightarrow> error + permissions \<Rightarrow> check_lines" where
  "permission_checks text_of p r =
     (case r of
        Inl e \<Rightarrow> [(False, ''read the token's permissions: '' @ text_of e)]
      | Inr perms \<Rightarrow> map (privilege_check perms) (RequiredPrivileges (pxPool p) (Storage p) (Zone p) (VNet p)))"

definition storage_check :: "(error \<Rightarrow> string) \<Rightarrow> proxmox_cfg \<Rightarrow> error + pve_storage \<Rightarrow> bool \<times> string" where
  "storage_check text_of p r =
     (case r of
        Inl e \<Rightarrow> (False, ''storage '' @ Storage p @ '' on node '' @ Node p @ '': '' @ text_of e)
      | Inr st \<Rightarrow>
          if \<not> sgEnabled st \<or> \<not> sgActive st
          then (False, ''storage '' @ Storage p @ '' on node '' @ Node p @ '' is not enabled and active'')
          else if \<not> Accepts (sgContent st) ''images''
          then (False, ''storage '' @ Storage p @ '' doesn't accept VM disks (content type '' @ [CHR 0x22] @ ''images'' @ [CHR 0x22] @ '')'')
          else (True, ''storage '' @ Storage p @ '' ('' @ sgType st @ '') on node '' @ Node p
                  @ '' is active and accepts VM disks, '' @ formatGiB (sgAvailBytes st) @ '' free''))"

definition listing_check :: "(error \<Rightarrow> string) \<Rightarrow> proxmox_cfg \<Rightarrow> error + vm list \<Rightarrow> bool \<times> string" where
  "listing_check text_of p r =
     (case r of
        Inl e \<Rightarrow> (False, ''list VMs: '' @ text_of e)
      | Inr vs \<Rightarrow>
          (True, ''list VMs: '' @ Itoa (int (length (filter (\<lambda>v. Pool v = pxPool p) vs))) @ '' in pool '' @ pxPool p
             @ '' on node '' @ Node p))"

definition checkProxmox :: "vm_env \<Rightarrow> config \<Rightarrow> vm_outcome vm_act" where
  "checkProxmox V cfg w =
     (let p = cfgProxmox cfg; W = ve_wire V; text_of = ve_text V in
      case newProxmoxClient V (vwFiles w) cfg of
        Inl e \<Rightarrow> (checked_lines [(False, text_of e)], w)
      | Inr C \<Rightarrow>
          (case calling V (cl_Version W C) w of
             (Inl e, w1) \<Rightarrow>
               (checked_lines [(False, ''reach '' @ URL p @ '' as '' @ TokenID p @ '': '' @ text_of e)], w1)
           | (Inr v, w1) \<Rightarrow>
               (case calling V (cl_Permissions W C) w1 of (perms, w2) \<Rightarrow>
                (case calling V (cl_StorageStatus W C (Storage p)) w2 of (st, w3) \<Rightarrow>
                 (case calling V (cl_ListVMs W C) w3 of (vs, w4) \<Rightarrow>
                  (checked_lines ([version_check p v] @ permission_checks text_of p perms
                     @ [storage_check text_of p st, listing_check text_of p vs]), w4))))))"

definition spec_of :: "scale_set \<Rightarrow> scale_set_spec" where
  "spec_of s = \<lparr>specName = ssName s, specLabels = Labels s, specGroup = RunnerGroup s\<rparr>"

definition scale_set_check :: "vm_env \<Rightarrow> scale_set \<Rightarrow> bool \<times> string" where
  "scale_set_check V s =
     (let at = ''scale set '' @ ssName s @ '' in runner group '' @ RunnerGroup s @ '': '' in
      case FindScaleSet (ve_api V) (spec_of s) of
        Inl e \<Rightarrow> (False, at @ ve_text V e)
      | Inr None \<Rightarrow> (True, at @ ''not registered yet; the controller creates it on start'')
      | Inr (Some found) \<Rightarrow>
          (True, at @ ''registered with ID '' @ Itoa (rsID found) @ '', labels '' @ Join (rsLabels found) '', ''))"

definition checkGitHub :: "vm_env \<Rightarrow> file_system \<Rightarrow> config \<Rightarrow> vm_outcome" where
  "checkGitHub V fs cfg =
     (case newGitHubClient V fs cfg of
        Inl e \<Rightarrow> checked_lines [(False, ''GitHub App: '' @ ve_text V e)]
      | Inr _ \<Rightarrow>
          (let cs = map (scale_set_check V) (ScaleSets cfg); a = App (cfgGitHub cfg) in
           checked_lines (cs @
             (if list_all fst cs
              then [(True, ''GitHub App '' @ ClientID a @ '' (installation '' @ Itoa (InstallationID a)
                      @ '') can manage runners on '' @ ConfigURL (cfgGitHub cfg))] else []))))"

definition no_template_line :: "string \<Rightarrow> string" where
  "no_template_line pool =
     ''no runner template in pool '' @ pool @ '' (a template tagged '' @ Managed @ '', '' @ TemplateTag @ '' and ''
     @ TemplateVersionPrefix @ ''<unix time>)''"

definition staleness_check :: "vm_env \<Rightarrow> runner_release \<Rightarrow> string \<Rightarrow> time \<Rightarrow> bool \<times> string" where
  "staleness_check V latest have at =
     (let was = ''actions/runner '' @ ReleaseVersion latest @ '' was released ''
            @ formatDays (time_Sub at (PublishedAt latest)) @ '' ago; '';
          deadline = ve_date V (PublishedAt latest + RunnerUpdateDeadline) in
      case Staleness latest have at of
        Current \<Rightarrow> (True, ''actions/runner '' @ ReleaseVersion latest @ '' is the latest release'')
      | BehindError \<Rightarrow>
          (False, was @ ''GitHub stops accepting older runners after '' @ deadline @ '': install a newer runner image'')
      | _ \<Rightarrow> (True, was @ ''install a newer runner image before '' @ deadline))"

definition checkTemplate :: "vm_env \<Rightarrow> config \<Rightarrow> vm_outcome vm_act" where
  "checkTemplate V cfg w =
     (let pool = pxPool (cfgProxmox cfg) in
      case newProxmoxClient V (vwFiles w) cfg of
        Inl e \<Rightarrow> (checked_lines [(False, ve_text V e)], w)
      | Inr C \<Rightarrow>
          (case calling V (cl_ListVMs (ve_wire V) C) w of
             (Inl e, w1) \<Rightarrow> (checked_lines [(False, ''list VMs: '' @ ve_text V e)], w1)
           | (Inr vs, w1) \<Rightarrow>
               (case NewestTemplate vs pool of
                  None \<Rightarrow> (checked_lines [(False, no_template_line pool)], w1)
                | Some tpl \<Rightarrow>
                    (let at = vwClock w1;
                         created = (case tag_Int tpl TemplateVersionPrefix of None \<Rightarrow> 0 | Some n \<Rightarrow> n);
                         rv = (case tag_String tpl RunnerVersionPrefix of None \<Rightarrow> [] | Some s \<Rightarrow> s);
                         have = (if rv = [] then ''unknown'' else rv);
                         found = (True, ''runner template '' @ Itoa (VMID tpl) @ '', created ''
                           @ formatDays (time_Sub at (time_Unix created)) @ '' ago, actions/runner '' @ have) in
                     case calling V (rest_LatestRunnerRelease (ve_rest V) defaultAPIBase) w1 of
                       (Inl e, w2) \<Rightarrow>
                         (checked_lines [found, (False, ''latest actions/runner release: '' @ ve_text V e)], w2)
                     | (Inr latest, w2) \<Rightarrow> (checked_lines [found, staleness_check V latest have at], w2)))))"

section \<open>Flags\<close>

definition run_command ::
  "flag_set \<Rightarrow> string list \<Rightarrow> (given_flags \<Rightarrow> vm_outcome vm_act) \<Rightarrow> vm_outcome vm_act" where
  "run_command spec args k w =
     (case parseHostFlags spec args of
        Inl e \<Rightarrow> (([], if errors_Is e flag_ErrHelp then None else Some e), w)
      | Inr fs \<Rightarrow> k fs w)"

definition configFlag :: "(string \<times> flag_kind) list" where
  "configFlag = [(''config'', TextFlag)]"

definition vm_DefaultPath :: string where
  "vm_DefaultPath = ''/etc/proxmox-actions-runners/config.yaml''"

definition run_check :: "vm_env \<Rightarrow> string \<Rightarrow> config \<Rightarrow> string \<Rightarrow> vm_outcome vm_act" where
  "run_check V check cfg path w =
     (if check = ''config'' then (checkConfig cfg path, w)
      else if check = ''proxmox'' then checkProxmox V cfg w
      else if check = ''github'' then (checkGitHub V (vwFiles w) cfg, w)
      else checkTemplate V cfg w)"

definition runCheck :: "vm_env \<Rightarrow> string list \<Rightarrow> vm_outcome vm_act" where
  "runCheck V args w =
     (case args of
        [] \<Rightarrow> (([], Some errUsage), w)
      | check # rest \<Rightarrow>
          if check \<notin> {''config'', ''proxmox'', ''github'', ''template''} then (([], Some errUsage), w)
          else run_command (map_of configFlag) rest (\<lambda>fs w.
            let path = flag_text fs ''config'' vm_DefaultPath in
            case loaded V (vwFiles w) path of
              Inl e \<Rightarrow> (([], Some e), w)
            | Inr cfg \<Rightarrow> run_check V check cfg path w) w)"

end
