(* ===== verification/Vm_Github.thy ===== *)
theory Vm_Github
  imports Vm_Commands
begin

text \<open>
  \<^verbatim>\<open>parcon github\<close> and \<^verbatim>\<open>parcon run\<close> in the controller VM (\<^verbatim>\<open>cmd/parcon/github.go\<close>, \<^verbatim>\<open>scaleset.go\<close>, \<^verbatim>\<open>run.go\<close>): writing
  the App's private key, creating or importing the App, waiting for its installation, removing the scale sets, and what
  happens before the controller runs. A key file is written whole or not at all, and a manifest code is spent only once
  there is a file to write its key to.
\<close>

section \<open>Secrets (github.go)\<close>

definition defaultKeyFile :: string where
  "defaultKeyFile = ''/etc/proxmox-actions-runners/github-app.pem''"

definition maxStdin :: nat where "maxStdin = 65536"

definition installationPollInterval :: duration where "installationPollInterval = 5 * Second"

definition readStdin :: "vm_env \<Rightarrow> string \<Rightarrow> error + string" where
  "readStdin V what =
     (case ve_stdin V of (content, err) \<Rightarrow>
        (case (if length content < maxStdin then err else None) of
           Some e \<Rightarrow> Inl (wrap (''read the '' @ what @ '' from stdin'') e)
         | None \<Rightarrow>
             (let s = TrimSpace (take maxStdin content) in
              if s = [] then Inl (ErrorMsg (''no '' @ what @ '' on stdin'')) else Inr s)))"

text \<open>
  \<open>produce\<close> gives the secret, and what else the caller wants of it. The temporary file is there before \<open>produce\<close>
  runs, and is removed again if anything fails.
\<close>

definition writeSecretFile ::
  "atomic_ops \<Rightarrow> string \<Rightarrow> ('a \<times> string) sends \<Rightarrow> file_system \<Rightarrow> request list
   \<Rightarrow> (error + 'a) \<times> file_system \<times> request list" where
  "writeSecretFile ops path produce fs h =
     (case ao_create ops of
        Inl e \<Rightarrow> (Inl (wrap (''write '' @ path) e), fs, h)
      | Inr random \<Rightarrow>
          (let tmp = temp_name path random in
           case produce h of
             (Inl e, h') \<Rightarrow> (Inl e, abandon ops tmp (fs(tmp \<mapsto> [])), h')
           | (Inr (x, secret), h') \<Rightarrow>
               (let data = TrimSpace secret @ [CHR 0x0A];
                    failed = (\<lambda>e f. (Inl (wrap (''write '' @ path) e), abandon ops tmp f, h')) in
                case ao_write ops of
                  Some (part, e) \<Rightarrow> failed e (fs(tmp \<mapsto> part))
                | None \<Rightarrow>
                    (case ao_sync ops of
                       Some e \<Rightarrow> failed e (fs(tmp \<mapsto> data))
                     | None \<Rightarrow>
                         (case ao_close ops of
                            Some e \<Rightarrow> failed e (fs(tmp \<mapsto> data))
                          | None \<Rightarrow>
                              (case ao_rename ops of
                                 Some e \<Rightarrow> failed e (fs(tmp \<mapsto> data))
                               | None \<Rightarrow> (Inr x, fs(tmp := None, path \<mapsto> data), h')))))))"

definition writing_secret :: "vm_env \<Rightarrow> string \<Rightarrow> ('a \<times> string) sends \<Rightarrow> (error + 'a) vm_act" where
  "writing_secret V path produce w =
     (case writeSecretFile (ve_ops V) path produce (vwFiles w) (vwSent w) of
        (r, fs, h) \<Rightarrow> (r, w\<lparr>vwFiles := fs, vwSent := h\<rparr>))"

definition keyFileFlag :: "(string \<times> flag_kind) list" where
  "keyFileFlag = [(''key-file'', TextFlag)]"

definition appCreate :: "vm_env \<Rightarrow> string list \<Rightarrow> vm_outcome vm_act" where
  "appCreate V args =
     run_command (map_of keyFileFlag) args (\<lambda>fs w.
       case readStdin V ''manifest code'' of
         Inl e \<Rightarrow> (([], Some e), w)
       | Inr code \<Rightarrow>
           (case writing_secret V (flag_text fs ''key-file'' defaultKeyFile)
                   (convertManifest (ve_rest V) defaultAPIBase code) w of
              (Inl e, w') \<Rightarrow> (([], Some e), w')
            | (Inr app, w') \<Rightarrow> (([AppJSON app], None), w')))"

definition appImport :: "vm_env \<Rightarrow> string list \<Rightarrow> vm_outcome vm_act" where
  "appImport V args =
     run_command (map_of keyFileFlag) args (\<lambda>fs w.
       case readStdin V ''private key'' of
         Inl e \<Rightarrow> (([], Some e), w)
       | Inr key \<Rightarrow>
           (case CheckPrivateKey (ve_rest V) key of
              Some e \<Rightarrow> (([], Some e), w)
            | None \<Rightarrow>
                (case writing_secret V (flag_text fs ''key-file'' defaultKeyFile) (\<lambda>h. (Inr ((), key), h)) w of
                   (Inl e, w') \<Rightarrow> (([], Some e), w')
                 | (Inr _, w') \<Rightarrow> (([], None), w'))))"

section \<open>Waiting for the installation (github.go)\<close>

definition timeout_failure :: "error option \<Rightarrow> error" where
  "timeout_failure last' =
     (case last' of
        Some e \<Rightarrow> wrap ''the GitHub App isn't installed; last error'' e
      | None \<Rightarrow> ErrorMsg ''the GitHub App isn't installed'')"

definition asked_installation ::
  "vm_env \<Rightarrow> string \<Rightarrow> string \<Rightarrow> vm_world \<Rightarrow> (error + gh_installation) \<times> vm_world" where
  "asked_installation V clientID key w =
     calling V (findInstallation (ve_rest V) defaultAPIBase clientID key (vwClock w)) w"

lemma asked_installation_clock: "asked_installation V clientID key w = (r, w1) \<Longrightarrow> vwClock w \<le> vwClock w1"
  by (auto simp: asked_installation_def calling_def split: prod.splits)

text \<open>The last error seen before the deadline.\<close>

definition seen_error :: "error option \<Rightarrow> error + gh_installation \<Rightarrow> bool \<Rightarrow> error option" where
  "seen_error last' r intime = (case r of Inl e \<Rightarrow> if intime then Some e else last' | Inr _ \<Rightarrow> last')"

function wait_installation ::
  "vm_env \<Rightarrow> string \<Rightarrow> string \<Rightarrow> time \<Rightarrow> error option \<Rightarrow> vm_world \<Rightarrow> (error + gh_installation) \<times> vm_world" where
  "wait_installation V clientID key deadline last' w =
     (case asked_installation V clientID key w of
        (r, w1) \<Rightarrow>
          if (case r of Inr found \<Rightarrow> giID found \<noteq> 0 | Inl e \<Rightarrow> False) then (r, w1)
          else (let seen = seen_error last' r (vwClock w1 < deadline) in
            if deadline \<le> vwClock w1 + installationPollInterval
            then (Inl (timeout_failure seen), w1\<lparr>vwClock := max deadline (vwClock w1)\<rparr>)
            else wait_installation V clientID key deadline seen
                   (w1\<lparr>vwClock := vwClock w1 + installationPollInterval\<rparr>)))"
  by pat_completeness auto
termination
  by (relation "measure (\<lambda>(V, c, k, deadline, last', w). nat (deadline - vwClock w))")
    (auto simp: installationPollInterval_def Second_def dest!: asked_installation_clock [OF sym])

declare wait_installation.simps [simp del]

definition wait_flags :: "vm_env \<Rightarrow> flag_set" where
  "wait_flags V =
     map_of (keyFileFlag @ [(''client-id'', TextFlag),
       (''timeout'', ValueFlag (\<lambda>s. ParseDuration (ve_fraction V) s \<noteq> None))])"

definition flag_duration :: "vm_env \<Rightarrow> given_flags \<Rightarrow> string \<Rightarrow> duration \<Rightarrow> duration" where
  "flag_duration V fs n d =
     (if flag_values fs n = [] then d
      else (case ParseDuration (ve_fraction V) (last (flag_values fs n)) of Some t \<Rightarrow> t | None \<Rightarrow> d))"

definition appWaitInstallation :: "vm_env \<Rightarrow> string list \<Rightarrow> vm_outcome vm_act" where
  "appWaitInstallation V args =
     run_command (wait_flags V) args (\<lambda>fs w.
       let clientID = flag_text fs ''client-id'' [] in
       if clientID = [] then (([], Some errUsage), w)
       else (case secret_of V (vwFiles w) (flag_text fs ''key-file'' defaultKeyFile) of
               Inl e \<Rightarrow> (([], Some (wrap ''GitHub App key'' e)), w)
             | Inr key \<Rightarrow>
                 (case wait_installation V clientID key (vwClock w + flag_duration V fs ''timeout'' (15 * Minute)) None w of
                    (Inl e, w') \<Rightarrow> (([], Some e), w')
                  | (Inr found, w') \<Rightarrow> (([InstallationJSON found], None), w'))))"

section \<open>Removing the scale sets (scaleset.go)\<close>

fun delete_scale_sets :: "vm_env \<Rightarrow> scale_set list \<Rightarrow> printed list \<Rightarrow> vm_outcome vm_act" where
  "delete_scale_sets V [] out w = ((out, None), w)"
| "delete_scale_sets V (s # ss) out w =
     (let at = ''scale set '' @ ssName s in
      case FindScaleSet (ve_api V) (spec_of s) of
        Inl e \<Rightarrow> ((out, Some (wrap at e)), w)
      | Inr None \<Rightarrow> delete_scale_sets V ss (out @ [Line (at @ '': not registered'')]) w
      | Inr (Some found) \<Rightarrow>
          (let w' = w\<lparr>vwDeleted := vwDeleted w @ [rsID found]\<rparr> in
           case DeleteScaleSet (ve_api V) (rsID found) of
             Some e \<Rightarrow> ((out, Some (wrap at e)), w')
           | None \<Rightarrow>
               delete_scale_sets V ss (out @ [Line (at @ '': deleted (ID '' @ Itoa (rsID found) @ '')'')]) w'))"

definition scaleSetDelete :: "vm_env \<Rightarrow> string list \<Rightarrow> vm_outcome vm_act" where
  "scaleSetDelete V args =
     run_command (map_of configFlag) args (\<lambda>fs w.
       case loaded V (vwFiles w) (flag_text fs ''config'' vm_DefaultPath) of
         Inl e \<Rightarrow> (([], Some e), w)
       | Inr cfg \<Rightarrow>
           (case newGitHubClient V (vwFiles w) cfg of
              Inl e \<Rightarrow> (([], Some (wrap ''GitHub App'' e)), w)
            | Inr _ \<Rightarrow> delete_scale_sets V (ScaleSets cfg) [] w))"

definition runGitHub :: "vm_env \<Rightarrow> string list \<Rightarrow> vm_outcome vm_act" where
  "runGitHub V args w =
     (case args of
        area # command # rest \<Rightarrow>
          if area = ''app'' \<and> command = ''create'' then appCreate V rest w
          else if area = ''app'' \<and> command = ''import'' then appImport V rest w
          else if area = ''app'' \<and> command = ''wait-installation'' then appWaitInstallation V rest w
          else if area = ''scaleset'' \<and> command = ''delete'' then scaleSetDelete V rest w
          else (([], Some errUsage), w)
      | _ \<Rightarrow> (([], Some errUsage), w))"

section \<open>parcon run (run.go)\<close>

text \<open>\<^verbatim>\<open>slog.Level.UnmarshalText\<close>: a level's name and an offset from it.\<close>

definition level_base :: "string \<Rightarrow> int option" where
  "level_base name =
     (if ToLower name = ''debug'' then Some (- 4) else if ToLower name = ''info'' then Some 0
      else if ToLower name = ''warn'' then Some 4 else if ToLower name = ''error'' then Some 8 else None)"

definition parse_level :: "string \<Rightarrow> int option" where
  "parse_level s =
     (let name = takeWhile (\<lambda>c. c \<noteq> CHR ''+'' \<and> c \<noteq> CHR ''-'') s; rest = drop (length name) s in
      case (if rest = [] then Some 0 else Atoi rest) of
        None \<Rightarrow> None
      | Some offset \<Rightarrow> map_option (\<lambda>b. b + offset) (level_base name))"

text \<open>The controller to run: its config, and its owner, the VM's name.\<close>

definition newController :: "vm_env \<Rightarrow> file_system \<Rightarrow> config \<Rightarrow> error + config \<times> pve_client \<times> string" where
  "newController V fs cfg =
     (case newGitHubClient V fs cfg of
        Inl e \<Rightarrow> Inl e
      | Inr _ \<Rightarrow>
          (case newProxmoxClient V fs cfg of
             Inl e \<Rightarrow> Inl e
           | Inr C \<Rightarrow> Inr (cfg, C, case ve_hostname V of None \<Rightarrow> ''parcon'' | Some h \<Rightarrow> h)))"

text \<open>\<open>controller_Run\<close> is what the controller does until it is told to stop.\<close>

definition runController ::
  "(config \<times> pve_client \<times> string \<Rightarrow> vm_world \<Rightarrow> error option \<times> vm_world) \<Rightarrow> vm_env \<Rightarrow> string list \<Rightarrow> vm_outcome vm_act"
where
  "runController controller_Run V args =
     run_command (map_of (configFlag @ [(''log-level'', TextFlag)])) args (\<lambda>fs w.
       if parse_level (flag_text fs ''log-level'' ''info'') = None then (([], Some errUsage), w)
       else (case loaded V (vwFiles w) (flag_text fs ''config'' vm_DefaultPath) of
               Inl e \<Rightarrow> (([], Some e), w)
             | Inr cfg \<Rightarrow>
                 (case newController V (vwFiles w) cfg of
                    Inl e \<Rightarrow> (([], Some e), w)
                  | Inr c \<Rightarrow> (case controller_Run c w of (err, w') \<Rightarrow> (([], err), w')))))"

section \<open>Key files\<close>

lemma writeSecretFile_result:
  "writeSecretFile ops path produce fs h = (r, fs', h') \<Longrightarrow>
    (case r of
       Inl e \<Rightarrow> fs' path = fs path
     | Inr x \<Rightarrow> (\<exists>secret. produce h = (Inr (x, secret), h') \<and> fs' path = Some (TrimSpace secret @ [CHR 0x0A])))
    \<and> (h' = h \<or> (\<exists>random. ao_create ops = Inr random \<and> h' = snd (produce h)))"
  by (auto simp: writeSecretFile_def Let_def abandon_other split: sum.splits prod.splits option.splits)

lemma writeSecretFile_others:
  assumes "writeSecretFile ops path produce fs h = (r, fs', h')" and "ao_create ops = Inr random"
    and "p \<noteq> path" and "p \<noteq> temp_name path random"
  shows "fs' p = fs p"
  using assms by (auto simp: writeSecretFile_def Let_def abandon_other split: sum.splits prod.splits option.splits)

end
