(* ===== verification/Vm_Facts.thy ===== *)
theory Vm_Facts
  imports Vm_Github Pve_Client_Facts "HOL-Library.Sublist"
begin

text \<open>
  What the controller VM's commands guarantee: \<^verbatim>\<open>parcon check proxmox\<close> passes exactly when the controller can work with
  Proxmox, creating an App leaves the key whole or the old file untouched, the wait for an installation ends with one or
  at its deadline, and an uninstall's \<^verbatim>\<open>scaleset delete\<close> deletes every registered scale set and no other.
\<close>

section \<open>parcon check\<close>

lemma checker_err_None: "checker_err cs = None \<longleftrightarrow> list_all fst cs"
  by (auto simp: checker_err_def Let_def list_all_iff filter_empty_conv)

lemma checked_lines_ok: "snd (checked_lines cs) = None \<longleftrightarrow> list_all fst cs"
  by (simp add: checked_lines_def checker_err_None)

text \<open>The server answers, in the order it is asked, what the controller needs.\<close>

definition answers :: "vm_env \<Rightarrow> 'a sends \<Rightarrow> ('a \<Rightarrow> bool) \<Rightarrow> (vm_world \<Rightarrow> bool) \<Rightarrow> vm_world \<Rightarrow> bool" where
  "answers V f ok after w \<longleftrightarrow> (case calling V f w of (r, w') \<Rightarrow> (case r of Inl e \<Rightarrow> False | Inr x \<Rightarrow> ok x \<and> after w'))"

definition proxmox_ready :: "vm_env \<Rightarrow> proxmox_cfg \<Rightarrow> pve_client \<Rightarrow> vm_world \<Rightarrow> bool" where
  "proxmox_ready V p C =
     answers V (cl_Version (ve_wire V) C) (\<lambda>v. Major v = 9)
       (answers V (cl_Permissions (ve_wire V) C)
          (\<lambda>perms. list_all (\<lambda>req. list_all (Has perms (reqPath req)) (Privileges req))
             (RequiredPrivileges (pxPool p) (Storage p) (Zone p) (VNet p)))
          (answers V (cl_StorageStatus (ve_wire V) C (Storage p))
             (\<lambda>st. sgEnabled st \<and> sgActive st \<and> Accepts (sgContent st) ''images'')
             (answers V (cl_ListVMs (ve_wire V) C) (\<lambda>vs. True) (\<lambda>w. True))))"

lemma privilege_check_ok: "fst (privilege_check perms req) \<longleftrightarrow> list_all (Has perms (reqPath req)) (Privileges req)"
  by (simp add: privilege_check_def Missing_def filter_empty_conv list_all_iff)

lemma permission_checks_ok:
  "list_all fst (permission_checks t p r) \<longleftrightarrow>
     (case r of Inl e \<Rightarrow> False
      | Inr perms \<Rightarrow> list_all (\<lambda>req. list_all (Has perms (reqPath req)) (Privileges req))
          (RequiredPrivileges (pxPool p) (Storage p) (Zone p) (VNet p)))"
  by (cases r) (simp_all add: permission_checks_def list.pred_map comp_def privilege_check_ok)

lemma storage_check_ok:
  "fst (storage_check t p r) \<longleftrightarrow>
     (case r of Inl e \<Rightarrow> False | Inr st \<Rightarrow> sgEnabled st \<and> sgActive st \<and> Accepts (sgContent st) ''images'')"
  by (cases r) (auto simp: storage_check_def)

lemma version_check_ok: "fst (version_check p v) \<longleftrightarrow> Major v = 9"
  by (simp add: version_check_def supportedPVEMajor_def)

lemma listing_check_ok: "fst (listing_check t p r) \<longleftrightarrow> (case r of Inl e \<Rightarrow> False | Inr vs \<Rightarrow> True)"
  by (cases r) (simp_all add: listing_check_def)

text \<open>
  C24. \<^verbatim>\<open>parcon check proxmox\<close> passes exactly when the config's files give a client and, asked with it, the server says that
  it is Proxmox VE 9, grants the token every privilege the controller needs on the pool, the storage and the network,
  says the storage is enabled, active and takes VM disks, and lists the VMs.
\<close>
theorem check_proxmox_exact:
  "snd (fst (checkProxmox V cfg w)) = None \<longleftrightarrow>
     (case newProxmoxClient V (vwFiles w) cfg of Inl e \<Rightarrow> False | Inr C \<Rightarrow> proxmox_ready V (cfgProxmox cfg) C w)"
proof (cases "newProxmoxClient V (vwFiles w) cfg")
  case (Inl e)
  then show ?thesis by (simp add: checkProxmox_def checked_lines_ok Let_def)
next
  case (Inr C)
  let ?p = "cfgProxmox cfg" and ?W = "ve_wire V"
  obtain v w1 where v: "calling V (cl_Version ?W C) w = (v, w1)" by fastforce
  obtain perms w2 where p: "calling V (cl_Permissions ?W C) w1 = (perms, w2)" by fastforce
  obtain st w3 where s: "calling V (cl_StorageStatus ?W C (Storage ?p)) w2 = (st, w3)" by fastforce
  obtain vs w4 where l: "calling V (cl_ListVMs ?W C) w3 = (vs, w4)" by fastforce
  show ?thesis
  proof (cases v)
    case (Inl e)
    then show ?thesis
      using v by (simp add: checkProxmox_def checked_lines_ok Let_def \<open>newProxmoxClient _ _ _ = _\<close> proxmox_ready_def answers_def)
  next
    case (Inr x)
    have "snd (fst (checkProxmox V cfg w)) = None \<longleftrightarrow>
        fst (version_check ?p x) \<and> list_all fst (permission_checks (ve_text V) ?p perms)
        \<and> fst (storage_check (ve_text V) ?p st) \<and> fst (listing_check (ve_text V) ?p vs)"
      by (simp add: checkProxmox_def Let_def \<open>newProxmoxClient _ _ _ = _\<close> v Inr p s l checked_lines_ok)
    then show ?thesis
      unfolding version_check_ok permission_checks_ok storage_check_ok listing_check_ok
      by (cases perms; cases st; cases vs)
        (simp_all add: \<open>newProxmoxClient _ _ _ = _\<close> proxmox_ready_def answers_def v Inr p s l)
  qed
qed

section \<open>The App's key\<close>

lemma convertManifest_key: "convertManifest R apiBase code h = (Inr (app, key), h') \<Longrightarrow> CheckPrivateKey R key = None"
  by (auto simp: convertManifest_def converted_def split: prod.splits sum.splits if_splits option.splits)

lemma appCreate_cases:
  assumes "parseHostFlags (map_of keyFileFlag) args = Inr fs"
  shows "appCreate V args w = (case readStdin V ''manifest code'' of
      Inl e \<Rightarrow> (([], Some e), w)
    | Inr code \<Rightarrow>
        (case writeSecretFile (ve_ops V) (flag_text fs ''key-file'' defaultKeyFile)
                (convertManifest (ve_rest V) defaultAPIBase code) (vwFiles w) (vwSent w) of
           (r, f, h) \<Rightarrow> (case r of Inl e \<Rightarrow> ([], Some e) | Inr app \<Rightarrow> ([AppJSON app], None), w\<lparr>vwFiles := f, vwSent := h\<rparr>)))"
  using assms by (auto simp: appCreate_def run_command_def writing_secret_def split: sum.splits prod.splits)


text \<open>A VM whose standard input is a code, in which every file operation works, and a GitHub that takes the code.\<close>

definition example_rest_ok :: rest_env where
  "example_rest_ok =
     (example_rest [])\<lparr>re_send := (\<lambda>h. Inr \<lparr>rrStatus = 201, rrBody = []\<rparr>),
       re_app := (\<lambda>_. Inr (zero_app\<lparr>aaPEM := ''PEM''\<rparr>)),
       re_pem := (\<lambda>_. Some \<lparr>pbType = ''RSA PRIVATE KEY'', pbPKCS1 = True, pbPKCS8 = False, pbRSA = True\<rparr>)\<rparr>"

definition example_vm_world :: vm_world where
  "example_vm_world = \<lparr>vwFiles = Map.empty, vwSent = [], vwDeleted = [], vwClock = 0\<rparr>"

definition example_vm :: vm_env where
  "example_vm =
     \<lparr>ve_rest = example_rest_ok, ve_wire = example_wire [],
      ve_api = \<lparr>api_default_group = ''default'', api_group = (\<lambda>_. Inr 1), api_get = (\<lambda>_ _. Inr None),
                api_create = Inr, api_update = (\<lambda>_. Inr), api_delete = (\<lambda>_. None)\<rparr>,
      ve_made = (\<lambda>_. None), ve_ops = example_ops, ve_stdin = (''code'', None), ve_stat = (\<lambda>_. None),
      ve_yaml = (\<lambda>_. YamlEOF), ve_host = Some, ve_certs = (\<lambda>_. True), ve_fraction = (\<lambda>_ _. 0),
      ve_elapsed = (\<lambda>_. 0), ve_version = ''1.2.3'', ve_hostname = None, ve_text = (\<lambda>_. ''error''),
      ve_date = (\<lambda>_. ''date'')\<rparr>"


section \<open>Waiting for the installation\<close>

lemma wait_installation_result:
  "(case wait_installation V clientID key deadline last' w of (r, w') \<Rightarrow>
     (case r of
        Inl e \<Rightarrow> deadline \<le> vwClock w'
      | Inr found \<Rightarrow> giID found \<noteq> 0 \<and> (\<exists>w0. asked_installation V clientID key w0 = (Inr found, w'))))"
proof (induction V clientID key deadline last' w rule: wait_installation.induct)
  case (1 V clientID key deadline last' w)
  obtain r w1 where a: "asked_installation V clientID key w = (r, w1)" by (cases "asked_installation V clientID key w")
  let ?seen = "seen_error last' r (vwClock w1 < deadline)"
  let ?found = "case r of Inr found \<Rightarrow> giID found \<noteq> 0 | Inl e \<Rightarrow> False"
  let ?late = "deadline \<le> vwClock w1 + installationPollInterval"
  have eq: "wait_installation V clientID key deadline last' w =
      (if ?found then (r, w1)
       else if ?late then (Inl (timeout_failure ?seen), w1\<lparr>vwClock := max deadline (vwClock w1)\<rparr>)
       else wait_installation V clientID key deadline ?seen (w1\<lparr>vwClock := vwClock w1 + installationPollInterval\<rparr>))"
    by (subst wait_installation.simps) (simp add: a Let_def)
  consider "?found" | "\<not> ?found" "?late" | "\<not> ?found" "\<not> ?late" by blast
  then show ?case
  proof cases
    case 1
    then obtain found where "r = Inr found" "giID found \<noteq> 0" by (auto split: sum.splits)
    then show ?thesis using a by (auto simp: eq)
  next
    case 2
    then show ?thesis by (simp add: eq)
  next
    case 3
    show ?thesis using "1.IH" [OF a [symmetric] 3(1) refl 3(2)] 3 by (simp only: eq if_False)
  qed
qed

text \<open>
  Waiting for the App's installation ends, with an installation that GitHub named in the last answer, or with an error
  that is never given before the deadline, whatever goes wrong in between.
\<close>
theorem wait_ends_at_deadline:
  "case appWaitInstallation V args w of ((out, err), w') \<Rightarrow>
     (case parseHostFlags (wait_flags V) args of
        Inl e \<Rightarrow> w' = w
      | Inr fs \<Rightarrow>
          (case err of
             None \<Rightarrow> (\<exists>found key w0. out = [InstallationJSON found] \<and> giID found \<noteq> 0
               \<and> asked_installation V (flag_text fs ''client-id'' []) key w0 = (Inr found, w'))
           | Some e \<Rightarrow> w' = w \<or> vwClock w + flag_duration V fs ''timeout'' (15 * Minute) \<le> vwClock w'))"
proof (cases "parseHostFlags (wait_flags V) args")
  case (Inl e)
  then show ?thesis by (simp add: appWaitInstallation_def run_command_def)
next
  case (Inr fs)
  let ?c = "flag_text fs ''client-id'' []" and ?d = "vwClock w + flag_duration V fs ''timeout'' (15 * Minute)"
  show ?thesis
  proof (cases "?c = []")
    case True
    then show ?thesis by (simp add: appWaitInstallation_def run_command_def Inr Let_def)
  next
    case c: False
    show ?thesis
    proof (cases "secret_of V (vwFiles w) (flag_text fs ''key-file'' defaultKeyFile)")
      case (Inl e)
      then show ?thesis using c by (simp add: appWaitInstallation_def run_command_def Inr Let_def)
    next
      case k: (Inr key)
      obtain r w' where r: "wait_installation V ?c key ?d None w = (r, w')"
        by (cases "wait_installation V ?c key ?d None w")
      have "appWaitInstallation V args w
          = (case r of Inl e \<Rightarrow> ([], Some e) | Inr found \<Rightarrow> ([InstallationJSON found], None), w')"
        using c k r by (simp add: appWaitInstallation_def run_command_def Inr Let_def split: sum.split)
      then show ?thesis
        using wait_installation_result [where V = V and clientID = ?c and key = key and deadline = ?d and last' = None and w = w] by (cases r) (auto simp: r Inr)
    qed
  qed
qed

section \<open>Removing the scale sets\<close>

definition registered :: "vm_env \<Rightarrow> scale_set list \<Rightarrow> int list" where
  "registered V ss =
     List.map_filter (\<lambda>s. case FindScaleSet (ve_api V) (spec_of s) of
        Inl e \<Rightarrow> None | Inr None \<Rightarrow> None | Inr (Some found) \<Rightarrow> Some (rsID found)) ss"

lemma registered_simps:
  "registered V [] = []"
  "registered V (s # ss) =
     (case FindScaleSet (ve_api V) (spec_of s) of
        Inl e \<Rightarrow> registered V ss
      | Inr None \<Rightarrow> registered V ss
      | Inr (Some found) \<Rightarrow> rsID found # registered V ss)"
  by (simp_all add: registered_def List.map_filter_simps split: sum.split option.split)

text \<open>
  Removing the scale sets asks GitHub to delete the registered ones among those the config names, in its order, and no
  other; without an error it asked for every one, and GitHub deleted each.
\<close>
theorem scale_sets_deleted:
  "case delete_scale_sets V ss out w of ((out', err), w') \<Rightarrow>
     \<exists>ids. vwDeleted w' = vwDeleted w @ ids \<and> prefix ids (registered V ss)
       \<and> (case err of
            None \<Rightarrow> ids = registered V ss \<and> list_all (\<lambda>i. DeleteScaleSet (ve_api V) i = None) ids
          | Some e \<Rightarrow> True)"
proof (induction V ss out w rule: delete_scale_sets.induct)
  case (1 V out w)
  then show ?case by (simp add: registered_simps)
next
  case (2 V s ss out w)
  show ?case
  proof (cases "FindScaleSet (ve_api V) (spec_of s)")
    case (Inl e)
    then show ?thesis by (simp add: Let_def)
  next
    case f: (Inr x)
    show ?thesis
    proof (cases x)
      case None
      have r: "registered V (s # ss) = registered V ss" by (simp add: registered_simps f None)
      show ?thesis unfolding r using "2.IH"(1) [OF refl f None] by (simp add: f None Let_def)
    next
      case (Some found)
      show ?thesis
      proof (cases "DeleteScaleSet (ve_api V) (rsID found)")
        case None
        have r: "registered V (s # ss) = rsID found # registered V ss" by (simp add: registered_simps f Some)
        from "2.IH"(2) [OF refl f Some refl None] obtain out' err w' ids where
          d: "delete_scale_sets V (s # ss) out w = ((out', err), w')"
          and i: "vwDeleted w' = vwDeleted w @ rsID found # ids" "prefix ids (registered V ss)"
            "case err of None \<Rightarrow> ids = registered V ss \<and> list_all (\<lambda>i. DeleteScaleSet (ve_api V) i = None) ids | Some e \<Rightarrow> True"
          by (auto simp: f Some None Let_def split: prod.splits)
        show ?thesis
          unfolding d r by (simp, rule exI [of _ "rsID found # ids"]) (use i None in \<open>auto split: option.splits\<close>)
      next
        case e: (Some e)
        then show ?thesis using f Some by (simp add: Let_def registered_simps)
      qed
    qed
  qed
qed

end
