(* ===== verification/Session.thy ===== *)
theory Session
  imports Machine
begin

text \<open>
  A scale set's message session (\<^verbatim>\<open>internal/github/listen.go\<close>): \<^verbatim>\<open>Listen\<close>'s loop with the sessions it opens, the handler's
  callbacks, and the waits between sessions. \<^verbatim>\<open>actions/scaleset\<close> is a \<open>session_script\<close> per session, any function of
  what happened so far: whether it opens, the messages its listener passes on and when, the error it ends with. The
  listener calls the handler one message at a time and ends with the first error a callback returns, as \<^verbatim>\<open>Handler\<close>
  says. The context ends at a time, or never. One turn of the loop is a function; a run is any number of turns.
\<close>

section \<open>Handlers\<close>

text \<open>The methods a handler has; those of \<^verbatim>\<open>SessionObserver\<close> and \<^verbatim>\<open>StatsRecorder\<close> are optional.\<close>

record 'h handler =
  hDesired :: "int \<Rightarrow> 'h \<Rightarrow> (error + int) \<times> 'h"
  hStarted :: "job \<Rightarrow> 'h \<Rightarrow> error option \<times> 'h"
  hCompleted :: "job \<Rightarrow> 'h \<Rightarrow> error option \<times> 'h"
  hObserver :: "((time \<Rightarrow> 'h \<Rightarrow> 'h) \<times> (time \<Rightarrow> error \<Rightarrow> 'h \<Rightarrow> 'h)) option"
  hRecorder :: "(stats \<Rightarrow> 'h \<Rightarrow> 'h) option"

text \<open>The messages of \<^verbatim>\<open>actions/scaleset\<close>, as far as they are read.\<close>

record job_message =
  jmJobID :: string
  jmRunnerName :: string
  jmRunnerID :: int

record statistic =
  TotalAvailableJobs :: int
  TotalAcquiredJobs :: int
  TotalAssignedJobs :: int
  TotalRunningJobs :: int
  TotalRegisteredRunners :: int
  TotalBusyRunners :: int
  TotalIdleRunners :: int

definition job_of :: "job_message \<Rightarrow> job" where
  "job_of m = \<lparr>JobID = jmJobID m, RunnerName = jmRunnerName m, RunnerID = jmRunnerID m\<rparr>"

definition stats_of :: "statistic \<Rightarrow> stats" where
  "stats_of st =
     \<lparr>AvailableJobs = TotalAvailableJobs st, AcquiredJobs = TotalAcquiredJobs st, AssignedJobs = TotalAssignedJobs st,
      RunningJobs = TotalRunningJobs st, RegisteredRunners = TotalRegisteredRunners st, BusyRunners = TotalBusyRunners st,
      IdleRunners = TotalIdleRunners st\<rparr>"

datatype callback = DesiredCount int | StartedMessage job_message | CompletedMessage job_message | Statistics "statistic option"

text \<open>The adapters: an error, if the callback returned one, and the handler's new state.\<close>

definition RecordStatistics :: "'h handler \<Rightarrow> statistic option \<Rightarrow> 'h \<Rightarrow> 'h" where
  "RecordStatistics H st h =
     (case (hRecorder H, st) of (Some record_stats, Some x) \<Rightarrow> record_stats (stats_of x) h | _ \<Rightarrow> h)"

definition adapter :: "'h handler \<Rightarrow> callback \<Rightarrow> 'h \<Rightarrow> error option \<times> 'h" where
  "adapter H cb h =
     (case cb of
        DesiredCount n \<Rightarrow> (case hDesired H n h of (Inl e, h') \<Rightarrow> (Some e, h') | (Inr _, h') \<Rightarrow> (None, h'))
      | StartedMessage m \<Rightarrow> hStarted H (job_of m) h
      | CompletedMessage m \<Rightarrow> hCompleted H (job_of m) h
      | Statistics st \<Rightarrow> (None, RecordStatistics H st h))"

section \<open>One session\<close>

record listen_options =
  loScaleSetID :: int
  loMaxRunners :: int
  loOwner :: string
  loMinBackoff :: duration
  loMaxBackoff :: duration

text \<open>
  What \<^verbatim>\<open>actions/scaleset\<close> does in one session: the time opening takes and its error, the error of making the listener,
  each message after the time that passes before it, the listener's own end, and the time closing takes.
\<close>

record session_script =
  scOpening :: nat
  scOpenError :: "error option"
  scListenerError :: "error option"
  scMessages :: "(nat \<times> callback) list"
  scLasting :: nat
  scEnd :: "error option"
  scClosing :: nat

text \<open>What is done to GitHub, newest first.\<close>

datatype session_act =
    SessionAsked int string
  | SessionMade
  | ListenerMade int int
  | Message callback
  | SessionClosed
  | Waited duration

record 'h listening =
  liHandler :: 'h
  liClock :: time
  liTrace :: "session_act list"

definition acted :: "session_act \<Rightarrow> 'h listening \<Rightarrow> 'h listening" where
  "acted a l = l\<lparr>liTrace := a # liTrace l\<rparr>"

definition passed :: "int \<Rightarrow> 'h listening \<Rightarrow> 'h listening" where
  "passed d l = l\<lparr>liClock := liClock l + d\<rparr>"

definition handled :: "('h \<Rightarrow> 'h) \<Rightarrow> 'h listening \<Rightarrow> 'h listening" where
  "handled f l = l\<lparr>liHandler := f (liHandler l)\<rparr>"

definition closeTimeout :: duration where "closeTimeout = 30 * Second"

definition close_session :: "session_script \<Rightarrow> 'h listening \<Rightarrow> 'h listening" where
  "close_session sc l = passed (min (int (scClosing sc)) closeTimeout) (acted SessionClosed l)"

definition session_opened :: "'h handler \<Rightarrow> 'h listening \<Rightarrow> 'h listening" where
  "session_opened H l = (case hObserver H of None \<Rightarrow> l | Some (opened, ended) \<Rightarrow> handled (opened (liClock l)) l)"

definition session_ended :: "'h handler \<Rightarrow> error \<Rightarrow> 'h listening \<Rightarrow> 'h listening" where
  "session_ended H e l = (case hObserver H of None \<Rightarrow> l | Some (opened, ended) \<Rightarrow> handled (ended (liClock l) e) l)"

fun run_listener :: "'h handler \<Rightarrow> (nat \<times> callback) list \<Rightarrow> nat \<Rightarrow> error option \<Rightarrow> 'h listening \<Rightarrow> error option \<times> 'h listening" where
  "run_listener H [] lasting end_error l = (end_error, passed (int lasting) l)"
| "run_listener H ((d, cb) # msgs) lasting end_error l =
     (let l1 = acted (Message cb) (passed (int d) l) in
      case adapter H cb (liHandler l1) of
        (Some e, h) \<Rightarrow> (Some e, l1\<lparr>liHandler := h\<rparr>)
      | (None, h) \<Rightarrow> run_listener H msgs lasting end_error (l1\<lparr>liHandler := h\<rparr>))"

definition listenOnce :: "'h handler \<Rightarrow> listen_options \<Rightarrow> session_script \<Rightarrow> 'h listening \<Rightarrow> error option \<times> 'h listening" where
  "listenOnce H opts sc l =
     (let l1 = passed (int (scOpening sc)) (acted (SessionAsked (loScaleSetID opts) (loOwner opts)) l) in
      case scOpenError sc of
        Some e \<Rightarrow> (Some (wrap ''open session'' e), l1)
      | None \<Rightarrow>
          (let l2 = session_opened H (acted SessionMade l1) in
           case scListenerError sc of
             Some e \<Rightarrow> (Some (wrap ''create listener'' e), close_session sc l2)
           | None \<Rightarrow>
               (case run_listener H (scMessages sc) (scLasting sc) (scEnd sc)
                       (acted (ListenerMade (loScaleSetID opts) (loMaxRunners opts)) l2) of
                  (err, l3) \<Rightarrow> (map_option (wrap ''session'') err, close_session sc l3))))"

section \<open>The loop\<close>

definition ctx_over :: "time option \<Rightarrow> time \<Rightarrow> bool" where
  "ctx_over ctx t = (case ctx of None \<Rightarrow> False | Some stop \<Rightarrow> stop \<le> t)"

text \<open>Waiting for the backoff, or until the context ends: whether it did.\<close>

definition backing_off :: "time option \<Rightarrow> duration \<Rightarrow> 'h listening \<Rightarrow> bool \<times> 'h listening" where
  "backing_off ctx b l =
     (let l1 = acted (Waited b) l in
      case ctx of
        Some stop \<Rightarrow> if stop \<le> liClock l + b then (True, l1\<lparr>liClock := stop\<rparr>) else (False, passed b l1)
      | None \<Rightarrow> (False, passed b l1))"

text \<open>One turn: a session and the wait after it. The turn says whether \<^verbatim>\<open>Listen\<close> returns, and the next backoff.\<close>

definition listen_turn ::
  "'h handler \<Rightarrow> listen_options \<Rightarrow> time option \<Rightarrow> (session_act list \<Rightarrow> session_script) \<Rightarrow> duration \<Rightarrow> 'h listening
   \<Rightarrow> bool \<times> duration \<times> 'h listening" where
  "listen_turn H opts ctx scripts backoff l =
     (case backoff_bounds (loMinBackoff opts) (loMaxBackoff opts) of (lo, hi) \<Rightarrow>
      case listenOnce H opts (scripts (liTrace l)) l of (err, l1) \<Rightarrow>
        if ctx_over ctx (liClock l1) then (True, backoff, l1)
        else (let e = (case err of None \<Rightarrow> ErrorMsg ''session ended without an error'' | Some e \<Rightarrow> e);
                  b = (if liClock l1 - liClock l \<ge> healthySession then lo else backoff) in
              case backing_off ctx b (session_ended H e l1) of
                (over, l2) \<Rightarrow> (over, if over then b else min (wrap64 (b * 2)) hi, l2)))"

fun listen_turns ::
  "'h handler \<Rightarrow> listen_options \<Rightarrow> time option \<Rightarrow> (session_act list \<Rightarrow> session_script) \<Rightarrow> nat \<Rightarrow> duration \<Rightarrow> 'h listening
   \<Rightarrow> bool \<times> duration \<times> 'h listening" where
  "listen_turns H opts ctx scripts 0 backoff l = (False, backoff, l)"
| "listen_turns H opts ctx scripts (Suc n) backoff l =
     (case listen_turn H opts ctx scripts backoff l of
        (over, b, l') \<Rightarrow> if over then (True, b, l') else listen_turns H opts ctx scripts n b l')"

text \<open>\<^verbatim>\<open>Listen\<close> after at most so many turns: whether it returned, and what it did.\<close>

definition client_Listen ::
  "'h handler \<Rightarrow> listen_options \<Rightarrow> time option \<Rightarrow> (session_act list \<Rightarrow> session_script) \<Rightarrow> nat \<Rightarrow> 'h listening
   \<Rightarrow> bool \<times> 'h listening" where
  "client_Listen H opts ctx scripts n l =
     (case listen_turns H opts ctx scripts n (fst (backoff_bounds (loMinBackoff opts) (loMaxBackoff opts))) l of
        (over, b, l') \<Rightarrow> (over, l'))"

section \<open>The scale set's handler\<close>

text \<open>The scale set's state, and whether it woke the loop. \<open>text_of\<close> is the text of an error.\<close>

definition scale_set_handler :: "(error \<Rightarrow> string) \<Rightarrow> (scaleSetState \<times> bool) handler" where
  "scale_set_handler text_of =
     \<lparr>hDesired = (\<lambda>n (s, wk). case DesiredRunners n s of (t, changed, s') \<Rightarrow> (Inr t, s', wk \<or> changed)),
      hStarted = (\<lambda>j (s, wk). (None, JobStarted j s, wk)),
      hCompleted = (\<lambda>j (s, wk). (None, JobCompleted j s, True)),
      hObserver = Some (\<lambda>t (s, wk). (SessionOpened t s, wk), \<lambda>t e (s, wk). (SessionEnded t (text_of e) s, wk)),
      hRecorder = Some (\<lambda>st (s, wk). (RecordStats st s, wk))\<rparr>"

text \<open>What \<^verbatim>\<open>Run\<close> asks \<^verbatim>\<open>Listen\<close> for, one scale set at a time.\<close>

definition run_listen_options :: "string \<Rightarrow> scaleSetState \<Rightarrow> listen_options" where
  "run_listen_options owner s =
     \<lparr>loScaleSetID = sId s, loMaxRunners = MaxRunners (sCfg s), loOwner = owner, loMinBackoff = 0, loMaxBackoff = 0\<rparr>"

end
