(* ===== verification/Session_Facts.thy ===== *)
theory Session_Facts
  imports Session
begin

text \<open>
  What a scale set's message session guarantees. A handler whose callbacks only record can be replaced by the events it
  recorded (\<open>recording_handler\<close>), so the sessions of a scale set are steps of the controller's machine; a session is
  closed before the next is asked for; the waits between sessions are those of \<open>Github.Listen\<close>; and \<^verbatim>\<open>Listen\<close> returns
  when its context ends, and only then.
\<close>

lemma listening_parts [simp]:
  "liHandler (acted a l) = liHandler l" "liClock (acted a l) = liClock l" "liTrace (acted a l) = a # liTrace l"
  "liHandler (passed d l) = liHandler l" "liClock (passed d l) = liClock l + d" "liTrace (passed d l) = liTrace l"
  "liHandler (handled f l) = f (liHandler l)" "liClock (handled f l) = liClock l" "liTrace (handled f l) = liTrace l"
  by (simp_all add: acted_def passed_def handled_def)

lemma observer_parts [simp]:
  "liClock (session_opened H l) = liClock l" "liTrace (session_opened H l) = liTrace l"
  "liClock (session_ended H e l) = liClock l" "liTrace (session_ended H e l) = liTrace l"
  by (simp_all add: session_opened_def session_ended_def split: option.split)

lemma close_parts [simp]:
  "liHandler (close_session sc l) = liHandler l" "liTrace (close_session sc l) = SessionClosed # liTrace l"
  by (simp_all add: close_session_def)

text \<open>How a session goes: it is not opened, its listener is not made, or its listener runs.\<close>

definition asking :: "listen_options \<Rightarrow> session_script \<Rightarrow> 'h listening \<Rightarrow> 'h listening" where
  "asking opts sc l = passed (int (scOpening sc)) (acted (SessionAsked (loScaleSetID opts) (loOwner opts)) l)"

definition in_session :: "'h handler \<Rightarrow> listen_options \<Rightarrow> session_script \<Rightarrow> 'h listening \<Rightarrow> 'h listening" where
  "in_session H opts sc l = session_opened H (acted SessionMade (asking opts sc l))"

definition attending :: "'h handler \<Rightarrow> listen_options \<Rightarrow> session_script \<Rightarrow> 'h listening \<Rightarrow> error option \<times> 'h listening" where
  "attending H opts sc l =
     run_listener H (scMessages sc) (scLasting sc) (scEnd sc)
       (acted (ListenerMade (loScaleSetID opts) (loMaxRunners opts)) (in_session H opts sc l))"

lemmas session_parts = asking_def in_session_def attending_def

lemma once_cases:
  assumes "listenOnce H opts sc l = (err, l')"
  obtains (refused) e where "err = Some (wrap ''open session'' e)" "l' = asking opts sc l"
    | (unmade) e where "err = Some (wrap ''create listener'' e)" "l' = close_session sc (in_session H opts sc l)"
    | (ran) e l1 where "attending H opts sc l = (e, l1)" "err = map_option (wrap ''session'') e" "l' = close_session sc l1"
  using assms by (auto simp: listenOnce_def session_parts Let_def split: option.splits prod.splits)

section \<open>Handlers that record\<close>

text \<open>The client's view of a handler: no callback fails, and each one records events.\<close>

locale recording_handler =
  fixes H :: "'h handler"
    and records :: "'e \<Rightarrow> 'h \<Rightarrow> 'h"
    and fits :: "'e \<Rightarrow> bool"
  assumes quick: "fst (adapter H cb h) = None"
    and adapter_records: "\<exists>es. list_all fits es \<and> snd (adapter H cb h) = fold records es h"
    and opened_records: "hObserver H = Some (opened, ended) \<Longrightarrow> \<exists>es. list_all fits es \<and> opened t h = fold records es h"
    and ended_records: "hObserver H = Some (opened, ended) \<Longrightarrow> \<exists>es. list_all fits es \<and> ended t e h = fold records es h"
begin

definition recorded :: "'h listening \<Rightarrow> 'h listening \<Rightarrow> bool" where
  "recorded l l' \<longleftrightarrow> (\<exists>es. list_all fits es \<and> liHandler l' = fold records es (liHandler l))"

lemma recorded_refl: "liHandler l' = liHandler l \<Longrightarrow> recorded l l'"
  by (auto simp: recorded_def intro: exI [of _ "[]"])

lemma recorded_trans: "recorded l l1 \<Longrightarrow> recorded l1 l2 \<Longrightarrow> recorded l l2"
proof (unfold recorded_def, elim exE conjE)
  fix es fs
  assume "list_all fits es" "liHandler l1 = fold records es (liHandler l)"
    and "list_all fits fs" "liHandler l2 = fold records fs (liHandler l1)"
  then show "\<exists>gs. list_all fits gs \<and> liHandler l2 = fold records gs (liHandler l)"
    by (intro exI [of _ "es @ fs"]) simp
qed

lemma recorded_handled:
  "\<exists>es. list_all fits es \<and> f (liHandler l) = fold records es (liHandler l) \<Longrightarrow> recorded l (handled f l)"
  by (simp add: recorded_def handled_def)

lemma recorded_opened: "recorded l (session_opened H l)"
  using opened_records by (auto simp: session_opened_def intro!: recorded_refl recorded_handled split: option.split)

lemma recorded_ended: "recorded l (session_ended H e l)"
  using ended_records by (auto simp: session_ended_def intro!: recorded_refl recorded_handled split: option.split)

lemma listener_records: "recorded l (snd (run_listener H msgs lasting end_error l))"
proof (induction msgs arbitrary: l)
  case Nil
  then show ?case by (simp add: recorded_refl passed_def)
next
  case (Cons m msgs)
  obtain d cb where m: "m = (d, cb)" by (cases m)
  let ?l1 = "acted (Message cb) (passed (int d) l)"
  have h: "liHandler ?l1 = liHandler l" by (simp add: acted_def passed_def)
  obtain h' where a: "adapter H cb (liHandler l) = (None, h')"
    using quick [of cb "liHandler l"] by (cases "adapter H cb (liHandler l)") auto
  have "recorded l (?l1\<lparr>liHandler := h'\<rparr>)"
    using adapter_records [of cb "liHandler l"] a by (simp add: recorded_def)
  then show ?case
    using recorded_trans [OF _ Cons.IH [of "?l1\<lparr>liHandler := h'\<rparr>"]] by (simp add: m Let_def h a)
qed

lemma recorded_step: "recorded l l1 \<Longrightarrow> liHandler l2 = liHandler l1 \<Longrightarrow> recorded l l2"
  by (simp add: recorded_def)

lemma once_records:
  assumes "listenOnce H opts sc l = (err, l')"
  shows "recorded l l'"
proof -
  have o: "recorded l (in_session H opts sc l)"
    unfolding in_session_def by (rule recorded_trans [OF recorded_refl recorded_opened]) (simp add: asking_def)
  have "recorded l (snd (attending H opts sc l))"
    unfolding attending_def by (rule recorded_trans [OF recorded_step [OF o] listener_records]) simp
  with assms show ?thesis
    by (cases rule: once_cases) (auto simp: asking_def intro: recorded_refl recorded_step [OF o] elim: recorded_step)
qed

lemma turn_records:
  assumes "listen_turn H opts ctx scripts b l = (over, b', l')"
  shows "recorded l l'"
proof -
  obtain err l1 where r: "listenOnce H opts (scripts (liTrace l)) l = (err, l1)" by fastforce
  have "recorded l l1" by (rule once_records [OF r])
  consider "l' = l1" | e d where "backing_off ctx d (session_ended H e l1) = (over, l')"
    using assms r by (auto simp: listen_turn_def Let_def split: prod.splits if_splits)
  then show ?thesis
  proof cases
    case 1
    then show ?thesis using \<open>recorded l l1\<close> by simp
  next
    case 2
    then have "liHandler l' = liHandler (session_ended H e l1)"
      by (auto simp: backing_off_def Let_def split: option.splits if_splits)
    with recorded_trans [OF \<open>recorded l l1\<close> recorded_ended] show ?thesis by (rule recorded_step)
  qed
qed

lemma turns_record: "recorded l (snd (snd (listen_turns H opts ctx scripts n b l)))"
proof (induction n arbitrary: b l)
  case 0
  then show ?case by (simp add: recorded_refl)
next
  case (Suc n)
  show ?case
    using recorded_trans [OF turn_records Suc.IH] turn_records by (auto split: prod.split)
qed

lemma Listen_records: "recorded l (snd (client_Listen H opts ctx scripts n l))"
  using turns_record by (auto simp: client_Listen_def split: prod.split) (metis snd_conv)

end

section \<open>The scale set's handler records events\<close>

definition wakes :: "event \<Rightarrow> scaleSetState \<Rightarrow> bool" where
  "wakes e s = (case e of Desired n \<Rightarrow> fst (snd (DesiredRunners n s)) | Completed j \<Rightarrow> True | _ \<Rightarrow> False)"

definition noted :: "event \<Rightarrow> scaleSetState \<times> bool \<Rightarrow> scaleSetState \<times> bool" where
  "noted e h = (case h of (s, wk) \<Rightarrow> (apply_event e s, wk \<or> wakes e s))"

definition event_of :: "callback \<Rightarrow> event option" where
  "event_of cb =
     (case cb of
        DesiredCount n \<Rightarrow> Some (Desired n)
      | StartedMessage m \<Rightarrow> Some (Started (job_of m))
      | CompletedMessage m \<Rightarrow> Some (Completed (job_of m))
      | Statistics None \<Rightarrow> None
      | Statistics (Some st) \<Rightarrow> Some (Stats (stats_of st)))"

lemma scale_set_adapter:
  "adapter (scale_set_handler text_of) cb h = (None, case event_of cb of None \<Rightarrow> h | Some e \<Rightarrow> noted e h)"
  by (cases h; cases cb)
    (auto simp: adapter_def scale_set_handler_def event_of_def noted_def wakes_def RecordStatistics_def
      split: option.split prod.split)

lemma event_of_listener: "event_of cb = Some e \<Longrightarrow> listener_event e"
  by (auto simp: event_of_def split: callback.splits option.splits)

interpretation scale_set_records: recording_handler "scale_set_handler text_of" noted listener_event
proof
  fix cb h
  show "fst (adapter (scale_set_handler text_of) cb h) = None" by (simp add: scale_set_adapter)
  show "\<exists>es. list_all listener_event es \<and> snd (adapter (scale_set_handler text_of) cb h) = fold noted es h"
    using event_of_listener [of cb]
    by (cases "event_of cb") (auto simp: scale_set_adapter intro: exI [of _ "[]"] exI [of _ "[e]" for e])
next
  fix opened ended t e and h :: "scaleSetState \<times> bool"
  assume "hObserver (scale_set_handler text_of) = Some (opened, ended)"
  then have "opened t h = fold noted [Opened t] h" "ended t e h = fold noted [Ended t (text_of e)] h"
    by (auto simp: scale_set_handler_def noted_def wakes_def split: prod.split)
  then show "\<exists>es. list_all listener_event es \<and> opened t h = fold noted es h"
    and "\<exists>es. list_all listener_event es \<and> ended t e h = fold noted es h"
    by (intro exI [of _ "[Opened t]"] exI [of _ "[Ended t (text_of e)]"]; simp)+
qed

section \<open>Sessions are steps of the machine\<close>

lemma noted_steps:
  assumes "list_all listener_event es" and "cScaleSets (mC m) n = Some s"
  shows "(case fold noted es (s, cWake (mC m)) of (s', wk) \<Rightarrow>
    (mstep E)\<^sup>*\<^sup>* m (m\<lparr>mC := (mC m)\<lparr>cScaleSets := (cScaleSets (mC m))(n \<mapsto> s'), cWake := wk\<rparr>\<rparr>))"
  using assms
proof (induction es arbitrary: m s)
  case Nil
  then have "(cScaleSets (mC m))(n \<mapsto> s) = cScaleSets (mC m)" by (intro fun_upd_idem)
  then show ?case by (simp only: fold_simps prod.case) simp
next
  case (Cons e es)
  let ?m = "m\<lparr>mC := (on_scale_set (Some n) (apply_event e) (mC m))\<lparr>cWake := cWake (mC m) \<or> wakes e s\<rparr>\<rparr>"
  have step: "mstep E m ?m" using Cons.prems by (intro mstep.listen) simp
  have c: "cScaleSets (mC ?m) n = Some (apply_event e s)" using Cons.prems by (simp add: on_scale_set_def)
  have n: "noted e (s, cWake (mC m)) = (apply_event e s, cWake (mC ?m))" by (simp add: noted_def)
  obtain s' wk where f: "fold noted es (apply_event e s, cWake (mC ?m)) = (s', wk)" by fastforce
  have "?m\<lparr>mC := (mC ?m)\<lparr>cScaleSets := (cScaleSets (mC ?m))(n \<mapsto> s'), cWake := wk\<rparr>\<rparr>
      = m\<lparr>mC := (mC m)\<lparr>cScaleSets := (cScaleSets (mC m))(n \<mapsto> s'), cWake := wk\<rparr>\<rparr>"
    by (simp add: on_scale_set_def cong: if_cong)
  moreover have "(mstep E)\<^sup>*\<^sup>* ?m (?m\<lparr>mC := (mC ?m)\<lparr>cScaleSets := (cScaleSets (mC ?m))(n \<mapsto> s'), cWake := wk\<rparr>\<rparr>)"
    using Cons.IH [of ?m "apply_event e s"] c Cons.prems(1) by (simp only: f prod.case list.pred_inject)
  ultimately have "(mstep E)\<^sup>*\<^sup>* m (m\<lparr>mC := (mC m)\<lparr>cScaleSets := (cScaleSets (mC m))(n \<mapsto> s'), cWake := wk\<rparr>\<rparr>)"
    using converse_rtranclp_into_rtranclp [of "mstep E", OF step] by (simp only:)
  then show ?case by (simp only: fold_simps n f prod.case)
qed

text \<open>
  Whatever GitHub's sessions bring, and however many there have been, what \<^verbatim>\<open>Listen\<close> has done to a scale set is what
  steps of the controller's machine do: every state its callbacks leave is one the machine can reach, so what holds
  of all reachable machines holds while sessions come and go.
\<close>

theorem listening_refines_machine:
  assumes "cScaleSets (mC m) n = Some s" and "liHandler l = (s, cWake (mC m))"
  shows "(case liHandler (snd (client_Listen (scale_set_handler text_of) opts ctx scripts k l)) of (s', wk) \<Rightarrow>
    (mstep E)\<^sup>*\<^sup>* m (m\<lparr>mC := (mC m)\<lparr>cScaleSets := (cScaleSets (mC m))(n \<mapsto> s'), cWake := wk\<rparr>\<rparr>))"
proof -
  obtain es where "list_all listener_event es"
    and "liHandler (snd (client_Listen (scale_set_handler text_of) opts ctx scripts k l)) = fold noted es (liHandler l)"
    using scale_set_records.Listen_records [of l text_of opts ctx scripts k]
    by (auto simp: scale_set_records.recorded_def)
  then show ?thesis using noted_steps [OF _ assms(1), of es E] assms(2) by simp
qed

text \<open>Between sessions the scale set shows its session as ended, with the reason, since the time it ended.\<close>

lemma between_sessions:
  assumes "listen_turn (scale_set_handler text_of) opts ctx scripts b l = (False, b', l')"
  shows "(case liHandler l' of (s, wk) \<Rightarrow> \<not> sSessionOpen s \<and> (\<exists>e. sSessionErr s = text_of e)
    \<and> (\<exists>d. hd (liTrace l') = Waited d \<and> sSessionSince s + d = liClock l'))"
proof -
  let ?H = "scale_set_handler text_of"
  obtain e l1 d where w: "backing_off ctx d (session_ended ?H e l1) = (False, l')"
    using assms by (auto simp: listen_turn_def Let_def split: prod.splits if_splits)
  then have "l' = passed d (acted (Waited d) (session_ended ?H e l1))"
    by (auto simp: backing_off_def Let_def split: option.splits if_splits)
  moreover have "liHandler (session_ended ?H e l1) =
      (SessionEnded (liClock l1) (text_of e) (fst (liHandler l1)), snd (liHandler l1))"
    by (simp add: session_ended_def scale_set_handler_def split: prod.split)
  ultimately show ?thesis by (auto simp: SessionEnded_def)
qed

section \<open>One session at a time\<close>

datatype phase = Idle | Asked | Open | Listening

definition phase_step :: "listen_options \<Rightarrow> session_act \<Rightarrow> phase \<Rightarrow> phase option" where
  "phase_step opts a p =
     (case (a, p) of
        (SessionAsked i owner, Idle) \<Rightarrow> if i = loScaleSetID opts \<and> owner = loOwner opts then Some Asked else None
      | (SessionMade, Asked) \<Rightarrow> Some Open
      | (ListenerMade i most, Open) \<Rightarrow> if i = loScaleSetID opts \<and> most = loMaxRunners opts then Some Listening else None
      | (Message cb, Listening) \<Rightarrow> Some Listening
      | (SessionClosed, Open) \<Rightarrow> Some Idle
      | (SessionClosed, Listening) \<Rightarrow> Some Idle
      | (Waited b, Idle) \<Rightarrow> Some Idle
      | (Waited b, Asked) \<Rightarrow> Some Idle
      | _ \<Rightarrow> None)"

fun phase_after :: "listen_options \<Rightarrow> session_act list \<Rightarrow> phase option" where
  "phase_after opts [] = Some Idle"
| "phase_after opts (a # h) = (case phase_after opts h of None \<Rightarrow> None | Some p \<Rightarrow> phase_step opts a p)"

lemmas phase_steps = phase_step_def phase_after.simps

lemma listener_phase:
  "phase_after opts (liTrace l) = Some Listening \<Longrightarrow>
    phase_after opts (liTrace (snd (run_listener H msgs lasting end_error l))) = Some Listening"
proof (induction msgs arbitrary: l)
  case (Cons m msgs)
  then show ?case by (cases m) (auto simp: phase_step_def Let_def split: prod.split option.split)
qed simp

lemma once_phase:
  assumes "phase_after opts (liTrace l) = Some Idle" and "listenOnce H opts sc l = (err, l')"
  shows "phase_after opts (liTrace l') \<in> {Some Idle, Some Asked}"
proof -
  have a: "phase_after opts (liTrace (asking opts sc l)) = Some Asked"
    and o: "phase_after opts (liTrace (in_session H opts sc l)) = Some Open"
    using assms(1) by (simp_all add: asking_def in_session_def phase_step_def)
  from o have r: "phase_after opts (liTrace (snd (attending H opts sc l))) = Some Listening"
    unfolding attending_def by (intro listener_phase) (simp add: phase_step_def)
  from assms(2) show ?thesis
  proof (cases rule: once_cases)
    case (refused e)
    then show ?thesis using a by simp
  next
    case (unmade e)
    then show ?thesis using o by (simp add: phase_step_def)
  next
    case (ran e l1)
    then show ?thesis using r by (simp add: phase_step_def)
  qed
qed

lemma turn_phase:
  assumes "phase_after opts (liTrace l) = Some Idle" and "listen_turn H opts ctx scripts b l = (over, b', l')"
  shows "phase_after opts (liTrace l') \<in> {Some Idle, Some Asked}"
    and "\<not> over \<Longrightarrow> phase_after opts (liTrace l') = Some Idle"
proof -
  obtain err l1 where o: "listenOnce H opts (scripts (liTrace l)) l = (err, l1)" by fastforce
  note p = once_phase [OF assms(1) o]
  consider "over" "l' = l1" | e d where "backing_off ctx d (session_ended H e l1) = (over, l')"
    using assms(2) o by (auto simp: listen_turn_def Let_def split: prod.splits if_splits)
  then have "phase_after opts (liTrace l') \<in> {Some Idle, Some Asked} \<and> (over \<or> phase_after opts (liTrace l') = Some Idle)"
  proof cases
    case 1
    then show ?thesis using p by simp
  next
    case 2
    then have "liTrace l' = Waited d # liTrace l1" by (auto simp: backing_off_def Let_def split: option.splits if_splits)
    then show ?thesis using p by (auto simp: phase_step_def)
  qed
  then show "phase_after opts (liTrace l') \<in> {Some Idle, Some Asked}"
    and "\<not> over \<Longrightarrow> phase_after opts (liTrace l') = Some Idle" by auto
qed

lemma turns_phase:
  "phase_after opts (liTrace l) = Some Idle \<Longrightarrow>
    phase_after opts (liTrace (snd (snd (listen_turns H opts ctx scripts n b l)))) \<in> {Some Idle, Some Asked}"
proof (induction n arbitrary: b l)
  case (Suc n)
  obtain over b' l' where t: "listen_turn H opts ctx scripts b l = (over, b', l')" by (cases "listen_turn H opts ctx scripts b l")
  show ?case
    using turn_phase [OF Suc.prems t] Suc.IH [of l' b'] by (cases over) (simp_all add: t)
qed simp

text \<open>
  C17. However the sessions go, \<^verbatim>\<open>Listen\<close> asks for a session only while it has none: a session that was opened is closed,
  once, before the wait and the next request, also when its listener is not made or ends with an error. Every request
  is for the scale set and the owner it was called with, and the listener reports the scale set's capacity.
\<close>

theorem one_session_at_a_time:
  "phase_after opts (liTrace (snd (client_Listen H opts ctx scripts n \<lparr>liHandler = h, liClock = t, liTrace = []\<rparr>)))
    \<in> {Some Idle, Some Asked}"
  using turns_phase [of opts "\<lparr>liHandler = h, liClock = t, liTrace = []\<rparr>" H ctx scripts n]
  by (simp add: client_Listen_def split: prod.split) (metis snd_conv)

section \<open>The waits are the reference's\<close>

definition waited :: "session_act list \<Rightarrow> duration list" where
  "waited h = rev (List.map_filter (\<lambda>a. case a of Waited d \<Rightarrow> Some d | _ \<Rightarrow> None) h)"

lemma waited_acted [simp]:
  "waited (Waited d # h) = waited h @ [d]" "waited (SessionAsked i own # h) = waited h" "waited (SessionMade # h) = waited h"
  "waited (ListenerMade i most # h) = waited h" "waited (Message cb # h) = waited h" "waited (SessionClosed # h) = waited h"
  by (simp_all add: waited_def List.map_filter_simps)

lemma listener_waited: "waited (liTrace (snd (run_listener H msgs lasting end_error l))) = waited (liTrace l)"
proof (induction msgs arbitrary: l)
  case (Cons m msgs)
  then show ?case by (cases m) (auto simp: Let_def split: prod.split option.split)
qed simp

lemma listener_clock: "liClock l \<le> liClock (snd (run_listener H msgs lasting end_error l))"
proof (induction msgs arbitrary: l)
  case (Cons m msgs)
  obtain d cb where m: "m = (d, cb)" by (cases m)
  have "liClock l \<le> liClock (snd (run_listener H msgs lasting end_error ((acted (Message cb) (passed (int d) l))\<lparr>liHandler := h\<rparr>)))"
    for h by (rule order_trans [OF _ Cons.IH]) simp
  then show ?case by (auto simp: m Let_def split: prod.split option.split)
qed simp

lemma once_frame:
  assumes "listenOnce H opts sc l = (err, l')"
  shows "waited (liTrace l') = waited (liTrace l)" and "liClock l \<le> liClock l'"
proof -
  have w: "waited (liTrace (snd (attending H opts sc l))) = waited (liTrace l)"
    unfolding attending_def listener_waited by (simp add: in_session_def asking_def)
  have c: "liClock l \<le> liClock (snd (attending H opts sc l))"
    unfolding attending_def by (rule order_trans [OF _ listener_clock]) (simp add: in_session_def asking_def)
  from assms show "waited (liTrace l') = waited (liTrace l)" "liClock l \<le> liClock l'"
    using w c by (auto elim!: once_cases simp: in_session_def asking_def close_session_def closeTimeout_def Second_def)
qed

text \<open>One turn, over the session it ran.\<close>

lemma turn_cases:
  assumes "listen_turn H opts ctx scripts b l = (over, b', l')" and "backoff_bounds (loMinBackoff opts) (loMaxBackoff opts) = (lo, hi)"
  obtains (context_over) err where "listenOnce H opts (scripts (liTrace l)) l = (err, l')" "ctx_over ctx (liClock l')" "over" "b' = b"
  | (back_off) err l1 e d where "listenOnce H opts (scripts (liTrace l)) l = (err, l1)" "\<not> ctx_over ctx (liClock l1)"
      "d = (if liClock l1 - liClock l \<ge> healthySession then lo else b)"
      "backing_off ctx d (session_ended H e l1) = (over, l')" "b' = (if over then d else min (wrap64 (d * 2)) hi)"
  using assms by (auto simp: listen_turn_def Let_def split: prod.splits if_splits)

text \<open>The turns of a run, as the reference sees them.\<close>

definition turn_session ::
  "'h handler \<Rightarrow> listen_options \<Rightarrow> time option \<Rightarrow> (session_act list \<Rightarrow> session_script) \<Rightarrow> bool \<Rightarrow> 'h listening \<Rightarrow> session" where
  "turn_session H opts ctx scripts over l =
     (case listenOnce H opts (scripts (liTrace l)) l of (err, l1) \<Rightarrow>
        \<lparr>seLasted = liClock l1 - liClock l, seError = err, seCtxEnded = ctx_over ctx (liClock l1), seCtxEndedWaiting = over\<rparr>)"

fun turn_sessions ::
  "'h handler \<Rightarrow> listen_options \<Rightarrow> time option \<Rightarrow> (session_act list \<Rightarrow> session_script) \<Rightarrow> nat \<Rightarrow> duration \<Rightarrow> 'h listening
   \<Rightarrow> session list" where
  "turn_sessions H opts ctx scripts 0 b l = []"
| "turn_sessions H opts ctx scripts (Suc n) b l =
     (case listen_turn H opts ctx scripts b l of (over, b', l') \<Rightarrow>
        turn_session H opts ctx scripts over l # (if over then [] else turn_sessions H opts ctx scripts n b' l'))"

lemma backing_off_trace: "backing_off ctx d l = (over, l') \<Longrightarrow> liTrace l' = Waited d # liTrace l"
  by (auto simp: backing_off_def Let_def split: option.splits if_splits)

lemma turns_wait:
  assumes "backoff_bounds (loMinBackoff opts) (loMaxBackoff opts) = (lo, hi)"
  shows "waited (liTrace (snd (snd (listen_turns H opts ctx scripts n b l))))
    = waited (liTrace l) @ listen_loop lo hi b (turn_sessions H opts ctx scripts n b l)"
proof (induction n arbitrary: b l)
  case (Suc n)
  obtain over b' l' where t: "listen_turn H opts ctx scripts b l = (over, b', l')" by (cases "listen_turn H opts ctx scripts b l")
  from t assms show ?case
  proof (cases rule: turn_cases)
    case (context_over err)
    then show ?thesis using once_frame(1) [OF context_over(1)] by (simp add: t turn_session_def)
  next
    case (back_off err l1 e d)
    have w: "waited (liTrace l') = waited (liTrace l) @ [d]"
      using backing_off_trace [OF back_off(4)] once_frame(1) [OF back_off(1)] by simp
    show ?thesis
      using Suc.IH [of b' l'] w back_off by (cases over) (simp_all add: t turn_session_def Let_def)
  qed
qed simp

text \<open>
  The waits between the sessions \<^verbatim>\<open>Listen\<close> really runs are those of the reference loop on what the sessions were: how
  long each lasted and whether the context had ended.
\<close>

theorem waits_as_reference:
  "waited (liTrace (snd (client_Listen H opts ctx scripts n \<lparr>liHandler = h, liClock = t, liTrace = []\<rparr>)))
   = Listen (loMinBackoff opts) (loMaxBackoff opts)
       (turn_sessions H opts ctx scripts n (fst (backoff_bounds (loMinBackoff opts) (loMaxBackoff opts)))
          \<lparr>liHandler = h, liClock = t, liTrace = []\<rparr>)"
proof -
  let ?l = "\<lparr>liHandler = h, liClock = t, liTrace = []\<rparr>"
  obtain lo hi where b: "backoff_bounds (loMinBackoff opts) (loMaxBackoff opts) = (lo, hi)" by fastforce
  show ?thesis
    using turns_wait [OF b, of H ctx scripts n lo ?l]
    by (auto simp: client_Listen_def Listen_def b waited_def List.map_filter_simps split: prod.splits) 
qed

section \<open>Listen returns when its context ends\<close>

lemma run_bounds [simp]: "backoff_bounds (loMinBackoff (run_listen_options owner s)) (loMaxBackoff (run_listen_options owner s)) = (Second, Minute)"
  by (simp add: run_listen_options_def backoff_bounds_def defaultMinBackoff_def defaultMaxBackoff_def Second_def Minute_def)

lemma second_minute: "Second \<le> Minute"
  by (simp add: Second_def Minute_def)

lemma run_turn_over:
  assumes "listen_turn H (run_listen_options owner s) ctx scripts b l = (True, b', l')"
  shows "ctx_over ctx (liClock l')"
  using assms run_bounds
proof (cases rule: turn_cases)
  case (back_off err l1 e d)
  then show ?thesis by (auto simp: backing_off_def ctx_over_def Let_def split: option.splits if_splits)
qed simp

lemma run_turn_goes_on:
  assumes "listen_turn H (run_listen_options owner s) ctx scripts b l = (False, b', l')" and "Second \<le> b" and "b \<le> Minute"
  shows "Second \<le> b' \<and> b' \<le> Minute \<and> liClock l + Second \<le> liClock l' \<and> \<not> ctx_over ctx (liClock l')"
  using assms(1) run_bounds
proof (cases rule: turn_cases)
  case (back_off err l1 e d)
  have d: "Second \<le> d" "d \<le> Minute" using back_off(3) assms(2,3) by (auto simp: Second_def Minute_def)
  then have "wrap64 (d * 2) = d * 2" by (intro wrap64_id) (simp add: in_int64_def Second_def Minute_def)
  then show ?thesis
    using back_off d once_frame(2) [OF back_off(1)]
    by (auto simp: backing_off_def ctx_over_def Let_def Second_def Minute_def split: option.splits if_splits)
qed simp

lemma run_turns:
  assumes "Second \<le> b" and "b \<le> Minute"
  shows "(case listen_turns H (run_listen_options owner s) ctx scripts n b l of (over, b', l') \<Rightarrow>
    if over then ctx_over ctx (liClock l') else liClock l + int n * Second \<le> liClock l' \<and> (n = 0 \<or> \<not> ctx_over ctx (liClock l')))"
  using assms
proof (induction n arbitrary: b l)
  case (Suc n)
  obtain over b1 l1 where t: "listen_turn H (run_listen_options owner s) ctx scripts b l = (over, b1, l1)"
    by (cases "listen_turn H (run_listen_options owner s) ctx scripts b l")
  show ?case
  proof (cases over)
    case True
    then have "ctx_over ctx (liClock l1)" using t by (intro run_turn_over) simp
    then show ?thesis using True by (simp add: t)
  next
    case False
    with run_turn_goes_on [of H owner s ctx scripts b l b1 l1] t Suc.prems
    have g: "Second \<le> b1" "b1 \<le> Minute" "liClock l + Second \<le> liClock l1" "\<not> ctx_over ctx (liClock l1)" by simp_all
    show ?thesis
      using Suc.IH [OF g(1,2), of l1] g(3,4) False
      by (cases n) (auto simp: t algebra_simps split: prod.splits if_splits)
  qed
qed simp

text \<open>
  C40. As \<^verbatim>\<open>Run\<close> calls it, \<^verbatim>\<open>Listen\<close> never returns while its context lasts, whatever goes wrong with its sessions; when the
  context ends it returns, not before that time, after at most one turn more than seconds passed until then, since
  every turn that goes on waits a second or longer.
\<close>

theorem listen_returns:
  "(case ctx of
      None \<Rightarrow> \<not> fst (client_Listen H (run_listen_options owner s) None scripts n l)
    | Some stop \<Rightarrow>
        (case client_Listen H (run_listen_options owner s) (Some stop) scripts (nat ((stop - liClock l) div Second) + 1) l of
           (over, l') \<Rightarrow> over \<and> stop \<le> liClock l'))"
proof (cases ctx)
  case None
  then show ?thesis
    using run_turns [where b = Second and H = H and owner = owner and s = s and ctx = None and scripts = scripts and n = n and l = l]
    by (auto simp: client_Listen_def ctx_over_def Second_def Minute_def split: prod.splits)
next
  case (Some stop)
  define k where "k = nat ((stop - liClock l) div Second) + 1"
  have "x < (x div 1000000000 + 1) * 1000000000" for x :: int by presburger
  from this [of "stop - liClock l"] have "stop - liClock l < int k * Second"
    by (auto simp: k_def Second_def)
  moreover obtain over b' l' where r: "listen_turns H (run_listen_options owner s) (Some stop) scripts k Second l = (over, b', l')"
    by (cases "listen_turns H (run_listen_options owner s) (Some stop) scripts k Second l")
  moreover from this have "if over then stop \<le> liClock l' else liClock l + int k * Second \<le> liClock l' \<and> (k = 0 \<or> \<not> stop \<le> liClock l')"
    using run_turns [where b = Second and H = H and owner = owner and s = s and ctx = "Some stop" and scripts = scripts
        and n = k and l = l, OF order_refl second_minute]
    by (simp add: ctx_over_def split: if_splits)
  moreover have "k \<noteq> 0" by (simp add: k_def)
  ultimately have "over \<and> stop \<le> liClock l'" by (auto split: if_splits)
  moreover from r have "client_Listen H (run_listen_options owner s) (Some stop) scripts k l = (over, l')"
    by (simp add: client_Listen_def)
  ultimately show ?thesis unfolding Some k_def by (simp only: option.case prod.case)
qed

end
