(* ===== verification/Run_Loop.thy ===== *)
theory Run_Loop
  imports Session_Facts Machine_Facts
begin

text \<open>
  \<^verbatim>\<open>Run\<close> of \<^verbatim>\<open>internal/controller/controller.go\<close>: the loop around the passes and how it stops. The controller's machine
  (\<open>Machine\<close>) may take its steps in any order; here they follow the loop. It passes, waits for the context, the ticker or
  the wake channel, and passes again. Once the context has ended and the loop has seen it, it waits for the listeners,
  which end with the context, and then for the operations in flight, but no longer than \<open>retireTimeout\<close>. Operations,
  callbacks and the version comparison go on beside the loop until it returns.
\<close>

section \<open>The loop's states\<close>

datatype run_phase = Passing | Selecting | AwaitListeners | AwaitOps time | Returned

record run_state =
  rsM :: machine
  rsPhase :: run_phase
  rsListening :: "string set"

definition retireTimeout :: duration where "retireTimeout = 5 * Minute"

definition woken :: "controller \<Rightarrow> controller" where
  "woken c = c\<lparr>cWake := False\<rparr>"

text \<open>What goes on beside the loop. A callback comes from a listener that is still running.\<close>

inductive beside :: "env \<Rightarrow> run_state \<Rightarrow> machine \<Rightarrow> bool" for E where
  acquire: "p \<in> set (cOps (mC (rsM s))) \<Longrightarrow> int (length (mRunning (rsM s))) < cParallelism (mC (rsM s)) \<Longrightarrow>
    beside E s ((rsM s)\<lparr>mC := (mC (rsM s))\<lparr>cOps := remove1 p (cOps (mC (rsM s)))\<rparr>, mRunning := p # mRunning (rsM s)\<rparr>)"
| abandon: "p \<in> set (cOps (mC (rsM s))) \<Longrightarrow> ctx_ended E (trace (mW (rsM s))) \<Longrightarrow>
    beside E s ((rsM s)\<lparr>mC := finishOp (op_vmid p) ((mC (rsM s))\<lparr>cOps := remove1 p (cOps (mC (rsM s)))\<rparr>)\<rparr>)"
| finish: "p \<in> set (mRunning (rsM s)) \<Longrightarrow> run_op E p (mC (rsM s), mW (rsM s)) = (r, c, w) \<Longrightarrow>
    beside E s ((rsM s)\<lparr>mC := finishOp (op_vmid p) c, mW := w, mRunning := remove1 p (mRunning (rsM s))\<rparr>)"
| callback: "n \<in> rsListening s \<Longrightarrow> cScaleSets (mC (rsM s)) n = Some st \<Longrightarrow> listener_event e \<Longrightarrow>
    beside E s ((rsM s)\<lparr>mC := (on_scale_set (Some n) (apply_event e) (mC (rsM s)))\<lparr>cWake := cWake (mC (rsM s)) \<or> wakes e st\<rparr>\<rparr>)"
| compared: "(t, since) \<in> set (mFresh (rsM s)) \<Longrightarrow> compareRunner E t since (mW (rsM s)) = (nxt, lvl, w) \<Longrightarrow>
    beside E s ((rsM s)\<lparr>mC := (mC (rsM s))\<lparr>cNextRunnerCheck := nxt\<rparr>, mW := w, mFresh := remove1 (t, since) (mFresh (rsM s))\<rparr>)"
| passing_time: "beside E s ((rsM s)\<lparr>mW := (mW (rsM s))\<lparr>clock := clock (mW (rsM s)) + int d\<rparr>\<rparr>)"

inductive rstep :: "env \<Rightarrow> run_state \<Rightarrow> run_state \<Rightarrow> bool" for E where
  background: "rsPhase s \<noteq> Returned \<Longrightarrow> beside E s m \<Longrightarrow> rstep E s (s\<lparr>rsM := m\<rparr>)"
| pass: "rsPhase s = Passing \<Longrightarrow> sorts_by_age (sort_idle ord) \<Longrightarrow>
    reconcile E ord (mC (rsM s), mW (rsM s)) = (r, fresh, c, w) \<Longrightarrow>
    rstep E s (s\<lparr>rsM := (rsM s)\<lparr>mC := c, mW := w,
        mFresh := (case fresh of None \<Rightarrow> mFresh (rsM s) | Some f \<Rightarrow> f # mFresh (rsM s))\<rparr>, rsPhase := Selecting\<rparr>)"
| ticked: "rsPhase s = Selecting \<Longrightarrow> rstep E s (s\<lparr>rsPhase := Passing\<rparr>)"
| woke: "rsPhase s = Selecting \<Longrightarrow> cWake (mC (rsM s)) \<Longrightarrow>
    rstep E s (s\<lparr>rsM := (rsM s)\<lparr>mC := woken (mC (rsM s))\<rparr>, rsPhase := Passing\<rparr>)"
| stop: "rsPhase s = Selecting \<Longrightarrow> ctx_ended E (trace (mW (rsM s))) \<Longrightarrow> rstep E s (s\<lparr>rsPhase := AwaitListeners\<rparr>)"
| listener_returns: "n \<in> rsListening s \<Longrightarrow> rsPhase s \<noteq> Returned \<Longrightarrow> ctx_ended E (trace (mW (rsM s))) \<Longrightarrow>
    rstep E s (s\<lparr>rsListening := rsListening s - {n}\<rparr>)"
| listeners_done: "rsPhase s = AwaitListeners \<Longrightarrow> rsListening s = {} \<Longrightarrow>
    rstep E s (s\<lparr>rsPhase := AwaitOps (clock (mW (rsM s)) + retireTimeout)\<rparr>)"
| ops_done: "rsPhase s = AwaitOps deadline \<Longrightarrow> cOps (mC (rsM s)) = [] \<Longrightarrow> mRunning (rsM s) = [] \<Longrightarrow> mFresh (rsM s) = [] \<Longrightarrow>
    rstep E s (s\<lparr>rsPhase := Returned\<rparr>)"
| gave_up: "rsPhase s = AwaitOps deadline \<Longrightarrow> deadline \<le> clock (mW (rsM s)) \<Longrightarrow>
    rstep E s (s\<lparr>rsPhase := Returned\<rparr>)"

text \<open>
  The loop starts once the scale sets are registered, with a listener for each. The calls of the registration are not
  part of its history.
\<close>

definition run_start :: "env \<Rightarrow> orders \<Rightarrow> options \<Rightarrow> world \<Rightarrow> run_state option" where
  "run_start E ord opts w0 =
     (case registerScaleSets E ord (New opts, w0) of
        Some (True, c, w) \<Rightarrow>
          Some \<lparr>rsM = \<lparr>mC = c, mW = \<lparr>trace = [], clock = clock w\<rparr>, mRunning = [], mFresh = []\<rparr>, rsPhase = Passing,
                rsListening = dom (cScaleSets c)\<rparr>
      | _ \<Rightarrow> None)"

section \<open>The loop is the machine\<close>

lemma beside_mstep: "beside E s m \<Longrightarrow> mstep E (rsM s) m"
  by (induction rule: beside.induct)
    (auto intro: mstep.acquire mstep.abandon mstep.finish mstep.listen mstep.compared mstep.tick)

lemma rstep_mstep:
  assumes "rstep E s s'"
  shows "(mstep E)\<^sup>*\<^sup>* (rsM s) (rsM s')"
  using assms
proof cases
  case (background m)
  then show ?thesis using beside_mstep by auto
next
  case (pass ord r fresh c w)
  have "reconcile E ord ((mC (rsM s))\<lparr>cWake := cWake (mC (rsM s))\<rparr>, mW (rsM s)) = (r, fresh, c, w)"
    using pass(4) by simp
  from mstep.pass [OF pass(3) this] show ?thesis using pass(1) by simp
next
  case woke
  then show ?thesis using mstep.wake [of E "rsM s" False] by (simp add: woken_def)
qed simp_all

lemma rsteps_msteps: "(rstep E)\<^sup>*\<^sup>* s s' \<Longrightarrow> (mstep E)\<^sup>*\<^sup>* (rsM s) (rsM s')"
  by (induction rule: rtranclp_induct) (auto intro: rtranclp_trans rstep_mstep)

lemma with_ids_self: "with_ids (\<lambda>n. sId (the (cScaleSets c n))) c = c"
proof -
  have "map_option (\<lambda>s. s\<lparr>sId := sId (the (cScaleSets c n))\<rparr>) (cScaleSets c n) = cScaleSets c n" for n
    by (cases "cScaleSets c n") simp_all
  then show ?thesis by (simp add: with_ids_def)
qed

lemma with_ids_again: "with_ids ids (with_ids ids' c) = with_ids ids c"
  by (simp add: with_ids_def option.map_comp o_def)

lemma on_scale_set_ids:
  "on_scale_set (Some n) (\<lambda>s. s\<lparr>sId := i\<rparr>) c = with_ids ((\<lambda>n. sId (the (cScaleSets c n)))(n := i)) c"
proof -
  have "map_option (\<lambda>s. s\<lparr>sId := sId (the (cScaleSets c n))\<rparr>) (cScaleSets c n) = cScaleSets c n" for n
    by (cases "cScaleSets c n") simp_all
  then show ?thesis by (simp add: with_ids_def on_scale_set_def fun_upd_def fun_eq_iff cong: if_cong)
qed

lemma register_all_ids:
  "register_all E ns (c, w) = Some (ok, c', w') \<Longrightarrow> \<exists>ids. c' = with_ids ids c"
proof (induction ns arbitrary: c w)
  case Nil
  then show ?case using with_ids_self [of c, symmetric] by auto
next
  case (Cons n ns)
  show ?case
  proof (cases "cScaleSets c n")
    case None
    then show ?thesis using Cons by simp
  next
    case (Some s)
    then consider "c' = c" | i w2 where "register_all E ns (on_scale_set (Some n) (\<lambda>s. s\<lparr>sId := i\<rparr>) c, w2) = Some (ok, c', w')"
      using Cons.prems by (auto split: option.splits)
    then show ?thesis
    proof cases
      case 1
      then show ?thesis using with_ids_self [of c, symmetric] by blast
    next
      case 2
      then show ?thesis using Cons.IH [OF 2] by (auto simp: on_scale_set_ids with_ids_again)
    qed
  qed
qed

lemma run_start_minit:
  assumes "run_start E ord opts w0 = Some s0"
  shows "minit opts (rsM s0)"
proof -
  obtain c w where r: "registerScaleSets E ord (New opts, w0) = Some (True, c, w)"
    and s0: "rsM s0 = \<lparr>mC = c, mW = \<lparr>trace = [], clock = clock w\<rparr>, mRunning = [], mFresh = []\<rparr>"
    using assms by (auto simp: run_start_def split: option.splits prod.splits bool.splits)
  obtain ids where "c = with_ids ids (New opts)"
    using register_all_ids [OF r [unfolded registerScaleSets_def]] by blast
  then show ?thesis using s0 by (auto simp: minit_def)
qed


section \<open>Stopping\<close>

definition in_flight :: "run_state \<Rightarrow> op list" where
  "in_flight s = cOps (mC (rsM s)) @ mRunning (rsM s)"

lemma beside_flight:
  assumes "beside E s m"
  shows "mset (cOps (mC m) @ mRunning m) \<subseteq># mset (in_flight s) \<and> clock (mW (rsM s)) \<le> clock (mW m)"
  using assms
proof cases
  case (finish p r c w)
  then have "same_core (mC (rsM s)) c" and "clock (mW (rsM s)) \<le> clock w"
    using run_op_core run_op_extends by (auto simp: extends_def)
  then show ?thesis using finish(1) by (simp add: in_flight_def same_core_def finishOp_def)
next
  case (compared t since nxt lvl w)
  then have "clock (mW (rsM s)) \<le> clock w"
    using calls_clock [of "mW (rsM s)" E LatestRunnerRelease]
    by (auto simp: compareRunner_def gh_LatestRunnerRelease_def Let_def split: sum.splits)
  then show ?thesis using compared(1) by (simp add: in_flight_def)
qed (simp_all add: in_flight_def finishOp_def on_scale_set_def)

text \<open>How far the loop is with stopping, since the time it saw that the context had ended.\<close>

definition stopping :: "time \<Rightarrow> run_state \<Rightarrow> bool" where
  "stopping since s \<longleftrightarrow> since \<le> clock (mW (rsM s)) \<and>
     (case rsPhase s of
        AwaitListeners \<Rightarrow> True
      | AwaitOps deadline \<Rightarrow> rsListening s = {} \<and> since + retireTimeout \<le> deadline
      | Returned \<Rightarrow> rsListening s = {} \<and> (in_flight s = [] \<and> mFresh (rsM s) = [] \<or> since + retireTimeout \<le> clock (mW (rsM s)))
      | _ \<Rightarrow> False)"

lemma rstep_stopping:
  assumes "rstep E s s'" and "stopping since s"
  shows "stopping since s' \<and> mset (in_flight s') \<subseteq># mset (in_flight s)"
  using assms(1)
proof cases
  case (background m)
  then show ?thesis
    using beside_flight [OF background(3)] assms(2)
    by (auto simp: stopping_def in_flight_def split: run_phase.splits)
qed (use assms(2) in \<open>auto simp: stopping_def in_flight_def split: run_phase.splits\<close>)

text \<open>
  C4. Once the loop has stopped it starts nothing: the operations in flight are among those that were in flight then, each
  at most once. And it returns only when every listener has returned and nothing is in flight any more, or after the
  longest time one retirement may take.
\<close>

theorem stopping_starts_nothing:
  assumes "rsPhase s = AwaitListeners" and "(rstep E)\<^sup>*\<^sup>* s s'"
  shows "mset (in_flight s') \<subseteq># mset (in_flight s)
    \<and> (rsPhase s' = Returned \<longrightarrow> rsListening s' = {} \<and>
        (in_flight s' = [] \<and> mFresh (rsM s') = [] \<or> clock (mW (rsM s)) + retireTimeout \<le> clock (mW (rsM s'))))"
proof -
  have "stopping (clock (mW (rsM s))) s' \<and> mset (in_flight s') \<subseteq># mset (in_flight s)"
    using assms(2)
  proof (induction rule: rtranclp_induct)
    case base
    then show ?case using assms(1) by (simp add: stopping_def)
  next
    case (step t u)
    then show ?case using rstep_stopping subset_mset.order_trans by blast
  qed
  then show ?thesis by (auto simp: stopping_def)
qed

section \<open>An example\<close>

definition example_run_options :: options where
  "example_run_options =
     \<lparr>oConfig = example_config 2, oResyncInterval = 0, oBootTimeout = 0, oRunnerCheckAfter = 0,
      oRunnerCheckEvery = 0, oParallelism = 0, oRetryBackoff = 0\<rparr>"

lemma example_starts: "run_start (example_env all_ok) example_orders opts w0 \<noteq> None"
proof -
  let ?E = "example_env all_ok"
  have e: "ensure_loop ?E st b w = Some (Some 3, calls ?E (EnsureScaleSet (ssName st) (Labels st) (RunnerGroup st)) w)" for st b w
    by (subst ensure_loop.simps) (simp add: gh_EnsureScaleSet_def example_env_def Let_def)
  have "\<exists>c w. registerScaleSets ?E example_orders (New opts, w0) = Some (True, c, w)"
    unfolding registerScaleSets_def example_orders_def
    by (cases "cScaleSets (New opts) ''par''") (simp_all add: e)
  then show ?thesis by (auto simp: run_start_def)
qed


definition example_stopped :: run_state where
  "example_stopped =
     \<lparr>rsM = \<lparr>mC = New example_run_options, mW = \<lparr>trace = [], clock = 0\<rparr>, mRunning = [], mFresh = []\<rparr>,
      rsPhase = AwaitListeners, rsListening = {}\<rparr>"

theorem stopping_starts_nothing_witness:
  "mset (in_flight (example_stopped\<lparr>rsPhase := Returned\<rparr>)) \<subseteq># {#}"
proof -
  have "rstep (example_env all_ok) example_stopped (example_stopped\<lparr>rsPhase := AwaitOps retireTimeout\<rparr>)"
    using rstep.listeners_done [of example_stopped "example_env all_ok"] by (simp add: example_stopped_def)
  moreover have "rstep (example_env all_ok) (example_stopped\<lparr>rsPhase := AwaitOps retireTimeout\<rparr>) (example_stopped\<lparr>rsPhase := Returned\<rparr>)"
    using rstep.ops_done [of "example_stopped\<lparr>rsPhase := AwaitOps retireTimeout\<rparr>" retireTimeout "example_env all_ok"]
    by (simp add: example_stopped_def New_def)
  ultimately have "(rstep (example_env all_ok))\<^sup>*\<^sup>* example_stopped (example_stopped\<lparr>rsPhase := Returned\<rparr>)"
    by (meson r_into_rtranclp rtranclp.rtrancl_into_rtrancl)
  from stopping_starts_nothing [OF _ this] show ?thesis
    by (simp add: example_stopped_def in_flight_def New_def)
qed

end
