(* ===== verification/Program.thy ===== *)
theory Program
  imports Cli_Facts Vm_Facts Commands_Config
begin

text \<open>
  The whole command \<^verbatim>\<open>parcon\<close> (\<^verbatim>\<open>cmd/parcon/main.go\<close>), and the host with the controller VM beside it. \<open>parcon\<close> is \<^verbatim>\<open>run\<close>
  with the VM's commands put in: on the host they are not reached, in the VM the installer's are not. \<open>vm_files\<close> are the
  VM's files as the commands that the host sent through the guest agent leave them, and \<open>runs_parcon\<close> says that the VM
  answers those commands as this program does. The host then sends the VM a configuration that the VM's own parcon
  accepts, and what the controller loads is what the settings say.
\<close>

section \<open>parcon\<close>

record parcon_env =
  pe_cli :: cli_env
  pe_vm :: vm_env
  pe_json :: "printed \<Rightarrow> string"
  pe_run :: "config \<times> pve_client \<times> string \<Rightarrow> vm_world \<Rightarrow> error option \<times> vm_world"

definition printed_line :: "parcon_env \<Rightarrow> printed \<Rightarrow> string" where
  "printed_line P p = (case p of Line s \<Rightarrow> s | _ \<Rightarrow> pe_json P p)"

definition vm_command :: "parcon_env \<Rightarrow> string \<Rightarrow> string list \<Rightarrow> vm_world \<Rightarrow> outcome \<times> vm_world" where
  "vm_command P command rest v =
     (case (if command = ''run'' then runController (pe_run P) (pe_vm P) rest v
            else if command = ''check'' then runCheck (pe_vm P) rest v
            else runGitHub (pe_vm P) rest v) of
        ((out, err), v') \<Rightarrow> ((map (printed_line P) out, err), v'))"

definition in_vm :: "parcon_env \<Rightarrow> string list \<Rightarrow> bool" where
  "in_vm P args \<longleftrightarrow> \<not> ce_hostMode (pe_cli P) \<and> args \<noteq> [] \<and> hd args \<in> {''run'', ''check'', ''github''}"

text \<open>A command works on the host or in the VM, so it is given both worlds and changes at most one of them.\<close>

definition parcon :: "parcon_env \<Rightarrow> string list \<Rightarrow> host \<times> vm_world \<Rightarrow> outcome \<times> host \<times> vm_world" where
  "parcon P args hv =
     (case hv of (w, v) \<Rightarrow>
        (case cli_run (pe_cli P) (\<lambda>command rest. fst (vm_command P command rest v)) args w of
           (out, w') \<Rightarrow> (out, w', if in_vm P args then snd (vm_command P (hd args) (tl args) v) else v)))"

lemma parcon_in_vm:
  assumes "\<not> ce_hostMode (pe_cli P)" and "command \<in> {''run'', ''check'', ''github''}"
  shows "parcon P (command # rest) (w, v) = (case vm_command P command rest v of (out, v') \<Rightarrow> (out, w, v'))"
  using assms by (auto simp: parcon_def cli_run_def in_vm_def split_beta)

text \<open>
  \<^verbatim>\<open>parcon\<close> keeps its two sides apart: on the host nothing happens in a VM's world, and in a VM nothing on the host's. The
  commands of the other side end with an error and do nothing.
\<close>

lemma parcon_sides:
  "(ce_hostMode (pe_cli P) \<longrightarrow> snd (snd (parcon P args (w, v))) = v)
   \<and> (\<not> ce_hostMode (pe_cli P) \<longrightarrow> fst (snd (parcon P args (w, v))) = w)"
  by (auto simp: parcon_def in_vm_def cli_run_def split: list.split prod.split)

section \<open>The controller VM, seen from the host\<close>

text \<open>The shell's and the coreutils' part of what the host asks of the VM: a file is written, moved or removed.\<close>

definition guest_file_change :: "string list \<Rightarrow> string option \<Rightarrow> file_system \<Rightarrow> file_system option" where
  "guest_file_change argv stdin fs =
     (if argv = parcon_argv (write_argv (last argv))
      then map_option (\<lambda>data. fs(last argv \<mapsto> data)) stdin
      else if argv = parcon_argv replace_argv
      then map_option (\<lambda>data. fs(config_DefaultPath \<mapsto> data, next_path := None)) (fs next_path)
      else if argv = parcon_argv [''rm'', ''-f'', next_path] then Some (fs(next_path := None))
      else None)"

fun vm_files :: "int \<Rightarrow> hevent list \<Rightarrow> file_system" where
  "vm_files vid [] = Map.empty"
| "vm_files vid (HGuest v t argv stdin # tr) =
     (let fs = vm_files vid tr in
      if v = vid then (case guest_file_change argv stdin fs of None \<Rightarrow> fs | Some fs' \<Rightarrow> fs') else fs)"
| "vm_files vid (ev # tr) = vm_files vid tr"

text \<open>What the guest agent reports of a \<^verbatim>\<open>parcon\<close> that ended.\<close>

definition exec_of :: "parcon_env \<Rightarrow> outcome \<Rightarrow> exec_result" where
  "exec_of P res =
     \<lparr>ExitCode = exit_code (snd res), Signal = 0, Stdout = concat (map (\<lambda>l. l @ [CHR 0x0A]) (fst res)),
      Stderr = (case main_says (ce_text (pe_cli P)) (snd res) of None \<Rightarrow> [] | Some l \<Rightarrow> l @ [CHR 0x0A])\<rparr>"

text \<open>
  The VM answers the host's commands: file commands that can be done are done, and \<^verbatim>\<open>parcon check\<close> gives what this program
  gives on the VM's files. Nothing is said of other commands, such as those that reach GitHub.
\<close>

definition runs_parcon :: "parcon_env \<Rightarrow> henv \<Rightarrow> int \<Rightarrow> bool" where
  "runs_parcon P E vid \<longleftrightarrow>
     \<not> ce_hostMode (pe_cli P) \<and> he_host E = ve_host (pe_vm P) \<and> he_readConfig E = ve_yaml (pe_vm P)
     \<and> (\<forall>t argv stdin tr. guest_file_change argv stdin (vm_files vid tr) \<noteq> None \<longrightarrow>
          he_exec E (HGuest vid t argv stdin # tr)
            = (None, Inr (\<lparr>ExitCode = 0, Signal = 0, Stdout = [], Stderr = []\<rparr>, True)))
     \<and> (\<forall>t args tr. \<exists>w v. vwFiles v = vm_files vid tr \<and>
          he_exec E (HGuest vid t (parcon_argv (''parcon'' # ''check'' # args)) None # tr)
            = (None, Inr (exec_of P (fst (parcon P (''check'' # args) (w, v))), True)))"

section \<open>What the VM says of a configuration\<close>

lemma config_flag: "parseHostFlags (map_of configFlag) [''-config'', path] = Inr [(''config'', path)]"
  by (simp add: parseHostFlags_def parse_flags.simps parse_named_def configFlag_def cut_flag_def takes_def TextFlag_def)

lemma check_config_says:
  assumes "\<not> ce_hostMode (pe_cli P)" and "loaded (pe_vm P) (vwFiles v) path = Inr cfg"
  shows "fst (parcon P [''check'', ''config'', ''-config'', path] (w, v))
    = ([path @ '': OK, '' @ Itoa (int (length (ScaleSets cfg))) @ '' scale set(s)''], None)"
  using assms
  by (simp add: parcon_in_vm vm_command_def runCheck_def run_command_def config_flag flag_text_def flag_values_def
      run_check_def checkConfig_def printed_line_def split_beta)

lemma rendered_loads:
  assumes "ControllerConfig (ve_host V) enc (ve_yaml V) s env = Inr (cfg, content)" and "fs path = Some content"
  shows "loaded V fs path = Inr cfg"
  using assms
  by (auto simp: ControllerConfig_def Let_def loaded_def config_Load_def split: sum.splits)

section \<open>Commands that the VM carries out\<close>

lemma asParcon_done:
  assumes "he_exec E (HGuest vid t (parcon_argv argv) stdin # hTrace w) = (None, Inr (res, True))"
    and "ExitCode res = 0" "Signal res = 0" and "case stdin of None \<Rightarrow> True | Some s \<Rightarrow> length s \<le> MaxAgentStdinBytes"
  shows "guest_answer E vid t stdin (parcon_argv argv) w
      = (Inr (Stdout res, None), emit E (HGuest vid t (parcon_argv argv) stdin) w)"
    and "asParcon E vid t stdin argv w = (Inr (Stdout res), emit E (HGuest vid t (parcon_argv argv) stdin) w)"
proof -
  show g: "guest_answer E vid t stdin (parcon_argv argv) w
      = (Inr (Stdout res, None), emit E (HGuest vid t (parcon_argv argv) stdin) w)"
    using assms by (auto simp: guest_answer_def GuestExec_def event_def attempt_def andthen_def ret_def split: option.splits)
  then show "asParcon E vid t stdin argv w = (Inr (Stdout res), emit E (HGuest vid t (parcon_argv argv) stdin) w)"
    by (simp add: asParcon_def guestExec_def andthen_def ret_def)
qed

lemma runs_parcon_file:
  assumes "runs_parcon P E vid" and "guest_file_change (parcon_argv argv) stdin (vm_files vid (hTrace w)) = Some fs"
    and "case stdin of None \<Rightarrow> True | Some s \<Rightarrow> length s \<le> MaxAgentStdinBytes"
  shows "asParcon E vid t stdin argv w = (Inr [], emit E (HGuest vid t (parcon_argv argv) stdin) w)
    \<and> vm_files vid (hTrace (emit E (HGuest vid t (parcon_argv argv) stdin) w)) = fs"
proof -
  have "he_exec E (HGuest vid t (parcon_argv argv) stdin # hTrace w)
      = (None, Inr (\<lparr>ExitCode = 0, Signal = 0, Stdout = [], Stderr = []\<rparr>, True))"
    using assms(1,2) unfolding runs_parcon_def by blast
  from asParcon_done(2) [OF this _ _ assms(3)] show ?thesis using assms(2) by simp
qed

lemma write_change: "guest_file_change (parcon_argv (write_argv path)) (Some text) fs = Some (fs(path \<mapsto> text))"
  by (simp add: guest_file_change_def parcon_argv_def write_argv_def)

lemma replace_change:
  "fs next_path = Some text \<Longrightarrow>
    guest_file_change (parcon_argv replace_argv) None fs = Some (fs(config_DefaultPath \<mapsto> text, next_path := None))"
  by (simp add: guest_file_change_def parcon_argv_def write_argv_def replace_argv_def)

lemma writeControllerFile_done:
  assumes "runs_parcon P E vid" and "length text \<le> MaxAgentStdinBytes" and "\<not> inDryRun ins"
  shows "\<exists>w'. writeControllerFile E ins vid path text w = (Inr (), w')
    \<and> vm_files vid (hTrace w') = (vm_files vid (hTrace w))(path \<mapsto> text)"
proof -
  let ?w = "emit E (HLog (''controller VM '' @ Itoa vid @ '': write '' @ path)) w"
  have "guest_file_change (parcon_argv (write_argv path)) (Some text) (vm_files vid (hTrace ?w))
      = Some ((vm_files vid (hTrace w))(path \<mapsto> text))"
    by (simp add: write_change)
  from runs_parcon_file [OF assms(1) this, of "30 * Second"] show ?thesis
    using assms(2,3) by (simp add: writeControllerFile_def next_act_def andthen_def Log_trace mapping_error_def attempt_def ret_def)
qed

text \<open>The command with which the VM's own parcon checks the new file.\<close>

lemma check_answered:
  assumes "runs_parcon P E vid" and "loaded (pe_vm P) (vm_files vid (hTrace w)) next_path = Inr cfg"
  shows "guest_answer E vid t None (parcon_argv check_argv) w
    = (Inr (next_path @ '': OK, '' @ Itoa (int (length (ScaleSets cfg))) @ '' scale set(s)'' @ [CHR 0x0A], None),
       emit E (HGuest vid t (parcon_argv check_argv) None) w)"
proof -
  obtain h v where v: "vwFiles v = vm_files vid (hTrace w)"
    and a: "he_exec E (HGuest vid t (parcon_argv check_argv) None # hTrace w)
      = (None, Inr (exec_of P (fst (parcon P [''check'', ''config'', ''-config'', next_path] (h, v))), True))"
    using assms(1) unfolding runs_parcon_def check_argv_def by blast
  have "\<not> ce_hostMode (pe_cli P)" using assms(1) by (simp add: runs_parcon_def)
  from check_config_says [OF this, of v next_path cfg h] v assms(2) a show ?thesis
    by (simp add: asParcon_done(1) exec_of_def exit_code_def)
qed

lemma install_config_done:
  assumes "runs_parcon P E vid" and "loaded (pe_vm P) (vm_files vid (hTrace w)) next_path = Inr cfg"
    and "vm_files vid (hTrace w) next_path = Some text"
  shows "\<exists>w'. install_config E vid w = (Inr (), w')
    \<and> vm_files vid (hTrace w') = (vm_files vid (hTrace w))(config_DefaultPath \<mapsto> text, next_path := None)"
proof -
  let ?w = "emit E (HGuest vid Minute (parcon_argv check_argv) None) w"
  have f: "vm_files vid (hTrace ?w) = vm_files vid (hTrace w)"
    by (simp add: guest_file_change_def check_argv_def parcon_argv_def write_argv_def replace_argv_def)
  have "guest_file_change (parcon_argv replace_argv) None (vm_files vid (hTrace ?w))
      = Some ((vm_files vid (hTrace w))(config_DefaultPath \<mapsto> text, next_path := None))"
    using replace_change assms(3) unfolding f by blast
  from runs_parcon_file [OF assms(1) this, of "30 * Second"] check_answered [OF assms(1,2), of Minute] show ?thesis
    by (simp add: install_config_def andthen_def next_act_def mapping_error_def attempt_def ret_def)
qed

lemma RenderConfig_env:
  assumes "RenderConfig E s w = (Inr (text, env, ca), w1)"
  shows "\<exists>cfg. ControllerConfig (he_host E) (he_writeConfig E) (he_readConfig E) s env = Inr (cfg, text)"
proof -
  obtain env' ca' w2 where "(case ControllerConfig (he_host E) (he_writeConfig E) (he_readConfig E) s env' of
      Inl e \<Rightarrow> errorf ''the settings don't render a config'' | Inr (parsed, data) \<Rightarrow> ret (data, env', ca')) w2
      = (Inr (text, env, ca), w1)"
    using assms unfolding RenderConfig_def andthen_Inr by auto
  then show ?thesis by (auto simp: errorf_def fail_def ret_def split: sum.splits prod.splits)
qed

lemma ca_written:
  assumes "runs_parcon P E vid" and "length ca \<le> MaxAgentStdinBytes" and "\<not> inDryRun ins"
  shows "\<exists>w'. when_act c (writeControllerFile E ins vid path ca) w = (Inr (), w')"
  using writeControllerFile_done [OF assms, of path w] by (auto simp: when_act_def ret_def)

text \<open>
  C14. The host and the VM agree: once settings render a configuration on the host, pushing it to a controller VM that runs
  this program cannot fail. The VM's own parcon accepts the new file, it takes the old one's place, and what the
  controller then loads from it is the very configuration that the settings were rendered to.
\<close>

theorem pushed_config_takes_effect:
  assumes "runs_parcon P E vid" and "RenderConfig E s w = (Inr (text, env, ca), w1)" and "\<not> inDryRun ins"
    and "length text \<le> MaxAgentStdinBytes" and "length ca \<le> MaxAgentStdinBytes"
  shows "\<exists>w' cfg. pushConfig E ins vid s w = (Inr (), w')
    \<and> ControllerConfig (he_host E) (he_writeConfig E) (he_readConfig E) s env = Inr (cfg, text)
    \<and> vm_files vid (hTrace w') config_DefaultPath = Some text
    \<and> loaded (pe_vm P) (vm_files vid (hTrace w')) config_DefaultPath = Inr cfg"
proof -
  obtain cfg where cfg: "ControllerConfig (he_host E) (he_writeConfig E) (he_readConfig E) s env = Inr (cfg, text)"
    using RenderConfig_env [OF assms(2)] by blast
  have same: "he_host E = ve_host (pe_vm P)" "he_readConfig E = ve_yaml (pe_vm P)"
    using assms(1) by (simp_all add: runs_parcon_def)
  have loads: "loaded (pe_vm P) fs path = Inr cfg" if "fs path = Some text" for fs path
    using rendered_loads [where fs = fs and path = path] cfg same that by metis
  obtain w2 where w2: "when_act (tiMode (enTLS env) = TLSNodeCA) (writeControllerFile E ins vid config_CACertFile ca) w1 = (Inr (), w2)"
    using ca_written [OF assms(1,5,3)] by blast
  obtain w3 where w3: "writeControllerFile E ins vid next_path text w2 = (Inr (), w3)"
    and f3: "vm_files vid (hTrace w3) = (vm_files vid (hTrace w2))(next_path \<mapsto> text)"
    using writeControllerFile_done [OF assms(1,4,3)] by blast
  define w4 where "w4 = emit E (HLog (''controller VM '' @ Itoa vid @ '': parcon check config, then mv'')) w3"
  have next': "vm_files vid (hTrace w4) next_path = Some text" using f3 by (simp add: w4_def)
  from install_config_done [OF assms(1) loads [where fs = "vm_files vid (hTrace w4)", OF next'] next'] obtain w5 where
    w5: "install_config E vid w4 = (Inr (), w5)"
    and f5: "vm_files vid (hTrace w5) = (vm_files vid (hTrace w4))(config_DefaultPath \<mapsto> text, next_path := None)"
    by (elim exE conjE)
  have "vm_files vid (hTrace w5) config_DefaultPath = Some text"
    by (simp add: f5 next_path_def)
  moreover have "pushConfig E ins vid s w = (Inr (), w5)"
    using assms(2,3) w2 w3 w5 by (simp add: pushConfig_def andthen_def next_act_def Log_trace w4_def)
  ultimately show ?thesis using cfg loads by blast
qed

section \<open>An example\<close>

text \<open>A VM that runs this program with the settings' configuration, and a host beside it.\<close>

definition example_pushed_env :: set_env where
  "example_pushed_env =
     \<lparr>enNode = ''pve'', enPVEAddress = AddrFrom4 192 0 2 10,
      enTLS = \<lparr>tiMode = TLSNodeCA, tiServerName = ''pve.example'', tiFingerprint = []\<rparr>, enLinkedClone = False\<rparr>"

definition example_pushed :: config where "example_pushed = render Default example_pushed_env"

definition example_parcon :: parcon_env where
  "example_parcon =
     \<lparr>pe_cli = (example_cli [])\<lparr>ce_hostMode := False\<rparr>,
      pe_vm = example_vm\<lparr>ve_yaml := (\<lambda>_. YamlDoc example_pushed False)\<rparr>, pe_json = (\<lambda>_. ''{}''),
      pe_run = (\<lambda>_ v. (None, v))\<rparr>"

fun example_guest :: "hevent list \<Rightarrow> error option \<times> (error + exec_result \<times> bool)" where
  "example_guest (HGuest v t argv stdin # tr) =
     (if guest_file_change argv stdin (vm_files v tr) \<noteq> None
      then (None, Inr (\<lparr>ExitCode = 0, Signal = 0, Stdout = [], Stderr = []\<rparr>, True))
      else (None, Inr (exec_of example_parcon (fst (parcon example_parcon (''check'' # drop 6 argv)
              (example_host, example_vm_world\<lparr>vwFiles := vm_files v tr\<rparr>))), True)))"
| "example_guest tr = (None, Inl ErrNotExist)"

definition example_node_host :: henv where
  "example_node_host =
     (example_henv [])\<lparr>he_tls := (\<lambda>_. Inr (\<lparr>tiMode = TLSNodeCA, tiServerName = ''pve.example'', tiFingerprint = []\<rparr>, ''ca'')),
        he_addrs := (\<lambda>_. Inr [(DefaultBridge, [(''192.0.2.10'', 24)])]),
        he_readConfig := (\<lambda>_. YamlDoc example_pushed False), he_exec := example_guest\<rparr>"

lemma example_runs_parcon: "runs_parcon example_parcon example_node_host 100"
proof -
  have "guest_file_change (parcon_argv (''parcon'' # ''check'' # args)) None fs = None" for args fs
    by (simp add: guest_file_change_def parcon_argv_def write_argv_def replace_argv_def)
  moreover have "drop 6 (parcon_argv (''parcon'' # ''check'' # args)) = args" for args
    by (simp add: parcon_argv_def)
  moreover have "\<exists>w v. vwFiles v = fs \<and> he_exec example_node_host tr = r"
    if "he_exec example_node_host tr = r" for fs tr r
    using that by (metis vm_world.select_convs(1))
  ultimately show ?thesis
    unfolding runs_parcon_def
    by (auto simp: example_node_host_def example_parcon_def example_cli_def example_vm_def example_henv_def
        intro!: exI [of _ example_host] exI [of _ "example_vm_world\<lparr>vwFiles := vm_files 100 _\<rparr>"])
qed

lemma example_addr: "\<exists>w'. pveAddress example_node_host Default w = (Inr (AddrFrom4 192 0 2 10), w')"
proof -
  have p: "ParseAddr4 ''192.0.2.10'' = Some (AddrFrom4 192 0 2 10)" by (simp add: go_eval)
  have "he_addrs example_node_host = (\<lambda>_. Inr [(DefaultBridge, [(''192.0.2.10'', 24)])])"
    by (simp add: example_node_host_def)
  with p show ?thesis
    by (simp add: host_addrs_def pveAddress_def Addrs_def reads_def asks_def event_def andthen_def ret_def Default_def)
qed

lemma example_storage: "\<exists>w'. linkedClones example_node_host Default w = (Inr (False, []), w')"
proof -
  have h: "he_storage example_node_host = (\<lambda>_. Inl ErrNotExist)"
    by (simp add: example_node_host_def example_henv_def)
  then have "pve_Storage example_node_host n st w \<noteq> (Inr r, w')" for n st w r w'
    by (auto simp: pve_Storage_def pve_json_def reads_def asks_def event_def mapping_error_def attempt_def andthen_def
        ret_def fail_def)
  then have "inst_storage example_node_host Default w \<noteq> (Inr r, w')" for r w'
    by (simp add: inst_storage_def andthen_Inr mapping_Inr)
  then obtain e w' where "inst_storage example_node_host Default w = (Inl e, w')"
    by (cases "inst_storage example_node_host Default w"; cases "fst (inst_storage example_node_host Default w)") auto
  then show ?thesis by (simp add: linkedClones_def attempt_def andthen_def ret_def)
qed

lemma example_config:
  "ControllerConfig (he_host example_node_host) (he_writeConfig example_node_host) (he_readConfig example_node_host)
     Default example_pushed_env = Inr (applyDefaults Some example_pushed, configHeader @ ''config'')"
proof -
  have "distinct (map ToLower (effective_labels Default))" by (simp add: effective_labels_def Default_def)
  then have "valid_config Some (applyDefaults Some (render Default example_pushed_env))"
    using rendered_valid [OF Default_valid] by (simp add: example_pushed_env_def)
  then show ?thesis
    using ControllerConfig_parsed [of "\<lambda>_. Inr ''config''" Default example_pushed_env "''config''"
        "\<lambda>_. YamlDoc example_pushed False" Some]
    by (simp add: example_node_host_def example_henv_def example_pushed_def)
qed

lemma example_render:
  assumes "hNode w = ''pve''"
  shows "\<exists>w1. RenderConfig example_node_host Default w = (Inr (configHeader @ ''config'', example_pushed_env, ''ca''), w1)"
proof -
  have n: "nodeName example_node_host w = (Inr ''pve'', w)" using assms by (simp add: nodeName_def)
  obtain w1 where a: "pveAddress example_node_host Default w = (Inr (AddrFrom4 192 0 2 10), w1)"
    using example_addr by blast
  obtain w2 where t: "asks example_node_host QTLS he_tls w1
      = (Inr (\<lparr>tiMode = TLSNodeCA, tiServerName = ''pve.example'', tiFingerprint = []\<rparr>, ''ca''), w2)"
    by (simp add: asks_def event_def example_node_host_def)
  obtain w3 where l: "linkedClones example_node_host Default w2 = (Inr (False, []), w3)"
    using example_storage by blast
  have "inst_env example_node_host Default w = (Inr (example_pushed_env, ''ca''), w3)"
    by (simp add: inst_env_def andthen_def ret_def n a t l example_pushed_env_def)
  then show ?thesis
    by (simp add: RenderConfig_def andthen_def ret_def example_config)
qed

theorem pushed_config_takes_effect_witness:
  "\<exists>w' cfg. pushConfig example_node_host (example_installer False) 100 Default (example_host\<lparr>hNode := ''pve''\<rparr>) = (Inr (), w')
    \<and> loaded (pe_vm example_parcon) (vm_files 100 (hTrace w')) config_DefaultPath = Inr cfg"
proof -
  obtain w1 where r: "RenderConfig example_node_host Default (example_host\<lparr>hNode := ''pve''\<rparr>)
      = (Inr (configHeader @ ''config'', example_pushed_env, ''ca''), w1)"
    using example_render [of "example_host\<lparr>hNode := ''pve''\<rparr>"] by auto
  have short: "length (configHeader @ ''config'') \<le> MaxAgentStdinBytes" "length ''ca'' \<le> MaxAgentStdinBytes"
    by (simp_all add: configHeader_def MaxAgentStdinBytes_def)
  have "\<not> inDryRun (example_installer False)" by (simp add: example_installer_def)
  from pushed_config_takes_effect [OF example_runs_parcon r this short] show ?thesis by (elim exE conjE) (intro exI conjI)
qed

end
