(* ===== verification/Deployment.thy ===== *)
theory Deployment
  imports Program Run_Loop
begin

text \<open>
  From the person's settings to what the controller does: the settings are rendered on the host and pushed to the
  controller VM (\<open>Program\<close>), whose \<^verbatim>\<open>parcon run\<close> loads them, builds the controller with the options of \<^verbatim>\<open>cmd/parcon/run.go\<close>
  and runs its loop (\<open>Run_Loop\<close>).
\<close>

text \<open>The options that \<^verbatim>\<open>newController\<close> gives: every interval and bound is left at its default.\<close>

definition controller_options :: "config \<Rightarrow> options" where
  "controller_options cfg =
     \<lparr>oConfig = cfg, oResyncInterval = 0, oBootTimeout = 0, oRunnerCheckAfter = 0, oRunnerCheckEvery = 0,
      oParallelism = 0, oRetryBackoff = 0\<rparr>"

section \<open>What the loaded configuration holds\<close>

text \<open>The YAML package reads back the document that it wrote for these settings.\<close>

definition reads_back :: "henv \<Rightarrow> Settings.settings \<Rightarrow> set_env \<Rightarrow> bool" where
  "reads_back E s env \<longleftrightarrow>
     (\<forall>body. he_writeConfig E (render s env) = Inr body \<longrightarrow>
        he_readConfig E (configHeader @ body) = YamlDoc (render s env) False)"

lemma rendered_config:
  assumes "ControllerConfig sh enc decode s env = Inr (cfg, text)"
    and "\<And>body. enc (render s env) = Inr body \<Longrightarrow> decode (configHeader @ body) = YamlDoc (render s env) False"
  shows "cfg = applyDefaults sh (render s env)"
  using assms ControllerConfig_parsed [of enc s env _ decode sh]
  by (cases "enc (render s env)") (auto simp: ControllerConfig_def config_Marshal_def Let_def split: if_splits)

lemma defaulted_settings:
  assumes "cfg = applyDefaults sh (render s env)"
  shows "VMIDRange (cfgProxmox cfg) = spVMIDRange (stProxmox s)"
    and "\<exists>x. ScaleSets cfg = [x] \<and> ssName x = sName (stScaleSet s) \<and> MaxRunners x = sMaxRunners (stScaleSet s)"
  using assms by (simp_all add: applyDefaults_def render_def Let_def tls_config_def scale_set_defaults_def split: tls_mode.split)

section \<open>The run stays within the settings\<close>

lemma run_minv:
  assumes "run_start C ord opts w0 = Some s0" and "(rstep C)\<^sup>*\<^sup>* s0 st"
  shows "minv C (oConfig opts) (slots opts) (rsM st)"
  using run_start_minit [OF assms(1)] rsteps_msteps [OF assms(2)] by (metis machine.reachable_invariant)



end
