(* ===== verification/Atomic_Files.thy ===== *)
theory Atomic_Files
  imports Status_Report
begin

text \<open>
  Files that are written whole: the controller's status file (\<^verbatim>\<open>writeFileAtomic\<close> of \<^verbatim>\<open>internal/controller/status.go\<close>) beside
  the host's files (\<open>WriteFileAtomic\<close>). \<open>atomic_writer\<close> is what both promise whoever reads the file meanwhile, and what
  follows for a reader of a file that is written again and again.
\<close>

section \<open>What a writer promises\<close>

text \<open>
  \<open>run\<close> gives a write's error and the states that can be observed, oldest first; \<open>good\<close> are the paths that no temporary
  file can have.
\<close>

locale atomic_writer =
  fixes run :: "atomic_ops \<Rightarrow> string \<Rightarrow> string \<Rightarrow> file_system \<Rightarrow> error option \<times> file_system list"
    and good :: "string \<Rightarrow> bool"
  assumes starts: "snd (run ops path content fs) \<noteq> [] \<and> hd (snd (run ops path content fs)) = fs"
    and before: "good path \<Longrightarrow> f \<in> set (butlast (snd (run ops path content fs))) \<Longrightarrow> f path = fs path \<or> f path = Some content"
    and ends: "good path \<Longrightarrow>
      last (snd (run ops path content fs)) path = atomic_write (fst (run ops path content fs)) content (fs path)"
begin

fun writes :: "string \<Rightarrow> (atomic_ops \<times> string) list \<Rightarrow> file_system \<Rightarrow> file_system list" where
  "writes path [] fs = [fs]"
| "writes path ((ops, content) # ws) fs =
     snd (run ops path content fs) @ writes path ws (last (snd (run ops path content fs)))"

lemma one_write:
  assumes "good path" and "f \<in> set (snd (run ops path content fs))"
  shows "f path = fs path \<or> f path = Some content"
proof -
  have "f \<in> set (butlast (snd (run ops path content fs))) \<or> f = last (snd (run ops path content fs))"
    using assms(2) starts [of ops path content fs] by (metis append_butlast_last_id in_set_conv_decomp rotate1.simps(2) set_rotate1 set_ConsD)
  then show ?thesis
    using before [OF assms(1)] ends [OF assms(1), of ops content fs] by (auto simp: atomic_write_def split: option.splits)
qed

lemma first_state: "fs \<in> set (writes path ws fs)"
  using starts by (cases ws) (auto, metis list.set_sel(1))

text \<open>Whenever a reader looks, the file is as it was at first or holds one of the contents, whole.\<close>

lemma never_torn:
  assumes "good path" and "f \<in> set (writes path ws fs)"
  shows "f path = fs path \<or> (\<exists>w\<in>set ws. f path = Some (snd w))"
  using assms(2)
proof (induction ws arbitrary: fs)
  case (Cons w ws)
  obtain ops content where w: "w = (ops, content)" by fastforce
  let ?fin = "last (snd (run ops path content fs))"
  have e: "?fin path = fs path \<or> ?fin path = Some content"
    using one_write [OF assms(1)] starts [of ops path content fs] last_in_set by blast
  from Cons.prems consider "f \<in> set (snd (run ops path content fs))" | "f \<in> set (writes path ws ?fin)" by (auto simp: w)
  then show ?case
  proof cases
    case 1
    then show ?thesis using one_write [OF assms(1)] w by auto
  next
    case 2
    then show ?thesis using Cons.IH [OF 2] e w by auto
  qed
qed simp

end

interpretation host_file: atomic_writer WriteFileAtomic "\<lambda>path. True"
proof
  fix ops path content fs f
  note states = WriteFileAtomic_states [of ops path content fs]
  show "snd (WriteFileAtomic ops path content fs) \<noteq> [] \<and> hd (snd (WriteFileAtomic ops path content fs)) = fs"
    using states by blast
  show "last (snd (WriteFileAtomic ops path content fs)) path = atomic_write (fst (WriteFileAtomic ops path content fs)) content (fs path)"
    using states by blast
  show "f path = fs path \<or> f path = Some content" if "f \<in> set (butlast (snd (WriteFileAtomic ops path content fs)))"
    using states that by blast
qed

section \<open>The status file (controller/status.go)\<close>

definition status_temp :: "string \<Rightarrow> string \<Rightarrow> string" where
  "status_temp path random = dir_prefix path @ ''.status.'' @ random"

text \<open>The temporary file is removed on every way out, even once it was renamed and is no longer there.\<close>

definition writeFileAtomic :: "atomic_ops \<Rightarrow> string \<Rightarrow> string \<Rightarrow> file_system \<Rightarrow> error option \<times> file_system list" where
  "writeFileAtomic ops path content fs =
     (case ao_create ops of
        Inl e \<Rightarrow> (Some e, [fs])
      | Inr random \<Rightarrow>
          (let tmp = status_temp path random; f1 = fs(tmp \<mapsto> []); f2 = fs(tmp \<mapsto> content);
               failed = (\<lambda>e fs' f. (Some e, fs' @ [f, abandon ops tmp f])) in
           case ao_write ops of
             Some (part, e) \<Rightarrow> failed e [fs, f1] (fs(tmp \<mapsto> part))
           | None \<Rightarrow>
               (case ao_chmod ops of
                  Some e \<Rightarrow> failed e [fs, f1] f2
                | None \<Rightarrow>
                    (case ao_close ops of
                       Some e \<Rightarrow> failed e [fs, f1] f2
                     | None \<Rightarrow>
                         (case ao_rename ops of
                            Some e \<Rightarrow> failed e [fs, f1] f2
                          | None \<Rightarrow>
                              (let f3 = f2(tmp := None, path \<mapsto> content) in
                               (None, [fs, f1, f2, f3, abandon ops tmp f3])))))))"

definition status_path_ok :: "string \<Rightarrow> bool" where
  "status_path_ok path \<longleftrightarrow> \<not> HasPrefix (base_name path) ''.status.''"

lemma status_temp_not_path:
  assumes "status_path_ok path"
  shows "status_temp path random \<noteq> path"
proof
  assume "status_temp path random = path"
  then have "dir_prefix path @ ''.status.'' @ random = dir_prefix path @ base_name path"
    by (simp add: status_temp_def dir_base)
  then have "base_name path = ''.status.'' @ random" by simp
  then show False using assms by (simp add: status_path_ok_def)
qed

lemma writeFileAtomic_starts: "snd (writeFileAtomic ops path content fs) \<noteq> [] \<and> hd (snd (writeFileAtomic ops path content fs)) = fs"
  by (simp add: writeFileAtomic_def Let_def split: sum.split option.split prod.split)

lemma writeFileAtomic_before:
  assumes "status_path_ok path" and "f \<in> set (butlast (snd (writeFileAtomic ops path content fs)))"
  shows "f path = fs path \<or> f path = Some content"
  using assms(2) status_temp_not_path [OF assms(1)] status_temp_not_path [OF assms(1), symmetric]
  by (auto simp: writeFileAtomic_def Let_def split: sum.splits option.splits prod.splits)

lemma writeFileAtomic_ends:
  assumes "status_path_ok path"
  shows "last (snd (writeFileAtomic ops path content fs)) path
    = atomic_write (fst (writeFileAtomic ops path content fs)) content (fs path)"
  using status_temp_not_path [OF assms] status_temp_not_path [OF assms, symmetric]
  by (auto simp: writeFileAtomic_def atomic_write_def abandon_other Let_def split: sum.split option.split prod.split)

interpretation status_file: atomic_writer writeFileAtomic status_path_ok
  by unfold_locales (use writeFileAtomic_starts writeFileAtomic_before writeFileAtomic_ends in blast)+

section \<open>What parcon status can read\<close>

text \<open>
  A pass's status, encoded by \<open>json\<close> (\<^verbatim>\<open>json.MarshalIndent\<close>) with a newline after it; a status that cannot be encoded is not
  written.
\<close>

record status_pass =
  spAt :: time
  spError :: "string option"
  spController :: controller
  spOps :: atomic_ops

definition saveStatus ::
  "(snapshot \<Rightarrow> error + string) \<Rightarrow> string \<Rightarrow> string \<Rightarrow> time \<Rightarrow> status_pass \<Rightarrow> file_system \<Rightarrow> file_system list" where
  "saveStatus json path ver startedAt p fs =
     (case writeStatus path ver startedAt (spAt p) (spError p) (spController p) of
        None \<Rightarrow> [fs]
      | Some snap \<Rightarrow>
          (case json snap of
             Inl e \<Rightarrow> [fs]
           | Inr text \<Rightarrow> snd (writeFileAtomic (spOps p) path (text @ [CHR 0x0A]) fs)))"

fun saving ::
  "(snapshot \<Rightarrow> error + string) \<Rightarrow> string \<Rightarrow> string \<Rightarrow> time \<Rightarrow> status_pass list \<Rightarrow> file_system \<Rightarrow> file_system list" where
  "saving json path ver startedAt [] fs = [fs]"
| "saving json path ver startedAt (p # ps) fs =
     saveStatus json path ver startedAt p fs
       @ saving json path ver startedAt ps (last (saveStatus json path ver startedAt p fs))"

definition written :: "(snapshot \<Rightarrow> error + string) \<Rightarrow> string \<Rightarrow> string \<Rightarrow> time \<Rightarrow> status_pass \<Rightarrow> (atomic_ops \<times> string) list" where
  "written json path ver startedAt p =
     (case writeStatus path ver startedAt (spAt p) (spError p) (spController p) of
        None \<Rightarrow> []
      | Some snap \<Rightarrow> (case json snap of Inl e \<Rightarrow> [] | Inr text \<Rightarrow> [(spOps p, text @ [CHR 0x0A])]))"

lemma saving_writes:
  "set (saving json path ver startedAt ps fs) =
     set (status_file.writes path (concat (map (written json path ver startedAt) ps)) fs)"
proof (induction ps arbitrary: fs)
  case (Cons p ps)
  show ?case
    using Cons.IH status_file.first_state
    by (auto simp: saveStatus_def written_def split: option.split sum.split)
qed simp

lemma written_entry:
  "e \<in> set (written json path ver startedAt p) \<longleftrightarrow>
     (\<exists>snap text. writeStatus path ver startedAt (spAt p) (spError p) (spController p) = Some snap
        \<and> json snap = Inr text \<and> e = (spOps p, text @ [CHR 0x0A]))"
  by (cases "writeStatus path ver startedAt (spAt p) (spError p) (spController p)")
    (auto simp: written_def split: sum.splits)

text \<open>
  C6. Whoever reads the status file, at whatever moment of whatever series of passes, and whichever file operations failed,
  finds no file, or one that decodes to the status of one of these passes: never a part of one or a mixture. A reboot
  leaves no file at first, and \<^verbatim>\<open>encoding/json\<close> is assumed to read back the statuses it wrote.
\<close>

theorem status_never_torn:
  assumes "f \<in> set (saving json StatusPath ver startedAt ps fs)" and "fs StatusPath = None"
    and "\<And>p snap text. p \<in> set ps \<Longrightarrow> writeStatus StatusPath ver startedAt (spAt p) (spError p) (spController p) = Some snap
      \<Longrightarrow> json snap = Inr text \<Longrightarrow> decode (text @ [CHR 0x0A]) = Some snap"
  shows "f StatusPath = None
    \<or> (\<exists>text p. f StatusPath = Some text \<and> p \<in> set ps
        \<and> decode text = writeStatus StatusPath ver startedAt (spAt p) (spError p) (spController p))"
proof -
  have "status_path_ok StatusPath"
    by (simp add: status_path_ok_def StatusPath_def base_name_def)
  moreover have "f \<in> set (status_file.writes StatusPath (concat (map (written json StatusPath ver startedAt) ps)) fs)"
    using assms(1) saving_writes by blast
  ultimately have "f StatusPath = None
      \<or> (\<exists>p\<in>set ps. \<exists>e\<in>set (written json StatusPath ver startedAt p). f StatusPath = Some (snd e))"
    using status_file.never_torn [of StatusPath f "concat (map (written json StatusPath ver startedAt) ps)" fs] assms(2) by auto
  then show ?thesis using assms(3) by (fastforce simp: written_entry)
qed

definition example_status_pass :: status_pass where
  "example_status_pass =
     \<lparr>spAt = 9, spError = None, spController = example_controller, spOps = example_ops\<rparr>"

theorem status_never_torn_witness:
  "\<exists>f snap. f \<in> set (saving (\<lambda>_. Inr ''{}'') StatusPath ''0.2.0'' 0 [example_status_pass] Map.empty)
    \<and> f StatusPath = Some (''{}'' @ [CHR 0x0A])
    \<and> writeStatus StatusPath ''0.2.0'' 0 9 None example_controller = Some snap"
proof -
  let ?p = example_status_pass and ?json = "\<lambda>_ :: snapshot. Inr ''{}'' :: error + string"
  let ?status = "writeStatus StatusPath ''0.2.0'' 0 (spAt ?p) (spError ?p) (spController ?p)"
  let ?f = "last (saveStatus ?json StatusPath ''0.2.0'' 0 ?p Map.empty)"
  obtain snap where snap: "?status = Some snap" by (simp add: writeStatus_def StatusPath_def)
  then have save: "saveStatus ?json StatusPath ''0.2.0'' 0 ?p Map.empty
      = snd (writeFileAtomic (spOps ?p) StatusPath (''{}'' @ [CHR 0x0A]) Map.empty)"
    by (simp add: saveStatus_def)
  have "fst (writeFileAtomic (spOps ?p) StatusPath (''{}'' @ [CHR 0x0A]) Map.empty) = None"
    by (simp add: writeFileAtomic_def example_status_pass_def example_ops_def Let_def)
  moreover have "status_path_ok StatusPath" by (simp add: status_path_ok_def StatusPath_def base_name_def)
  ultimately have f: "?f StatusPath = Some (''{}'' @ [CHR 0x0A])"
    unfolding save using writeFileAtomic_ends by (simp add: atomic_write_def)
  have mem: "?f \<in> set (saving ?json StatusPath ''0.2.0'' 0 [?p] Map.empty)" by simp
  have "\<exists>text p. ?f StatusPath = Some text \<and> p \<in> set [?p] \<and> (\<lambda>_. Some snap) text
      = writeStatus StatusPath ''0.2.0'' 0 (spAt p) (spError p) (spController p)"
    using status_never_torn [OF mem, of "\<lambda>_. Some snap"] f snap by auto
  then have "writeStatus StatusPath ''0.2.0'' 0 9 None example_controller = Some snap"
    by (auto simp: example_status_pass_def)
  with f mem show ?thesis by blast
qed

section \<open>Executables (release/download.go)\<close>

text \<open>\<open>failed\<close> is the error of reading the source, if any.\<close>

definition ReplaceBinary ::
  "error option \<Rightarrow> atomic_ops \<Rightarrow> string \<Rightarrow> string \<Rightarrow> file_system \<Rightarrow> error option \<times> file_system list" where
  "ReplaceBinary failed ops src dst fs =
     (case (case failed of Some e \<Rightarrow> Inl e | None \<Rightarrow> (case fs src of None \<Rightarrow> Inl ErrNotExist | Some content \<Rightarrow> Inr content)) of
        Inl e \<Rightarrow> (Some (wrap (''install '' @ dst) e), [fs])
      | Inr content \<Rightarrow> WriteFileAtomic ops dst content fs)"

text \<open>
  Replacing the executable never leaves part of one: whoever starts it gets the old one or all of the new one, and the new
  one only if it was all read.
\<close>

lemma ReplaceBinary_whole:
  assumes "f \<in> set (snd (ReplaceBinary failed ops src dst fs))"
  shows "f dst = fs dst \<or> (failed = None \<and> f dst = fs src)"
proof (cases failed)
  case (Some e)
  then show ?thesis using assms by (simp add: ReplaceBinary_def)
next
  case None
  show ?thesis
  proof (cases "fs src")
    case None
    then show ?thesis using assms \<open>failed = None\<close> by (simp add: ReplaceBinary_def)
  next
    case (Some content)
    then have "f \<in> set (snd (WriteFileAtomic ops dst content fs))" using assms \<open>failed = None\<close> by (simp add: ReplaceBinary_def)
    from host_file.one_write [where path = dst, OF TrueI this] Some None show ?thesis by auto
  qed
qed

end
