(* ===== verification/Settings_File.thy ===== *)
theory Settings_File
  imports Atomic_Files Settings_Facts
begin

text \<open>
  The settings file of \<^verbatim>\<open>internal/settings/settings.go\<close>: how settings are written to it and read from it. Encoding with
  \<^verbatim>\<open>yaml.v3\<close> is a parameter; the host's commands write the file as one event whose content is \<open>settings_Marshal\<close>'s.
\<close>

definition settings_header :: string where
  "settings_header =
     ''# parcon's settings for this node. Change them with `parcon config set KEY VALUE`, which also updates'' @ [CHR 0x0A]
     @ ''# the controller; see `parcon config get --all`.'' @ [CHR 0x0A]"

definition settings_Marshal :: "(Settings.settings \<Rightarrow> error + string) \<Rightarrow> Settings.settings \<Rightarrow> error + string" where
  "settings_Marshal enc s =
     (case enc s of Inl e \<Rightarrow> Inl (wrap ''encode settings'' e) | Inr body \<Rightarrow> Inr (settings_header @ body))"

text \<open>\<open>mkdir\<close> is the outcome of making the directory, the rest of the write's.\<close>

definition settings_Save ::
  "(Settings.settings \<Rightarrow> error + string) \<Rightarrow> error option \<Rightarrow> atomic_ops \<Rightarrow> string \<Rightarrow> Settings.settings \<Rightarrow> file_system
   \<Rightarrow> error option \<times> file_system list" where
  "settings_Save enc mkdir ops path s fs =
     (case settings_Marshal enc s of
        Inl e \<Rightarrow> (Some e, [fs])
      | Inr content \<Rightarrow>
          (case mkdir of
             Some e \<Rightarrow> (Some (wrap ''save settings'' e), [fs])
           | None \<Rightarrow> WriteFileAtomic ops path content fs))"

definition settings_failure :: "settings_error \<Rightarrow> error" where
  "settings_failure e = ErrorMsg ''invalid settings''"

text \<open>\<^verbatim>\<open>Load\<close>, on the files as they are.\<close>

definition settings_of_file ::
  "(string \<Rightarrow> string option) \<Rightarrow> (string \<Rightarrow> Settings.settings yaml) \<Rightarrow> file_system \<Rightarrow> string \<Rightarrow> error + Settings.settings" where
  "settings_of_file sh decode fs path =
     (case fs path of
        None \<Rightarrow> Inl (wrap ''read settings'' ErrNotExist)
      | Some content \<Rightarrow>
          (case settings_Parse sh decode content of
             Inl e \<Rightarrow> Inl (wrap (''settings '' @ path) (settings_failure e))
           | Inr s \<Rightarrow> Inr s))"

definition settings_problems :: "string list \<Rightarrow> string" where
  "settings_problems ps = ''invalid settings:'' @ [CHR 0x0A] @ ''  - '' @ Join ps ([CHR 0x0A] @ ''  - '')"

section \<open>What is saved is what is read\<close>

lemma marshal_parse:
  assumes "settings_Marshal enc s = Inr content" and "Validate sh s = []" and "stVersion s = settings_Version"
    and "\<And>body. enc s = Inr body \<Longrightarrow> decode (settings_header @ body) = YamlDoc s False"
  shows "settings_Parse sh decode content = Inr s"
  using assms by (auto simp: settings_Marshal_def settings_Parse_def split: sum.splits)

lemma settings_of_file_cong: "fs path = fs' path \<Longrightarrow> settings_of_file sh decode fs path = settings_of_file sh decode fs' path"
  by (simp add: settings_of_file_def)

text \<open>
  C16. Saving valid settings is atomic for whoever loads them: at every moment, and whichever step fails, loading the file
  gives what it gave before or exactly the saved settings; after \<^verbatim>\<open>Save\<close> it gives the saved ones if there was no error, and
  what it gave before otherwise. The YAML package is assumed to read back the document it wrote for these settings.
\<close>

theorem settings_survive_saving:
  assumes "Validate sh s = []" and "stVersion s = settings_Version"
    and "\<And>body. enc s = Inr body \<Longrightarrow> decode (settings_header @ body) = YamlDoc s False"
  shows "(\<forall>f\<in>set (snd (settings_Save enc mkdir ops path s fs)).
        settings_of_file sh decode f path \<in> {settings_of_file sh decode fs path, Inr s})
    \<and> settings_of_file sh decode (last (snd (settings_Save enc mkdir ops path s fs))) path
      = (case fst (settings_Save enc mkdir ops path s fs) of
           None \<Rightarrow> Inr s | Some e \<Rightarrow> settings_of_file sh decode fs path)"
proof (cases "settings_Marshal enc s")
  case (Inl e)
  then show ?thesis by (simp add: settings_Save_def)
next
  case (Inr content)
  have p: "settings_Parse sh decode content = Inr s" using marshal_parse [OF Inr assms(1,2)] assms(3) by blast
  then have new: "f path = Some content \<Longrightarrow> settings_of_file sh decode f path = Inr s" for f
    by (simp add: settings_of_file_def)
  have old: "f path = fs path \<Longrightarrow> settings_of_file sh decode f path = settings_of_file sh decode fs path" for f
    by (rule settings_of_file_cong)
  show ?thesis
  proof (cases mkdir)
    case (Some e)
    then show ?thesis using Inr by (simp add: settings_Save_def)
  next
    case None
    then have save: "settings_Save enc mkdir ops path s fs = WriteFileAtomic ops path content fs"
      using Inr by (simp add: settings_Save_def)
    have "settings_of_file sh decode f path \<in> {settings_of_file sh decode fs path, Inr s}"
      if "f \<in> set (snd (WriteFileAtomic ops path content fs))" for f
      using host_file.one_write [where path = path, OF TrueI that] new [of f] old [of f] by fastforce
    moreover have "settings_of_file sh decode (last (snd (WriteFileAtomic ops path content fs))) path
        = (case fst (WriteFileAtomic ops path content fs) of None \<Rightarrow> Inr s | Some e \<Rightarrow> settings_of_file sh decode fs path)"
      using host_file.ends [OF TrueI, where ops = ops and path = path and content = content and fs = fs]
        new [of "last (snd (WriteFileAtomic ops path content fs))"] old [of "last (snd (WriteFileAtomic ops path content fs))"]
      by (cases "fst (WriteFileAtomic ops path content fs)") (auto simp: atomic_write_def)
    ultimately show ?thesis unfolding save by blast
  qed
qed

theorem settings_survive_saving_witness:
  "\<exists>f. f \<in> set (snd (settings_Save (\<lambda>_. Inr ''x'') None example_ops ''/etc/parcon/settings.yaml'' Default Map.empty))
    \<and> settings_of_file Some (\<lambda>_. YamlDoc Default False) f ''/etc/parcon/settings.yaml'' = Inr Default"
proof -
  let ?r = "settings_Save (\<lambda>_. Inr ''x'') None example_ops ''/etc/parcon/settings.yaml'' Default Map.empty"
  have v: "Validate Some Default = []" "stVersion Default = settings_Version"
    using Default_valid by (simp_all add: Validate_valid Default_def)
  have ok: "fst ?r = None" and ne: "snd ?r \<noteq> []"
    by (simp_all add: settings_Save_def settings_Marshal_def WriteFileAtomic_def example_ops_def Let_def)
  from settings_survive_saving [OF v, of "\<lambda>_. Inr ''x''" "\<lambda>_. YamlDoc Default False"] ok
  have "settings_of_file Some (\<lambda>_. YamlDoc Default False) (last (snd ?r)) ''/etc/parcon/settings.yaml'' = Inr Default"
    by (metis (no_types, lifting) option.case(1))
  then show ?thesis using ne last_in_set by blast
qed

end
