(* ===== verification/Redaction.thy ===== *)
theory Redaction
  imports Github Installer
begin

text \<open>
  What is shown of secrets, and what of the things that hold them: \<^verbatim>\<open>JITConfig\<close> of \<^verbatim>\<open>internal/github/runners.go\<close>, commands
  with a standard input and how they fail (\<^verbatim>\<open>internal/pvecli/exec.go\<close>), and a failed command in a VM
  (\<^verbatim>\<open>internal/installer/guest.go\<close>). Quoting (\<^verbatim>\<open>%q\<close>) and what a process does are parameters.
\<close>

section \<open>JIT configs (runners.go)\<close>

definition NewJITConfig :: "int \<Rightarrow> string \<Rightarrow> string \<Rightarrow> jit" where
  "NewJITConfig runnerID runnerName encoded =
     \<lparr>jitRunnerID = runnerID, jitRunnerName = runnerName, jitEncoded = encoded\<rparr>"

definition jit_Encoded :: "jit \<Rightarrow> string" where "jit_Encoded j = jitEncoded j"

definition jit_GoString :: "(string \<Rightarrow> string) \<Rightarrow> jit \<Rightarrow> string" where
  "jit_GoString quote j = jit_String quote j"

text \<open>The values that \<^verbatim>\<open>log/slog\<close> writes: a group of a number and a text.\<close>

datatype log_value = LogInt int | LogText string

definition jit_LogValue :: "jit \<Rightarrow> (string \<times> log_value) list" where
  "jit_LogValue j = [(''runnerId'', LogInt (jitRunnerID j)), (''runnerName'', LogText (jitRunnerName j))]"

section \<open>Commands (exec.go)\<close>

text \<open>What a process does with a command line and an input: its two outputs, and the error it ended with.\<close>

type_synonym process = "cmd \<Rightarrow> string option \<Rightarrow> string \<times> string \<times> string option"

definition OSExec_Run :: "process \<Rightarrow> cmd \<Rightarrow> string option \<Rightarrow> string \<times> exit_error option" where
  "OSExec_Run sys c stdin =
     (case sys c stdin of (stdout, stderr, err) \<Rightarrow>
        (stdout, map_option (\<lambda>e. \<lparr>eeCmd = cmd_String c, eeStderr = TrimSpace stderr, eeErr = e\<rparr>) err))"

section \<open>Commands in a VM (guest.go)\<close>

definition ExecError_Error :: "exec_error \<Rightarrow> string" where
  "ExecError_Error e =
     xCommand e @ '' in VM '' @ Itoa (xVMID e) @ '' exited with status '' @ Itoa (xExitCode e)
     @ (if xStderr e \<noteq> [] then '': '' @ xStderr e else [])"

text \<open>
  Nothing that is printed or logged holds a secret. A JIT config shows the same whatever it encodes, in each of the ways
  Go prints and logs values, and yet is what \<^verbatim>\<open>Encoded\<close> gives the worker. A command's log line and the text of its failure
  are the same for two inputs on which the process ends alike.
\<close>

theorem shown_without_secrets:
  "jit_String quote (NewJITConfig i n a) = jit_String quote (NewJITConfig i n b)
   \<and> jit_GoString quote (NewJITConfig i n a) = jit_GoString quote (NewJITConfig i n b)
   \<and> jit_LogValue (NewJITConfig i n a) = jit_LogValue (NewJITConfig i n b)
   \<and> jit_Encoded (NewJITConfig i n a) = a
   \<and> (snd (sys c s) = snd (sys c s') \<longrightarrow>
        map_option ExitError_Error (snd (OSExec_Run sys c s)) = map_option ExitError_Error (snd (OSExec_Run sys c s')))"
  by (auto simp: NewJITConfig_def jit_String_def jit_GoString_def jit_LogValue_def jit_Encoded_def OSExec_Run_def
      split: prod.splits)

text \<open>
  So is the failure of a command in a VM, whose text holds neither the input nor the arguments: it is the same for two
  command lines of one program that the VM answers alike.
\<close>

lemma guest_answer_alike:
  assumes "he_exec E (HGuest vid t argv stdin # hTrace w) = he_exec E (HGuest vid t argv' stdin' # hTrace w)"
    and "hd argv = hd argv'" and "(case stdin of None \<Rightarrow> 0 | Some s \<Rightarrow> length s) \<le> MaxAgentStdinBytes"
    and "(case stdin' of None \<Rightarrow> 0 | Some s \<Rightarrow> length s) \<le> MaxAgentStdinBytes"
  shows "fst (guest_answer E vid t stdin argv w) = fst (guest_answer E vid t stdin' argv' w)"
  unfolding guest_answer_def assms(2) using assms(1,3,4)
  by (auto simp: GuestExec_def attempt_def andthen_def ret_def event_def split: option.splits)

end
