(* ===== verification/Config_In_Force.thy ===== *)
theory Config_In_Force
  imports Program
begin

text \<open>
  What \<^verbatim>\<open>parcon config set\<close> and \<^verbatim>\<open>parcon config apply\<close> leave behind when they succeed: the settings that were saved last and
  the configuration in the controller VM say the same.
\<close>

section \<open>Events that change neither the settings nor the VM's files\<close>

definition changes_files :: "hevent \<Rightarrow> bool" where
  "changes_files ev \<longleftrightarrow>
     (case ev of
        HGuest v t argv stdin \<Rightarrow>
          argv \<in> {parcon_argv (write_argv (last argv)), parcon_argv replace_argv, parcon_argv [''rm'', ''-f'', next_path]}
      | _ \<Rightarrow> False)"

definition calm :: "installer \<Rightarrow> hevent \<Rightarrow> bool" where
  "calm ins ev \<longleftrightarrow> no_save ins ev \<and> \<not> changes_files ev"

lemma no_file_change: "\<not> changes_files (HGuest v t argv stdin) \<Longrightarrow> guest_file_change argv stdin fs = None"
  by (auto simp: changes_files_def guest_file_change_def)

lemma vm_files_step: "\<not> changes_files ev \<Longrightarrow> vm_files vid (ev # tr) = vm_files vid tr"
  by (cases ev) (simp_all add: no_file_change Let_def)

lemma vm_files_kept: "list_all (\<lambda>ev. \<not> changes_files ev) us \<Longrightarrow> vm_files vid (us @ tr) = vm_files vid tr"
  by (induction us) (simp_all add: vm_files_step)

lemma calm_events [event_facts]:
  "calm ins (HLog l)" "calm ins (HRead q)" "calm ins (HSleep d)" "calm ins HLock" "calm ins HUnlock" "calm ins (HMkdir path)"
  "calm ins (HGuest v t (''systemctl'' # argv) stdin)"
  by (simp_all add: calm_def no_save_def changes_files_def parcon_argv_def)

lemma calm_looks [event_facts]:
  "calm ins (HGuest v t (session_argv since) stdin)" "calm ins (HGuest v t (parcon_argv [''parcon'', ''version'']) stdin)"
  by (simp_all add: calm_def no_save_def changes_files_def session_argv_def parcon_argv_def write_argv_def replace_argv_def)

lemma restart_calm: "emits (calm ins) (restartController E ins vid)"
  unfolding restartController_def waitSession_def
  by (intro emits_rules event_facts)

section \<open>What pushing leaves in the VM\<close>

lemma pushConfig_files:
  assumes "pushConfig E ins vid s w = (Inr (), w')" and "\<not> inDryRun ins"
  shows "\<exists>env cfg text. ControllerConfig (he_host E) (he_writeConfig E) (he_readConfig E) s env = Inr (cfg, text)
    \<and> vm_files vid (hTrace w') config_DefaultPath = Some text"
proof -
  obtain content env ca w1 w2 w3 where r: "RenderConfig E s w = (Inr (content, env, ca), w1)"
    and wr: "writeControllerFile E ins vid next_path content w2 = (Inr (), w3)"
    and installed: "install_config E vid (emit E (HLog (''controller VM '' @ Itoa vid @ '': parcon check config, then mv'')) w3) = (Inr (), w')"
    using assms(1,2) by (auto simp: pushConfig_def andthen_Inr next_Inr Log_trace)
  obtain us where t3: "hTrace w3 = write_event vid content # us @ hTrace w2"
    using writeControllerFile_ok [OF wr assms(2)] by (auto simp: write_event_def)
  have t': "hTrace w' = replace_event vid # check_event vid # HLog (''controller VM '' @ Itoa vid @ '': parcon check config, then mv'') # hTrace w3"
    using install_config_ok [OF installed] by simp
  have c: "\<not> changes_files (check_event vid)"
    by (simp add: changes_files_def check_event_def check_argv_def parcon_argv_def write_argv_def replace_argv_def)
  have f3: "vm_files vid (hTrace w3) next_path = Some content"
    unfolding t3 write_event_def by (simp add: write_change Let_def)
  then have "vm_files vid (hTrace w') config_DefaultPath = Some content"
    unfolding t' replace_event_def using vm_files_step [OF c] replace_change [of "vm_files vid (hTrace w3)" content]
    by (simp add: Let_def next_path_def)
  then show ?thesis using RenderConfig_env [OF r] by blast
qed

lemma saveSettings_trace:
  assumes "saveSettings E ins s w = (Inr (), w')" and "\<not> inDryRun ins"
  shows "\<exists>content l d. he_writeSettings E s = Inr content
    \<and> hTrace w' = HWrite (inSettingsPath ins) content # HLog l # HMkdir d # hTrace w"
  using assms
  by (auto simp: saveSettings_def Changer_WriteFile_def Log_def event_def emit_def andthen_def next_act_def attempt_def
      ret_def fail_def split: sum.splits prod.splits option.splits)

lemma locked_Inr:
  assumes "locked E ins m w = (Inr x, w')"
  shows "\<exists>w1 w2. Lock E ins w = (Inr (), w1) \<and> m w1 = (Inr x, w2) \<and> unlock E ins w2 = (Inr (), w')"
  using assms
  by (auto simp: locked_def finally_do_def next_Inr andthen_Inr attempt_def ret_def fail_def next_act_def andthen_def
      split: sum.splits prod.splits)

section \<open>Settings and configuration agree\<close>

text \<open>The settings file was last written with \<open>s\<close>.\<close>

definition saved_last :: "henv \<Rightarrow> installer \<Rightarrow> Settings.settings \<Rightarrow> hevent list \<Rightarrow> bool" where
  "saved_last E ins s tr \<longleftrightarrow>
     (\<exists>content us ts. he_writeSettings E s = Inr content \<and> tr = us @ HWrite (inSettingsPath ins) content # ts
        \<and> list_all (no_save ins) us)"

text \<open>A controller VM holds the configuration that \<open>s\<close> renders to, and a controller that loads it gets just that.\<close>

definition vm_holds :: "vm_env \<Rightarrow> henv \<Rightarrow> Settings.settings \<Rightarrow> hevent list \<Rightarrow> bool" where
  "vm_holds V E s tr \<longleftrightarrow>
     (\<exists>vid env cfg text. ControllerConfig (he_host E) (he_writeConfig E) (he_readConfig E) s env = Inr (cfg, text)
        \<and> vm_files vid tr config_DefaultPath = Some text
        \<and> loaded V (vm_files vid tr) config_DefaultPath = Inr cfg)"

definition settled :: "vm_env \<Rightarrow> henv \<Rightarrow> installer \<Rightarrow> Settings.settings \<Rightarrow> hevent list \<Rightarrow> hevent list \<Rightarrow> bool" where
  "settled V E ins s tr0 tr \<longleftrightarrow> saved_last E ins s tr \<and> (no_controller E tr0 tr \<or> vm_holds V E s tr)"

lemma calm_parts: "list_all (calm ins) us \<Longrightarrow> list_all (no_save ins) us \<and> list_all (\<lambda>ev. \<not> changes_files ev) us"
  by (auto simp: list_all_iff calm_def)

lemma settled_calm:
  assumes "settled V E ins s tr0 tr" and "list_all (calm ins) us"
  shows "settled V E ins s tr0 (us @ tr)"
proof -
  have "saved_last E ins s (us @ tr)"
    using assms calm_parts unfolding settled_def saved_last_def by (metis append.assoc list_all_append)
  moreover have "no_controller E tr0 tr \<Longrightarrow> no_controller E tr0 (us @ tr)"
    using no_controller_suffix by (simp add: suffix_def)
  moreover have "vm_holds V E s tr \<Longrightarrow> vm_holds V E s (us @ tr)"
    using vm_files_kept [of us] calm_parts [OF assms(2)] by (simp add: vm_holds_def)
  ultimately show ?thesis using assms(1) by (auto simp: settled_def)
qed

lemma saved_settled:
  assumes "saveSettings E ins s w = (Inr (), w')" and "\<not> inDryRun ins"
    and "no_controller E tr0 (hTrace w) \<or> vm_holds V E s (hTrace w)"
  shows "settled V E ins s tr0 (hTrace w')"
proof -
  obtain content l d where e: "he_writeSettings E s = Inr content"
    and t: "hTrace w' = HWrite (inSettingsPath ins) content # HLog l # HMkdir d # hTrace w"
    using saveSettings_trace [OF assms(1,2)] by blast
  have "saved_last E ins s (hTrace w')"
    unfolding saved_last_def using e t by (intro exI [of _ content] exI [of _ "[]"] exI [of _ "HLog l # HMkdir d # hTrace w"]) simp
  moreover have "no_controller E tr0 (hTrace w) \<Longrightarrow> no_controller E tr0 (hTrace w')"
    using no_controller_suffix by (simp add: t suffix_def)
  moreover have "vm_holds V E s (hTrace w) \<Longrightarrow> vm_holds V E s (hTrace w')" by (simp add: vm_holds_def t)
  ultimately show ?thesis using assms(3) by (auto simp: settled_def)
qed

lemma config_apply_settles:
  assumes "config_apply E ins s w = (Inr (), w')" and "\<not> inDryRun ins" and "suffix tr0 (hTrace w)"
    and "he_host E = ve_host V" and "he_readConfig E = ve_yaml V"
  shows "settled V E ins s tr0 (hTrace w')"
proof -
  obtain found w1 where f: "systemVM E Controller w = (Inr found, w1)"
    and rest: "(case found of None \<Rightarrow> saveSettings E ins s
      | Some v \<Rightarrow> if Status v \<noteq> ''running'' then saveSettings E ins s
          else next_act (sameVersion E ins (VMID v)) (next_act (pushConfig E ins (VMID v) s)
            (next_act (mapping_error (wrap ''the controller has the new config, but saving the settings failed'') (saveSettings E ins s))
              (restartController E ins (VMID v))))) w1 = (Inr (), w')"
    using assms(1) by (auto simp: config_apply_def andthen_Inr)
  show ?thesis
  proof (cases "case found of None \<Rightarrow> True | Some v \<Rightarrow> Status v \<noteq> ''running''")
    case True
    then have "saveSettings E ins s w1 = (Inr (), w')" using rest by (auto split: option.splits)
    then show ?thesis using saved_settled [OF _ assms(2)] systemVM_listing [OF f assms(3) True] by blast
  next
    case False
    then obtain v :: vm and w2 w3 w4 where p: "pushConfig E ins (VMID v) s w2 = (Inr (), w3)"
      and sv: "saveSettings E ins s w3 = (Inr (), w4)" and re: "restartController E ins (VMID v) w4 = (Inr (), w')"
      using rest by (auto simp: next_Inr mapping_Inr split: option.splits)
    obtain env cfg content where c: "ControllerConfig (he_host E) (he_writeConfig E) (he_readConfig E) s env = Inr (cfg, content)"
      and held: "vm_files (VMID v) (hTrace w3) config_DefaultPath = Some content"
      using pushConfig_files [OF p assms(2)] by blast
    have "loaded V (vm_files (VMID v) (hTrace w3)) config_DefaultPath = Inr cfg"
      using rendered_loads [where fs = "vm_files (VMID v) (hTrace w3)" and path = config_DefaultPath] c held assms(4,5) by metis
    then have "vm_holds V E s (hTrace w3)" using c held unfolding vm_holds_def by blast
    then have "settled V E ins s tr0 (hTrace w4)" using saved_settled [OF sv assms(2)] by blast
    moreover obtain us where "hTrace w' = us @ hTrace w4" "list_all (calm ins) us"
      using emitsE [OF restart_calm [of ins E "VMID v"], of w4] re by auto
    ultimately show ?thesis using settled_calm by metis
  qed
qed

lemma locked_settles:
  assumes "locked E ins (config_apply E ins s) w = (Inr (), w')" and "\<not> inDryRun ins" and "suffix tr0 (hTrace w)"
    and "he_host E = ve_host V" and "he_readConfig E = ve_yaml V"
  shows "settled V E ins s tr0 (hTrace w')"
proof -
  obtain w1 w2 where l: "Lock E ins w = (Inr (), w1)" and a: "config_apply E ins s w1 = (Inr (), w2)"
    and u: "unlock E ins w2 = (Inr (), w')"
    using locked_Inr [OF assms(1)] by blast
  have "emits (calm ins) (Lock E ins)" and "emits (calm ins) (unlock E ins)"
    unfolding Lock_def unlock_def by (intro emits_rules event_facts)+
  then obtain us vs where t: "hTrace w1 = us @ hTrace w" "hTrace w' = vs @ hTrace w2" "list_all (calm ins) vs"
    using l u by (metis emitsE snd_conv)
  have "suffix tr0 (hTrace w1)" using assms(3) t(1) by (auto simp: suffix_def)
  from config_apply_settles [OF a assms(2) this assms(4,5)] show ?thesis using settled_calm [OF _ t(3)] t(2) by simp
qed

text \<open>
  C15. When \<^verbatim>\<open>parcon config set\<close> succeeds, what the person asked for is in force: the settings that were saved last are the old
  ones with the key set to the value, and unless a listing since the command began showed that no controller VM runs, the
  controller VM's configuration file is the one these settings render to, and a controller that loads it gets exactly
  that configuration. Host and VM are assumed to parse URLs and YAML alike, as they run the same program.
\<close>

theorem set_settings_in_force:
  assumes "Commands.SetConfig E ins key val w = (Inr (), w')" and "\<not> inDryRun ins"
    and "he_host E = ve_host V" and "he_readConfig E = ve_yaml V"
  shows "\<exists>s s' l. fst (loadSettings E ins w) = Inr s \<and> SetKey (he_host E) (he_fraction E) s key val l = (None, s')
    \<and> settled V E ins s' (hTrace w) (hTrace w')"
proof -
  obtain s w1 where s: "loadSettings E ins w = (Inr s, w1)"
    and found: "(case Lookup (he_fraction E) key of Inl e \<Rightarrow> fail e
      | Inr k \<Rightarrow> andthen (node_limits E ins) (\<lambda>l. case SetKey (he_host E) (he_fraction E) s key val l of
        (Some e, s') \<Rightarrow> fail (key_failure e)
      | (None, s') \<Rightarrow> if fst (kGet k s') = fst (kGet k s) then fail ErrUnchanged
          else next_act (ignoring (node_limits E ins)) (locked E ins (config_apply E ins s')))) w1 = (Inr (), w')"
    using assms(1) unfolding Commands.SetConfig_def andthen_Inr by blast
  obtain k :: key where rest: "andthen (node_limits E ins) (\<lambda>l. case SetKey (he_host E) (he_fraction E) s key val l of
        (Some e, s') \<Rightarrow> fail (key_failure e)
      | (None, s') \<Rightarrow> if fst (kGet k s') = fst (kGet k s) then fail ErrUnchanged
          else next_act (ignoring (node_limits E ins)) (locked E ins (config_apply E ins s'))) w1 = (Inr (), w')"
    using found by (cases "Lookup (he_fraction E) key") (auto simp: fail_def)
  obtain l w2 where l: "node_limits E ins w1 = (Inr l, w2)"
    and stored: "(case SetKey (he_host E) (he_fraction E) s key val l of
        (Some e, s') \<Rightarrow> fail (key_failure e)
      | (None, s') \<Rightarrow> if fst (kGet k s') = fst (kGet k s) then fail ErrUnchanged
          else next_act (ignoring (node_limits E ins)) (locked E ins (config_apply E ins s'))) w2 = (Inr (), w')"
    using rest unfolding andthen_Inr by blast
  obtain e s' where k: "SetKey (he_host E) (he_fraction E) s key val l = (e, s')" by fastforce
  have none: "e = None" using stored k by (cases e) (simp_all add: fail_def)
  have "next_act (ignoring (node_limits E ins)) (locked E ins (config_apply E ins s')) w2 = (Inr (), w')"
    using stored k none by (simp add: fail_def split: if_splits)
  then obtain w3 where i: "ignoring (node_limits E ins) w2 = (Inr (), w3)"
    and a: "locked E ins (config_apply E ins s') w3 = (Inr (), w')"
    unfolding next_Inr by auto
  have "emits is_read (loadSettings E ins)" "emits is_read (node_limits E ins)" "emits is_read (ignoring (node_limits E ins))"
    by (intro emits_rules reading)+
  then obtain us vs ws where "hTrace w1 = us @ hTrace w" "hTrace w2 = vs @ hTrace w1" "hTrace w3 = ws @ hTrace w2"
    using s l i by (metis emitsE snd_conv)
  then have "suffix (hTrace w) (hTrace w3)" by (auto simp: suffix_def)
  from locked_settles [OF a assms(2) this assms(3,4)] k none s show ?thesis by (metis fst_conv)
qed

text \<open>A node that has saved settings and no controller VM; the person sets the number of runners to three.\<close>

definition example_settled :: henv where
  "example_settled = (example_henv [])\<lparr>he_readSettings := (\<lambda>_. YamlDoc Default False)\<rparr>"

definition three_runners :: Settings.settings where
  "three_runners = Default\<lparr>stScaleSet := (stScaleSet Default)\<lparr>sMaxRunners := 3\<rparr>\<rparr>"

lemma three_runners_valid: "valid_settings sh three_runners"
  using Default_valid [of sh]
  by (simp add: valid_settings_def valid_set_def three_runners_def Default_def valid_range_def install_defaults default_defs ReservedVMIDs_def Size_def wrap64_def)

lemma three_runners_set: "SetKey sh frac Default ''runners.max'' ''3'' l = (None, three_runners)"
proof -
  obtain k where k: "Lookup frac ''runners.max'' = Inr k" "kSet k = runnersMax_Set"
    by (simp add: Lookup_def Keys_def)
  have "Atoi (TrimSpace ''3'') = Some 3" by (simp add: go_eval)
  moreover have "max 1 (sMinRunners (stScaleSet Default)) \<le> 3 \<and> 3 \<le> workerIDs Default"
    by (simp add: Default_def install_defaults default_defs ReservedVMIDs_def workerIDs_def Size_def wrap64_def)
  ultimately have "runnersMax_Set Default ''3'' l = Inr three_runners"
    by (auto simp: runnersMax_Set_def three_runners_def Let_def)
  then show ?thesis using three_runners_valid [of sh] by (simp add: SetKey_def k store_key_def Validate_valid)
qed

lemma lockedI:
  assumes "Lock E ins w = (Inr (), w1)" and "m w1 = (Inr x, w2)" and "unlock E ins w2 = (Inr (), w')"
  shows "locked E ins m w = (Inr x, w')"
  using assms by (simp add: locked_def finally_do_def next_act_def andthen_def attempt_def ret_def)

lemma example_set: "\<exists>w'. Commands.SetConfig example_settled (example_installer False) ''runners.max'' ''3'' example_host = (Inr (), w')"
proof -
  let ?E = example_settled and ?ins = "example_installer False"
  have v: "settings_Parse (he_host ?E) (he_readSettings ?E) d = Inr Default" for d
    using Default_valid [of Some]
    by (simp add: settings_Parse_def example_settled_def example_henv_def Validate_valid) (simp add: Default_def)
  have "he_text ?E es = Inr []" for es by (simp add: example_settled_def example_henv_def)
  then obtain w1 where l: "loadSettings ?E ?ins example_host = (Inr Default, w1)"
    by (simp add: loadSettings_def settings_Load_def ReadFile_def asks_def event_def mapping_error_def andthen_def attempt_def
        ret_def v)
  have n: "\<exists>l w2. node_limits ?E ?ins w = (Inr l, w2)" for w
    by (simp add: node_limits_def or_else_def andthen_def attempt_def ret_def split_beta)
  obtain k where k: "Lookup (he_fraction ?E) ''runners.max'' = Inr k" "kGet k = runnersMax_Get"
    by (simp add: Lookup_def Keys_def)
  have changed: "fst (kGet k three_runners) \<noteq> fst (kGet k Default)"
    by (simp add: k runnersMax_Get_def three_runners_def Default_def install_defaults default_defs Itoa_inj)
  obtain l w2 where l2: "node_limits ?E ?ins w1 = (Inr l, w2)" using n by blast
  obtain w3 where w3: "ignoring (node_limits ?E ?ins) w2 = (Inr (), w3)"
    using n [of w2] by (auto simp: ignoring_def andthen_def attempt_def ret_def)
  have env: "he_error ?E = (\<lambda>_. None)" "he_writeSettings ?E s = Inr ''settings''" "he_resources ?E = (\<lambda>_. Inr [])"
      "he_texts ?E = (\<lambda>_. Inr [''pve''])" for s
    by (simp_all add: example_settled_def example_henv_def)
  have "\<exists>w'. systemVM ?E Controller w = (Inr None, w')" for w
    by (simp add: systemVM_def vms_def nodeName_def NodeName_def VMs_def pve_json_def reads_def asks_def event_def andthen_def
        ret_def env tagged_def vmsOnNode_def)
  moreover have "\<exists>w'. saveSettings ?E ?ins three_runners w = (Inr (), w')" for w
    by (simp add: saveSettings_def Changer_WriteFile_def Log_def next_act_def andthen_def attempt_def ret_def event_def
        finished_def env example_installer_def)
  ultimately have "\<exists>w'. config_apply ?E ?ins three_runners w = (Inr (), w')" for w
    unfolding config_apply_def andthen_def by (metis (no_types, lifting) option.case(1) prod.case sum.case(2))
  then obtain w4 where "config_apply ?E ?ins three_runners (emit ?E HLock w3) = (Inr (), w4)" by blast
  then have "locked ?E ?ins (config_apply ?E ?ins three_runners) w3 = (Inr (), emit ?E HUnlock w4)"
    by (intro lockedI) (simp_all add: Lock_def unlock_def example_installer_def event_def finished_def env)
  then have "next_act (ignoring (node_limits ?E ?ins)) (locked ?E ?ins (config_apply ?E ?ins three_runners)) w2
      = (Inr (), emit ?E HUnlock w4)"
    using w3 by (simp add: next_act_def andthen_def)
  then show ?thesis
    unfolding Commands.SetConfig_def andthen_def by (simp add: l l2 k changed [unfolded k] three_runners_set)
qed

theorem set_settings_in_force_witness:
  "\<exists>w'. Commands.SetConfig example_settled (example_installer False) ''runners.max'' ''3'' example_host = (Inr (), w')
    \<and> (\<exists>s'. saved_last example_settled (example_installer False) s' (hTrace w'))"
proof -
  obtain w' where w': "Commands.SetConfig example_settled (example_installer False) ''runners.max'' ''3'' example_host = (Inr (), w')"
    using example_set by blast
  have "\<not> inDryRun (example_installer False)" "he_host example_settled = ve_host example_vm"
      "he_readConfig example_settled = ve_yaml example_vm"
    by (simp_all add: example_installer_def example_settled_def example_henv_def example_vm_def)
  from set_settings_in_force [OF w' this] w' show ?thesis by (auto simp: settled_def)
qed

end
