(* ===== verification/Spec2Isabelle.thy ===== *)
theory Spec2Isabelle
  imports Prelude Strconv Errors Proxmox Access Vmtags Url Config Units Naming Scaleset World Worker_Ops
    Worker_Facts Reconcile Reconcile_Facts Github Machine Machine_Facts Release Release_Assets Netip Settings
    Settings_Facts Pvecli Host Host_Facts Hostsys Installer Tuning Preflight Steps Provision Commands
    Commands_Facts Commands_Safety Commands_VMs Commands_Order Commands_Config Status_Report Status_Facts
    Pve_Client Pve_Client_Facts Pve_TLS Github_Rest Terminal Describe Flags Cli Cli_Facts Vm_Commands Vm_Github Vm_Facts
    Session Session_Facts Run_Loop Release_Keys Program Deployment Atomic_Files Settings_File Redaction
    Config_In_Force
begin

text \<open>
  A verification library for proxmox-actions-runners, the program \<^verbatim>\<open>parcon\<close> that runs GitHub Actions runners in
  virtual machines of one Proxmox node. Paths below are under \<^verbatim>\<open>src/\<close>.

  \<^bold>\<open>The program.\<close> \<^verbatim>\<open>parcon run\<close> in the controller VM is the controller (\<^verbatim>\<open>internal/controller\<close>): a loop of
  reconcile passes that lists the node's VMs, compares them with what GitHub wants, and starts operations that
  clone, boot, register and destroy worker VMs; a listener for each scale set (\<^verbatim>\<open>internal/github\<close>) tells it the
  wanted number and the jobs. It reaches Proxmox through \<^verbatim>\<open>internal/proxmox\<close>, and writes a status file that
  \<^verbatim>\<open>parcon status\<close> shows. The same program checks its configuration and makes the GitHub App in the VM
  (\<^verbatim>\<open>parcon check\<close>, \<^verbatim>\<open>parcon github\<close>). On the node, \<^verbatim>\<open>parcon install\<close>,
  \<^verbatim>\<open>update\<close>, \<^verbatim>\<open>config\<close>, \<^verbatim>\<open>uninstall\<close>, \<^verbatim>\<open>check\<close> and \<^verbatim>\<open>status\<close> (\<^verbatim>\<open>internal/installer\<close>) change the host through its
  commands (\<^verbatim>\<open>internal/pvecli\<close>, \<^verbatim>\<open>internal/hostsys\<close>), fetch signed releases (\<^verbatim>\<open>internal/release\<close>), keep the
  person's settings (\<^verbatim>\<open>internal/settings\<close>) and render the controller's configuration (\<^verbatim>\<open>internal/config\<close>) from them;
  they reach the controller VM by commands run in it. \<^verbatim>\<open>cmd/parcon\<close> reads the command line and calls all of this.

  \<^bold>\<open>Theories and the code they model.\<close>
  \<^item> \<open>Prelude\<close>, \<open>Strconv\<close>, \<open>Url\<close>, \<open>Netip\<close>, \<open>Errors\<close>: the parts of Go the program rests on: 64-bit integers with their
    wrap-around, times, strings as bytes, \<^verbatim>\<open>strconv\<close>, \<^verbatim>\<open>net/url\<close>, \<^verbatim>\<open>net/netip\<close>, and error values with \<^verbatim>\<open>errors.Is\<close> and
    \<^verbatim>\<open>errors.As\<close>. \<open>Prelude\<close> holds the collections \<open>go_eval\<close> and \<open>go_string\<close> and the locale \<open>transition_system\<close>;
    \<open>Strconv\<close> the locale \<open>codec\<close> that every format with a round trip interprets.
  \<^item> \<open>Proxmox\<close>, \<open>Access\<close>, \<open>Pve_Client\<close>, \<open>Pve_Client_Facts\<close>, \<open>Pve_TLS\<close>: \<^verbatim>\<open>internal/proxmox\<close>, with the certificate decision
    of \<^verbatim>\<open>internal/hostsys/tls.go\<close>. \<open>Vmtags\<close>: \<^verbatim>\<open>internal/vmtags\<close>.
  \<^item> \<open>Config\<close>, \<open>Units\<close>: \<^verbatim>\<open>internal/config\<close>. \<open>Settings\<close>, \<open>Settings_Facts\<close>, \<open>Describe\<close>
    (the help on keys), \<open>Settings_File\<close> (load and save): \<^verbatim>\<open>internal/settings\<close>.
  \<^item> \<open>Naming\<close>, \<open>Scaleset\<close>, \<open>World\<close>, \<open>Worker_Ops\<close>, \<open>Worker_Facts\<close>, \<open>Reconcile\<close>, \<open>Reconcile_Facts\<close>, \<open>Machine\<close>,
    \<open>Machine_Facts\<close>, \<open>Run_Loop\<close> (\<^verbatim>\<open>Run\<close> of \<^verbatim>\<open>controller.go\<close> around the passes), \<open>Atomic_Files\<close> (\<^verbatim>\<open>status.go\<close>):
    \<^verbatim>\<open>internal/controller\<close>.
  \<^item> \<open>Github\<close>, \<open>Github_Rest\<close> (REST calls), \<open>Session\<close>, \<open>Session_Facts\<close> (\<^verbatim>\<open>listen.go\<close>: the message session, its callbacks
    and back-off): \<^verbatim>\<open>internal/github\<close>. \<open>Redaction\<close>: how its JIT configurations, and the commands of \<^verbatim>\<open>pvecli/exec.go\<close> and
    \<^verbatim>\<open>installer/guest.go\<close> that carry secrets, print.
  \<^item> \<open>Release\<close>, \<open>Release_Assets\<close>, \<open>Release_Keys\<close> (the keys embedded in the program): \<^verbatim>\<open>internal/release\<close>.
  \<^item> \<open>Pvecli\<close>, \<open>Host\<close>, \<open>Host_Facts\<close>, \<open>Hostsys\<close>: \<^verbatim>\<open>internal/pvecli\<close> and \<^verbatim>\<open>internal/hostsys\<close>, as operations on a host.
  \<^item> \<open>Installer\<close>, \<open>Tuning\<close>, \<open>Preflight\<close>, \<open>Steps\<close>, \<open>Provision\<close>, \<open>Commands\<close>, \<open>Status_Report\<close>: \<^verbatim>\<open>internal/installer\<close>, file by
    file; \<open>Commands_Facts\<close>, \<open>Commands_Safety\<close>, \<open>Commands_VMs\<close>, \<open>Commands_Order\<close>, \<open>Commands_Config\<close> and
    \<open>Status_Facts\<close> what the commands guarantee.
  \<^item> \<open>Terminal\<close> (\<^verbatim>\<open>internal/term\<close>), \<open>Flags\<close> (Go's \<^verbatim>\<open>flag\<close> package as used), \<open>Cli\<close>, \<open>Cli_Facts\<close> (the host's commands), \<open>Vm_Commands\<close>,
    \<open>Vm_Github\<close>, \<open>Vm_Facts\<close> (the controller VM's commands): \<^verbatim>\<open>cmd/parcon\<close>.
  \<^item> \<open>Program\<close>, \<open>Config_In_Force\<close>, \<open>Deployment\<close>: the parts together: one dispatch of command lines for host and VM, what the host's
    commands leave in the VM's files, and the controller that runs on them.

  \<^bold>\<open>State and effects.\<close> Three kinds of component are modelled in three ways.
  \<^item> Pure code (formats, validation, decisions) is a function with an option or sum for its errors.
  \<^item> The controller's operations pass a \<open>controller\<close> and a \<open>world\<close>: a world records the calls made so far, newest
    first, and the answers are functions of that record (\<open>env\<close>), so a statement for every \<open>env\<close> holds for
    every behaviour of Proxmox, GitHub and the clock, timeouts and cancellation included. \<open>Machine\<close> puts them
    together as a step relation: passes, the start and the end of operations and the listener's callbacks
    interleave in any order; an operation's body is one step, as the guards of \<^verbatim>\<open>startOp\<close> let no other operation
    touch its VM while it runs.
  \<^item> The host commands are actions on a \<open>host\<close> that record events (commands, files, questions, commands inside
    VMs), with the answers again functions of the history (\<open>henv\<close>). \<open>emits\<close> says which events an action can add,
    \<open>does\<close> that every event was allowed by the history before it; each has one rule for each way of composing.
  \<^item> The Proxmox client's operations record the requests sent (answered by a \<open>wire\<close>), in the same manner, and so do the REST calls to
    GitHub (answered by a \<open>rest_env\<close>).
  \<^item> A command line on the host runs in a \<open>cli_env\<close>: the host's \<open>henv\<close>, the key directory (\<open>key_dir\<close>) with its codec and what is
    typed; its result is the exit status, the lines on standard output and the host after it. One in the controller VM runs in a \<open>vm_env\<close> on
    a \<open>vm_world\<close> of files and requests. \<open>parcon\<close> dispatches both. \<open>vm_files\<close> reads a VM's files off the host's events, and
    \<open>runs_parcon\<close> says that what the host hears from commands in the VM is what \<open>parcon\<close> answers there on these files.
  \<^item> A session is a script of what \<^verbatim>\<open>actions/scaleset\<close> delivers; \<open>client_Listen\<close> runs a \<open>handler\<close> on it and keeps
    what it did (\<open>listening\<close>). \<open>run_state\<close> is the loop of \<^verbatim>\<open>Run\<close>: its phase, the controller's machine and the listeners.
  \<^item> Files that must be replaced whole are written by steps of single file operations (\<open>atomic_ops\<close>), each of which can
    fail, and what a reader can find between any two of them is stated.

  \<^bold>\<open>Interfaces.\<close> \<open>transition_system\<close> (invariants of reachable states) is interpreted on the controller's machine,
  \<open>codec\<close> on the formats, \<open>key_compare\<close> on versions, \<open>setting_key\<close> on the keys that hold a number, \<open>recording_handler\<close> (a listener's callbacks) on the controller's scale set state, and \<open>atomic_writer\<close> (a
  file is replaced whole or not at all) on the host's file writer and the status writer.

  \<^bold>\<open>What the lemmas show.\<close> For the controller: no call ever touches a VM that is not its own, no VMID has two
  operations, no more workers are created than configured, busy runners survive, failures clean up, waits end
  (this theory, \<open>Machine_Facts\<close>, \<open>Worker_Facts\<close>, \<open>Reconcile_Facts\<close>); the run loop refines the machine and stops without starting
  anything, sessions are closed before the next is opened, and the status file is never torn (\<open>Run_Loop\<close>, \<open>Session_Facts\<close>,
  \<open>Atomic_Files\<close>). For the host commands: dry runs change
  nothing, changes need consent and the lock, only parcon's VMs are destroyed, the finished mark and the settings
  come last, status gives no false all-clear; command lines give the settings they state and exit as documented, and a dry run's flag
  is honoured wherever it stands (\<open>Cli_Facts\<close>). For the VM's commands: the check of Proxmox passes exactly when everything the
  controller needs is there, and an App's key is kept or nothing is changed (\<open>Vm_Facts\<close>). For the composition: a pushed
  configuration takes effect, a successful \<^verbatim>\<open>config set\<close> leaves file and VM in agreement, and the controller keeps to the
  settings. For the formats and validators: they accept exactly what their
  specification says, and what is written reads back. For the transports: secrets stay out of errors, names stay
  path segments, tasks succeed only when Proxmox says so, releases are verified with an embedded key before they are used.

  \<^bold>\<open>Bounds and fuel.\<close> Loops that the code bounds by data recurse on it or on a measure. \<open>poll\<close> has fuel, for
  Proxmox may never finish a task: \<open>poll_enough\<close> gives the result for every fuel above the number of looks.
  \<open>waitForAgent\<close> and \<open>poll_until\<close> recurse on the time left before their deadline; each look takes at least one unit
  of time. \<open>free_above\<close> and \<open>alloc_from\<close> look at one VMID more than there are taken ones, so they find a free one.

  \<^bold>\<open>Parameters.\<close> Code outside the repository and the network are parameters: answers of the interfaces above,
  HTTP transport and TLS chains, JSON and YAML decoding into the program's types and encoding from them, PEM, X.509 and PKIX, hash and
  signature functions, \<^verbatim>\<open>actions/scaleset\<close> (its client's answers, and a session as a script of messages), floating-point fractions of
  sizes, IPv6 hosts in URLs, map iteration order (\<open>orders\<close>, for every order), random file names, the system clock. In
  \<open>runs_parcon\<close> the shell and the file commands that the host runs in the VM do what their manuals say, where the program uses them.

  \<^bold>\<open>Not modelled.\<close> Progress lines (\<^verbatim>\<open>term/out.go\<close> and its callers), log lines of the controller, what goes to standard error beyond
  \<^verbatim>\<open>parcon\<close>'s own error line, the help texts of the \<^verbatim>\<open>flag\<close> package, and the exact texts of most errors, of which only the
  fixed words are kept. Signals other than as the end of a context. \<^verbatim>\<open>strings.ToLower\<close> and \<^verbatim>\<open>TrimSpace\<close> beyond
  ASCII; temporary directories; how \<^verbatim>\<open>VMConfig\<close> prints numbers that Proxmox sent as JSON numbers; the parts of a
  status report run one after the other, where the code runs them at the same time. The installer is made only when the embedded
  keys load, and fetching a release is modelled with those keys given to it, rather than stored in the installer between.
  Generated files, tests, fakes (\<^verbatim>\<open>pvecli/fake.go\<close>, \<^verbatim>\<open>term/fake.go\<close>), image builds and shell scripts are left out.
\<close>

section \<open>The running controller\<close>


text \<open>
  C2. In every reachable state, a VMID has at most one operation in flight, the busy map names exactly
  the operations that wait or run, and no more operations run than there are parallelism slots.
\<close>

theorem one_operation_per_vmid:
  assumes "minit opts m0" and "(mstep E)\<^sup>*\<^sup>* m0 m"
  shows "distinct (map op_vmid (cOps (mC m) @ mRunning m))
    \<and> set (cBusy (mC m)) = (\<lambda>p. (op_vmid p, op_name p)) ` set (cOps (mC m) @ mRunning m)
    \<and> int (length (mRunning m)) \<le> slots opts"
proof -
  have "minv E (oConfig opts) (slots opts) m" using machine.reachable_invariant [OF assms(2,1)] .
  then have d: "distinct (map fst (cBusy (mC m)))"
    and b: "mset (cBusy (mC m)) = mset (map op_entry (cOps (mC m) @ mRunning m))"
    and l: "int (length (mRunning m)) \<le> slots opts"
    by (simp_all add: minv_def cinv_def booked_def)
  have "mset (map fst (cBusy (mC m))) = mset (map op_vmid (cOps (mC m) @ mRunning m))"
    using b by (simp add: op_entry_def image_mset.compositionality comp_def)
  then have "distinct (map op_vmid (cOps (mC m) @ mRunning m))" using d by (metis mset_eq_imp_distinct_iff)
  moreover have "set (cBusy (mC m)) = op_entry ` set (cOps (mC m) @ mRunning m)"
    using b by (metis mset_eq_setD set_map)
  ultimately show ?thesis using l by (simp add: op_entry_def)
qed

text \<open>
  In every reachable state, the creations in flight for a configured scale set never exceed its
  \<^verbatim>\<open>maxRunners\<close>, and neither does the number of workers it aims for.
\<close>

theorem creations_bounded:
  assumes "minit opts m0" and "(mstep E)\<^sup>*\<^sup>* m0 m" and "cScaleSets (mC m) n = Some s"
  shows "creatingFor (mC m) n \<le> max 0 (MaxRunners (sCfg s)) \<and> sDesired s \<le> max 0 (MaxRunners (sCfg s))"
  using machine.reachable_invariant [OF assms(2,1)] assms(3)
  by (auto simp: minv_def cinv_def scale_sets_ok_def target_bounded_def)

definition example_options :: options where
  "example_options =
     \<lparr>oConfig = example_config 2, oResyncInterval = 0, oBootTimeout = 0, oRunnerCheckAfter = 0,
      oRunnerCheckEvery = 0, oParallelism = 0, oRetryBackoff = 0\<rparr>"

definition example_start :: machine where
  "example_start =
     \<lparr>mC = with_ids (\<lambda>_. 3) (New example_options), mW = \<lparr>trace = [], clock = example_time\<rparr>,
      mRunning = [], mFresh = []\<rparr>"

definition example_pass :: "error option \<times> (vm \<times> time) option \<times> controller \<times> world" where
  "example_pass = reconcile (example_env all_ok) example_orders ((mC example_start)\<lparr>cWake := False\<rparr>, mW example_start)"

definition example_after :: machine where
  "example_after =
     example_start\<lparr>mC := fst (snd (snd example_pass)), mW := snd (snd (snd example_pass)),
       mFresh := (case fst (snd example_pass) of None \<Rightarrow> mFresh example_start | Some f \<Rightarrow> f # mFresh example_start)\<rparr>"

lemma example_init: "minit example_options example_start"
  by (auto simp: minit_def example_start_def)

lemma example_reached: "(mstep (example_env all_ok))\<^sup>*\<^sup>* example_start example_after"
proof (rule r_into_rtranclp)
  have "reconcile (example_env all_ok) example_orders ((mC example_start)\<lparr>cWake := False\<rparr>, mW example_start) =
      (fst example_pass, fst (snd example_pass), fst (snd (snd example_pass)), snd (snd (snd example_pass)))"
    by (simp add: example_pass_def)
  then show "mstep (example_env all_ok) example_start example_after"
    unfolding example_after_def by (rule mstep.pass [OF example_orders_sort])
qed

lemma example_view_empty: "observe cfg [] = \<lparr>vTemplate = None, vWorkers = (\<lambda>_. []), vStrays = [], vUsed = {}\<rparr>"
  by (simp add: observe_def NewestTemplate_def)

lemma example_after_trace: "trace (mW example_after) = [] @ ListVMs # []"
  by (simp add: example_after_def example_pass_def reconcile_def pve_ListVMs_def example_env_def Let_def
      example_view_empty check_workers_def example_orders_def example_start_def split: prod.splits)


theorem one_operation_per_vmid_witness:
  "int (length (mRunning example_after)) \<le> slots example_options"
  using one_operation_per_vmid [OF example_init example_reached] by blast

theorem creations_bounded_witness:
  "creatingFor (mC example_start) ''par'' \<le> 2"
proof -
  let ?s = "(newScaleSetState (example_scale_set 2))\<lparr>sId := 3\<rparr>"
  have "cScaleSets (mC example_start) ''par'' = Some ?s"
    by (simp add: example_start_def with_ids_def New_def example_options_def example_config_def example_scale_set_def)
  from creations_bounded [OF example_init rtranclp.rtrancl_refl this]
  show ?thesis by (simp add: newScaleSetState_def example_scale_set_def)
qed

section \<open>Properties across components\<close>

text \<open>
  C29. The runner of a worker GitHub says is in a job survives a retirement that is not forced: when the
  scale set client's removal reports a running job, the retirement touches no VM and the worker counts
  as busy in its scale set from then on, so that scaling down picks another one.
\<close>

theorem busy_runner_survives:
  assumes "name \<noteq> []" and "registered_runner E (RunnerByName name # trace w) = Inr (Some rid)"
    and "outcome E (RemoveRunner rid # RunnerByName name # trace w) = client_RemoveRunner (Some e)"
    and "errors_Is e JobStillRunningError" and "\<not> errors_Is e RunnerNotFoundError"
    and "cScaleSets c n = Some s"
  shows "case run_retire E (Some n) x name False (c, w) of
      (r, c', w') \<Rightarrow> r = Some errRunnerBusy \<and> trace w' = RemoveRunner rid # RunnerByName name # trace w
        \<and> (\<exists>s'. cScaleSets c' n = Some s' \<and> hasJob name s')"
proof -
  have "client_RemoveRunner (Some e) = Some (Wrapped ''remove runner'' [ErrJobStillRunning, e])"
    using assms(4,5) by (simp add: client_RemoveRunner_def)
  then have "removeRunner E name w =
      (Some errRunnerBusy, calls E (RemoveRunner rid) (calls E (RunnerByName name) w))"
    using assms(2,3) by (simp add: removeRunner_def gh_RunnerByName_def do_call_def)
  then show ?thesis
    using assms(1,6) by (simp add: run_retire_def retire_def on_scale_set_def hasJob_def markRunning_def)
qed

definition busy_env :: env where
  "busy_env = (example_env all_ok)\<lparr>outcome := (\<lambda>tr. case tr of
     RemoveRunner r # _ \<Rightarrow> client_RemoveRunner (Some JobStillRunningError) | _ \<Rightarrow> None)\<rparr>"

theorem busy_runner_survives_witness:
  "case run_retire busy_env (Some ''par'') (example_template 10001 ''1'') ''par-10001-a'' False
      (example_controller, example_world) of
    (r, c', w') \<Rightarrow> r = Some errRunnerBusy \<and> trace w' = [RemoveRunner 7, RunnerByName ''par-10001-a'']
      \<and> (\<exists>s'. cScaleSets c' ''par'' = Some s' \<and> hasJob ''par-10001-a'' s')"
  using busy_runner_survives [of "''par-10001-a''" busy_env example_world 7 JobStillRunningError
      example_controller "''par''" example_state "example_template 10001 ''1''"]
  by (simp add: busy_env_def example_env_def example_controller_def example_world_def)



text \<open>
  C32. A worker survives a restart of the controller: when Proxmox lists a VM of the pool and worker
  range whose tag string holds the tags a finished creation wrote, a pass sees it as a ready worker of
  its scale set under the runner name it was registered with.
\<close>

theorem created_worker_is_adopted:
  assumes "ScaleSetNamePattern (ssName ss)" and "creation_time t"
    and "r \<in> set resources" and "rType r = ''qemu''" and "rNode r = node"
    and "rPool r = pxPool (cfgProxmox cfg)" and "\<not> rTemplate r" and "worker_vmid cfg (rVMID r)"
    and "ready_settings ss t tpl = [(''tags'', tags)]" and "set (ParseTags (rTags r)) = set (ParseTags tags)"
  shows "\<lparr>wVM = vm_of_resource r, wName = workerName (rVMID r) t, wScaleSet = ssName ss, wCreated = t, wReady = True\<rparr>
    \<in> set (vWorkers (observe cfg (vmsOnNode resources node)) (ssName ss))"
proof -
  let ?v = "vm_of_resource r"
  have tags: "tags = FormatTags (workerTags (ssName ss) t tpl True)"
    using assms(9) by (simp add: ready_settings_def)
  have set: "set (Tags ?v) = set (workerTags (ssName ss) t tpl True)"
    using assms(10) ParseTags_FormatTags [OF workerTags_clean [OF assms(1)], of t tpl True] tags
    by (simp add: vm_of_resource_def)
  have "ssName ss \<noteq> []" using assms(1) by (auto simp: ScaleSetNamePattern_def)
  from parseWorker_workerTags [OF set this assms(2)]
  have "parseWorker ?v = Inr \<lparr>wVM = ?v, wName = workerName (rVMID r) t, wScaleSet = ssName ss,
      wCreated = t, wReady = True\<rparr>" by (simp add: vm_of_resource_def)
  moreover have "eligible cfg ?v \<and> HasTag ?v Worker"
    using assms(6-8) set by (simp add: eligible_def managed_clone_def worker_vmid_def workerTags_def
        vm_of_resource_def)
  ultimately have "worker_of cfg ?v = Some \<lparr>wVM = ?v, wName = workerName (rVMID r) t, wScaleSet = ssName ss,
      wCreated = t, wReady = True\<rparr>" by (simp add: worker_of_Some)
  moreover have "?v \<in> set (vmsOnNode resources node)" using assms(3-5) by (auto simp: set_vmsOnNode)
  ultimately show ?thesis by (force simp: observe_fields List.map_filter_def)
qed

theorem created_worker_is_adopted_witness:
  "\<lparr>wVM = vm_of_resource example_worker_resource, wName = workerName 10001 example_time, wScaleSet = ''par'',
      wCreated = example_time, wReady = True\<rparr>
    \<in> set (vWorkers (observe (example_config 2) (vmsOnNode [example_worker_resource] ''pve'')) ''par'')"
proof -
  let ?tags = "workerTags ''par'' example_time 10097 True"
  have clean: "list_all clean_tag ?tags" "list_all clean_tag (rev ?tags)"
    using workerTags_clean [OF example_name] by (simp_all add: list_all_iff)
  have name: "ssName (example_scale_set 2) = ''par''" by (simp add: example_scale_set_def)
  have tags: "set (ParseTags (rTags example_worker_resource)) = set (ParseTags (FormatTags ?tags))"
    by (simp add: example_worker_resource_def ParseTags_FormatTags clean)
  have "worker_vmid (example_config 2) 10001"
    by (simp add: worker_vmid_def Contains_def Workers_def example_parts ReservedVMIDs_def in_int64_def)
  then show ?thesis
    using created_worker_is_adopted [of "example_scale_set 2" example_time example_worker_resource
        "[example_worker_resource]" "''pve''" "example_config 2" 10097 "FormatTags ?tags"]
      tags example_name example_time_ok
    by (simp add: name ready_settings_def example_worker_resource_def example_config_def)
qed

text \<open>
  Registering the scale sets ends as soon as GitHub answers: if every attempt from some number on
  succeeds, the retry loops return, whatever happened before.
\<close>

theorem registration_returns:
  assumes "\<And>tr. N \<le> attempts tr \<Longrightarrow> \<exists>i. scale_set_id E tr = Inr i"
  shows "\<exists>ok c' w'. registerScaleSets E ord (c, w) = Some (ok, c', w')"
  using register_all_returns [OF assms] unfolding registerScaleSets_def by (metis prod_cases3)

theorem registration_returns_witness:
  "\<exists>ok c' w'. registerScaleSets (example_env all_ok) example_orders (example_controller, example_world) = Some (ok, c', w')"
  by (rule registration_returns [of 0]) (simp add: example_env_def)

end
